(* ===== verification/Prelude.thy ===== *)
theory Prelude
  imports Main "HOL-Library.Word"
begin

text \<open>
  Shared vocabulary of the development: the hint collections, the error-sum combinators that
  both the Solidity model and the JavaScript model use for code that can fail, and generic
  lemmas on lists, words and big-endian numbers.
\<close>

named_theorems js_simps \<open>unfolding rules of the script runtime\<close>

section \<open>Errors as sums\<close>

text \<open>\<open>Inl\<close> is the revert reason or the message of the thrown error, \<open>Inr\<close> the result.\<close>

type_synonym 'a fallible = "string + 'a"

definition ebind :: "'e + 'a \<Rightarrow> ('a \<Rightarrow> 'e + 'b) \<Rightarrow> 'e + 'b" where
  "ebind m k = (case m of Inl e \<Rightarrow> Inl e | Inr x \<Rightarrow> k x)"

definition require :: "bool \<Rightarrow> string \<Rightarrow> unit fallible" where
  "require b msg = (if b then Inr () else Inl msg)"

lemma ebind_simps [simp]:
  "ebind (Inl e) k = Inl e"
  "ebind (Inr x) k = k x"
  by (simp_all add: ebind_def)

lemma ebind_Inr_iff: "ebind m k = Inr y \<longleftrightarrow> (\<exists>x. m = Inr x \<and> k x = Inr y)"
  by (cases m) simp_all

lemma ebind_Inl_iff: "ebind m k = Inl e \<longleftrightarrow> m = Inl e \<or> (\<exists>x. m = Inr x \<and> k x = Inl e)"
  by (cases m) simp_all

lemma ebind_assoc: "ebind (ebind m f) g = ebind m (\<lambda>x. ebind (f x) g)"
  by (cases m) simp_all

lemma require_simps [simp]:
  "require True msg = Inr ()"
  "require False msg = Inl msg"
  by (simp_all add: require_def)

lemma require_Inr_iff [simp]: "require b msg = Inr u \<longleftrightarrow> b"
  by (simp add: require_def)

lemma require_Inl_iff [simp]: "require b msg = Inl e \<longleftrightarrow> \<not> b \<and> e = msg"
  by (auto simp: require_def)

fun map_error :: "('e \<Rightarrow> 'f) \<Rightarrow> 'e + 'a \<Rightarrow> 'f + 'a" where
  "map_error f (Inl e) = Inl (f e)"
| "map_error f (Inr x) = Inr x"

lemma map_error_Inr_iff [simp]: "map_error f m = Inr x \<longleftrightarrow> m = Inr x"
  by (cases m) simp_all

text \<open>A loop over a list whose body may fail stops at the first failure.\<close>

fun efold :: "('s \<Rightarrow> 'a \<Rightarrow> 'e + 's) \<Rightarrow> 's \<Rightarrow> 'a list \<Rightarrow> 'e + 's" where
  "efold f s [] = Inr s"
| "efold f s (x # xs) = ebind (f s x) (\<lambda>s'. efold f s' xs)"

lemma efold_append: "efold f s (xs @ ys) = ebind (efold f s xs) (\<lambda>s'. efold f s' ys)"
  by (induction xs arbitrary: s) (simp_all add: ebind_assoc)

lemma efold_inv:
  assumes "efold f s xs = Inr s'"
    and "P s"
    and "\<And>s x s'. P s \<Longrightarrow> x \<in> set xs \<Longrightarrow> f s x = Inr s' \<Longrightarrow> P s'"
  shows "P s'"
  using assms
proof (induction xs arbitrary: s)
  case Nil
  then show ?case by simp
next
  case (Cons x xs)
  from Cons.prems(1) obtain t where t: "f s x = Inr t" "efold f t xs = Inr s'"
    by (auto simp: ebind_Inr_iff)
  show ?case
    by (rule Cons.IH [OF t(2)]) (use Cons.prems t in auto)
qed

section \<open>Lists\<close>

lemma dropWhile_replicate_append:
  "dropWhile (\<lambda>x. x = a) (replicate n a @ xs) = dropWhile (\<lambda>x. x = a) xs"
  by (induction n) simp_all

lemma dropWhile_split:
  "\<exists>k. xs = replicate k a @ dropWhile (\<lambda>x. x = a) xs"
proof (induction xs)
  case Nil
  then show ?case by simp
next
  case (Cons x xs)
  then obtain k where k: "xs = replicate k a @ dropWhile (\<lambda>x. x = a) xs"
    by blast
  show ?case
  proof (cases "x = a")
    case True
    with k have "x # xs = replicate (Suc k) a @ dropWhile (\<lambda>x. x = a) (x # xs)"
      by simp
    then show ?thesis by blast
  next
    case False
    then show ?thesis by (intro exI [of _ 0]) simp
  qed
qed

lemma filter_not_mem [simp]: "x \<notin> set xs \<Longrightarrow> filter (\<lambda>y. y \<noteq> x) xs = xs"
  by (induction xs) auto

section \<open>Big-endian numbers\<close>

type_synonym byte = "8 word"
type_synonym buffer = "byte list"

definition be_nat :: "buffer \<Rightarrow> nat" where
  "be_nat bs = foldl (\<lambda>acc b. 256 * acc + unat b) 0 bs"

lemma be_nat_Nil [simp]: "be_nat [] = 0"
  by (simp add: be_nat_def)

lemma be_nat_snoc [simp]: "be_nat (bs @ [b]) = 256 * be_nat bs + unat b"
  by (simp add: be_nat_def)

lemma byte_unat_less [simp]: "unat (b :: byte) < 256"
  using unsigned_less [of b] by simp

lemma be_nat_bound: "be_nat bs < 256 ^ length bs"
proof (induction bs rule: rev_induct)
  case Nil
  then show ?case by simp
next
  case (snoc b bs)
  then have le: "256 * Suc (be_nat bs) \<le> 256 * 256 ^ length bs"
    by (intro mult_le_mono2) simp
  moreover have "unat b < 256"
    by (rule byte_unat_less)
  then have "256 * be_nat bs + unat b < 256 * Suc (be_nat bs)"
    by simp
  ultimately have "256 * be_nat bs + unat b < 256 * 256 ^ length bs"
    by (rule order.strict_trans2 [rotated])
  then show ?case by (simp add: mult.commute)
qed

lemma be_nat_append: "be_nat (xs @ ys) = be_nat xs * 256 ^ length ys + be_nat ys"
proof (induction ys rule: rev_induct)
  case Nil
  then show ?case by simp
next
  case (snoc y ys)
  have "be_nat (xs @ ys @ [y]) = 256 * be_nat (xs @ ys) + unat y"
    by (metis append_assoc be_nat_snoc)
  then show ?case by (simp add: snoc algebra_simps)
qed

lemma be_nat_Cons: "be_nat (b # bs) = unat b * 256 ^ length bs + be_nat bs"
proof -
  have "be_nat [b] = unat b"
    using be_nat_snoc [of "[]" b] by simp
  then show ?thesis
    using be_nat_append [of "[b]" bs] by simp
qed

lemma be_nat_replicate_zero [simp]: "be_nat (replicate n 0 @ bs) = be_nat bs"
  by (induction n) (simp_all add: be_nat_Cons)

lemma be_nat_inj:
  "length xs = length ys \<Longrightarrow> be_nat xs = be_nat ys \<Longrightarrow> xs = ys"
proof (induction xs arbitrary: ys rule: rev_induct)
  case Nil
  then show ?case by simp
next
  case (snoc x xs)
  from snoc.prems(1) obtain y zs where ys: "ys = zs @ [y]" and len: "length xs = length zs"
    by (cases ys rule: rev_cases) auto
  from snoc.prems(2) have e: "256 * be_nat xs + unat x = 256 * be_nat zs + unat y"
    by (simp add: ys)
  then have "(256 * be_nat xs + unat x) mod 256 = (256 * be_nat zs + unat y) mod 256"
    by simp
  then have "unat x = unat y" by simp
  with e have "be_nat xs = be_nat zs" by simp
  with snoc.IH len have "xs = zs" by blast
  with \<open>unat x = unat y\<close> show ?case by (simp add: ys word_unat_eq_iff)
qed

text \<open>The 32-byte big-endian form of a number.\<close>

fun be_fixed :: "nat \<Rightarrow> nat \<Rightarrow> buffer" where
  "be_fixed 0 n = []"
| "be_fixed (Suc k) n = be_fixed k (n div 256) @ [of_nat (n mod 256)]"

lemma length_be_fixed [simp]: "length (be_fixed k n) = k"
  by (induction k arbitrary: n) simp_all

lemma unat_of_nat_mod_byte [simp]: "unat (of_nat (n mod 256) :: byte) = n mod 256"
  by (simp add: unat_of_nat)

lemma be_nat_be_fixed [simp]: "be_nat (be_fixed k n) = n mod 256 ^ k"
proof (induction k arbitrary: n)
  case 0
  then show ?case by simp
next
  case (Suc k)
  have "be_nat (be_fixed (Suc k) n) = 256 * (n div 256 mod 256 ^ k) + n mod 256"
    by (simp add: Suc)
  also have "\<dots> = n mod (256 * 256 ^ k)"
    by (simp add: mod_mult2_eq)
  finally show ?case by simp
qed

lemma be_fixed_unique: "length bs = k \<Longrightarrow> be_nat bs = n \<Longrightarrow> bs = be_fixed k n"
  using be_nat_bound [of bs] by (intro be_nat_inj) simp_all

end
