(* ===== verification/JsRuntime.thy ===== *)
theory JsRuntime
  imports Prelude
begin

text \<open>
  The part of JavaScript the scripts are written in: an \<open>async\<close> function is an action on the
  world it runs in; it returns, throws an \<open>Error\<close> (identified by its \<open>message\<close>), or ends the
  process with \<open>process.exit\<close>. \<open>try/catch\<close> sees thrown errors and never an exit. The
  string and number operations the scripts use are defined here as well: lower-casing,
  \<open>includes\<close>, hexadecimal, \<open>Buffer\<close> slicing with \<open>undefined\<close> and \<open>NaN\<close>,
  and multiplication of a gas estimate by a double constant.
\<close>

section \<open>Actions\<close>

datatype 'a outcome = Ok 'a | Throw string | Exit nat

type_synonym ('w, 'a) act = "'w \<Rightarrow> 'a outcome \<times> 'w"

definition ret :: "'a \<Rightarrow> ('w, 'a) act" where
  "ret x = (\<lambda>w. (Ok x, w))"

definition throw :: "string \<Rightarrow> ('w, 'a) act" where
  "throw e = (\<lambda>w. (Throw e, w))"

definition process_exit :: "nat \<Rightarrow> ('w, 'a) act" where
  "process_exit n = (\<lambda>w. (Exit n, w))"

definition bind :: "('w, 'a) act \<Rightarrow> ('a \<Rightarrow> ('w, 'b) act) \<Rightarrow> ('w, 'b) act" where
  "bind m k = (\<lambda>w. case m w of
       (Ok x, w') \<Rightarrow> k x w'
     | (Throw e, w') \<Rightarrow> (Throw e, w')
     | (Exit n, w') \<Rightarrow> (Exit n, w'))"

definition catch :: "('w, 'a) act \<Rightarrow> (string \<Rightarrow> ('w, 'a) act) \<Rightarrow> ('w, 'a) act" where
  "catch m h = (\<lambda>w. case m w of
       (Ok x, w') \<Rightarrow> (Ok x, w')
     | (Throw e, w') \<Rightarrow> h e w'
     | (Exit n, w') \<Rightarrow> (Exit n, w'))"

text \<open>\<open>try\<close> turns the outcome into a value for code that continues in either case.\<close>

definition lift_err :: "'a fallible \<Rightarrow> ('w, 'a) act" where
  "lift_err r = (case r of Inl e \<Rightarrow> throw e | Inr x \<Rightarrow> ret x)"

definition whenA :: "bool \<Rightarrow> ('w, unit) act \<Rightarrow> ('w, unit) act" where
  "whenA b m = (if b then m else ret ())"

text \<open>\<open>for (const x of xs)\<close>: for its effects, with the pushed results, with a loop variable.\<close>

fun forEach :: "'x list \<Rightarrow> ('x \<Rightarrow> ('w, unit) act) \<Rightarrow> ('w, unit) act" where
  "forEach [] f = ret ()"
| "forEach (x # xs) f = bind (f x) (\<lambda>_. forEach xs f)"

fun mapA :: "'x list \<Rightarrow> ('x \<Rightarrow> ('w, 'b) act) \<Rightarrow> ('w, 'b list) act" where
  "mapA [] f = ret []"
| "mapA (x # xs) f = bind (f x) (\<lambda>y. bind (mapA xs f) (\<lambda>ys. ret (y # ys)))"

fun foldA :: "('s \<Rightarrow> 'x \<Rightarrow> ('w, 's) act) \<Rightarrow> 's \<Rightarrow> 'x list \<Rightarrow> ('w, 's) act" where
  "foldA f s [] = ret s"
| "foldA f s (x # xs) = bind (f s x) (\<lambda>s'. foldA f s' xs)"

subsection \<open>Evaluation and inversion\<close>

lemma ret_apply [simp]: "ret x w = (Ok x, w)"
  by (simp add: ret_def)

lemma throw_apply [simp]: "throw e w = (Throw e, w)"
  by (simp add: throw_def)

lemma process_exit_apply [simp]: "process_exit n w = (Exit n, w)"
  by (simp add: process_exit_def)

lemma lift_err_simps [simp]:
  "lift_err (Inl e) = throw e"
  "lift_err (Inr x) = ret x"
  by (simp_all add: lift_err_def)

lemma whenA_simps [simp]:
  "whenA True m = m"
  "whenA False m = ret ()"
  by (simp_all add: whenA_def)

lemma bind_eval [js_simps]:
  "m w = (Ok x, w') \<Longrightarrow> bind m k w = k x w'"
  "m w = (Throw e, w') \<Longrightarrow> bind m k w = (Throw e, w')"
  "m w = (Exit n, w') \<Longrightarrow> bind m k w = (Exit n, w')"
  by (simp_all add: bind_def)

lemma catch_eval [js_simps]:
  "m w = (Ok x, w') \<Longrightarrow> catch m h w = (Ok x, w')"
  "m w = (Throw e, w') \<Longrightarrow> catch m h w = h e w'"
  "m w = (Exit n, w') \<Longrightarrow> catch m h w = (Exit n, w')"
  by (simp_all add: catch_def)

lemma bind_ret [simp]: "bind (ret x) k = k x"
  by (rule ext) (simp add: bind_def)

lemma bind_throw [simp]: "bind (throw e) k = throw e"
  by (rule ext) (simp add: bind_def)

lemma bind_exit [simp]: "bind (process_exit n) k = process_exit n"
  by (rule ext) (simp add: bind_def)

lemma bind_assoc: "bind (bind m f) g = bind m (\<lambda>x. bind (f x) g)"
  by (rule ext) (auto simp: bind_def split: prod.splits outcome.splits)

lemma catch_simps [simp]:
  "catch (ret x) h = ret x"
  "catch (throw e) h = h e"
  "catch (process_exit n) h = process_exit n"
  by (rule ext, simp add: catch_def)+

lemma bind_Ok_iff:
  "bind m k w = (Ok y, w'') \<longleftrightarrow> (\<exists>x w'. m w = (Ok x, w') \<and> k x w' = (Ok y, w''))"
  by (auto simp: bind_def split: prod.splits outcome.splits)

lemma bind_Throw_iff:
  "bind m k w = (Throw e, w'') \<longleftrightarrow>
     m w = (Throw e, w'') \<or> (\<exists>x w'. m w = (Ok x, w') \<and> k x w' = (Throw e, w''))"
  by (auto simp: bind_def split: prod.splits outcome.splits)

lemma bind_Exit_iff:
  "bind m k w = (Exit n, w'') \<longleftrightarrow>
     m w = (Exit n, w'') \<or> (\<exists>x w'. m w = (Ok x, w') \<and> k x w' = (Exit n, w''))"
  by (auto simp: bind_def split: prod.splits outcome.splits)

lemma catch_Ok_iff:
  "catch m h w = (Ok y, w'') \<longleftrightarrow>
     m w = (Ok y, w'') \<or> (\<exists>e w'. m w = (Throw e, w') \<and> h e w' = (Ok y, w''))"
  by (auto simp: catch_def split: prod.splits outcome.splits)

lemma catch_Throw_iff:
  "catch m h w = (Throw e, w'') \<longleftrightarrow> (\<exists>e' w'. m w = (Throw e', w') \<and> h e' w' = (Throw e, w''))"
  by (auto simp: catch_def split: prod.splits outcome.splits)

lemma catch_Exit_iff:
  "catch m h w = (Exit n, w'') \<longleftrightarrow>
     m w = (Exit n, w'') \<or> (\<exists>e w'. m w = (Throw e, w') \<and> h e w' = (Exit n, w''))"
  by (auto simp: catch_def split: prod.splits outcome.splits)

lemma whenA_Ok_iff:
  "whenA b m w = (Ok u, w') \<longleftrightarrow> (if b then m w = (Ok u, w') else w' = w)"
  by (simp add: whenA_def eq_commute)

lemma lift_err_Ok_iff [simp]: "lift_err r w = (Ok x, w') \<longleftrightarrow> r = Inr x \<and> w' = w"
  by (cases r) auto

lemma lift_err_Throw_iff [simp]: "lift_err r w = (Throw e, w') \<longleftrightarrow> r = Inl e \<and> w' = w"
  by (cases r) auto

lemma lift_err_not_Exit [simp]: "lift_err r w \<noteq> (Exit n, w')"
  by (cases r) auto

lemmas Ok_iffs = bind_Ok_iff catch_Ok_iff whenA_Ok_iff

text \<open>An action that never throws and one that never exits.\<close>

definition no_throw :: "('w, 'a) act \<Rightarrow> bool" where
  "no_throw m \<longleftrightarrow> (\<forall>w e w'. m w \<noteq> (Throw e, w'))"

definition no_exit :: "('w, 'a) act \<Rightarrow> bool" where
  "no_exit m \<longleftrightarrow> (\<forall>w n w'. m w \<noteq> (Exit n, w'))"

lemma no_throw_intros [intro]:
  "no_throw (ret x)"
  "no_throw (process_exit n)"
  "no_throw m \<Longrightarrow> (\<And>x. no_throw (k x)) \<Longrightarrow> no_throw (bind m k)"
  "(\<And>e. no_throw (h e)) \<Longrightarrow> no_throw (catch n' h)"
  "no_throw a \<Longrightarrow> no_throw b \<Longrightarrow> no_throw (if c then a else b)"
  "no_throw u \<Longrightarrow> no_throw (whenA c u)"
  by (auto simp: no_throw_def bind_Throw_iff catch_Throw_iff whenA_def)

lemma no_exit_intros [intro]:
  "no_exit (ret x)"
  "no_exit (throw e)"
  "no_exit m \<Longrightarrow> (\<And>x. no_exit (k x)) \<Longrightarrow> no_exit (bind m k)"
  "no_exit n' \<Longrightarrow> (\<And>e. no_exit (h e)) \<Longrightarrow> no_exit (catch n' h)"
  "no_exit a \<Longrightarrow> no_exit b \<Longrightarrow> no_exit (if c then a else b)"
  "no_exit u \<Longrightarrow> no_exit (whenA c u)"
  "no_exit (lift_err r)"
  by (auto simp: no_exit_def bind_Exit_iff catch_Exit_iff whenA_def)

lemma no_throw_mapA: "(\<And>x. x \<in> set xs \<Longrightarrow> no_throw (f x)) \<Longrightarrow> no_throw (mapA xs f)"
  by (induction xs) (auto intro!: no_throw_intros)

lemma no_throw_forEach: "(\<And>x. x \<in> set xs \<Longrightarrow> no_throw (f x)) \<Longrightarrow> no_throw (forEach xs f)"
  by (induction xs) (auto intro!: no_throw_intros)

lemma no_exit_mapA: "(\<And>x. x \<in> set xs \<Longrightarrow> no_exit (f x)) \<Longrightarrow> no_exit (mapA xs f)"
  by (induction xs) (auto intro!: no_exit_intros)

lemma no_exit_forEach: "(\<And>x. x \<in> set xs \<Longrightarrow> no_exit (f x)) \<Longrightarrow> no_exit (forEach xs f)"
  by (induction xs) (auto intro!: no_exit_intros)

lemma no_exit_foldA: "(\<And>s x. x \<in> set xs \<Longrightarrow> no_exit (f s x)) \<Longrightarrow> no_exit (foldA f s xs)"
  by (induction xs arbitrary: s) (auto intro!: no_exit_intros)

lemma runs_Ok: "no_throw m \<Longrightarrow> no_exit m \<Longrightarrow> \<exists>x w'. m w = (Ok x, w')"
  by (metis no_throw_def no_exit_def outcome.exhaust surj_pair)

text \<open>The exit codes an action may end the process with.\<close>

definition exits_in :: "nat set \<Rightarrow> ('w, 'a) act \<Rightarrow> bool" where
  "exits_in S m \<longleftrightarrow> (\<forall>w n w'. m w = (Exit n, w') \<longrightarrow> n \<in> S)"

lemma exits_in_intros:
  "exits_in S (ret x)"
  "exits_in S (throw e)"
  "n \<in> S \<Longrightarrow> exits_in S (process_exit n)"
  "exits_in S m \<Longrightarrow> (\<And>x. exits_in S (k x)) \<Longrightarrow> exits_in S (bind m k)"
  "exits_in S n' \<Longrightarrow> (\<And>e. exits_in S (h e)) \<Longrightarrow> exits_in S (catch n' h)"
  "exits_in S a \<Longrightarrow> exits_in S b \<Longrightarrow> exits_in S (if c then a else b)"
  "exits_in S u \<Longrightarrow> exits_in S (whenA c u)"
  "exits_in S (lift_err r)"
  unfolding exits_in_def whenA_def by (simp_all add: bind_Exit_iff catch_Exit_iff) blast+

lemma exits_in_no_exit: "no_exit m \<Longrightarrow> exits_in S m"
  by (simp add: no_exit_def exits_in_def)

lemma exits_in_loops:
  "(\<And>x. x \<in> set xs \<Longrightarrow> exits_in S (f x)) \<Longrightarrow> exits_in S (forEach xs f)"
  "(\<And>x. x \<in> set xs \<Longrightarrow> exits_in S (g x)) \<Longrightarrow> exits_in S (mapA xs g)"
  "(\<And>s x. x \<in> set xs \<Longrightarrow> exits_in S (h s x)) \<Longrightarrow> exits_in S (foldA h s0 xs)"
  by (induction xs arbitrary: s0) (auto intro!: exits_in_intros)

lemma exits_in_prod: "(\<And>a b. exits_in S (f a b)) \<Longrightarrow> exits_in S (case p of (a, b) \<Rightarrow> f a b)"
  by (cases p) simp

lemma script_outcome:
  fixes m :: "('w, unit) act"
  assumes "no_throw m" and "exits_in {1} m"
  shows "fst (m w) \<in> {Ok (), Exit 1}"
proof (cases "m w")
  case (Pair r w')
  have "r \<noteq> Throw e" for e using assms(1) Pair by (auto simp: no_throw_def)
  moreover have "r = Exit n \<Longrightarrow> n = 1" for n using assms(2) Pair by (auto simp: exits_in_def)
  ultimately show ?thesis using Pair by (cases r) auto
qed

section \<open>What holds when an action returns\<close>

text \<open>The weakest condition on the world before under which a normal return satisfies \<open>Q\<close>.\<close>

definition wlp :: "('w, 'a) act \<Rightarrow> ('a \<Rightarrow> 'w \<Rightarrow> bool) \<Rightarrow> 'w \<Rightarrow> bool" where
  "wlp m Q w = (case m w of (Ok x, w') \<Rightarrow> Q x w' | _ \<Rightarrow> True)"

lemma wlp_iff: "wlp m Q w \<longleftrightarrow> (\<forall>x w'. m w = (Ok x, w') \<longrightarrow> Q x w')"
  by (auto simp: wlp_def split: prod.splits outcome.splits)

lemma wlpD: "wlp m Q w \<Longrightarrow> m w = (Ok x, w') \<Longrightarrow> Q x w'"
  by (simp add: wlp_iff)

lemma wlp_simps:
  "wlp (ret x) Q w \<longleftrightarrow> Q x w"
  "wlp (throw e) Q w \<longleftrightarrow> True"
  "wlp (process_exit c) Q w \<longleftrightarrow> True"
  "wlp (bind n k) Q w \<longleftrightarrow> wlp n (\<lambda>x. wlp (k x) Q) w"
  "wlp (lift_err r) Q w \<longleftrightarrow> (\<forall>x. r = Inr x \<longrightarrow> Q x w)"
  "wlp (if b then m else m') Q w \<longleftrightarrow> (if b then wlp m Q w else wlp m' Q w)"
  "wlp (whenA b u) P w \<longleftrightarrow> (if b then wlp u P w else P () w)"
  by (auto simp: wlp_iff bind_Ok_iff whenA_def)

lemma wlp_catch:
  "wlp (catch m h) Q w \<longleftrightarrow> wlp m Q w \<and> (\<forall>e w'. m w = (Throw e, w') \<longrightarrow> wlp (h e) Q w')"
  by (auto simp: wlp_iff catch_Ok_iff)

lemma wlp_True [simp]: "wlp m (\<lambda>x w. True) w"
  by (simp add: wlp_iff)

lemma wlp_mono: "wlp m Q w \<Longrightarrow> (\<And>x w'. Q x w' \<Longrightarrow> Q' x w') \<Longrightarrow> wlp m Q' w"
  by (simp add: wlp_iff)

text \<open>The same for every outcome: \<open>run m Q w\<close> says that \<open>Q\<close> holds of how \<open>m\<close> ends.\<close>

definition run :: "('w, 'a) act \<Rightarrow> ('a outcome \<Rightarrow> 'w \<Rightarrow> bool) \<Rightarrow> 'w \<Rightarrow> bool" where
  "run m Q w = (case m w of (r, w') \<Rightarrow> Q r w')"

lemma run_iff: "run m Q w \<longleftrightarrow> Q (fst (m w)) (snd (m w))"
  by (simp add: run_def split: prod.split)

lemma run_bind:
  "run (bind n k) Q w \<longleftrightarrow> run n (\<lambda>r w'. case r of Ok x \<Rightarrow> run (k x) Q w'
     | Throw e \<Rightarrow> Q (Throw e) w' | Exit c \<Rightarrow> Q (Exit c) w') w"
  by (simp add: run_def bind_def split: prod.split outcome.split)

lemma run_catch:
  "run (catch m h) Q w \<longleftrightarrow> run m (\<lambda>r w'. case r of Ok x \<Rightarrow> Q (Ok x) w'
     | Throw e \<Rightarrow> run (h e) Q w' | Exit c \<Rightarrow> Q (Exit c) w') w"
  by (simp add: run_def catch_def split: prod.split outcome.split)

lemma run_basic:
  "run (ret x) Q w \<longleftrightarrow> Q (Ok x) w"
  "run (throw e) Q w \<longleftrightarrow> Q (Throw e) w"
  "run (process_exit c) Q w \<longleftrightarrow> Q (Exit c) w"
  "run (lift_err f) Q w \<longleftrightarrow> (case f of Inl e \<Rightarrow> Q (Throw e) w | Inr x \<Rightarrow> Q (Ok x) w)"
  "run (if b then m else m') Q w \<longleftrightarrow> (if b then run m Q w else run m' Q w)"
  "run (whenA b u) P w \<longleftrightarrow> (if b then run u P w else P (Ok ()) w)"
  by (simp_all add: run_def whenA_def split: sum.split)

lemmas run_simps = run_bind run_catch run_basic

lemma runD: "run m (\<lambda>r w'. r = r0 \<and> P w') w \<Longrightarrow> \<exists>w'. m w = (r0, w') \<and> P w'"
  by (cases "m w") (simp add: run_def)

section \<open>What an action may change\<close>

text \<open>
  A frame relation says how the world after an action may differ from the world before it.
  Any reflexive and transitive relation is kept by sequencing, \<open>try/catch\<close> and loops, so it is
  enough to check it at the calls to the node; the scripts' safety properties are such
  relations.
\<close>

definition keeps :: "('w \<Rightarrow> 'w \<Rightarrow> bool) \<Rightarrow> ('w, 'a) act \<Rightarrow> bool" where
  "keeps R m \<longleftrightarrow> (\<forall>w. R w (snd (m w)))"

locale frame_rel =
  fixes R :: "'w \<Rightarrow> 'w \<Rightarrow> bool"
  assumes rel_refl: "R w w"
    and rel_trans: "R u v \<Longrightarrow> R v w \<Longrightarrow> R u w"
begin

lemma keeps_ret: "keeps R (ret x)"
  by (simp add: keeps_def rel_refl)

lemma keeps_throw: "keeps R (throw e)"
  by (simp add: keeps_def rel_refl)

lemma keeps_exit: "keeps R (process_exit n)"
  by (simp add: keeps_def rel_refl)

lemma keeps_lift: "keeps R (lift_err r)"
  by (cases r) (simp_all add: keeps_throw keeps_ret)

lemma keeps_bind:
  assumes "keeps R m" and "\<And>x. keeps R (k x)"
  shows "keeps R (bind m k)"
  unfolding keeps_def
proof
  fix w
  obtain r w' where m: "m w = (r, w')" by (cases "m w")
  with assms(1) have "R w w'" by (metis keeps_def snd_conv)
  moreover have "R w' (snd (k x w'))" for x
    using assms(2) by (simp add: keeps_def)
  ultimately show "R w (snd (bind m k w))"
    using m by (cases r) (auto simp: bind_def intro: rel_trans)
qed

lemma keeps_catch:
  assumes "keeps R m" and "\<And>e. keeps R (h e)"
  shows "keeps R (catch m h)"
  unfolding keeps_def
proof
  fix w
  obtain r w' where m: "m w = (r, w')" by (cases "m w")
  with assms(1) have "R w w'" by (metis keeps_def snd_conv)
  moreover have "R w' (snd (h e w'))" for e
    using assms(2) by (simp add: keeps_def)
  ultimately show "R w (snd (catch m h w))"
    using m by (cases r) (auto simp: catch_def intro: rel_trans)
qed

lemma keeps_if: "(b \<Longrightarrow> keeps R m) \<Longrightarrow> (\<not> b \<Longrightarrow> keeps R n) \<Longrightarrow> keeps R (if b then m else n)"
  by simp

lemma keeps_when: "(b \<Longrightarrow> keeps R m) \<Longrightarrow> keeps R (whenA b m)"
  by (simp add: whenA_def keeps_ret)

lemma keeps_forEach: "(\<And>x. x \<in> set xs \<Longrightarrow> keeps R (f x)) \<Longrightarrow> keeps R (forEach xs f)"
  by (induction xs) (auto intro: keeps_ret keeps_bind)

lemma keeps_mapA: "(\<And>x. x \<in> set xs \<Longrightarrow> keeps R (f x)) \<Longrightarrow> keeps R (mapA xs f)"
  by (induction xs) (auto intro!: keeps_ret keeps_bind)

lemma keeps_foldA: "(\<And>s x. x \<in> set xs \<Longrightarrow> keeps R (f s x)) \<Longrightarrow> keeps R (foldA f s xs)"
  by (induction xs arbitrary: s) (auto intro!: keeps_ret keeps_bind)

lemmas keeps_intros =
  keeps_ret keeps_throw keeps_exit keeps_lift keeps_bind keeps_catch keeps_if keeps_when
  keeps_forEach keeps_mapA keeps_foldA

end

lemma keepsD: "keeps R m \<Longrightarrow> m w = (r, w') \<Longrightarrow> R w w'"
  by (metis keeps_def snd_conv)

lemma wlp_keeps: "keeps R m \<Longrightarrow> (\<And>x w'. R w w' \<Longrightarrow> Q x w') \<Longrightarrow> wlp m Q w"
  by (auto simp: wlp_iff dest: keepsD)

section \<open>Strings\<close>

definition lower_char :: "char \<Rightarrow> char" where
  "lower_char c = (let n = of_char c :: nat in if 65 \<le> n \<and> n \<le> 90 then char_of (n + 32) else c)"

definition toLowerCase :: "string \<Rightarrow> string" where
  "toLowerCase s = map lower_char s"

fun js_includes :: "string \<Rightarrow> string \<Rightarrow> bool" where
  "js_includes [] sub = (sub = [])"
| "js_includes (c # s) sub = (take (length sub) (c # s) = sub \<or> js_includes s sub)"

text \<open>\<open>s.slice(-n)\<close> and \<open>s.slice(a, b)\<close> for literals.\<close>

definition slice_last :: "nat \<Rightarrow> 'a list \<Rightarrow> 'a list" where
  "slice_last n s = drop (length s - n) s"

definition slice_range :: "nat \<Rightarrow> nat \<Rightarrow> 'a list \<Rightarrow> 'a list" where
  "slice_range a b s = take (b - a) (drop a s)"

definition padStart :: "nat \<Rightarrow> char \<Rightarrow> string \<Rightarrow> string" where
  "padStart n c s = replicate (n - length s) c @ s"

lemma lower_char_idem [simp]: "lower_char (lower_char c) = lower_char c"
proof (cases "65 \<le> (of_char c :: nat) \<and> (of_char c :: nat) \<le> 90")
  case True
  then have "of_char (char_of ((of_char c :: nat) + 32) :: char) = (of_char c :: nat) + 32"
    by simp
  with True show ?thesis by (simp add: lower_char_def Let_def)
next
  case False
  then have "lower_char c = c"
    by (auto simp: lower_char_def Let_def)
  then show ?thesis by simp
qed

lemma toLowerCase_idem [simp]: "toLowerCase (toLowerCase s) = toLowerCase s"
  by (simp add: toLowerCase_def)

lemma includes_iff: "js_includes s sub \<longleftrightarrow> (\<exists>xs ys. s = xs @ sub @ ys)"
proof (induction s)
  case Nil
  then show ?case by auto
next
  case (Cons c s)
  have "(\<exists>xs ys. c # s = xs @ sub @ ys) \<longleftrightarrow>
      (\<exists>ys. c # s = sub @ ys) \<or> (\<exists>xs ys. s = xs @ sub @ ys)"
    by (metis append_Cons append_Nil list.exhaust list.inject)
  moreover have "(\<exists>ys. c # s = sub @ ys) \<longleftrightarrow> take (length sub) (c # s) = sub"
    by (metis append_eq_conv_conj append_take_drop_id)
  ultimately show ?case using Cons by simp
qed

section \<open>Hexadecimal\<close>

definition hexDigit :: "nat \<Rightarrow> char" where
  "hexDigit n = (if n < 10 then char_of (48 + n) else char_of (87 + n))"

definition digitVal :: "char \<Rightarrow> nat option" where
  "digitVal c = (let n = of_char c :: nat in
     if 48 \<le> n \<and> n \<le> 57 then Some (n - 48)
     else if 97 \<le> n \<and> n \<le> 102 then Some (n - 87)
     else if 65 \<le> n \<and> n \<le> 70 then Some (n - 55)
     else None)"

text \<open>\<open>buf.toString('hex')\<close>\<close>

definition byteHex :: "byte \<Rightarrow> string" where
  "byteHex b = [hexDigit (unat b div 16), hexDigit (unat b mod 16)]"

definition toHexString :: "buffer \<Rightarrow> string" where
  "toHexString bs = concat (map byteHex bs)"

text \<open>\<open>Buffer.from(s, 'hex')\<close> reads pairs of digits and stops at the first that is not one.\<close>

fun bufferFromHex :: "string \<Rightarrow> buffer" where
  "bufferFromHex (c # d # s) =
     (case (digitVal c, digitVal d) of
        (Some a, Some b) \<Rightarrow> of_nat (16 * a + b) # bufferFromHex s
      | _ \<Rightarrow> [])"
| "bufferFromHex _ = []"

text \<open>\<open>BigInt(`0x${s}`)\<close>: a SyntaxError when there is no digit or a character is not one.\<close>

fun hexNat :: "nat \<Rightarrow> string \<Rightarrow> nat option" where
  "hexNat acc [] = Some acc"
| "hexNat acc (c # s) = (case digitVal c of None \<Rightarrow> None | Some d \<Rightarrow> hexNat (16 * acc + d) s)"

definition bigIntHex :: "string \<Rightarrow> nat fallible" where
  "bigIntHex s = (case (s, hexNat 0 s) of
       (_ # _, Some n) \<Rightarrow> Inr n
     | _ \<Rightarrow> Inl (''Cannot convert 0x'' @ s @ '' to a BigInt''))"

text \<open>\<open>n.toString(16)\<close>\<close>

fun hexDigits :: "nat \<Rightarrow> string" where
  "hexDigits n = (if n < 16 then [hexDigit n] else hexDigits (n div 16) @ [hexDigit (n mod 16)])"

declare hexDigits.simps [simp del]

text \<open>A number in a template string.\<close>

fun decDigits :: "nat \<Rightarrow> string" where
  "decDigits n = (if n < 10 then [char_of (48 + n)] else decDigits (n div 10) @ [char_of (48 + n mod 10)])"

declare decDigits.simps [simp del]

lemma digitVal_hexDigit [simp]: "n < 16 \<Longrightarrow> digitVal (hexDigit n) = Some n"
  by (auto simp: digitVal_def hexDigit_def Let_def)

lemma toHexString_Nil [simp]: "toHexString [] = []"
  by (simp add: toHexString_def)

lemma toHexString_Cons [simp]: "toHexString (b # bs) = byteHex b @ toHexString bs"
  by (simp add: toHexString_def)

lemma length_toHexString [simp]: "length (toHexString bs) = 2 * length bs"
  by (induction bs) (simp_all add: byteHex_def)

lemma byte_digit_bounds [simp]:
  "unat (b :: byte) div 16 < 16"
  "unat (b :: byte) mod 16 < 16"
proof -
  have "unat b < 16 * 16"
    using byte_unat_less [of b] by simp
  then show "unat b div 16 < 16"
    by (rule less_mult_imp_div_less)
  show "unat b mod 16 < 16"
    by simp
qed

lemma bufferFromHex_toHexString [simp]: "bufferFromHex (toHexString bs) = bs"
proof (induction bs)
  case Nil
  then show ?case by simp
next
  case (Cons b bs)
  have "of_nat (16 * (unat b div 16) + unat b mod 16) = b"
    by (simp only: mult_div_mod_eq of_nat_unat ucast_id)
  with Cons show ?case by (simp add: byteHex_def)
qed

lemma hexNat_append:
  "hexNat acc (s @ t) = (case hexNat acc s of None \<Rightarrow> None | Some n \<Rightarrow> hexNat n t)"
  by (induction s arbitrary: acc) (simp_all split: option.splits)

lemma hexNat_toHexString: "hexNat acc (toHexString bs) = Some (acc * 256 ^ length bs + be_nat bs)"
proof (induction bs arbitrary: acc)
  case Nil
  then show ?case by simp
next
  case (Cons b bs)
  have "16 * (16 * acc + unat b div 16) + unat b mod 16 = 256 * acc + unat b"
    by simp
  with Cons show ?case
    by (simp add: byteHex_def be_nat_Cons algebra_simps)
qed

lemma bigIntHex_toHexString [simp]:
  assumes "bs \<noteq> []"
  shows "bigIntHex (toHexString bs) = Inr (be_nat bs)"
proof -
  obtain c s where "toHexString bs = c # s"
    using assms by (cases bs) (simp_all add: byteHex_def)
  then show ?thesis
    using hexNat_toHexString [of 0 bs] by (simp add: bigIntHex_def)
qed

lemma length_hexDigits: "0 < k \<Longrightarrow> n < 16 ^ k \<Longrightarrow> length (hexDigits n) \<le> k"
proof (induction n arbitrary: k rule: hexDigits.induct)
  case (1 n)
  show ?case
  proof (cases "n < 16")
    case True
    with 1(2) show ?thesis by (subst hexDigits.simps) simp
  next
    case False
    with 1(2,3) obtain j where k: "k = Suc j" "0 < j"
      by (cases k; cases "k - 1") auto
    with 1(3) have "n div 16 < 16 ^ j"
      by (simp add: div_less_iff_less_mult mult.commute)
    with 1(1) False k have "length (hexDigits (n div 16)) \<le> j" by blast
    with False k show ?thesis by (subst hexDigits.simps) simp
  qed
qed

lemma hexNat_hexDigits: "hexNat 0 (hexDigits n) = Some n"
proof (induction n rule: hexDigits.induct)
  case (1 n)
  then show ?case by (subst hexDigits.simps) (auto simp: hexNat_append)
qed

lemma hexNat_zeros: "hexNat 0 (replicate k (CHR ''0'') @ s) = hexNat 0 s"
  by (induction k) (simp_all add: digitVal_def)

lemma hexNat_bufferFromHex:
  "length s = 2 * k \<Longrightarrow> hexNat acc s = Some n \<Longrightarrow>
     length (bufferFromHex s) = k \<and> n = acc * 256 ^ k + be_nat (bufferFromHex s)"
proof (induction k arbitrary: s acc)
  case 0
  then show ?case by simp
next
  case (Suc k)
  from Suc.prems(1) obtain c d t where s: "s = c # d # t"
    by (cases s; cases "tl s") auto
  with Suc.prems(2) obtain a b where ab: "digitVal c = Some a" "digitVal d = Some b"
    by (auto split: option.splits)
  with s Suc.prems have r: "hexNat (256 * acc + (16 * a + b)) t = Some n"
    by (simp add: algebra_simps)
  have "a < 16" "b < 16"
    using ab by (auto simp: digitVal_def Let_def split: if_splits)
  then have "unat (of_nat (16 * a + b) :: byte) = 16 * a + b"
    by (simp add: unat_of_nat del: of_nat_add of_nat_mult)
  moreover have "length (bufferFromHex t) = k \<and>
      n = (256 * acc + (16 * a + b)) * 256 ^ k + be_nat (bufferFromHex t)"
    by (rule Suc.IH) (use s Suc.prems(1) r in auto)
  ultimately show ?case
    by (simp add: s ab be_nat_Cons algebra_simps del: of_nat_add of_nat_mult)
qed

text \<open>The hexadecimal detour of the scripts is the 32-byte big-endian form.\<close>

lemma bufferFromHex_padStart:
  assumes "n < 256 ^ 32"
  shows "bufferFromHex (padStart 64 (CHR ''0'') (hexDigits n)) = be_fixed 32 n"
proof -
  let ?s = "padStart 64 (CHR ''0'') (hexDigits n)"
  have "n < 16 ^ 64" using assms by simp
  then have "length ?s = 2 * 32"
    using length_hexDigits [of 64 n] by (simp add: padStart_def)
  moreover have "hexNat 0 ?s = Some n"
    by (simp add: padStart_def hexNat_zeros hexNat_hexDigits)
  ultimately show ?thesis
    using hexNat_bufferFromHex [of ?s 32 0 n] by (intro be_fixed_unique) auto
qed

end
