(* ===== verification/JsNumber.thy ===== *)
theory JsNumber
  imports Prelude
begin

text \<open>
  The gas buffers of the scripts, \<open>Math.floor(Number(gasEstimate) * 1.2)\<close> and the variants
  with 1.3 and 1.5, computed as JavaScript computes them: the estimate and the constant are IEEE
  doubles, the product is rounded to 53 significant bits (to the even neighbour on a tie), and
  the result is rounded down. A double constant \<open>c\<close> in \<open>[1, 2)\<close> is its significand
  \<open>m\<close>, that is \<open>c = m / 2^52\<close>. The lemmas give the exact rational result for every
  realistic estimate.
\<close>

fun bits :: "nat \<Rightarrow> nat" where
  "bits n = (if n = 0 then 0 else Suc (bits (n div 2)))"

declare bits.simps [simp del]

definition round53 :: "nat \<Rightarrow> nat" where
  "round53 n =
     (let k = bits n - 53; q = n div 2 ^ k; r = n mod 2 ^ k in
      if 2 ^ k < 2 * r \<or> (2 ^ k = 2 * r \<and> odd q) then (q + 1) * 2 ^ k else q * 2 ^ k)"

text \<open>The significands of the doubles written \<open>1.2\<close>, \<open>1.3\<close> and \<open>1.5\<close>.\<close>

definition dbl_1_2 :: nat where "dbl_1_2 = 5404319552844595"
definition dbl_1_3 :: nat where "dbl_1_3 = 5854679515581645"
definition dbl_1_5 :: nat where "dbl_1_5 = 6755399441055744"

definition floor_mul :: "nat \<Rightarrow> nat \<Rightarrow> nat" where
  "floor_mul m g = round53 (round53 g * m) div 2 ^ 52"

lemma bits_bounds: "0 < n \<Longrightarrow> 2 ^ (bits n - 1) \<le> n \<and> n < 2 ^ bits n"
proof (induction n rule: bits.induct)
  case (1 n)
  show ?case
  proof (cases "n div 2 = 0")
    case True
    with 1(2) have "n = 1" by simp
    then show ?thesis by (simp add: bits.simps)
  next
    case False
    with 1 have IH: "2 ^ (bits (n div 2) - 1) \<le> n div 2" "n div 2 < 2 ^ bits (n div 2)"
      by auto
    obtain j where j: "bits (n div 2) = Suc j"
      using False by (subst (asm) bits.simps) (auto simp: bits.simps)
    from 1(2) have b: "bits n = Suc (Suc j)"
      by (subst bits.simps) (simp add: j)
    from IH j have "2 * 2 ^ j \<le> n" "n < 2 * (2 * 2 ^ j)" by auto
    then show ?thesis by (simp add: b)
  qed
qed

text \<open>Rounding moves a number by at most half a unit in the last place.\<close>

lemma round53_error:
  fixes n u :: nat
  defines "u \<equiv> 2 ^ (bits n - 53)"
  shows "2 * round53 n \<le> 2 * n + u" and "2 * n \<le> 2 * round53 n + u" and "u dvd round53 n"
proof -
  define q r where "q = n div u" and "r = n mod u"
  have n: "n = q * u + r"
    unfolding q_def r_def by (rule div_mult_mod_eq [symmetric])
  have ru: "r < u"
    by (simp add: r_def u_def)
  have R: "round53 n = (if u < 2 * r \<or> (u = 2 * r \<and> odd q) then (q + 1) * u else q * u)"
    by (simp add: round53_def Let_def q_def r_def u_def)
  show "2 * round53 n \<le> 2 * n + u"
    using R n ru by (auto simp: algebra_simps)
  show "2 * n \<le> 2 * round53 n + u"
    using R n ru by (auto simp: algebra_simps)
  show "u dvd round53 n"
    using R by auto
qed

lemma round53_small: "n < 2 ^ 53 \<Longrightarrow> round53 n = n"
proof (cases "n = 0")
  case True
  then show ?thesis by (simp add: round53_def bits.simps)
next
  case False
  assume "n < 2 ^ 53"
  with False bits_bounds [of n] have "(2::nat) ^ (bits n - 1) < 2 ^ 53" by simp
  then have "bits n - 1 < 53"
    by (rule power_less_imp_less_exp [rotated]) simp
  then have "bits n - 53 = 0" by simp
  then show ?thesis by (simp add: round53_def Let_def)
qed

lemma ulp_bound:
  assumes "53 < bits n"
  shows "2 ^ 52 * 2 ^ (bits n - 53) \<le> n" and "n < 2 ^ 53 * 2 ^ (bits n - 53)"
proof -
  have pos: "0 < n" using assms by (cases "n = 0") (auto simp: bits.simps)
  have "bits n - 1 = 52 + (bits n - 53)" and "bits n = 53 + (bits n - 53)"
    using assms by auto
  then show "2 ^ 52 * 2 ^ (bits n - 53) \<le> n" and "n < 2 ^ 53 * 2 ^ (bits n - 53)"
    using bits_bounds [OF pos] by (metis power_add)+
qed

text \<open>
  A product that is within a fifth of a unit of \<open>2^52 * (a / den)\<close> rounds down to
  \<open>a div den\<close>: not below it when \<open>a / den\<close> is an integer, because that integer is then the
  nearest representable number, and not above it otherwise.
\<close>

lemma round53_div:
  fixes N g a den d :: nat
  assumes den: "0 < den" "den \<le> 10" and d: "d \<le> 2 * g" and g: "g < 2 ^ 45"
    and a: "den * N + d = 2 ^ 52 * a \<or> den * N = 2 ^ 52 * a + d"
    and lo: "2 ^ 52 * g \<le> N" and hi: "N \<le> 2 ^ 53 * g"
    and near: "a mod den = 0 \<Longrightarrow> 2 * d < den * 2 ^ (bits N - 53)"
  shows "round53 N div 2 ^ 52 = a div den"
proof -
  define u where "u = (2::nat) ^ (bits N - 53)"
  have err: "2 * round53 N \<le> 2 * N + u" "2 * N \<le> 2 * round53 N + u" "u dvd round53 N"
    using round53_error [of N] by (simp_all add: u_def)
  have u1: "u \<le> 2 * g + 1"
  proof (cases "53 < bits N")
    case True
    then have "2 ^ 52 * u \<le> 2 ^ 53 * g"
      using ulp_bound(1) [of N] hi by (simp add: u_def)
    then show ?thesis by simp
  next
    case False
    then show ?thesis by (simp add: u_def)
  qed
  define X r where "X = a div den" and "r = a mod den"
  have aX: "a = X * den + r" and r: "r < den"
    using den by (simp_all add: X_def r_def)
  show ?thesis
  proof (cases "r = 0")
    case True
    have near': "2 * d < den * u"
      using near True by (simp add: r_def u_def)
    have *: "den * N + d = den * (2 ^ 52 * X) \<or> den * N = den * (2 ^ 52 * X) + d"
      using a True aX by (auto simp: algebra_simps)
    have udvd: "u dvd 2 ^ 52 * X"
    proof -
      have "(2::nat) ^ (bits N - 53) dvd 2 ^ 52"
      proof (rule le_imp_power_dvd)
        have "u < 2 ^ 47" using u1 g by simp
        then have "(2::nat) ^ (bits N - 53) < 2 ^ 47" by (simp add: u_def)
        then have "bits N - 53 < 47" by (rule power_less_imp_less_exp [rotated]) simp
        then show "bits N - 53 \<le> 52" by simp
      qed
      then show ?thesis by (simp add: u_def dvd_mult2)
    qed
    have "round53 N = 2 ^ 52 * X"
    proof -
      obtain p where p: "2 ^ 52 * X = u * p" using udvd by (elim dvdE)
      obtain q where q: "round53 N = u * q" using err(3) by (elim dvdE)
      have lt: "2 * (den * (u * q)) < 2 * (den * (u * p)) + 2 * (den * u)"
               "2 * (den * (u * p)) < 2 * (den * (u * q)) + 2 * (den * u)"
      proof -
        have e1: "den * (2 * (u * q)) \<le> den * (2 * N + u)"
          using err(1) q by (intro mult_le_mono2) simp
        have e2: "den * (2 * N) \<le> den * (2 * (u * q) + u)"
          using err(2) q by (intro mult_le_mono2) simp
        have "den * N + d = den * (u * p) \<or> den * N = den * (u * p) + d"
          using * p by simp
        with e1 e2 near' show "2 * (den * (u * q)) < 2 * (den * (u * p)) + 2 * (den * u)"
               "2 * (den * (u * p)) < 2 * (den * (u * q)) + 2 * (den * u)"
          by (simp_all add: algebra_simps) linarith+
      qed
      have "den * u * q < den * u * (p + 1)" and "den * u * p < den * u * (q + 1)"
        using lt by (simp_all add: algebra_simps)
      then have "q < p + 1" and "p < q + 1"
        by (simp_all only: mult_less_cancel1)
      then show ?thesis using p q by simp
    qed
    then show ?thesis by (simp add: X_def)
  next
    case False
    have small: "2 * d + den * u < 2 ^ 52"
    proof -
      have "den * u \<le> 10 * (2 * g + 1)"
        using den u1 by (intro mult_le_mono) auto
      then show ?thesis using d g by simp
    qed
    have e1: "den * (2 * round53 N) \<le> den * (2 * N + u)"
      using err(1) by (rule mult_le_mono2)
    have e2: "den * (2 * N) \<le> den * (2 * round53 N + u)"
      using err(2) by (rule mult_le_mono2)
    define A B C D R where "A = den * N" and "B = den * round53 N" and "C = den * (2 ^ 52 * X)"
      and "D = den * u" and "R = 2 ^ 52 * r"
    have aC: "2 ^ 52 * a = C + R"
      by (simp add: aX C_def R_def algebra_simps)
    have "1 \<le> r" "r + 1 \<le> den" using False r by simp_all
    then have R: "2 ^ 52 \<le> R" "R + 2 ^ 52 \<le> 2 ^ 52 * den"
      by (simp_all add: R_def)
    have E: "2 * B \<le> 2 * A + D" "2 * A \<le> 2 * B + D"
      using e1 e2 by (simp_all add: A_def B_def D_def algebra_simps)
    have AC: "A + d = C + R \<or> A = C + R + d"
      using a by (simp only: A_def aC)
    have sm: "2 * d + D < 2 ^ 52"
      using small by (simp only: D_def)
    have "C \<le> B" and "B < C + 2 ^ 52 * den"
      using AC E R sm by linarith+
    then have "den * (2 ^ 52 * X) \<le> den * round53 N"
      and "den * round53 N < den * (2 ^ 52 * (X + 1))"
      by (simp_all only: B_def C_def) (simp add: algebra_simps)
    then have "2 ^ 52 * X \<le> round53 N" and "round53 N < 2 ^ 52 * (X + 1)"
      using den by simp_all
    then have "round53 N div 2 ^ 52 = X"
      by (intro div_nat_eqI) (simp_all add: algebra_simps)
    then show ?thesis by (simp add: X_def)
  qed
qed

lemma floor_mul_general:
  fixes g m num den d :: nat
  assumes den: "0 < den" "den \<le> 10" and g: "g < 2 ^ 45" and d: "d \<le> 2"
    and m: "den * m + d = 2 ^ 52 * num \<or> den * m = 2 ^ 52 * num + d"
    and lo: "2 ^ 52 + 2 ^ 49 \<le> m" and hi: "m \<le> 2 ^ 53"
    and dd: "4 * d < den"
  shows "floor_mul m g = num * g div den"
proof -
  define N where "N = g * m"
  have N: "floor_mul m g = round53 N div 2 ^ 52"
    using g by (simp add: floor_mul_def round53_small N_def)
  have eq: "den * N + d * g = 2 ^ 52 * (num * g) \<or> den * N = 2 ^ 52 * (num * g) + d * g"
  proof -
    from m have "(den * m + d) * g = (2 ^ 52 * num) * g \<or> (den * m) * g = (2 ^ 52 * num + d) * g"
      by (elim disjE) simp_all
    then show ?thesis by (simp add: N_def algebra_simps)
  qed
  show ?thesis
  proof (cases "g = 0")
    case True
    then show ?thesis by (simp add: floor_mul_def round53_small)
  next
    case False
    have "2 * (d * g) < den * 2 ^ (bits N - 53)" if z: "num * g mod den = 0"
    proof (cases "53 < bits N")
      case True
      have "(2 ^ 52) * g \<le> N" using lo by (simp add: N_def mult.commute)
      with ulp_bound(2) [OF True] have "2 ^ 52 * g < 2 ^ 53 * 2 ^ (bits N - 53)"
        by (metis order.strict_trans1)
      then have "g < 2 * 2 ^ (bits N - 53)" by simp
      then have "4 * d * g \<le> 4 * d * (2 * 2 ^ (bits N - 53))"
        by (intro mult_le_mono2) simp
      also have "\<dots> < den * (2 * 2 ^ (bits N - 53))"
        using dd by simp
      finally show ?thesis by simp
    next
      case False
      then have N53: "N < 2 ^ 53"
      proof (cases "N = 0")
        case False
        then have "N < 2 ^ bits N" using bits_bounds [of N] by simp
        also have "(2::nat) ^ bits N \<le> 2 ^ 53"
          using \<open>\<not> 53 < bits N\<close> by (intro power_increasing) simp_all
        finally show ?thesis .
      qed simp
      have "g < 2"
      proof (rule ccontr)
        assume "\<not> g < 2"
        then have "2 * (2 ^ 52 + 2 ^ 49) \<le> g * m" using lo by (intro mult_le_mono) auto
        with N53 show False by (simp add: N_def)
      qed
      with \<open>g \<noteq> 0\<close> have "g = 1" by simp
      moreover have "2 * d < den" using dd by simp
      moreover have "bits N - 53 = 0" using \<open>\<not> 53 < bits N\<close> by simp
      ultimately show ?thesis by simp
    qed
    then show ?thesis
      unfolding N
      by (intro round53_div [where d = "d * g" and g = g])
        (use den g d eq lo hi in \<open>auto simp: N_def mult.commute intro: mult_le_mono\<close>)
  qed
qed

lemma floor_mul_1_2: "g < 2 ^ 45 \<Longrightarrow> floor_mul dbl_1_2 g = 6 * g div 5"
  by (rule floor_mul_general [where d = 1]) (simp_all add: dbl_1_2_def)

lemma floor_mul_1_3: "g < 2 ^ 45 \<Longrightarrow> floor_mul dbl_1_3 g = 13 * g div 10"
  by (rule floor_mul_general [where d = 2]) (simp_all add: dbl_1_3_def)

lemma floor_mul_1_5: "g < 2 ^ 45 \<Longrightarrow> floor_mul dbl_1_5 g = 3 * g div 2"
  by (rule floor_mul_general [where d = 0]) (simp_all add: dbl_1_5_def)

end
