(* ===== verification/KmsSignature.thy ===== *)
theory KmsSignature
  imports JsRuntime "HOL-Library.While_Combinator"
begin

text \<open>
  The pure part of the two KMS signing scripts, \<open>scripts/aws-multisig-runner.js\<close> (class
  \<open>AWSKMSSigner\<close>) and \<open>scripts/kms-contract-caller.js\<close> (class \<open>KMSHelper\<close>): reading a
  DER-encoded ECDSA signature, bringing its components to 32 bytes, low-\<open>s\<close> normalisation,
  and the 65-byte hexadecimal signature they build and cut up again. Array reads outside the
  buffer are \<open>undefined\<close>, arithmetic on them is \<open>NaN\<close>; both are \<open>None\<close> of \<open>jsnum\<close>.
\<close>

section \<open>Buffer reads\<close>

type_synonym jsnum = "nat option"

fun at :: "buffer \<Rightarrow> jsnum \<Rightarrow> jsnum" where
  "at b (Some i) = (if i < length b then Some (unat (b ! i)) else None)"
| "at b None = None"

fun jsadd :: "jsnum \<Rightarrow> jsnum \<Rightarrow> jsnum" where
  "jsadd (Some a) (Some b) = Some (a + b)"
| "jsadd _ _ = None"

text \<open>\<open>buf.slice(a, b)\<close>: \<open>NaN\<close> counts as 0 and the bounds are cut to the buffer.\<close>

definition jsslice :: "buffer \<Rightarrow> jsnum \<Rightarrow> jsnum \<Rightarrow> buffer" where
  "jsslice buf a b =
     (let i = (case a of None \<Rightarrow> 0 | Some n \<Rightarrow> n); j = (case b of None \<Rightarrow> 0 | Some n \<Rightarrow> n)
      in take (j - i) (drop i buf))"

section \<open>class AWSKMSSigner\<close>

definition secp256k1n :: nat where
  "secp256k1n = 0xFFFFFFFFFFFFFFFFFFFFFFFFFFFFFFFEBAAEDCE6AF48A03BBFD25E8CD0364141"

function skipZeros :: "buffer \<Rightarrow> nat \<Rightarrow> nat" where
  "skipZeros buf start =
     (if start < length buf \<and> buf ! start = 0 then skipZeros buf (Suc start) else start)"
  by pat_completeness auto
termination
  by (relation "measure (\<lambda>(buf, start). length buf - start)") auto

declare skipZeros.simps [simp del]

definition removeLeadingZeros :: "buffer \<Rightarrow> buffer" where
  "removeLeadingZeros buf = drop (skipZeros buf 0) buf"

definition ensure32Bytes :: "buffer \<Rightarrow> buffer" where
  "ensure32Bytes buf =
     (if length buf = 32 then buf
      else if 32 < length buf then slice_last 32 buf
      else replicate (32 - length buf) 0 @ buf)"

definition validateSignatureComponents :: "buffer \<Rightarrow> buffer \<Rightarrow> unit fallible" where
  "validateSignatureComponents r s =
     ebind (bigIntHex (toHexString r)) (\<lambda>rBigInt.
     ebind (bigIntHex (toHexString s)) (\<lambda>sBigInt.
     if rBigInt \<le> 0 \<or> secp256k1n \<le> rBigInt then Inl (''Invalid r value: '' @ hexDigits rBigInt)
     else if sBigInt \<le> 0 \<or> secp256k1n \<le> sBigInt then Inl (''Invalid s value: '' @ hexDigits sBigInt)
     else Inr ()))"

definition parseDERSignature :: "buffer \<Rightarrow> (buffer \<times> buffer) fallible" where
  "parseDERSignature sig = map_error (\<lambda>m. ''DER parsing failed: '' @ m)
     (if at sig (Some 0) \<noteq> Some 0x30 then Inl ''Invalid DER format: missing sequence tag''
      else let offset = Some 2 in
        if at sig offset \<noteq> Some 0x02 then Inl ''Invalid DER format: missing R integer tag''
        else let rLength = at sig (jsadd offset (Some 1));
                 offset = jsadd offset (Some 2);
                 r = jsslice sig offset (jsadd offset rLength);
                 offset = jsadd offset rLength in
          if at sig offset \<noteq> Some 0x02 then Inl ''Invalid DER format: missing S integer tag''
          else let sLength = at sig (jsadd offset (Some 1));
                   offset = jsadd offset (Some 2);
                   s = jsslice sig offset (jsadd offset sLength);
                   r = ensure32Bytes (removeLeadingZeros r);
                   s = ensure32Bytes (removeLeadingZeros s) in
            ebind (validateSignatureComponents r s) (\<lambda>_. Inr (r, s)))"

text \<open>\<open>n.toString(16)\<close> of a \<open>BigInt\<close>, which has a sign.\<close>

definition bigIntToHex :: "int \<Rightarrow> string" where
  "bigIntToHex i = (if i < 0 then CHR ''-'' # hexDigits (nat (- i)) else hexDigits (nat i))"

text \<open>The low-\<open>s\<close> step of \<open>toEthereumSignature\<close> and of \<open>derToEthSignature\<close>.\<close>

definition normalizeS :: "buffer \<Rightarrow> buffer fallible" where
  "normalizeS s =
     ebind (bigIntHex (toHexString s)) (\<lambda>sBigInt.
     Inr (if secp256k1n div 2 < sBigInt
          then let normalizedSBigInt = int secp256k1n - int sBigInt
               in bufferFromHex (padStart 64 (CHR ''0'') (bigIntToHex normalizedSBigInt))
          else s))"

text \<open>\<open>`0x${r}${normalizedS}${v.toString(16).padStart(2, '0')}`\<close>\<close>

definition fullSignature :: "buffer \<Rightarrow> buffer \<Rightarrow> nat \<Rightarrow> string" where
  "fullSignature r s v =
     ''0x'' @ toHexString r @ toHexString s @ padStart 2 (CHR ''0'') (hexDigits v)"

text \<open>The signed transaction object of \<open>signTransaction\<close>, cut out of the signature string.\<close>

record signed_tx =
  messageHash :: string
  tx_v :: string
  tx_r :: string
  tx_s :: string
  rawTransaction :: string

definition signedTxData :: "string \<Rightarrow> string \<Rightarrow> signed_tx" where
  "signedTxData txHash signature =
     \<lparr>messageHash = txHash,
      tx_v = slice_range 130 132 signature,
      tx_r = slice_range 0 66 signature,
      tx_s = ''0x'' @ slice_range 66 130 signature,
      rawTransaction = signature\<rparr>"

section \<open>class KMSHelper\<close>

fun dropZerosKeepOne :: "buffer \<Rightarrow> buffer" where
  "dropZerosKeepOne (b # c # bs) = (if b = 0 then dropZerosKeepOne (c # bs) else b # c # bs)"
| "dropZerosKeepOne bs = bs"

definition normalizeSignatureComponent :: "buffer \<Rightarrow> buffer" where
  "normalizeSignatureComponent c =
     (let c = dropZerosKeepOne c in
      if length c < 32 then replicate (32 - length c) 0 @ c else slice_last 32 c)"

definition KMSHelper_parseDERSignature :: "buffer \<Rightarrow> buffer \<times> buffer" where
  "KMSHelper_parseDERSignature sig =
     (let offset = Some 2;
          rLength = at sig (jsadd offset (Some 1));
          offset = jsadd offset (Some 2);
          r = jsslice sig offset (jsadd offset rLength);
          offset = jsadd offset rLength;
          sLength = at sig (jsadd offset (Some 1));
          offset = jsadd offset (Some 2);
          s = jsslice sig offset (jsadd offset sLength)
      in (normalizeSignatureComponent r, normalizeSignatureComponent s))"

section \<open>Bringing a component to 32 bytes\<close>

text \<open>
  What either script promises of its normalisation: 32 bytes with the same value modulo
  \<open>2^256\<close>. There is only one such function.
\<close>

locale component_normaliser =
  fixes norm :: "buffer \<Rightarrow> buffer"
  assumes norm_length: "length (norm b) = 32"
    and norm_value: "be_nat (norm b) = be_nat b mod 256 ^ 32"
begin

lemma norm_eq: "norm b = be_fixed 32 (be_nat b)"
  by (rule be_nat_inj) (simp_all only: norm_length norm_value length_be_fixed be_nat_be_fixed)

lemma norm_idem: "norm (norm b) = norm b"
  by (rule be_nat_inj) (simp_all add: norm_length norm_value)

lemma norm_exact: "be_nat b < 256 ^ 32 \<Longrightarrow> be_nat (norm b) = be_nat b"
  by (simp add: norm_value)

lemma norm_nonempty: "norm b \<noteq> []"
  using norm_length [of b] by auto

end

lemma skipZeros_prefix: "k \<le> length buf \<Longrightarrow>
    skipZeros buf k = k + length (takeWhile (\<lambda>b. b = 0) (drop k buf))"
proof (induction buf k rule: skipZeros.induct)
  case (1 buf start)
  show ?case
  proof (cases "start < length buf \<and> buf ! start = 0")
    case True
    then have "drop start buf = 0 # drop (Suc start) buf"
      by (metis Cons_nth_drop_Suc)
    with 1 True show ?thesis by (subst skipZeros.simps) simp
  next
    case False
    with 1(2) have "takeWhile (\<lambda>b. b = 0) (drop start buf) = []"
      by (cases "start < length buf") (auto simp flip: Cons_nth_drop_Suc)
    with False show ?thesis by (subst skipZeros.simps) auto
  qed
qed

lemma removeLeadingZeros_eq: "removeLeadingZeros buf = dropWhile (\<lambda>b. b = 0) buf"
  by (simp add: removeLeadingZeros_def skipZeros_prefix dropWhile_eq_drop)

lemma be_nat_removeLeadingZeros [simp]: "be_nat (removeLeadingZeros buf) = be_nat buf"
proof -
  obtain k where "buf = replicate k 0 @ dropWhile (\<lambda>b. b = 0) buf"
    using dropWhile_split [of buf 0] by blast
  then show ?thesis
    unfolding removeLeadingZeros_eq by (metis be_nat_replicate_zero)
qed

lemma slice_last_value: "32 \<le> length b \<Longrightarrow>
    length (slice_last 32 b) = 32 \<and> be_nat (slice_last 32 b) = be_nat b mod 256 ^ 32"
proof -
  assume le: "32 \<le> length b"
  let ?d = "drop (length b - 32) b"
  have len: "length ?d = 32" using le by simp
  have "be_nat b = be_nat (take (length b - 32) b) * 256 ^ 32 + be_nat ?d"
    using be_nat_append [of "take (length b - 32) b" ?d] len by simp
  moreover have "be_nat ?d < 256 ^ 32"
    using be_nat_bound [of ?d] by (simp only: len)
  ultimately have "be_nat ?d = be_nat b mod 256 ^ 32"
    by (metis add.commute mod_less mod_mult_self2 mult.commute)
  with len show ?thesis by (simp add: slice_last_def)
qed

lemma pad_value: "length b \<le> 32 \<Longrightarrow>
    length (replicate (32 - length b) 0 @ b) = 32 \<and>
    be_nat (replicate (32 - length b) 0 @ b) = be_nat b mod 256 ^ 32"
proof -
  assume le: "length b \<le> 32"
  have "(256::nat) ^ length b \<le> 256 ^ 32"
    using le by (intro power_increasing) simp_all
  then have "be_nat b < 256 ^ 32"
    using be_nat_bound [of b] by (rule order.strict_trans2 [rotated])
  then have "be_nat b mod 256 ^ 32 = be_nat b" by (rule mod_less)
  with le show ?thesis by simp
qed

lemma ensure32Bytes_value:
  "length (ensure32Bytes b) = 32 \<and> be_nat (ensure32Bytes b) = be_nat b mod 256 ^ 32"
proof (cases "32 < length b")
  case True
  then show ?thesis using slice_last_value [of b] by (simp add: ensure32Bytes_def)
next
  case False
  then show ?thesis using pad_value [of b] by (auto simp: ensure32Bytes_def)
qed

lemma be_nat_dropZerosKeepOne [simp]: "be_nat (dropZerosKeepOne b) = be_nat b"
  by (induction b rule: dropZerosKeepOne.induct) (simp_all add: be_nat_Cons)

interpretation aws: component_normaliser "\<lambda>b. ensure32Bytes (removeLeadingZeros b)"
  by unfold_locales (simp_all add: ensure32Bytes_value del: power_numeral power_numeral_even)

interpretation helper: component_normaliser normalizeSignatureComponent
proof
  fix b
  show "length (normalizeSignatureComponent b) = 32"
    using slice_last_value [of "dropZerosKeepOne b"] pad_value [of "dropZerosKeepOne b"]
    by (simp add: normalizeSignatureComponent_def Let_def)
  show "be_nat (normalizeSignatureComponent b) = be_nat b mod 256 ^ 32"
    using slice_last_value [of "dropZerosKeepOne b"] pad_value [of "dropZerosKeepOne b"]
    by (simp add: normalizeSignatureComponent_def Let_def del: power_numeral power_numeral_even)
qed

lemma normalisers_agree: "ensure32Bytes (removeLeadingZeros b) = normalizeSignatureComponent b"
  by (simp only: aws.norm_eq helper.norm_eq)

lemma skipZeros_while:
  "while_option (\<lambda>i. i < length buf \<and> buf ! i = 0) Suc k = Some (skipZeros buf k)"
proof (induction buf k rule: skipZeros.induct)
  case (1 buf k)
  then show ?case
    by (subst while_option_unfold, subst skipZeros.simps) simp
qed

lemma dropZeros_while:
  "while_option (\<lambda>c. 1 < length c \<and> c ! 0 = 0) tl bs = Some (dropZerosKeepOne bs)"
  by (induction bs rule: dropZerosKeepOne.induct; subst while_option_unfold) auto

text \<open>C34: The two \<open>while\<close> loops of the DER parsers terminate on every buffer, with the index of the first byte that
  is not zero and with the shortest form of the number, and after padding both programs have the same 32 bytes.\<close>

theorem component_loops_terminate:
  "while_option (\<lambda>i. i < length buf \<and> buf ! i = 0) Suc 0 = Some (skipZeros buf 0) \<and>
   removeLeadingZeros buf = dropWhile (\<lambda>b. b = 0) buf \<and>
   while_option (\<lambda>c. 1 < length c \<and> c ! 0 = 0) tl buf = Some (dropZerosKeepOne buf) \<and>
   ensure32Bytes (removeLeadingZeros buf) = normalizeSignatureComponent buf"
  by (intro conjI skipZeros_while dropZeros_while removeLeadingZeros_eq normalisers_agree)

section \<open>DER integers\<close>

text \<open>
  The encoding KMS documents for its signatures, as the reference the parser is checked
  against: a \<open>SEQUENCE\<close> of two \<open>INTEGER\<close>s, each in the fewest big-endian bytes, with a zero
  byte in front when the first one would read as a sign.
\<close>

fun be_bytes :: "nat \<Rightarrow> buffer" where
  "be_bytes n = (if n = 0 then [] else be_bytes (n div 256) @ [of_nat (n mod 256)])"

declare be_bytes.simps [simp del]

definition derInt :: "nat \<Rightarrow> buffer" where
  "derInt n = (let b = be_bytes n in if b = [] \<or> 128 \<le> unat (hd b) then 0 # b else b)"

definition derSignature :: "nat \<Rightarrow> nat \<Rightarrow> buffer" where
  "derSignature r s =
     (let rb = derInt r; sb = derInt s in
      [0x30, of_nat (4 + length rb + length sb), 0x02, of_nat (length rb)] @ rb
        @ [0x02, of_nat (length sb)] @ sb)"

lemma be_nat_be_bytes [simp]: "be_nat (be_bytes n) = n"
proof (induction n rule: be_bytes.induct)
  case (1 n)
  then show ?case by (subst be_bytes.simps) simp
qed

lemma length_be_bytes: "n < 256 ^ k \<Longrightarrow> length (be_bytes n) \<le> k"
proof (induction k arbitrary: n)
  case 0
  then show ?case by (simp add: be_bytes.simps)
next
  case (Suc k)
  then have "n div 256 < 256 ^ k"
    by (simp add: div_less_iff_less_mult mult.commute)
  with Suc.IH have "length (be_bytes (n div 256)) \<le> k" by blast
  then show ?case by (subst be_bytes.simps) simp
qed

lemma be_nat_derInt [simp]: "be_nat (derInt n) = n"
  by (simp add: derInt_def Let_def be_nat_Cons)

lemma secp256k1n_less: "secp256k1n < 256 ^ 32"
  by (simp add: secp256k1n_def)

lemma length_derInt: "n < secp256k1n \<Longrightarrow> length (derInt n) \<le> 33"
  using length_be_bytes [of n 32] secp256k1n_less by (simp add: derInt_def Let_def)

lemma at_append:
  "at (xs @ ys) (Some i) = (if i < length xs then at xs (Some i) else at ys (Some (i - length xs)))"
  by (auto simp: nth_append)

lemma jsslice_at:
  "length xs = n \<Longrightarrow> n + length ys = m \<Longrightarrow> jsslice (xs @ ys @ zs) (Some n) (Some m) = ys"
  by (auto simp: jsslice_def)

lemma validate_ok:
  assumes "length r = 32" and "length s = 32"
  shows "validateSignatureComponents r s = Inr () \<longleftrightarrow>
    0 < be_nat r \<and> be_nat r < secp256k1n \<and> 0 < be_nat s \<and> be_nat s < secp256k1n"
proof -
  have "r \<noteq> []" "s \<noteq> []" using assms by auto
  then show ?thesis by (auto simp: validateSignatureComponents_def)
qed

text \<open>How the parser walks over the layout, for any two integer bodies shorter than 256 bytes.\<close>

lemma walk_layout:
  fixes l :: byte and rb sb sig :: buffer
  assumes "length rb < 256" and "length sb < 256"
  defines "sig \<equiv> [0x30, l, 0x02, of_nat (length rb)] @ rb @ [0x02, of_nat (length sb)] @ sb"
  shows "at sig (Some 0) = Some 0x30" and "at sig (Some 2) = Some 0x02"
    and "at sig (Some 3) = Some (length rb)"
    and "jsslice sig (Some 4) (Some (4 + length rb)) = rb"
    and "at sig (Some (4 + length rb)) = Some 0x02"
    and "at sig (Some (5 + length rb)) = Some (length sb)"
    and "jsslice sig (Some (6 + length rb)) (Some (6 + length rb + length sb)) = sb"
proof -
  let ?h = "[0x30, l, 0x02, of_nat (length rb)] :: buffer"
  let ?t = "[0x02, of_nat (length sb)] :: buffer"
  have len: "unat (of_nat (length rb) :: byte) = length rb"
    "unat (of_nat (length sb) :: byte) = length sb"
    using assms(1,2) by (simp_all add: unat_of_nat)
  show "at sig (Some 0) = Some 0x30" and "at sig (Some 2) = Some 0x02"
    by (simp_all add: sig_def)
  show "at sig (Some 3) = Some (length rb)"
    using len by (simp add: sig_def)
  show "jsslice sig (Some 4) (Some (4 + length rb)) = rb"
    unfolding sig_def by (rule jsslice_at) simp_all
  have a: "at sig (Some (4 + k + length rb)) = at (?t @ sb) (Some k)" for k
    using at_append [of "?h @ rb" "?t @ sb" "4 + k + length rb"] by (simp add: sig_def del: at.simps)
  show "at sig (Some (4 + length rb)) = Some 0x02"
    using a [of 0] by simp
  show "at sig (Some (5 + length rb)) = Some (length sb)"
    using a [of 1] len by simp
  show "jsslice sig (Some (6 + length rb)) (Some (6 + length rb + length sb)) = sb"
    using jsslice_at [of "?h @ rb @ ?t" "6 + length rb" sb "6 + length rb + length sb" "[]"]
    by (simp add: sig_def)
qed

lemma parse_layout:
  assumes "length rb < 256" and "length sb < 256"
    and "0 < be_nat rb" "be_nat rb < secp256k1n" "0 < be_nat sb" "be_nat sb < secp256k1n"
  shows "parseDERSignature
      ([0x30, l, 0x02, of_nat (length rb)] @ rb @ [0x02, of_nat (length sb)] @ sb) =
    Inr (be_fixed 32 (be_nat rb), be_fixed 32 (be_nat sb))"
proof -
  let ?sig = "[0x30, l, 0x02, of_nat (length rb)] @ rb @ [0x02, of_nat (length sb)] @ sb"
  note w = walk_layout [OF assms(1,2), of l]
  have lt: "be_nat rb < 256 ^ 32" "be_nat sb < 256 ^ 32"
    using assms(4,6) secp256k1n_less by linarith+
  have v: "validateSignatureComponents (be_fixed 32 (be_nat rb)) (be_fixed 32 (be_nat sb)) = Inr ()"
    using assms(3-6) lt by (subst validate_ok) simp_all
  have o: "jsadd (Some 2) (Some 1) = Some 3" "jsadd (Some 2) (Some 2) = Some 4"
    "jsadd (Some 4) (Some (length rb)) = Some (4 + length rb)"
    "jsadd (Some (4 + length rb)) (Some 1) = Some (5 + length rb)"
    "jsadd (Some (4 + length rb)) (Some 2) = Some (6 + length rb)"
    "jsadd (Some (6 + length rb)) (Some (length sb)) = Some (6 + length rb + length sb)"
    by simp_all
  show ?thesis
    by (simp only: parseDERSignature_def Let_def w o aws.norm_eq v ebind_simps if_False
        map_error.simps not_True_eq_False simp_thms)
qed

lemma parse_Inr:
  assumes "parseDERSignature sig = Inr (r, s)"
  shows "KMSHelper_parseDERSignature sig = (r, s) \<and> length r = 32 \<and> length s = 32 \<and>
    validateSignatureComponents r s = Inr ()"
proof -
  define rL where "rL = at sig (jsadd (Some 2) (Some 1))"
  define off where "off = jsadd (jsadd (Some 2) (Some 2)) rL"
  define rb where "rb = jsslice sig (jsadd (Some 2) (Some 2)) off"
  define sL where "sL = at sig (jsadd off (Some 1))"
  define sb where "sb = jsslice sig (jsadd off (Some 2)) (jsadd (jsadd off (Some 2)) sL)"
  note d = rL_def off_def rb_def sL_def sb_def
  have "validateSignatureComponents (ensure32Bytes (removeLeadingZeros rb))
      (ensure32Bytes (removeLeadingZeros sb)) = Inr () \<and>
    r = ensure32Bytes (removeLeadingZeros rb) \<and> s = ensure32Bytes (removeLeadingZeros sb)"
    using assms unfolding parseDERSignature_def Let_def d [symmetric]
    by (auto simp: ebind_Inr_iff simp del: jsadd.simps split: if_splits)
  moreover have "KMSHelper_parseDERSignature sig =
      (normalizeSignatureComponent rb, normalizeSignatureComponent sb)"
    unfolding KMSHelper_parseDERSignature_def Let_def d [symmetric] by simp
  ultimately show ?thesis
    by (simp add: normalisers_agree helper.norm_length)
qed

lemma zero_hexDigits: "hexDigits 0 = ''0''"
  by code_simp

section \<open>Properties\<close>

text \<open>C22: reading back the DER encoding of any pair of valid ECDSA scalars gives exactly their
  32-byte big-endian forms, whatever zero padding the encoding carries.\<close>

theorem der_roundtrip:
  assumes "0 < r" "r < secp256k1n" "0 < s" "s < secp256k1n"
  shows "parseDERSignature (derSignature r s) = Inr (be_fixed 32 r, be_fixed 32 s)"
proof -
  have "length (derInt r) < 256" "length (derInt s) < 256"
    using length_derInt [of r] length_derInt [of s] assms by simp_all
  from parse_layout [OF this] show ?thesis
    using assms by (simp add: derSignature_def Let_def)
qed

lemma der_roundtrip_witness:
  "parseDERSignature (derSignature 1 200) = Inr (be_fixed 32 1, be_fixed 32 200)"
  by (rule der_roundtrip) (simp_all add: secp256k1n_def)

lemma parse_facts:
  assumes "parseDERSignature sig = Inr (r, s)"
  shows "length r = 32" "length s = 32" "0 < be_nat r" "be_nat r < secp256k1n"
    "0 < be_nat s" "be_nat s < secp256k1n" "KMSHelper_parseDERSignature sig = (r, s)"
  using parse_Inr [OF assms] validate_ok [of r s] by auto

text \<open>whatever bytes the runner accepts as a signature, both components it returns are 32
  bytes long and lie strictly between 0 and the group order, and the unchecked parser of
  \<open>kms-contract-caller.js\<close> reads the same two components from them.\<close>

theorem parse_accepts_only_valid:
  assumes "parseDERSignature sig = Inr (r, s)"
  shows "length r = 32 \<and> length s = 32 \<and> 0 < be_nat r \<and> be_nat r < secp256k1n \<and>
    0 < be_nat s \<and> be_nat s < secp256k1n \<and> KMSHelper_parseDERSignature sig = (r, s)"
  using parse_facts [OF assms] by blast

lemma parse_accepts_only_valid_witness:
  "parseDERSignature [0x30, 6, 2, 1, 5, 2, 1, 7] = Inr (be_fixed 32 5, be_fixed 32 7) \<and>
   KMSHelper_parseDERSignature [0x30, 6, 2, 1, 5, 2, 1, 7] = (be_fixed 32 5, be_fixed 32 7)"
proof -
  have "parseDERSignature [0x30, 6, 2, 1, 5, 2, 1, 7] = Inr (be_fixed 32 5, be_fixed 32 7)"
    using parse_layout [of "[5]" "[7]" 6] by (simp add: secp256k1n_def be_nat_Cons)
  then show ?thesis using parse_accepts_only_valid by blast
qed

text \<open>the parser of \<open>kms-contract-caller.js\<close> has no checks: bytes that are no DER
  signature at all, which the runner's parser refuses, give it the pair of zero scalars.\<close>

theorem helper_parser_unchecked:
  "parseDERSignature [] = Inl ''DER parsing failed: Invalid DER format: missing sequence tag'' \<and>
   KMSHelper_parseDERSignature [] = (be_fixed 32 0, be_fixed 32 0) \<and>
   validateSignatureComponents (be_fixed 32 0) (be_fixed 32 0) = Inl ''Invalid r value: 0''"
proof (intro conjI)
  show "parseDERSignature [] = Inl ''DER parsing failed: Invalid DER format: missing sequence tag''"
    by (simp add: parseDERSignature_def)
  show "KMSHelper_parseDERSignature [] = (be_fixed 32 0, be_fixed 32 0)"
    by (simp add: KMSHelper_parseDERSignature_def Let_def jsslice_def helper.norm_eq
        del: be_fixed.simps)
  have "be_fixed 32 0 \<noteq> []"
    using length_be_fixed [of 32 0] by (metis list.size(3) zero_neq_numeral)
  then show "validateSignatureComponents (be_fixed 32 0) (be_fixed 32 0) = Inl ''Invalid r value: 0''"
    by (simp add: validateSignatureComponents_def zero_hexDigits)
qed

lemma normalizeS_facts:
  assumes "length s = 32" and "0 < be_nat s" and "be_nat s < secp256k1n"
  shows "\<exists>t. normalizeS s = Inr t \<and> length t = 32 \<and> 0 < be_nat t \<and>
    be_nat t \<le> secp256k1n div 2 \<and> be_nat t \<in> {be_nat s, secp256k1n - be_nat s} \<and>
    normalizeS t = Inr t"
proof -
  have low: "normalizeS t = Inr t" if "length t = 32" "be_nat t \<le> secp256k1n div 2" for t
  proof -
    have "t \<noteq> []" using that by auto
    with that show ?thesis by (simp add: normalizeS_def)
  qed
  show ?thesis
  proof (cases "secp256k1n div 2 < be_nat s")
    case False
    with assms low [of s] show ?thesis by auto
  next
    case True
    let ?t = "be_fixed 32 (secp256k1n - be_nat s)"
    have "s \<noteq> []" using assms by auto
    moreover have "secp256k1n - be_nat s < 256 ^ 32"
      using secp256k1n_less by linarith
    moreover have "bigIntToHex (int secp256k1n - int (be_nat s)) = hexDigits (secp256k1n - be_nat s)"
      using assms(3) by (simp add: bigIntToHex_def nat_diff_distrib)
    ultimately have "normalizeS s = Inr ?t" and v: "be_nat ?t = secp256k1n - be_nat s"
      using True by (simp_all add: normalizeS_def Let_def bufferFromHex_padStart
          del: be_fixed.simps power_numeral)
    moreover have "secp256k1n - be_nat s \<le> secp256k1n div 2" using True by linarith
    ultimately show ?thesis using low [of ?t] assms(3) by (intro exI [of _ ?t]) simp
  qed
qed

text \<open>C27: low-\<open>s\<close> normalisation of a valid component gives 32 bytes holding \<open>s\<close> or
  \<open>n - s\<close>, never above half the group order, and a second normalisation changes nothing.\<close>

theorem normalizeS_low:
  assumes "length s = 32" and "0 < be_nat s" and "be_nat s < secp256k1n"
  shows "\<exists>t. normalizeS s = Inr t \<and> length t = 32 \<and> 0 < be_nat t \<and>
    be_nat t \<le> secp256k1n div 2 \<and> be_nat t \<in> {be_nat s, secp256k1n - be_nat s} \<and>
    normalizeS t = Inr t"
  using normalizeS_facts [OF assms] .

lemma normalizeS_low_witness:
  "\<exists>t. normalizeS (be_fixed 32 (secp256k1n - 3)) = Inr t \<and> length t = 32 \<and>
     be_nat t \<le> secp256k1n div 2"
proof -
  have "be_nat (be_fixed 32 (secp256k1n - 3)) = secp256k1n - 3"
    using secp256k1n_less by (simp only: be_nat_be_fixed) (rule mod_less, linarith)
  then have "0 < be_nat (be_fixed 32 (secp256k1n - 3))" "be_nat (be_fixed 32 (secp256k1n - 3)) < secp256k1n"
    by (simp_all only:) (simp_all add: secp256k1n_def)
  with normalizeS_low [of "be_fixed 32 (secp256k1n - 3)"] show ?thesis
    by (metis length_be_fixed)
qed

lemma length_v: "v < 256 \<Longrightarrow> length (padStart 2 (CHR ''0'') (hexDigits v)) = 2"
  using length_hexDigits [of 2 v] by (simp add: padStart_def)

lemma length_fullSignature:
  "length r = 32 \<Longrightarrow> length s = 32 \<Longrightarrow> v < 256 \<Longrightarrow> length (fullSignature r s v) = 132"
  by (simp add: fullSignature_def length_v)

text \<open>the 65-byte signature string is 132 characters long, and the offsets at which
  \<open>signTransaction\<close> cuts it (0-66, 66-130, 130-132) give back exactly \<open>r\<close>, the normalised
  \<open>s\<close> and \<open>v\<close>.\<close>

theorem signature_layout:
  assumes "length r = 32" and "length s = 32" and "v < 256"
  shows "length (fullSignature r s v) = 132 \<and>
    tx_r (signedTxData h (fullSignature r s v)) = ''0x'' @ toHexString r \<and>
    tx_s (signedTxData h (fullSignature r s v)) = ''0x'' @ toHexString s \<and>
    bigIntHex (tx_v (signedTxData h (fullSignature r s v))) = Inr v"
proof -
  let ?v = "padStart 2 (CHR ''0'') (hexDigits v)"
  have lv: "length ?v = 2"
    using length_v [OF assms(3)] .
  have "hexNat 0 ?v = Some v"
    by (simp add: padStart_def hexNat_zeros hexNat_hexDigits)
  moreover obtain c d where "?v = [c, d]"
    using lv by (auto simp: numeral_2_eq_2 length_Suc_conv)
  ultimately have "bigIntHex ?v = Inr v"
    by (simp add: bigIntHex_def)
  with lv assms(1,2) show ?thesis
    by (simp add: signedTxData_def fullSignature_def slice_range_def)
qed

lemma signature_layout_witness:
  "length (fullSignature (be_fixed 32 9) (be_fixed 32 4) 27) = 132"
  using signature_layout [of "be_fixed 32 9" "be_fixed 32 4" 27] by simp

end
