(* ===== verification/Solidity.thy ===== *)
theory Solidity
  imports Prelude
begin

text \<open>
  What the contracts use of Solidity: 160-bit addresses, \<open>keccak256\<close> digests, packed encoding,
  and the checked arithmetic of version 0.8, which reverts with \<open>Panic(0x11)\<close> on overflow. A
  digest is kept as the string it was computed from, so that two digests are equal exactly when
  the hashed strings are: hash collisions are idealised away. A call that may revert is a value of
  \<open>'a fallible\<close>; the storage before the call is what remains after a revert.
\<close>

type_synonym addr = "160 word"

datatype bytes32 = Bytes0 | Keccak string

definition addr_bytes :: "addr \<Rightarrow> string" where
  "addr_bytes a = map (\<lambda>b. char_of (unat b)) (be_fixed 20 (unat a))"

text \<open>\<open>abi.encodePacked(name, payee)\<close>\<close>

definition encodePacked :: "string \<Rightarrow> addr \<Rightarrow> string" where
  "encodePacked name a = name @ addr_bytes a"

definition checked :: "nat \<Rightarrow> nat \<Rightarrow> nat fallible" where
  "checked w n = (if n < 2 ^ w then Inr n else Inl ''Panic(0x11)'')"

text \<open>Checked subtraction of \<open>uint256\<close>.\<close>

definition checked_sub :: "nat \<Rightarrow> nat \<Rightarrow> nat fallible" where
  "checked_sub a b = (if b \<le> a then Inr (a - b) else Inl ''Panic(0x11)'')"

lemma checked_sub_Inr_iff: "checked_sub a b = Inr c \<longleftrightarrow> b \<le> a \<and> c = a - b"
  by (auto simp: checked_sub_def)

lemma checked_Inr_iff [simp]: "checked w n = Inr m \<longleftrightarrow> n < 2 ^ w \<and> m = n"
  by (auto simp: checked_def)

lemma length_addr_bytes [simp]: "length (addr_bytes a) = 20"
  by (simp add: addr_bytes_def)

lemma addr_unat_less: "unat (a :: addr) < 256 ^ 20"
  using unsigned_less [of a] by simp

lemma addr_bytes_inject [simp]: "addr_bytes a = addr_bytes b \<longleftrightarrow> a = b"
proof
  assume eq: "addr_bytes a = addr_bytes b"
  have inj: "inj (\<lambda>b :: byte. char_of (unat b) :: char)"
  proof (rule injI)
    fix x y :: byte
    assume "(char_of (unat x) :: char) = char_of (unat y)"
    then have "(of_char (char_of (unat x) :: char) :: nat) = of_char (char_of (unat y) :: char)"
      by simp
    then show "x = y"
      by (simp add: word_unat_eq_iff)
  qed
  have "be_fixed 20 (unat a) = be_fixed 20 (unat b)"
    using eq inj by (simp only: addr_bytes_def inj_map_eq_map)
  then have "be_nat (be_fixed 20 (unat a)) = be_nat (be_fixed 20 (unat b))"
    by simp
  then have "unat a = unat b"
    by (simp only: be_nat_be_fixed mod_less addr_unat_less)
  then show "a = b" by (simp add: word_unat_eq_iff)
qed simp

text \<open>An address has a fixed width, so packing is injective although the name has none.\<close>

lemma encodePacked_inject [simp]: "encodePacked m a = encodePacked n b \<longleftrightarrow> m = n \<and> a = b"
  by (simp add: encodePacked_def append_eq_append_conv)

end
