(* ===== verification/AccessControl.thy ===== *)
theory AccessControl
  imports Solidity
begin

text \<open>
  \<open>AccessControlEnumerableUpgradeable\<close> is a library contract that is not part of the
  repository, so it is a parameter: a record of its entry points over its own storage type
  \<open>'ac\<close>, with the behaviour its documentation promises as the laws of a locale. \<open>grantRole\<close> and
  \<open>revokeRole\<close> take the caller first; \<open>setupRole\<close> and \<open>setRoleAdmin\<close> are the unchecked
  internal functions a contract calls while it is initialised. A reference instance over
  membership lists satisfies the laws, so concrete runs can be evaluated.
\<close>

record 'ac oz_access =
  hasRole :: "'ac \<Rightarrow> bytes32 \<Rightarrow> addr \<Rightarrow> bool"
  getRoleAdmin :: "'ac \<Rightarrow> bytes32 \<Rightarrow> bytes32"
  roleMembers :: "'ac \<Rightarrow> bytes32 \<Rightarrow> addr list"
  grantRole :: "'ac \<Rightarrow> addr \<Rightarrow> bytes32 \<Rightarrow> addr \<Rightarrow> 'ac fallible"
  revokeRole :: "'ac \<Rightarrow> addr \<Rightarrow> bytes32 \<Rightarrow> addr \<Rightarrow> 'ac fallible"
  setupRole :: "'ac \<Rightarrow> bytes32 \<Rightarrow> addr \<Rightarrow> 'ac"
  setRoleAdmin :: "'ac \<Rightarrow> bytes32 \<Rightarrow> bytes32 \<Rightarrow> 'ac"

locale access_control =
  fixes A :: "'ac oz_access"
  assumes grant_denied: "\<not> hasRole A s (getRoleAdmin A s r) c \<Longrightarrow> \<exists>e. grantRole A s c r a = Inl e"
    and grant_allowed: "hasRole A s (getRoleAdmin A s r) c \<Longrightarrow> \<exists>t. grantRole A s c r a = Inr t"
    and grant_hasRole: "grantRole A s c r a = Inr t \<Longrightarrow>
          hasRole A t r' b \<longleftrightarrow> hasRole A s r' b \<or> (r' = r \<and> b = a)"
    and grant_admin: "grantRole A s c r a = Inr t \<Longrightarrow> getRoleAdmin A t r' = getRoleAdmin A s r'"
    and revoke_denied: "\<not> hasRole A s (getRoleAdmin A s r) c \<Longrightarrow> \<exists>e. revokeRole A s c r a = Inl e"
    and revoke_allowed: "hasRole A s (getRoleAdmin A s r) c \<Longrightarrow> \<exists>t. revokeRole A s c r a = Inr t"
    and revoke_hasRole: "revokeRole A s c r a = Inr t \<Longrightarrow>
          hasRole A t r' b \<longleftrightarrow> hasRole A s r' b \<and> \<not> (r' = r \<and> b = a)"
    and revoke_admin: "revokeRole A s c r a = Inr t \<Longrightarrow> getRoleAdmin A t r' = getRoleAdmin A s r'"
    and setup_hasRole: "hasRole A (setupRole A s r a) r' b \<longleftrightarrow> hasRole A s r' b \<or> (r' = r \<and> b = a)"
    and setup_admin: "getRoleAdmin A (setupRole A s r a) r' = getRoleAdmin A s r'"
    and setAdmin_admin: "getRoleAdmin A (setRoleAdmin A s r x) r' = (if r' = r then x else getRoleAdmin A s r')"
    and setAdmin_hasRole: "hasRole A (setRoleAdmin A s r x) r' b \<longleftrightarrow> hasRole A s r' b"
    and members_set: "set (roleMembers A s r) = {a. hasRole A s r a}"
    and members_distinct: "distinct (roleMembers A s r)"
begin

lemma grant_iff: "(\<exists>t. grantRole A s c r a = Inr t) \<longleftrightarrow> hasRole A s (getRoleAdmin A s r) c"
  using grant_allowed grant_denied by (metis sum.distinct(1))

lemma revoke_iff: "(\<exists>t. revokeRole A s c r a = Inr t) \<longleftrightarrow> hasRole A s (getRoleAdmin A s r) c"
  using revoke_allowed revoke_denied by (metis sum.distinct(1))

lemma members_count: "length (roleMembers A s r) = card {a. hasRole A s r a}"
  using distinct_card [OF members_distinct] members_set by metis

lemma count_pos: "hasRole A s r a \<Longrightarrow> 0 < length (roleMembers A s r)"
  using members_set by (metis empty_iff length_greater_0_conv list.set(1) mem_Collect_eq)

lemma setup_list:
  "hasRole A (foldl (\<lambda>s a. setupRole A s r a) s xs) r' b \<longleftrightarrow> hasRole A s r' b \<or> (r' = r \<and> b \<in> set xs)"
  "getRoleAdmin A (foldl (\<lambda>s a. setupRole A s r a) s xs) r' = getRoleAdmin A s r'"
  by (induction xs arbitrary: s) (auto simp: setup_hasRole setup_admin)

lemma setup_list2:
  "hasRole A (foldl (\<lambda>s a. setupRole A (setupRole A s p a) q a) s xs) r' b \<longleftrightarrow>
     hasRole A s r' b \<or> (r' \<in> {p, q} \<and> b \<in> set xs)"
  "getRoleAdmin A (foldl (\<lambda>s a. setupRole A (setupRole A s p a) q a) s xs) r' = getRoleAdmin A s r'"
  by (induction xs arbitrary: s) (auto simp: setup_hasRole setup_admin)

end

section \<open>The reference instance\<close>

record acl =
  acl_members :: "bytes32 \<Rightarrow> addr list"
  acl_admin :: "bytes32 \<Rightarrow> bytes32"

definition acl_has :: "acl \<Rightarrow> bytes32 \<Rightarrow> addr \<Rightarrow> bool" where
  "acl_has s r a = (a \<in> set (remdups (acl_members s r)))"

definition acl_add :: "acl \<Rightarrow> bytes32 \<Rightarrow> addr \<Rightarrow> acl" where
  "acl_add s r a = s\<lparr>acl_members := (acl_members s)(r := List.insert a (acl_members s r))\<rparr>"

definition acl_remove :: "acl \<Rightarrow> bytes32 \<Rightarrow> addr \<Rightarrow> acl" where
  "acl_remove s r a = s\<lparr>acl_members := (acl_members s)(r := removeAll a (acl_members s r))\<rparr>"

definition acl_checked :: "acl \<Rightarrow> addr \<Rightarrow> bytes32 \<Rightarrow> acl \<Rightarrow> acl fallible" where
  "acl_checked s c r t =
     (if acl_has s (acl_admin s r) c then Inr t else Inl ''AccessControl: account is missing role'')"

definition reference_access :: "acl oz_access" where
  "reference_access =
     \<lparr>hasRole = acl_has, getRoleAdmin = acl_admin,
      roleMembers = (\<lambda>s r. remdups (acl_members s r)),
      grantRole = (\<lambda>s c r a. acl_checked s c r (acl_add s r a)),
      revokeRole = (\<lambda>s c r a. acl_checked s c r (acl_remove s r a)),
      setupRole = acl_add,
      setRoleAdmin = (\<lambda>s r x. s\<lparr>acl_admin := (acl_admin s)(r := x)\<rparr>)\<rparr>"

definition acl_empty :: acl where
  "acl_empty = \<lparr>acl_members = (\<lambda>_. []), acl_admin = (\<lambda>_. Bytes0)\<rparr>"

interpretation ref: access_control reference_access
  by unfold_locales
    (auto simp: reference_access_def acl_has_def acl_add_def acl_remove_def acl_checked_def
      split: if_splits)

lemmas reference_defs =
  reference_access_def acl_has_def acl_add_def acl_remove_def acl_checked_def acl_empty_def

end
