(* ===== verification/Roles.thy ===== *)
theory Roles
  imports AccessControl
begin

text \<open>
  \<open>contracts/Governance/Roles.sol\<close>: the role identifiers, the initialiser that seats the
  multisig contract as \<open>ADMIN\<close> and hands out the other roles, and the member listing the scripts
  read. Granting and revoking after initialisation are the inherited library functions.
\<close>

definition ADMIN :: bytes32 where "ADMIN = Keccak ''ADMIN''"
definition FOUNDATION_MANAGER :: bytes32 where "FOUNDATION_MANAGER = Keccak ''FOUNDATION_MANAGER''"
definition AUCTION_MANAGER :: bytes32 where "AUCTION_MANAGER = Keccak ''AUCTION_MANAGER''"
definition FEEDER :: bytes32 where "FEEDER = Keccak ''FEEDER''"
definition CROSSCHAIN_SENDER :: bytes32 where "CROSSCHAIN_SENDER = Keccak ''CROSSCHAIN_SENDER''"
definition TCASH_MINTER :: bytes32 where "TCASH_MINTER = Keccak ''TCASH_MINTER''"
definition TCASH_BURNER :: bytes32 where "TCASH_BURNER = Keccak ''TCASH_BURNER''"

lemmas role_defs =
  ADMIN_def FOUNDATION_MANAGER_def AUCTION_MANAGER_def FEEDER_def CROSSCHAIN_SENDER_def
  TCASH_MINTER_def TCASH_BURNER_def

record 'ac roles =
  r_initialized :: bool
  r_owner :: addr
  r_mulSig :: addr
  r_access :: 'ac

text \<open>The role assignments of \<open>initialize\<close>, in its order.\<close>

definition Roles_assign ::
    "'ac oz_access \<Rightarrow> 'ac \<Rightarrow> addr \<Rightarrow> addr list \<Rightarrow> addr list \<Rightarrow> addr list \<Rightarrow> addr list \<Rightarrow> addr list \<Rightarrow> 'ac"
  where
  "Roles_assign A s mulSigContract managers auctionManagers feeders crosschainSenders tcashManagers =
     (let s = setupRole A s ADMIN mulSigContract;
          s = setRoleAdmin A s ADMIN ADMIN;
          s = setRoleAdmin A s FOUNDATION_MANAGER ADMIN;
          s = setRoleAdmin A s AUCTION_MANAGER FOUNDATION_MANAGER;
          s = setRoleAdmin A s FEEDER ADMIN;
          s = setRoleAdmin A s CROSSCHAIN_SENDER ADMIN;
          s = setRoleAdmin A s TCASH_MINTER ADMIN;
          s = setRoleAdmin A s TCASH_BURNER ADMIN;
          s = foldl (\<lambda>s a. setupRole A s FOUNDATION_MANAGER a) s managers;
          s = foldl (\<lambda>s a. setupRole A s AUCTION_MANAGER a) s auctionManagers;
          s = foldl (\<lambda>s a. setupRole A s FEEDER a) s feeders;
          s = foldl (\<lambda>s a. setupRole A s CROSSCHAIN_SENDER a) s crosschainSenders
      in foldl (\<lambda>s a. setupRole A (setupRole A s TCASH_MINTER a) TCASH_BURNER a) s tcashManagers)"

definition Roles_initialize ::
    "'ac oz_access \<Rightarrow> 'ac roles \<Rightarrow> addr \<Rightarrow> addr \<Rightarrow> addr list \<Rightarrow> addr list \<Rightarrow> addr list \<Rightarrow> addr list
      \<Rightarrow> addr list \<Rightarrow> 'ac roles fallible" where
  "Roles_initialize A st sender mulSigContract managers auctionManagers feeders crosschainSenders
       tcashManagers =
     ebind (require (\<not> r_initialized st) ''Initializable: contract is already initialized'') (\<lambda>_.
     Inr (st\<lparr>r_initialized := True, r_owner := sender, r_mulSig := mulSigContract,
            r_access := Roles_assign A (r_access st) mulSigContract managers auctionManagers feeders
                          crosschainSenders tcashManagers\<rparr>))"

definition Roles_getRoleMemberCount :: "'ac oz_access \<Rightarrow> 'ac roles \<Rightarrow> bytes32 \<Rightarrow> nat" where
  "Roles_getRoleMemberCount A st role = length (roleMembers A (r_access st) role)"

definition Roles_getRoleMember :: "'ac oz_access \<Rightarrow> 'ac roles \<Rightarrow> bytes32 \<Rightarrow> nat \<Rightarrow> addr fallible" where
  "Roles_getRoleMember A st role i =
     (if i < length (roleMembers A (r_access st) role) then Inr (roleMembers A (r_access st) role ! i)
      else Inl ''Panic(0x32)'')"

text \<open>The loop of \<open>getRoleMemberArray\<close>: a zeroed array filled index by index.\<close>

definition Roles_getRoleMemberArray :: "'ac oz_access \<Rightarrow> 'ac roles \<Rightarrow> bytes32 \<Rightarrow> addr list fallible" where
  "Roles_getRoleMemberArray A st role =
     (let count = Roles_getRoleMemberCount A st role in
      efold (\<lambda>members i. ebind (Roles_getRoleMember A st role i) (\<lambda>m. Inr (members[i := m])))
        (replicate count 0) [0..<count])"

lemma fill_array:
  assumes "k \<le> length xs"
  shows "efold (\<lambda>ms i. ebind (if i < length xs then Inr (xs ! i) else Inl e) (\<lambda>m. Inr (ms[i := m])))
    (take k xs @ replicate (length xs - k) z) [k..<length xs] = Inr xs"
  using assms
proof (induction "length xs - k" arbitrary: k)
  case 0
  then show ?case by simp
next
  case (Suc n)
  then have k: "k < length xs" by simp
  then have u: "[k..<length xs] = k # [Suc k..<length xs]" by (rule upt_conv_Cons)
  have "(take k xs @ replicate (length xs - k) z)[k := xs ! k] =
      take (Suc k) xs @ replicate (length xs - Suc k) z"
  proof -
    obtain n where n: "length xs - k = Suc n" using k by (cases "length xs - k") auto
    then have "length xs - Suc k = n" by simp
    with n k show ?thesis by (simp add: list_update_append take_Suc_conv_app_nth)
  qed
  with Suc u k show ?case by simp
qed

lemma getRoleMemberArray_eq [simp]:
  "Roles_getRoleMemberArray A st role = Inr (roleMembers A (r_access st) role)"
  using fill_array [of 0 "roleMembers A (r_access st) role"]
  by (simp add: Roles_getRoleMemberArray_def Roles_getRoleMemberCount_def Roles_getRoleMember_def Let_def)

context access_control
begin

lemma assign_hasRole:
  "hasRole A (Roles_assign A s ms man auc fee cro tc) r a \<longleftrightarrow>
      hasRole A s r a \<or> (r = ADMIN \<and> a = ms) \<or> (r = FOUNDATION_MANAGER \<and> a \<in> set man) \<or>
      (r = AUCTION_MANAGER \<and> a \<in> set auc) \<or> (r = FEEDER \<and> a \<in> set fee) \<or>
      (r = CROSSCHAIN_SENDER \<and> a \<in> set cro) \<or> (r \<in> {TCASH_MINTER, TCASH_BURNER} \<and> a \<in> set tc)"
  by (simp only: Roles_assign_def Let_def setup_list setup_list2 setup_hasRole setAdmin_hasRole) blast

lemma assign_admin:
  "getRoleAdmin A (Roles_assign A s ms man auc fee cro tc) AUCTION_MANAGER = FOUNDATION_MANAGER"
  "r \<in> {ADMIN, FOUNDATION_MANAGER, FEEDER, CROSSCHAIN_SENDER, TCASH_MINTER, TCASH_BURNER} \<Longrightarrow>
      getRoleAdmin A (Roles_assign A s ms man auc fee cro tc) r = ADMIN"
  by (simp_all only: Roles_assign_def Let_def setup_list setup_list2 setup_admin setAdmin_admin)
    (auto simp: role_defs)

end

end
