(* ===== verification/Governance.thy ===== *)
theory Governance
  imports Roles
begin

text \<open>
  \<open>contracts/Governance/Governance.sol\<close>: the registry of treasures (asset kind to producer and
  production-data contract) and the signature threshold of the multisig. A contract another one
  calls is reached through a resolver, the function that gives the state of the contract deployed
  at an address or reverts when there is none.
\<close>

record treasure =
  t_Kind :: bytes32
  t_ProducerContract :: addr
  t_ProductionDataContract :: addr

record governance =
  g_initialized :: bool
  g_owner :: addr
  g_role :: addr
  g_parameterInfo :: addr
  g_mulSig :: addr
  g_dao :: addr
  g_treasures :: "bytes32 \<Rightarrow> treasure"

definition no_treasure :: treasure where
  "no_treasure = \<lparr>t_Kind = Bytes0, t_ProducerContract = 0, t_ProductionDataContract = 0\<rparr>"

definition Governance_addTreasure_internal ::
    "governance \<Rightarrow> string \<Rightarrow> addr \<Rightarrow> addr \<Rightarrow> governance fallible" where
  "Governance_addTreasure_internal st treasureType producer productionData =
     (let kind = Keccak treasureType in
      ebind (require (t_ProducerContract (g_treasures st kind) = 0) ''treasure type already exists'') (\<lambda>_.
      ebind (require (producer \<noteq> 0) ''empty producer contract'') (\<lambda>_.
      ebind (require (productionData \<noteq> 0) ''empty production data contract'') (\<lambda>_.
      let newTreasure = \<lparr>t_Kind = kind, t_ProducerContract = producer,
                         t_ProductionDataContract = productionData\<rparr>
      in Inr (st\<lparr>g_treasures := (g_treasures st)(t_Kind newTreasure := newTreasure)\<rparr>)))))"

definition Governance_initialize ::
    "governance \<Rightarrow> addr \<Rightarrow> addr \<Rightarrow> addr \<Rightarrow> addr \<Rightarrow> addr \<Rightarrow> string list \<Rightarrow> addr list \<Rightarrow> addr list
      \<Rightarrow> governance fallible" where
  "Governance_initialize st sender daoContract mulSigContract roleContract parameterInfoContract
       treasureTypes producers productionDatas =
     ebind (require (\<not> g_initialized st) ''Initializable: contract is already initialized'') (\<lambda>_.
     let st = st\<lparr>g_initialized := True, g_owner := sender, g_role := roleContract,
                 g_parameterInfo := parameterInfoContract, g_mulSig := mulSigContract,
                 g_dao := daoContract\<rparr> in
     ebind (require (length treasureTypes = length producers) ''treasure length mismatch'') (\<lambda>_.
     ebind (require (length treasureTypes = length productionDatas)
              ''treasureTypes mismatch with productionDatas length'') (\<lambda>_.
     efold (\<lambda>st (k, p, d). Governance_addTreasure_internal st k p d) st
       (zip treasureTypes (zip producers productionDatas)))))"

definition Governance_addTreasure ::
    "governance \<Rightarrow> addr \<Rightarrow> string \<Rightarrow> addr \<Rightarrow> addr \<Rightarrow> governance fallible" where
  "Governance_addTreasure st sender treasureType producer productionData =
     ebind (require (sender = g_mulSig st) '''') (\<lambda>_.
     Governance_addTreasure_internal st treasureType producer productionData)"

definition Governance_fmThreshold ::
    "'ac oz_access \<Rightarrow> (addr \<Rightarrow> 'ac roles fallible) \<Rightarrow> governance \<Rightarrow> nat fallible" where
  "Governance_fmThreshold A rolesAt st =
     ebind (rolesAt (g_role st)) (\<lambda>r.
     Inr (Roles_getRoleMemberCount A r FOUNDATION_MANAGER div 2 + 1))"

definition Governance_getTreasureByKind :: "governance \<Rightarrow> string \<Rightarrow> (addr \<times> addr) fallible" where
  "Governance_getTreasureByKind st treasureType =
     (let kind = Keccak treasureType in
      ebind (require (t_ProducerContract (g_treasures st kind) \<noteq> 0) ''treasure not found'') (\<lambda>_.
      Inr (t_ProducerContract (g_treasures st kind), t_ProductionDataContract (g_treasures st kind))))"

lemma getTreasureByKind_eq:
  "Governance_getTreasureByKind st k =
     (if t_ProducerContract (g_treasures st (Keccak k)) = 0 then Inl ''treasure not found''
      else Inr (t_ProducerContract (g_treasures st (Keccak k)),
                t_ProductionDataContract (g_treasures st (Keccak k))))"
  by (simp add: Governance_getTreasureByKind_def Let_def)

lemma getTreasureByKind_Inr_iff:
  "Governance_getTreasureByKind st k = Inr (p, d) \<longleftrightarrow>
     t_ProducerContract (g_treasures st (Keccak k)) = p \<and>
     t_ProductionDataContract (g_treasures st (Keccak k)) = d \<and> p \<noteq> 0"
  unfolding getTreasureByKind_eq by (rule iffI; (split if_splits)?; blast)

text \<open>A producer address that comes back from the registry is never the zero address.\<close>

lemma getTreasureByKind_nonzero: "Governance_getTreasureByKind st k = Inr (p, d) \<Longrightarrow> p \<noteq> 0"
  by (simp add: getTreasureByKind_Inr_iff)

lemma addTreasure_internal_Inr:
  assumes "Governance_addTreasure_internal st k p d = Inr st'"
  shows "Governance_getTreasureByKind st' k = Inr (p, d)"
    and "k' \<noteq> k \<Longrightarrow> Governance_getTreasureByKind st' k' = Governance_getTreasureByKind st k'"
    and "Governance_getTreasureByKind st k = Inl ''treasure not found''"
    and "g_role st' = g_role st \<and> g_mulSig st' = g_mulSig st"
  using assms
  by (auto simp: Governance_addTreasure_internal_def Governance_getTreasureByKind_def Let_def
      ebind_Inr_iff)

lemma fmThreshold_pos: "Governance_fmThreshold A R st = Inr n \<Longrightarrow> 0 < n"
  by (auto simp: Governance_fmThreshold_def ebind_Inr_iff)

end
