(* ===== verification/Producer.thy ===== *)
theory Producer
  imports Governance
begin

text \<open>
  The part of \<open>contracts/Treasure/Producer.sol\<close> the scripts talk to: its initialiser, the
  multisig address it trusts, and the registry of DApps. The wells are in \<open>Wells\<close>.
\<close>

record producer =
  p_initialized :: bool
  p_mulSig :: addr
  p_roles :: addr
  p_asset_type :: string
  p_productionData :: addr
  p_dapps :: "bytes32 \<Rightarrow> addr"

definition dappIdOf :: "string \<Rightarrow> addr \<Rightarrow> bytes32" where
  "dappIdOf name payee = Keccak (encodePacked name payee)"

definition Producer_initialize ::
    "producer \<Rightarrow> addr \<Rightarrow> addr \<Rightarrow> string \<Rightarrow> addr \<Rightarrow> string list \<Rightarrow> addr list \<Rightarrow> producer fallible" where
  "Producer_initialize st mulSigContract roleContract assetType productionDataContract dappNames payees =
     ebind (require (\<not> p_initialized st) ''Initializable: contract is already initialized'') (\<lambda>_.
     ebind (require (mulSigContract \<noteq> 0) ''empty MulSig contract'') (\<lambda>_.
     ebind (require (roleContract \<noteq> 0) ''empty Role contract'') (\<lambda>_.
     ebind (require (assetType \<noteq> '''') ''empty treasure type'') (\<lambda>_.
     ebind (require (productionDataContract \<noteq> 0) ''empty ProductionData contract'') (\<lambda>_.
     let st = st\<lparr>p_initialized := True, p_mulSig := mulSigContract, p_asset_type := assetType,
                 p_roles := roleContract, p_productionData := productionDataContract\<rparr> in
     ebind (require (length dappNames = length payees) ''dapps array must equal to payees array'') (\<lambda>_.
     efold (\<lambda>st (name, payee).
         ebind (require (name \<noteq> '''') ''has empty dapp name'') (\<lambda>_.
         ebind (require (payee \<noteq> 0) ''has empty dapp payee'') (\<lambda>_.
         Inr (st\<lparr>p_dapps := (p_dapps st)(dappIdOf name payee := payee)\<rparr>))))
       st (zip dappNames payees)))))))"

definition Producer_setMulSigContract ::
    "'ac oz_access \<Rightarrow> (addr \<Rightarrow> 'ac roles fallible) \<Rightarrow> producer \<Rightarrow> addr \<Rightarrow> addr \<Rightarrow> producer fallible" where
  "Producer_setMulSigContract A rolesAt st sender mulSigContract =
     ebind (rolesAt (p_roles st)) (\<lambda>r.
     ebind (require (hasRole A (r_access r) FOUNDATION_MANAGER sender) ''must have role FOUNDATION_MANAGER '') (\<lambda>_.
     ebind (require (mulSigContract \<noteq> 0) ''empty MulSig contract address'') (\<lambda>_.
     Inr (st\<lparr>p_mulSig := mulSigContract\<rparr>))))"

definition Producer_getMulSigContract :: "producer \<Rightarrow> addr" where
  "Producer_getMulSigContract st = p_mulSig st"

definition Producer_registerDAppConnect ::
    "producer \<Rightarrow> addr \<Rightarrow> string \<Rightarrow> addr \<Rightarrow> producer fallible" where
  "Producer_registerDAppConnect st sender dapp payee =
     ebind (require (sender = p_mulSig st) '''') (\<lambda>_.
     ebind (require (dapp \<noteq> '''') ''empty dapp name'') (\<lambda>_.
     ebind (require (payee \<noteq> 0) ''empty DApp payee'') (\<lambda>_.
     let dappId = dappIdOf dapp payee in
     ebind (require (p_dapps st dappId = 0) ''dapp already registered'') (\<lambda>_.
     Inr (st\<lparr>p_dapps := (p_dapps st)(dappId := payee)\<rparr>)))))"

definition Producer_getDAppPayee :: "producer \<Rightarrow> bytes32 \<Rightarrow> addr fallible" where
  "Producer_getDAppPayee st dappId =
     (let payee = p_dapps st dappId in
      ebind (require (payee \<noteq> 0) ''dapp with this dappId not registered yet'') (\<lambda>_. Inr payee))"

lemma getDAppPayee_Inr_iff:
  "Producer_getDAppPayee st i = Inr a \<longleftrightarrow> a = p_dapps st i \<and> a \<noteq> 0"
  by (auto simp: Producer_getDAppPayee_def Let_def ebind_Inr_iff)

lemma dappIdOf_inject [simp]: "dappIdOf m a = dappIdOf n b \<longleftrightarrow> m = n \<and> a = b"
  by (simp add: dappIdOf_def)

lemma registerDAppConnect_Inr:
  assumes "Producer_registerDAppConnect st sender dapp payee = Inr st'"
  shows "Producer_getDAppPayee st' (dappIdOf dapp payee) = Inr payee"
    and "i \<noteq> dappIdOf dapp payee \<Longrightarrow> p_dapps st' i = p_dapps st i"
    and "sender = p_mulSig st" and "p_mulSig st' = p_mulSig st"
  using assms
  by (auto simp: Producer_registerDAppConnect_def Producer_getDAppPayee_def Let_def ebind_Inr_iff)

text \<open>Every id in the registry is the id of its own payee; initialising and registering keep it.\<close>

definition dapps_ok :: "producer \<Rightarrow> bool" where
  "dapps_ok st \<longleftrightarrow> (\<forall>i. p_dapps st i \<noteq> 0 \<longrightarrow> (\<exists>name. name \<noteq> [] \<and> i = dappIdOf name (p_dapps st i)))"

lemma register_dapps_ok:
  "dapps_ok st \<Longrightarrow> Producer_registerDAppConnect st sender dapp payee = Inr st' \<Longrightarrow> dapps_ok st'"
  by (auto simp: dapps_ok_def Producer_registerDAppConnect_def Let_def ebind_Inr_iff)

lemma initialize_dapps_ok:
  assumes "dapps_ok st" and "Producer_initialize st m r k d names payees = Inr st'"
  shows "dapps_ok st'"
proof -
  define st0 where "st0 = st\<lparr>p_initialized := True, p_mulSig := m, p_asset_type := k,
                 p_roles := r, p_productionData := d\<rparr>"
  have st0: "dapps_ok st0"
    using assms(1) by (simp add: st0_def dapps_ok_def)
  have run: "efold (\<lambda>st (name, payee).
         ebind (require (name \<noteq> '''') ''has empty dapp name'') (\<lambda>_.
         ebind (require (payee \<noteq> 0) ''has empty dapp payee'') (\<lambda>_.
         Inr (st\<lparr>p_dapps := (p_dapps st)(dappIdOf name payee := payee)\<rparr>))))
       st0 (zip names payees) = Inr st'"
    using assms(2) by (auto simp: st0_def Producer_initialize_def Let_def ebind_Inr_iff)
  show ?thesis
    by (rule efold_inv [OF run, where P = dapps_ok, OF st0])
      (auto simp: dapps_ok_def ebind_Inr_iff split: prod.splits)
qed

end
