(* ===== verification/CrosschainTokens.thy ===== *)
theory CrosschainTokens
  imports Solidity
begin

text \<open>
  \<open>contracts/Governance/CrosschainTokens.sol\<close>: for every chain id and token name, the pair of
  token and bridge addresses on the source and target chain and the fee. Only the multisig writes
  it, and the multisig address is set once, by the owner.
\<close>

record token_info =
  ti_token :: string
  ti_sourceERC20 :: addr
  ti_sourceCrosschain :: addr
  ti_sourcechainid :: nat
  ti_targetERC20 :: addr
  ti_targetCrosschain :: addr
  ti_targetchainid :: nat
  ti_fee :: nat

definition empty_info :: token_info where
  "empty_info = \<lparr>ti_token = '''', ti_sourceERC20 = 0, ti_sourceCrosschain = 0, ti_sourcechainid = 0,
     ti_targetERC20 = 0, ti_targetCrosschain = 0, ti_targetchainid = 0, ti_fee = 0\<rparr>"

record crosschain_tokens =
  ct_initialized :: bool
  ct_owner :: addr
  ct_mulSig :: addr
  ct_tokens :: "nat \<Rightarrow> string \<Rightarrow> token_info"

definition CrosschainTokens_initialize :: "crosschain_tokens \<Rightarrow> addr \<Rightarrow> addr \<Rightarrow> crosschain_tokens fallible" where
  "CrosschainTokens_initialize st sender mulSigAddress =
     ebind (require (\<not> ct_initialized st) ''Initializable: contract is already initialized'') (\<lambda>_.
     Inr (st\<lparr>ct_initialized := True, ct_owner := sender, ct_mulSig := mulSigAddress\<rparr>))"

definition CrosschainTokens_setMulSig :: "crosschain_tokens \<Rightarrow> addr \<Rightarrow> addr \<Rightarrow> crosschain_tokens fallible" where
  "CrosschainTokens_setMulSig st sender mulSigAddress =
     ebind (require (sender = ct_owner st) ''Ownable: caller is not the owner'') (\<lambda>_.
     ebind (require (mulSigAddress \<noteq> 0) ''Invalid MulSig address'') (\<lambda>_.
     ebind (require (ct_mulSig st = 0) ''MulSig already set'') (\<lambda>_.
     Inr (st\<lparr>ct_mulSig := mulSigAddress\<rparr>))))"

definition CrosschainTokens_setCrosschainToken ::
    "crosschain_tokens \<Rightarrow> addr \<Rightarrow> token_info \<Rightarrow> nat \<Rightarrow> crosschain_tokens fallible" where
  "CrosschainTokens_setCrosschainToken st sender info chainId =
     ebind (require (sender = ct_mulSig st) ''Caller is not MulSig'') (\<lambda>_.
     ebind (require (0 < length (ti_token info)) ''Token name cannot be empty'') (\<lambda>_.
     Inr (st\<lparr>ct_tokens := (ct_tokens st)(chainId := (ct_tokens st chainId)(ti_token info := info))\<rparr>)))"

definition CrosschainTokens_getCrosschainTokenByChainId ::
    "crosschain_tokens \<Rightarrow> string \<Rightarrow> nat \<Rightarrow> token_info" where
  "CrosschainTokens_getCrosschainTokenByChainId st token chainId = ct_tokens st chainId token"

text \<open>The information for the chain \<open>chainid\<close> the contract is on.\<close>

definition CrosschainTokens_getCrosschainToken :: "nat \<Rightarrow> crosschain_tokens \<Rightarrow> string \<Rightarrow> token_info" where
  "CrosschainTokens_getCrosschainToken chainid st token = ct_tokens st chainid token"

lemma getCrosschainToken_eq:
  "CrosschainTokens_getCrosschainToken chainid st token = CrosschainTokens_getCrosschainTokenByChainId st token chainid"
  by (simp add: CrosschainTokens_getCrosschainToken_def CrosschainTokens_getCrosschainTokenByChainId_def)

text \<open>
  The deployment initialises the contract with the zero address and sets the multisig in a second step;
  after that it is fixed.
\<close>

lemma setMulSig_once:
  assumes "CrosschainTokens_initialize st owner 0 = Inr st1"
    and "CrosschainTokens_setMulSig st1 owner m = Inr st2"
  shows "ct_mulSig st2 = m" and "\<exists>e. CrosschainTokens_setMulSig st2 s m' = Inl e"
    and "\<exists>e. CrosschainTokens_initialize st2 s m' = Inl e"
  using assms by (auto simp: CrosschainTokens_initialize_def CrosschainTokens_setMulSig_def ebind_Inr_iff require_def)

lemma setCrosschainToken_get:
  assumes "CrosschainTokens_setCrosschainToken st sender info chainId = Inr st'"
  shows "CrosschainTokens_getCrosschainTokenByChainId st' t c =
    (if t = ti_token info \<and> c = chainId then info
     else CrosschainTokens_getCrosschainTokenByChainId st t c)"
  using assms
  by (auto simp: CrosschainTokens_setCrosschainToken_def
      CrosschainTokens_getCrosschainTokenByChainId_def ebind_Inr_iff)

text \<open>Every stored entry carries the name it is stored under.\<close>

definition tokens_ok :: "crosschain_tokens \<Rightarrow> bool" where
  "tokens_ok st \<longleftrightarrow> (\<forall>c t. ct_tokens st c t = empty_info \<or> (t \<noteq> [] \<and> ti_token (ct_tokens st c t) = t))"

lemma setCrosschainToken_ok:
  assumes "tokens_ok st" and "CrosschainTokens_setCrosschainToken st sender info chainId = Inr st'"
  shows "tokens_ok st'"
proof -
  have *: "ct_tokens st' c t = (if t = ti_token info \<and> c = chainId then info else ct_tokens st c t)" for c t
    using setCrosschainToken_get [OF assms(2)]
    by (simp add: CrosschainTokens_getCrosschainTokenByChainId_def)
  have "ti_token info \<noteq> []"
    using assms(2) by (simp add: CrosschainTokens_setCrosschainToken_def ebind_Inr_iff)
  with assms(1) show ?thesis
    unfolding tokens_ok_def by (simp add: *)
qed

end
