(* ===== verification/ParameterInfo.thy ===== *)
theory ParameterInfo
  imports Solidity
begin

text \<open>
  \<open>contracts/Governance/ParameterInfo.sol\<close>: the platform parameters with the range each setter
  enforces, and the price discount table.
\<close>

record parameter_info =
  pi_initialized :: bool
  pi_mulSig :: addr
  pi_API :: nat
  pi_sulphur :: nat
  pi_discount :: "nat list"
  pi_platformConfig :: "string \<Rightarrow> nat"
  pi_warnRatio :: nat
  pi_liquidationRatio :: nat

definition ParameterInfo_initialize :: "parameter_info \<Rightarrow> addr \<Rightarrow> parameter_info fallible" where
  "ParameterInfo_initialize st mulSigContract =
     ebind (require (\<not> pi_initialized st) ''Initializable: contract is already initialized'') (\<lambda>_.
     Inr (st\<lparr>pi_initialized := True, pi_mulSig := mulSigContract,
            pi_warnRatio := 9900, pi_liquidationRatio := 9000,
            pi_platformConfig := (pi_platformConfig st)
              (''marginRatio'' := 100, ''reserveRatio'' := 1000, ''loanInterestRate'' := 5,
               ''loanPledgeRate'' := 15000, ''TCASHDIR'' := 5, ''TCASHMCT'' := 750000,
               ''TCASHLT'' := 500000, ''TCASHRC'' := 365, ''TCASHMLT'' := 3000,
               ''TCASHMRST'' := 11000),
            pi_API := 3110, pi_sulphur := 500, pi_discount := [9000, 8500, 8000, 7500]\<rparr>))"

definition ParameterInfo_set :: "parameter_info \<Rightarrow> string \<Rightarrow> nat \<Rightarrow> parameter_info" where
  "ParameterInfo_set st key amount =
     st\<lparr>pi_platformConfig := (pi_platformConfig st)(key := amount)\<rparr>"

definition ParameterInfo_setPlatformConfig ::
    "parameter_info \<Rightarrow> addr \<Rightarrow> string \<Rightarrow> nat \<Rightarrow> parameter_info fallible" where
  "ParameterInfo_setPlatformConfig st sender key amount =
     ebind (require (sender = pi_mulSig st) '''') (\<lambda>_.
     if key = ''marginRatio'' \<or> key = ''reserveRatio'' then
       ebind (require (amount \<le> 10000) ''overflow'') (\<lambda>_. Inr (ParameterInfo_set st key amount))
     else if key = ''loanInterestRate'' then
       ebind (require (amount \<le> 100) ''overflow'') (\<lambda>_. Inr (ParameterInfo_set st key amount))
     else if key = ''loanPledgeRate'' then
       ebind (require (12000 \<le> amount \<and> amount \<le> 66600) ''overflow'') (\<lambda>_.
       Inr (ParameterInfo_set st key amount))
     else if key = ''liquidationRatio'' then
       ebind (require (9000 \<le> amount \<and> amount \<le> 9900) ''overflow'') (\<lambda>_.
       Inr (st\<lparr>pi_liquidationRatio := amount\<rparr>))
     else if key = ''TCASHDIR'' then
       ebind (require (0 < amount \<and> amount \<le> 1000) ''Invalid interest rate'') (\<lambda>_.
       Inr (ParameterInfo_set st key amount))
     else if key = ''TCASHMCT'' then
       ebind (require (500000 < amount \<and> amount \<le> 2000000) ''Invalid margin call threshold'') (\<lambda>_.
       Inr (ParameterInfo_set st key amount))
     else if key = ''TCASHLT'' then
       ebind (require (400000 < amount \<and> amount \<le> pi_platformConfig st ''TCASHMCT'')
                ''Invalid liquidation threshold'') (\<lambda>_.
       Inr (ParameterInfo_set st key amount))
     else if key = ''TCASHRC'' then
       ebind (require (0 < amount \<and> amount \<le> 1000) ''Invalid repayment cycle'') (\<lambda>_.
       Inr (ParameterInfo_set st key amount))
     else if key = ''TCASHMLT'' then
       ebind (require (0 < amount \<and> amount \<le> 10000) ''Invalid mint lock threshold'') (\<lambda>_.
       Inr (ParameterInfo_set st key amount))
     else if key = ''TCASHMRST'' then
       ebind (require (10000 < amount \<and> amount \<le> 20000) ''Invalid mint reset threshold'') (\<lambda>_.
       Inr (ParameterInfo_set st key amount))
     else Inl ''not support'')"

definition ParameterInfo_setPriceDiscountConfig ::
    "parameter_info \<Rightarrow> addr \<Rightarrow> nat \<Rightarrow> nat \<Rightarrow> nat \<Rightarrow> nat \<Rightarrow> nat \<Rightarrow> nat \<Rightarrow> parameter_info fallible" where
  "ParameterInfo_setPriceDiscountConfig st sender API sulphur d1 d2 d3 d4 =
     ebind (require (sender = pi_mulSig st) '''') (\<lambda>_.
     ebind (require (API \<le> 10000) ''overflow'') (\<lambda>_.
     ebind (require (sulphur \<le> 10000) ''overflow'') (\<lambda>_.
     ebind (require (d1 \<le> 10000) ''overflow'') (\<lambda>_.
     ebind (require (d1 > d2 \<and> d2 > d3 \<and> d3 > d4) ''overflow'') (\<lambda>_.
     Inr (st\<lparr>pi_API := API, pi_sulphur := sulphur, pi_discount := [d1, d2, d3, d4]\<rparr>))))))"

definition ParameterInfo_getPriceDiscountConfig :: "parameter_info \<Rightarrow> nat \<Rightarrow> nat \<Rightarrow> nat fallible" where
  "ParameterInfo_getPriceDiscountConfig st API sulphur =
     ebind (require (API \<noteq> 0 \<and> sulphur \<noteq> 0) ''this mine data is error or not exist this mine.'') (\<lambda>_.
     let discount = 0;
         discount = (if pi_API st < API \<and> sulphur < pi_sulphur st then pi_discount st ! 0 else discount);
         discount = (if pi_API st < API \<and> pi_sulphur st \<le> sulphur then pi_discount st ! 1 else discount);
         discount = (if API \<le> pi_API st \<and> sulphur < pi_sulphur st then pi_discount st ! 2 else discount);
         discount = (if API \<le> pi_API st \<and> pi_sulphur st \<le> sulphur then pi_discount st ! 3 else discount)
     in Inr discount)"

text \<open>The ranges that hold from initialisation on: key, least and greatest value.\<close>

definition ranges :: "(string \<times> nat \<times> nat) list" where
  "ranges =
     [(''marginRatio'', 0, 10000), (''reserveRatio'', 0, 10000), (''loanInterestRate'', 0, 100),
      (''loanPledgeRate'', 12000, 66600), (''TCASHDIR'', 1, 1000), (''TCASHMCT'', 500001, 2000000),
      (''TCASHLT'', 400001, 2000000), (''TCASHRC'', 1, 1000), (''TCASHMLT'', 1, 10000),
      (''TCASHMRST'', 10001, 20000)]"

definition in_range :: "string \<Rightarrow> nat \<Rightarrow> bool" where
  "in_range key v = list_all (\<lambda>(k, lo, hi). k = key \<longrightarrow> lo \<le> v \<and> v \<le> hi) ranges"

fun decreasing_table :: "nat list \<Rightarrow> bool" where
  "decreasing_table [d1, d2, d3, d4] = (d1 \<le> 10000 \<and> d1 > d2 \<and> d2 > d3 \<and> d3 > d4)"
| "decreasing_table _ = False"

definition params_ok :: "parameter_info \<Rightarrow> bool" where
  "params_ok st \<longleftrightarrow> (\<forall>key. in_range key (pi_platformConfig st key)) \<and>
     9000 \<le> pi_liquidationRatio st \<and> pi_liquidationRatio st \<le> 9900 \<and>
     decreasing_table (pi_discount st)"

lemma set_params_ok:
  "params_ok st \<Longrightarrow> in_range key v \<Longrightarrow> params_ok (ParameterInfo_set st key v)"
  by (simp add: params_ok_def ParameterInfo_set_def)

lemma initialize_params_ok:
  assumes "ParameterInfo_initialize st m = Inr st'"
  shows "params_ok st'"
proof -
  have st': "list_all (\<lambda>(k, lo, hi). lo \<le> pi_platformConfig st' k \<and> pi_platformConfig st' k \<le> hi) ranges"
    "pi_liquidationRatio st' = 9000" "pi_discount st' = [9000, 8500, 8000, 7500]"
    using assms by (auto simp: ParameterInfo_initialize_def ebind_Inr_iff ranges_def)
  then have "in_range k (pi_platformConfig st' k)" for k
    unfolding in_range_def list_all_iff by fast
  with st' show ?thesis by (simp add: params_ok_def)
qed

lemma mct_bound: "params_ok st \<Longrightarrow> pi_platformConfig st ''TCASHMCT'' \<le> 2000000"
  unfolding params_ok_def
  by (elim conjE allE [where x = "''TCASHMCT''"]) (simp add: in_range_def ranges_def)

lemma setPlatformConfig_params_ok:
  assumes ok: "params_ok st" and run: "ParameterInfo_setPlatformConfig st c key v = Inr st'"
  shows "params_ok st'"
proof (cases "key = ''liquidationRatio''")
  case True
  with ok run show ?thesis
    by (auto simp: ParameterInfo_setPlatformConfig_def ebind_Inr_iff params_ok_def)
next
  case False
  have "st' = ParameterInfo_set st key v \<and> in_range key v"
    using run False mct_bound [OF ok]
    unfolding ParameterInfo_setPlatformConfig_def
    by (simp add: ebind_Inr_iff split: if_split_asm)
      (auto simp add: in_range_def ranges_def)
  with ok show ?thesis by (simp add: set_params_ok)
qed

lemma setPriceDiscountConfig_params_ok:
  "params_ok st \<Longrightarrow> ParameterInfo_setPriceDiscountConfig st c api sul d1 d2 d3 d4 = Inr st' \<Longrightarrow> params_ok st'"
  by (auto simp: ParameterInfo_setPriceDiscountConfig_def params_ok_def ebind_Inr_iff)

lemma discount_in_table:
  assumes "params_ok st" and "ParameterInfo_getPriceDiscountConfig st api sul = Inr d"
  shows "d \<in> set (pi_discount st) \<and> d \<le> 10000"
proof -
  obtain d1 d2 d3 d4 where "pi_discount st = [d1, d2, d3, d4]" "10000 \<ge> d1 \<and> d1 > d2 \<and> d2 > d3 \<and> d3 > d4"
    using assms(1) by (auto simp: params_ok_def elim: decreasing_table.elims)
  then show ?thesis
    using assms(2)
    by (auto simp: ParameterInfo_getPriceDiscountConfig_def ebind_Inr_iff Let_def split: if_splits)
qed

end
