(* ===== verification/MulSig.thy ===== *)
theory MulSig
  imports Producer CrosschainTokens ParameterInfo
begin

text \<open>
  \<open>contracts/Governance/MulSig.sol\<close> and the chain it runs on. The contract keeps the proposals,
  the queue of pending ids, the id counter and the addresses of the contracts it drives. Its entry
  points take the caller, return the chain after the call together with the emitted events, and
  revert with a reason. A call to an address where none of the modelled contracts lives reverts.
\<close>

section \<open>State\<close>

record proposal =
  pr_proposer :: addr
  pr_name :: string
  pr_add :: addr
  pr_value :: nat
  pr_API :: nat
  pr_sulphur :: nat
  pr_discount :: "nat list"
  pr_type :: nat
  pr_signatureCount :: nat
  pr_excuteTime :: nat
  pr_producer :: addr
  pr_productionData :: addr
  pr_signatures :: "addr \<Rightarrow> nat"
  pr_treasureKind :: string
  pr_payee :: addr
  pr_token :: string
  pr_sourceERC20 :: addr
  pr_sourceCrosschain :: addr
  pr_sourceChainId :: nat
  pr_targetERC20 :: addr
  pr_targetCrosschain :: addr
  pr_targetChainId :: nat
  pr_fee :: nat
  pr_chainId :: nat

record mulsig =
  ms_initialized :: bool
  ms_owner :: addr
  ms_proposals :: "nat \<Rightarrow> proposal"
  ms_pendingProposals :: "nat list"
  ms_proposalIDx :: nat
  ms_confirmDuration :: nat
  ms_dao :: addr
  ms_governance :: addr
  ms_parameterInfo :: addr
  ms_roles :: addr
  ms_crosschainTokens :: addr

text \<open>The zero value of the struct; the signatures are a mapping, which \<open>delete\<close> does not clear.\<close>

definition delete_proposal :: "proposal \<Rightarrow> proposal" where
  "delete_proposal p =
     \<lparr>pr_proposer = 0, pr_name = '''', pr_add = 0, pr_value = 0, pr_API = 0, pr_sulphur = 0,
      pr_discount = [0, 0, 0, 0], pr_type = 0, pr_signatureCount = 0, pr_excuteTime = 0,
      pr_producer = 0, pr_productionData = 0, pr_signatures = pr_signatures p,
      pr_treasureKind = '''', pr_payee = 0, pr_token = '''', pr_sourceERC20 = 0,
      pr_sourceCrosschain = 0, pr_sourceChainId = 0, pr_targetERC20 = 0, pr_targetCrosschain = 0,
      pr_targetChainId = 0, pr_fee = 0, pr_chainId = 0\<rparr>"

record 'ac chain =
  c_rolesAt :: addr
  c_governanceAt :: addr
  c_mulSigAt :: addr
  c_tokensAt :: addr
  c_paramAt :: addr
  c_roles :: "'ac roles"
  c_governance :: governance
  c_mulSig :: mulsig
  c_tokens :: crosschain_tokens
  c_param :: parameter_info
  c_producers :: "addr \<Rightarrow> producer option"
  c_time :: nat

definition roles_at :: "'ac chain \<Rightarrow> addr \<Rightarrow> 'ac roles fallible" where
  "roles_at ch a = (if a = c_rolesAt ch then Inr (c_roles ch) else Inl '''')"

definition governance_at :: "'ac chain \<Rightarrow> addr \<Rightarrow> governance fallible" where
  "governance_at ch a = (if a = c_governanceAt ch then Inr (c_governance ch) else Inl '''')"

definition tokens_at :: "'ac chain \<Rightarrow> addr \<Rightarrow> crosschain_tokens fallible" where
  "tokens_at ch a = (if a = c_tokensAt ch then Inr (c_tokens ch) else Inl '''')"

definition param_at :: "'ac chain \<Rightarrow> addr \<Rightarrow> parameter_info fallible" where
  "param_at ch a = (if a = c_paramAt ch then Inr (c_param ch) else Inl '''')"

definition producer_at :: "'ac chain \<Rightarrow> addr \<Rightarrow> producer fallible" where
  "producer_at ch a = (case c_producers ch a of None \<Rightarrow> Inl '''' | Some p \<Rightarrow> Inr p)"

datatype event =
    ManagePermission nat addr string addr
  | AddResource nat addr string addr addr
  | RegisterDApp nat addr string string addr
  | SetPlatformConfig nat addr string nat
  | SetDiscountConfig nat addr nat nat "nat list"
  | SetCrosschainTokenProposed nat addr string
  | ProposalSigned nat addr
  | ProposalExecuted nat

type_synonym 'ac tx = "('ac chain \<times> event list) fallible"

abbreviation set_mulSig :: "'ac chain \<Rightarrow> mulsig \<Rightarrow> 'ac chain" where
  "set_mulSig ch m \<equiv> ch\<lparr>c_mulSig := m\<rparr>"

section \<open>Initialisation and guards\<close>

definition MulSig_initialize ::
    "mulsig \<Rightarrow> addr \<Rightarrow> addr \<Rightarrow> addr \<Rightarrow> addr \<Rightarrow> addr \<Rightarrow> addr \<Rightarrow> nat \<Rightarrow> mulsig fallible" where
  "MulSig_initialize st sender daoContract governanceContract roleContract parameterInfoContract
       crosschainTokensContract confirmation =
     ebind (require (\<not> ms_initialized st) ''Initializable: contract is already initialized'') (\<lambda>_.
     Inr (st\<lparr>ms_initialized := True, ms_owner := sender, ms_confirmDuration := confirmation,
            ms_dao := daoContract, ms_governance := governanceContract,
            ms_parameterInfo := parameterInfoContract, ms_roles := roleContract,
            ms_crosschainTokens := crosschainTokensContract\<rparr>))"

definition MulSig_getCurrentValues :: "mulsig \<Rightarrow> addr \<times> addr \<times> addr \<times> addr \<times> addr \<times> nat" where
  "MulSig_getCurrentValues st =
     (ms_dao st, ms_governance st, ms_roles st, ms_parameterInfo st, ms_crosschainTokens st,
      ms_confirmDuration st)"

definition onlyFoundationManager :: "'ac oz_access \<Rightarrow> 'ac chain \<Rightarrow> addr \<Rightarrow> unit fallible" where
  "onlyFoundationManager A ch sender =
     ebind (roles_at ch (ms_roles (c_mulSig ch))) (\<lambda>r.
     require (hasRole A (r_access r) FOUNDATION_MANAGER sender) ''only foundation manager'')"

definition threshold :: "'ac oz_access \<Rightarrow> 'ac chain \<Rightarrow> nat fallible" where
  "threshold A ch =
     ebind (governance_at ch (ms_governance (c_mulSig ch))) (Governance_fmThreshold A (roles_at ch))"

section \<open>Proposing\<close>

text \<open>
  Every proposing function takes the next id, writes its own fields over what the storage slot
  holds, zeroes the signature count and queues the id.
\<close>

definition new_proposal :: "mulsig \<Rightarrow> (proposal \<Rightarrow> proposal) \<Rightarrow> (nat \<times> mulsig) fallible" where
  "new_proposal m fill =
     (let proposalID = ms_proposalIDx m in
      ebind (checked 256 (proposalID + 1)) (\<lambda>next.
      Inr (proposalID,
           m\<lparr>ms_proposalIDx := next,
             ms_proposals := (ms_proposals m)(proposalID :=
               (fill (ms_proposals m proposalID))\<lparr>pr_signatureCount := 0\<rparr>),
             ms_pendingProposals := ms_pendingProposals m @ [proposalID]\<rparr>)))"

definition MulSig_proposeToManagePermission ::
    "'ac oz_access \<Rightarrow> 'ac chain \<Rightarrow> addr \<Rightarrow> string \<Rightarrow> addr \<Rightarrow> 'ac tx" where
  "MulSig_proposeToManagePermission A ch sender name account =
     ebind (onlyFoundationManager A ch sender) (\<lambda>_.
     ebind (require (account \<noteq> 0) ''MulSig:zero address'') (\<lambda>_.
     ebind (new_proposal (c_mulSig ch) (\<lambda>kk. kk\<lparr>pr_proposer := sender, pr_name := name,
              pr_add := account, pr_type := 1\<rparr>)) (\<lambda>(proposalID, m).
     Inr (set_mulSig ch m, [ManagePermission proposalID sender name account]))))"

definition MulSig_proposeToAddResource ::
    "'ac oz_access \<Rightarrow> 'ac chain \<Rightarrow> addr \<Rightarrow> string \<Rightarrow> addr \<Rightarrow> addr \<Rightarrow> 'ac tx" where
  "MulSig_proposeToAddResource A ch sender name producer productionData =
     ebind (onlyFoundationManager A ch sender) (\<lambda>_.
     ebind (new_proposal (c_mulSig ch) (\<lambda>kk. kk\<lparr>pr_proposer := sender, pr_name := name,
              pr_type := 2, pr_producer := producer, pr_productionData := productionData\<rparr>))
       (\<lambda>(proposalID, m).
     Inr (set_mulSig ch m, [AddResource proposalID sender name producer productionData])))"

definition MulSig_proposeToRegisterDApp ::
    "'ac oz_access \<Rightarrow> 'ac chain \<Rightarrow> addr \<Rightarrow> string \<Rightarrow> string \<Rightarrow> addr \<Rightarrow> 'ac tx" where
  "MulSig_proposeToRegisterDApp A ch sender treasure dapp payee =
     ebind (onlyFoundationManager A ch sender) (\<lambda>_.
     ebind (require (Keccak treasure \<noteq> Keccak '''') ''empty treasure name'') (\<lambda>_.
     ebind (require (Keccak dapp \<noteq> Keccak '''') ''empty dapp name'') (\<lambda>_.
     ebind (require (payee \<noteq> 0) ''empty DApp payee'') (\<lambda>_.
     ebind (governance_at ch (ms_governance (c_mulSig ch))) (\<lambda>g.
     ebind (Governance_getTreasureByKind g treasure) (\<lambda>(producerContract, _).
     ebind (require (producerContract \<noteq> 0) ''treasure with this kind not found'') (\<lambda>_.
     ebind (new_proposal (c_mulSig ch) (\<lambda>kk. kk\<lparr>pr_proposer := sender, pr_name := dapp,
              pr_treasureKind := treasure, pr_payee := payee, pr_type := 5\<rparr>)) (\<lambda>(proposalID, m).
     Inr (set_mulSig ch m, [RegisterDApp proposalID sender treasure dapp payee])))))))))"

definition MulSig_proposeToSetPlatformConfig ::
    "'ac oz_access \<Rightarrow> 'ac chain \<Rightarrow> addr \<Rightarrow> string \<Rightarrow> nat \<Rightarrow> 'ac tx" where
  "MulSig_proposeToSetPlatformConfig A ch sender name val =
     ebind (onlyFoundationManager A ch sender) (\<lambda>_.
     ebind (new_proposal (c_mulSig ch) (\<lambda>kk. kk\<lparr>pr_proposer := sender, pr_name := name,
              pr_value := val, pr_type := 3\<rparr>)) (\<lambda>(proposalID, m).
     Inr (set_mulSig ch m, [SetPlatformConfig proposalID sender name val])))"

definition MulSig_proposeToSetDiscountConfig ::
    "'ac oz_access \<Rightarrow> 'ac chain \<Rightarrow> addr \<Rightarrow> nat \<Rightarrow> nat \<Rightarrow> nat \<Rightarrow> nat \<Rightarrow> nat \<Rightarrow> nat \<Rightarrow> 'ac tx" where
  "MulSig_proposeToSetDiscountConfig A ch sender b1 b2 b3 b4 b5 b6 =
     ebind (onlyFoundationManager A ch sender) (\<lambda>_.
     ebind (new_proposal (c_mulSig ch) (\<lambda>kk. kk\<lparr>pr_proposer := sender, pr_API := b1,
              pr_sulphur := b2, pr_discount := [b3, b4, b5, b6], pr_type := 4\<rparr>)) (\<lambda>(proposalID, m).
     Inr (set_mulSig ch m, [SetDiscountConfig proposalID sender b1 b2 [b3, b4, b5, b6]])))"

definition MulSig_proposeToSetCrosschainToken ::
    "'ac oz_access \<Rightarrow> 'ac chain \<Rightarrow> addr \<Rightarrow> token_info \<Rightarrow> nat \<Rightarrow> 'ac tx" where
  "MulSig_proposeToSetCrosschainToken A ch sender i chainId =
     ebind (onlyFoundationManager A ch sender) (\<lambda>_.
     ebind (new_proposal (c_mulSig ch) (\<lambda>kk. kk\<lparr>pr_proposer := sender, pr_token := ti_token i,
              pr_sourceERC20 := ti_sourceERC20 i, pr_sourceCrosschain := ti_sourceCrosschain i,
              pr_sourceChainId := ti_sourcechainid i, pr_targetERC20 := ti_targetERC20 i,
              pr_targetCrosschain := ti_targetCrosschain i, pr_targetChainId := ti_targetchainid i,
              pr_fee := ti_fee i, pr_chainId := chainId, pr_type := 6\<rparr>)) (\<lambda>(proposalID, m).
     Inr (set_mulSig ch m, [SetCrosschainTokenProposed proposalID sender (ti_token i)])))"

definition MulSig_getPendingProposals :: "'ac oz_access \<Rightarrow> 'ac chain \<Rightarrow> addr \<Rightarrow> nat list fallible" where
  "MulSig_getPendingProposals A ch sender =
     ebind (onlyFoundationManager A ch sender) (\<lambda>_. Inr (ms_pendingProposals (c_mulSig ch)))"

section \<open>Signing\<close>

definition MulSig_signTransaction :: "'ac oz_access \<Rightarrow> 'ac chain \<Rightarrow> addr \<Rightarrow> nat \<Rightarrow> 'ac tx" where
  "MulSig_signTransaction A ch sender proposalId =
     ebind (onlyFoundationManager A ch sender) (\<lambda>_.
     let m = c_mulSig ch; pro = ms_proposals m proposalId in
     ebind (threshold A ch) (\<lambda>fmThreshold.
     ebind (require (pr_signatureCount pro < fmThreshold) ''limit'') (\<lambda>_.
     ebind (require (pr_signatures pro sender \<noteq> 1) ''already signed'') (\<lambda>_.
     ebind (checked 8 (pr_signatureCount pro + 1)) (\<lambda>signatureCount.
     let pro = pro\<lparr>pr_signatures := (pr_signatures pro)(sender := 1),
                   pr_signatureCount := signatureCount\<rparr> in
     ebind (threshold A ch) (\<lambda>fmThreshold.
     ebind (if fmThreshold \<le> pr_signatureCount pro
            then ebind (checked 256 (c_time ch + ms_confirmDuration m)) (\<lambda>t.
                   Inr (pro\<lparr>pr_excuteTime := t\<rparr>))
            else Inr pro) (\<lambda>pro.
     Inr (set_mulSig ch (m\<lparr>ms_proposals := (ms_proposals m)(proposalId := pro)\<rparr>),
          [ProposalSigned proposalId sender]))))))))"

section \<open>Executing\<close>

text \<open>The loop of \<open>deleteProposals\<close>: the flag \<open>replace\<close> and the array, at every index.\<close>

definition shift_step :: "nat \<Rightarrow> bool \<times> nat list \<Rightarrow> nat \<Rightarrow> bool \<times> nat list" where
  "shift_step proposalId = (\<lambda>(replace, xs) i.
     if replace then (True, xs[i - 1 := xs ! i])
     else if proposalId = xs ! i then (True, xs)
     else (False, xs))"

definition MulSig_deleteProposals :: "'ac oz_access \<Rightarrow> 'ac chain \<Rightarrow> addr \<Rightarrow> nat \<Rightarrow> 'ac tx" where
  "MulSig_deleteProposals A ch sender proposalId =
     ebind (onlyFoundationManager A ch sender) (\<lambda>_.
     let m = c_mulSig ch;
         (replace, xs) = foldl (shift_step proposalId) (False, ms_pendingProposals m)
                           [0..<length (ms_pendingProposals m)] in
     if replace then
       Inr (set_mulSig ch (m\<lparr>ms_pendingProposals := butlast xs,
              ms_proposals := (ms_proposals m)(proposalId :=
                delete_proposal (ms_proposals m proposalId))\<rparr>), [])
     else Inr (ch, []))"

text \<open>The branches of a permission proposal: grant or revoke, and which role.\<close>

definition permission_op :: "string \<Rightarrow> (bool \<times> bytes32) option" where
  "permission_op name =
     (if name = ''FMD'' then Some (False, FOUNDATION_MANAGER)
      else if name = ''FMA'' then Some (True, FOUNDATION_MANAGER)
      else if name = ''FEEDERD'' then Some (False, FEEDER)
      else if name = ''FEEDERA'' then Some (True, FEEDER)
      else if name = ''ADMIND'' then Some (False, ADMIN)
      else if name = ''ADMINA'' then Some (True, ADMIN)
      else if name = ''AUCTION_MANAGERD'' then Some (False, AUCTION_MANAGER)
      else if name = ''AUCTION_MANAGERA'' then Some (True, AUCTION_MANAGER)
      else if name = ''CROSSCHAIN_SENDERD'' then Some (False, CROSSCHAIN_SENDER)
      else if name = ''CROSSCHAIN_SENDERA'' then Some (True, CROSSCHAIN_SENDER)
      else if name = ''TCASH_MINTERD'' then Some (False, TCASH_MINTER)
      else if name = ''TCASH_MINTERA'' then Some (True, TCASH_MINTER)
      else if name = ''TCASH_BURNERD'' then Some (False, TCASH_BURNER)
      else if name = ''TCASH_BURNERA'' then Some (True, TCASH_BURNER)
      else None)"

definition execute_permission :: "'ac oz_access \<Rightarrow> 'ac chain \<Rightarrow> proposal \<Rightarrow> 'ac chain fallible" where
  "execute_permission A ch pro =
     (case permission_op (pr_name pro) of
        None \<Rightarrow> Inr ch
      | Some (grant, role) \<Rightarrow>
          ebind (roles_at ch (ms_roles (c_mulSig ch))) (\<lambda>r.
          ebind (if grant then grantRole A (r_access r) (c_mulSigAt ch) role (pr_add pro)
                 else revokeRole A (r_access r) (c_mulSigAt ch) role (pr_add pro)) (\<lambda>s.
          Inr (ch\<lparr>c_roles := r\<lparr>r_access := s\<rparr>\<rparr>))))"

definition execute_addResource :: "'ac chain \<Rightarrow> proposal \<Rightarrow> 'ac chain fallible" where
  "execute_addResource ch pro =
     ebind (governance_at ch (ms_governance (c_mulSig ch))) (\<lambda>g.
     ebind (Governance_addTreasure g (c_mulSigAt ch) (pr_name pro) (pr_producer pro)
              (pr_productionData pro)) (\<lambda>g.
     Inr (ch\<lparr>c_governance := g\<rparr>)))"

definition execute_platformConfig :: "'ac chain \<Rightarrow> proposal \<Rightarrow> 'ac chain fallible" where
  "execute_platformConfig ch pro =
     ebind (param_at ch (ms_parameterInfo (c_mulSig ch))) (\<lambda>p.
     ebind (ParameterInfo_setPlatformConfig p (c_mulSigAt ch) (pr_name pro) (pr_value pro)) (\<lambda>p.
     Inr (ch\<lparr>c_param := p\<rparr>)))"

definition execute_discountConfig :: "'ac chain \<Rightarrow> proposal \<Rightarrow> 'ac chain fallible" where
  "execute_discountConfig ch pro =
     ebind (param_at ch (ms_parameterInfo (c_mulSig ch))) (\<lambda>p.
     ebind (ParameterInfo_setPriceDiscountConfig p (c_mulSigAt ch) (pr_API pro) (pr_sulphur pro)
              (pr_discount pro ! 0) (pr_discount pro ! 1) (pr_discount pro ! 2) (pr_discount pro ! 3))
       (\<lambda>p.
     Inr (ch\<lparr>c_param := p\<rparr>)))"

definition execute_registerDApp :: "'ac chain \<Rightarrow> proposal \<Rightarrow> 'ac chain fallible" where
  "execute_registerDApp ch pro =
     ebind (governance_at ch (ms_governance (c_mulSig ch))) (\<lambda>g.
     ebind (Governance_getTreasureByKind g (pr_treasureKind pro)) (\<lambda>(producerAddr, _).
     ebind (require (producerAddr \<noteq> 0) ''treasure not found with proposal's treasure kind'') (\<lambda>_.
     ebind (producer_at ch producerAddr) (\<lambda>p.
     ebind (Producer_registerDAppConnect p (c_mulSigAt ch) (pr_name pro) (pr_payee pro)) (\<lambda>p.
     Inr (ch\<lparr>c_producers := (c_producers ch)(producerAddr \<mapsto> p)\<rparr>))))))"

definition proposal_info :: "proposal \<Rightarrow> token_info" where
  "proposal_info pro =
     \<lparr>ti_token = pr_token pro, ti_sourceERC20 = pr_sourceERC20 pro,
      ti_sourceCrosschain = pr_sourceCrosschain pro, ti_sourcechainid = pr_sourceChainId pro,
      ti_targetERC20 = pr_targetERC20 pro, ti_targetCrosschain = pr_targetCrosschain pro,
      ti_targetchainid = pr_targetChainId pro, ti_fee = pr_fee pro\<rparr>"

definition execute_crosschainToken :: "'ac chain \<Rightarrow> proposal \<Rightarrow> 'ac chain fallible" where
  "execute_crosschainToken ch pro =
     ebind (require (ms_crosschainTokens (c_mulSig ch) \<noteq> 0) ''CrosschainTokens not initialized'') (\<lambda>_.
     ebind (tokens_at ch (ms_crosschainTokens (c_mulSig ch))) (\<lambda>t.
     ebind (CrosschainTokens_setCrosschainToken t (c_mulSigAt ch) (proposal_info pro) (pr_chainId pro))
       (\<lambda>t.
     Inr (ch\<lparr>c_tokens := t\<rparr>))))"

definition execute_effect :: "'ac oz_access \<Rightarrow> 'ac chain \<Rightarrow> proposal \<Rightarrow> 'ac chain fallible" where
  "execute_effect A ch pro =
     (if pr_type pro = 1 then execute_permission A ch pro
      else if pr_type pro = 2 then execute_addResource ch pro
      else if pr_type pro = 3 then execute_platformConfig ch pro
      else if pr_type pro = 4 then execute_discountConfig ch pro
      else if pr_type pro = 5 then execute_registerDApp ch pro
      else if pr_type pro = 6 then execute_crosschainToken ch pro
      else Inr ch)"

definition MulSig_executeProposal :: "'ac oz_access \<Rightarrow> 'ac chain \<Rightarrow> addr \<Rightarrow> nat \<Rightarrow> 'ac tx" where
  "MulSig_executeProposal A ch sender proposalId =
     ebind (onlyFoundationManager A ch sender) (\<lambda>_.
     let pro = ms_proposals (c_mulSig ch) proposalId in
     ebind (require (pr_excuteTime pro \<le> c_time ch) ''executeTime not meet'') (\<lambda>_.
     ebind (execute_effect A ch pro) (\<lambda>ch.
     ebind (MulSig_deleteProposals A ch sender proposalId) (\<lambda>(ch, events).
     Inr (ch, events @ [ProposalExecuted proposalId])))))"

section \<open>Views\<close>

record proposal_response =
  rs_name :: string
  rs_add :: addr
  rs_a :: "nat list"
  rs_executeTime :: nat

definition MulSig_transactionDetails :: "mulsig \<Rightarrow> nat \<Rightarrow> proposal_response" where
  "MulSig_transactionDetails m proposalId =
     (let pro = ms_proposals m proposalId in
      if pr_type pro = 1 then
        \<lparr>rs_name = pr_name pro, rs_add = pr_add pro, rs_a = [0, 0, 0, 0, 0, 0],
         rs_executeTime = pr_excuteTime pro\<rparr>
      else if pr_type pro = 2 then
        \<lparr>rs_name = pr_name pro, rs_add = 0, rs_a = [0, 0, 0, 0, 0, 0],
         rs_executeTime = pr_excuteTime pro\<rparr>
      else if pr_type pro = 3 then
        \<lparr>rs_name = pr_name pro, rs_add = 0, rs_a = [pr_value pro, 0, 0, 0, 0, 0],
         rs_executeTime = pr_excuteTime pro\<rparr>
      else if pr_type pro = 4 then
        \<lparr>rs_name = ''0'', rs_add = 0,
         rs_a = [pr_API pro, pr_sulphur pro, pr_discount pro ! 0, pr_discount pro ! 1,
                 pr_discount pro ! 2, pr_discount pro ! 3],
         rs_executeTime = pr_excuteTime pro\<rparr>
      else \<lparr>rs_name = '''', rs_add = 0, rs_a = [0, 0, 0, 0, 0, 0], rs_executeTime = 0\<rparr>)"

definition MulSig_getSignatureCount :: "mulsig \<Rightarrow> nat \<Rightarrow> nat" where
  "MulSig_getSignatureCount m proposalId = pr_signatureCount (ms_proposals m proposalId)"

definition MulSig_hasAlreadySigned :: "mulsig \<Rightarrow> nat \<Rightarrow> addr \<Rightarrow> bool" where
  "MulSig_hasAlreadySigned m proposalId signer = (pr_signatures (ms_proposals m proposalId) signer = 1)"

section \<open>Entry points as data\<close>

datatype ms_call =
    ProposeToManagePermission string addr
  | ProposeToAddResource string addr addr
  | ProposeToRegisterDApp string string addr
  | ProposeToSetPlatformConfig string nat
  | ProposeToSetDiscountConfig nat nat nat nat nat nat
  | ProposeToSetCrosschainToken token_info nat
  | SignTransaction nat
  | ExecuteProposal nat
  | DeleteProposals nat

fun MulSig_call :: "'ac oz_access \<Rightarrow> 'ac chain \<Rightarrow> addr \<Rightarrow> ms_call \<Rightarrow> 'ac tx" where
  "MulSig_call A ch s (ProposeToManagePermission n a) = MulSig_proposeToManagePermission A ch s n a"
| "MulSig_call A ch s (ProposeToAddResource n p d) = MulSig_proposeToAddResource A ch s n p d"
| "MulSig_call A ch s (ProposeToRegisterDApp t d p) = MulSig_proposeToRegisterDApp A ch s t d p"
| "MulSig_call A ch s (ProposeToSetPlatformConfig n v) = MulSig_proposeToSetPlatformConfig A ch s n v"
| "MulSig_call A ch s (ProposeToSetDiscountConfig b1 b2 b3 b4 b5 b6) =
     MulSig_proposeToSetDiscountConfig A ch s b1 b2 b3 b4 b5 b6"
| "MulSig_call A ch s (ProposeToSetCrosschainToken i c) = MulSig_proposeToSetCrosschainToken A ch s i c"
| "MulSig_call A ch s (SignTransaction i) = MulSig_signTransaction A ch s i"
| "MulSig_call A ch s (ExecuteProposal i) = MulSig_executeProposal A ch s i"
| "MulSig_call A ch s (DeleteProposals i) = MulSig_deleteProposals A ch s i"

end
