(* ===== verification/World.thy ===== *)
theory World
  imports JsRuntime JsNumber KmsSignature MulSig
begin

text \<open>
  The world a script runs in: the chain behind the node, the clock, what the script has submitted
  and what it has printed. Every request to the node or to KMS takes the next number of a fault
  oracle: it may go through, get lost before it has an effect, or have its effect and lose the
  answer. The JavaScript libraries (\<open>web3\<close>, the KMS client, the account and ABI helpers) are not
  part of the repository and are the fields of an environment record. A script is the only one
  that changes the chain while it runs.
\<close>

section \<open>World and environment\<close>

datatype jsval = JUndef | JBool bool | JNum nat | JNaN | JStr string | JAddr addr | JBytes bytes32

text \<open>A printed line that carries a value or marks a branch: its kind and the values in it.\<close>

datatype line = Line string "jsval list"

datatype txcall =
    MulSigCall ms_call
  | SetMulSigContract addr
  | RegisterDAppConnect string addr
  | ProxyUpgrade addr addr
  | DeployContract string

text \<open>What a script hands KMS to sign: text, or the bytes of a digest.\<close>

datatype kms_message = MsgText string | MsgBytes buffer

datatype fault = Fine | Lost string | Unanswered string

record submitted =
  tx_from :: addr
  tx_to :: addr
  tx_call :: txcall

record ('ac, 'px) world =
  w_chain :: "'ac chain"
  w_proxies :: 'px
  w_now :: nat
  w_tick :: nat
  w_txs :: "submitted list"
  w_log :: "line list"

text \<open>
  The proxy admin contract of the OpenZeppelin library and the creation of contracts, over a
  storage of their own.
\<close>

record 'px proxy_admin =
  px_owner :: "'px \<Rightarrow> addr \<Rightarrow> addr fallible"
  px_implementation :: "'px \<Rightarrow> addr \<Rightarrow> addr \<Rightarrow> addr fallible"
  px_admin :: "'px \<Rightarrow> addr \<Rightarrow> addr \<Rightarrow> addr fallible"
  px_upgrade :: "'px \<Rightarrow> addr \<Rightarrow> addr \<Rightarrow> addr \<Rightarrow> addr \<Rightarrow> 'px fallible"
  px_deploy :: "'px \<Rightarrow> addr \<Rightarrow> string \<Rightarrow> ('px \<times> addr) fallible"

text \<open>A past event as the node lists it: its name and the two properties a script looks for.\<close>

record past_event =
  pe_event :: string
  pe_proposalId :: jsval
  pe_id :: jsval

record ('ac, 'px) env =
  e_access :: "'ac oz_access"
  e_proxy :: "'px proxy_admin"
  e_fault :: "nat \<Rightarrow> fault"
  e_netId :: nat
  e_gasPrice :: nat
  e_gasEstimate :: "nat \<Rightarrow> nat"
  e_nonce :: "nat \<Rightarrow> nat"
  e_wrapRevert :: "string \<Rightarrow> string"
  e_parseAddress :: "string \<Rightarrow> addr fallible"
  e_toChecksum :: "addr \<Rightarrow> string"
  e_keyAccount :: "string \<Rightarrow> addr fallible"
  e_loadABI :: "string \<Rightarrow> unit fallible"
  e_kmsGetPublicKey :: "string \<Rightarrow> buffer fallible"
  e_decodePubKey :: "buffer \<Rightarrow> buffer fallible"
  e_kmsSign :: "string \<Rightarrow> kms_message \<Rightarrow> buffer fallible"
  e_kmsSignTx :: "string \<Rightarrow> nat \<times> nat \<times> nat \<times> addr \<times> txcall \<Rightarrow> string fallible"
  e_keccakHex :: "buffer \<Rightarrow> string"
  e_recover :: "string \<Rightarrow> string \<Rightarrow> string fallible"
  e_accountsSign :: "nat \<times> nat \<times> nat \<times> addr \<times> txcall \<times> nat \<Rightarrow> string \<Rightarrow> (string \<times> string) fallible"
  e_decodeRaw :: "string \<Rightarrow> (addr \<times> addr \<times> txcall) fallible"
  e_networkAddress :: "string \<Rightarrow> nat \<Rightarrow> string option"
  e_blockNumber :: "nat \<Rightarrow> nat"
  e_balance :: "nat \<Rightarrow> addr \<Rightarrow> nat"
  e_storageAt :: "('ac, 'px) world \<Rightarrow> addr \<Rightarrow> string \<Rightarrow> string"
  e_codeAt :: "('ac, 'px) world \<Rightarrow> addr \<Rightarrow> string"
  e_proxyCall :: "('ac, 'px) world \<Rightarrow> string \<Rightarrow> addr \<Rightarrow> addr fallible"
  e_pastEvents :: "('ac, 'px) world \<Rightarrow> past_event list"
  e_deployReceipt :: "('ac, 'px) world \<Rightarrow> nat option fallible"
  e_advanceTime :: "nat \<Rightarrow> unit fallible"
  e_iterableResults :: bool

type_synonym ('ac, 'px, 'a) script = "(('ac, 'px) world, 'a) act"

section \<open>Contracts behind the node\<close>

definition mulSig_at :: "'ac chain \<Rightarrow> addr \<Rightarrow> mulsig fallible" where
  "mulSig_at ch a = (if a = c_mulSigAt ch then Inr (c_mulSig ch) else Inl '''')"

definition has_code :: "'ac chain \<Rightarrow> addr \<Rightarrow> bool" where
  "has_code ch a \<longleftrightarrow> a \<in> {c_rolesAt ch, c_governanceAt ch, c_mulSigAt ch, c_tokensAt ch, c_paramAt ch} \<or>
     c_producers ch a \<noteq> None"

text \<open>
  A transaction with call data: the method of the contract it is meant for; a revert when another
  contract lives there; nothing at an address without code, which accepts any data.
\<close>

definition exec_chain :: "('ac, 'px) env \<Rightarrow> 'ac chain \<Rightarrow> addr \<Rightarrow> addr \<Rightarrow> txcall \<Rightarrow> 'ac tx" where
  "exec_chain E ch from to c =
     (case c of
        MulSigCall m \<Rightarrow>
          if to = c_mulSigAt ch then MulSig_call (e_access E) ch from m
          else if has_code ch to then Inl '''' else Inr (ch, [])
      | SetMulSigContract a \<Rightarrow>
          (case c_producers ch to of
             Some p \<Rightarrow> ebind (Producer_setMulSigContract (e_access E) (roles_at ch) p from a) (\<lambda>p.
                 Inr (ch\<lparr>c_producers := (c_producers ch)(to \<mapsto> p)\<rparr>, []))
           | None \<Rightarrow> if has_code ch to then Inl '''' else Inr (ch, []))
      | RegisterDAppConnect dapp payee \<Rightarrow>
          (case c_producers ch to of
             Some p \<Rightarrow> ebind (Producer_registerDAppConnect p from dapp payee) (\<lambda>p.
                 Inr (ch\<lparr>c_producers := (c_producers ch)(to \<mapsto> p)\<rparr>, []))
           | None \<Rightarrow> if has_code ch to then Inl '''' else Inr (ch, []))
      | ProxyUpgrade p i \<Rightarrow> Inr (ch, [])
      | DeployContract n \<Rightarrow> Inr (ch, []))"

definition exec_tx ::
    "('ac, 'px) env \<Rightarrow> ('ac, 'px) world \<Rightarrow> addr \<Rightarrow> addr \<Rightarrow> txcall \<Rightarrow> (('ac, 'px) world \<times> event list) fallible"
  where
  "exec_tx E w from to c =
     (case c of
        ProxyUpgrade p i \<Rightarrow>
          ebind (px_upgrade (e_proxy E) (w_proxies w) from to p i) (\<lambda>s. Inr (w\<lparr>w_proxies := s\<rparr>, []))
      | _ \<Rightarrow> ebind (exec_chain E (w_chain w) from to c) (\<lambda>(ch, ev). Inr (w\<lparr>w_chain := ch\<rparr>, ev)))"

section \<open>Requests\<close>

definition tick :: "('ac, 'px) world \<Rightarrow> ('ac, 'px) world" where
  "tick w = w\<lparr>w_tick := w_tick w + 1\<rparr>"

definition request :: "('ac, 'px) env \<Rightarrow> (('ac, 'px) world \<Rightarrow> 'a fallible) \<Rightarrow> ('ac, 'px, 'a) script" where
  "request E f = (\<lambda>w. case e_fault E (w_tick w) of
       Fine \<Rightarrow> (case f w of Inl e \<Rightarrow> (Throw (e_wrapRevert E e), tick w) | Inr x \<Rightarrow> (Ok x, tick w))
     | Lost m \<Rightarrow> (Throw m, tick w)
     | Unanswered m \<Rightarrow> (Throw m, tick w))"

text \<open>A submitted transaction is on record even when it reverts, and even when the answer is lost.\<close>

definition submit :: "('ac, 'px) env \<Rightarrow> addr \<Rightarrow> addr \<Rightarrow> txcall \<Rightarrow> ('ac, 'px, event list) script" where
  "submit E from to c = (\<lambda>w.
     let w1 = (tick w)\<lparr>w_txs := w_txs w @ [\<lparr>tx_from = from, tx_to = to, tx_call = c\<rparr>]\<rparr>;
         (r, w2) = (case exec_tx E w1 from to c of
             Inl e \<Rightarrow> (Throw (e_wrapRevert E e), w1)
           | Inr (w2, ev) \<Rightarrow> (Ok ev, w2))
     in case e_fault E (w_tick w) of
          Fine \<Rightarrow> (r, w2)
        | Lost m \<Rightarrow> (Throw m, tick w)
        | Unanswered m \<Rightarrow> (Throw m, w2))"

text \<open>A creation transaction goes to no address and returns the address of the new contract.\<close>

definition creation :: "addr \<Rightarrow> string \<Rightarrow> submitted" where
  "creation from name = \<lparr>tx_from = from, tx_to = 0, tx_call = DeployContract name\<rparr>"

definition deployContract :: "('ac, 'px) env \<Rightarrow> addr \<Rightarrow> addr \<Rightarrow> string \<Rightarrow> ('ac, 'px, addr) script" where
  "deployContract E account from name =
     (if from \<noteq> account then request E (\<lambda>_. Inl ''unknown account'')
      else (\<lambda>w.
        let w1 = (tick w)\<lparr>w_txs := w_txs w @ [creation from name]\<rparr>;
            (r, w2) = (case px_deploy (e_proxy E) (w_proxies w1) from name of
                Inl e \<Rightarrow> (Throw (e_wrapRevert E e), w1)
              | Inr (s, a) \<Rightarrow> (Ok a, w1\<lparr>w_proxies := s\<rparr>))
        in case e_fault E (w_tick w) of
             Fine \<Rightarrow> (r, w2)
           | Lost m \<Rightarrow> (Throw m, tick w)
           | Unanswered m \<Rightarrow> (Throw m, w2)))"

text \<open>\<open>sendSignedTransaction\<close>: the node reads the sender and the call out of the signed bytes.\<close>

definition sendSignedTransaction :: "('ac, 'px) env \<Rightarrow> string \<Rightarrow> ('ac, 'px, event list) script" where
  "sendSignedTransaction E raw =
     bind (lift_err (e_decodeRaw E raw)) (\<lambda>(from, to, c). submit E from to c)"

text \<open>
  \<open>send\<close> with an account in the wallet: web3 signs for that account, and asks the node to
  sign for any other, which a public node refuses.
\<close>

definition sendAs :: "('ac, 'px) env \<Rightarrow> addr \<Rightarrow> addr \<Rightarrow> addr \<Rightarrow> txcall \<Rightarrow> ('ac, 'px, event list) script" where
  "sendAs E account from to c =
     (if from = account then submit E from to c else request E (\<lambda>_. Inl ''unknown account''))"

text \<open>\<open>estimateGas\<close> runs the call without keeping its effect.\<close>

definition estimateGas :: "('ac, 'px) env \<Rightarrow> addr \<Rightarrow> addr \<Rightarrow> txcall \<Rightarrow> ('ac, 'px, nat) script" where
  "estimateGas E from to c =
     request E (\<lambda>w. ebind (exec_tx E w from to c) (\<lambda>_. Inr (e_gasEstimate E (w_tick w))))"

definition getId :: "('ac, 'px) env \<Rightarrow> ('ac, 'px, nat) script" where
  "getId E = request E (\<lambda>_. Inr (e_netId E))"

definition getGasPrice :: "('ac, 'px) env \<Rightarrow> ('ac, 'px, nat) script" where
  "getGasPrice E = request E (\<lambda>_. Inr (e_gasPrice E))"

definition getTransactionCount :: "('ac, 'px) env \<Rightarrow> addr \<Rightarrow> ('ac, 'px, nat) script" where
  "getTransactionCount E a = request E (\<lambda>w. Inr (e_nonce E (w_tick w)))"

definition getBlockNumber :: "('ac, 'px) env \<Rightarrow> ('ac, 'px, nat) script" where
  "getBlockNumber E = request E (\<lambda>w. Inr (e_blockNumber E (w_tick w)))"

definition getBalance :: "('ac, 'px) env \<Rightarrow> addr \<Rightarrow> ('ac, 'px, nat) script" where
  "getBalance E a = request E (\<lambda>w. Inr (e_balance E (w_tick w) a))"

definition getStorageAt :: "('ac, 'px) env \<Rightarrow> addr \<Rightarrow> string \<Rightarrow> ('ac, 'px, string) script" where
  "getStorageAt E a slot = request E (\<lambda>w. Inr (e_storageAt E w a slot))"

definition getCode :: "('ac, 'px) env \<Rightarrow> addr \<Rightarrow> ('ac, 'px, string) script" where
  "getCode E a = request E (\<lambda>w. Inr (e_codeAt E w a))"

text \<open>\<open>estimateGas\<close> of a creation; the receipt for the transaction hash of the object a deployment
  gives back, of which the scripts read the gas used: \<open>null\<close> when the node knows no such hash.\<close>

definition estimateDeploy :: "('ac, 'px) env \<Rightarrow> addr \<Rightarrow> string \<Rightarrow> ('ac, 'px, nat) script" where
  "estimateDeploy E from name =
     request E (\<lambda>w. ebind (px_deploy (e_proxy E) (w_proxies w) from name) (\<lambda>_. Inr (e_gasEstimate E (w_tick w))))"

definition deployReceipt :: "('ac, 'px) env \<Rightarrow> ('ac, 'px, nat option) script" where
  "deployReceipt E = request E (\<lambda>w. e_deployReceipt E w)"

text \<open>The proxy admin contract at an address, and a method of a transparent proxy itself.\<close>

definition proxyAdmin_owner :: "('ac, 'px) env \<Rightarrow> addr \<Rightarrow> ('ac, 'px, addr) script" where
  "proxyAdmin_owner E a = request E (\<lambda>w. px_owner (e_proxy E) (w_proxies w) a)"

definition getProxyImplementation :: "('ac, 'px) env \<Rightarrow> addr \<Rightarrow> addr \<Rightarrow> ('ac, 'px, addr) script" where
  "getProxyImplementation E a p = request E (\<lambda>w. px_implementation (e_proxy E) (w_proxies w) a p)"

definition getProxyAdmin :: "('ac, 'px) env \<Rightarrow> addr \<Rightarrow> addr \<Rightarrow> ('ac, 'px, addr) script" where
  "getProxyAdmin E a p = request E (\<lambda>w. px_admin (e_proxy E) (w_proxies w) a p)"

definition proxy_call :: "('ac, 'px) env \<Rightarrow> string \<Rightarrow> addr \<Rightarrow> ('ac, 'px, addr) script" where
  "proxy_call E method a = request E (\<lambda>w. e_proxyCall E w method a)"

text \<open>\<open>call\<close> of a method that would change state: the call is run and its effect dropped.\<close>

definition dry_run :: "('ac, 'px) env \<Rightarrow> addr \<Rightarrow> addr \<Rightarrow> txcall \<Rightarrow> ('ac, 'px, unit) script" where
  "dry_run E from to c = request E (\<lambda>w. ebind (exec_tx E w from to c) (\<lambda>_. Inr ()))"

text \<open>Views of the contract at an address; \<open>from\<close> is the zero address unless the script gives one.\<close>

definition mulSig_view ::
    "('ac, 'px) env \<Rightarrow> addr \<Rightarrow> ('ac chain \<Rightarrow> mulsig \<Rightarrow> 'a fallible) \<Rightarrow> ('ac, 'px, 'a) script" where
  "mulSig_view E a f = request E (\<lambda>w. ebind (mulSig_at (w_chain w) a) (f (w_chain w)))"

definition roles_view :: "('ac, 'px) env \<Rightarrow> addr \<Rightarrow> ('ac roles \<Rightarrow> 'a fallible) \<Rightarrow> ('ac, 'px, 'a) script" where
  "roles_view E a f = request E (\<lambda>w. ebind (roles_at (w_chain w) a) f)"

definition governance_view ::
    "('ac, 'px) env \<Rightarrow> addr \<Rightarrow> ('ac chain \<Rightarrow> governance \<Rightarrow> 'a fallible) \<Rightarrow> ('ac, 'px, 'a) script" where
  "governance_view E a f = request E (\<lambda>w. ebind (governance_at (w_chain w) a) (f (w_chain w)))"

definition producer_view :: "('ac, 'px) env \<Rightarrow> addr \<Rightarrow> (producer \<Rightarrow> 'a fallible) \<Rightarrow> ('ac, 'px, 'a) script" where
  "producer_view E a f = request E (\<lambda>w. ebind (producer_at (w_chain w) a) f)"

definition tokens_view ::
    "('ac, 'px) env \<Rightarrow> addr \<Rightarrow> (crosschain_tokens \<Rightarrow> 'a fallible) \<Rightarrow> ('ac, 'px, 'a) script" where
  "tokens_view E a f = request E (\<lambda>w. ebind (tokens_at (w_chain w) a) f)"

text \<open>
  \<open>parseFloat(web3.utils.fromWei(balance, 'ether')) < c\<close> for the double \<open>c = m / 2 ^ k\<close>: the decimal
  number of units is rounded to the nearest double first, so everything below the midpoint under
  \<open>c\<close> is less than it.
\<close>

definition balanceBelow :: "nat \<Rightarrow> nat \<Rightarrow> nat \<Rightarrow> bool" where
  "balanceBelow m k balance = (balance * 2 ^ (k + 1) < (2 * m - 1) * 10 ^ 18)"

text \<open>The KMS client reports its own errors; otherwise a call is a request like any other.\<close>

definition kms :: "('ac, 'px) env \<Rightarrow> 'a fallible \<Rightarrow> ('ac, 'px, 'a) script" where
  "kms E r = (\<lambda>w. case e_fault E (w_tick w) of
       Fine \<Rightarrow> (case r of Inl e \<Rightarrow> (Throw e, tick w) | Inr x \<Rightarrow> (Ok x, tick w))
     | Lost m \<Rightarrow> (Throw m, tick w)
     | Unanswered m \<Rightarrow> (Throw m, tick w))"

text \<open>
  The object \<open>transactionDetails\<close> returns, read by property name: a name the ABI does not have is
  \<open>undefined\<close>. \<open>Number(x || 0)\<close> turns it into 0, \<open>parseInt\<close> into \<open>NaN\<close>.
\<close>

definition details_field :: "proposal_response \<Rightarrow> string \<Rightarrow> jsval" where
  "details_field r k =
     (if k = ''name'' then JStr (rs_name r) else if k = ''_add'' then JAddr (rs_add r)
      else if k = ''a1'' then JNum (rs_a r ! 0) else if k = ''a2'' then JNum (rs_a r ! 1)
      else if k = ''a3'' then JNum (rs_a r ! 2) else if k = ''a4'' then JNum (rs_a r ! 3)
      else if k = ''a5'' then JNum (rs_a r ! 4) else if k = ''a6'' then JNum (rs_a r ! 5)
      else if k = ''executeTime'' then JNum (rs_executeTime r) else JUndef)"

fun numberOr0 :: "jsval \<Rightarrow> nat" where
  "numberOr0 (JNum n) = n"
| "numberOr0 _ = 0"

fun jsParseInt :: "jsval \<Rightarrow> jsnum" where
  "jsParseInt (JNum n) = Some n"
| "jsParseInt _ = None"

text \<open>\<open>a > b\<close>, which is false when \<open>a\<close> is \<open>NaN\<close>.\<close>

fun jsGreater :: "jsnum \<Rightarrow> nat \<Rightarrow> bool" where
  "jsGreater (Some a) b = (b < a)"
| "jsGreater None b = False"

fun jsNumVal :: "jsnum \<Rightarrow> jsval" where
  "jsNumVal (Some n) = JNum n"
| "jsNumVal None = JNaN"

fun truthy :: "jsval \<Rightarrow> bool" where
  "truthy (JBool b) = b"
| "truthy (JNum n) = (n \<noteq> 0)"
| "truthy (JStr s) = (s \<noteq> [])"
| "truthy (JAddr a) = True"
| "truthy (JBytes b) = True"
| "truthy JUndef = False"
| "truthy JNaN = False"

lemma details_misspelt [simp]:
  "details_field r ''excuteTime'' = JUndef" "details_field r ''executed'' = JUndef"
  by (simp_all add: details_field_def)

lemma details_executeTime [simp]: "details_field r ''executeTime'' = JNum (rs_executeTime r)"
  by (simp add: details_field_def)

section \<open>Clock and console\<close>

definition say :: "string \<Rightarrow> jsval list \<Rightarrow> ('ac, 'px, unit) script" where
  "say kind vals = (\<lambda>w. (Ok (), w\<lparr>w_log := w_log w @ [Line kind vals]\<rparr>))"

definition get_now :: "('ac, 'px, nat) script" where
  "get_now = (\<lambda>w. (Ok (w_now w), w))"

text \<open>Waiting lets the wall clock and the time of the next block go on.\<close>

definition advance :: "nat \<Rightarrow> ('ac, 'px) world \<Rightarrow> ('ac, 'px) world" where
  "advance n w = w\<lparr>w_now := w_now w + n, w_chain := (w_chain w)\<lparr>c_time := c_time (w_chain w) + n\<rparr>\<rparr>"

definition sleep :: "nat \<Rightarrow> ('ac, 'px, unit) script" where
  "sleep n = (\<lambda>w. (Ok (), advance n w))"

definition addrOf :: "('ac, 'px) env \<Rightarrow> string \<Rightarrow> ('ac, 'px, addr) script" where
  "addrOf E s = lift_err (e_parseAddress E s)"

text \<open>\<open>loadContractABI\<close> of the scripts: an unreadable build file ends the process.\<close>

definition loadContractABI :: "('ac, 'px) env \<Rightarrow> string \<Rightarrow> ('ac, 'px, unit) script" where
  "loadContractABI E contractName =
     (case e_loadABI E contractName of
        Inl e \<Rightarrow> bind (say ''abi-failed'' [JStr contractName, JStr e]) (\<lambda>_. process_exit 1)
      | Inr u \<Rightarrow> ret ())"

section \<open>Evaluation\<close>

lemma tick_simps [simp]:
  "w_chain (tick w) = w_chain w" "w_proxies (tick w) = w_proxies w" "w_now (tick w) = w_now w"
  "w_tick (tick w) = w_tick w + 1" "w_txs (tick w) = w_txs w" "w_log (tick w) = w_log w"
  by (simp_all add: tick_def)

lemma request_Ok_iff:
  "request E f w = (Ok x, w') \<longleftrightarrow> e_fault E (w_tick w) = Fine \<and> f w = Inr x \<and> w' = tick w"
  by (auto simp: request_def split: fault.splits sum.splits)

lemma request_fine:
  "e_fault E (w_tick w) = Fine \<Longrightarrow> f w = Inr x \<Longrightarrow> request E f w = (Ok x, tick w)"
  by (simp add: request_def)

lemma request_revert:
  "e_fault E (w_tick w) = Fine \<Longrightarrow> f w = Inl e \<Longrightarrow> request E f w = (Throw (e_wrapRevert E e), tick w)"
  by (simp add: request_def)

lemma request_world: "snd (request E f w) = tick w"
  by (simp add: request_def split: fault.splits sum.splits)

lemma kms_Ok_iff [simp]:
  "kms E r w = (Ok x, w') \<longleftrightarrow> e_fault E (w_tick w) = Fine \<and> r = Inr x \<and> w' = tick w"
  by (auto simp: kms_def split: fault.splits sum.splits)

lemma kms_not_Exit [simp]: "kms E r w \<noteq> (Exit n, w')"
  by (auto simp: kms_def split: fault.splits sum.splits)

lemma request_not_Exit [simp]: "request E f w \<noteq> (Exit n, w')"
  by (auto simp: request_def split: fault.splits sum.splits)

lemma say_Ok_iff [simp]: "say k v w = (r, w') \<longleftrightarrow> r = Ok () \<and> w' = w\<lparr>w_log := w_log w @ [Line k v]\<rparr>"
  by (auto simp: say_def)

lemma get_now_Ok_iff [simp]: "get_now w = (r, w') \<longleftrightarrow> r = Ok (w_now w) \<and> w' = w"
  by (auto simp: get_now_def)

lemma submit_Ok:
  assumes "submit E from to c w = (Ok ev, w')"
  shows "exec_tx E ((tick w)\<lparr>w_txs := w_txs w @ [\<lparr>tx_from = from, tx_to = to, tx_call = c\<rparr>]\<rparr>) from to c
           = Inr (w', ev)"
  using assms
  by (auto simp: submit_def Let_def split: fault.splits sum.splits prod.splits)

lemma exec_tx_txs: "exec_tx E w from to c = Inr (w', ev) \<Longrightarrow> w_txs w' = w_txs w"
  by (auto simp: exec_tx_def ebind_Inr_iff split: txcall.splits)

lemma exec_tx_clock:
  "exec_tx E w from to c = Inr (w', ev) \<Longrightarrow> w_log w' = w_log w \<and> w_now w' = w_now w \<and> w_tick w' = w_tick w"
  by (auto simp: exec_tx_def ebind_Inr_iff split: txcall.splits)

text \<open>What holds after a request returns.\<close>

lemma wlp_request:
  "wlp (request E f) Q w \<longleftrightarrow> (e_fault E (w_tick w) = Fine \<longrightarrow> (\<forall>x. f w = Inr x \<longrightarrow> Q x (tick w)))"
  by (auto simp: wlp_iff request_Ok_iff)

lemma wlp_kms:
  "wlp (kms E r) Q w \<longleftrightarrow> (e_fault E (w_tick w) = Fine \<longrightarrow> (\<forall>x. r = Inr x \<longrightarrow> Q x (tick w)))"
  by (auto simp: wlp_iff)

lemma wlp_say: "wlp (say k v) P w \<longleftrightarrow> P () (w\<lparr>w_log := w_log w @ [Line k v]\<rparr>)"
  by (simp add: wlp_iff)

lemma wlp_get_now: "wlp get_now P w \<longleftrightarrow> P (w_now w) w"
  by (simp add: wlp_iff)

lemma wlp_sleep: "wlp (sleep n) P w \<longleftrightarrow> P () (advance n w)"
  by (simp add: wlp_iff sleep_def)

lemma wlp_addrOf: "wlp (addrOf E s) P w \<longleftrightarrow> (\<forall>a. e_parseAddress E s = Inr a \<longrightarrow> P a w)"
  by (simp add: addrOf_def wlp_simps)

lemma wlp_loadContractABI: "wlp (loadContractABI E n) P w \<longleftrightarrow> (\<forall>u. e_loadABI E n = Inr u \<longrightarrow> P u w)"
  by (auto simp: loadContractABI_def wlp_simps wlp_say split: sum.split)

lemma wlp_views:
  "wlp (mulSig_view E a fm) Qm w \<longleftrightarrow> (e_fault E (w_tick w) = Fine \<longrightarrow> (a = c_mulSigAt (w_chain w) \<longrightarrow>
     (\<forall>x. fm (w_chain w) (c_mulSig (w_chain w)) = Inr x \<longrightarrow> Qm x (tick w))))"
  "wlp (roles_view E a fr) Qr w \<longleftrightarrow> (e_fault E (w_tick w) = Fine \<longrightarrow> (a = c_rolesAt (w_chain w) \<longrightarrow>
     (\<forall>x. fr (c_roles (w_chain w)) = Inr x \<longrightarrow> Qr x (tick w))))"
  "wlp (governance_view E a fg) Qg w \<longleftrightarrow> (e_fault E (w_tick w) = Fine \<longrightarrow> (a = c_governanceAt (w_chain w) \<longrightarrow>
     (\<forall>x. fg (w_chain w) (c_governance (w_chain w)) = Inr x \<longrightarrow> Qg x (tick w))))"
  "wlp (tokens_view E a ft) Qt w \<longleftrightarrow> (e_fault E (w_tick w) = Fine \<longrightarrow> (a = c_tokensAt (w_chain w) \<longrightarrow>
     (\<forall>x. ft (c_tokens (w_chain w)) = Inr x \<longrightarrow> Qt x (tick w))))"
  "wlp (producer_view E a fp) Qp w \<longleftrightarrow> (e_fault E (w_tick w) = Fine \<longrightarrow>
     (\<forall>p x. c_producers (w_chain w) a = Some p \<longrightarrow> fp p = Inr x \<longrightarrow> Qp x (tick w)))"
  by (auto simp: mulSig_view_def roles_view_def governance_view_def tokens_view_def producer_view_def
      wlp_request ebind_Inr_iff mulSig_at_def roles_at_def governance_at_def tokens_at_def producer_at_def
      split: option.splits)

lemma wlp_numbers:
  "wlp (getId E) Q w \<longleftrightarrow> (e_fault E (w_tick w) = Fine \<longrightarrow> Q (e_netId E) (tick w))"
  "wlp (getGasPrice E) Q w \<longleftrightarrow> (e_fault E (w_tick w) = Fine \<longrightarrow> Q (e_gasPrice E) (tick w))"
  "wlp (getTransactionCount E a) Q w \<longleftrightarrow> (e_fault E (w_tick w) = Fine \<longrightarrow> Q (e_nonce E (w_tick w)) (tick w))"
  "wlp (estimateGas E from to c) Q w \<longleftrightarrow> (e_fault E (w_tick w) = Fine \<longrightarrow>
     (\<forall>r. exec_tx E w from to c = Inr r \<longrightarrow> Q (e_gasEstimate E (w_tick w)) (tick w)))"
  by (auto simp: getId_def getGasPrice_def getTransactionCount_def estimateGas_def wlp_request ebind_Inr_iff)

lemma wlp_node:
  "wlp (getBlockNumber E) Q w \<longleftrightarrow> (e_fault E (w_tick w) = Fine \<longrightarrow> Q (e_blockNumber E (w_tick w)) (tick w))"
  "wlp (getBalance E a) Q w \<longleftrightarrow> (e_fault E (w_tick w) = Fine \<longrightarrow> Q (e_balance E (w_tick w) a) (tick w))"
  "wlp (getStorageAt E a slot) Qs w \<longleftrightarrow> (e_fault E (w_tick w) = Fine \<longrightarrow> Qs (e_storageAt E w a slot) (tick w))"
  "wlp (getCode E a) Qs w \<longleftrightarrow> (e_fault E (w_tick w) = Fine \<longrightarrow> Qs (e_codeAt E w a) (tick w))"
  "wlp (proxyAdmin_owner E a) Qa w \<longleftrightarrow> (e_fault E (w_tick w) = Fine \<longrightarrow>
     (\<forall>x. px_owner (e_proxy E) (w_proxies w) a = Inr x \<longrightarrow> Qa x (tick w)))"
  "wlp (getProxyImplementation E a p) Qa w \<longleftrightarrow> (e_fault E (w_tick w) = Fine \<longrightarrow>
     (\<forall>x. px_implementation (e_proxy E) (w_proxies w) a p = Inr x \<longrightarrow> Qa x (tick w)))"
  "wlp (getProxyAdmin E a p) Qa w \<longleftrightarrow> (e_fault E (w_tick w) = Fine \<longrightarrow>
     (\<forall>x. px_admin (e_proxy E) (w_proxies w) a p = Inr x \<longrightarrow> Qa x (tick w)))"
  "wlp (proxy_call E n a) Qa w \<longleftrightarrow> (e_fault E (w_tick w) = Fine \<longrightarrow>
     (\<forall>x. e_proxyCall E w n a = Inr x \<longrightarrow> Qa x (tick w)))"
  "wlp (dry_run E from to c) Qu w \<longleftrightarrow> (e_fault E (w_tick w) = Fine \<longrightarrow>
     (\<forall>r. exec_tx E w from to c = Inr r \<longrightarrow> Qu () (tick w)))"
  "wlp (estimateDeploy E from nm) Q w \<longleftrightarrow> (e_fault E (w_tick w) = Fine \<longrightarrow>
     (\<forall>r. px_deploy (e_proxy E) (w_proxies w) from nm = Inr r \<longrightarrow> Q (e_gasEstimate E (w_tick w)) (tick w)))"
  "wlp (deployReceipt E) Qo w \<longleftrightarrow> (e_fault E (w_tick w) = Fine \<longrightarrow>
     (\<forall>x. e_deployReceipt E w = Inr x \<longrightarrow> Qo x (tick w)))"
  by (auto simp: getBlockNumber_def getBalance_def getStorageAt_def getCode_def proxyAdmin_owner_def
      getProxyImplementation_def getProxyAdmin_def proxy_call_def dry_run_def estimateDeploy_def
      deployReceipt_def wlp_request ebind_Inr_iff)

lemma wlp_deploy:
  "wlp (deployContract E account from n) Q w \<longleftrightarrow> (from = account \<longrightarrow> e_fault E (w_tick w) = Fine \<longrightarrow>
     (\<forall>s a. px_deploy (e_proxy E) (w_proxies w) from n = Inr (s, a) \<longrightarrow>
        Q a ((tick w)\<lparr>w_txs := w_txs w @ [creation from n], w_proxies := s\<rparr>)))"
  by (auto simp: wlp_iff deployContract_def request_Ok_iff Let_def split: fault.splits sum.splits prod.splits)

lemma wlp_submit:
  "wlp (submit E from to c) Q w \<longleftrightarrow> (e_fault E (w_tick w) = Fine \<longrightarrow>
     (\<forall>w' ev. exec_tx E ((tick w)\<lparr>w_txs := w_txs w @ [\<lparr>tx_from = from, tx_to = to, tx_call = c\<rparr>]\<rparr>) from to c
        = Inr (w', ev) \<longrightarrow> Q ev w'))"
  by (auto simp: wlp_iff submit_def Let_def split: fault.splits sum.splits prod.splits)

lemmas wlp_world = wlp_simps wlp_request wlp_kms wlp_say wlp_get_now wlp_sleep wlp_addrOf
  wlp_loadContractABI wlp_views wlp_numbers wlp_node wlp_deploy wlp_submit

text \<open>How the pieces end.\<close>

lemma run_request:
  "run (request E f) Q w \<longleftrightarrow> (case e_fault E (w_tick w) of
       Fine \<Rightarrow> (case f w of Inl e \<Rightarrow> Q (Throw (e_wrapRevert E e)) (tick w) | Inr x \<Rightarrow> Q (Ok x) (tick w))
     | Lost m \<Rightarrow> Q (Throw m) (tick w) | Unanswered m \<Rightarrow> Q (Throw m) (tick w))"
  by (simp add: run_iff request_def split: fault.split sum.split)

lemma run_kms:
  "run (kms E r) Q w \<longleftrightarrow> (case e_fault E (w_tick w) of
       Fine \<Rightarrow> (case r of Inl e \<Rightarrow> Q (Throw e) (tick w) | Inr x \<Rightarrow> Q (Ok x) (tick w))
     | Lost m \<Rightarrow> Q (Throw m) (tick w) | Unanswered m \<Rightarrow> Q (Throw m) (tick w))"
  by (simp add: run_iff kms_def split: fault.split sum.split)

lemma run_say: "run (say k v) P w \<longleftrightarrow> P (Ok ()) (w\<lparr>w_log := w_log w @ [Line k v]\<rparr>)"
  by (simp add: run_iff say_def)

lemma run_get_now: "run get_now P w \<longleftrightarrow> P (Ok (w_now w)) w"
  by (simp add: run_iff get_now_def)

lemma run_sleep: "run (sleep n) P w \<longleftrightarrow> P (Ok ()) (advance n w)"
  by (simp add: run_iff sleep_def)

lemma run_submit_fine:
  "e_fault E (w_tick w) = Fine \<Longrightarrow> run (submit E from to c) Q w \<longleftrightarrow>
     (let w1 = (tick w)\<lparr>w_txs := w_txs w @ [\<lparr>tx_from = from, tx_to = to, tx_call = c\<rparr>]\<rparr> in
      case exec_tx E w1 from to c of Inl e \<Rightarrow> Q (Throw (e_wrapRevert E e)) w1 | Inr (w2, ev) \<Rightarrow> Q (Ok ev) w2)"
  by (auto simp: run_iff submit_def Let_def split: sum.split prod.split)

lemmas run_world = run_simps run_request run_kms run_say run_get_now run_sleep run_submit_fine
lemmas view_defs = mulSig_view_def roles_view_def governance_view_def tokens_view_def producer_view_def
  getId_def getGasPrice_def getTransactionCount_def estimateGas_def addrOf_def
lemmas node_defs = getBlockNumber_def getBalance_def getStorageAt_def getCode_def proxyAdmin_owner_def
  getProxyImplementation_def getProxyAdmin_def proxy_call_def dry_run_def estimateDeploy_def deployReceipt_def
lemmas at_defs = mulSig_at_def roles_at_def governance_at_def tokens_at_def producer_at_def

text \<open>Requests and lines never end the process; lines never fail.\<close>

lemma exits_world:
  "exits_in S (request E f)" "exits_in S (kms E r)" "exits_in S (say k v)" "exits_in S get_now"
  "exits_in S (sleep n)" "exits_in S (submit E from to c)" "exits_in S (addrOf E s)"
  "exits_in S (estimateGas E from to c)" "exits_in S (getId E)" "exits_in S (getGasPrice E)"
  "exits_in S (getTransactionCount E a)" "exits_in S (mulSig_view E a fm)"
  "exits_in S (roles_view E a fr)" "exits_in S (governance_view E a fg)"
  "exits_in S (producer_view E a fp)" "exits_in S (tokens_view E a ft)"
  by (auto simp: exits_in_def say_def get_now_def sleep_def addrOf_def estimateGas_def getId_def
      getGasPrice_def getTransactionCount_def mulSig_view_def roles_view_def governance_view_def
      producer_view_def tokens_view_def submit_def Let_def
      split: fault.splits sum.splits prod.splits)

lemma exits_node:
  "exits_in S (getBlockNumber E)" "exits_in S (getBalance E a)" "exits_in S (getStorageAt E a slot)"
  "exits_in S (getCode E a)" "exits_in S (proxyAdmin_owner E a)" "exits_in S (getProxyImplementation E a p)"
  "exits_in S (getProxyAdmin E a p)" "exits_in S (proxy_call E n a)" "exits_in S (dry_run E from to c)"
  "exits_in S (estimateDeploy E from nm)" "exits_in S (deployReceipt E)"
  by (simp_all add: node_defs exits_world)

lemma exits_deploy: "exits_in S (deployContract E account from n)"
  by (cases "from = account") (simp_all add: deployContract_def exits_world,
      auto simp: exits_in_def Let_def split: fault.splits sum.splits prod.splits)

lemma exits_sendSigned: "exits_in S (sendSignedTransaction E raw)"
  unfolding sendSignedTransaction_def by (intro exits_in_intros exits_in_prod exits_world)

lemma exits_sendAs: "exits_in S (sendAs E account from to c)"
  by (simp add: sendAs_def exits_world)

lemma exits_loadContractABI: "1 \<in> S \<Longrightarrow> exits_in S (loadContractABI E n)"
  unfolding loadContractABI_def by (cases "e_loadABI E n") (auto intro: exits_in_intros exits_world)

lemmas exits_intros = exits_in_intros exits_in_loops exits_in_prod exits_world exits_sendSigned exits_sendAs
  exits_loadContractABI exits_node exits_deploy

lemma no_throw_say [intro]: "no_throw (say k v)"
  by (simp add: no_throw_def say_def)

section \<open>Frames\<close>

text \<open>
  What one submission can do at most: one more transaction on record. A script is confined to a
  set of transactions when everything it submits is in the set.
\<close>

definition only_txs :: "submitted set \<Rightarrow> ('ac, 'px) world \<Rightarrow> ('ac, 'px) world \<Rightarrow> bool" where
  "only_txs T w w' \<longleftrightarrow> (\<exists>new. w_txs w' = w_txs w @ new \<and> set new \<subseteq> T)"

text \<open>A script that only looks: chain, proxies and submitted transactions stay as they are.\<close>

definition read_only :: "('ac, 'px) world \<Rightarrow> ('ac, 'px) world \<Rightarrow> bool" where
  "read_only w w' \<longleftrightarrow> w_chain w' = w_chain w \<and> w_proxies w' = w_proxies w \<and> w_txs w' = w_txs w"

interpretation txs: frame_rel "only_txs T" for T
proof
  fix w u v :: "('a, 'b) world"
  show "only_txs T w w" unfolding only_txs_def by (intro exI [of _ "[]"]) simp
  show "only_txs T u v \<Longrightarrow> only_txs T v w \<Longrightarrow> only_txs T u w"
    unfolding only_txs_def by (elim exE) (auto simp: append_assoc)
qed

interpretation ro: frame_rel read_only
  by unfold_locales (auto simp: read_only_def)

lemma ro_request: "keeps read_only (request E f)"
  by (simp add: keeps_def request_world read_only_def)

lemma ro_kms: "keeps read_only (kms E r)"
  by (auto simp: keeps_def kms_def read_only_def split: fault.splits sum.splits)

lemma ro_say: "keeps read_only (say k v)"
  by (simp add: keeps_def say_def read_only_def)

lemma ro_get_now: "keeps read_only get_now"
  by (simp add: keeps_def get_now_def read_only_def)

lemma ro_loadContractABI: "keeps read_only (loadContractABI E n)"
  unfolding loadContractABI_def
  by (cases "e_loadABI E n") (auto intro: ro.keeps_intros ro_say)

lemma ro_views:
  "keeps read_only (estimateGas E from to c)" "keeps read_only (getId E)" "keeps read_only (getGasPrice E)"
  "keeps read_only (getTransactionCount E a)" "keeps read_only (mulSig_view E a fm)"
  "keeps read_only (roles_view E a fr)" "keeps read_only (governance_view E a fg)"
  "keeps read_only (producer_view E a fp)" "keeps read_only (tokens_view E a ft)"
  "keeps read_only (addrOf E s)"
  by (simp_all add: estimateGas_def getId_def getGasPrice_def getTransactionCount_def mulSig_view_def
      roles_view_def governance_view_def producer_view_def tokens_view_def addrOf_def ro_request
      ro.keeps_lift)

lemma ro_node:
  "keeps read_only (getBlockNumber E)" "keeps read_only (getBalance E a)" "keeps read_only (getStorageAt E a slot)"
  "keeps read_only (getCode E a)" "keeps read_only (proxyAdmin_owner E a)"
  "keeps read_only (getProxyImplementation E a p)" "keeps read_only (getProxyAdmin E a p)"
  "keeps read_only (proxy_call E n a)" "keeps read_only (dry_run E from to c)"
  "keeps read_only (estimateDeploy E from nm)" "keeps read_only (deployReceipt E)"
  by (simp_all add: node_defs ro_request)

lemma ro_prod: "(\<And>a b. keeps read_only (f a b)) \<Longrightarrow> keeps read_only (case p of (a, b) \<Rightarrow> f a b)"
  by (cases p) simp

lemmas ro_intros = ro_prod ro.keeps_intros ro_request ro_kms ro_say ro_get_now ro_loadContractABI ro_views ro_node

lemma ro_only_txs: "keeps read_only m \<Longrightarrow> keeps (only_txs T) m"
  unfolding keeps_def read_only_def only_txs_def by (metis append_Nil2 empty_subsetI list.set(1))

lemma txs_submit: "\<lparr>tx_from = from, tx_to = to, tx_call = c\<rparr> \<in> T \<Longrightarrow> keeps (only_txs T) (submit E from to c)"
  unfolding keeps_def
proof
  fix w
  assume T: "\<lparr>tx_from = from, tx_to = to, tx_call = c\<rparr> \<in> T"
  have "w_txs (snd (submit E from to c w)) \<in>
      {w_txs w, w_txs w @ [\<lparr>tx_from = from, tx_to = to, tx_call = c\<rparr>]}"
    by (auto simp: submit_def Let_def dest: exec_tx_txs split: fault.splits sum.splits prod.splits)
  then show "only_txs T w (snd (submit E from to c w))"
    unfolding only_txs_def using T by (metis (no_types, lifting) append_Nil2 empty_iff insert_iff
        list.set(1) list.simps(15) subsetI)
qed

lemma txs_reads:
  "keeps (only_txs T) (request E f)" "keeps (only_txs T) (kms E r)" "keeps (only_txs T) (say k v)" "keeps (only_txs T) get_now"
  "keeps (only_txs T) (loadContractABI E n)"
  "keeps (only_txs T) (estimateGas E from to c)" "keeps (only_txs T) (getId E)"
  "keeps (only_txs T) (getGasPrice E)"
  "keeps (only_txs T) (getTransactionCount E a)" "keeps (only_txs T) (mulSig_view E a fm)"
  "keeps (only_txs T) (roles_view E a fr)" "keeps (only_txs T) (governance_view E a fg)"
  "keeps (only_txs T) (producer_view E a fp)" "keeps (only_txs T) (tokens_view E a ft)"
  "keeps (only_txs T) (addrOf E s)"
  by (intro ro_only_txs ro_intros)+

lemma txs_node:
  "keeps (only_txs T) (getBlockNumber E)" "keeps (only_txs T) (getBalance E a)"
  "keeps (only_txs T) (getStorageAt E a slot)" "keeps (only_txs T) (getCode E a)"
  "keeps (only_txs T) (proxyAdmin_owner E a)" "keeps (only_txs T) (getProxyImplementation E a p)"
  "keeps (only_txs T) (getProxyAdmin E a p)" "keeps (only_txs T) (proxy_call E n a)"
  "keeps (only_txs T) (dry_run E from to c)" "keeps (only_txs T) (estimateDeploy E from nm)"
  "keeps (only_txs T) (deployReceipt E)"
  by (intro ro_only_txs ro_intros)+

lemma txs_sendAs:
  "\<lparr>tx_from = from, tx_to = to, tx_call = c\<rparr> \<in> T \<Longrightarrow> keeps (only_txs T) (sendAs E account from to c)"
  unfolding sendAs_def by (auto intro: txs_submit txs_reads)

lemma txs_deploy: "creation from n \<in> T \<Longrightarrow> keeps (only_txs T) (deployContract E account from n)"
  unfolding keeps_def
proof
  fix w
  assume T: "creation from n \<in> T"
  have "w_txs (snd (deployContract E account from n w)) \<in> {w_txs w @ [], w_txs w @ [creation from n]}"
    by (auto simp: deployContract_def request_world Let_def split: fault.splits sum.splits prod.splits)
  then show "only_txs T w (snd (deployContract E account from n w))"
    unfolding only_txs_def using T by fastforce
qed

lemma txs_sleep: "keeps (only_txs T) (sleep n)"
  by (simp add: keeps_def sleep_def advance_def only_txs_def)

lemma txs_prod: "(\<And>a b. keeps (only_txs T) (f a b)) \<Longrightarrow> keeps (only_txs T) (case p of (a, b) \<Rightarrow> f a b)"
  by (cases p) simp

lemmas txs_intros = txs_prod txs.keeps_intros txs_submit txs_reads txs_node txs_sendAs txs_deploy txs_sleep


text \<open>
  As long as the chain satisfies \<open>P\<close>, it goes on doing so and \<open>f\<close> of it stays the same. Reads keep
  every such relation, a submission keeps it when its call does.
\<close>

definition chain_frame :: "('ac chain \<Rightarrow> bool) \<Rightarrow> ('ac chain \<Rightarrow> 'b) \<Rightarrow> ('ac, 'px) world \<Rightarrow> ('ac, 'px) world \<Rightarrow> bool"
  where
  "chain_frame P f w w' \<longleftrightarrow>
     (P (w_chain w) \<longrightarrow> P (w_chain w') \<and> f (w_chain w') = f (w_chain w))"

interpretation cf: frame_rel "chain_frame P f" for P f
  by unfold_locales (auto simp: chain_frame_def)

lemma cf_read: "keeps read_only m \<Longrightarrow> keeps (chain_frame P f) m"
  by (simp add: keeps_def read_only_def chain_frame_def)

definition call_keeps ::
    "('ac, 'px) env \<Rightarrow> ('ac chain \<Rightarrow> bool) \<Rightarrow> ('ac chain \<Rightarrow> 'b) \<Rightarrow> addr \<Rightarrow> addr \<Rightarrow> txcall \<Rightarrow> bool" where
  "call_keeps E P f from to c \<longleftrightarrow>
     (\<forall>ch ch' ev. P ch \<longrightarrow> exec_chain E ch from to c = Inr (ch', ev) \<longrightarrow> P ch' \<and> f ch' = f ch)"

lemma cf_exec_tx:
  "call_keeps E P f from to c \<Longrightarrow> exec_tx E w from to c = Inr (w', ev) \<Longrightarrow> chain_frame P f w w'"
  by (auto simp: exec_tx_def chain_frame_def call_keeps_def ebind_Inr_iff split: txcall.splits)

lemma cf_submit:
  fixes E :: "('ac, 'px) env"
  assumes "call_keeps E P f from to c"
  shows "keeps (chain_frame P f) (submit E from to c)"
  unfolding keeps_def
proof
  fix w :: "('ac, 'px) world"
  define w1 where "w1 = (tick w)\<lparr>w_txs := w_txs w @ [\<lparr>tx_from = from, tx_to = to, tx_call = c\<rparr>]\<rparr>"
  have w1: "chain_frame P f w w1" "chain_frame P f w (tick w)"
    by (simp_all add: w1_def chain_frame_def)
  have "chain_frame P f w1 w2" if "exec_tx E w1 from to c = Inr (w2, ev)" for w2 ev
    using cf_exec_tx [OF assms that] .
  with w1 show "chain_frame P f w (snd (submit E from to c w))"
    by (auto simp: submit_def Let_def w1_def [symmetric] split: fault.splits sum.splits prod.splits
        intro: cf.rel_trans)
qed

lemma cf_sendAs: "call_keeps E P f from to c \<Longrightarrow> keeps (chain_frame P f) (sendAs E account from to c)"
  unfolding sendAs_def by (auto intro: cf_submit cf_read ro_request)

lemma cf_prod: "(\<And>a b. keeps (chain_frame P f) (g a b)) \<Longrightarrow> keeps (chain_frame P f) (case p of (a, b) \<Rightarrow> g a b)"
  by (cases p) simp

lemmas cf_reads = ro_request [THEN cf_read] ro_kms [THEN cf_read] ro_say [THEN cf_read] ro_get_now [THEN cf_read]
  ro_loadContractABI [THEN cf_read] ro_views [THEN cf_read] ro_node [THEN cf_read]

lemmas cf_intros = cf_prod cf.keeps_intros cf_reads cf_submit cf_sendAs

text \<open>Printing anything but lines of kind \<open>k\<close>.\<close>

definition silent :: "string \<Rightarrow> ('ac, 'px) world \<Rightarrow> ('ac, 'px) world \<Rightarrow> bool" where
  "silent k w w' \<longleftrightarrow> ((\<forall>v. Line k v \<notin> set (w_log w)) \<longrightarrow> (\<forall>v. Line k v \<notin> set (w_log w')))"

interpretation quiet: frame_rel "silent k" for k
  by unfold_locales (auto simp: silent_def)

lemma silent_log: "(\<And>w. w_log (snd (m w)) = w_log w) \<Longrightarrow> keeps (silent k) m"
  by (simp add: keeps_def silent_def)

lemma log_request [simp]: "w_log (snd (request E f w)) = w_log w"
  by (simp add: request_world)

lemma log_submit [simp]: "w_log (snd (submit E from to c w)) = w_log w"
  by (auto simp: submit_def Let_def dest: exec_tx_clock split: fault.splits sum.splits prod.splits)

lemma silent_requests:
  "keeps (silent k) (request E f)" "keeps (silent k) (submit E from to c)"
  "keeps (silent k) (sendAs E account from to c)" "keeps (silent k) get_now" "keeps (silent k) (sleep n)"
  by (rule silent_log, simp add: get_now_def sleep_def advance_def sendAs_def)+

lemma silent_say: "k' \<noteq> k \<Longrightarrow> keeps (silent k) (say k' v)"
  by (simp add: keeps_def silent_def say_def)

lemma silent_loadABI: "''abi-failed'' \<noteq> k \<Longrightarrow> keeps (silent k) (loadContractABI E n)"
  unfolding loadContractABI_def
  by (cases "e_loadABI E n") (auto intro!: quiet.keeps_intros silent_say)

lemma silent_views:
  "keeps (silent k) (estimateGas E from to c)" "keeps (silent k) (getId E)" "keeps (silent k) (getGasPrice E)"
  "keeps (silent k) (getTransactionCount E a)" "keeps (silent k) (mulSig_view E a fm)"
  "keeps (silent k) (roles_view E a fr)" "keeps (silent k) (governance_view E a fg)"
  "keeps (silent k) (producer_view E a fp)" "keeps (silent k) (tokens_view E a ft)"
  "keeps (silent k) (addrOf E s)"
  by (simp_all add: view_defs silent_requests quiet.keeps_lift)

lemma silent_node:
  "keeps (silent k) (getBlockNumber E)" "keeps (silent k) (getBalance E a)"
  "keeps (silent k) (getStorageAt E a slot)" "keeps (silent k) (getCode E a)"
  "keeps (silent k) (proxyAdmin_owner E a)" "keeps (silent k) (getProxyImplementation E a p)"
  "keeps (silent k) (getProxyAdmin E a p)" "keeps (silent k) (proxy_call E n a)"
  "keeps (silent k) (dry_run E from to c)" "keeps (silent k) (estimateDeploy E from nm)"
  "keeps (silent k) (deployReceipt E)"
  by (simp_all add: node_defs silent_requests)

lemma silent_prod: "(\<And>a b. keeps (silent k) (g a b)) \<Longrightarrow> keeps (silent k) (case p of (a, b) \<Rightarrow> g a b)"
  by (cases p) simp

lemmas silent_intros = silent_prod quiet.keeps_intros silent_requests silent_say silent_loadABI silent_views
  silent_node

text \<open>At most \<open>n\<close> more transactions, all of them in \<open>T\<close>.\<close>

definition adds :: "submitted set \<Rightarrow> nat \<Rightarrow> ('ac, 'px, 'a) script \<Rightarrow> bool" where
  "adds T n m \<longleftrightarrow> (\<forall>w. \<exists>new. w_txs (snd (m w)) = w_txs w @ new \<and> length new \<le> n \<and> set new \<subseteq> T)"

lemma adds_read: "keeps read_only m \<Longrightarrow> adds T n m"
  unfolding keeps_def read_only_def adds_def by (metis append_Nil2 empty_subsetI le0 list.set(1) list.size(3))

lemma adds_ret: "adds T n (ret x)"
  by (rule adds_read) (rule ro.keeps_ret)

lemma adds_mono: "adds T n m \<Longrightarrow> n \<le> n' \<Longrightarrow> adds T n' m"
  unfolding adds_def by (meson le_trans)

lemma adds_seq:
  assumes "w_txs u = w_txs w @ new" "length new \<le> a" "set new \<subseteq> T" and "adds T b k"
  shows "\<exists>new. w_txs (snd (k u)) = w_txs w @ new \<and> length new \<le> a + b \<and> set new \<subseteq> T"
proof -
  obtain more where "w_txs (snd (k u)) = w_txs u @ more" "length more \<le> b" "set more \<subseteq> T"
    using assms(4) unfolding adds_def by blast
  with assms(1-3) show ?thesis by (intro exI [of _ "new @ more"]) simp
qed

lemma adds_bind:
  assumes "adds T a m" and "\<And>x. adds T b (k x)"
  shows "adds T (a + b) (bind m k)"
  unfolding adds_def
proof
  fix w
  obtain r w' where m: "m w = (r, w')" by (cases "m w")
  with assms(1) obtain new where new: "w_txs w' = w_txs w @ new" "length new \<le> a" "set new \<subseteq> T"
    unfolding adds_def by (metis snd_conv)
  show "\<exists>new. w_txs (snd (bind m k w)) = w_txs w @ new \<and> length new \<le> a + b \<and> set new \<subseteq> T"
  proof (cases r)
    case (Ok x)
    then show ?thesis using m adds_seq [OF new assms(2) [of x]] by (simp add: bind_def)
  qed (use m new in \<open>auto simp: bind_def intro!: exI [of _ new]\<close>)
qed

lemma adds_catch:
  assumes "adds T a m" and "\<And>e. adds T b (h e)"
  shows "adds T (a + b) (catch m h)"
  unfolding adds_def
proof
  fix w
  obtain r w' where m: "m w = (r, w')" by (cases "m w")
  with assms(1) obtain new where new: "w_txs w' = w_txs w @ new" "length new \<le> a" "set new \<subseteq> T"
    unfolding adds_def by (metis snd_conv)
  show "\<exists>new. w_txs (snd (catch m h w)) = w_txs w @ new \<and> length new \<le> a + b \<and> set new \<subseteq> T"
  proof (cases r)
    case (Throw e)
    then show ?thesis using m adds_seq [OF new assms(2) [of e]] by (simp add: catch_def)
  qed (use m new in \<open>auto simp: catch_def intro!: exI [of _ new]\<close>)
qed

lemma adds_submit: "\<lparr>tx_from = from, tx_to = to, tx_call = c\<rparr> \<in> T \<Longrightarrow> adds T 1 (submit E from to c)"
  unfolding adds_def
proof
  fix w
  assume T: "\<lparr>tx_from = from, tx_to = to, tx_call = c\<rparr> \<in> T"
  have "w_txs (snd (submit E from to c w)) \<in>
      {w_txs w @ [], w_txs w @ [\<lparr>tx_from = from, tx_to = to, tx_call = c\<rparr>]}"
    by (auto simp: submit_def Let_def dest: exec_tx_txs split: fault.splits sum.splits prod.splits)
  then show "\<exists>new. w_txs (snd (submit E from to c w)) = w_txs w @ new \<and> length new \<le> 1 \<and> set new \<subseteq> T"
    using T by fastforce
qed

lemma adds_sendAs:
  "\<lparr>tx_from = from, tx_to = to, tx_call = c\<rparr> \<in> T \<Longrightarrow> adds T 1 (sendAs E account from to c)"
  unfolding sendAs_def by (auto intro: adds_submit [unfolded One_nat_def] adds_read ro_request)

lemma adds_read_then: "keeps read_only m \<Longrightarrow> (\<And>x. adds T n (k x)) \<Longrightarrow> adds T n (bind m k)"
  using adds_bind [OF adds_read [of m T 0], of n k] by simp

lemma adds_then_read: "adds T n m \<Longrightarrow> (\<And>x. keeps read_only (k x)) \<Longrightarrow> adds T n (bind m k)"
  using adds_bind [where T = T and a = n and m = m and b = 0 and k = k, OF _ adds_read] by simp

lemma adds_catch_read: "adds T n m \<Longrightarrow> (\<And>e. keeps read_only (h e)) \<Longrightarrow> adds T n (catch m h)"
  using adds_catch [where T = T and a = n and m = m and b = 0 and h = h, OF _ adds_read] by simp

lemma adds_if: "(b \<Longrightarrow> adds T n m) \<Longrightarrow> (\<not> b \<Longrightarrow> adds T n m') \<Longrightarrow> adds T n (if b then m else m')"
  by simp

lemma adds_prod: "(\<And>a b. adds T n (f a b)) \<Longrightarrow> adds T n (case p of (a, b) \<Rightarrow> f a b)"
  by (cases p) simp

lemma adds_forEach:
  "(\<And>x. x \<in> set xs \<Longrightarrow> adds T n (f x)) \<Longrightarrow> adds T (n * length xs) (forEach xs f)"
proof (induction xs)
  case Nil
  show ?case
    by (simp only: forEach.simps mapA.simps) (rule adds_read, rule ro.keeps_ret)
next
  case (Cons x xs)
  then show ?case
    using adds_bind [of T n "f x" "n * length xs" "\<lambda>_. forEach xs f"] by simp
qed

lemma adds_mapA:
  "(\<And>x. x \<in> set xs \<Longrightarrow> adds T n (f x)) \<Longrightarrow> adds T (n * length xs) (mapA xs f)"
proof (induction xs)
  case Nil
  show ?case
    by (simp only: forEach.simps mapA.simps) (rule adds_read, rule ro.keeps_ret)
next
  case (Cons x xs)
  have "adds T (n * length xs) (bind (mapA xs f) (\<lambda>ys. ret (y # ys)))" for y
    by (rule adds_then_read) (use Cons in \<open>auto intro: ro.keeps_ret\<close>)
  then have "adds T (n + n * length xs) (mapA (x # xs) f)"
    by (simp only: mapA.simps) (rule adds_bind, use Cons.prems in auto)
  then show ?case by simp
qed


lemma adds_read_then_Ok:
  assumes "keeps read_only m" and "\<And>x w w'. m w = (Ok x, w') \<Longrightarrow> adds T n (k x)"
  shows "adds T n (bind m k)"
  unfolding adds_def
proof
  fix w
  obtain r w' where m: "m w = (r, w')" by (cases "m w")
  then have tx: "w_txs w' = w_txs w"
    using keepsD [OF assms(1) m] by (simp add: read_only_def)
  show "\<exists>new. w_txs (snd (bind m k w)) = w_txs w @ new \<and> length new \<le> n \<and> set new \<subseteq> T"
  proof (cases r)
    case (Ok x)
    with m assms(2) have "adds T n (k x)" by blast
    then obtain new where "w_txs (snd (k x w')) = w_txs w' @ new" "length new \<le> n" "set new \<subseteq> T"
      unfolding adds_def by blast
    with m Ok tx show ?thesis by (auto simp: bind_def)
  qed (use m tx in \<open>auto simp: bind_def\<close>)
qed

text \<open>Reading on from one world, where what was read is known.\<close>

lemma ro_then:
  assumes "keeps read_only m"
    and "\<And>x w'. m w = (Ok x, w') \<Longrightarrow> read_only w w' \<Longrightarrow> read_only w' (snd (k x w'))"
  shows "read_only w (snd (bind m k w))"
proof -
  obtain r w' where m: "m w = (r, w')" by (cases "m w")
  have r: "read_only w w'" using keepsD [OF assms(1) m] .
  show ?thesis
  proof (cases r)
    case (Ok x)
    with m assms(2) r show ?thesis by (auto simp: bind_def intro: ro.rel_trans)
  qed (use m r in \<open>auto simp: bind_def\<close>)
qed

lemma ro_catch_at:
  assumes "read_only w (snd (m w))" and "\<And>e. keeps read_only (h e)"
  shows "read_only w (snd (catch m h w))"
proof -
  obtain r w' where m: "m w = (r, w')" by (cases "m w")
  show ?thesis
    using assms m by (cases r) (auto simp: catch_def keeps_def intro: ro.rel_trans)
qed

lemma ro_here: "keeps read_only m \<Longrightarrow> read_only w (snd (m w))"
  by (simp add: keeps_def)

text \<open>An action that never returns lets nothing after it happen.\<close>

definition never_ok :: "('w, 'a) act \<Rightarrow> bool" where
  "never_ok m \<longleftrightarrow> (\<forall>w x w'. m w \<noteq> (Ok x, w'))"

lemma keeps_never_ok: "never_ok m \<Longrightarrow> keeps R m \<Longrightarrow> keeps R (bind m k)"
  unfolding keeps_def
proof
  fix w
  assume n: "never_ok m" and k: "\<forall>w. R w (snd (m w))"
  obtain r w' where m: "m w = (r, w')" by (cases "m w")
  with n have "r \<noteq> Ok x" for x by (auto simp: never_ok_def)
  with m k show "R w (snd (bind m k w))"
    by (cases r) (auto simp: bind_def dest: spec [of _ w])
qed

end
