(* ===== verification/MulSigProps.thy ===== *)
theory MulSigProps
  imports MulSig
begin

text \<open>
  What the multisig promises: the deletion loop is list removal, the proposal storage refines a
  queue of actions, an invariant of every reachable state, and the behaviour of signing and
  executing on their branches.
\<close>

section \<open>The deletion loop\<close>

lemma shift_loop:
  "k \<le> length xs \<Longrightarrow> foldl (shift_step p) (False, xs) [0..<k] =
     (if p \<in> set (take k xs) then (True, remove1 p (take k xs) @ drop (k - 1) xs) else (False, xs))"
proof (induction k)
  case 0
  then show ?case by simp
next
  case (Suc k)
  then have k: "k < length xs" by simp
  have tk: "take (Suc k) xs = take k xs @ [xs ! k]"
    using k by (rule take_Suc_conv_app_nth)
  show ?case
  proof (cases "p \<in> set (take k xs)")
    case True
    then obtain j where j: "k = Suc j" by (cases k) auto
    let ?r = "remove1 p (take k xs)"
    have len: "length ?r = j"
      using True k j by (simp add: length_remove1)
    have d: "drop j xs = xs ! j # xs ! k # drop (Suc k) xs"
      using k j by (metis Cons_nth_drop_Suc Suc_lessD)
    have "(?r @ drop j xs) ! k = xs ! k"
      using len d j by (simp add: nth_append)
    moreover have "(?r @ drop j xs)[j := xs ! k] = remove1 p (take (Suc k) xs) @ drop k xs"
    proof -
      have "drop k xs = xs ! k # drop (Suc k) xs"
        using k by (simp add: Cons_nth_drop_Suc)
      moreover have "remove1 p (take (Suc k) xs) = ?r @ [xs ! k]"
        using True by (simp add: tk remove1_append)
      ultimately show ?thesis
        unfolding d by (simp add: list_update_append len)
    qed
    ultimately show ?thesis
      using Suc True j tk by (simp add: shift_step_def)
  next
    case False
    then show ?thesis
      using Suc tk k by (auto simp: shift_step_def remove1_append Cons_nth_drop_Suc remove1_idem)
  qed
qed

lemma shift_loop_eq:
  "foldl (shift_step p) (False, xs) [0..<length xs] =
     (if p \<in> set xs then (True, remove1 p xs @ [last xs]) else (False, xs))"
proof (cases "xs = []")
  case False
  then have "drop (length xs - 1) xs = [last xs]"
    by (metis append_butlast_last_id append_eq_conv_conj length_butlast)
  then show ?thesis by (simp add: shift_loop)
qed simp

definition remove_proposal :: "mulsig \<Rightarrow> nat \<Rightarrow> mulsig" where
  "remove_proposal m i =
     (if i \<in> set (ms_pendingProposals m)
      then m\<lparr>ms_pendingProposals := remove1 i (ms_pendingProposals m),
             ms_proposals := (ms_proposals m)(i := delete_proposal (ms_proposals m i))\<rparr>
      else m)"

lemma deleteProposals_eq:
  "MulSig_deleteProposals A ch sender i =
     ebind (onlyFoundationManager A ch sender) (\<lambda>_.
     Inr (set_mulSig ch (remove_proposal (c_mulSig ch) i), []))"
  by (cases "onlyFoundationManager A ch sender")
    (simp_all add: MulSig_deleteProposals_def shift_loop_eq Let_def remove_proposal_def)

section \<open>Guards\<close>

definition is_manager :: "'ac oz_access \<Rightarrow> 'ac chain \<Rightarrow> addr \<Rightarrow> bool" where
  "is_manager A ch a \<longleftrightarrow> ms_roles (c_mulSig ch) = c_rolesAt ch \<and>
     hasRole A (r_access (c_roles ch)) FOUNDATION_MANAGER a"

lemma manager_guard [simp]: "onlyFoundationManager A ch a = Inr u \<longleftrightarrow> is_manager A ch a"
  by (auto simp: onlyFoundationManager_def roles_at_def is_manager_def)

lemma manager_passes: "is_manager A ch a \<Longrightarrow> onlyFoundationManager A ch a = Inr ()"
  by (simp only: manager_guard)

lemma not_manager: "\<not> is_manager A ch a \<Longrightarrow> \<exists>e. MulSig_call A ch a c = Inl e"
proof -
  assume n: "\<not> is_manager A ch a"
  then obtain e where "onlyFoundationManager A ch a = Inl e"
    by (metis manager_guard old.sum.exhaust)
  then show ?thesis
    by (cases c) (simp_all add: MulSig_proposeToManagePermission_def MulSig_proposeToAddResource_def
        MulSig_proposeToRegisterDApp_def MulSig_proposeToSetPlatformConfig_def
        MulSig_proposeToSetDiscountConfig_def MulSig_proposeToSetCrosschainToken_def
        MulSig_signTransaction_def MulSig_executeProposal_def MulSig_deleteProposals_def)
qed

text \<open>The number of signatures a proposal needs: more than half of the foundation managers.\<close>

definition needed :: "'ac oz_access \<Rightarrow> 'ac chain \<Rightarrow> nat" where
  "needed A ch = length (roleMembers A (r_access (c_roles ch)) FOUNDATION_MANAGER) div 2 + 1"

lemma threshold_Inr_iff [simp]:
  "threshold A ch = Inr n \<longleftrightarrow> ms_governance (c_mulSig ch) = c_governanceAt ch \<and>
     g_role (c_governance ch) = c_rolesAt ch \<and> n = needed A ch"
  by (auto simp: threshold_def governance_at_def Governance_fmThreshold_def roles_at_def needed_def
      Roles_getRoleMemberCount_def)

section \<open>Actions\<close>

datatype action =
    Permission string addr
  | Resource string addr addr
  | Platform string nat
  | Discount nat nat "nat list"
  | DApp string string addr
  | Token token_info nat

text \<open>What a stored proposal and what a proposing call stand for.\<close>

definition stored_action :: "proposal \<Rightarrow> action option" where
  "stored_action p =
     (if pr_type p = 1 then Some (Permission (pr_name p) (pr_add p))
      else if pr_type p = 2 then Some (Resource (pr_name p) (pr_producer p) (pr_productionData p))
      else if pr_type p = 3 then Some (Platform (pr_name p) (pr_value p))
      else if pr_type p = 4 then Some (Discount (pr_API p) (pr_sulphur p) (pr_discount p))
      else if pr_type p = 5 then Some (DApp (pr_treasureKind p) (pr_name p) (pr_payee p))
      else if pr_type p = 6 then Some (Token (proposal_info p) (pr_chainId p))
      else None)"

fun proposed_action :: "ms_call \<Rightarrow> action option" where
  "proposed_action (ProposeToManagePermission n a) = Some (Permission n a)"
| "proposed_action (ProposeToAddResource n p d) = Some (Resource n p d)"
| "proposed_action (ProposeToRegisterDApp t d p) = Some (DApp t d p)"
| "proposed_action (ProposeToSetPlatformConfig n v) = Some (Platform n v)"
| "proposed_action (ProposeToSetDiscountConfig b1 b2 b3 b4 b5 b6) = Some (Discount b1 b2 [b3, b4, b5, b6])"
| "proposed_action (ProposeToSetCrosschainToken i c) = Some (Token i c)"
| "proposed_action _ = None"

text \<open>One description of all six proposing functions.\<close>

definition enqueued :: "mulsig \<Rightarrow> proposal \<Rightarrow> mulsig" where
  "enqueued m p = m\<lparr>ms_proposalIDx := ms_proposalIDx m + 1,
     ms_proposals := (ms_proposals m)(ms_proposalIDx m := p),
     ms_pendingProposals := ms_pendingProposals m @ [ms_proposalIDx m]\<rparr>"

lemma new_proposal_Inr_iff:
  "new_proposal m fill = Inr (i, m') \<longleftrightarrow> ms_proposalIDx m + 1 < 2 ^ 256 \<and> i = ms_proposalIDx m \<and>
     m' = enqueued m ((fill (ms_proposals m i))\<lparr>pr_signatureCount := 0\<rparr>)"
  by (auto simp: new_proposal_def Let_def ebind_Inr_iff enqueued_def)

lemma new_proposal_run:
  "ms_proposalIDx m + 1 < 2 ^ 256 \<Longrightarrow> new_proposal m fill =
     Inr (ms_proposalIDx m, enqueued m ((fill (ms_proposals m (ms_proposalIDx m)))\<lparr>pr_signatureCount := 0\<rparr>))"
  by (simp only: new_proposal_Inr_iff)

lemma proposed_action_stored:
  assumes "proposed_action c = Some a" and "MulSig_call A ch s c = Inr (ch', ev)"
  obtains p where "ch' = set_mulSig ch (enqueued (c_mulSig ch) p)" and "stored_action p = Some a"
    and "pr_signatureCount p = 0" and "pr_proposer p = s"
    and "pr_signatures p = pr_signatures (ms_proposals (c_mulSig ch) (ms_proposalIDx (c_mulSig ch)))"
    and "pr_excuteTime p = pr_excuteTime (ms_proposals (c_mulSig ch) (ms_proposalIDx (c_mulSig ch)))"
    and "is_manager A ch s"
proof (cases c)
  case (ProposeToManagePermission n b)
  with assms that show thesis
    by (auto simp: MulSig_proposeToManagePermission_def ebind_Inr_iff new_proposal_Inr_iff stored_action_def)
next
  case (ProposeToAddResource n p d)
  with assms that show thesis
    by (auto simp: MulSig_proposeToAddResource_def ebind_Inr_iff new_proposal_Inr_iff stored_action_def)
next
  case (ProposeToRegisterDApp t d p)
  with assms that show thesis
    by (auto simp: MulSig_proposeToRegisterDApp_def ebind_Inr_iff new_proposal_Inr_iff stored_action_def)
next
  case (ProposeToSetPlatformConfig n v)
  with assms that show thesis
    by (auto simp: MulSig_proposeToSetPlatformConfig_def ebind_Inr_iff new_proposal_Inr_iff stored_action_def)
next
  case (ProposeToSetDiscountConfig b1 b2 b3 b4 b5 b6)
  with assms that show thesis
    by (auto simp: MulSig_proposeToSetDiscountConfig_def ebind_Inr_iff new_proposal_Inr_iff stored_action_def)
next
  case (ProposeToSetCrosschainToken i x)
  with assms that show thesis
    by (auto simp: MulSig_proposeToSetCrosschainToken_def ebind_Inr_iff new_proposal_Inr_iff
        stored_action_def proposal_info_def)
qed (use assms in simp_all)


section \<open>Storage invariant\<close>

definition signers :: "proposal \<Rightarrow> addr set" where
  "signers p = {a. pr_signatures p a = 1}"

definition mulsig_ok :: "mulsig \<Rightarrow> bool" where
  "mulsig_ok m \<longleftrightarrow> distinct (ms_pendingProposals m) \<and>
     (\<forall>i \<in> set (ms_pendingProposals m). i < ms_proposalIDx m) \<and>
     (\<forall>i. stored_action (ms_proposals m i) \<noteq> None \<longleftrightarrow> i \<in> set (ms_pendingProposals m)) \<and>
     (\<forall>i. pr_signatureCount (ms_proposals m i) \<le> card (signers (ms_proposals m i)))"

lemma mulsig_okD:
  assumes "mulsig_ok m"
  shows "distinct (ms_pendingProposals m)"
    and "i \<in> set (ms_pendingProposals m) \<Longrightarrow> i < ms_proposalIDx m"
    and "stored_action (ms_proposals m i) = None \<longleftrightarrow> i \<notin> set (ms_pendingProposals m)"
    and "pr_signatureCount (ms_proposals m i) \<le> card (signers (ms_proposals m i))"
  using assms unfolding mulsig_ok_def by blast+

lemma enqueued_ok:
  assumes "mulsig_ok m" and "stored_action p = Some a" and "pr_signatureCount p = 0"
  shows "mulsig_ok (enqueued m p)"
  using assms unfolding mulsig_ok_def enqueued_def by fastforce

lemma delete_proposal_simps [simp]:
  "stored_action (delete_proposal p) = None"
  "pr_signatureCount (delete_proposal p) = 0"
  "pr_excuteTime (delete_proposal p) = 0"
  "pr_type (delete_proposal p) = 0"
  "pr_signatures (delete_proposal p) = pr_signatures p"
  by (simp_all add: delete_proposal_def stored_action_def)

lemma remove_proposal_ok:
  assumes "mulsig_ok m"
  shows "mulsig_ok (remove_proposal m i)"
  using assms unfolding mulsig_ok_def remove_proposal_def
  by (cases "i \<in> set (ms_pendingProposals m)") auto

lemma stored_action_cong:
  "stored_action (p\<lparr>pr_signatures := f, pr_signatureCount := n\<rparr>) = stored_action p"
  "stored_action (p\<lparr>pr_signatures := f, pr_signatureCount := n, pr_excuteTime := t\<rparr>) = stored_action p"
  by (simp_all add: stored_action_def proposal_info_def)

text \<open>The effect of a successful signature.\<close>

definition signed :: "'ac oz_access \<Rightarrow> 'ac chain \<Rightarrow> addr \<Rightarrow> proposal \<Rightarrow> proposal" where
  "signed A ch s p =
     (let p' = p\<lparr>pr_signatures := (pr_signatures p)(s := 1), pr_signatureCount := pr_signatureCount p + 1\<rparr> in
      if needed A ch \<le> pr_signatureCount p + 1
      then p'\<lparr>pr_excuteTime := c_time ch + ms_confirmDuration (c_mulSig ch)\<rparr> else p')"

definition can_sign :: "'ac oz_access \<Rightarrow> 'ac chain \<Rightarrow> addr \<Rightarrow> proposal \<Rightarrow> bool" where
  "can_sign A ch s p \<longleftrightarrow> is_manager A ch s \<and> ms_governance (c_mulSig ch) = c_governanceAt ch \<and>
     g_role (c_governance ch) = c_rolesAt ch \<and> pr_signatureCount p < needed A ch \<and>
     pr_signatures p s \<noteq> 1 \<and> pr_signatureCount p + 1 < 2 ^ 8 \<and>
     (needed A ch \<le> pr_signatureCount p + 1 \<longrightarrow> c_time ch + ms_confirmDuration (c_mulSig ch) < 2 ^ 256)"

lemma signTransaction_Inr_iff:
  "MulSig_signTransaction A ch s i = Inr (ch', ev) \<longleftrightarrow>
     can_sign A ch s (ms_proposals (c_mulSig ch) i) \<and> ev = [ProposalSigned i s] \<and>
     ch' = set_mulSig ch ((c_mulSig ch)\<lparr>ms_proposals := (ms_proposals (c_mulSig ch))
             (i := signed A ch s (ms_proposals (c_mulSig ch) i))\<rparr>)"
  by (cases "needed A ch \<le> pr_signatureCount (ms_proposals (c_mulSig ch) i) + 1")
    (auto simp: MulSig_signTransaction_def ebind_Inr_iff Let_def can_sign_def signed_def)

lemma signed_simps [simp]:
  "stored_action (signed A ch s p) = stored_action p"
  "pr_signatureCount (signed A ch s p) = pr_signatureCount p + 1"
  "pr_signatures (signed A ch s p) = (pr_signatures p)(s := 1)"
  by (simp_all add: signed_def Let_def stored_action_cong)

lemma signers_insert: "signers (p\<lparr>pr_signatures := (pr_signatures p)(s := 1)\<rparr>) = insert s (signers p)"
  by (auto simp: signers_def)

lemma signers_signed [simp]: "signers (signed A ch s p) = insert s (signers p)"
  by (auto simp: signers_def)

lemma finite_signers [simp]: "finite (signers p)"
  by simp

lemma signed_ok:
  assumes ok: "mulsig_ok m" and new: "pr_signatures (ms_proposals m i) s \<noteq> 1"
  shows "mulsig_ok (m\<lparr>ms_proposals := (ms_proposals m)(i := signed A ch s (ms_proposals m i))\<rparr>)"
proof -
  have "s \<notin> signers (ms_proposals m i)"
    using new by (simp add: signers_def)
  with ok show ?thesis unfolding mulsig_ok_def by simp
qed

section \<open>Executing\<close>

text \<open>Driving another contract leaves the multisig, the addresses and the clock alone.\<close>

lemma execute_effect_frame:
  assumes "execute_effect A ch pro = Inr ch'"
  shows "c_mulSig ch' = c_mulSig ch" and "c_mulSigAt ch' = c_mulSigAt ch"
    and "c_rolesAt ch' = c_rolesAt ch" and "c_time ch' = c_time ch"
    and "c_governanceAt ch' = c_governanceAt ch" and "c_tokensAt ch' = c_tokensAt ch"
    and "c_paramAt ch' = c_paramAt ch"
  using assms
  by (auto simp: execute_effect_def execute_permission_def execute_addResource_def
      execute_platformConfig_def execute_discountConfig_def execute_registerDApp_def
      execute_crosschainToken_def ebind_Inr_iff split: if_splits option.splits prod.splits)

text \<open>
  What executing a proposal does: the guard on the time, the effect, the second manager check of
  the internal deletion in the state after the effect, and the removal.
\<close>

lemma executeProposal_Inr_iff:
  "MulSig_executeProposal A ch s i = Inr (ch', ev) \<longleftrightarrow>
     is_manager A ch s \<and> pr_excuteTime (ms_proposals (c_mulSig ch) i) \<le> c_time ch \<and>
     (\<exists>ch1. execute_effect A ch (ms_proposals (c_mulSig ch) i) = Inr ch1 \<and> is_manager A ch1 s \<and>
        ch' = set_mulSig ch1 (remove_proposal (c_mulSig ch) i) \<and> ev = [ProposalExecuted i])"
  by (auto simp: MulSig_executeProposal_def Let_def ebind_Inr_iff deleteProposals_eq
      execute_effect_frame)

lemma execute_early:
  "is_manager A ch s \<Longrightarrow> c_time ch < pr_excuteTime (ms_proposals (c_mulSig ch) i) \<Longrightarrow>
     MulSig_executeProposal A ch s i = Inl ''executeTime not meet''"
  by (simp add: MulSig_executeProposal_def manager_passes require_def)

lemma call_keeps_ok:
  assumes ok: "mulsig_ok (c_mulSig ch)" and run: "MulSig_call A ch s c = Inr (ch', ev)"
  shows "mulsig_ok (c_mulSig ch')"
proof (cases "proposed_action c")
  case (Some a)
  then obtain p where "c_mulSig ch' = enqueued (c_mulSig ch) p" "stored_action p = Some a"
    "pr_signatureCount p = 0"
    by (rule proposed_action_stored [OF _ run]) simp
  then show ?thesis using enqueued_ok [OF ok] by simp
next
  case None
  then consider i where "c = SignTransaction i" | i where "c = ExecuteProposal i"
    | i where "c = DeleteProposals i"
    by (cases c) auto
  then show ?thesis
  proof cases
    case 1
    then show ?thesis
      using run signed_ok [OF ok] by (auto simp: signTransaction_Inr_iff can_sign_def)
  next
    case 2
    then show ?thesis
      using run remove_proposal_ok [OF ok] by (auto simp: executeProposal_Inr_iff)
  next
    case 3
    then show ?thesis
      using run remove_proposal_ok [OF ok] by (auto simp: deleteProposals_eq ebind_Inr_iff)
  qed
qed

section \<open>The queue of actions\<close>

type_synonym action_queue = "nat \<times> (nat \<times> action) list"

definition abs_mulsig :: "mulsig \<Rightarrow> action_queue" where
  "abs_mulsig m = (ms_proposalIDx m,
     map (\<lambda>i. (i, the (stored_action (ms_proposals m i)))) (ms_pendingProposals m))"

definition spec_remove :: "nat \<Rightarrow> action_queue \<Rightarrow> action_queue" where
  "spec_remove i = (\<lambda>(n, q). (n, filter (\<lambda>(j, a). j \<noteq> i) q))"

fun spec_call :: "ms_call \<Rightarrow> action_queue \<Rightarrow> action_queue" where
  "spec_call (SignTransaction i) q = q"
| "spec_call (ExecuteProposal i) q = spec_remove i q"
| "spec_call (DeleteProposals i) q = spec_remove i q"
| "spec_call c (n, q) = (n + 1, q @ [(n, the (proposed_action c))])"

lemma spec_call_propose: "proposed_action c = Some a \<Longrightarrow> spec_call c (n, q) = (n + 1, q @ [(n, a)])"
  by (cases c) simp_all

lemma filter_key_map: "filter (\<lambda>(j, a). j \<noteq> i) (map (\<lambda>i. (i, f i)) xs) = map (\<lambda>i. (i, f i)) (filter (\<lambda>j. j \<noteq> i) xs)"
  by (induction xs) auto

lemma remove1_filter: "distinct xs \<Longrightarrow> remove1 i xs = filter (\<lambda>j. j \<noteq> i) xs"
  by (induction xs) auto

lemma abs_remove:
  assumes "mulsig_ok m"
  shows "abs_mulsig (remove_proposal m i) = spec_remove i (abs_mulsig m)"
proof -
  have "remove1 i (ms_pendingProposals m) = filter (\<lambda>j. j \<noteq> i) (ms_pendingProposals m)"
    by (rule remove1_filter) (rule mulsig_okD(1) [OF assms])
  then show ?thesis
    by (auto simp: abs_mulsig_def remove_proposal_def spec_remove_def filter_key_map)
qed

lemma abs_enqueued:
  assumes "mulsig_ok m" and "stored_action p = Some a"
  shows "abs_mulsig (enqueued m p) = (fst (abs_mulsig m) + 1, snd (abs_mulsig m) @ [(fst (abs_mulsig m), a)])"
  using assms mulsig_okD(2) [OF assms(1)] by (fastforce simp: abs_mulsig_def enqueued_def)

lemma call_refines:
  assumes ok: "mulsig_ok (c_mulSig ch)" and run: "MulSig_call A ch s c = Inr (ch', ev)"
  shows "abs_mulsig (c_mulSig ch') = spec_call c (abs_mulsig (c_mulSig ch))"
proof (cases "proposed_action c")
  case (Some a)
  then obtain p where "c_mulSig ch' = enqueued (c_mulSig ch) p" "stored_action p = Some a"
    by (rule proposed_action_stored [OF _ run]) simp
  then show ?thesis
    using abs_enqueued [OF ok] spec_call_propose [OF Some]
    by (cases "abs_mulsig (c_mulSig ch)") simp
next
  case None
  then consider i where "c = SignTransaction i" | i where "c = ExecuteProposal i"
    | i where "c = DeleteProposals i"
    by (cases c) auto
  then show ?thesis
  proof cases
    case 1
    then show ?thesis
      using run by (auto simp: signTransaction_Inr_iff abs_mulsig_def)
  next
    case 2
    then show ?thesis
      using run abs_remove [OF ok] by (auto simp: executeProposal_Inr_iff)
  next
    case 3
    then show ?thesis
      using run abs_remove [OF ok] by (auto simp: deleteProposals_eq ebind_Inr_iff)
  qed
qed

end
