(* ===== verification/MulSigSafety.thy ===== *)
theory MulSigSafety
  imports MulSigProps
begin

text \<open>
  Reachable states of the multisig and the properties of the governance contracts that span
  them: the storage invariant and the refinement in every reachable state, the life of a
  proposal from signing to its effect, and the corners where the code does not do what the
  documentation says. A small concrete deployment instantiates the hypotheses.
\<close>

section \<open>Reachable states\<close>

definition blank_mulsig :: mulsig where
  "blank_mulsig = \<lparr>ms_initialized = False, ms_owner = 0,
     ms_proposals = (\<lambda>_. \<lparr>pr_proposer = 0, pr_name = '''', pr_add = 0, pr_value = 0, pr_API = 0,
       pr_sulphur = 0, pr_discount = [0, 0, 0, 0], pr_type = 0, pr_signatureCount = 0,
       pr_excuteTime = 0, pr_producer = 0, pr_productionData = 0, pr_signatures = (\<lambda>_. 0),
       pr_treasureKind = '''', pr_payee = 0, pr_token = '''', pr_sourceERC20 = 0,
       pr_sourceCrosschain = 0, pr_sourceChainId = 0, pr_targetERC20 = 0, pr_targetCrosschain = 0,
       pr_targetChainId = 0, pr_fee = 0, pr_chainId = 0\<rparr>),
     ms_pendingProposals = [], ms_proposalIDx = 0, ms_confirmDuration = 0, ms_dao = 0,
     ms_governance = 0, ms_parameterInfo = 0, ms_roles = 0, ms_crosschainTokens = 0\<rparr>"

text \<open>
  From an initialised contract, any caller may run any entry point, and everything else on the
  chain may change between two calls as long as the clock does not run backwards.
\<close>

inductive ms_reachable :: "'ac oz_access \<Rightarrow> 'ac chain \<Rightarrow> bool" for A where
  deployed: "MulSig_initialize blank_mulsig s dao gov role par tok conf = Inr (c_mulSig ch) \<Longrightarrow>
     ms_reachable A ch"
| called: "ms_reachable A ch \<Longrightarrow> MulSig_call A ch s c = Inr (ch', ev) \<Longrightarrow> ms_reachable A ch'"
| elsewhere: "ms_reachable A ch \<Longrightarrow> c_mulSig ch' = c_mulSig ch \<Longrightarrow> c_mulSigAt ch' = c_mulSigAt ch \<Longrightarrow>
     c_time ch \<le> c_time ch' \<Longrightarrow> ms_reachable A ch'"

lemma reachable_ok: "ms_reachable A ch \<Longrightarrow> mulsig_ok (c_mulSig ch)"
proof (induction rule: ms_reachable.induct)
  case (deployed s dao gov role par tok conf ch)
  have "c_mulSig ch = blank_mulsig\<lparr>ms_initialized := True, ms_owner := s, ms_confirmDuration := conf,
      ms_dao := dao, ms_governance := gov, ms_parameterInfo := par, ms_roles := role,
      ms_crosschainTokens := tok\<rparr>"
    using deployed by (simp add: MulSig_initialize_def ebind_Inr_iff blank_mulsig_def)
  then show ?case
    by (simp add: mulsig_ok_def blank_mulsig_def stored_action_def)
next
  case (called ch s c ch' ev)
  then show ?case using call_keeps_ok by blast
next
  case (elsewhere ch ch')
  then show ?case by simp
qed

section \<open>A small deployment\<close>

text \<open>The multisig at 1 drives roles at 2, the registry at 3, tokens at 4 and parameters at 5;
  the producer of \<open>OIL\<close> is at 6, and 10, 11, 12 are foundation managers.\<close>

definition demo_roles :: "acl roles" where
  "demo_roles = \<lparr>r_initialized = True, r_owner = 9, r_mulSig = 1,
     r_access = Roles_assign reference_access acl_empty 1 [10, 11, 12] [20] [21] [22] [23]\<rparr>"

definition demo_producer :: producer where
  "demo_producer = \<lparr>p_initialized = True, p_mulSig = 1, p_roles = 2, p_asset_type = ''OIL'',
     p_productionData = 7, p_dapps = (\<lambda>_. 0)\<rparr>"

definition demo_chain :: "acl chain" where
  "demo_chain = \<lparr>c_rolesAt = 2, c_governanceAt = 3, c_mulSigAt = 1, c_tokensAt = 4, c_paramAt = 5,
     c_roles = demo_roles,
     c_governance = \<lparr>g_initialized = True, g_owner = 9, g_role = 2, g_parameterInfo = 5,
       g_mulSig = 1, g_dao = 8, g_treasures = (\<lambda>_. no_treasure)(Keccak ''OIL'' :=
         \<lparr>t_Kind = Keccak ''OIL'', t_ProducerContract = 6, t_ProductionDataContract = 7\<rparr>)\<rparr>,
     c_mulSig = blank_mulsig\<lparr>ms_initialized := True, ms_owner := 9, ms_confirmDuration := 7200,
       ms_dao := 8, ms_governance := 3, ms_parameterInfo := 5, ms_roles := 2,
       ms_crosschainTokens := 4\<rparr>,
     c_tokens = \<lparr>ct_initialized = True, ct_owner = 9, ct_mulSig = 1, ct_tokens = (\<lambda>_ _. empty_info)\<rparr>,
     c_param = \<lparr>pi_initialized = True, pi_mulSig = 1, pi_API = 3110, pi_sulphur = 500,
       pi_discount = [9000, 8500, 8000, 7500], pi_platformConfig = (\<lambda>_. 0)(''TCASHMCT'' := 750000),
       pi_warnRatio = 9900, pi_liquidationRatio = 9000\<rparr>,
     c_producers = (\<lambda>_. None)(6 \<mapsto> demo_producer), c_time = 1000\<rparr>"

text \<open>The chain after a call that succeeds.\<close>

fun after :: "'ac chain \<Rightarrow> 'ac tx \<Rightarrow> 'ac chain" where
  "after ch (Inl e) = ch"
| "after ch (Inr (ch', ev)) = ch'"

lemma demo_access:
  "hasRole reference_access (r_access demo_roles) FOUNDATION_MANAGER a \<longleftrightarrow> a \<in> {10, 11, 12}"
  "hasRole reference_access (r_access demo_roles) ADMIN a \<longleftrightarrow> a = 1"
  "roleMembers reference_access (r_access demo_roles) FOUNDATION_MANAGER = [12, 11, 10]"
  "getRoleAdmin reference_access (r_access demo_roles) FOUNDATION_MANAGER = ADMIN"
  "getRoleAdmin reference_access (r_access demo_roles) AUCTION_MANAGER = FOUNDATION_MANAGER"
proof -
  have e: "hasRole reference_access acl_empty r a = False" for r a
    by (simp add: reference_defs)
  show "hasRole reference_access (r_access demo_roles) FOUNDATION_MANAGER a \<longleftrightarrow> a \<in> {10, 11, 12}"
    "hasRole reference_access (r_access demo_roles) ADMIN a \<longleftrightarrow> a = 1"
    by (auto simp: demo_roles_def ref.assign_hasRole e role_defs)
  show "getRoleAdmin reference_access (r_access demo_roles) FOUNDATION_MANAGER = ADMIN"
    "getRoleAdmin reference_access (r_access demo_roles) AUCTION_MANAGER = FOUNDATION_MANAGER"
    by (auto simp: demo_roles_def ref.assign_admin)
  show "roleMembers reference_access (r_access demo_roles) FOUNDATION_MANAGER = [12, 11, 10]"
    by (simp add: demo_roles_def Roles_assign_def reference_defs role_defs)
qed

lemma blank_fields [simp]:
  "pr_signatureCount (ms_proposals blank_mulsig i) = 0" "pr_excuteTime (ms_proposals blank_mulsig i) = 0"
  "pr_signatures (ms_proposals blank_mulsig i) a = 0" "pr_type (ms_proposals blank_mulsig i) = 0"
  "ms_proposalIDx blank_mulsig = 0" "ms_pendingProposals blank_mulsig = []"
  by (simp_all add: blank_mulsig_def)

lemma demo_fields [simp]:
  "c_rolesAt demo_chain = 2" "c_governanceAt demo_chain = 3" "c_mulSigAt demo_chain = 1"
  "c_tokensAt demo_chain = 4" "c_paramAt demo_chain = 5" "c_roles demo_chain = demo_roles"
  "ms_roles (c_mulSig demo_chain) = 2" "ms_governance (c_mulSig demo_chain) = 3"
  "ms_parameterInfo (c_mulSig demo_chain) = 5" "ms_crosschainTokens (c_mulSig demo_chain) = 4"
  "g_role (c_governance demo_chain) = 2" "c_time demo_chain = 1000"
  "ms_confirmDuration (c_mulSig demo_chain) = 7200" "ms_proposalIDx (c_mulSig demo_chain) = 0"
  "ms_pendingProposals (c_mulSig demo_chain) = []"
  "ms_proposals (c_mulSig demo_chain) i = ms_proposals blank_mulsig i"
  "pi_mulSig (c_param demo_chain) = 1" "pi_platformConfig (c_param demo_chain) ''TCASHMCT'' = 750000"
  by (simp_all add: demo_chain_def)

lemma demo_manager: "is_manager reference_access demo_chain 10" "is_manager reference_access demo_chain 11"
  "needed reference_access demo_chain = 2"
  by (simp_all add: is_manager_def needed_def demo_access)

lemma demo_reachable: "ms_reachable reference_access demo_chain"
  by (rule ms_reachable.deployed [of 9 8 3 2 5 4 7200])
    (simp add: MulSig_initialize_def demo_chain_def blank_mulsig_def)

text \<open>The first proposal of the deployment, and its first signature.\<close>

definition demo_proposed :: "acl chain" where
  "demo_proposed = after demo_chain
     (MulSig_proposeToSetPlatformConfig reference_access demo_chain 10 ''marginRatio'' 300)"

definition demo_platform :: proposal where
  "demo_platform = (ms_proposals blank_mulsig 0)\<lparr>pr_proposer := 10, pr_name := ''marginRatio'',
     pr_value := 300, pr_type := 3, pr_signatureCount := 0\<rparr>"

lemma demo_proposed_run:
  "MulSig_proposeToSetPlatformConfig reference_access demo_chain 10 ''marginRatio'' 300 =
     Inr (demo_proposed, [SetPlatformConfig 0 10 ''marginRatio'' 300])"
  "demo_proposed = set_mulSig demo_chain (enqueued (c_mulSig demo_chain) demo_platform)"
proof -
  have n: "new_proposal (c_mulSig demo_chain) (\<lambda>kk. kk\<lparr>pr_proposer := 10, pr_name := ''marginRatio'',
      pr_value := 300, pr_type := 3\<rparr>) = Inr (0, enqueued (c_mulSig demo_chain) demo_platform)"
    by (simp add: new_proposal_Inr_iff demo_platform_def)
  have g: "onlyFoundationManager reference_access demo_chain 10 = Inr ()"
    by (simp add: demo_manager)
  show "MulSig_proposeToSetPlatformConfig reference_access demo_chain 10 ''marginRatio'' 300 =
     Inr (demo_proposed, [SetPlatformConfig 0 10 ''marginRatio'' 300])"
    "demo_proposed = set_mulSig demo_chain (enqueued (c_mulSig demo_chain) demo_platform)"
    by (simp_all add: demo_proposed_def MulSig_proposeToSetPlatformConfig_def n g)
qed


section \<open>Storage and refinement\<close>

text \<open>C3: In every reachable state the pending queue holds distinct ids below the counter, exactly
  the ids whose slot stores an action, and no proposal counts more signatures than it has distinct
  signers.\<close>

theorem mulsig_storage_invariant:
  assumes "ms_reachable A ch"
  shows "distinct (ms_pendingProposals (c_mulSig ch)) \<and>
    (\<forall>i \<in> set (ms_pendingProposals (c_mulSig ch)). i < ms_proposalIDx (c_mulSig ch)) \<and>
    (\<forall>i. i \<in> set (ms_pendingProposals (c_mulSig ch)) \<longleftrightarrow> stored_action (ms_proposals (c_mulSig ch) i) \<noteq> None) \<and>
    (\<forall>i. MulSig_getSignatureCount (c_mulSig ch) i \<le> card {a. MulSig_hasAlreadySigned (c_mulSig ch) i a})"
  using mulsig_okD [OF reachable_ok [OF assms]]
  by (auto simp: MulSig_getSignatureCount_def MulSig_hasAlreadySigned_def signers_def)

lemma demo_proposed_reachable: "ms_reachable reference_access demo_proposed"
  by (rule ms_reachable.called [OF demo_reachable, of 10 "ProposeToSetPlatformConfig ''marginRatio'' 300"])
    (simp add: demo_proposed_run(1))

lemma demo_proposed_fields [simp]:
  "c_mulSig demo_proposed = enqueued (c_mulSig demo_chain) demo_platform"
  "c_roles demo_proposed = demo_roles" "c_rolesAt demo_proposed = 2" "c_time demo_proposed = 1000"
  "c_governanceAt demo_proposed = 3" "g_role (c_governance demo_proposed) = 2"
  "c_param demo_proposed = c_param demo_chain" "c_mulSigAt demo_proposed = 1"
  by (simp_all add: demo_proposed_run(2) enqueued_def)

lemma enqueued_simps [simp]:
  "ms_pendingProposals (enqueued m p) = ms_pendingProposals m @ [ms_proposalIDx m]"
  "ms_proposalIDx (enqueued m p) = ms_proposalIDx m + 1"
  "ms_proposals (enqueued m p) i = (if i = ms_proposalIDx m then p else ms_proposals m i)"
  "ms_roles (enqueued m p) = ms_roles m" "ms_governance (enqueued m p) = ms_governance m"
  "ms_confirmDuration (enqueued m p) = ms_confirmDuration m"
  "ms_parameterInfo (enqueued m p) = ms_parameterInfo m"
  by (simp_all add: enqueued_def)

lemma mulsig_storage_invariant_witness:
  "0 \<in> set (ms_pendingProposals (c_mulSig demo_proposed)) \<and> 0 < ms_proposalIDx (c_mulSig demo_proposed) \<and>
   stored_action (ms_proposals (c_mulSig demo_proposed) 0) \<noteq> None"
proof -
  have m: "0 \<in> set (ms_pendingProposals (c_mulSig demo_proposed))" by simp
  with mulsig_storage_invariant [OF demo_proposed_reachable] show ?thesis by blast
qed

text \<open>C1: The contract refines a queue of actions: on the abstraction of a reachable state, a
  proposing call appends its action under the next number, signing changes nothing, and executing
  or deleting drops exactly the given number.\<close>

theorem mulsig_refines_queue:
  assumes "ms_reachable A ch" and "MulSig_call A ch s c = Inr (ch', ev)"
  shows "abs_mulsig (c_mulSig ch') = spec_call c (abs_mulsig (c_mulSig ch))"
  using call_refines [OF reachable_ok [OF assms(1)] assms(2)] .

lemma mulsig_refines_queue_witness:
  "abs_mulsig (c_mulSig demo_proposed) = (1, [(0, Platform ''marginRatio'' 300)])"
proof -
  have "MulSig_call reference_access demo_chain 10 (ProposeToSetPlatformConfig ''marginRatio'' 300) =
      Inr (demo_proposed, [SetPlatformConfig 0 10 ''marginRatio'' 300])"
    by (simp add: demo_proposed_run(1))
  from mulsig_refines_queue [OF demo_reachable this] show ?thesis
    by (simp add: abs_mulsig_def)
qed

text \<open>Nobody but a foundation manager gets any entry point of the multisig to do anything.\<close>

theorem mulsig_managers_only:
  assumes "\<not> hasRole A (r_access (c_roles ch)) FOUNDATION_MANAGER s"
  shows "\<exists>e. MulSig_call A ch s c = Inl e"
  using assms not_manager [of A ch s c] by (simp add: is_manager_def)

lemma mulsig_managers_only_witness:
  "\<exists>e. MulSig_call reference_access demo_chain 13 (ExecuteProposal 0) = Inl e"
  by (rule mulsig_managers_only) (simp add: demo_access)

section \<open>Signing\<close>

lemma sign_facts:
  assumes "MulSig_signTransaction A ch s i = Inr (ch', ev)"
  shows "MulSig_getSignatureCount (c_mulSig ch') i = MulSig_getSignatureCount (c_mulSig ch) i + 1"
    and "MulSig_getSignatureCount (c_mulSig ch') i \<le> needed A ch"
    and "MulSig_hasAlreadySigned (c_mulSig ch') i a \<longleftrightarrow> a = s \<or> MulSig_hasAlreadySigned (c_mulSig ch) i a"
    and "pr_excuteTime (ms_proposals (c_mulSig ch') i) =
          (if MulSig_getSignatureCount (c_mulSig ch') i = needed A ch
           then c_time ch + ms_confirmDuration (c_mulSig ch)
           else pr_excuteTime (ms_proposals (c_mulSig ch) i))"
    and "ev = [ProposalSigned i s] \<and> (\<exists>sigs n t. ch' = set_mulSig ch ((c_mulSig ch)\<lparr>ms_proposals :=
          (ms_proposals (c_mulSig ch))(i := (ms_proposals (c_mulSig ch) i)
            \<lparr>pr_signatures := sigs, pr_signatureCount := n, pr_excuteTime := t\<rparr>)\<rparr>))"
    and "\<exists>e. MulSig_signTransaction A ch' s i = Inl e"
    and "MulSig_getSignatureCount (c_mulSig ch') i = needed A ch \<Longrightarrow>
          \<exists>e. MulSig_signTransaction A ch' a i = Inl e"
proof -
  have cs: "can_sign A ch s (ms_proposals (c_mulSig ch) i)" and
    ch': "ch' = set_mulSig ch ((c_mulSig ch)\<lparr>ms_proposals := (ms_proposals (c_mulSig ch))
             (i := signed A ch s (ms_proposals (c_mulSig ch) i))\<rparr>)"
    using assms by (simp_all add: signTransaction_Inr_iff)
  have P: "ms_proposals (c_mulSig ch') i = signed A ch s (ms_proposals (c_mulSig ch) i)"
    and n: "needed A ch' = needed A ch"
    by (simp_all add: ch' needed_def)
  show "MulSig_getSignatureCount (c_mulSig ch') i = MulSig_getSignatureCount (c_mulSig ch) i + 1"
    by (simp add: MulSig_getSignatureCount_def P)
  show "MulSig_getSignatureCount (c_mulSig ch') i \<le> needed A ch"
    using cs by (simp add: MulSig_getSignatureCount_def P can_sign_def)
  show "MulSig_hasAlreadySigned (c_mulSig ch') i a \<longleftrightarrow> a = s \<or> MulSig_hasAlreadySigned (c_mulSig ch) i a"
    by (simp add: MulSig_hasAlreadySigned_def P)
  show "pr_excuteTime (ms_proposals (c_mulSig ch') i) =
          (if MulSig_getSignatureCount (c_mulSig ch') i = needed A ch
           then c_time ch + ms_confirmDuration (c_mulSig ch)
           else pr_excuteTime (ms_proposals (c_mulSig ch) i))"
    using cs by (auto simp: MulSig_getSignatureCount_def P can_sign_def signed_def Let_def)
  have "signed A ch s p = p\<lparr>pr_signatures := pr_signatures (signed A ch s p),
      pr_signatureCount := pr_signatureCount (signed A ch s p),
      pr_excuteTime := pr_excuteTime (signed A ch s p)\<rparr>" for p
    by (cases p) (simp add: signed_def Let_def)
  then show "ev = [ProposalSigned i s] \<and> (\<exists>sigs n t. ch' = set_mulSig ch ((c_mulSig ch)\<lparr>ms_proposals :=
          (ms_proposals (c_mulSig ch))(i := (ms_proposals (c_mulSig ch) i)
            \<lparr>pr_signatures := sigs, pr_signatureCount := n, pr_excuteTime := t\<rparr>)\<rparr>))"
    using assms by (simp only: ch' signTransaction_Inr_iff) metis
  have no: "\<not> can_sign A ch' s (ms_proposals (c_mulSig ch') i)"
    by (simp add: can_sign_def P)
  then show "\<exists>e. MulSig_signTransaction A ch' s i = Inl e"
    using signTransaction_Inr_iff by (metis surj_pair sum.exhaust)
  assume "MulSig_getSignatureCount (c_mulSig ch') i = needed A ch"
  then have "\<not> can_sign A ch' a (ms_proposals (c_mulSig ch') i)"
    by (simp add: can_sign_def MulSig_getSignatureCount_def n)
  then show "\<exists>e. MulSig_signTransaction A ch' a i = Inl e"
    using signTransaction_Inr_iff by (metis surj_pair sum.exhaust)
qed

text \<open>C4: A signature is counted once: it raises the count by one and never above the number
  needed, starts the waiting period exactly when it is the last one needed, and a second signature
  of the same manager reverts, as does any signature once the number is reached. It emits one event
  and changes nothing but the signatures, the count and the execution time of that proposal: what
  the proposal stores, the other proposals, the queue and the other contracts stay as they are.\<close>

theorem sign_counts_once:
  assumes "MulSig_signTransaction A ch s i = Inr (ch', ev)"
  shows "MulSig_getSignatureCount (c_mulSig ch') i = MulSig_getSignatureCount (c_mulSig ch) i + 1 \<and>
    MulSig_getSignatureCount (c_mulSig ch') i \<le> needed A ch \<and>
    (\<forall>a. MulSig_hasAlreadySigned (c_mulSig ch') i a \<longleftrightarrow>
      a = s \<or> MulSig_hasAlreadySigned (c_mulSig ch) i a) \<and>
    pr_excuteTime (ms_proposals (c_mulSig ch') i) =
      (if MulSig_getSignatureCount (c_mulSig ch') i = needed A ch
       then c_time ch + ms_confirmDuration (c_mulSig ch)
       else pr_excuteTime (ms_proposals (c_mulSig ch) i)) \<and>
    ev = [ProposalSigned i s] \<and>
    (\<exists>sigs n t. ch' = set_mulSig ch ((c_mulSig ch)\<lparr>ms_proposals := (ms_proposals (c_mulSig ch))
      (i := (ms_proposals (c_mulSig ch) i)
        \<lparr>pr_signatures := sigs, pr_signatureCount := n, pr_excuteTime := t\<rparr>)\<rparr>)) \<and>
    (\<exists>e. MulSig_signTransaction A ch' s i = Inl e) \<and>
    (MulSig_getSignatureCount (c_mulSig ch') i = needed A ch \<longrightarrow>
      (\<forall>a. \<exists>e. MulSig_signTransaction A ch' a i = Inl e))"
  using sign_facts [OF assms] by blast

lemma demo_needed: "needed reference_access demo_proposed = 2"
  "is_manager reference_access demo_proposed a \<longleftrightarrow> a \<in> {10, 11, 12}"
  by (auto simp: needed_def is_manager_def demo_access)

lemma demo_platform_fields [simp]:
  "pr_signatureCount demo_platform = 0" "pr_signatures demo_platform a = 0"
  "pr_excuteTime demo_platform = 0" "pr_type demo_platform = 3" "pr_value demo_platform = 300"
  "pr_name demo_platform = ''marginRatio''"
  by (simp_all add: demo_platform_def)

lemma demo_platform_action: "stored_action demo_platform = Some (Platform ''marginRatio'' 300)"
  by (simp add: stored_action_def)

definition demo_signed1 :: "acl chain" where
  "demo_signed1 = set_mulSig demo_proposed ((c_mulSig demo_proposed)\<lparr>ms_proposals :=
     (ms_proposals (c_mulSig demo_proposed))
       (0 := signed reference_access demo_proposed 10 demo_platform)\<rparr>)"

lemma demo_signed1_run:
  "MulSig_signTransaction reference_access demo_proposed 10 0 = Inr (demo_signed1, [ProposalSigned 0 10])"
  by (simp add: signTransaction_Inr_iff can_sign_def demo_signed1_def demo_needed)

lemma sign_counts_once_witness:
  "MulSig_getSignatureCount (c_mulSig demo_signed1) 0 = 1 \<and>
   (\<exists>e. MulSig_signTransaction reference_access demo_signed1 10 0 = Inl e)"
  using sign_counts_once [OF demo_signed1_run] by (simp add: MulSig_getSignatureCount_def)

definition demo_signed2 :: "acl chain" where
  "demo_signed2 = set_mulSig demo_signed1 ((c_mulSig demo_signed1)\<lparr>ms_proposals :=
     (ms_proposals (c_mulSig demo_signed1))
       (0 := signed reference_access demo_signed1 11 (signed reference_access demo_proposed 10 demo_platform))\<rparr>)"

lemma demo_signed1_fields [simp]:
  "ms_proposals (c_mulSig demo_signed1) 0 = signed reference_access demo_proposed 10 demo_platform"
  "ms_roles (c_mulSig demo_signed1) = 2" "ms_governance (c_mulSig demo_signed1) = 3"
  "ms_confirmDuration (c_mulSig demo_signed1) = 7200"
  "c_rolesAt demo_signed1 = 2" "c_roles demo_signed1 = demo_roles" "c_governanceAt demo_signed1 = 3"
  "g_role (c_governance demo_signed1) = 2" "c_time demo_signed1 = 1000"
  "needed reference_access demo_signed1 = 2" "is_manager reference_access demo_signed1 a \<longleftrightarrow> a \<in> {10, 11, 12}"
  by (auto simp: demo_signed1_def needed_def is_manager_def demo_access)

lemma demo_signed2_fields [simp]:
  "ms_proposals (c_mulSig demo_signed2) 0 =
     signed reference_access demo_signed1 11 (signed reference_access demo_proposed 10 demo_platform)"
  "ms_roles (c_mulSig demo_signed2) = 2" "ms_parameterInfo (c_mulSig demo_signed2) = 5"
  "ms_pendingProposals (c_mulSig demo_signed2) = [0]" "c_paramAt demo_signed2 = 5"
  "c_mulSigAt demo_signed2 = 1" "c_param demo_signed2 = c_param demo_chain"
  "c_rolesAt demo_signed2 = 2" "c_roles demo_signed2 = demo_roles" "c_time demo_signed2 = 1000"
  by (simp_all add: demo_signed2_def demo_signed1_def demo_proposed_run(2))

lemma demo_signed2_run:
  "MulSig_signTransaction reference_access demo_signed1 11 0 = Inr (demo_signed2, [ProposalSigned 0 11])"
  by (simp add: signTransaction_Inr_iff can_sign_def demo_signed2_def)

lemma demo_signed1_reachable: "ms_reachable reference_access demo_signed1"
  by (rule ms_reachable.called [OF demo_proposed_reachable, of 10 "SignTransaction 0"])
    (simp add: demo_signed1_run)

lemma demo_signed2_reachable: "ms_reachable reference_access demo_signed2"
  by (rule ms_reachable.called [OF demo_signed1_reachable, of 11 "SignTransaction 0"])
    (simp add: demo_signed2_run)

text \<open>Executing an id that is not in the queue does nothing.\<close>

lemma executed_gone:
  assumes "mulsig_ok (c_mulSig ch)" and "i \<notin> set (ms_pendingProposals (c_mulSig ch))"
    and "MulSig_executeProposal A ch s i = Inr (ch', ev)"
  shows "ch' = ch"
proof -
  have "stored_action (ms_proposals (c_mulSig ch) i) = None"
    using mulsig_okD(3) [OF assms(1)] assms(2) by blast
  then have "execute_effect A ch (ms_proposals (c_mulSig ch) i) = Inr ch"
    by (simp add: execute_effect_def stored_action_def split: if_splits)
  with assms(2,3) show ?thesis
    by (auto simp: executeProposal_Inr_iff remove_proposal_def)
qed

text \<open>Everything that can happen after a state: any caller runs any entry point, and the rest of the
  chain changes while the clock moves on.\<close>

inductive ms_later :: "'ac oz_access \<Rightarrow> 'ac chain \<Rightarrow> 'ac chain \<Rightarrow> bool" for A ch where
  later_now: "ms_later A ch ch"
| later_call: "ms_later A ch ch1 \<Longrightarrow> MulSig_call A ch1 s c = Inr (ch2, ev) \<Longrightarrow> ms_later A ch ch2"
| later_elsewhere: "ms_later A ch ch1 \<Longrightarrow> c_mulSig ch2 = c_mulSig ch1 \<Longrightarrow> c_mulSigAt ch2 = c_mulSigAt ch1 \<Longrightarrow>
     c_time ch1 \<le> c_time ch2 \<Longrightarrow> ms_later A ch ch2"

text \<open>While a proposal is in the queue its execution time only moves forward.\<close>

definition waits :: "nat \<Rightarrow> nat \<Rightarrow> nat \<Rightarrow> 'ac chain \<Rightarrow> bool" where
  "waits start wait i ch \<longleftrightarrow> mulsig_ok (c_mulSig ch) \<and> i < ms_proposalIDx (c_mulSig ch) \<and>
     ms_confirmDuration (c_mulSig ch) = wait \<and> start \<le> c_time ch \<and>
     (i \<in> set (ms_pendingProposals (c_mulSig ch)) \<longrightarrow>
       start + wait \<le> pr_excuteTime (ms_proposals (c_mulSig ch) i))"

lemma remove_proposal_waits:
  assumes "mulsig_ok m" and "i \<in> set (ms_pendingProposals (remove_proposal m j))"
  shows "i \<in> set (ms_pendingProposals m)" and "ms_proposals (remove_proposal m j) i = ms_proposals m i"
  using assms by (auto simp: remove_proposal_def mulsig_okD(1) split: if_splits dest: notin_set_remove1)

lemma call_waits:
  assumes w: "waits start wait i ch" and run: "MulSig_call A ch s c = Inr (ch', ev)"
  shows "waits start wait i ch'"
proof -
  have ok: "mulsig_ok (c_mulSig ch)" using w by (simp add: waits_def)
  have ok': "mulsig_ok (c_mulSig ch')" by (rule call_keeps_ok [OF ok run])
  have removed: "waits start wait i ch'"
    if "c_mulSig ch' = remove_proposal (c_mulSig ch) j" "c_time ch' = c_time ch" for j
    using w ok' that remove_proposal_waits [OF ok, of i j]
    by (auto simp: waits_def remove_proposal_def)
  show ?thesis
  proof (cases "proposed_action c")
    case (Some a)
    then obtain p where "ch' = set_mulSig ch (enqueued (c_mulSig ch) p)"
      by (rule proposed_action_stored [OF _ run]) simp
    with w ok' show ?thesis by (auto simp: waits_def enqueued_def)
  next
    case None
    then consider j where "c = SignTransaction j" | j where "c = ExecuteProposal j"
      | j where "c = DeleteProposals j"
      by (cases c) auto
    then show ?thesis
    proof cases
      case 1
      with run w ok' show ?thesis
        by (auto simp: signTransaction_Inr_iff waits_def signed_def Let_def)
    next
      case 2
      with run show ?thesis
        by (intro removed [of j]) (auto simp: executeProposal_Inr_iff execute_effect_frame)
    next
      case 3
      with run show ?thesis
        by (intro removed [of j]) (auto simp: deleteProposals_eq ebind_Inr_iff)
    qed
  qed
qed

lemma later_waits: "ms_later A ch ch' \<Longrightarrow> waits start wait i ch \<Longrightarrow> waits start wait i ch'"
proof (induction rule: ms_later.induct)
  case (later_call ch1 s c ch2 ev)
  then show ?case using call_waits by blast
qed (auto simp: waits_def)

text \<open>C5: Once the last needed signature is in, nobody executes the proposal before the
  confirmation period is over, whatever anybody has called in the meantime and however the rest of
  the chain has changed: while the proposal is in the queue every attempt reverts, a manager's
  because of the time, and once it has been deleted a call to execute it that returns changes
  nothing.\<close>

theorem timelock:
  assumes "ms_reachable A ch" and "i \<in> set (ms_pendingProposals (c_mulSig ch))"
    and "MulSig_signTransaction A ch s i = Inr (ch', ev)"
    and "MulSig_getSignatureCount (c_mulSig ch') i = needed A ch"
    and "ms_later A ch' later" and "c_time later < c_time ch + ms_confirmDuration (c_mulSig ch)"
  shows "if i \<in> set (ms_pendingProposals (c_mulSig later))
    then \<exists>e. MulSig_executeProposal A later b i = Inl e \<and>
      (is_manager A later b \<longrightarrow> e = ''executeTime not meet'')
    else \<forall>ch2 ev2. MulSig_executeProposal A later b i = Inr (ch2, ev2) \<longrightarrow> ch2 = later"
proof -
  have sig: "MulSig_call A ch s (SignTransaction i) = Inr (ch', ev)" using assms(3) by simp
  have "ch' = set_mulSig ch ((c_mulSig ch)\<lparr>ms_proposals := (ms_proposals (c_mulSig ch))
             (i := signed A ch s (ms_proposals (c_mulSig ch) i))\<rparr>)"
    using assms(3) by (simp add: signTransaction_Inr_iff)
  then have "waits (c_time ch) (ms_confirmDuration (c_mulSig ch)) i ch'"
    using sign_facts(4) [OF assms(3)] assms(4) call_keeps_ok [OF reachable_ok [OF assms(1)] sig]
      mulsig_okD(2) [OF reachable_ok [OF assms(1)] assms(2)]
    by (simp add: waits_def)
  then have w: "waits (c_time ch) (ms_confirmDuration (c_mulSig ch)) i later"
    by (rule later_waits [OF assms(5)])
  show ?thesis
  proof (cases "i \<in> set (ms_pendingProposals (c_mulSig later))")
    case True
    then have t: "c_time later < pr_excuteTime (ms_proposals (c_mulSig later) i)"
      using w assms(6) by (simp add: waits_def)
    then show ?thesis
      using True execute_early [of A later b i] not_manager [of A later b "ExecuteProposal i"]
      by (cases "is_manager A later b") auto
  next
    case False
    then show ?thesis using executed_gone w by (auto simp: waits_def)
  qed
qed

lemma timelock_witness:
  "\<exists>e. MulSig_executeProposal reference_access (demo_signed2\<lparr>c_time := 8199\<rparr>) 12 0 = Inl e"
proof -
  have n: "MulSig_getSignatureCount (c_mulSig demo_signed2) 0 = needed reference_access demo_signed1"
    by (simp add: MulSig_getSignatureCount_def demo_signed2_def)
  have l: "ms_later reference_access demo_signed2 (demo_signed2\<lparr>c_time := 8199\<rparr>)"
    by (rule ms_later.later_elsewhere [OF ms_later.later_now]) simp_all
  have p: "0 \<in> set (ms_pendingProposals (c_mulSig demo_signed1))"
    by (simp add: demo_signed1_def demo_proposed_run(2))
  show ?thesis
    using timelock [OF demo_signed1_reachable p demo_signed2_run n l, of 12] by auto
qed

section \<open>Executing\<close>

text \<open>What a chain looks like in which an action has been carried out. The names of the permission
  proposals are spelled out, with the role each of them gives or takes.\<close>

fun achieved :: "'ac oz_access \<Rightarrow> 'ac chain \<Rightarrow> action \<Rightarrow> bool" where
  "achieved A ch (Permission n a) =
     (let holds = (\<lambda>role. hasRole A (r_access (c_roles ch)) role a) in
      (n = ''FMD'' \<longrightarrow> \<not> holds FOUNDATION_MANAGER) \<and> (n = ''FMA'' \<longrightarrow> holds FOUNDATION_MANAGER) \<and>
      (n = ''FEEDERD'' \<longrightarrow> \<not> holds FEEDER) \<and> (n = ''FEEDERA'' \<longrightarrow> holds FEEDER) \<and>
      (n = ''ADMIND'' \<longrightarrow> \<not> holds ADMIN) \<and> (n = ''ADMINA'' \<longrightarrow> holds ADMIN) \<and>
      (n = ''AUCTION_MANAGERD'' \<longrightarrow> \<not> holds AUCTION_MANAGER) \<and>
      (n = ''AUCTION_MANAGERA'' \<longrightarrow> holds AUCTION_MANAGER) \<and>
      (n = ''CROSSCHAIN_SENDERD'' \<longrightarrow> \<not> holds CROSSCHAIN_SENDER) \<and>
      (n = ''CROSSCHAIN_SENDERA'' \<longrightarrow> holds CROSSCHAIN_SENDER) \<and>
      (n = ''TCASH_MINTERD'' \<longrightarrow> \<not> holds TCASH_MINTER) \<and> (n = ''TCASH_MINTERA'' \<longrightarrow> holds TCASH_MINTER) \<and>
      (n = ''TCASH_BURNERD'' \<longrightarrow> \<not> holds TCASH_BURNER) \<and> (n = ''TCASH_BURNERA'' \<longrightarrow> holds TCASH_BURNER))"
| "achieved A ch (Resource n p d) = (Governance_getTreasureByKind (c_governance ch) n = Inr (p, d))"
| "achieved A ch (Platform n v) =
     ((if n = ''liquidationRatio'' then pi_liquidationRatio (c_param ch)
       else pi_platformConfig (c_param ch) n) = v)"
| "achieved A ch (Discount api sul ds) =
     (pi_API (c_param ch) = api \<and> pi_sulphur (c_param ch) = sul \<and> 
      pi_discount (c_param ch) = [ds ! 0, ds ! 1, ds ! 2, ds ! 3])"
| "achieved A ch (DApp t d payee) =
     (case Governance_getTreasureByKind (c_governance ch) t of
        Inl e \<Rightarrow> False
      | Inr (p, _) \<Rightarrow> (case producer_at ch p of Inl e \<Rightarrow> False
                     | Inr st \<Rightarrow> Producer_getDAppPayee st (dappIdOf d payee) = Inr payee))"
| "achieved A ch (Token i c) =
     (CrosschainTokens_getCrosschainTokenByChainId (c_tokens ch) (ti_token i) c = i)"

lemma stored_action_type: "stored_action p = Some a \<Longrightarrow> pr_type p =
    (case a of Permission _ _ \<Rightarrow> 1 | Resource _ _ _ \<Rightarrow> 2 | Platform _ _ \<Rightarrow> 3 | Discount _ _ _ \<Rightarrow> 4
     | DApp _ _ _ \<Rightarrow> 5 | Token _ _ \<Rightarrow> 6)"
  by (auto simp: stored_action_def split: if_splits)

lemma setPlatformConfig_value:
  "ParameterInfo_setPlatformConfig p c n v = Inr p' \<Longrightarrow>
     (if n = ''liquidationRatio'' then pi_liquidationRatio p' else pi_platformConfig p' n) = v"
  unfolding ParameterInfo_setPlatformConfig_def
  by (cases "n = ''liquidationRatio''")
    (auto simp: ebind_Inr_iff ParameterInfo_set_def split: if_split_asm)

lemma execute_effect_achieves:
  assumes A: "access_control A" and run: "execute_effect A ch p = Inr ch'"
    and a: "stored_action p = Some a"
  shows "achieved A ch' a"
proof (cases a)
  case (Permission n b)
  with a have p: "pr_type p = 1" "pr_name p = n" "pr_add p = b"
    by (auto simp: stored_action_def split: if_splits)
  show ?thesis
    using run p access_control.grant_hasRole [OF A] access_control.revoke_hasRole [OF A]
    by (auto simp: Permission execute_effect_def execute_permission_def permission_op_def ebind_Inr_iff
        roles_at_def split: if_split_asm)
next
  case (Resource n pr dat)
  with a run show ?thesis
    by (auto simp: stored_action_def execute_effect_def execute_addResource_def ebind_Inr_iff
        Governance_addTreasure_def governance_at_def addTreasure_internal_Inr(1) split: if_splits)
next
  case (Platform n v)
  with a have p: "pr_type p = 3" "pr_name p = n" "pr_value p = v"
    by (auto simp: stored_action_def split: if_splits)
  with run show ?thesis
    by (auto simp: Platform execute_effect_def execute_platformConfig_def ebind_Inr_iff
        dest!: setPlatformConfig_value)
next
  case (Discount x y ds)
  with a have p: "pr_type p = 4" "pr_API p = x" "pr_sulphur p = y" "pr_discount p = ds"
    by (auto simp: stored_action_def split: if_splits)
  show ?thesis
    using run p
    by (auto simp: Discount execute_effect_def execute_discountConfig_def ebind_Inr_iff
        ParameterInfo_setPriceDiscountConfig_def)
next
  case (DApp t n payee)
  with a have p: "pr_type p = 5" "pr_name p = n" "pr_treasureKind p = t" "pr_payee p = payee"
    by (auto simp: stored_action_def split: if_splits)
  show ?thesis
    using run p registerDAppConnect_Inr(1)
    by (auto simp: DApp execute_effect_def execute_registerDApp_def ebind_Inr_iff governance_at_def
        producer_at_def split: if_splits)
next
  case (Token i c)
  with a have p: "pr_type p = 6" "proposal_info p = i" "pr_chainId p = c"
    by (auto simp: stored_action_def split: if_splits)
  with run show ?thesis
    by (auto simp: Token execute_effect_def execute_crosschainToken_def ebind_Inr_iff
        setCrosschainToken_get)
qed


lemma achieved_set_mulSig [simp]: "achieved A (set_mulSig ch m) a = achieved A ch a"
  by (cases a) (auto simp: producer_at_def split: option.splits sum.splits)

lemma remove_proposal_simps [simp]:
  "stored_action (ms_proposals (remove_proposal m i) i) =
     (if i \<in> set (ms_pendingProposals m) then None else stored_action (ms_proposals m i))"
  "ms_proposalIDx (remove_proposal m i) = ms_proposalIDx m" "ms_roles (remove_proposal m i) = ms_roles m"
  by (simp_all add: remove_proposal_def)

text \<open>C2: Executing a pending proposal of a reachable multisig that returns has done the action the
  proposal stores (the role the name of a permission proposal stands for is held after a name ending
  in \<open>A\<close> and not held after one ending in \<open>D\<close>, the treasure is registered, the parameter set, the
  DApp payable, the token pair stored), has taken the id out of the queue and cleared its slot, and
  emits the execution event; it is only possible from its execution time on.\<close>

theorem execution_achieves:
  assumes "access_control A" and "ms_reachable A ch" and "i \<in> set (ms_pendingProposals (c_mulSig ch))"
    and "MulSig_executeProposal A ch s i = Inr (ch', ev)"
  shows "(\<exists>a. stored_action (ms_proposals (c_mulSig ch) i) = Some a \<and> achieved A ch' a) \<and>
    i \<notin> set (ms_pendingProposals (c_mulSig ch')) \<and> stored_action (ms_proposals (c_mulSig ch') i) = None \<and>
    ev = [ProposalExecuted i] \<and> pr_excuteTime (ms_proposals (c_mulSig ch) i) \<le> c_time ch'"
proof -
  note ok = reachable_ok [OF assms(2)]
  obtain ch1 where run: "execute_effect A ch (ms_proposals (c_mulSig ch) i) = Inr ch1"
    and t: "pr_excuteTime (ms_proposals (c_mulSig ch) i) \<le> c_time ch"
    and ch': "ch' = set_mulSig ch1 (remove_proposal (c_mulSig ch) i)" "ev = [ProposalExecuted i]"
    using assms(4) by (auto simp: executeProposal_Inr_iff)
  obtain a where a: "stored_action (ms_proposals (c_mulSig ch) i) = Some a"
    using mulsig_okD(3) [OF ok, of i] assms(3) by auto
  have gone: "stored_action (ms_proposals (c_mulSig ch') i) = None"
    using assms(3) by (simp add: ch')
  moreover have "i \<notin> set (ms_pendingProposals (c_mulSig ch'))"
    using mulsig_okD(3) [OF remove_proposal_ok [OF ok], of i i] gone by (simp add: ch')
  ultimately show ?thesis
    using execute_effect_achieves [OF assms(1) run a] a t ch' execute_effect_frame(4) [OF run] by simp
qed

lemma demo_twice_signed:
  "pr_excuteTime (ms_proposals (c_mulSig demo_signed2) 0) = 8200"
  "stored_action (ms_proposals (c_mulSig demo_signed2) 0) = Some (Platform ''marginRatio'' 300)"
  using sign_facts(4) [OF demo_signed2_run]
  by (simp_all add: MulSig_getSignatureCount_def demo_platform_action)

definition demo_due :: "acl chain" where
  "demo_due = demo_signed2\<lparr>c_time := 8200\<rparr>"

lemma demo_due_reachable: "ms_reachable reference_access demo_due"
  by (rule ms_reachable.elsewhere [OF demo_signed2_reachable]) (simp_all add: demo_due_def)

lemma effect_platform:
  assumes "stored_action p = Some (Platform n v)" and "ms_parameterInfo (c_mulSig ch) = c_paramAt ch"
    and "ParameterInfo_setPlatformConfig (c_param ch) (c_mulSigAt ch) n v = Inr par"
  shows "execute_effect A ch p = Inr (ch\<lparr>c_param := par\<rparr>)"
proof -
  have "pr_type p = 3" "pr_name p = n" "pr_value p = v"
    using assms(1) by (auto simp: stored_action_def split: if_splits)
  then show ?thesis
    using assms by (simp add: execute_effect_def execute_platformConfig_def param_at_def)
qed

lemma demo_param_run:
  "ParameterInfo_setPlatformConfig (c_param demo_chain) 1 ''marginRatio'' 300 =
     Inr (ParameterInfo_set (c_param demo_chain) ''marginRatio'' 300)"
  by (simp add: ParameterInfo_setPlatformConfig_def)

definition demo_executed :: "acl chain" where
  "demo_executed = set_mulSig (demo_due\<lparr>c_param := ParameterInfo_set (c_param demo_chain) ''marginRatio'' 300\<rparr>)
     (remove_proposal (c_mulSig demo_due) 0)"

lemma demo_executed_run:
  assumes "a \<in> {10, 11, 12}"
  shows "MulSig_executeProposal reference_access demo_due a 0 = Inr (demo_executed, [ProposalExecuted 0])"
proof -
  have e: "execute_effect reference_access demo_due (ms_proposals (c_mulSig demo_due) 0) =
      Inr (demo_due\<lparr>c_param := ParameterInfo_set (c_param demo_chain) ''marginRatio'' 300\<rparr>)"
    by (rule effect_platform [of _ "''marginRatio''" 300])
      (use demo_twice_signed(2) demo_param_run in \<open>simp_all add: demo_due_def\<close>)
  have m: "is_manager reference_access (demo_due\<lparr>c_param := x\<rparr>) a" "is_manager reference_access demo_due a" for x
    using assms by (auto simp: is_manager_def demo_due_def demo_access)
  have t: "pr_excuteTime (ms_proposals (c_mulSig demo_due) 0) \<le> c_time demo_due"
    using demo_twice_signed(1) by (simp add: demo_due_def)
  show ?thesis
    unfolding executeProposal_Inr_iff demo_executed_def using e m t by blast
qed

lemma execution_achieves_witness:
  "pi_platformConfig (c_param demo_executed) ''marginRatio'' = 300"
proof -
  have p: "0 \<in> set (ms_pendingProposals (c_mulSig demo_due))"
    and a: "stored_action (ms_proposals (c_mulSig demo_due) 0) = Some (Platform ''marginRatio'' 300)"
    using demo_twice_signed(2) by (simp_all add: demo_due_def)
  from execution_achieves [OF ref.access_control_axioms demo_due_reachable p demo_executed_run [of 12]] a
  show ?thesis by auto
qed

text \<open>C6: The confirmation period protects a proposal only after it has its signatures. A proposal
  nobody has signed has execution time zero, so the manager who proposes a parameter change can
  execute it in the same block, without any signature.\<close>

theorem execution_without_signatures:
  assumes "is_manager A ch s" and "ms_proposalIDx (c_mulSig ch) + 1 < 2 ^ 256"
    and "pr_excuteTime (ms_proposals (c_mulSig ch) (ms_proposalIDx (c_mulSig ch))) = 0"
    and "ms_parameterInfo (c_mulSig ch) = c_paramAt ch"
    and "ParameterInfo_setPlatformConfig (c_param ch) (c_mulSigAt ch) key v = Inr par"
  shows "\<exists>ch1 ch2 ev. MulSig_proposeToSetPlatformConfig A ch s key v = Inr (ch1, ev) \<and>
    MulSig_getSignatureCount (c_mulSig ch1) (ms_proposalIDx (c_mulSig ch)) = 0 \<and>
    MulSig_executeProposal A ch1 s (ms_proposalIDx (c_mulSig ch)) =
      Inr (ch2, [ProposalExecuted (ms_proposalIDx (c_mulSig ch))]) \<and>
    c_param ch2 = par \<and> c_time ch2 = c_time ch"
proof -
  let ?m = "c_mulSig ch" and ?i = "ms_proposalIDx (c_mulSig ch)"
  define p where "p = (ms_proposals ?m ?i)\<lparr>pr_proposer := s, pr_name := key, pr_value := v,
    pr_type := 3, pr_signatureCount := 0\<rparr>"
  define ch1 where "ch1 = set_mulSig ch (enqueued ?m p)"
  have proposed: "MulSig_proposeToSetPlatformConfig A ch s key v = Inr (ch1, [SetPlatformConfig ?i s key v])"
    by (simp add: MulSig_proposeToSetPlatformConfig_def manager_passes [OF assms(1)]
        new_proposal_run [OF assms(2)] ch1_def p_def)
  have P: "ms_proposals (c_mulSig ch1) ?i = p" by (simp add: ch1_def)
  have e: "execute_effect A ch1 p = Inr (ch1\<lparr>c_param := par\<rparr>)"
    by (rule effect_platform [where n = key and v = v])
      (use assms(4,5) in \<open>simp_all add: p_def stored_action_def ch1_def\<close>)
  have m: "is_manager A ch1 s" "is_manager A (ch1\<lparr>c_param := par\<rparr>) s"
    using assms(1) by (simp_all add: is_manager_def ch1_def)
  have "MulSig_executeProposal A ch1 s ?i = Inr (set_mulSig (ch1\<lparr>c_param := par\<rparr>)
      (remove_proposal (c_mulSig ch1) ?i), [ProposalExecuted ?i])"
    unfolding executeProposal_Inr_iff P using e m assms(3) by (simp add: p_def)
  with proposed show ?thesis
    by (auto simp: MulSig_getSignatureCount_def P p_def) (auto simp: ch1_def p_def)
qed

lemma execution_without_signatures_witness:
  "\<exists>ch1 ch2 ev. MulSig_proposeToSetPlatformConfig reference_access demo_chain 10 ''marginRatio'' 300 = Inr (ch1, ev) \<and>
    MulSig_executeProposal reference_access ch1 10 0 = Inr (ch2, [ProposalExecuted 0])"
  using execution_without_signatures [of reference_access demo_chain 10 "''marginRatio''" 300] demo_param_run
  by (fastforce simp: demo_manager)


text \<open>C24: The documented way to appoint or dismiss an auction manager does not work: the role is
  administered by the foundation managers and not by \<open>ADMIN\<close>, the only role of the multisig, so
  on roles set up by the initialiser every execution of such a proposal reverts.\<close>

theorem auction_manager_proposals_revert:
  assumes "access_control A" and "Roles_initialize A st0 own ms man auc fee cro tc = Inr (c_roles ch)"
    and "\<not> hasRole A (r_access st0) FOUNDATION_MANAGER (c_mulSigAt ch)" and "c_mulSigAt ch \<notin> set man"
    and "pr_type (ms_proposals (c_mulSig ch) i) = 1"
    and "pr_name (ms_proposals (c_mulSig ch) i) \<in> {''AUCTION_MANAGERA'', ''AUCTION_MANAGERD''}"
  shows "\<exists>e. MulSig_executeProposal A ch s i = Inl e"
proof -
  let ?p = "ms_proposals (c_mulSig ch) i" and ?ac = "r_access (c_roles ch)"
  have ac: "?ac = Roles_assign A (r_access st0) ms man auc fee cro tc"
    using assms(2)
    by (cases "r_initialized st0")
      (simp_all add: Roles_initialize_def, drule arg_cong [where f = r_access], simp)
  have adm: "getRoleAdmin A ?ac AUCTION_MANAGER = FOUNDATION_MANAGER"
    unfolding ac by (rule access_control.assign_admin(1) [OF assms(1)])
  have no: "\<not> hasRole A ?ac (getRoleAdmin A ?ac AUCTION_MANAGER) (c_mulSigAt ch)"
    unfolding adm unfolding ac access_control.assign_hasRole [OF assms(1)]
    using assms(3,4) by (simp add: role_defs)
  have "\<exists>e. grantRole A ?ac (c_mulSigAt ch) AUCTION_MANAGER (pr_add ?p) = Inl e"
    and "\<exists>e. revokeRole A ?ac (c_mulSigAt ch) AUCTION_MANAGER (pr_add ?p) = Inl e"
    using access_control.grant_denied [OF assms(1) no] access_control.revoke_denied [OF assms(1) no] by auto
  then have "execute_effect A ch ?p \<noteq> Inr ch1" for ch1
    using assms(5,6)
    by (auto simp: execute_effect_def execute_permission_def permission_op_def roles_at_def ebind_Inr_iff)
  then show ?thesis
    using executeProposal_Inr_iff [of A ch s i] by (metis surj_pair sum.exhaust)
qed

definition demo_slot :: "proposal \<Rightarrow> acl chain" where
  "demo_slot p = set_mulSig demo_chain (enqueued (c_mulSig demo_chain) p)"

lemma demo_slot_fields [simp]:
  "c_mulSig (demo_slot p) = enqueued (c_mulSig demo_chain) p" "c_roles (demo_slot p) = demo_roles"
  "c_mulSigAt (demo_slot p) = 1" "c_rolesAt (demo_slot p) = 2" "c_time (demo_slot p) = 1000"
  by (simp_all add: demo_slot_def enqueued_def)

lemma demo_roles_init:
  "Roles_initialize reference_access \<lparr>r_initialized = False, r_owner = 0, r_mulSig = 0, r_access = acl_empty\<rparr>
     9 1 [10, 11, 12] [20] [21] [22] [23] = Inr demo_roles"
  by (simp add: Roles_initialize_def demo_roles_def)

definition demo_permission :: "string \<Rightarrow> addr \<Rightarrow> proposal" where
  "demo_permission n a = (ms_proposals blank_mulsig 0)\<lparr>pr_proposer := 10, pr_name := n, pr_add := a,
     pr_type := 1, pr_signatureCount := 0\<rparr>"

lemma demo_permission_fields [simp]:
  "pr_name (demo_permission n a) = n" "pr_add (demo_permission n a) = a" "pr_type (demo_permission n a) = 1"
  "pr_excuteTime (demo_permission n a) = 0"
  by (simp_all add: demo_permission_def)

lemma auction_manager_proposals_revert_witness:
  "\<exists>e. MulSig_executeProposal reference_access (demo_slot (demo_permission ''AUCTION_MANAGERA'' 30)) 10 0 = Inl e"
  by (rule auction_manager_proposals_revert [OF ref.access_control_axioms,
        of "\<lparr>r_initialized = False, r_owner = 0, r_mulSig = 0, r_access = acl_empty\<rparr>"
           9 1 "[10, 11, 12]" "[20]" "[21]" "[22]" "[23]"])
    (simp_all add: demo_roles_init, simp add: reference_defs)

text \<open>C25: A foundation manager cannot execute the proposal that dismisses him: the internal
  deletion checks the caller's role again after it is gone, and the whole call reverts.\<close>

theorem own_dismissal_reverts:
  assumes "access_control A" and "pr_type (ms_proposals (c_mulSig ch) i) = 1"
    and "pr_name (ms_proposals (c_mulSig ch) i) = ''FMD''" and "pr_add (ms_proposals (c_mulSig ch) i) = s"
  shows "\<exists>e. MulSig_executeProposal A ch s i = Inl e"
proof -
  let ?p = "ms_proposals (c_mulSig ch) i"
  have "\<not> is_manager A ch1 s" if run: "execute_effect A ch ?p = Inr ch1" for ch1
  proof -
    have "stored_action ?p = Some (Permission ''FMD'' s)"
      using assms(2-4) by (simp add: stored_action_def)
    then have "achieved A ch1 (Permission ''FMD'' s)"
      using execute_effect_achieves [OF assms(1) run] by blast
    then show ?thesis by (simp add: is_manager_def)
  qed
  then show ?thesis
    using executeProposal_Inr_iff [of A ch s i] by (metis surj_pair sum.exhaust)
qed

lemma own_dismissal_reverts_witness:
  "\<exists>e. MulSig_executeProposal reference_access (demo_slot (demo_permission ''FMD'' 10)) 10 0 = Inl e"
  by (rule own_dismissal_reverts [OF ref.access_control_axioms]) simp_all

text \<open>Executing a proposal a second time, or one that was never made, does not fail: in a
  reachable state it succeeds, emits the execution event and changes nothing.\<close>

theorem execute_unknown_succeeds:
  assumes "ms_reachable A ch" and "i \<notin> set (ms_pendingProposals (c_mulSig ch))" and "is_manager A ch s"
    and "pr_excuteTime (ms_proposals (c_mulSig ch) i) \<le> c_time ch"
  shows "MulSig_executeProposal A ch s i = Inr (ch, [ProposalExecuted i])"
proof -
  have "stored_action (ms_proposals (c_mulSig ch) i) = None"
    using mulsig_okD(3) [OF reachable_ok [OF assms(1)]] assms(2) by blast
  then have "execute_effect A ch (ms_proposals (c_mulSig ch) i) = Inr ch"
    by (simp add: execute_effect_def stored_action_def split: if_splits)
  with assms(2-4) show ?thesis
    by (simp add: executeProposal_Inr_iff remove_proposal_def)
qed

lemma execute_unknown_succeeds_witness:
  "MulSig_executeProposal reference_access demo_chain 10 5 = Inr (demo_chain, [ProposalExecuted 5])"
  by (rule execute_unknown_succeeds [OF demo_reachable]) (simp_all add: demo_manager)

text \<open>A manager can sign the next id before any proposal has it. The proposal that then takes
  the id starts with a count of zero but keeps the mark, so that this manager can never sign it.\<close>

theorem early_signature_is_lost:
  assumes "MulSig_signTransaction A ch s (ms_proposalIDx (c_mulSig ch)) = Inr (ch1, ev1)"
    and "proposed_action c \<noteq> None" and "MulSig_call A ch1 b c = Inr (ch2, ev2)"
  shows "MulSig_getSignatureCount (c_mulSig ch2) (ms_proposalIDx (c_mulSig ch)) = 0 \<and>
    MulSig_hasAlreadySigned (c_mulSig ch2) (ms_proposalIDx (c_mulSig ch)) s \<and>
    (\<exists>e. MulSig_signTransaction A ch2 s (ms_proposalIDx (c_mulSig ch)) = Inl e)"
proof -
  let ?i = "ms_proposalIDx (c_mulSig ch)"
  have idx: "ms_proposalIDx (c_mulSig ch1) = ?i"
    and sig: "pr_signatures (ms_proposals (c_mulSig ch1) ?i) s = 1"
    using assms(1) by (auto simp: signTransaction_Inr_iff)
  obtain a where "proposed_action c = Some a" using assms(2) by blast
  then obtain p where "ch2 = set_mulSig ch1 (enqueued (c_mulSig ch1) p)" "pr_signatureCount p = 0"
    "pr_signatures p = pr_signatures (ms_proposals (c_mulSig ch1) ?i)"
    by (rule proposed_action_stored [OF _ assms(3)]) (simp add: idx)
  then have P: "ms_proposals (c_mulSig ch2) ?i = p" "pr_signatureCount p = 0" "pr_signatures p s = 1"
    using sig idx by simp_all
  then have "\<not> can_sign A ch2 s (ms_proposals (c_mulSig ch2) ?i)"
    by (simp add: can_sign_def)
  then have "\<exists>e. MulSig_signTransaction A ch2 s ?i = Inl e"
    using signTransaction_Inr_iff by (metis surj_pair sum.exhaust)
  with P show ?thesis
    by (simp add: MulSig_getSignatureCount_def MulSig_hasAlreadySigned_def)
qed

definition demo_early :: "acl chain" where
  "demo_early = set_mulSig demo_chain ((c_mulSig demo_chain)\<lparr>ms_proposals :=
     (ms_proposals (c_mulSig demo_chain))(0 := signed reference_access demo_chain 11 (ms_proposals blank_mulsig 0))\<rparr>)"

lemma demo_early_run:
  "MulSig_signTransaction reference_access demo_chain 11 0 = Inr (demo_early, [ProposalSigned 0 11])"
  by (simp add: signTransaction_Inr_iff can_sign_def demo_manager demo_early_def)

lemma demo_early_proposed:
  "MulSig_call reference_access demo_early 10 (ProposeToAddResource ''GOLD'' 30 31) =
     Inr (set_mulSig demo_early (enqueued (c_mulSig demo_early) ((ms_proposals (c_mulSig demo_early) 0)
       \<lparr>pr_proposer := 10, pr_name := ''GOLD'', pr_type := 2, pr_producer := 30,
        pr_productionData := 31, pr_signatureCount := 0\<rparr>)), [AddResource 0 10 ''GOLD'' 30 31])"
proof -
  have m: "is_manager reference_access demo_early 10" "ms_proposalIDx (c_mulSig demo_early) = 0"
    by (simp_all add: demo_early_def is_manager_def demo_access)
  show ?thesis
    by (simp add: MulSig_proposeToAddResource_def manager_passes [OF m(1)] new_proposal_run m(2))
qed

lemma early_signature_is_lost_witness:
  "\<exists>ch. (\<exists>ev. MulSig_call reference_access demo_early 10 (ProposeToAddResource ''GOLD'' 30 31) = Inr (ch, ev)) \<and>
     (\<exists>e. MulSig_signTransaction reference_access ch 11 0 = Inl e)"
  using early_signature_is_lost [of reference_access demo_chain 11 demo_early _ "ProposeToAddResource ''GOLD'' 30 31" 10]
    demo_early_run demo_early_proposed by auto

text \<open>The details of a DApp or cross-chain-token proposal are blank, whatever is stored: in
  particular the execution time reads 0 while the proposal is still locked.\<close>

theorem details_blank:
  assumes "stored_action (ms_proposals m i) \<in> {Some (DApp t d p), Some (Token info c)}"
  shows "MulSig_transactionDetails m i =
    \<lparr>rs_name = [], rs_add = 0, rs_a = [0, 0, 0, 0, 0, 0], rs_executeTime = 0\<rparr>"
  using assms by (auto simp: stored_action_def MulSig_transactionDetails_def Let_def split: if_splits)

definition demo_dapp :: proposal where
  "demo_dapp = (ms_proposals blank_mulsig 0)\<lparr>pr_type := 5, pr_treasureKind := ''OIL'', pr_name := ''app'',
     pr_payee := 40, pr_excuteTime := 8200\<rparr>"

lemma details_blank_witness:
  "rs_executeTime (MulSig_transactionDetails (enqueued blank_mulsig demo_dapp) 0) = 0 \<and>
   pr_excuteTime (ms_proposals (enqueued blank_mulsig demo_dapp) 0) = 8200"
proof -
  have "stored_action (ms_proposals (enqueued blank_mulsig demo_dapp) 0) \<in>
      {Some (DApp ''OIL'' ''app'' 40), Some (Token empty_info 0)}"
    by (simp add: demo_dapp_def stored_action_def)
  from details_blank [OF this] show ?thesis
    by (simp add: demo_dapp_def)
qed

end
