(* ===== verification/Demo.thy ===== *)
theory Demo
  imports World MulSigSafety
begin

text \<open>
  One concrete environment in which every request goes through, over the small deployment: the
  witnesses run the scripts on it. Addresses are their hexadecimal digits, the KMS key always has
  the same address, and proxies are a map from proxy to implementation, all under one admin.
\<close>

definition demo_proxy :: "(addr \<Rightarrow> addr) proxy_admin" where
  "demo_proxy = \<lparr>px_owner = (\<lambda>s a. if a = 50 then Inr 9 else Inl ''''),
     px_implementation = (\<lambda>s a p. if a = 50 \<and> s p \<noteq> 0 then Inr (s p) else Inl ''''),
     px_admin = (\<lambda>s a p. if a = 50 \<and> s p \<noteq> 0 then Inr 50 else Inl ''''),
     px_upgrade = (\<lambda>s from to p i. if from = 9 \<and> to = 50 \<and> s p \<noteq> 0 then Inr (s(p := i))
                    else Inl ''Ownable: caller is not the owner''),
     px_deploy = (\<lambda>s from n. Inr (s(70 + of_nat (length n) := 0), 70 + of_nat (length n)))\<rparr>"

definition demo_parse :: "string \<Rightarrow> addr fallible" where
  "demo_parse s = ebind (bigIntHex (drop 2 s)) (\<lambda>n. Inr (of_nat n))"

definition demo_checksum :: "addr \<Rightarrow> string" where
  "demo_checksum a = ''0x'' @ toHexString (be_fixed 20 (unat a))"

definition demo_env :: "(acl, addr \<Rightarrow> addr) env" where
  "demo_env = \<lparr>e_access = reference_access, e_proxy = demo_proxy, e_fault = (\<lambda>_. Fine), e_netId = 6666,
     e_gasPrice = 7, e_gasEstimate = (\<lambda>_. 50000), e_nonce = (\<lambda>_. 3),
     e_wrapRevert = (\<lambda>e. ''execution reverted: '' @ e), e_parseAddress = demo_parse,
     e_toChecksum = demo_checksum,
     e_keyAccount = (\<lambda>k. if k = '''' then Inl ''Private key must be 32 bytes long'' else Inr 10),
     e_loadABI = (\<lambda>_. Inr ()), e_kmsGetPublicKey = (\<lambda>_. Inr [4, 1, 2]), e_decodePubKey = Inr,
     e_kmsSign = (\<lambda>k h. Inr [0x30, 6, 2, 1, 5, 2, 1, 7]), e_kmsSignTx = (\<lambda>k (n, gp, g, a, c).
       if a = 1 \<and> c = MulSigCall (SignTransaction 0) then Inr ''0x34'' else Inl ''unsupported''), e_keccakHex = (\<lambda>b. replicate 64 (CHR ''1'')),
     e_recover = (\<lambda>h s. Inr (''0x'' @ replicate 40 (CHR ''1''))),
     e_accountsSign = (\<lambda>tx k. if k = ''0x'' @ replicate 64 (CHR ''0'') \<or> length k \<noteq> 66
                        then Inl ''Private key must be 32 bytes long'' else Inr (''0x12'', ''0x34'')),
     e_decodeRaw = (\<lambda>r. Inr (10, 1, MulSigCall (SignTransaction 0))),
     e_networkAddress = (\<lambda>n i. None), e_blockNumber = (\<lambda>t. t), e_balance = (\<lambda>t a. 10 ^ 18),
     e_storageAt = (\<lambda>w a s. ''0x'' @ replicate 64 (CHR ''0'')),
     e_codeAt = (\<lambda>w a. if has_code (w_chain w) a then ''0x6080604052'' else ''0x''),
     e_proxyCall = (\<lambda>w n a. Inl ''''), e_pastEvents = (\<lambda>w. []),
     e_deployReceipt = (\<lambda>w. Inr None), e_advanceTime = (\<lambda>n. Inr ()), e_iterableResults = False\<rparr>"

definition demo_world :: "acl chain \<Rightarrow> (acl, addr \<Rightarrow> addr) world" where
  "demo_world ch = \<lparr>w_chain = ch, w_proxies = (\<lambda>_. 0)(60 := 61, 62 := 63), w_now = c_time ch,
     w_tick = 0, w_txs = [], w_log = []\<rparr>"

lemma demo_env_fields [simp]:
  "e_access demo_env = reference_access" "e_proxy demo_env = demo_proxy" "e_fault demo_env t = Fine"
  "e_netId demo_env = 6666" "e_gasPrice demo_env = 7" "e_gasEstimate demo_env t = 50000"
  "e_nonce demo_env t = 3" "e_wrapRevert demo_env e = ''execution reverted: '' @ e"
  "e_parseAddress demo_env = demo_parse" "e_toChecksum demo_env = demo_checksum"
  "e_loadABI demo_env n = Inr ()" "e_kmsGetPublicKey demo_env k = Inr [4, 1, 2]"
  "e_decodePubKey demo_env = Inr" "e_kmsSign demo_env k msg = Inr [0x30, 6, 2, 1, 5, 2, 1, 7]"
  "e_kmsSignTx demo_env k (nn, gp, g, aa, c) =
     (if aa = 1 \<and> c = MulSigCall (SignTransaction 0) then Inr ''0x34'' else Inl ''unsupported'')"
  "e_keccakHex demo_env b = replicate 64 (CHR ''1'')"
  "e_recover demo_env hash sig = Inr (''0x'' @ replicate 40 (CHR ''1''))"
  "e_keyAccount demo_env k = (if k = '''' then Inl ''Private key must be 32 bytes long'' else Inr 10)"
  "e_accountsSign demo_env tx k = (if k = ''0x'' @ replicate 64 (CHR ''0'') \<or> length k \<noteq> 66
     then Inl ''Private key must be 32 bytes long'' else Inr (''0x12'', ''0x34''))"
  "e_decodeRaw demo_env r = Inr (10, 1, MulSigCall (SignTransaction 0))"
  "e_networkAddress demo_env nm i = None" "e_blockNumber demo_env t = t" "e_balance demo_env t aa = 10 ^ 18"
  "e_storageAt demo_env w aa s = ''0x'' @ replicate 64 (CHR ''0'')"
  "e_codeAt demo_env w aa = (if has_code (w_chain w) aa then ''0x6080604052'' else ''0x'')"
  "e_proxyCall demo_env w nm aa = Inl ''''" "e_pastEvents demo_env w = []"
  "e_deployReceipt demo_env w = Inr None" "e_advanceTime demo_env tt = Inr ()" "e_iterableResults demo_env = False"
  by (simp_all add: demo_env_def)

lemma demo_world_fields [simp]:
  "w_chain (demo_world ch) = ch" "w_now (demo_world ch) = c_time ch" "w_tick (demo_world ch) = 0"
  "w_txs (demo_world ch) = []" "w_log (demo_world ch) = []"
  by (simp_all add: demo_world_def)

text \<open>With no faults a request is its function.\<close>

lemma demo_request [simp]:
  "request demo_env f w = (case f w of Inl e \<Rightarrow> (Throw (''execution reverted: '' @ e), tick w)
     | Inr x \<Rightarrow> (Ok x, tick w))"
  by (simp add: request_def split: sum.split)

lemma demo_kms [simp]: "kms demo_env (Inr x) w = (Ok x, tick w)"
  by (simp add: kms_def)


lemma demo_parse_simps [simp]:
  "demo_parse ''0x1'' = Inr 1" "demo_parse ''0x2'' = Inr 2" "demo_parse ''0x3'' = Inr 3"
  "demo_parse ''0x4'' = Inr 4" "demo_parse ''0x6'' = Inr 6" "demo_parse ''0xa'' = Inr 10"
  by code_simp+

lemma demo_loadABI [simp]: "loadContractABI demo_env n = ret ()"
  by (simp add: loadContractABI_def)

lemma demo_due_fields [simp]:
  "c_mulSigAt demo_due = 1" "c_rolesAt demo_due = 2" "c_roles demo_due = demo_roles" "c_time demo_due = 8200"
  "MulSig_getSignatureCount (c_mulSig demo_due) 0 = 2" "c_governanceAt demo_due = 3"
  by (simp_all add: demo_due_def MulSig_getSignatureCount_def)
     (simp_all add: demo_signed2_def demo_signed1_def)

lemma demo_executed_fields [simp]:
  "c_mulSigAt demo_executed = 1" "MulSig_getSignatureCount (c_mulSig demo_executed) 0 = 0"
  by (simp_all add: demo_executed_def MulSig_getSignatureCount_def remove_proposal_def demo_due_def)


text \<open>A deployment with one manager and no waiting period.\<close>

definition solo_chain :: "acl chain" where
  "solo_chain = demo_chain\<lparr>c_roles := \<lparr>r_initialized = True, r_owner = 9, r_mulSig = 1,
       r_access = Roles_assign reference_access acl_empty 1 [10] [] [] [] []\<rparr>,
     c_mulSig := (c_mulSig demo_chain)\<lparr>ms_confirmDuration := 0\<rparr>\<rparr>"


lemma solo_access:
  "hasRole reference_access (r_access (c_roles solo_chain)) FOUNDATION_MANAGER a \<longleftrightarrow> a = 10"
  "roleMembers reference_access (r_access (c_roles solo_chain)) FOUNDATION_MANAGER = [10]"
proof -
  have e: "hasRole reference_access acl_empty r a = False" for r a
    by (simp add: reference_defs)
  show "hasRole reference_access (r_access (c_roles solo_chain)) FOUNDATION_MANAGER a \<longleftrightarrow> a = 10"
    by (auto simp: solo_chain_def ref.assign_hasRole e role_defs)
  show "roleMembers reference_access (r_access (c_roles solo_chain)) FOUNDATION_MANAGER = [10]"
    by (simp add: solo_chain_def Roles_assign_def reference_defs role_defs)
qed

lemma solo_fields [simp]:
  "c_rolesAt solo_chain = 2" "c_governanceAt solo_chain = 3" "c_mulSigAt solo_chain = 1"
  "c_tokensAt solo_chain = 4" "c_governance solo_chain = c_governance demo_chain" "c_time solo_chain = 1000"
  "c_mulSig solo_chain = (c_mulSig demo_chain)\<lparr>ms_confirmDuration := 0\<rparr>" "c_tokens solo_chain = c_tokens demo_chain"
  "c_producers solo_chain = (\<lambda>_. None)(6 \<mapsto> demo_producer)"
  by (simp_all add: solo_chain_def) (simp_all add: demo_chain_def)

lemma solo_manager:
  "is_manager reference_access solo_chain a \<longleftrightarrow> a = 10" "needed reference_access solo_chain = 1"
  by (simp_all add: is_manager_def needed_def solo_access)

end
