(* ===== verification/AwsRunner.thy ===== *)
theory AwsRunner
  imports Demo
begin

text \<open>
  \<open>scripts/aws-multisig-runner.js\<close>: the KMS signer and the multisig runner that verifies its
  configuration, asks for the state of a proposal and prepares a signature. \<open>logger\<close> lines that
  carry a value or mark a branch are \<open>say\<close>; decoration is left out.
\<close>

record aws_config =
  aw_accessKeyId :: string
  aw_secretAccessKey :: string
  aw_keyId :: string
  aw_chainId :: nat
  aw_contractAddress :: string
  aw_proposalId :: nat
  aw_awsAccount :: string

text \<open>The configuration the file ships with.\<close>

definition aws_shipped :: aws_config where
  "aws_shipped = \<lparr>aw_accessKeyId = '''', aw_secretAccessKey = '''', aw_keyId = '''', aw_chainId = 6666,
     aw_contractAddress = ''0xED54E6944B2a89A13F3CcF0fc08ba7DB54Fd0A8c'', aw_proposalId = 4,
     aw_awsAccount = ''0x09EDA46FFCec4656235391dd298875B82aA458A9''\<rparr>"

section \<open>class AWSKMSSigner\<close>

text \<open>The address that belongs to a public key: the last 20 bytes of the hash of its coordinates.\<close>

definition keyAddress :: "('ac, 'px) env \<Rightarrow> buffer \<Rightarrow> string" where
  "keyAddress E pubKey =
     (let address = e_keccakHex E (drop 1 pubKey); buf2 = bufferFromHex address
      in ''0x'' @ toHexString (slice_last 20 buf2))"

definition AWS_getEthereumAddress :: "('ac, 'px) env \<Rightarrow> aws_config \<Rightarrow> ('ac, 'px, string) script" where
  "AWS_getEthereumAddress E C =
     catch (bind (kms E (e_kmsGetPublicKey E (aw_keyId C))) (\<lambda>der.
            bind (lift_err (e_decodePubKey E der)) (\<lambda>pubKey.
            ret (keyAddress E pubKey))))
       (\<lambda>m. throw (''Failed to get Ethereum address: '' @ m))"

definition AWS_getPublicKey :: "('ac, 'px) env \<Rightarrow> aws_config \<Rightarrow> ('ac, 'px, buffer) script" where
  "AWS_getPublicKey E C =
     catch (bind (kms E (e_kmsGetPublicKey E (aw_keyId C))) (\<lambda>der.
            bind (lift_err (e_decodePubKey E der)) (\<lambda>pubKey.
            ret (drop 1 pubKey))))
       (\<lambda>m. throw (''Failed to get public key: '' @ m))"

text \<open>The loop over the recovery values, for any way to get the expected address and to note a
  failed attempt.\<close>

fun tryRecoveries ::
    "('ac, 'px) env \<Rightarrow> ('ac, 'px, string) script \<Rightarrow> (nat \<Rightarrow> string \<Rightarrow> ('ac, 'px, unit) script)
      \<Rightarrow> string \<Rightarrow> buffer \<Rightarrow> buffer \<Rightarrow> nat list \<Rightarrow> ('ac, 'px, string) script" where
  "tryRecoveries E getAddress failed msgHash r s [] = throw ''Unable to generate a valid Ethereum signature''"
| "tryRecoveries E getAddress failed msgHash r s (v # vs) =
     bind (catch
        (let signature = fullSignature r s v in
         bind (lift_err (e_recover E msgHash signature)) (\<lambda>recoveredAddress.
         bind getAddress (\<lambda>expectedAddress.
         ret (if toLowerCase recoveredAddress = toLowerCase expectedAddress then Some signature else None))))
        (\<lambda>m. bind (failed v m) (\<lambda>_. ret None)))
     (\<lambda>found. case found of Some signature \<Rightarrow> ret signature
        | None \<Rightarrow> tryRecoveries E getAddress failed msgHash r s vs)"

definition toEthereumSignature ::
    "('ac, 'px) env \<Rightarrow> aws_config \<Rightarrow> buffer \<times> buffer \<Rightarrow> string \<Rightarrow> ('ac, 'px, string) script" where
  "toEthereumSignature E C signature msgHash =
     (case signature of (r, s) \<Rightarrow>
        bind (lift_err (normalizeS s)) (\<lambda>normalizedS.
        tryRecoveries E (AWS_getEthereumAddress E C)
          (\<lambda>v m. say ''attempt-failed'' [JNum v, JStr m]) msgHash r normalizedS [27, 28]))"

definition AWS_signMessageHash :: "('ac, 'px) env \<Rightarrow> aws_config \<Rightarrow> string \<Rightarrow> ('ac, 'px, string) script" where
  "AWS_signMessageHash E C msgHash =
     catch (bind (kms E (e_kmsSign E (aw_keyId C) (MsgText msgHash))) (\<lambda>kmsResult.
            bind (lift_err (parseDERSignature kmsResult)) (\<lambda>signature.
            toEthereumSignature E C signature msgHash)))
       (\<lambda>m. bind (say ''kms-failed'' [JStr m]) (\<lambda>_. throw (''Failed to sign with KMS: '' @ m)))"

text \<open>The all-zero private key the hash of the transaction is computed with.\<close>

definition zeroKey :: string where
  "zeroKey = ''0x'' @ replicate 64 (CHR ''0'')"

definition AWS_signTransaction ::
    "('ac, 'px) env \<Rightarrow> aws_config \<Rightarrow> nat \<Rightarrow> nat \<Rightarrow> nat \<Rightarrow> addr \<Rightarrow> txcall \<Rightarrow> ('ac, 'px, signed_tx) script" where
  "AWS_signTransaction E C nonce gasPrice gas to call =
     catch (bind (lift_err (e_accountsSign E (nonce, gasPrice, gas, to, call, aw_chainId C) zeroKey))
              (\<lambda>(txHash, raw).
            bind (AWS_signMessageHash E C txHash) (\<lambda>signature.
            ret (signedTxData txHash signature))))
       (\<lambda>m. throw (''Transaction signing failed: '' @ m))"

definition testKMSBasics :: "('ac, 'px) env \<Rightarrow> aws_config \<Rightarrow> ('ac, 'px, bool) script" where
  "testKMSBasics E C =
     catch (bind (AWS_getPublicKey E C) (\<lambda>publicKey.
            bind (say ''public-key'' [JNum (length publicKey)]) (\<lambda>_.
            bind (AWS_getEthereumAddress E C) (\<lambda>address.
            bind (say ''address'' [JStr address]) (\<lambda>_.
            let testHash = ''0x'' @ e_keccakHex E (map (\<lambda>c. of_nat (of_char c)) ''Hello World'') in
            bind (kms E (e_kmsSign E (aw_keyId C) (MsgBytes (bufferFromHex (drop 2 testHash))))) (\<lambda>kmsResult.
            bind (say ''kms-signature'' [JNum (length kmsResult)]) (\<lambda>_.
            ret True)))))))
       (\<lambda>m. bind (say ''kms-test-failed'' [JStr m]) (\<lambda>_. ret False))"

definition signAndSendMultisigTransaction ::
    "('ac, 'px) env \<Rightarrow> aws_config \<Rightarrow> nat \<Rightarrow> ('ac, 'px, event list) script" where
  "signAndSendMultisigTransaction E C proposalId =
     catch (bind (testKMSBasics E C) (\<lambda>kmsOk.
            if \<not> kmsOk then throw ''KMS basic functionality test failed''
            else
              bind (addrOf E (aw_contractAddress C)) (\<lambda>contract.
              bind (addrOf E (aw_awsAccount C)) (\<lambda>awsAccount.
              bind (getTransactionCount E awsAccount) (\<lambda>nonce.
              bind (getGasPrice E) (\<lambda>gasPrice.
              bind (estimateGas E awsAccount contract (MulSigCall (SignTransaction proposalId))) (\<lambda>gasEstimate.
              bind (say ''transaction'' [JNum (floor_mul dbl_1_2 gasEstimate), JNum gasPrice, JNum nonce]) (\<lambda>_.
              throw ''Please complete signing with your existing AWS KMS flow'')))))))) 
       (\<lambda>m. throw (''Multisig signing failed: '' @ m))"

section \<open>class MultisigRunner\<close>

definition validateConfig :: "('ac, 'px) env \<Rightarrow> aws_config \<Rightarrow> ('ac, 'px, unit) script" where
  "validateConfig E C =
     (if aw_accessKeyId C = '''' \<or> aw_secretAccessKey C = '''' \<or> aw_keyId C = '''' then
        throw ''AWS configuration missing. Please set environment variables: AWS_ACCESS_KEY_ID, AWS_SECRET_ACCESS_KEY, AWS_KMS_KEY_ID''
      else
        bind (catch
          (bind (getId E) (\<lambda>networkId.
           bind (say ''network'' [JNum networkId]) (\<lambda>_.
           whenA (networkId \<noteq> aw_chainId C)
             (say ''network-mismatch'' [JNum (aw_chainId C), JNum networkId]))))
          (\<lambda>m. throw (''Network connection failed: '' @ m))) (\<lambda>_.
        bind (catch
          (bind (AWS_getEthereumAddress E C) (\<lambda>derivedAddress.
           bind (say ''derived'' [JStr derivedAddress]) (\<lambda>_.
           if toLowerCase derivedAddress \<noteq> toLowerCase (aw_awsAccount C) then
             throw (''AWS account mismatch! Expected: '' @ aw_awsAccount C @ '', Got: '' @ derivedAddress)
           else ret ())))
          (\<lambda>m. throw (''AWS verification failed: '' @ m))) (\<lambda>_.
        say ''config-valid'' [])))"

text \<open>\<open>readProposalFromStorage\<close> is a stub in the source: it returns these strings.\<close>

definition readProposalFromStorage :: "(string \<times> string) list" where
  "readProposalFromStorage =
     [(''treasureKind'', ''Unable to read from storage''), (''dappName'', ''Unable to read from storage''),
      (''payee'', ''Unable to read from storage''), (''proposalType'', ''Unknown'')]"

definition verifyProposalSafety :: "('ac, 'px) env \<Rightarrow> aws_config \<Rightarrow> ('ac, 'px, unit) script" where
  "verifyProposalSafety E C =
     catch (let proposalData = readProposalFromStorage in
            bind (say ''proposal'' (JNum (aw_proposalId C) # map (\<lambda>(k, v). JStr v) proposalData)) (\<lambda>_.
            bind (addrOf E (aw_contractAddress C)) (\<lambda>contract.
            bind (mulSig_view E contract (\<lambda>_ m. Inr (MulSig_getSignatureCount m (aw_proposalId C))))
              (\<lambda>signatureCount.
            bind (whenA (signatureCount = 0) (say ''maybe-missing'' [])) (\<lambda>_.
            say ''proposal-accessible'' [])))))
       (\<lambda>m. say ''reading-unavailable'' [])"

definition checkSignatureStatus :: "('ac, 'px) env \<Rightarrow> aws_config \<Rightarrow> ('ac, 'px, bool \<times> nat) script" where
  "checkSignatureStatus E C =
     catch (bind (addrOf E (aw_contractAddress C)) (\<lambda>contract.
            bind (addrOf E (aw_awsAccount C)) (\<lambda>awsAccount.
            bind (mulSig_view E contract (\<lambda>_ m. Inr (MulSig_hasAlreadySigned m (aw_proposalId C) awsAccount)))
              (\<lambda>hasAlreadySigned.
            bind (mulSig_view E contract (\<lambda>_ m. Inr (MulSig_getSignatureCount m (aw_proposalId C))))
              (\<lambda>currentSignatures.
            bind (say ''signatures'' [JNum currentSignatures, JBool hasAlreadySigned]) (\<lambda>_.
            ret (hasAlreadySigned, currentSignatures)))))))
       (\<lambda>m. throw (''Signature status check failed: '' @ m))"

definition signProposal :: "('ac, 'px) env \<Rightarrow> aws_config \<Rightarrow> ('ac, 'px, unit) script" where
  "signProposal E C =
     catch (bind (addrOf E (aw_contractAddress C)) (\<lambda>contract.
            bind (addrOf E (aw_awsAccount C)) (\<lambda>awsAccount.
            bind (getTransactionCount E awsAccount) (\<lambda>nonce.
            bind (getGasPrice E) (\<lambda>gasPrice.
            bind (estimateGas E awsAccount contract (MulSigCall (SignTransaction (aw_proposalId C)))) (\<lambda>gasEstimate.
            bind (say ''transaction'' [JAddr contract, JNum (floor_mul dbl_1_2 gasEstimate), JNum gasPrice, JNum nonce]) (\<lambda>_.
            catch
              (bind (signAndSendMultisigTransaction E C (aw_proposalId C)) (\<lambda>receipt.
               say ''signed'' []))
              (\<lambda>m. say ''kms-signing-failed'' [JStr m]))))))))
       (\<lambda>m. throw (''Proposal signing failed: '' @ m))"

definition checkExecutionConditions :: "('ac, 'px) env \<Rightarrow> aws_config \<Rightarrow> ('ac, 'px, unit) script" where
  "checkExecutionConditions E C =
     catch (bind (addrOf E (aw_contractAddress C)) (\<lambda>contract.
            bind (mulSig_view E contract (\<lambda>_ m. Inr (MulSig_getSignatureCount m (aw_proposalId C))))
              (\<lambda>signatureCount.
            bind (mulSig_view E contract (\<lambda>_ m. Inr (MulSig_transactionDetails m (aw_proposalId C))))
              (\<lambda>proposalDetails.
            bind get_now (\<lambda>currentTime.
            let executeTime = numberOr0 (details_field proposalDetails ''excuteTime'');
                executed = details_field proposalDetails ''executed'';
                canExecute = 2 \<le> signatureCount \<and> executeTime \<le> currentTime \<and> \<not> truthy executed in
            bind (say ''conditions'' [JNum signatureCount, JNum currentTime, JNum executeTime, executed]) (\<lambda>_.
            if canExecute then say ''can-execute'' [JNum (aw_proposalId C)]
            else
              bind (say ''not-ready'' []) (\<lambda>_.
              bind (whenA (signatureCount < 2) (say ''more-signatures'' [JNum (2 - signatureCount)])) (\<lambda>_.
              bind (whenA (currentTime < executeTime) (say ''wait'' [JNum (executeTime - currentTime)])) (\<lambda>_.
              whenA (truthy executed) (say ''already-executed'' []))))))))))
       (\<lambda>m. throw (''Execution condition check failed: '' @ m))"

definition MultisigRunner_run :: "('ac, 'px) env \<Rightarrow> aws_config \<Rightarrow> ('ac, 'px, unit) script" where
  "MultisigRunner_run E C =
     catch (bind (validateConfig E C) (\<lambda>_.
            bind (catch (verifyProposalSafety E C)
                    (\<lambda>m. say ''verification-warning'' [JStr m])) (\<lambda>_.
            bind (checkSignatureStatus E C) (\<lambda>(alreadySigned, currentCount).
            bind (whenA (\<not> alreadySigned) (signProposal E C)) (\<lambda>_.
            bind (checkExecutionConditions E C) (\<lambda>_.
            say ''completed'' []))))))
       (\<lambda>m. bind (say ''failed'' [JStr m]) (\<lambda>_. process_exit 1))"

definition aws_main :: "('ac, 'px) env \<Rightarrow> aws_config \<Rightarrow> ('ac, 'px, unit) script" where
  "aws_main E C =
     catch (MultisigRunner_run E C)
       (\<lambda>m. bind (say ''script-failed'' [JStr m]) (\<lambda>_. process_exit 1))"


section \<open>What the signer returns\<close>

text \<open>The address of a KMS key, without the requests that fetch it.\<close>

definition kmsAddress :: "('ac, 'px) env \<Rightarrow> string \<Rightarrow> string fallible" where
  "kmsAddress E keyId = ebind (e_kmsGetPublicKey E keyId) (\<lambda>der.
     ebind (e_decodePubKey E der) (\<lambda>pubKey. Inr (keyAddress E pubKey)))"

lemma AWS_getEthereumAddress_Ok:
  "AWS_getEthereumAddress E C w = (Ok a, w') \<Longrightarrow> kmsAddress E (aw_keyId C) = Inr a"
  by (auto simp: AWS_getEthereumAddress_def Ok_iffs kmsAddress_def ebind_Inr_iff)

lemma tryRecoveries_Ok:
  assumes "tryRecoveries E getAddress failed h r s vs w = (Ok sig, w')"
    and "\<And>w a w'. getAddress w = (Ok a, w') \<Longrightarrow> P a"
  shows "\<exists>v \<in> set vs. sig = fullSignature r s v \<and>
    (\<exists>a b. e_recover E h sig = Inr a \<and> P b \<and> toLowerCase a = toLowerCase b)"
  using assms(1)
proof (induction vs arbitrary: w)
  case Nil
  then show ?case by simp
next
  case (Cons v vs)
  from Cons.prems obtain found w1 where
    1: "catch (let signature = fullSignature r s v in
         bind (lift_err (e_recover E h signature)) (\<lambda>recoveredAddress.
         bind getAddress (\<lambda>expectedAddress.
         ret (if toLowerCase recoveredAddress = toLowerCase expectedAddress then Some signature else None))))
        (\<lambda>m. bind (failed v m) (\<lambda>_. ret None)) w = (Ok found, w1)"
    and 2: "(case found of Some signature \<Rightarrow> ret signature
        | None \<Rightarrow> tryRecoveries E getAddress failed h r s vs) w1 = (Ok sig, w')"
    by (auto simp: bind_Ok_iff)
  show ?case
  proof (cases found)
    case None
    with 2 Cons.IH [of w1] show ?thesis by auto
  next
    case (Some y)
    with 2 have "y = sig" by simp
    with 1 Some have "sig = fullSignature r s v \<and>
      (\<exists>a b. e_recover E h sig = Inr a \<and> P b \<and> toLowerCase a = toLowerCase b)"
      by (auto simp: Let_def Ok_iffs split: if_splits dest: assms(2))
    then show ?thesis by auto
  qed
qed


text \<open>C8: A signature the KMS signer returns is usable: it is a 132-character string with a low
  \<open>s\<close> and recovery value 27 or 28, and recovering the signer of the hash from it gives the
  address of the KMS key, up to case. This holds whatever KMS and the libraries answer.\<close>

theorem kms_signature_recovers:
  assumes "AWS_signMessageHash E C h w = (Ok sig, w')"
  shows "\<exists>r s v a b. sig = fullSignature r s v \<and> v \<in> {27, 28} \<and> length sig = 132 \<and>
    0 < be_nat r \<and> be_nat r < secp256k1n \<and> 0 < be_nat s \<and> be_nat s \<le> secp256k1n div 2 \<and>
    e_recover E h sig = Inr a \<and> kmsAddress E (aw_keyId C) = Inr b \<and> toLowerCase a = toLowerCase b"
proof -
  from assms obtain der r s t w1 where der: "parseDERSignature der = Inr (r, s)"
    and t: "normalizeS s = Inr t"
    and run: "tryRecoveries E (AWS_getEthereumAddress E C) (\<lambda>v m. say ''attempt-failed'' [JNum v, JStr m])
      h r t [27, 28] w1 = (Ok sig, w')"
    by (auto simp: AWS_signMessageHash_def Ok_iffs toEthereumSignature_def simp del: tryRecoveries.simps)
  note f = parse_facts [OF der]
  have T: "length t = 32" "0 < be_nat t" "be_nat t \<le> secp256k1n div 2"
    using normalizeS_facts [OF f(2,5,6)] t by auto
  from tryRecoveries_Ok [OF run, of "\<lambda>b. kmsAddress E (aw_keyId C) = Inr b"] AWS_getEthereumAddress_Ok
  obtain v a b where v: "v \<in> {27, 28}" "sig = fullSignature r t v"
    and ab: "e_recover E h sig = Inr a" "kmsAddress E (aw_keyId C) = Inr b" "toLowerCase a = toLowerCase b"
    by (metis (no_types, lifting) insert_iff list.set)
  have "v < 256" using v(1) by auto
  then have "length sig = 132"
    using f(1) T(1) v(2) by (simp add: length_fullSignature)
  with v ab f(3,4) T show ?thesis by blast
qed


definition demo_aws :: aws_config where
  "demo_aws = \<lparr>aw_accessKeyId = ''id'', aw_secretAccessKey = ''secret'', aw_keyId = ''key'',
     aw_chainId = 6666, aw_contractAddress = ''0x1'', aw_proposalId = 0,
     aw_awsAccount = ''0x'' @ replicate 40 (CHR ''1'')\<rparr>"

lemma demo_aws_fields [simp]:
  "aw_accessKeyId demo_aws = ''id''" "aw_secretAccessKey demo_aws = ''secret''" "aw_keyId demo_aws = ''key''"
  "aw_chainId demo_aws = 6666" "aw_contractAddress demo_aws = ''0x1''" "aw_proposalId demo_aws = 0"
  "aw_awsAccount demo_aws = ''0x'' @ replicate 40 (CHR ''1'')"
  by (simp_all add: demo_aws_def)

lemma demo_keyAddress: "keyAddress demo_env b = ''0x'' @ replicate 40 (CHR ''1'')"
  by (simp add: keyAddress_def) code_simp

lemma demo_ethAddress:
  "AWS_getEthereumAddress demo_env demo_aws w = (Ok (''0x'' @ replicate 40 (CHR ''1'')), tick w)"
  by (simp add: AWS_getEthereumAddress_def bind_def catch_def demo_keyAddress)

lemma demo_der: "parseDERSignature [0x30, 6, 2, 1, 5, 2, 1, 7] = Inr (be_fixed 32 5, be_fixed 32 7)"
  using parse_layout [of "[5]" "[7]" 6] by (simp add: secp256k1n_def be_nat_Cons)

lemma demo_low: "normalizeS (be_fixed 32 7) = Inr (be_fixed 32 7)"
proof -
  have "be_fixed 32 7 \<noteq> []" by (metis length_be_fixed list.size(3) zero_neq_numeral)
  moreover have "be_nat (be_fixed 32 7) = 7" by (simp only: be_nat_be_fixed) simp
  ultimately show ?thesis by (simp add: normalizeS_def secp256k1n_def)
qed

lemma kms_signature_recovers_witness:
  "\<exists>sig w'. AWS_signMessageHash demo_env demo_aws ''0x00'' (demo_world demo_due) = (Ok sig, w') \<and> length sig = 132"
proof -
  have "AWS_signMessageHash demo_env demo_aws ''0x00'' (demo_world demo_due) =
      (Ok (fullSignature (be_fixed 32 5) (be_fixed 32 7) 27), tick (tick (demo_world demo_due)))"
    by (simp add: AWS_signMessageHash_def toEthereumSignature_def bind_def catch_def demo_der demo_low
        demo_ethAddress Let_def del: be_fixed.simps)
  from this kms_signature_recovers [OF this] show ?thesis by auto
qed


section \<open>What the runner does\<close>

lemma ro_getEthereumAddress: "keeps read_only (AWS_getEthereumAddress E C)"
  unfolding AWS_getEthereumAddress_def by (intro ro_intros)

lemma ro_testKMSBasics: "keeps read_only (testKMSBasics E C)"
  unfolding testKMSBasics_def AWS_getPublicKey_def Let_def by (intro ro_intros ro_getEthereumAddress)

lemma ro_signAndSend: "keeps read_only (signAndSendMultisigTransaction E C i)"
  unfolding signAndSendMultisigTransaction_def by (intro ro_intros ro_testKMSBasics)

lemma ro_runner:
  "keeps read_only (validateConfig E C)" "keeps read_only (verifyProposalSafety E C)"
  "keeps read_only (checkSignatureStatus E C)" "keeps read_only (signProposal E C)"
  "keeps read_only (checkExecutionConditions E C)"
proof -
  show "keeps read_only (validateConfig E C)"
    unfolding validateConfig_def by (intro ro_intros ro_getEthereumAddress)
  show "keeps read_only (verifyProposalSafety E C)"
    unfolding verifyProposalSafety_def Let_def by (intro ro_intros)
  show "keeps read_only (checkSignatureStatus E C)"
    unfolding checkSignatureStatus_def by (intro ro_intros)
  show "keeps read_only (signProposal E C)"
    unfolding signProposal_def by (intro ro_intros ro_signAndSend)
  show "keeps read_only (checkExecutionConditions E C)"
    unfolding checkExecutionConditions_def Let_def by (intro ro_intros)
qed

lemma ro_aws_main: "keeps read_only (aws_main E C)"
  unfolding aws_main_def MultisigRunner_run_def by (intro ro_intros ro_runner)

lemma aws_main_no_throw: "no_throw (aws_main E C)"
  unfolding aws_main_def MultisigRunner_run_def
  by (intro no_throw_intros no_throw_say)

lemma exits_signer:
  "exits_in S (AWS_getEthereumAddress E C)" "exits_in S (testKMSBasics E C)"
  "exits_in S (signAndSendMultisigTransaction E C i)"
proof -
  show a: "exits_in S (AWS_getEthereumAddress E C)"
    unfolding AWS_getEthereumAddress_def by (intro exits_intros)
  show b: "exits_in S (testKMSBasics E C)"
    unfolding testKMSBasics_def AWS_getPublicKey_def Let_def by (intro exits_intros a)
  show "exits_in S (signAndSendMultisigTransaction E C i)"
    unfolding signAndSendMultisigTransaction_def by (intro exits_intros b)
qed

lemma aws_main_exits: "exits_in {1} (aws_main E C)"
  unfolding aws_main_def MultisigRunner_run_def validateConfig_def verifyProposalSafety_def
    checkSignatureStatus_def signProposal_def checkExecutionConditions_def Let_def
  by (intro exits_intros exits_signer) simp_all

text \<open>C26: The runner never signs anything on chain: whatever the node, KMS and the libraries do, it
  leaves the chain and the proxies as they are and submits no transaction, and it ends either
  normally or with exit code 1, never with an unhandled error.\<close>

theorem runner_never_submits:
  "w_chain (snd (aws_main E C w)) = w_chain w \<and> w_txs (snd (aws_main E C w)) = w_txs w \<and>
   fst (aws_main E C w) \<in> {Ok (), Exit 1}"
proof -
  have "read_only w (snd (aws_main E C w))"
    using ro_aws_main unfolding keeps_def by blast
  moreover have "fst (aws_main E C w) \<in> {Ok (), Exit 1}"
    by (rule script_outcome [OF aws_main_no_throw aws_main_exits])
  ultimately show ?thesis by (auto simp: read_only_def)
qed


text \<open>With the configuration the file ships with, the runner stops before its first request: the
  key ids are empty strings in the file, and the environment variables the message asks for are
  never read.\<close>

theorem shipped_configuration_stops:
  "aws_main E aws_shipped w = (Exit 1, w\<lparr>w_log := w_log w @ [Line ''failed''
     [JStr ''AWS configuration missing. Please set environment variables: AWS_ACCESS_KEY_ID, AWS_SECRET_ACCESS_KEY, AWS_KMS_KEY_ID'']]\<rparr>)"
  by (simp add: aws_main_def MultisigRunner_run_def validateConfig_def aws_shipped_def bind_def catch_def say_def)

text \<open>The execution check of the runner does not look at the execution time: it reads a
  misspelt property, so what it prints depends on the signature count alone, and it announces
  that a proposal can be executed while the contract still refuses it.\<close>

theorem execution_check_ignores_time:
  assumes "checkExecutionConditions E C w = (Ok (), w')"
  shows "w_log w' = w_log w @
    (let n = MulSig_getSignatureCount (c_mulSig (w_chain w)) (aw_proposalId C) in
     Line ''conditions'' [JNum n, JNum (w_now w), JNum 0, JUndef] #
     (if 2 \<le> n then [Line ''can-execute'' [JNum (aw_proposalId C)]]
      else [Line ''not-ready'' [], Line ''more-signatures'' [JNum (2 - n)]]))"
  using assms
  by (auto simp: checkExecutionConditions_def Ok_iffs mulSig_view_def request_Ok_iff addrOf_def
      mulSig_at_def ebind_Inr_iff Let_def split: if_splits)

lemma execution_check_ignores_time_witness:
  "\<exists>w'. checkExecutionConditions demo_env demo_aws (demo_world demo_signed2) = (Ok (), w') \<and>
     Line ''can-execute'' [JNum 0] \<in> set (w_log w') \<and>
     (\<exists>e. MulSig_executeProposal reference_access demo_signed2 10 0 = Inl e)"
proof -
  have c: "MulSig_getSignatureCount (c_mulSig demo_signed2) 0 = 2"
    by (simp add: MulSig_getSignatureCount_def)
  have "demo_parse ''0x1'' = Inr 1" by code_simp
  then have "\<exists>w'. checkExecutionConditions demo_env demo_aws (demo_world demo_signed2) = (Ok (), w')"
    by (simp add: checkExecutionConditions_def bind_def catch_def addrOf_def mulSig_view_def mulSig_at_def
        c get_now_def say_def Let_def del: details_field_def)
  then obtain w' where w': "checkExecutionConditions demo_env demo_aws (demo_world demo_signed2) = (Ok (), w')" ..
  have "\<not> pr_excuteTime (ms_proposals (c_mulSig demo_signed2) 0) \<le> c_time demo_signed2"
    using demo_twice_signed(1) by simp
  then have "\<exists>e. MulSig_executeProposal reference_access demo_signed2 10 0 = Inl e"
    using executeProposal_Inr_iff [of reference_access demo_signed2 10 0] by (metis surj_pair sum.exhaust)
  with w' execution_check_ignores_time [OF w'] show ?thesis by (simp add: c)
qed

end
