(* ===== verification/KmsScripts.thy ===== *)
theory KmsScripts
  imports AwsRunner
begin

text \<open>
  The three smaller signing scripts: \<open>kms-contract-caller.js\<close>, which signs with raw KMS and hands
  the result back to web3, \<open>kms-multisig-signer.js\<close>, which uses a KMS wallet library, and
  \<open>simple-multisig-call.js\<close>, which only prints what to sign.
\<close>

section \<open>kms-contract-caller.js\<close>

record call_params =
  cp_contractAddress :: string
  cp_call :: txcall
  cp_fromAddress :: string

text \<open>\<open>MULTISIG_PARAMS\<close>: method \<open>signTransaction(uint256)\<close> with the parameter 4.\<close>

definition MULTISIG_PARAMS :: call_params where
  "MULTISIG_PARAMS = \<lparr>cp_contractAddress = ''0xED54E6944B2a89A13F3CcF0fc08ba7DB54Fd0A8c'',
     cp_call = MulSigCall (SignTransaction 4),
     cp_fromAddress = ''0x09EDA46FFCec4656235391dd298875B82aA458A9''\<rparr>"

definition KMSHelper_getEthereumAddress :: "('ac, 'px) env \<Rightarrow> string \<Rightarrow> ('ac, 'px, string) script" where
  "KMSHelper_getEthereumAddress E keyId =
     catch (bind (kms E (e_kmsGetPublicKey E keyId)) (\<lambda>der.
            bind (lift_err (e_decodePubKey E der)) (\<lambda>pubKey.
            ret (keyAddress E pubKey))))
       (\<lambda>m. throw (''Failed to get Ethereum address: '' @ m))"

definition KMSHelper_signTransactionHash ::
    "('ac, 'px) env \<Rightarrow> string \<Rightarrow> string \<Rightarrow> ('ac, 'px, buffer) script" where
  "KMSHelper_signTransactionHash E keyId msgHash =
     catch (kms E (e_kmsSign E keyId (MsgBytes (bufferFromHex (drop 2 msgHash)))))
       (\<lambda>m. throw (''KMS signing failed: '' @ m))"

definition derToEthSignature ::
    "('ac, 'px) env \<Rightarrow> string \<Rightarrow> buffer \<Rightarrow> string \<Rightarrow> ('ac, 'px, string) script" where
  "derToEthSignature E keyId derSig msgHash =
     (case KMSHelper_parseDERSignature derSig of (r, s) \<Rightarrow>
        bind (lift_err (normalizeS s)) (\<lambda>normalizedS.
        tryRecoveries E (KMSHelper_getEthereumAddress E keyId) (\<lambda>v m. ret ())
          msgHash r normalizedS [27, 28]))"

record tx_data =
  td_to :: addr
  td_call :: txcall
  td_gas :: nat
  td_gasPrice :: nat
  td_nonce :: nat
  td_chainId :: nat

definition buildTransactionData :: "('ac, 'px) env \<Rightarrow> nat \<Rightarrow> call_params \<Rightarrow> ('ac, 'px, tx_data) script" where
  "buildTransactionData E chainId P =
     bind (addrOf E (cp_contractAddress P)) (\<lambda>contract.
     bind (addrOf E (cp_fromAddress P)) (\<lambda>from.
     bind (getTransactionCount E from) (\<lambda>nonce.
     bind (getGasPrice E) (\<lambda>gasPrice.
     bind (estimateGas E from contract (cp_call P)) (\<lambda>gasEstimate.
     ret \<lparr>td_to = contract, td_call = cp_call P, td_gas = floor_mul dbl_1_2 gasEstimate,
          td_gasPrice = gasPrice, td_nonce = nonce, td_chainId = chainId\<rparr>)))))"

text \<open>The signature of KMS is passed on to \<open>accounts.signTransaction\<close> as a private key.\<close>

definition Caller_signTransaction :: "('ac, 'px) env \<Rightarrow> string \<Rightarrow> tx_data \<Rightarrow> ('ac, 'px, string) script" where
  "Caller_signTransaction E keyId d =
     (let tx = (td_nonce d, td_gasPrice d, td_gas d, td_to d, td_call d, td_chainId d) in
      bind (lift_err (e_accountsSign E tx zeroKey)) (\<lambda>(msgHash, _).
      bind (say ''message-hash'' [JStr msgHash]) (\<lambda>_.
      bind (KMSHelper_signTransactionHash E keyId msgHash) (\<lambda>derSig.
      bind (derToEthSignature E keyId derSig msgHash) (\<lambda>ethSignature.
      bind (lift_err (e_accountsSign E tx ethSignature)) (\<lambda>(_, rawTx).
      ret rawTx))))))"

definition sendTransaction :: "('ac, 'px) env \<Rightarrow> string \<Rightarrow> ('ac, 'px, event list) script" where
  "sendTransaction E rawTx =
     bind (sendSignedTransaction E rawTx) (\<lambda>receipt.
     bind (say ''sent'' []) (\<lambda>_. ret receipt))"

datatype call_result = CallOk "event list" | CallFailed string

definition callContractMethod ::
    "('ac, 'px) env \<Rightarrow> string \<Rightarrow> nat \<Rightarrow> call_params \<Rightarrow> ('ac, 'px, call_result) script" where
  "callContractMethod E keyId chainId P =
     bind (say ''calling'' [JStr (cp_contractAddress P), JStr (cp_fromAddress P)]) (\<lambda>_.
     catch (bind (KMSHelper_getEthereumAddress E keyId) (\<lambda>kmsAddress.
            if toLowerCase kmsAddress \<noteq> toLowerCase (cp_fromAddress P) then
              throw (''Address mismatch: KMS='' @ kmsAddress @ '', expected='' @ cp_fromAddress P)
            else
              bind (buildTransactionData E chainId P) (\<lambda>txData.
              bind (Caller_signTransaction E keyId txData) (\<lambda>signedTx.
              bind (sendTransaction E signedTx) (\<lambda>receipt.
              ret (CallOk receipt))))))
       (\<lambda>m. bind (say ''call-failed'' [JStr m]) (\<lambda>_. ret (CallFailed m))))"

definition caller_main :: "('ac, 'px) env \<Rightarrow> string \<Rightarrow> nat \<Rightarrow> call_params \<Rightarrow> ('ac, 'px, unit) script" where
  "caller_main E keyId chainId P =
     catch (bind (callContractMethod E keyId chainId P) (\<lambda>result.
            case result of
              CallOk receipt \<Rightarrow> say ''multisig-call-succeeded'' []
            | CallFailed m \<Rightarrow> bind (say ''multisig-call-failed'' [JStr m]) (\<lambda>_. process_exit 1)))
       (\<lambda>m. bind (say ''script-failed'' [JStr m]) (\<lambda>_. process_exit 1))"

section \<open>kms-multisig-signer.js\<close>

record signer_config =
  sc_chainId :: nat
  sc_multisigContract :: string
  sc_proposalId :: nat
  sc_awsAccount :: string
  sc_keyId :: string

definition signer_shipped :: signer_config where
  "signer_shipped = \<lparr>sc_chainId = 5570, sc_multisigContract = ''0x2c188Cf07c4370F6461066827bd1c6A856ab9B70'',
     sc_proposalId = 6, sc_awsAccount = ''0x9038e6adaa51239e10c8954fae1fa870ea69f6ea'', sc_keyId = ''''\<rparr>"

definition Signer_getEthereumAddress :: "('ac, 'px) env \<Rightarrow> signer_config \<Rightarrow> ('ac, 'px, string) script" where
  "Signer_getEthereumAddress E C =
     catch (bind (kms E (e_kmsGetPublicKey E (sc_keyId C))) (\<lambda>publicKey. ret (sc_awsAccount C)))
       (\<lambda>m. throw (''Failed to get Ethereum address: '' @ m))"

definition calculateGasParameters ::
    "('ac, 'px) env \<Rightarrow> addr \<Rightarrow> txcall \<Rightarrow> addr \<Rightarrow> ('ac, 'px, nat \<times> nat) script" where
  "calculateGasParameters E contract call senderAddress =
     catch (bind (estimateGas E senderAddress contract call) (\<lambda>gasEstimate.
            bind (getGasPrice E) (\<lambda>gasPrice.
            let finalGas = floor_mul dbl_1_2 gasEstimate; adjustedGasPrice = gasPrice in
            bind (say ''gas'' [JNum gasEstimate, JNum finalGas, JNum adjustedGasPrice]) (\<lambda>_.
            ret (finalGas, adjustedGasPrice)))))
       (\<lambda>m. throw (''Gas calculation failed: '' @ m))"

definition createAndSignTransaction ::
    "('ac, 'px) env \<Rightarrow> signer_config \<Rightarrow> addr \<Rightarrow> txcall \<Rightarrow> nat \<times> nat \<Rightarrow> addr \<Rightarrow> ('ac, 'px, string) script" where
  "createAndSignTransaction E C contractAddress call gasInfo senderAddress =
     bind (getTransactionCount E senderAddress) (\<lambda>nonce.
     bind (say ''nonce'' [JNum nonce]) (\<lambda>_.
     bind (say ''prepared'' [JAddr contractAddress, JNum (fst gasInfo), JNum (snd gasInfo)]) (\<lambda>_.
     lift_err (e_kmsSignTx E (sc_keyId C) (nonce, snd gasInfo, fst gasInfo, contractAddress, call)))))"

text \<open>\<open>message.match(/Transaction Hash: (0x[a-fA-F0-9]{64})/)\<close>: the first occurrence.\<close>

definition hexRun :: "string \<Rightarrow> bool" where
  "hexRun s \<longleftrightarrow> length s = 64 \<and> list_all (\<lambda>c. digitVal c \<noteq> None) s"

fun matchTxHash :: "string \<Rightarrow> string option" where
  "matchTxHash [] = None"
| "matchTxHash (c # s) =
     (let t = c # s; p = ''Transaction Hash: 0x''; h = take 64 (drop (length p) t) in
      if take (length p) t = p \<and> hexRun h then Some (''0x'' @ h) else matchTxHash s)"

datatype send_result = Mined "event list" | PendingHash string

definition sendTransactionWithErrorHandling :: "('ac, 'px) env \<Rightarrow> string \<Rightarrow> ('ac, 'px, send_result) script" where
  "sendTransactionWithErrorHandling E signedTx =
     catch (bind (sendSignedTransaction E signedTx) (\<lambda>result.
            bind (say ''sent'' []) (\<lambda>_. ret (Mined result))))
       (\<lambda>m. case (if js_includes m ''Transaction was not mined within'' then matchTxHash m else None) of
          Some txHash \<Rightarrow> bind (say ''timed-out'' [JStr txHash]) (\<lambda>_. ret (PendingHash txHash))
        | None \<Rightarrow> bind (say ''send-failed'' [JStr m]) (\<lambda>_. throw m))"

definition Signer_checkSignatureStatus :: "('ac, 'px) env \<Rightarrow> signer_config \<Rightarrow> ('ac, 'px, nat \<times> bool) script" where
  "Signer_checkSignatureStatus E C =
     bind (addrOf E (sc_multisigContract C)) (\<lambda>contract.
     bind (addrOf E (sc_awsAccount C)) (\<lambda>awsAccount.
     bind (mulSig_view E contract (\<lambda>_ m. Inr (MulSig_getSignatureCount m (sc_proposalId C)))) (\<lambda>signatureCount.
     bind (mulSig_view E contract (\<lambda>_ m. Inr (MulSig_hasAlreadySigned m (sc_proposalId C) awsAccount)))
       (\<lambda>alreadySigned.
     bind (say ''status'' [JNum (sc_proposalId C), JNum signatureCount, JBool alreadySigned]) (\<lambda>_.
     ret (signatureCount, alreadySigned))))))"

definition signMultisigProposal ::
    "('ac, 'px) env \<Rightarrow> signer_config \<Rightarrow> ('ac, 'px, send_result option) script" where
  "signMultisigProposal E C =
     catch (bind (getId E) (\<lambda>networkId.
            bind (say ''network'' [JNum networkId]) (\<lambda>_.
            bind (whenA (networkId \<noteq> sc_chainId C)
                    (say ''network-mismatch'' [JNum (sc_chainId C), JNum networkId])) (\<lambda>_.
            bind (Signer_checkSignatureStatus E C) (\<lambda>(signatureCount, alreadySigned).
            if alreadySigned then bind (say ''already-signed'' []) (\<lambda>_. ret None)
            else if 2 \<le> signatureCount then bind (say ''enough-signatures'' []) (\<lambda>_. ret None)
            else
              bind (addrOf E (sc_multisigContract C)) (\<lambda>contract.
              bind (addrOf E (sc_awsAccount C)) (\<lambda>awsAccount.
              let call = MulSigCall (SignTransaction (sc_proposalId C)) in
              bind (calculateGasParameters E contract call awsAccount) (\<lambda>gasInfo.
              bind (createAndSignTransaction E C contract call gasInfo awsAccount) (\<lambda>signedTx.
              bind (sendTransactionWithErrorHandling E signedTx) (\<lambda>result.
              bind (Signer_checkSignatureStatus E C) (\<lambda>(newCount, _).
              bind (whenA (signatureCount < newCount) (say ''signature-succeeded'' [JNum newCount])) (\<lambda>_.
              ret (Some result)))))))))))))
       (\<lambda>m. bind (say ''signing-failed'' [JStr m]) (\<lambda>_. throw m))"

definition signer_main :: "('ac, 'px) env \<Rightarrow> signer_config \<Rightarrow> ('ac, 'px, unit) script" where
  "signer_main E C =
     catch (bind (signMultisigProposal E C) (\<lambda>_. ret ()))
       (\<lambda>m. bind (say ''script-failed'' [JStr m]) (\<lambda>_. process_exit 1))"

section \<open>simple-multisig-call.js\<close>

definition simple_main :: "('ac, 'px) env \<Rightarrow> signer_config \<Rightarrow> ('ac, 'px, unit) script" where
  "simple_main E C =
     catch (bind (getId E) (\<lambda>networkId.
            bind (say ''network'' [JNum networkId]) (\<lambda>_.
            bind (addrOf E (sc_multisigContract C)) (\<lambda>contract.
            bind (addrOf E (sc_awsAccount C)) (\<lambda>awsAccount.
            bind (mulSig_view E contract (\<lambda>_ m. Inr (MulSig_getSignatureCount m (sc_proposalId C))))
              (\<lambda>signatureCount.
            bind (mulSig_view E contract (\<lambda>_ m. Inr (MulSig_hasAlreadySigned m (sc_proposalId C) awsAccount)))
              (\<lambda>alreadySigned.
            bind (say ''status'' [JNum (sc_proposalId C), JNum signatureCount, JBool alreadySigned]) (\<lambda>_.
            if alreadySigned then say ''already-signed'' []
            else
              bind (getTransactionCount E awsAccount) (\<lambda>nonce.
              bind (getGasPrice E) (\<lambda>gasPrice.
              bind (estimateGas E awsAccount contract (MulSigCall (SignTransaction (sc_proposalId C))))
                (\<lambda>gasEstimate.
              say ''transaction-info'' [JAddr contract, JNum (sc_proposalId C), JAddr awsAccount,
                JNum (floor_mul dbl_1_2 gasEstimate), JNum gasPrice, JNum nonce]))))))))))) 
       (\<lambda>m. bind (say ''script-failed'' [JStr m]) (\<lambda>_. process_exit 1))"

definition simple_shipped :: signer_config where
  "simple_shipped = \<lparr>sc_chainId = 6666, sc_multisigContract = ''0xED54E6944B2a89A13F3CcF0fc08ba7DB54Fd0A8c'',
     sc_proposalId = 4, sc_awsAccount = ''0x09EDA46FFCec4656235391dd298875B82aA458A9'', sc_keyId = ''''\<rparr>"


section \<open>What the scripts do\<close>

lemma ro_caller:
  "keeps read_only (KMSHelper_getEthereumAddress E k)" "keeps read_only (KMSHelper_signTransactionHash E k h)"
  "keeps read_only (buildTransactionData E n P)"
  unfolding KMSHelper_getEthereumAddress_def KMSHelper_signTransactionHash_def buildTransactionData_def
  by (intro ro_intros)+

lemma ro_tryRecoveries:
  "keeps read_only g \<Longrightarrow> (\<And>v m. keeps read_only (f v m)) \<Longrightarrow> keeps read_only (tryRecoveries E g f h r s vs)"
proof (induction vs)
  case Nil
  show ?case by (simp only: tryRecoveries.simps) (rule ro.keeps_throw)
next
  case (Cons v vs)
  have "keeps read_only (case x of Some signature \<Rightarrow> ret signature
      | None \<Rightarrow> tryRecoveries E g f h r s vs)" for x
    using Cons by (cases x) (auto intro: ro.keeps_ret)
  then show ?case
    by (simp only: tryRecoveries.simps Let_def) (intro ro_intros Cons.prems)
qed

lemma ro_derToEth: "keeps read_only (derToEthSignature E k d h)"
  unfolding derToEthSignature_def by (intro ro_intros ro_tryRecoveries ro_caller)

lemma derToEth_length: "derToEthSignature E k d h w = (Ok sig, w') \<Longrightarrow> 66 < length sig"
proof -
  assume a: "derToEthSignature E k d h w = (Ok sig, w')"
  obtain r s where p: "KMSHelper_parseDERSignature d = (r, s)" by fastforce
  from a p obtain t w1 where run: "tryRecoveries E (KMSHelper_getEthereumAddress E k) (\<lambda>v m. ret ()) h r t [27, 28] w1 = (Ok sig, w')"
    by (auto simp: derToEthSignature_def bind_Ok_iff simp del: tryRecoveries.simps)
  from tryRecoveries_Ok [OF run, of "\<lambda>_. True"] obtain v where "v \<in> {27, 28}" "sig = fullSignature r t v"
    by auto
  moreover from this have "v < 256" by auto
  moreover have "length r = 32"
    using p helper.norm_length by (auto simp: KMSHelper_parseDERSignature_def Let_def)
  ultimately show ?thesis by (simp add: fullSignature_def length_v)
qed

lemma ro_callerSign: "keeps read_only (Caller_signTransaction E k d)"
  unfolding Caller_signTransaction_def Let_def by (intro ro_intros ro_caller ro_derToEth)

lemma callerSign_never_ok:
  assumes "\<And>tx k. length k \<noteq> 66 \<Longrightarrow> \<exists>e. e_accountsSign E tx k = Inl e"
  shows "never_ok (Caller_signTransaction E keyId d)"
proof -
  have "e_accountsSign E tx sig \<noteq> Inr z" if "derToEthSignature E keyId der h w = (Ok sig, w')" for tx sig z der h w w'
    using assms [of sig tx] derToEth_length [OF that] by auto
  then show ?thesis
    unfolding never_ok_def Caller_signTransaction_def Let_def by (auto simp: bind_Ok_iff)
qed

lemma ro_callContract:
  assumes "\<And>tx k. length k \<noteq> 66 \<Longrightarrow> \<exists>e. e_accountsSign E tx k = Inl e"
  shows "keeps read_only (callContractMethod E keyId chainId P)"
  unfolding callContractMethod_def
  by (intro ro_intros ro_caller keeps_never_ok [OF callerSign_never_ok [OF assms] ro_callerSign])

lemma callContract_fails:
  assumes "\<And>tx k. length k \<noteq> 66 \<Longrightarrow> \<exists>e. e_accountsSign E tx k = Inl e"
    and "callContractMethod E keyId chainId P w = (Ok r, w')"
  shows "\<exists>m. r = CallFailed m"
  using assms(2) callerSign_never_ok [OF assms(1), of keyId]
  by (auto simp: callContractMethod_def Ok_iffs never_ok_def split: if_splits)

lemma exits_caller: "exits_in {1} (caller_main E k n P)" "no_throw (caller_main E k n P)"
proof -
  have a: "exits_in S (KMSHelper_getEthereumAddress E k)" for S
    unfolding KMSHelper_getEthereumAddress_def by (intro exits_intros)
  have t: "exits_in S (tryRecoveries E g f h r s vs)"
    if "exits_in S g" "\<And>v m. exits_in S (f v m)" for S g f h r s vs
    using that
  proof (induction vs)
    case (Cons v vs)
    have "exits_in S (case x of Some signature \<Rightarrow> ret signature | None \<Rightarrow> tryRecoveries E g f h r s vs)" for x
      using Cons by (cases x) (auto intro: exits_in_intros)
    then show ?case
      by (simp only: tryRecoveries.simps Let_def) (intro exits_intros Cons.prems)
  qed (simp only: tryRecoveries.simps, rule exits_intros)
  have r: "exits_in {1} (case x of CallOk rc \<Rightarrow> say ''multisig-call-succeeded'' []
      | CallFailed m \<Rightarrow> bind (say ''multisig-call-failed'' [JStr m]) (\<lambda>_. process_exit 1))" for x
    by (cases x) (auto intro!: exits_intros)
  show "exits_in {1} (caller_main E k n P)"
    unfolding caller_main_def callContractMethod_def buildTransactionData_def Caller_signTransaction_def
      KMSHelper_signTransactionHash_def derToEthSignature_def sendTransaction_def Let_def
    by (intro exits_intros a t r) simp_all
  show "no_throw (caller_main E k n P)"
    unfolding caller_main_def by (intro no_throw_intros no_throw_say)
qed

text \<open>The contract caller cannot send anything: it passes the 65-byte signature of KMS to a
  function that wants a 32-byte private key. With a library that refuses keys of any other length
  it leaves the chain alone, submits nothing, and always ends with exit code 1.\<close>

theorem contract_caller_never_sends:
  assumes "\<And>tx k. length k \<noteq> 66 \<Longrightarrow> \<exists>e. e_accountsSign E tx k = Inl e"
  shows "w_chain (snd (caller_main E keyId chainId P w)) = w_chain w \<and>
    w_txs (snd (caller_main E keyId chainId P w)) = w_txs w \<and> fst (caller_main E keyId chainId P w) = Exit 1"
proof -
  have r: "keeps read_only (case x of CallOk rc \<Rightarrow> say ''multisig-call-succeeded'' []
      | CallFailed m \<Rightarrow> bind (say ''multisig-call-failed'' [JStr m]) (\<lambda>_. process_exit 1))" for x
    by (cases x) (auto intro!: ro_intros)
  have "keeps read_only (caller_main E keyId chainId P)"
    unfolding caller_main_def by (intro ro_intros ro_callContract [OF assms] r)
  then have "read_only w (snd (caller_main E keyId chainId P w))"
    by (simp add: keeps_def)
  moreover have "fst (caller_main E keyId chainId P w) \<noteq> Ok ()"
  proof
    assume "fst (caller_main E keyId chainId P w) = Ok ()"
    then obtain w' where "caller_main E keyId chainId P w = (Ok (), w')"
      by (metis prod.collapse)
    then obtain x w1 where "callContractMethod E keyId chainId P w = (Ok x, w1)"
      and "(case x of CallOk rc \<Rightarrow> say ''multisig-call-succeeded'' []
        | CallFailed m \<Rightarrow> bind (say ''multisig-call-failed'' [JStr m]) (\<lambda>_. process_exit 1)) w1 = (Ok (), w')"
      by (auto simp: caller_main_def Ok_iffs)
    moreover from callContract_fails [OF assms this(1)] obtain m where "x = CallFailed m" by blast
    ultimately show False by (simp add: bind_Ok_iff)
  qed
  moreover have "fst (caller_main E keyId chainId P w) \<in> {Ok (), Exit 1}"
    by (rule script_outcome [OF exits_caller(2,1)])
  ultimately show ?thesis by (auto simp: read_only_def)
qed

lemma contract_caller_never_sends_witness:
  "fst (caller_main demo_env ''key'' 6666 MULTISIG_PARAMS (demo_world demo_proposed)) = Exit 1"
proof -
  have "\<exists>e. e_accountsSign demo_env tx k = Inl e" if "length k \<noteq> 66" for tx k
    using that by simp
  from contract_caller_never_sends [OF this] show ?thesis by blast
qed


lemma ro_signer:
  "keeps read_only (Signer_checkSignatureStatus E C)" "keeps read_only (calculateGasParameters E a c b)"
  "keeps read_only (createAndSignTransaction E C a c g b)"
  unfolding Signer_checkSignatureStatus_def calculateGasParameters_def createAndSignTransaction_def Let_def
  by (intro ro_intros)+

lemma createAndSign_Ok:
  "createAndSignTransaction E C a c g b w = (Ok raw, w') \<Longrightarrow>
     \<exists>n. e_kmsSignTx E (sc_keyId C) (n, snd g, fst g, a, c) = Inr raw"
  by (auto simp: createAndSignTransaction_def bind_Ok_iff)

lemma adds_sendSigned:
  "e_decodeRaw E raw = Inr (acct, to, c) \<Longrightarrow> \<lparr>tx_from = acct, tx_to = to, tx_call = c\<rparr> \<in> T \<Longrightarrow>
     adds T 1 (sendSignedTransaction E raw)"
  unfolding sendSignedTransaction_def by (simp add: adds_submit [unfolded One_nat_def])

lemma adds_sendWithHandling:
  assumes "e_decodeRaw E raw = Inr (acct, to, c)" and "\<lparr>tx_from = acct, tx_to = to, tx_call = c\<rparr> \<in> T"
  shows "adds T 1 (sendTransactionWithErrorHandling E raw)"
proof -
  have h: "keeps read_only (case x of Some txHash \<Rightarrow> bind (say ''timed-out'' [JStr txHash]) (\<lambda>_. ret (PendingHash txHash))
      | None \<Rightarrow> bind (say ''send-failed'' [JStr m]) (\<lambda>_. throw m))" for x m
    by (cases x) (auto intro!: ro_intros)
  show ?thesis
    unfolding sendTransactionWithErrorHandling_def
    by (intro adds_catch_read adds_then_read adds_sendSigned [OF assms] ro_intros h)
qed

lemma adds_signMultisigProposal:
  assumes law: "\<And>n gp g a c raw. e_kmsSignTx E (sc_keyId C) (n, gp, g, a, c) = Inr raw \<Longrightarrow>
      e_decodeRaw E raw = Inr (acct, a, c)"
    and to: "e_parseAddress E (sc_multisigContract C) = Inr to"
  shows "adds {\<lparr>tx_from = acct, tx_to = to, tx_call = MulSigCall (SignTransaction (sc_proposalId C))\<rparr>} 1
    (signMultisigProposal E C)"
proof -
  let ?T = "{\<lparr>tx_from = acct, tx_to = to, tx_call = MulSigCall (SignTransaction (sc_proposalId C))\<rparr>}"
  let ?call = "MulSigCall (SignTransaction (sc_proposalId C))"
  define send where "send = (\<lambda>signatureCount signedTx.
    bind (sendTransactionWithErrorHandling E signedTx) (\<lambda>result.
    bind (Signer_checkSignatureStatus E C) (\<lambda>(newCount, _).
    bind (whenA (signatureCount < newCount) (say ''signature-succeeded'' [JNum newCount])) (\<lambda>_.
    ret (Some result)))))"
  have send: "bind (sendTransactionWithErrorHandling E signedTx) (\<lambda>result.
    bind (Signer_checkSignatureStatus E C) (\<lambda>(newCount, _).
    bind (whenA (signatureCount < newCount) (say ''signature-succeeded'' [JNum newCount])) (\<lambda>_.
    ret (Some result)))) = send signatureCount signedTx" for signatureCount signedTx
    by (simp add: send_def)
  have once: "adds ?T 1 (send n signedTx)"
    if "createAndSignTransaction E C to ?call g b w = (Ok signedTx, w')" for n signedTx g b w w'
  proof -
    have "e_decodeRaw E signedTx = Inr (acct, to, ?call)"
      using createAndSign_Ok [OF that] law by blast
    then show ?thesis
      unfolding send_def by (intro adds_then_read adds_sendWithHandling ro_intros ro_signer) simp_all
  qed
  show ?thesis
    unfolding signMultisigProposal_def addrOf_def to lift_err_simps bind_ret Let_def send
    by (intro adds_catch_read adds_read_then_Ok adds_prod adds_if adds_ret ro_intros ro_signer) (rule once)
qed


lemma checkStatus_Ok:
  assumes "Signer_checkSignatureStatus E C w = (Ok (n, b), w')" and "e_parseAddress E (sc_awsAccount C) = Inr a"
  shows "n = MulSig_getSignatureCount (c_mulSig (w_chain w)) (sc_proposalId C) \<and>
    b = MulSig_hasAlreadySigned (c_mulSig (w_chain w)) (sc_proposalId C) a"
  using assms
  by (auto simp: Signer_checkSignatureStatus_def bind_Ok_iff addrOf_def mulSig_view_def request_Ok_iff
      mulSig_at_def ebind_Inr_iff split: if_splits)

lemma signer_nothing_to_do:
  assumes a: "e_parseAddress E (sc_awsAccount C) = Inr a"
    and nop: "MulSig_hasAlreadySigned (c_mulSig (w_chain w)) (sc_proposalId C) a \<or>
      2 \<le> MulSig_getSignatureCount (c_mulSig (w_chain w)) (sc_proposalId C)"
  shows "read_only w (snd (signer_main E C w))"
proof -
  have status: "read_only v (snd ((case x of (signatureCount, alreadySigned) \<Rightarrow>
       if alreadySigned then bind (say ''already-signed'' []) (\<lambda>_. ret None)
       else if 2 \<le> signatureCount then bind (say ''enough-signatures'' []) (\<lambda>_. ret None)
       else rest signatureCount) v))"
    if "Signer_checkSignatureStatus E C u = (Ok x, v)" and "w_chain u = w_chain w" for u v x rest
  proof -
    obtain n b where x: "x = (n, b)" by (cases x)
    with checkStatus_Ok [of E C u n b v, OF _ a] that nop have "b \<or> 2 \<le> n" by auto
    then have "keeps read_only (if b then bind (say ''already-signed'' []) (\<lambda>_. ret None)
       else if 2 \<le> n then bind (say ''enough-signatures'' []) (\<lambda>_. ret None) else rest n)"
      by (auto intro!: ro_intros)
    then show ?thesis by (simp add: x keeps_def)
  qed
  have "read_only w (snd (signMultisigProposal E C w))"
    unfolding signMultisigProposal_def
    by (rule ro_catch_at, intro ro_then ro_intros ro_signer)
      (rule status, assumption, simp add: read_only_def, intro ro_intros)
  then show ?thesis
    unfolding signer_main_def
    by (intro ro_catch_at ro_intros) (auto simp: bind_def split: outcome.splits prod.splits)
qed


text \<open>C23: The KMS signer submits at most one transaction, and it can only be the signature of the
  configured proposal; it submits none when the account has already signed or two signatures are
  there. It relies on the wallet library only for this: the bytes it signs decode to the
  transaction it was given. The script ends normally or with exit code 1.\<close>

theorem signer_signs_at_most_once:
  assumes law: "\<And>n gp g a c raw. e_kmsSignTx E (sc_keyId C) (n, gp, g, a, c) = Inr raw \<Longrightarrow>
      e_decodeRaw E raw = Inr (acct, a, c)"
    and to: "e_parseAddress E (sc_multisigContract C) = Inr to"
    and aws: "e_parseAddress E (sc_awsAccount C) = Inr aws"
  shows "\<exists>new. w_txs (snd (signer_main E C w)) = w_txs w @ new \<and> length new \<le> 1 \<and>
    set new \<subseteq> {\<lparr>tx_from = acct, tx_to = to, tx_call = MulSigCall (SignTransaction (sc_proposalId C))\<rparr>} \<and>
    (MulSig_hasAlreadySigned (c_mulSig (w_chain w)) (sc_proposalId C) aws \<or>
     2 \<le> MulSig_getSignatureCount (c_mulSig (w_chain w)) (sc_proposalId C) \<longrightarrow> new = []) \<and>
    fst (signer_main E C w) \<in> {Ok (), Exit 1}"
proof -
  let ?T = "{\<lparr>tx_from = acct, tx_to = to, tx_call = MulSigCall (SignTransaction (sc_proposalId C))\<rparr>}"
  have "adds ?T 1 (signer_main E C)"
    unfolding signer_main_def
    by (intro adds_catch_read adds_then_read adds_signMultisigProposal [OF law to] ro_intros)
  then obtain new where new: "w_txs (snd (signer_main E C w)) = w_txs w @ new" "length new \<le> 1" "set new \<subseteq> ?T"
    unfolding adds_def by blast
  have none: "new = []" if "MulSig_hasAlreadySigned (c_mulSig (w_chain w)) (sc_proposalId C) aws \<or>
     2 \<le> MulSig_getSignatureCount (c_mulSig (w_chain w)) (sc_proposalId C)"
    using signer_nothing_to_do [OF aws that] new(1) by (simp add: read_only_def)
  have "exits_in {1} (signer_main E C)"
  proof -
    have h: "exits_in {1} (case x of Some txHash \<Rightarrow> bind (say ''timed-out'' [JStr txHash]) (\<lambda>_. ret (PendingHash txHash))
        | None \<Rightarrow> bind (say ''send-failed'' [JStr m]) (\<lambda>_. throw m))" for x m
      by (cases x) (auto intro!: exits_intros)
    show ?thesis
      unfolding signer_main_def signMultisigProposal_def Signer_checkSignatureStatus_def
        calculateGasParameters_def createAndSignTransaction_def sendTransactionWithErrorHandling_def Let_def
      by (intro exits_intros h) simp_all
  qed
  moreover have "no_throw (signer_main E C)"
    unfolding signer_main_def by (intro no_throw_intros no_throw_say)
  ultimately have "fst (signer_main E C w) \<in> {Ok (), Exit 1}"
    by (intro script_outcome)
  with none new show ?thesis by (intro exI [of _ new]) simp
qed

definition demo_signer :: signer_config where
  "demo_signer = \<lparr>sc_chainId = 6666, sc_multisigContract = ''0x1'', sc_proposalId = 0,
     sc_awsAccount = ''0xa'', sc_keyId = ''key''\<rparr>"

lemma demo_signer_fields [simp]:
  "sc_chainId demo_signer = 6666" "sc_multisigContract demo_signer = ''0x1''"
  "sc_proposalId demo_signer = 0" "sc_awsAccount demo_signer = ''0xa''" "sc_keyId demo_signer = ''key''"
  by (simp_all add: demo_signer_def)

lemma signer_signs_at_most_once_witness:
  "w_txs (snd (signer_main demo_env demo_signer (demo_world demo_signed1))) = []"
proof -
  have law: "e_kmsSignTx demo_env (sc_keyId demo_signer) (n, gp, g, a, c) = Inr raw \<Longrightarrow>
      e_decodeRaw demo_env raw = Inr (10, a, c)" for n gp g a c raw
    by (simp split: if_splits)
  have "MulSig_hasAlreadySigned (c_mulSig (w_chain (demo_world demo_signed1))) (sc_proposalId demo_signer) 10"
    by (simp add: MulSig_hasAlreadySigned_def)
  with signer_signs_at_most_once [OF law, where to = 1 and aws = 10 and w = "demo_world demo_signed1"] show ?thesis by auto
qed

text \<open>The simplified call script only prints: it submits nothing, leaves the chain alone, and
  ends normally or with exit code 1.\<close>

theorem simple_call_only_prints:
  "w_chain (snd (simple_main E C w)) = w_chain w \<and> w_txs (snd (simple_main E C w)) = w_txs w \<and>
   fst (simple_main E C w) \<in> {Ok (), Exit 1}"
proof -
  have "keeps read_only (simple_main E C)"
    unfolding simple_main_def by (intro ro_intros)
  moreover have "exits_in {1} (simple_main E C)"
    unfolding simple_main_def by (intro exits_intros) simp_all
  moreover have "no_throw (simple_main E C)"
    unfolding simple_main_def by (intro no_throw_intros no_throw_say)
  ultimately show ?thesis
    using script_outcome by (fastforce simp: keeps_def read_only_def)
qed

end
