(* ===== verification/ProposalScripts.thy ===== *)
theory ProposalScripts
  imports Demo
begin

text \<open>
  The scripts that execute a proposal and report on one, \<open>execute-proposal.js\<close> and
  \<open>check-proposal.js\<close>, and the permission report \<open>check-permissions.js\<close>.
\<close>

section \<open>execute-proposal.js\<close>

record exec_config =
  xc_proposalId :: nat
  xc_mulSig :: string
  xc_roles :: string
  xc_governance :: string
  xc_executor :: string
  xc_privateKey :: string

definition exec_shipped :: exec_config where
  "exec_shipped = \<lparr>xc_proposalId = 6, xc_mulSig = ''0x2c188Cf07c4370F6461066827bd1c6A856ab9B70'',
     xc_roles = ''0x6916BC198C8A1aD890Ad941947231D424Bfae682'', xc_governance = '''',
     xc_executor = ''0x7ec62BC5062FA1d94F27775d211a3585Ca4048AE'',
     xc_privateKey = ''0x46067b79171192352063d2a74c876301de534cde65f707bccd0b4f5f416fcda6''\<rparr>"

text \<open>The readiness check before executing.\<close>

definition checkReady :: "('ac, 'px) env \<Rightarrow> addr \<Rightarrow> nat \<Rightarrow> ('ac, 'px, unit) script" where
  "checkReady E mulSig i =
     catch (bind (mulSig_view E mulSig (\<lambda>_ m. Inr (MulSig_transactionDetails m i))) (\<lambda>proposalDetails.
            bind get_now (\<lambda>currentTime.
            let executionTime = numberOr0 (details_field proposalDetails ''excuteTime'') in
            if 0 < executionTime \<and> currentTime < executionTime then
              throw (''Proposal execution time not reached. Need to wait '' @
                     decDigits (executionTime - currentTime) @ '' more seconds.'')
            else say ''ready'' [])))
       (\<lambda>m. if js_includes m ''execution time not reached'' then throw m
            else say ''no-details'' [])"

text \<open>The call the script estimates and sends.\<close>

definition executeProposal_tx :: "nat \<Rightarrow> txcall" where
  "executeProposal_tx i = MulSigCall (ExecuteProposal i)"

definition executeProposal :: "('ac, 'px) env \<Rightarrow> exec_config \<Rightarrow> ('ac, 'px, unit) script" where
  "executeProposal E C =
     catch (bind (lift_err (e_keyAccount E (xc_privateKey C))) (\<lambda>account.
            bind (loadContractABI E ''MulSig'') (\<lambda>_.
            bind (loadContractABI E ''Roles'') (\<lambda>_.
            bind (addrOf E (xc_mulSig C)) (\<lambda>mulSig.
            bind (addrOf E (xc_roles C)) (\<lambda>roles.
            bind (roles_view E roles (\<lambda>_. Inr FOUNDATION_MANAGER)) (\<lambda>fm.
            bind (addrOf E (xc_executor C)) (\<lambda>executor.
            bind (roles_view E roles (\<lambda>r. Inr (hasRole (e_access E) (r_access r) fm executor)))
              (\<lambda>isFoundationManager.
            if \<not> isFoundationManager then
              throw (''Address '' @ xc_executor C @ '' is not a foundation manager'')
            else
              bind (mulSig_view E mulSig (\<lambda>_ m. Inr (MulSig_getSignatureCount m (xc_proposalId C))))
                (\<lambda>signatureCount.
              bind (say ''signatures'' [JNum signatureCount]) (\<lambda>_.
              if signatureCount < 2 then
                throw (''Proposal '' @ decDigits (xc_proposalId C) @ '' doesn'' @ [CHR 0x27] @
                       ''t have enough signatures ('' @ decDigits signatureCount @ ''/2)'')
              else
                bind (checkReady E mulSig (xc_proposalId C)) (\<lambda>_.
                bind (estimateGas E executor mulSig (executeProposal_tx (xc_proposalId C))) (\<lambda>gasEstimate.
                bind (getGasPrice E) (\<lambda>gasPrice.
                bind (say ''gas'' [JNum gasEstimate, JNum gasPrice, JNum (floor_mul dbl_1_2 gasEstimate)]) (\<lambda>_.
                bind (sendAs E account executor mulSig (executeProposal_tx (xc_proposalId C))) (\<lambda>events.
                bind (say ''executed'' []) (\<lambda>_.
                bind (forEach (List.filter (\<lambda>ev. ev = ProposalExecuted (xc_proposalId C)) events)
                        (\<lambda>_. say ''event'' [JNum (xc_proposalId C)])) (\<lambda>_.
                bind (say ''dapp-registration-completed'' []) (\<lambda>_.
                bind (mulSig_view E mulSig (\<lambda>_ m. Inr (MulSig_getSignatureCount m (xc_proposalId C))))
                  (\<lambda>newSignatureCount.
                if newSignatureCount = 0 then say ''removed'' [] else say ''might-remain'' [])))))))))))))))))))) 
       (\<lambda>m. bind (say ''error'' [JStr m]) (\<lambda>_. process_exit 1))"

section \<open>check-proposal.js\<close>

definition check_shipped :: exec_config where
  "check_shipped = \<lparr>xc_proposalId = 4, xc_mulSig = ''0xED54E6944B2a89A13F3CcF0fc08ba7DB54Fd0A8c'',
     xc_roles = ''0xa1Bf87580F2bfb1e3FC1ecC6bB773DBA48DF136C'',
     xc_governance = ''0xA0e2caF71782DC0e3D03EF1D3cd7CEA036ce9Fb7'', xc_executor = '''', xc_privateKey = ''''\<rparr>"

text \<open>The managers and who of them has signed, one request per index.\<close>

definition listManagers :: "('ac, 'px) env \<Rightarrow> addr \<Rightarrow> addr \<Rightarrow> nat \<Rightarrow> ('ac, 'px, unit) script" where
  "listManagers E mulSig roles proposalId =
     bind (roles_view E roles (\<lambda>_. Inr FOUNDATION_MANAGER)) (\<lambda>fm.
     bind (roles_view E roles (\<lambda>r. Inr (Roles_getRoleMemberCount (e_access E) r fm))) (\<lambda>foundationManagerCount.
     forEach [0..<foundationManagerCount] (\<lambda>i.
       bind (roles_view E roles (\<lambda>r. Roles_getRoleMember (e_access E) r fm i)) (\<lambda>manager.
       bind (mulSig_view E mulSig (\<lambda>_ m. Inr (MulSig_hasAlreadySigned m proposalId manager))) (\<lambda>hasSigned.
       say ''manager'' [JNum (i + 1), JAddr manager, JBool hasSigned])))))"

definition reportExecution :: "('ac, 'px) env \<Rightarrow> addr \<Rightarrow> nat \<Rightarrow> ('ac, 'px, unit) script" where
  "reportExecution E mulSig proposalId =
     catch (bind (mulSig_view E mulSig (\<lambda>_ m. Inr (MulSig_transactionDetails m proposalId))) (\<lambda>proposalDetails.
            bind get_now (\<lambda>currentTime.
            let executionTime = jsParseInt (details_field proposalDetails ''excuteTime'') in
            if jsGreater executionTime currentTime then say ''waiting'' [jsNumVal executionTime]
            else say ''ready'' [])))
       (\<lambda>m. say ''maybe-executed'' [])"

definition checkProposal :: "('ac, 'px) env \<Rightarrow> exec_config \<Rightarrow> ('ac, 'px, unit) script" where
  "checkProposal E C =
     catch (bind (loadContractABI E ''MulSig'') (\<lambda>_.
            bind (loadContractABI E ''Roles'') (\<lambda>_.
            bind (loadContractABI E ''Governance'') (\<lambda>_.
            bind (addrOf E (xc_mulSig C)) (\<lambda>mulSig.
            bind (addrOf E (xc_roles C)) (\<lambda>roles.
            bind (addrOf E (xc_governance C)) (\<lambda>governance.
            bind (catch
              (bind (mulSig_view E mulSig (\<lambda>_ m. Inr (MulSig_transactionDetails m (xc_proposalId C))))
                (\<lambda>proposalDetails.
               say ''details'' [details_field proposalDetails ''name'',
                 jsNumVal (jsParseInt (details_field proposalDetails ''excuteTime''))]))
              (\<lambda>m. say ''no-details'' [])) (\<lambda>_.
            bind (mulSig_view E mulSig (\<lambda>_ m. Inr (MulSig_getSignatureCount m (xc_proposalId C))))
              (\<lambda>signatureCount.
            bind (governance_view E governance (\<lambda>ch g. Governance_fmThreshold (e_access E) (roles_at ch) g))
              (\<lambda>fmThreshold.
            bind (say ''signatures'' [JNum signatureCount, JNum fmThreshold]) (\<lambda>_.
            bind (listManagers E mulSig roles (xc_proposalId C)) (\<lambda>_.
            bind (if fmThreshold \<le> signatureCount then
                    bind (say ''enough'' []) (\<lambda>_. reportExecution E mulSig (xc_proposalId C))
                  else say ''need'' [JNum (fmThreshold - signatureCount)]) (\<lambda>_.
            catch
              (bind (mulSig_view E mulSig (\<lambda>ch m. MulSig_getPendingProposals (e_access E) ch 0))
                (\<lambda>pendingProposals.
               say ''pending'' (map JNum pendingProposals)))
              (\<lambda>m. say ''no-pending-list'' []))))))))))))))
       (\<lambda>m. bind (say ''error'' [JStr m]) (\<lambda>_. process_exit 1))"

section \<open>check-permissions.js\<close>

definition permissions_shipped :: exec_config where
  "permissions_shipped = \<lparr>xc_proposalId = 0, xc_mulSig = '''',
     xc_roles = ''0xa1Bf87580F2bfb1e3FC1ecC6bB773DBA48DF136C'', xc_governance = '''', xc_executor = '''',
     xc_privateKey = ''0x72949B647AD8DB021F3E346F27CD768F2D900CE7211809AF06A7E94A4CB3EED2''\<rparr>"

definition DEFAULT_ADMIN_ROLE :: bytes32 where
  "DEFAULT_ADMIN_ROLE = Bytes0"

definition checkPermissions :: "('ac, 'px) env \<Rightarrow> exec_config \<Rightarrow> ('ac, 'px, unit) script" where
  "checkPermissions E C =
     catch (bind (lift_err (e_keyAccount E (xc_privateKey C))) (\<lambda>account.
            bind (say ''account'' [JAddr account]) (\<lambda>_.
            bind (loadContractABI E ''Roles'') (\<lambda>_.
            bind (addrOf E (xc_roles C)) (\<lambda>roles.
            bind (roles_view E roles (\<lambda>_. Inr FOUNDATION_MANAGER)) (\<lambda>fm.
            bind (roles_view E roles (\<lambda>_. Inr ADMIN)) (\<lambda>admin.
            bind (roles_view E roles (\<lambda>r. Inr (hasRole (e_access E) (r_access r) fm account)))
              (\<lambda>isFoundationManager.
            bind (say ''foundation-manager'' [JBool isFoundationManager]) (\<lambda>_.
            bind (roles_view E roles (\<lambda>r. Inr (hasRole (e_access E) (r_access r) admin account))) (\<lambda>isAdmin.
            bind (say ''admin'' [JBool isAdmin]) (\<lambda>_.
            bind (roles_view E roles (\<lambda>r. Inr (hasRole (e_access E) (r_access r) DEFAULT_ADMIN_ROLE account)))
              (\<lambda>isDefaultAdmin.
            bind (say ''default-admin'' [JBool isDefaultAdmin]) (\<lambda>_.
            bind (roles_view E roles (\<lambda>r. Inr (getRoleAdmin (e_access E) (r_access r) fm))) (\<lambda>fmAdmin.
            bind (say ''hierarchy'' [JBytes fmAdmin, JBytes admin, JBool (fmAdmin = admin \<and> isAdmin)]) (\<lambda>_.
            bind (roles_view E roles (\<lambda>r. Inr (Roles_getRoleMemberCount (e_access E) r fm))) (\<lambda>fmCount.
            bind (say ''count'' [JNum fmCount]) (\<lambda>_.
            bind (forEach [0..<fmCount] (\<lambda>i.
                    bind (roles_view E roles (\<lambda>r. Roles_getRoleMember (e_access E) r fm i)) (\<lambda>manager.
                    say ''manager'' [JNum (i + 1), JAddr manager]))) (\<lambda>_.
            if isAdmin \<and> fmAdmin = admin then say ''advice-admin'' []
            else if isDefaultAdmin then say ''advice-default-admin'' []
            else say ''advice-none'' []))))))))))))))))))
       (\<lambda>m. bind (say ''error'' [JStr m]) (\<lambda>_. process_exit 1))"


section \<open>Executing\<close>

lemma ro_checkReady: "keeps read_only (checkReady E m i)"
  unfolding checkReady_def Let_def by (intro ro_intros)

lemma ro_event_lines: "keeps read_only (forEach xs (\<lambda>_. say k v))"
  by (intro ro_intros)

lemma sendAs_Ok:
  assumes "sendAs E account from to (MulSigCall c) w = (Ok ev, w')"
  shows "w_txs w' = w_txs w @ [\<lparr>tx_from = from, tx_to = to, tx_call = MulSigCall c\<rparr>]"
    and "exec_chain E (w_chain w) from to (MulSigCall c) = Inr (w_chain w', ev)"
proof -
  have s: "submit E from to (MulSigCall c) w = (Ok ev, w')"
    using assms by (auto simp: sendAs_def request_Ok_iff split: if_splits)
  note x = submit_Ok [OF s]
  show "w_txs w' = w_txs w @ [\<lparr>tx_from = from, tx_to = to, tx_call = MulSigCall c\<rparr>]"
    using exec_tx_txs [OF x] by simp
  show "exec_chain E (w_chain w) from to (MulSigCall c) = Inr (w_chain w', ev)"
    using x by (auto simp: exec_tx_def ebind_Inr_iff)
qed

lemma wlp_sendAs:
  "wlp (sendAs E account from to (MulSigCall c)) (\<lambda>ev w'.
     w_txs w' = w_txs w @ [\<lparr>tx_from = from, tx_to = to, tx_call = MulSigCall c\<rparr>] \<and>
     exec_chain E (w_chain w) from to (MulSigCall c) = Inr (w_chain w', ev)) w"
  by (simp add: wlp_iff sendAs_Ok)

lemma exec_chain_mulSig:
  "exec_chain E ch from (c_mulSigAt ch) (MulSigCall c) = MulSig_call (e_access E) ch from c"
  by (simp add: exec_chain_def)

lemma readonly_facts: "read_only w w' \<Longrightarrow> w_chain w' = w_chain w \<and> w_txs w' = w_txs w"
  by (simp add: read_only_def)

text \<open>C7: When the execution script reports success, the proposal has been executed: the executor is
  a foundation manager, at least two signatures were there, exactly one transaction was sent, and
  the chain is the one the contract's execution of that proposal gives. This holds under every
  pattern of lost requests and answers.\<close>

theorem execute_script_success:
  assumes "executeProposal E C w = (Ok (), w')" and "e_parseAddress E (xc_mulSig C) = Inr ms"
    and "e_parseAddress E (xc_executor C) = Inr x"
  shows "\<exists>ev. MulSig_executeProposal (e_access E) (w_chain w) x (xc_proposalId C) = Inr (w_chain w', ev) \<and>
    2 \<le> MulSig_getSignatureCount (c_mulSig (w_chain w)) (xc_proposalId C) \<and>
    hasRole (e_access E) (r_access (c_roles (w_chain w))) FOUNDATION_MANAGER x \<and>
    w_txs w' = w_txs w @ [\<lparr>tx_from = x, tx_to = ms, tx_call = MulSigCall (ExecuteProposal (xc_proposalId C))\<rparr>]"
proof -
  define Q where "Q = (\<lambda>(u :: unit) (w' :: ('a, 'b) world).
    \<exists>ev. MulSig_executeProposal (e_access E) (w_chain w) x (xc_proposalId C) = Inr (w_chain w', ev) \<and>
    2 \<le> MulSig_getSignatureCount (c_mulSig (w_chain w)) (xc_proposalId C) \<and>
    hasRole (e_access E) (r_access (c_roles (w_chain w))) FOUNDATION_MANAGER x \<and>
    w_txs w' = w_txs w @ [\<lparr>tx_from = x, tx_to = ms, tx_call = MulSigCall (ExecuteProposal (xc_proposalId C))\<rparr>])"
  have "wlp (executeProposal E C) Q w"
    unfolding executeProposal_def executeProposal_tx_def
    apply (simp add: wlp_catch wlp_world assms(2,3) cong: if_cong)
    apply (intro impI allI, rule wlp_keeps [OF ro_checkReady])
    apply (simp add: wlp_world cong: if_cong)
    apply (intro impI allI, rule wlp_mono [OF wlp_sendAs], elim conjE)
    apply (simp add: wlp_world cong: if_cong)
    apply (rule wlp_keeps [OF ro_event_lines])
    by (simp add: wlp_world Q_def read_only_def exec_chain_mulSig not_less)
  from wlpD [OF this assms(1)] show ?thesis
    unfolding Q_def .
qed


text \<open>The waiting time in the execution script is never noticed: it reads a misspelt property, so
  for a locked proposal the script prints that it is ready and then fails with the contract's own
  error, without having sent a transaction.\<close>

theorem execute_script_wait_is_dead:
  assumes "\<And>t. e_fault E t = Fine" and "e_keyAccount E (xc_privateKey C) = Inr acc"
    and "\<And>n. e_loadABI E n = Inr ()" and "e_parseAddress E (xc_mulSig C) = Inr (c_mulSigAt (w_chain w))"
    and "e_parseAddress E (xc_roles C) = Inr (c_rolesAt (w_chain w))"
    and "e_parseAddress E (xc_executor C) = Inr x" and "is_manager (e_access E) (w_chain w) x"
    and "2 \<le> MulSig_getSignatureCount (c_mulSig (w_chain w)) (xc_proposalId C)"
    and "c_time (w_chain w) < pr_excuteTime (ms_proposals (c_mulSig (w_chain w)) (xc_proposalId C))"
  shows "\<exists>w'. executeProposal E C w = (Exit 1, w') \<and> w_txs w' = w_txs w \<and>
    w_log w' = w_log w @
      [Line ''signatures'' [JNum (MulSig_getSignatureCount (c_mulSig (w_chain w)) (xc_proposalId C))],
       Line ''ready'' [], Line ''error'' [JStr (e_wrapRevert E ''executeTime not meet'')]]"
proof (rule runD)
  have "hasRole (e_access E) (r_access (c_roles (w_chain w))) FOUNDATION_MANAGER x"
    using assms(7) by (simp add: is_manager_def)
  moreover have "exec_tx E v x (c_mulSigAt (w_chain w)) (MulSigCall (ExecuteProposal (xc_proposalId C)))
      = Inl ''executeTime not meet''" if "w_chain v = w_chain w" for v
    using that assms(7,9) by (simp add: exec_tx_def exec_chain_mulSig execute_early)
  ultimately show "run (executeProposal E C) (\<lambda>r w'. r = Exit 1 \<and> w_txs w' = w_txs w \<and>
    w_log w' = w_log w @
      [Line ''signatures'' [JNum (MulSig_getSignatureCount (c_mulSig (w_chain w)) (xc_proposalId C))],
       Line ''ready'' [], Line ''error'' [JStr (e_wrapRevert E ''executeTime not meet'')]]) w"
    using assms(1-6,8)
    by (simp add: executeProposal_def executeProposal_tx_def checkReady_def run_world view_defs at_defs
        loadContractABI_def Let_def cong: if_cong)
qed


definition demo_exec :: exec_config where
  "demo_exec = \<lparr>xc_proposalId = 0, xc_mulSig = ''0x1'', xc_roles = ''0x2'', xc_governance = ''0x3'',
     xc_executor = ''0xa'', xc_privateKey = ''key''\<rparr>"

lemma demo_exec_fields [simp]:
  "xc_proposalId demo_exec = 0" "xc_mulSig demo_exec = ''0x1''" "xc_roles demo_exec = ''0x2''"
  "xc_governance demo_exec = ''0x3''" "xc_executor demo_exec = ''0xa''" "xc_privateKey demo_exec = ''key''"
  by (simp_all add: demo_exec_def)

lemma demo_exec_tx:
  "w_chain v = demo_due \<Longrightarrow> exec_tx demo_env v 10 1 (MulSigCall (ExecuteProposal 0)) =
     Inr (v\<lparr>w_chain := demo_executed\<rparr>, [ProposalExecuted 0])"
  using demo_executed_run [of 10]
  by (simp add: exec_tx_def exec_chain_def)

lemma execute_script_success_witness:
  "\<exists>w'. executeProposal demo_env demo_exec (demo_world demo_due) = (Ok (), w') \<and> length (w_txs w') = 1 \<and>
     pi_platformConfig (c_param (w_chain w')) ''marginRatio'' = 300"
proof -
  have "\<exists>w'. executeProposal demo_env demo_exec (demo_world demo_due) = (Ok (), w') \<and> True"
    by (rule runD)
      (simp add: executeProposal_def executeProposal_tx_def checkReady_def run_world view_defs at_defs
        Let_def demo_exec_tx demo_access sendAs_def cong: if_cong)
  then obtain w' where w': "executeProposal demo_env demo_exec (demo_world demo_due) = (Ok (), w')"
    by blast
  from execute_script_success [OF w', of 1 10] have
    "MulSig_executeProposal reference_access demo_due 10 0 = Inr (w_chain w', [ProposalExecuted 0])"
    and "length (w_txs w') = 1"
    using demo_executed_run [of 10] by auto
  moreover from this have "w_chain w' = demo_executed"
    using demo_executed_run [of 10] by simp
  ultimately show ?thesis
    using w' by (simp add: demo_executed_def ParameterInfo_set_def)
qed

lemma execute_script_wait_is_dead_witness:
  "\<exists>w'. executeProposal demo_env demo_exec (demo_world demo_signed2) = (Exit 1, w') \<and> w_txs w' = []"
  using execute_script_wait_is_dead [of demo_env demo_exec 10 "demo_world demo_signed2" 10] demo_twice_signed(1)
  by (auto simp: MulSig_getSignatureCount_def is_manager_def demo_access)

end
