(* ===== verification/DAppScripts.thy ===== *)
theory DAppScripts
  imports Demo
begin

text \<open>
  The three scripts that register a DApp: \<open>register-dapp-node.js\<close> through the multisig with web3,
  \<open>register-dapp-multisig.js\<close> through the multisig with truffle, and
  \<open>direct-register-dapp.js\<close>, which tries to go around the multisig.
\<close>

record dapp_config =
  dc_treasureKind :: string
  dc_dappName :: string
  dc_payee :: string
  dc_networkName :: string
  dc_mulSig :: string
  dc_roles :: string
  dc_governance :: string
  dc_privateKey :: string

definition node_shipped :: dapp_config where
  "node_shipped = \<lparr>dc_treasureKind = ''OIL'', dc_dappName = ''OTTER'',
     dc_payee = ''0x10da0cdaf4ad7b6667e1a4aad4083aa4b7139cbb'', dc_networkName = ''development'',
     dc_mulSig = ''0x2c188Cf07c4370F6461066827bd1c6A856ab9B70'',
     dc_roles = ''0x6916BC198C8A1aD890Ad941947231D424Bfae682'',
     dc_governance = ''0xc69bd55C22664cF319698984211FeD155403C066'',
     dc_privateKey = ''0x46067b79171192352063d2a74c876301de534cde65f707bccd0b4f5f416fcda6''\<rparr>"

section \<open>register-dapp-node.js\<close>

text \<open>The address a build file gives for a network; an unreadable file is reported and gives none.\<close>

definition getContractAddress :: "('ac, 'px) env \<Rightarrow> string \<Rightarrow> nat \<Rightarrow> ('ac, 'px, string option) script" where
  "getContractAddress E contractName networkId =
     (case e_loadABI E contractName of
        Inl e \<Rightarrow> bind (say ''address-failed'' [JStr contractName, JStr e]) (\<lambda>_. ret None)
      | Inr u \<Rightarrow> ret (e_networkAddress E contractName networkId))"

text \<open>\<open>CONFIG.X || getContractAddress(...)\<close>, and the test \<open>!address\<close>.\<close>

definition addressOr ::
    "('ac, 'px) env \<Rightarrow> string \<Rightarrow> string \<Rightarrow> nat \<Rightarrow> ('ac, 'px, string option) script" where
  "addressOr E configured contractName networkId =
     (if configured \<noteq> '''' then ret (Some configured) else getContractAddress E contractName networkId)"

fun given :: "string option \<Rightarrow> bool" where
  "given None = False"
| "given (Some s) = (s \<noteq> '''')"

definition validateTreasure :: "('ac, 'px) env \<Rightarrow> addr \<Rightarrow> string \<Rightarrow> ('ac, 'px, unit) script" where
  "validateTreasure E governance kind =
     catch (bind (governance_view E governance (\<lambda>_ g. Governance_getTreasureByKind g kind)) (\<lambda>(producer, _).
            if producer = 0 then throw (''Treasure kind \"'' @ kind @ ''\" not found'')
            else say ''treasure'' [JStr kind, JAddr producer]))
       (\<lambda>m. bind (say ''treasure-failed'' [JStr m]) (\<lambda>_. process_exit 1))"

text \<open>The managers, one request per index; the count arrives as a string and is never \<open>=== 0\<close>.\<close>

definition listFoundationManagers :: "('ac, 'px) env \<Rightarrow> addr \<Rightarrow> ('ac, 'px, addr list) script" where
  "listFoundationManagers E roles =
     bind (roles_view E roles (\<lambda>_. Inr FOUNDATION_MANAGER)) (\<lambda>fm.
     bind (roles_view E roles (\<lambda>r. Inr (Roles_getRoleMemberCount (e_access E) r fm))) (\<lambda>count.
     if JStr (decDigits count) = JNum 0 then throw ''No foundation managers found''
     else
       bind (mapA [0..<count] (\<lambda>i. roles_view E roles (\<lambda>r. Roles_getRoleMember (e_access E) r fm i)))
         (\<lambda>foundationManagers.
       bind (forEach (enumerate 1 foundationManagers) (\<lambda>(i, manager).
               say ''manager'' [JNum i, JAddr manager])) (\<lambda>_.
       ret foundationManagers))))"

text \<open>The proposal id in the \<open>RegisterDApp\<close> event of the receipt.\<close>

fun registered_ids :: "event list \<Rightarrow> nat list" where
  "registered_ids [] = []"
| "registered_ids (RegisterDApp i _ _ _ _ # evs) = i # registered_ids evs"
| "registered_ids (_ # evs) = registered_ids evs"

definition eventProposalId :: "string \<Rightarrow> event list \<Rightarrow> nat fallible" where
  "eventProposalId property events =
     (case registered_ids events of
        [] \<Rightarrow> Inl (''Cannot read properties of undefined (reading '' @ [CHR 0x27] @ property @ [CHR 0x27] @ '')'')
      | i # _ \<Rightarrow> Inr i)"

definition proposeDApp ::
    "('ac, 'px) env \<Rightarrow> dapp_config \<Rightarrow> addr \<Rightarrow> addr \<Rightarrow> ('ac, 'px, nat) script" where
  "proposeDApp E C account mulSig =
     bind (addrOf E (dc_payee C)) (\<lambda>payee.
     bind (sendAs E account account mulSig
             (MulSigCall (ProposeToRegisterDApp (dc_treasureKind C) (dc_dappName C) payee))) (\<lambda>events.
     bind (lift_err (eventProposalId ''returnValues'' events)) (\<lambda>proposalId.
     bind (say ''proposal'' [JNum proposalId]) (\<lambda>_. ret proposalId))))"

text \<open>Signing goes on while fewer than the required signatures are there; it returns their number.\<close>

fun signLoop ::
    "('ac, 'px) env \<Rightarrow> addr \<Rightarrow> addr \<Rightarrow> nat \<Rightarrow> nat \<Rightarrow> addr list \<Rightarrow> nat \<Rightarrow> ('ac, 'px, nat) script" where
  "signLoop E account mulSig proposalId required [] signedCount = ret signedCount"
| "signLoop E account mulSig proposalId required (manager # managers) signedCount =
     (if \<not> signedCount < required then ret signedCount
      else bind (mulSig_view E mulSig (\<lambda>_ m. Inr (MulSig_hasAlreadySigned m proposalId manager)))
        (\<lambda>hasAlreadySigned.
        if hasAlreadySigned then
          bind (say ''has-signed'' [JAddr manager]) (\<lambda>_.
          signLoop E account mulSig proposalId required managers (signedCount + 1))
        else if manager = account then
          bind (say ''signing'' [JAddr manager]) (\<lambda>_.
          bind (sendAs E account account mulSig (MulSigCall (SignTransaction proposalId))) (\<lambda>_.
          bind (mulSig_view E mulSig (\<lambda>_ m. Inr (MulSig_getSignatureCount m proposalId))) (\<lambda>signCount.
          bind (say ''signatures'' [JNum signCount]) (\<lambda>_.
          signLoop E account mulSig proposalId required managers (signedCount + 1)))))
        else
          bind (say ''need-signature'' [JAddr manager]) (\<lambda>_.
          signLoop E account mulSig proposalId required managers signedCount)))"

text \<open>\<open>evm_increaseTime\<close> and \<open>evm_mine\<close> of a development node move the time of its chain.\<close>

definition increaseTime :: "('ac, 'px) env \<Rightarrow> nat \<Rightarrow> ('ac, 'px, unit) script" where
  "increaseTime E n =
     bind (request E (\<lambda>_. e_advanceTime E n)) (\<lambda>_.
     bind (\<lambda>w. (Ok (), w\<lparr>w_chain := (w_chain w)\<lparr>c_time := c_time (w_chain w) + n\<rparr>\<rparr>)) (\<lambda>_.
     request E (\<lambda>_. e_advanceTime E 0)))"

definition waitForConfirmation :: "('ac, 'px) env \<Rightarrow> dapp_config \<Rightarrow> addr \<Rightarrow> nat \<Rightarrow> ('ac, 'px, unit) script" where
  "waitForConfirmation E C mulSig proposalId =
     bind (mulSig_view E mulSig (\<lambda>_ m. Inr (MulSig_transactionDetails m proposalId))) (\<lambda>proposalDetails.
     bind get_now (\<lambda>currentTime.
     let executionTime = jsParseInt (details_field proposalDetails ''excuteTime'') in
     if jsGreater executionTime currentTime then
       (let waitTime = the executionTime - currentTime in
        bind (say ''need-to-wait'' [JNum waitTime]) (\<lambda>_.
        if dc_networkName C = ''development'' \<or> dc_networkName C = ''ganache'' then
          catch (bind (increaseTime E (waitTime + 1)) (\<lambda>_. say ''time-advanced'' []))
            (\<lambda>m. bind (say ''could-not-advance'' []) (\<lambda>_. sleep (waitTime + 1)))
        else bind (say ''waiting-naturally'' []) (\<lambda>_. sleep (waitTime + 1))))
     else ret ()))"

definition executeDApp :: "('ac, 'px) env \<Rightarrow> dapp_config \<Rightarrow> addr \<Rightarrow> addr \<Rightarrow> nat \<Rightarrow> ('ac, 'px, unit) script" where
  "executeDApp E C account mulSig proposalId =
     bind (say ''executing'' []) (\<lambda>_.
     bind (sendAs E account account mulSig (MulSigCall (ExecuteProposal proposalId))) (\<lambda>_.
     bind (say ''registered'' [JStr (dc_dappName C), JStr (dc_treasureKind C)]) (\<lambda>_.
     bind (addrOf E (dc_payee C)) (\<lambda>payee.
     say ''dapp-id'' [JBytes (dappIdOf (dc_dappName C) payee)]))))"

text \<open>Outside the development networks the script only prints what is left to do.\<close>

definition printInstructions ::
    "('ac, 'px) env \<Rightarrow> dapp_config \<Rightarrow> addr list \<Rightarrow> nat \<Rightarrow> nat \<Rightarrow> ('ac, 'px, unit) script" where
  "printInstructions E C foundationManagers proposalId fmThreshold =
     bind (say ''production'' [JNum proposalId, JNum fmThreshold]) (\<lambda>_.
     bind (addrOf E (dc_payee C)) (\<lambda>payee.
     bind (say ''dapp-id'' [JBytes (dappIdOf (dc_dappName C) payee)]) (\<lambda>_.
     bind (forEach (enumerate 1 foundationManagers) (\<lambda>(i, manager).
             say ''sign-command'' [JNum i, JNum proposalId, JAddr manager])) (\<lambda>_.
     say ''execute-command'' [JNum proposalId]))))"

definition autoSignAndExecute ::
    "('ac, 'px) env \<Rightarrow> dapp_config \<Rightarrow> addr \<Rightarrow> addr \<Rightarrow> addr list \<Rightarrow> nat \<Rightarrow> nat \<Rightarrow> ('ac, 'px, unit) script" where
  "autoSignAndExecute E C account mulSig foundationManagers proposalId fmThreshold =
     (let required = min (length foundationManagers) fmThreshold in
      bind (signLoop E account mulSig proposalId required foundationManagers 0) (\<lambda>signedCount.
      bind (mulSig_view E mulSig (\<lambda>_ m. Inr (MulSig_getSignatureCount m proposalId))) (\<lambda>finalSignCount.
      bind (say ''total'' [JNum finalSignCount, JNum fmThreshold]) (\<lambda>_.
      if fmThreshold \<le> finalSignCount then
        bind (waitForConfirmation E C mulSig proposalId) (\<lambda>_.
        executeDApp E C account mulSig proposalId)
      else say ''not-enough-signatures'' []))))"

definition development_networks :: "string list" where
  "development_networks = [''development'', ''test'', ''ganache'']"

text \<open>Everything after the addresses are known.\<close>

definition registerVia ::
    "('ac, 'px) env \<Rightarrow> dapp_config \<Rightarrow> addr \<Rightarrow> string \<Rightarrow> string \<Rightarrow> string \<Rightarrow> ('ac, 'px, unit) script" where
  "registerVia E C account mulSigAddress rolesAddress governanceAddress =
     bind (loadContractABI E ''MulSig'') (\<lambda>_.
     bind (loadContractABI E ''Roles'') (\<lambda>_.
     bind (loadContractABI E ''Governance'') (\<lambda>_.
     bind (addrOf E mulSigAddress) (\<lambda>mulSig.
     bind (addrOf E rolesAddress) (\<lambda>roles.
     bind (addrOf E governanceAddress) (\<lambda>governance.
     bind (validateTreasure E governance (dc_treasureKind C)) (\<lambda>_.
     bind (listFoundationManagers E roles) (\<lambda>foundationManagers.
     if account \<notin> set foundationManagers then
       bind (say ''not-a-manager'' [JAddr account]) (\<lambda>_. process_exit 1)
     else
       bind (proposeDApp E C account mulSig) (\<lambda>proposalId.
       bind (governance_view E governance (\<lambda>ch g. Governance_fmThreshold (e_access E) (roles_at ch) g))
         (\<lambda>fmThreshold.
       bind (say ''required'' [JNum fmThreshold]) (\<lambda>_.
       bind (if dc_networkName C \<in> set development_networks then
               autoSignAndExecute E C account mulSig foundationManagers proposalId fmThreshold
             else printInstructions E C foundationManagers proposalId fmThreshold) (\<lambda>_.
       say ''completed'' []))))))))))))"

definition registerDApp :: "('ac, 'px) env \<Rightarrow> dapp_config \<Rightarrow> ('ac, 'px, unit) script" where
  "registerDApp E C =
     catch (if \<not> isl (e_parseAddress E (dc_payee C)) then
              bind (lift_err (e_keyAccount E (dc_privateKey C))) (\<lambda>account.
              bind (getId E) (\<lambda>networkId.
              bind (addressOr E (dc_mulSig C) ''MulSig'' networkId) (\<lambda>mulSigAddress.
              bind (addressOr E (dc_roles C) ''Roles'' networkId) (\<lambda>rolesAddress.
              bind (addressOr E (dc_governance C) ''Governance'' networkId) (\<lambda>governanceAddress.
              if \<not> given mulSigAddress \<or> \<not> given rolesAddress \<or> \<not> given governanceAddress then
                bind (say ''addresses-not-found'' []) (\<lambda>_. process_exit 1)
              else registerVia E C account (the mulSigAddress) (the rolesAddress) (the governanceAddress))))))
            else throw ''Invalid payee address format'')
       (\<lambda>m. bind (say ''error'' [JStr m]) (\<lambda>_. process_exit 1))"


section \<open>register-dapp-multisig.js\<close>

text \<open>
  A truffle script: the network's name and accounts are arguments, contracts come from truffle's
  records, and every account of the list can send. A method with two results gives an object with
  numbered properties; whether it can be destructured as an array is a parameter.
\<close>

record truffle =
  tn_network :: string
  tn_accounts :: "addr list"
  tn_deployed :: "string \<Rightarrow> addr fallible"

definition multisig_shipped :: "string \<times> string \<times> string" where
  "multisig_shipped = (''OIL'', ''OtterStreamTest'', ''0x1234567890123456789012345678901234567891'')"

definition sendFrom ::
    "('ac, 'px) env \<Rightarrow> addr list \<Rightarrow> addr \<Rightarrow> addr \<Rightarrow> txcall \<Rightarrow> ('ac, 'px, event list) script" where
  "sendFrom E accounts from to c =
     (if from \<in> set accounts then submit E from to c else request E (\<lambda>_. Inl ''unknown account''))"

text \<open>The treasure check; the answer is whether the script goes on.\<close>

definition checkTreasure :: "('ac, 'px) env \<Rightarrow> addr \<Rightarrow> string \<Rightarrow> ('ac, 'px, bool) script" where
  "checkTreasure E governance kind =
     catch (bind (governance_view E governance (\<lambda>_ g. Governance_getTreasureByKind g kind)) (\<lambda>(producer, _).
            if \<not> e_iterableResults E then throw ''object is not iterable''
            else if producer = 0 then bind (say ''treasure-not-found'' [JStr kind]) (\<lambda>_. ret False)
            else bind (say ''treasure'' [JStr kind, JAddr producer]) (\<lambda>_. ret True)))
       (\<lambda>m. bind (say ''treasure-failed'' [JStr kind, JStr m]) (\<lambda>_. ret False))"

definition signAsManagers ::
    "('ac, 'px) env \<Rightarrow> truffle \<Rightarrow> addr \<Rightarrow> nat \<Rightarrow> addr list \<Rightarrow> ('ac, 'px, unit) script" where
  "signAsManagers E N mulSig proposalId chosen =
     forEach (enumerate 1 chosen) (\<lambda>(i, signer).
       bind (mulSig_view E mulSig (\<lambda>_ m. Inr (MulSig_hasAlreadySigned m proposalId signer)))
         (\<lambda>hasAlreadySigned.
       if hasAlreadySigned then say ''has-signed'' [JNum i, JAddr signer]
       else
         bind (say ''signing'' [JNum i, JAddr signer]) (\<lambda>_.
         bind (sendFrom E (tn_accounts N) signer mulSig (MulSigCall (SignTransaction proposalId))) (\<lambda>_.
         bind (mulSig_view E mulSig (\<lambda>_ m. Inr (MulSig_getSignatureCount m proposalId))) (\<lambda>signatureCount.
         say ''signatures'' [JNum signatureCount])))))"

text \<open>\<open>proposalDetails.excuteTime.toNumber()\<close>: a property of \<open>undefined\<close> is a type error.\<close>

fun toNumber :: "jsval \<Rightarrow> nat fallible" where
  "toNumber (JNum n) = Inr n"
| "toNumber _ = Inl ''Cannot read properties of undefined (reading toNumber)''"

definition waitAndExecute ::
    "('ac, 'px) env \<Rightarrow> truffle \<Rightarrow> addr \<Rightarrow> addr \<Rightarrow> nat \<Rightarrow> string \<Rightarrow> addr \<Rightarrow> ('ac, 'px, unit) script" where
  "waitAndExecute E N proposer mulSig proposalId dappName payee =
     bind (mulSig_view E mulSig (\<lambda>_ m. Inr (MulSig_transactionDetails m proposalId))) (\<lambda>proposalDetails.
     bind get_now (\<lambda>currentTime.
     bind (lift_err (toNumber (details_field proposalDetails ''excuteTime''))) (\<lambda>executionTime.
     bind (if currentTime < executionTime then
             (let waitTime = executionTime - currentTime in
              bind (say ''need-to-wait'' [JNum waitTime]) (\<lambda>_.
              whenA (tn_network N = ''development'' \<or> tn_network N = ''ganache'')
                (bind (increaseTime E (waitTime + 1)) (\<lambda>_. say ''time-advanced'' []))))
           else ret ()) (\<lambda>_.
     bind (say ''executing'' []) (\<lambda>_.
     bind (sendFrom E (tn_accounts N) proposer mulSig (MulSigCall (ExecuteProposal proposalId))) (\<lambda>_.
     bind (say ''executed'' []) (\<lambda>_.
     say ''dapp-id'' [JBytes (dappIdOf dappName payee)])))))))"

definition proposeAndRun ::
    "('ac, 'px) env \<Rightarrow> truffle \<Rightarrow> addr \<Rightarrow> addr \<Rightarrow> addr list \<Rightarrow> string \<times> string \<times> addr \<Rightarrow> ('ac, 'px, unit) script"
  where
  "proposeAndRun E N mulSig governance foundationManagers = (\<lambda>(kind, name, payee).
     let proposer = hd foundationManagers in
     bind (say ''proposer'' [JAddr proposer]) (\<lambda>_.
     bind (sendFrom E (tn_accounts N) proposer mulSig (MulSigCall (ProposeToRegisterDApp kind name payee)))
       (\<lambda>events.
     bind (lift_err (eventProposalId ''args'' events)) (\<lambda>proposalId.
     bind (say ''proposal'' [JNum proposalId]) (\<lambda>_.
     bind (governance_view E governance (\<lambda>ch g. Governance_fmThreshold (e_access E) (roles_at ch) g))
       (\<lambda>fmThreshold.
     bind (say ''required'' [JNum fmThreshold]) (\<lambda>_.
     if tn_network N \<in> set development_networks then
       bind (signAsManagers E N mulSig proposalId
               (take (min (length foundationManagers) fmThreshold) foundationManagers)) (\<lambda>_.
       bind (say ''waiting'' []) (\<lambda>_.
       waitAndExecute E N proposer mulSig proposalId name payee))
     else say ''production'' (JNum proposalId # JNum fmThreshold # map JAddr foundationManagers))))))))"

definition registerDAppMultisig ::
    "('ac, 'px) env \<Rightarrow> truffle \<Rightarrow> string \<times> string \<times> string \<Rightarrow> ('ac, 'px, unit) script" where
  "registerDAppMultisig E N = (\<lambda>(kind, name, payeeAddress).
     catch (case e_parseAddress E payeeAddress of
              Inl e \<Rightarrow> say ''invalid-payee'' []
            | Inr payee \<Rightarrow>
              bind (lift_err (tn_deployed N ''MulSig'')) (\<lambda>mulSig.
              bind (lift_err (tn_deployed N ''Roles'')) (\<lambda>roles.
              bind (lift_err (tn_deployed N ''Governance'')) (\<lambda>governance.
              bind (checkTreasure E governance kind) (\<lambda>goOn.
              if \<not> goOn then ret ()
              else
                bind (roles_view E roles (\<lambda>_. Inr FOUNDATION_MANAGER)) (\<lambda>fm.
                bind (roles_view E roles (\<lambda>r. Roles_getRoleMemberArray (e_access E) r fm))
                  (\<lambda>foundationManagers.
                bind (say ''managers'' (map JAddr foundationManagers)) (\<lambda>_.
                if foundationManagers = [] then say ''no-managers'' []
                else
                  bind (proposeAndRun E N mulSig governance foundationManagers (kind, name, payee)) (\<lambda>_.
                  say ''completed'' [])))))))))
       (\<lambda>m. say ''error'' [JStr m]))"

section \<open>direct-register-dapp.js\<close>

definition direct_shipped :: dapp_config where
  "direct_shipped = \<lparr>dc_treasureKind = ''OIL'', dc_dappName = ''OtterStreamTest'',
     dc_payee = ''0x1234567890123456789012345678901234567891'', dc_networkName = '''',
     dc_mulSig = '''', dc_roles = '''', dc_governance = ''0xA0e2caF71782DC0e3D03EF1D3cd7CEA036ce9Fb7'',
     dc_privateKey = ''0x72949B647AD8DB021F3E346F27CD768F2D900CE7211809AF06A7E94A4CB3EED2''\<rparr>"

text \<open>
  The direct call; the answer is whether the DApp was there already, which ends the script. The
  methods \<open>owner\<close> and \<open>registerDAppConnectAdmin\<close> are in no producer's ABI.
\<close>

definition directCall :: "('ac, 'px) env \<Rightarrow> dapp_config \<Rightarrow> addr \<Rightarrow> addr \<Rightarrow> ('ac, 'px, bool) script" where
  "directCall E C account producer =
     catch (bind (addrOf E (dc_payee C)) (\<lambda>payee.
            let dappId = dappIdOf (dc_dappName C) payee in
            bind (catch (bind (producer_view E producer (\<lambda>p. Producer_getDAppPayee p dappId)) (\<lambda>existingPayee.
                         bind (say ''already-registered'' [JAddr existingPayee]) (\<lambda>_. ret True)))
                   (\<lambda>m. bind (say ''not-yet-registered'' []) (\<lambda>_. ret False))) (\<lambda>found.
            if found then ret True
            else
              bind (sendAs E account account producer (RegisterDAppConnect (dc_dappName C) payee)) (\<lambda>_.
              bind (say ''registered-directly'' [JBytes dappId]) (\<lambda>_. ret False)))))
       (\<lambda>m. bind (say ''direct-call-failed'' [JStr m]) (\<lambda>_.
            bind (whenA (js_includes m ''onlyMulSig'') (say ''requires-multisig'' [])) (\<lambda>_.
            bind (say ''alternatives'' []) (\<lambda>_. ret False))))"

definition implementationSlot :: string where
  "implementationSlot = ''0x360894a13ba1a3210667c828492db98dca3e2076cc3735a920a3ca505d382bbc''"

definition zeroWord :: string where
  "zeroWord = ''0x'' @ replicate 64 (CHR ''0'')"

definition otherMethods :: "('ac, 'px) env \<Rightarrow> addr \<Rightarrow> ('ac, 'px, unit) script" where
  "otherMethods E producer =
     bind (catch (bind (throw ''producer.methods.registerDAppConnectAdmin is not a function'')
                   (\<lambda>(adminRegisterTx :: event list). say ''registered-by-admin'' []))
            (\<lambda>m. say ''no-admin-method'' [])) (\<lambda>_.
     catch (bind (getStorageAt E producer implementationSlot) (\<lambda>implementation.
            whenA (implementation \<noteq> zeroWord) (say ''upgradeable'' [JStr implementation])))
       (\<lambda>m. say ''upgrade-check-failed'' []))"

definition directRegisterDApp :: "('ac, 'px) env \<Rightarrow> dapp_config \<Rightarrow> ('ac, 'px, unit) script" where
  "directRegisterDApp E C =
     catch (bind (lift_err (e_keyAccount E (dc_privateKey C))) (\<lambda>account.
            bind (loadContractABI E ''Governance'') (\<lambda>_.
            bind (addrOf E (dc_governance C)) (\<lambda>governance.
            bind (governance_view E governance (\<lambda>_ g. Governance_getTreasureByKind g (dc_treasureKind C)))
              (\<lambda>(producer, _).
            if producer = 0 then throw (''Treasure kind \"'' @ dc_treasureKind C @ ''\" not found'')
            else
              bind (say ''producer'' [JAddr producer]) (\<lambda>_.
              bind (loadContractABI E ''OilProducer'') (\<lambda>_.
              bind (catch (bind (throw ''producer.methods.owner is not a function'') (\<lambda>owner. say ''owner'' [JAddr owner]))
                     (\<lambda>m. say ''no-owner-method'' [])) (\<lambda>_.
              bind (directCall E C account producer) (\<lambda>found.
              if found then ret () else otherMethods E producer)))))))))
       (\<lambda>m. bind (say ''error'' [JStr m]) (\<lambda>_. process_exit 1))"


section \<open>What the calls leave alone\<close>

lemma call_keeps_mulsig:
  "(\<And>ch ch' ev. P ch \<Longrightarrow> MulSig_call (e_access E) ch from c = Inr (ch', ev) \<Longrightarrow> P ch' \<and> f ch' = f ch) \<Longrightarrow>
     call_keeps E P f from to (MulSigCall c)"
  by (auto simp: call_keeps_def exec_chain_def split: if_splits)

lemma propose_producers:
  "proposed_action c = Some a \<Longrightarrow> MulSig_call A ch s c = Inr (ch', ev) \<Longrightarrow> c_producers ch' = c_producers ch"
  by (erule (1) proposed_action_stored) simp

lemma keeps_producers:
  "call_keeps E (\<lambda>_. True) c_producers from to (MulSigCall (ProposeToRegisterDApp k n p))"
  "call_keeps E (\<lambda>_. True) c_producers from to (MulSigCall (SignTransaction i))"
  by (auto intro!: call_keeps_mulsig simp: signTransaction_Inr_iff
      dest: propose_producers [of "ProposeToRegisterDApp k n p" "DApp k n p", simplified])

lemma cf_sendFrom: "call_keeps E P f from to c \<Longrightarrow> keeps (chain_frame P f) (sendFrom E accounts from to c)"
  unfolding sendFrom_def by (auto intro: cf_submit cf_read ro_request)

lemma txs_sendFrom:
  "\<lparr>tx_from = from, tx_to = to, tx_call = c\<rparr> \<in> T \<Longrightarrow> keeps (only_txs T) (sendFrom E accounts from to c)"
  unfolding sendFrom_def by (auto intro: txs_submit txs_reads)

lemma exits_sendFrom: "exits_in S (sendFrom E accounts from to c)"
  by (simp add: sendFrom_def exits_world)

section \<open>register-dapp-multisig.js never executes\<close>

definition proposing_txs :: "submitted set" where
  "proposing_txs = {t. \<exists>k n p i. tx_call t \<in> {MulSigCall (ProposeToRegisterDApp k n p), MulSigCall (SignTransaction i)}}"

text \<open>The execution time is read from a property that does not exist, so nothing after it happens.\<close>

lemma waitAndExecute_stops:
  "waitAndExecute E N proposer mulSig i name payee =
     bind (mulSig_view E mulSig (\<lambda>_ m. Inr (MulSig_transactionDetails m i))) (\<lambda>_. bind get_now (\<lambda>_.
     throw ''Cannot read properties of undefined (reading toNumber)''))"
  by (simp add: waitAndExecute_def)

lemma multisig_txs: "keeps (only_txs proposing_txs) (registerDAppMultisig E N cfg)"
  unfolding registerDAppMultisig_def proposeAndRun_def waitAndExecute_stops signAsManagers_def checkTreasure_def
    Let_def sum.case_distrib [where h = "keeps _"]
  by (cases cfg; cases "e_parseAddress E (snd (snd cfg))")
    (auto intro!: txs_intros txs_sendFrom simp: proposing_txs_def)

lemma multisig_producers: "keeps (chain_frame (\<lambda>_. True) c_producers) (registerDAppMultisig E N cfg)"
  unfolding registerDAppMultisig_def proposeAndRun_def waitAndExecute_stops signAsManagers_def checkTreasure_def
    Let_def
  by (cases cfg; cases "e_parseAddress E (snd (snd cfg))") (auto intro!: cf_intros cf_sendFrom keeps_producers)

lemma multisig_ends: "\<exists>w'. registerDAppMultisig E N cfg w = (Ok (), w')"
proof -
  obtain m where m: "registerDAppMultisig E N cfg = catch m (\<lambda>e. say ''error'' [JStr e])" and "exits_in {} m"
    unfolding registerDAppMultisig_def proposeAndRun_def waitAndExecute_stops signAsManagers_def
      checkTreasure_def Let_def
    by (cases cfg; cases "e_parseAddress E (snd (snd cfg))")
      (auto intro!: exits_intros exits_sendFrom)
  then show ?thesis
    by (cases "m w"; cases "fst (m w)") (auto simp: m catch_def exits_in_def say_def)
qed


text \<open>\<open>register-dapp-multisig.js\<close> never registers anything. Whatever the network, the accounts and the
  node do, it ends normally after submitting only proposals and signatures, and the DApp registry
  of every producer is as before, because it reads the execution time from a misspelt property.\<close>

theorem multisig_register_never_executes:
  "\<exists>w' new. registerDAppMultisig E N cfg w = (Ok (), w') \<and> w_txs w' = w_txs w @ new \<and>
     set new \<subseteq> proposing_txs \<and> c_producers (w_chain w') = c_producers (w_chain w)"
proof -
  obtain w' where w': "registerDAppMultisig E N cfg w = (Ok (), w')"
    using multisig_ends by blast
  with keepsD [OF multisig_txs w'] keepsD [OF multisig_producers w'] show ?thesis
    by (auto simp: only_txs_def chain_frame_def)
qed

section \<open>direct-register-dapp.js is refused\<close>

definition no_producer_trusts :: "addr \<Rightarrow> 'ac chain \<Rightarrow> bool" where
  "no_producer_trusts account ch \<longleftrightarrow> (\<forall>a p. c_producers ch a = Some p \<longrightarrow> p_mulSig p \<noteq> account)"

lemma direct_keeps:
  "call_keeps E (no_producer_trusts account) id account to (RegisterDAppConnect name payee)"
  by (auto simp: call_keeps_def exec_chain_def no_producer_trusts_def Producer_registerDAppConnect_def
      ebind_Inr_iff require_def split: option.splits if_splits)

lemma directCall_frame:
  "keeps (chain_frame (no_producer_trusts account) id) (directCall E C account producer)"
  unfolding directCall_def Let_def by (intro cf_intros direct_keeps)

lemma ro_otherMethods: "keeps read_only (otherMethods E producer)"
  unfolding otherMethods_def by (intro ro_intros)

lemma adds_directCall: "adds {t. tx_from t = account} 1 (directCall E C account producer)"
  unfolding directCall_def Let_def
  by (rule adds_catch_read, rule adds_read_then, intro ro_intros, rule adds_read_then, intro ro_intros,
      rule adds_if, rule adds_ret, rule adds_then_read, rule adds_sendAs, simp, (intro ro_intros)+)

text \<open>\<open>direct-register-dapp.js\<close> cannot go around the multisig: unless a producer has the
  account of the script as its multisig, the chain after the script is the chain before it, and at
  most one transaction was submitted, whatever the node does.\<close>

theorem direct_register_refused:
  assumes "e_keyAccount E (dc_privateKey C) = Inr account"
    and "no_producer_trusts account (w_chain w)"
  shows "w_chain (snd (directRegisterDApp E C w)) = w_chain w \<and>
    length (w_txs (snd (directRegisterDApp E C w))) \<le> length (w_txs w) + 1"
proof -
  have "keeps (chain_frame (no_producer_trusts account) id) (directRegisterDApp E C)"
    unfolding directRegisterDApp_def assms(1) lift_err_simps bind_ret
    by (intro cf_intros directCall_frame ro_otherMethods [THEN cf_read])
  moreover have "adds {t. tx_from t = account} 1 (directRegisterDApp E C)"
    unfolding directRegisterDApp_def assms(1) lift_err_simps bind_ret
    by (intro adds_catch_read adds_read_then adds_prod adds_if adds_then_read [OF adds_directCall]
        adds_read ro_otherMethods ro_intros)
  ultimately show ?thesis
    using assms(2) unfolding keeps_def adds_def chain_frame_def
    by (metis add_le_cancel_left id_apply length_append)
qed

lemma direct_register_refused_witness:
  "w_chain (snd (directRegisterDApp demo_env direct_shipped (demo_world demo_chain))) = demo_chain"
proof -
  have "e_keyAccount demo_env (dc_privateKey direct_shipped) = Inr 10"
    by (simp add: direct_shipped_def)
  moreover have "no_producer_trusts 10 (w_chain (demo_world demo_chain))"
    by (simp add: no_producer_trusts_def demo_chain_def demo_producer_def)
  ultimately show ?thesis
    using direct_register_refused [of demo_env direct_shipped 10 "demo_world demo_chain"] by simp
qed


section \<open>What register-dapp-node.js reports as registered is registered\<close>

definition pending :: "addr \<Rightarrow> nat \<Rightarrow> action \<Rightarrow> 'ac chain \<Rightarrow> bool" where
  "pending mulSig i a ch \<longleftrightarrow> c_mulSigAt ch = mulSig \<and> stored_action (ms_proposals (c_mulSig ch) i) = Some a"

lemma sign_keeps_pending: "call_keeps E (pending mulSig i a) (\<lambda>_. ()) from to (MulSigCall (SignTransaction j))"
  by (rule call_keeps_mulsig) (auto simp: pending_def signTransaction_Inr_iff)

lemma signLoop_frames:
  "keeps (chain_frame (pending mulSig i a) (\<lambda>_. ())) (signLoop E account mulSig i req managers n)"
  "keeps (silent ''registered'') (signLoop E account mulSig i req managers n)"
  by (induction managers arbitrary: n)
    (auto intro!: cf_intros sign_keeps_pending silent_intros simp: sendAs_def)

lemma waitForConfirmation_reads:
  "waitForConfirmation E C mulSig i =
     bind (mulSig_view E mulSig (\<lambda>_ m. Inr (MulSig_transactionDetails m i))) (\<lambda>_. bind get_now (\<lambda>_. ret ()))"
  by (simp add: waitForConfirmation_def)

lemma proposeDApp_pending:
  assumes "e_parseAddress E (dc_payee C) = Inr payee"
  shows "wlp (proposeDApp E C account mulSig)
    (\<lambda>i w'. pending mulSig i (DApp (dc_treasureKind C) (dc_dappName C) payee) (w_chain w')) w"
  unfolding proposeDApp_def sendAs_def wlp_world
  by (auto simp: assms wlp_world exec_tx_def exec_chain_def ebind_Inr_iff eventProposalId_def pending_def
      MulSig_proposeToRegisterDApp_def new_proposal_Inr_iff enqueued_def stored_action_def
      split: if_splits list.splits)

lemma executeDApp_achieves:
  assumes "access_control (e_access E)" and "pending mulSig i a (w_chain w)"
  shows "wlp (executeDApp E C account mulSig i) (\<lambda>_ w'. achieved (e_access E) (w_chain w') a) w"
  unfolding executeDApp_def sendAs_def
  using assms
  by (auto simp: wlp_world exec_tx_def exec_chain_def ebind_Inr_iff pending_def executeProposal_Inr_iff
      dest: execute_effect_achieves split: if_splits)

abbreviation noline :: "string \<Rightarrow> ('ac, 'px) world \<Rightarrow> bool" where
  "noline k w \<equiv> \<forall>v. Line k v \<notin> set (w_log w)"

lemma wlp_silent:
  assumes "keeps (silent k) m" and "noline k w" and "\<And>x w'. noline k w' \<Longrightarrow> wlp (f x) Q w'"
  shows "wlp (bind m f) Q w"
  unfolding wlp_simps
  by (rule wlp_keeps [OF assms(1)]) (use assms(2,3) in \<open>auto simp: silent_def\<close>)

lemma wlp_noline: "keeps (silent k) m \<Longrightarrow> noline k w \<Longrightarrow> wlp m (\<lambda>_ w'. (\<exists>v. Line k v \<in> set (w_log w')) \<longrightarrow> P w') w"
  by (erule wlp_keeps) (auto simp: silent_def)


lemma autoSignAndExecute_achieves:
  assumes "access_control (e_access E)" and "pending mulSig i a (w_chain w)" and "noline ''registered'' w"
  shows "wlp (autoSignAndExecute E C account mulSig managers i t)
    (\<lambda>_ w'. (\<exists>v. Line ''registered'' v \<in> set (w_log w')) \<longrightarrow> achieved (e_access E) (w_chain w') a) w"
proof -
  let ?I = "\<lambda>w. noline ''registered'' w \<and> pending mulSig i a (w_chain w)"
  have loop: "wlp (signLoop E account mulSig i req managers n) (\<lambda>_. ?I) w" for req n
    unfolding wlp_iff
  proof (intro allI impI)
    fix x w'
    assume run: "signLoop E account mulSig i req managers n w = (Ok x, w')"
    show "?I w'"
      using keepsD [OF signLoop_frames(1) run] keepsD [OF signLoop_frames(2) run] assms(2,3)
      by (auto simp: silent_def chain_frame_def)
  qed
  show ?thesis
    unfolding autoSignAndExecute_def Let_def wlp_simps waitForConfirmation_reads
    by (rule wlp_mono [OF loop])
      (auto simp: wlp_world intro!: wlp_mono [OF executeDApp_achieves [OF assms(1)]])
qed

lemma silent_parts:
  "keeps (silent ''registered'') (validateTreasure E governance kind)"
  "keeps (silent ''registered'') (listFoundationManagers E roles)"
  "keeps (silent ''registered'') (printInstructions E C managers i t)"
  "keeps (silent ''registered'') (addressOr E c name n)"
  "keeps (silent ''registered'') (proposeDApp E C account mulSig)"
  unfolding validateTreasure_def listFoundationManagers_def printInstructions_def addressOr_def
    getContractAddress_def proposeDApp_def
  by (cases "e_loadABI E name"; (auto intro!: silent_intros)[])+

lemma registerVia_achieves:
  assumes A: "access_control (e_access E)" and payee: "e_parseAddress E (dc_payee C) = Inr payee"
    and "noline ''registered'' w"
  shows "wlp (registerVia E C account ms rs gs) (\<lambda>_ w'. (\<exists>v. Line ''registered'' v \<in> set (w_log w')) \<longrightarrow>
    achieved (e_access E) (w_chain w') (DApp (dc_treasureKind C) (dc_dappName C) payee)) w"
proof -
  let ?Q = "\<lambda>_ w'. (\<exists>v. Line ''registered'' v \<in> set (w_log w')) \<longrightarrow>
    achieved (e_access E) (w_chain w') (DApp (dc_treasureKind C) (dc_dappName C) payee)"
  have run: "wlp (bind (governance_view E governance g) (\<lambda>t. bind (say ''required'' [JNum t]) (\<lambda>_.
      bind (if b then autoSignAndExecute E C account mulSig managers i t
            else printInstructions E C managers i t) (\<lambda>_. say ''completed'' [])))) ?Q u"
    if "noline ''registered'' u" "pending mulSig i (DApp (dc_treasureKind C) (dc_dappName C) payee) (w_chain u)"
    for governance g b mulSig managers i and u
    using that
    by (auto simp: wlp_world intro!: wlp_mono [OF autoSignAndExecute_achieves [OF A]]
        wlp_mono [OF wlp_noline [OF silent_parts(3)]] simp del: achieved.simps)
  have propose: "wlp (proposeDApp E C account mulSig) (\<lambda>i u. noline ''registered'' u \<and>
      pending mulSig i (DApp (dc_treasureKind C) (dc_dappName C) payee) (w_chain u)) u"
    if "noline ''registered'' u" for mulSig u
    using wlpD [OF proposeDApp_pending [OF payee]] keepsD [OF silent_parts(5)] that
    unfolding wlp_iff silent_def by blast
  note step = wlp_silent [where k = "''registered''"]
  show ?thesis
    unfolding registerVia_def
    apply (rule step [OF _ assms(3)], intro silent_intros, simp)
    apply (rule step, intro silent_intros, simp, assumption)
    apply (rule step, intro silent_intros, simp, assumption)
    apply (rule step, intro silent_intros, assumption)
    apply (rule step, intro silent_intros, assumption)
    apply (rule step, intro silent_intros, assumption)
    apply (rule step, rule silent_parts, assumption)
    apply (rule step, rule silent_parts, assumption)
    apply (subst wlp_simps(6), split if_split, rule conjI; rule impI)
     apply (simp only: wlp_simps)
     apply (simp add: wlp_say wlp_simps)
    apply (subst wlp_simps(4), rule wlp_mono [OF propose], assumption)
    apply (rule run; blast)
    done
qed

text \<open>C28: When \<open>register-dapp-node.js\<close> ends normally after printing that the DApp is registered, the
  producer of the treasure pays the configured payee under the DApp's id, under every pattern of
  lost requests.\<close>

theorem register_dapp_success:
  assumes "access_control (e_access E)" and "e_parseAddress E (dc_payee C) = Inr payee"
    and "w_log w = []" and "registerDApp E C w = (Ok (), w')"
    and "Line ''registered'' v \<in> set (w_log w')"
  shows "\<exists>p d st. Governance_getTreasureByKind (c_governance (w_chain w')) (dc_treasureKind C) = Inr (p, d) \<and>
    c_producers (w_chain w') p = Some st \<and>
    Producer_getDAppPayee st (dappIdOf (dc_dappName C) payee) = Inr payee"
proof -
  let ?a = "DApp (dc_treasureKind C) (dc_dappName C) payee"
  let ?Q = "\<lambda>_ w'. (\<exists>v. Line ''registered'' v \<in> set (w_log w')) \<longrightarrow> achieved (e_access E) (w_chain w') ?a"
  note step = wlp_silent [where k = "''registered''"]
  have "wlp (registerDApp E C) ?Q w"
    unfolding registerDApp_def
    apply (simp add: wlp_catch assms(2) del: achieved.simps)
    apply (rule conjI)
     apply (rule step, intro silent_intros, simp add: assms(3))
     apply (rule step, intro silent_intros, assumption)
     apply (rule step, rule silent_parts, assumption)
     apply (rule step, rule silent_parts, assumption)
     apply (rule step, rule silent_parts, assumption)
     apply (auto simp: wlp_world intro!: registerVia_achieves [OF assms(1,2)] simp del: achieved.simps)
    done
  then have "achieved (e_access E) (w_chain w') ?a"
    using assms(4,5) by (auto dest: wlpD)
  then show ?thesis
    by (auto simp: producer_at_def split: sum.splits option.splits prod.splits)
qed


text \<open>A run on the deployment with one manager: propose, sign, execute.\<close>

definition demo_dapp :: dapp_config where
  "demo_dapp = \<lparr>dc_treasureKind = ''OIL'', dc_dappName = ''OTTER'', dc_payee = ''0xa'',
     dc_networkName = ''development'', dc_mulSig = ''0x1'', dc_roles = ''0x2'', dc_governance = ''0x3'',
     dc_privateKey = ''key''\<rparr>"

definition solo_dapp :: proposal where
  "solo_dapp = (ms_proposals blank_mulsig 0)\<lparr>pr_proposer := 10, pr_name := ''OTTER'',
     pr_treasureKind := ''OIL'', pr_payee := 10, pr_type := 5, pr_signatureCount := 0\<rparr>"

definition solo_proposed :: "acl chain" where
  "solo_proposed = set_mulSig solo_chain (enqueued (c_mulSig solo_chain) solo_dapp)"

definition solo_signed :: "acl chain" where
  "solo_signed = set_mulSig solo_proposed ((c_mulSig solo_proposed)\<lparr>ms_proposals :=
     (ms_proposals (c_mulSig solo_proposed))(0 := signed reference_access solo_proposed 10 solo_dapp)\<rparr>)"

lemma demo_oil: "Governance_getTreasureByKind (c_governance demo_chain) ''OIL'' = Inr (6, 7)"
  by (simp add: getTreasureByKind_Inr_iff demo_chain_def)

lemma solo_proposed_run:
  "MulSig_proposeToRegisterDApp reference_access solo_chain 10 ''OIL'' ''OTTER'' 10 =
     Inr (solo_proposed, [RegisterDApp 0 10 ''OIL'' ''OTTER'' 10])"
proof -
  have "new_proposal (c_mulSig solo_chain) (\<lambda>kk. kk\<lparr>pr_proposer := 10, pr_name := ''OTTER'',
      pr_treasureKind := ''OIL'', pr_payee := 10, pr_type := 5\<rparr>) = Inr (0, enqueued (c_mulSig solo_chain) solo_dapp)"
    by (simp add: new_proposal_Inr_iff solo_dapp_def)
  then show ?thesis
    by (simp add: manager_passes solo_manager MulSig_proposeToRegisterDApp_def governance_at_def demo_oil require_def solo_proposed_def)
qed

lemma solo_signed_run:
  "MulSig_signTransaction reference_access solo_proposed 10 0 = Inr (solo_signed, [ProposalSigned 0 10])"
  by (simp add: signTransaction_Inr_iff can_sign_def solo_signed_def solo_proposed_def enqueued_def
      solo_dapp_def is_manager_def needed_def solo_access)


lemma solo_executed_run:
  obtains ch where "MulSig_executeProposal reference_access solo_signed 10 0 = Inr (ch, [ProposalExecuted 0])"
    and "c_governance ch = c_governance demo_chain"
proof -
  have p: "ms_proposals (c_mulSig solo_signed) 0 = signed reference_access solo_proposed 10 solo_dapp"
    by (simp add: solo_signed_def)
  have "\<exists>ch1. execute_effect reference_access solo_signed (ms_proposals (c_mulSig solo_signed) 0) = Inr ch1 \<and>
      is_manager reference_access ch1 10 \<and> c_governance ch1 = c_governance demo_chain"
    unfolding p
    by (auto simp: execute_effect_def execute_registerDApp_def signed_def Let_def solo_dapp_def solo_signed_def
        solo_proposed_def governance_at_def demo_oil producer_at_def Producer_registerDAppConnect_def
        demo_producer_def require_def is_manager_def solo_access enqueued_def)
  moreover have "pr_excuteTime (ms_proposals (c_mulSig solo_signed) 0) \<le> c_time solo_signed"
    unfolding p by (simp add: signed_def Let_def solo_dapp_def solo_signed_def solo_proposed_def enqueued_def)
  moreover have "is_manager reference_access solo_signed 10"
    by (simp add: is_manager_def solo_signed_def solo_proposed_def enqueued_def solo_access)
  ultimately show thesis
    using that unfolding executeProposal_Inr_iff by (auto simp: executeProposal_Inr_iff)
qed


lemma solo_steps:
  "w_chain v = solo_chain \<Longrightarrow> exec_tx demo_env v 10 1 (MulSigCall (ProposeToRegisterDApp ''OIL'' ''OTTER'' 10)) =
     Inr (v\<lparr>w_chain := solo_proposed\<rparr>, [RegisterDApp 0 10 ''OIL'' ''OTTER'' 10])"
  "w_chain v = solo_proposed \<Longrightarrow> exec_tx demo_env v 10 1 (MulSigCall (SignTransaction 0)) =
     Inr (v\<lparr>w_chain := solo_signed\<rparr>, [ProposalSigned 0 10])"
  using solo_proposed_run solo_signed_run
  by (simp_all add: exec_tx_def exec_chain_def) (simp_all add: solo_proposed_def)

lemma solo_views [simp]:
  "c_rolesAt solo_proposed = 2" "c_governanceAt solo_proposed = 3" "c_mulSigAt solo_proposed = 1"
  "c_roles solo_proposed = c_roles solo_chain" "c_governance solo_proposed = c_governance demo_chain"
  "c_mulSigAt solo_signed = 1" "MulSig_hasAlreadySigned (c_mulSig solo_proposed) 0 10 = False"
  "MulSig_getSignatureCount (c_mulSig solo_signed) 0 = 1"
  by (simp_all add: solo_proposed_def solo_signed_def MulSig_hasAlreadySigned_def MulSig_getSignatureCount_def
      enqueued_def solo_dapp_def)

lemma run_Pair: "run (Pair r) Q w \<longleftrightarrow> Q r w"
  by (simp add: run_iff)

lemma register_dapp_success_witness:
  "\<exists>w' st. registerDApp demo_env demo_dapp (demo_world solo_chain) = (Ok (), w') \<and>
     c_producers (w_chain w') 6 = Some st \<and> Producer_getDAppPayee st (dappIdOf ''OTTER'' 10) = Inr 10"
proof -
  obtain ch where ch: "MulSig_executeProposal reference_access solo_signed 10 0 = Inr (ch, [ProposalExecuted 0])"
    and g: "c_governance ch = c_governance demo_chain"
    by (rule solo_executed_run)
  have ex: "exec_tx demo_env v 10 1 (MulSigCall (ExecuteProposal 0)) = Inr (v\<lparr>w_chain := ch\<rparr>, [ProposalExecuted 0])"
    if "w_chain v = solo_signed" for v
    using that ch by (simp add: exec_tx_def exec_chain_def)
  have "\<exists>w'. registerDApp demo_env demo_dapp (demo_world solo_chain) = (Ok (), w') \<and>
      (\<exists>v. Line ''registered'' v \<in> set (w_log w')) \<and> c_governance (w_chain w') = c_governance ch"
    by (rule runD)
      (simp add: registerDApp_def registerVia_def addressOr_def demo_dapp_def validateTreasure_def demo_oil
        listFoundationManagers_def proposeDApp_def eventProposalId_def autoSignAndExecute_def
        waitForConfirmation_reads executeDApp_def development_networks_def run_world view_defs at_defs
        Let_def sendAs_def solo_steps ex solo_access Roles_getRoleMemberCount_def Roles_getRoleMember_def
        Governance_fmThreshold_def run_Pair cong: if_cong)
  then obtain w' v where w': "registerDApp demo_env demo_dapp (demo_world solo_chain) = (Ok (), w')"
      "Line ''registered'' v \<in> set (w_log w')" "c_governance (w_chain w') = c_governance demo_chain"
    using g by auto
  have "e_parseAddress demo_env (dc_payee demo_dapp) = Inr 10"
    by (simp add: demo_dapp_def)
  from register_dapp_success [OF _ this _ w'(1,2)] w' show ?thesis
    by (simp add: ref.access_control_axioms demo_dapp_def demo_oil)
qed


section \<open>register-dapp-node.js never waits\<close>

lemma execute_time: "MulSig_executeProposal A ch s i = Inr (ch', ev) \<Longrightarrow> c_time ch' = c_time ch"
  using execute_effect_frame(4) by (fastforce simp: executeProposal_Inr_iff)

lemma call_keeps_time:
  "call_keeps E (\<lambda>_. True) c_time from to (MulSigCall (ProposeToRegisterDApp k n p))"
  "call_keeps E (\<lambda>_. True) c_time from to (MulSigCall (SignTransaction i))"
  "call_keeps E (\<lambda>_. True) c_time from to (MulSigCall (ExecuteProposal i))"
  by (auto intro!: call_keeps_mulsig simp: signTransaction_Inr_iff execute_time
      MulSig_proposeToRegisterDApp_def ebind_Inr_iff)

lemma cf_signLoop: "keeps (chain_frame (\<lambda>_. True) c_time) (signLoop E account mulSig i req managers n)"
  by (induction managers arbitrary: n) (auto intro!: cf_intros call_keeps_time)

text \<open>\<open>register-dapp-node.js\<close> never waits for the confirmation period it announces, nor advances the
  time of a development chain: it reads the execution time from a misspelt property, so the chain's
  clock after any run is the clock before it.\<close>

theorem register_dapp_never_waits:
  "c_time (w_chain (snd (registerDApp E C w))) = c_time (w_chain w)"
proof -
  have "keeps (chain_frame (\<lambda>_. True) c_time) (registerDApp E C)"
    unfolding registerDApp_def registerVia_def validateTreasure_def listFoundationManagers_def
      proposeDApp_def autoSignAndExecute_def waitForConfirmation_reads executeDApp_def
      printInstructions_def addressOr_def getContractAddress_def Let_def
    by (intro cf_intros cf_signLoop call_keeps_time) (auto intro!: cf_intros split: sum.split)
  then show ?thesis
    by (simp add: keeps_def chain_frame_def)
qed

end
