(* ===== verification/CrosschainScripts.thy ===== *)
theory CrosschainScripts
  imports DAppScripts
begin

text \<open>
  The scripts that configure the cross-chain tokens: \<open>setup-crosschain-tokens.js\<close>, one proposal
  made, signed and executed per mapping, and \<open>execute-setup-crosschain-tokens.js\<close>, which runs it
  for both networks. The private key is the empty string in the source; it is an argument here,
  so that what the script does with a usable key can be stated too.
\<close>

section \<open>Configuration\<close>

record side =
  sd_unit :: string
  sd_bridge :: string
  sd_tcash :: string

record addresses =
  ad_sourceNetworkName :: string
  ad_sourceChainId :: nat
  ad_sourceChain :: side
  ad_targetChain :: side
  ad_targetChainId :: nat
  ad_mulSig :: string
  ad_roles :: string
  ad_crosschainTokens :: string

text \<open>The nine arguments of a proposal, the addresses still as text.\<close>

record token_params =
  tp_token :: string
  tp_sourceERC20 :: string
  tp_sourceCrosschain :: string
  tp_sourceChainId :: nat
  tp_targetERC20 :: string
  tp_targetCrosschain :: string
  tp_targetChainId :: nat
  tp_fee :: nat
  tp_chainId :: nat

definition crosschainParams :: "addresses \<Rightarrow> token_params list" where
  "crosschainParams A =
     (let home = (ad_sourceNetworkName A = ''treasurenet'');
          forward = (\<lambda>token erc20 target. \<lparr>tp_token = token, tp_sourceERC20 = erc20,
            tp_sourceCrosschain = sd_bridge (ad_sourceChain A), tp_sourceChainId = ad_sourceChainId A,
            tp_targetERC20 = target, tp_targetCrosschain = sd_bridge (ad_targetChain A),
            tp_targetChainId = ad_targetChainId A, tp_fee = 5, tp_chainId = ad_sourceChainId A\<rparr>);
          backward = (\<lambda>token erc20 target. \<lparr>tp_token = token, tp_sourceERC20 = erc20,
            tp_sourceCrosschain = sd_bridge (ad_targetChain A), tp_sourceChainId = ad_targetChainId A,
            tp_targetERC20 = target, tp_targetCrosschain = sd_bridge (ad_sourceChain A),
            tp_targetChainId = ad_sourceChainId A, tp_fee = 5, tp_chainId = ad_targetChainId A\<rparr>)
      in [forward (if home then ''UNIT'' else ''WUNIT'') (sd_unit (ad_sourceChain A)) (sd_unit (ad_targetChain A)),
          backward (if home then ''WUNIT'' else ''UNIT'') (sd_unit (ad_targetChain A)) (sd_unit (ad_sourceChain A)),
          forward (if home then ''TCASH'' else ''WTCASH'') (sd_tcash (ad_sourceChain A)) (sd_tcash (ad_targetChain A)),
          backward (if home then ''WTCASH'' else ''TCASH'') (sd_tcash (ad_targetChain A)) (sd_tcash (ad_sourceChain A))])"

text \<open>Encoding the arguments reads the addresses.\<close>

definition encodeToken :: "('ac, 'px) env \<Rightarrow> token_params \<Rightarrow> token_info fallible" where
  "encodeToken E p =
     ebind (e_parseAddress E (tp_sourceERC20 p)) (\<lambda>sourceERC20.
     ebind (e_parseAddress E (tp_sourceCrosschain p)) (\<lambda>sourceCrosschain.
     ebind (e_parseAddress E (tp_targetERC20 p)) (\<lambda>targetERC20.
     ebind (e_parseAddress E (tp_targetCrosschain p)) (\<lambda>targetCrosschain.
     Inr \<lparr>ti_token = tp_token p, ti_sourceERC20 = sourceERC20, ti_sourceCrosschain = sourceCrosschain,
       ti_sourcechainid = tp_sourceChainId p, ti_targetERC20 = targetERC20,
       ti_targetCrosschain = targetCrosschain, ti_targetchainid = tp_targetChainId p, ti_fee = tp_fee p\<rparr>))))"

section \<open>setup-crosschain-tokens.js\<close>

definition submitProposal ::
    "('ac, 'px) env \<Rightarrow> addr \<Rightarrow> addr \<Rightarrow> addr \<Rightarrow> token_params \<Rightarrow> ('ac, 'px, unit) script" where
  "submitProposal E account sender mulSig p =
     catch (bind (getGasPrice E) (\<lambda>gasPrice.
            bind (lift_err (encodeToken E p)) (\<lambda>info.
            bind (sendAs E account sender mulSig (MulSigCall (ProposeToSetCrosschainToken info (tp_chainId p)))) (\<lambda>_.
            say ''proposal-created'' []))))
       (\<lambda>m. bind (say ''error-details'' [JStr m]) (\<lambda>_.
            bind (whenA (js_includes m ''revert'') (say ''revert-reason'' [JStr m])) (\<lambda>_. throw m)))"

text \<open>Signing for every manager; a manager whose signature fails is reported and passed over.\<close>

definition signForManager ::
    "('ac, 'px) env \<Rightarrow> addr \<Rightarrow> addr \<Rightarrow> nat \<Rightarrow> addr \<Rightarrow> ('ac, 'px, unit) script" where
  "signForManager E account mulSig proposalId manager =
     bind (mulSig_view E mulSig (\<lambda>_ m. Inr (MulSig_hasAlreadySigned m proposalId manager))) (\<lambda>hasSigned.
     whenA (\<not> hasSigned)
       (catch (bind (getGasPrice E) (\<lambda>gasPrice.
               bind (sendAs E account manager mulSig (MulSigCall (SignTransaction proposalId))) (\<lambda>_.
               say ''manager-signed'' [JAddr manager])))
          (\<lambda>m. say ''signature-failed'' [JAddr manager, JStr m])))"

definition executeAndVerify ::
    "('ac, 'px) env \<Rightarrow> addr \<Rightarrow> addr \<Rightarrow> addr \<Rightarrow> addr \<Rightarrow> nat \<Rightarrow> token_params \<Rightarrow> ('ac, 'px, unit) script" where
  "executeAndVerify E account sender mulSig crosschainTokens proposalId p =
     catch (bind (say ''executing'' [JNum proposalId]) (\<lambda>_.
            bind (getGasPrice E) (\<lambda>gasPrice.
            bind (sendAs E account sender mulSig (MulSigCall (ExecuteProposal proposalId))) (\<lambda>_.
            bind (say ''executed'' []) (\<lambda>_.
            bind (tokens_view E crosschainTokens (\<lambda>t.
                    Inr (CrosschainTokens_getCrosschainTokenByChainId t (tp_token p) (tp_chainId p)))) (\<lambda>tokenInfo.
            if ti_token tokenInfo = '''' then throw ''Token info is empty after execution''
            else say ''token-info'' [JStr (ti_token tokenInfo), JAddr (ti_sourceERC20 tokenInfo),
              JAddr (ti_sourceCrosschain tokenInfo), JNum (ti_sourcechainid tokenInfo),
              JAddr (ti_targetERC20 tokenInfo), JAddr (ti_targetCrosschain tokenInfo),
              JNum (ti_targetchainid tokenInfo), JNum (ti_fee tokenInfo)]))))))
       (\<lambda>m. bind (say ''execute-failed'' [JStr m]) (\<lambda>_. throw m))"

text \<open>One mapping from proposal to execution. The sender is \<open>undefined\<close> when there are no managers.\<close>

definition proposeCrosschainToken ::
    "('ac, 'px) env \<Rightarrow> addr \<Rightarrow> addr \<Rightarrow> addr \<Rightarrow> addr \<Rightarrow> bytes32 \<Rightarrow> addr option \<Rightarrow> token_params \<Rightarrow>
      ('ac, 'px, unit) script" where
  "proposeCrosschainToken E account mulSig roles crosschainTokens fm senderOpt p =
     bind (say ''creating'' [JStr (tp_token p)]) (\<lambda>_.
     bind (lift_err (case senderOpt of None \<Rightarrow> Inl ''invalid address'' | Some a \<Rightarrow> Inr a)) (\<lambda>sender.
     bind (roles_view E roles (\<lambda>r. Inr (hasRole (e_access E) (r_access r) fm sender))) (\<lambda>hasRole.
     if \<not> hasRole then throw (''Account '' @ e_toChecksum E sender @ '' does not have FOUNDATION_MANAGER role'')
     else
       bind (submitProposal E account sender mulSig p) (\<lambda>_.
       bind (sleep 10) (\<lambda>_.
       bind (mulSig_view E mulSig (\<lambda>ch _. MulSig_getPendingProposals (e_access E) ch sender)) (\<lambda>pendingProposals.
       whenA (0 < length pendingProposals)
         (let proposalId = last pendingProposals in
          bind (say ''proposal'' [JNum proposalId]) (\<lambda>_.
          bind (roles_view E roles (\<lambda>r. Roles_getRoleMemberArray (e_access E) r fm)) (\<lambda>managers.
          bind (forEach managers (signForManager E account mulSig proposalId)) (\<lambda>_.
          bind (sleep 8) (\<lambda>_.
          executeAndVerify E account sender mulSig crosschainTokens proposalId p)))))))))))"

definition setupWith :: "('ac, 'px) env \<Rightarrow> string \<Rightarrow> addresses \<Rightarrow> ('ac, 'px, unit) script" where
  "setupWith E privateKey A =
     catch (bind (lift_err (e_keyAccount E privateKey)) (\<lambda>account.
            bind (addrOf E (ad_mulSig A)) (\<lambda>mulSig.
            bind (addrOf E (ad_roles A)) (\<lambda>roles.
            bind (addrOf E (ad_crosschainTokens A)) (\<lambda>crosschainTokens.
            let fm = Keccak ''FOUNDATION_MANAGER'' in
            bind (roles_view E roles (\<lambda>r. Roles_getRoleMemberArray (e_access E) r fm)) (\<lambda>fManagers.
            bind (say ''managers'' (map JAddr fManagers)) (\<lambda>_.
            forEach (crosschainParams A) (proposeCrosschainToken E account mulSig roles crosschainTokens fm
              (case fManagers of [] \<Rightarrow> None | a # _ \<Rightarrow> Some a))))))))) 
       (\<lambda>m. bind (say ''setup-failed'' [JStr m]) (\<lambda>_. throw m))"

definition setupCrosschainTokens :: "('ac, 'px) env \<Rightarrow> addresses \<Rightarrow> ('ac, 'px, unit) script" where
  "setupCrosschainTokens E A = setupWith E '''' A"

section \<open>execute-setup-crosschain-tokens.js\<close>

definition treasurenet_addresses :: addresses where
  "treasurenet_addresses = \<lparr>ad_sourceNetworkName = ''treasurenet'', ad_sourceChainId = 6666,
     ad_sourceChain = \<lparr>sd_unit = ''0x0000000000000000000000000000000000000000'',
       sd_bridge = ''0xCBD6B4FCfbcBfEbE60c11Ce035054824c0A63AC6'',
       sd_tcash = ''0x830f39E20F0aB5e54C3EA2A0Acd3139Cc1c3698A''\<rparr>,
     ad_targetChain = \<lparr>sd_unit = ''0x8Fc8d557D73a718ee3485ed82d19a46B7912a6CF'',
       sd_bridge = ''0xdC5AEA0014a2ff768F60f39A357F15a6D070f8C9'',
       sd_tcash = ''0x53819C1F1752F46Ccd5FC062DD7FaF764C514f55''\<rparr>,
     ad_targetChainId = 6566, ad_mulSig = ''0xED54E6944B2a89A13F3CcF0fc08ba7DB54Fd0A8c'',
     ad_roles = ''0xa1Bf87580F2bfb1e3FC1ecC6bB773DBA48DF136C'',
     ad_crosschainTokens = ''0x00ed2199Be0F8A6e2AF06E47e427341A3632f2F7''\<rparr>"

definition ethereum_addresses :: addresses where
  "ethereum_addresses = \<lparr>ad_sourceNetworkName = ''ethereum'', ad_sourceChainId = 6566,
     ad_sourceChain = \<lparr>sd_unit = ''0x8Fc8d557D73a718ee3485ed82d19a46B7912a6CF'',
       sd_bridge = ''0xdC5AEA0014a2ff768F60f39A357F15a6D070f8C9'',
       sd_tcash = ''0x53819C1F1752F46Ccd5FC062DD7FaF764C514f55''\<rparr>,
     ad_targetChain = \<lparr>sd_unit = ''0x0000000000000000000000000000000000000000'',
       sd_bridge = ''0xCBD6B4FCfbcBfEbE60c11Ce035054824c0A63AC6'',
       sd_tcash = ''0x830f39E20F0aB5e54C3EA2A0Acd3139Cc1c3698A''\<rparr>,
     ad_targetChainId = 6666, ad_mulSig = ''0x178027804d6F1DDf1e450c28aC740E475C39A67e'',
     ad_roles = ''0x044Bff8568B43c184E05FBf033d8904757df54d2'',
     ad_crosschainTokens = ''0xe642eeB1903ff349D48c48daEF3Ef426a43feF95''\<rparr>"

text \<open>Each configuration names its own node, so the run goes over two worlds, one per network.\<close>

definition on_first :: "('v, 'a) act \<Rightarrow> ('v \<times> 'u, 'a) act" where
  "on_first m = (\<lambda>(v, u). let (r, v') = m v in (r, (v', u)))"

definition on_second :: "('u, 'a) act \<Rightarrow> ('v \<times> 'u, 'a) act" where
  "on_second m = (\<lambda>(v, u). let (r, u') = m u in (r, (v, u')))"

definition setup_main ::
    "('ac, 'px) env \<Rightarrow> ('ac, 'px) env \<Rightarrow> (('ac, 'px) world \<times> ('ac, 'px) world, unit) act" where
  "setup_main E_treasurenet E_ethereum =
     bind (catch (bind (on_first (say ''starting'' [])) (\<lambda>_.
            bind (on_first (say ''using'' [JNum (ad_sourceChainId treasurenet_addresses),
                                 JNum (ad_targetChainId treasurenet_addresses)])) (\<lambda>_.
            bind (on_first (setupCrosschainTokens E_treasurenet treasurenet_addresses)) (\<lambda>_.
            bind (on_second (setupCrosschainTokens E_ethereum ethereum_addresses)) (\<lambda>_.
            on_first (say ''completed'' []))))))
       (\<lambda>m. bind (on_first (say ''error'' [JStr m])) (\<lambda>_. process_exit 1)))
     (\<lambda>_. process_exit 0)"


section \<open>A setup that ends normally has stored every mapping\<close>

abbreviation token_entry :: "'ac chain \<Rightarrow> string \<Rightarrow> nat \<Rightarrow> token_info" where
  "token_entry ch t c \<equiv> CrosschainTokens_getCrosschainTokenByChainId (c_tokens ch) t c"

text \<open>The last proposal of the queue stores the action.\<close>

definition queued :: "addr \<Rightarrow> action \<Rightarrow> 'ac chain \<Rightarrow> bool" where
  "queued mulSig a ch \<longleftrightarrow> (c_mulSigAt ch = mulSig \<longrightarrow> ms_pendingProposals (c_mulSig ch) \<noteq> [] \<and>
     stored_action (ms_proposals (c_mulSig ch) (last (ms_pendingProposals (c_mulSig ch)))) = Some a)"

lemma encodeToken_name: "encodeToken E p = Inr info \<Longrightarrow> ti_token info = tp_token p"
  by (auto simp: encodeToken_def ebind_Inr_iff)

lemma propose_queued:
  assumes "MulSig_proposeToSetCrosschainToken A ch s info c = Inr (ch', ev)"
  shows "queued mulSig (Token info c) ch'" and "c_tokens ch' = c_tokens ch"
proof -
  have "proposed_action (ProposeToSetCrosschainToken info c) = Some (Token info c)"
    "MulSig_call A ch s (ProposeToSetCrosschainToken info c) = Inr (ch', ev)"
    using assms by simp_all
  then obtain p where "ch' = set_mulSig ch (enqueued (c_mulSig ch) p)" "stored_action p = Some (Token info c)"
    by (rule proposed_action_stored)
  then show "queued mulSig (Token info c) ch'" "c_tokens ch' = c_tokens ch"
    by (simp_all add: queued_def enqueued_def)
qed

lemma queued_elsewhere: "mulSig \<noteq> c_mulSigAt ch \<Longrightarrow> queued mulSig a ch"
  by (simp add: queued_def)

lemma submitProposal_queued:
  "wlp (submitProposal E account sender mulSig p) (\<lambda>_ u. \<exists>info. encodeToken E p = Inr info \<and>
     queued mulSig (Token info (tp_chainId p)) (w_chain u) \<and> c_tokens (w_chain u) = c_tokens (w_chain w)) w"
  unfolding submitProposal_def sendAs_def
  by (auto simp: wlp_catch wlp_world exec_tx_def exec_chain_def ebind_Inr_iff queued_elsewhere
      split: if_splits intro: propose_queued)

lemma queued_sleep: "keeps (chain_frame (queued mulSig a) c_tokens) (sleep n)"
  by (simp add: keeps_def chain_frame_def sleep_def advance_def queued_def)

lemma sign_keeps_queued: "call_keeps E (queued mulSig a) c_tokens from to (MulSigCall (SignTransaction i))"
  by (rule call_keeps_mulsig) (auto simp: queued_def signTransaction_Inr_iff)

lemma signForManager_keeps:
  "keeps (chain_frame (queued mulSig a) c_tokens) (signForManager E account ms i manager)"
  unfolding signForManager_def by (intro cf_intros sign_keeps_queued)

lemma token_stored:
  assumes "stored_action p = Some (Token info c)"
  shows "pr_type p = 6" and "proposal_info p = info" and "pr_chainId p = c"
  using assms by (auto simp: stored_action_def split: if_splits)

lemma execute_token:
  assumes "MulSig_executeProposal A ch s i = Inr (ch', ev)"
    and "stored_action (ms_proposals (c_mulSig ch) i) = Some (Token info c)"
  shows "token_entry ch' t n = (if t = ti_token info \<and> n = c then info else token_entry ch t n)"
proof -
  obtain ch1 where run: "execute_effect A ch (ms_proposals (c_mulSig ch) i) = Inr ch1"
    and ch': "ch' = set_mulSig ch1 (remove_proposal (c_mulSig ch) i)"
    using assms(1) by (auto simp: executeProposal_Inr_iff)
  with run token_stored [OF assms(2)] obtain t' where "CrosschainTokens_setCrosschainToken (c_tokens ch) (c_mulSigAt ch) info c = Inr t'"
    "ch1 = ch\<lparr>c_tokens := t'\<rparr>"
    by (auto simp: execute_effect_def execute_crosschainToken_def ebind_Inr_iff tokens_at_def split: if_splits)
  then show ?thesis
    using ch' setCrosschainToken_get by simp
qed

lemma executeAndVerify_stores:
  assumes "c_mulSigAt (w_chain w) = mulSig"
    and "stored_action (ms_proposals (c_mulSig (w_chain w)) i) = Some (Token info c)"
  shows "wlp (executeAndVerify E account sender mulSig tokens i p) (\<lambda>_ u. \<forall>t n. token_entry (w_chain u) t n =
    (if t = ti_token info \<and> n = c then info else token_entry (w_chain w) t n)) w"
  unfolding executeAndVerify_def sendAs_def
  using assms
  by (auto simp: wlp_catch wlp_world exec_tx_def exec_chain_def ebind_Inr_iff dest: execute_token split: if_splits)


lemma pending_sleep: "keeps (chain_frame (pending mulSig i a) c_tokens) (sleep n)"
  by (simp add: keeps_def chain_frame_def sleep_def advance_def pending_def)

lemma signing_keeps_pending:
  "keeps (chain_frame (pending mulSig i a) c_tokens)
     (bind (forEach managers (signForManager E account ms i)) (\<lambda>_. sleep n))"
proof -
  have "call_keeps E (pending mulSig i a) c_tokens s d (MulSigCall (SignTransaction j))" for s d j
    by (rule call_keeps_mulsig) (auto simp: pending_def signTransaction_Inr_iff)
  then show ?thesis
    unfolding signForManager_def by (intro cf_intros pending_sleep)
qed

text \<open>The part after the proposal number is known.\<close>

lemma sign_and_execute:
  assumes "pending mulSig i (Token info c) (w_chain w)"
  shows "wlp (bind (forEach managers (signForManager E account mulSig i)) (\<lambda>_. bind (sleep 8) (\<lambda>_.
      executeAndVerify E account sender mulSig tokens i p))) (\<lambda>_ u. \<forall>t n. token_entry (w_chain u) t n =
    (if t = ti_token info \<and> n = c then info else token_entry (w_chain w) t n)) w"
proof -
  have sign: "wlp (bind (forEach managers (signForManager E account mulSig i)) (\<lambda>_. sleep 8))
      (\<lambda>_ u. pending mulSig i (Token info c) (w_chain u) \<and> c_tokens (w_chain u) = c_tokens (w_chain w)) w"
    by (rule wlp_keeps [OF signing_keeps_pending]) (use assms in \<open>auto simp: chain_frame_def\<close>)
  have exec: "wlp (executeAndVerify E account sender mulSig tokens i p) (\<lambda>_ v. \<forall>t n. token_entry (w_chain v) t n =
      (if t = ti_token info \<and> n = c then info else token_entry (w_chain w) t n)) u"
    if "pending mulSig i (Token info c) (w_chain u) \<and> c_tokens (w_chain u) = c_tokens (w_chain w)" for u
    by (rule wlp_mono [OF executeAndVerify_stores [of u mulSig i info c]]) (use that in \<open>simp_all add: pending_def\<close>)
  show ?thesis
    unfolding bind_assoc [symmetric] wlp_simps(4) [of "bind (forEach managers (signForManager E account mulSig i)) (\<lambda>_. sleep 8)"]
    by (rule wlp_mono [OF sign]) (rule exec)
qed

lemma proposeCrosschainToken_stores:
  "wlp (proposeCrosschainToken E account mulSig roles tokens fm senderOpt p) (\<lambda>_ u. \<exists>info.
     encodeToken E p = Inr info \<and> (\<forall>t n. token_entry (w_chain u) t n =
       (if t = tp_token p \<and> n = tp_chainId p then info else token_entry (w_chain w) t n))) w"
proof -
  have tail: "wlp (bind (mulSig_view E mulSig (\<lambda>ch _. MulSig_getPendingProposals (e_access E) ch sender)) (\<lambda>pp.
       whenA (0 < length pp)
         (let i = last pp in
          bind (say ''proposal'' [JNum i]) (\<lambda>_.
          bind (roles_view E roles (\<lambda>r. Roles_getRoleMemberArray (e_access E) r fm)) (\<lambda>managers.
          bind (forEach managers (signForManager E account mulSig i)) (\<lambda>_.
          bind (sleep 8) (\<lambda>_.
          executeAndVerify E account sender mulSig tokens i p)))))))
      (\<lambda>_ v. \<forall>t n. token_entry (w_chain v) t n =
        (if t = ti_token info \<and> n = c then info else token_entry (w_chain u) t n)) u"
    if "queued mulSig (Token info c) (w_chain u)" for u sender info c
    using that
    apply (subst wlp_simps(4), subst wlp_views(1))
    apply (auto simp: MulSig_getPendingProposals_def ebind_Inr_iff queued_def Let_def)
    apply (subst wlp_simps(4), subst wlp_say, subst wlp_simps(4), subst wlp_views(2))
    apply (auto intro!: wlp_mono [OF sign_and_execute] simp: pending_def)
    done
  show ?thesis
    unfolding proposeCrosschainToken_def
    apply (subst wlp_simps(4), subst wlp_say, subst wlp_simps(4), subst wlp_simps(5), intro allI impI)
    apply (subst wlp_simps(4), subst wlp_views(2), intro impI allI)
    apply (subst wlp_simps(6), split if_split, intro conjI impI, simp add: wlp_simps)
    apply (subst wlp_simps(4), rule wlp_mono [OF submitProposal_queued])
    apply (subst wlp_simps(4), subst wlp_sleep)
    apply (elim exE conjE)
    apply (rule wlp_mono, rule tail)
     apply (simp add: advance_def queued_def)
    apply (auto simp: advance_def dest: encodeToken_name)
    done
qed


text \<open>Mappings with different keys do not disturb each other.\<close>

lemma proposals_store:
  assumes "distinct (map (\<lambda>p. (tp_token p, tp_chainId p)) ps)"
  shows "wlp (forEach ps (proposeCrosschainToken E account mulSig roles tokens fm s))
    (\<lambda>_ u. (\<forall>p \<in> set ps. \<exists>info. encodeToken E p = Inr info \<and>
        token_entry (w_chain u) (tp_token p) (tp_chainId p) = info) \<and>
      (\<forall>t n. (t, n) \<notin> (\<lambda>p. (tp_token p, tp_chainId p)) ` set ps \<longrightarrow>
        token_entry (w_chain u) t n = token_entry (w_chain w) t n)) w"
  using assms
proof (induction ps arbitrary: w)
  case Nil
  show ?case by (simp only: forEach.simps wlp_simps(1)) simp
next
  case (Cons p ps)
  show ?case
    unfolding forEach.simps wlp_simps(4) [of "proposeCrosschainToken E account mulSig roles tokens fm s p"]
    by (rule wlp_mono [OF proposeCrosschainToken_stores], rule wlp_mono [OF Cons.IH])
      (use Cons.prems in \<open>auto simp: image_iff\<close>)
qed

lemma crosschainParams_keys: "distinct (map (\<lambda>p. (tp_token p, tp_chainId p)) (crosschainParams A))"
  by (simp add: crosschainParams_def Let_def)

text \<open>C29: When \<open>setup-crosschain-tokens.js\<close> ends normally, each of the four mappings of the
  configuration is stored under its token and chain id, whatever the signatures and lost requests
  on the way.\<close>

theorem setup_stores_all_mappings:
  assumes "setupWith E key A w = (Ok (), w')" and "p \<in> set (crosschainParams A)"
  shows "\<exists>info. encodeToken E p = Inr info \<and>
    CrosschainTokens_getCrosschainTokenByChainId (c_tokens (w_chain w')) (tp_token p) (tp_chainId p) = info"
proof -
  have "wlp (setupWith E key A) (\<lambda>_ u. \<forall>p \<in> set (crosschainParams A). \<exists>info. encodeToken E p = Inr info \<and>
        token_entry (w_chain u) (tp_token p) (tp_chainId p) = info) w"
    unfolding setupWith_def Let_def
    by (auto simp: wlp_catch wlp_world intro!: wlp_mono [OF proposals_store [OF crosschainParams_keys]])
  with assms show ?thesis by (auto dest: wlpD)
qed

text \<open>As shipped, \<open>execute-setup-crosschain-tokens.js\<close> ends with code 1 before any request: its
  private key is the empty string, which the account library refuses.\<close>

theorem shipped_setup_stops:
  assumes "e_keyAccount E1 '''' = Inl m"
  shows "\<exists>u'. setup_main E1 E2 (w, v) = (Exit 1, (u', v)) \<and> w_txs u' = w_txs w \<and> w_tick u' = w_tick w \<and>
    w_chain u' = w_chain w"
  using assms
  by (auto simp: setup_main_def setupCrosschainTokens_def setupWith_def on_first_def bind_def catch_def
      say_def Let_def split_beta)

lemma shipped_setup_stops_witness:
  "fst (setup_main demo_env demo_env (demo_world solo_chain, demo_world demo_chain)) = Exit 1"
  using shipped_setup_stops [of demo_env "''Private key must be 32 bytes long''" demo_env
      "demo_world solo_chain" "demo_world demo_chain"] by auto


section \<open>With one manager and a short confirmation period the setup succeeds\<close>

text \<open>
  A deployment on which nothing stands in the way of \<open>k\<close> more mappings: the account of the script
  is the only manager, the contracts refer to each other, the confirmation period is over within
  the eight seconds the script waits, and nobody has signed the next proposal numbers.
\<close>

definition ready :: "('ac, 'px) env \<Rightarrow> addr \<Rightarrow> nat \<Rightarrow> 'ac chain \<Rightarrow> bool" where
  "ready E account k ch \<longleftrightarrow>
     ms_roles (c_mulSig ch) = c_rolesAt ch \<and> ms_governance (c_mulSig ch) = c_governanceAt ch \<and>
     g_role (c_governance ch) = c_rolesAt ch \<and> ms_crosschainTokens (c_mulSig ch) = c_tokensAt ch \<and>
     c_tokensAt ch \<noteq> 0 \<and> ct_mulSig (c_tokens ch) = c_mulSigAt ch \<and>
     hasRole (e_access E) (r_access (c_roles ch)) FOUNDATION_MANAGER account \<and>
     roleMembers (e_access E) (r_access (c_roles ch)) FOUNDATION_MANAGER = [account] \<and>
     ms_confirmDuration (c_mulSig ch) \<le> 8 \<and> ms_proposalIDx (c_mulSig ch) + k < 2 ^ 256 \<and>
     c_time ch + 18 * k < 2 ^ 256 \<and>
     (\<forall>i \<in> set (ms_pendingProposals (c_mulSig ch)). i < ms_proposalIDx (c_mulSig ch)) \<and>
     (\<forall>i \<ge> ms_proposalIDx (c_mulSig ch). pr_signatures (ms_proposals (c_mulSig ch) i) account \<noteq> 1)"

definition token_proposal :: "addr \<Rightarrow> token_info \<Rightarrow> nat \<Rightarrow> proposal \<Rightarrow> proposal" where
  "token_proposal s i c kk = kk\<lparr>pr_proposer := s, pr_token := ti_token i,
     pr_sourceERC20 := ti_sourceERC20 i, pr_sourceCrosschain := ti_sourceCrosschain i,
     pr_sourceChainId := ti_sourcechainid i, pr_targetERC20 := ti_targetERC20 i,
     pr_targetCrosschain := ti_targetCrosschain i, pr_targetChainId := ti_targetchainid i,
     pr_fee := ti_fee i, pr_chainId := c, pr_type := 6, pr_signatureCount := 0\<rparr>"

lemma ready_propose:
  assumes "ready E account (Suc k) ch"
  shows "MulSig_proposeToSetCrosschainToken (e_access E) ch account info c =
    Inr (set_mulSig ch (enqueued (c_mulSig ch) (token_proposal account info c
           (ms_proposals (c_mulSig ch) (ms_proposalIDx (c_mulSig ch))))),
         [SetCrosschainTokenProposed (ms_proposalIDx (c_mulSig ch)) account (ti_token info)])"
  using assms
  by (simp add: MulSig_proposeToSetCrosschainToken_def manager_passes is_manager_def ready_def
      new_proposal_run token_proposal_def)

text \<open>The chain after the proposal, ten seconds and the signature.\<close>

definition token_proposed :: "addr \<Rightarrow> token_info \<Rightarrow> nat \<Rightarrow> 'ac chain \<Rightarrow> 'ac chain" where
  "token_proposed s info c ch = set_mulSig ch (enqueued (c_mulSig ch) (token_proposal s info c
     (ms_proposals (c_mulSig ch) (ms_proposalIDx (c_mulSig ch)))))"

definition later :: "nat \<Rightarrow> 'ac chain \<Rightarrow> 'ac chain" where
  "later n ch = ch\<lparr>c_time := c_time ch + n\<rparr>"

definition last_signed :: "'ac oz_access \<Rightarrow> addr \<Rightarrow> nat \<Rightarrow> 'ac chain \<Rightarrow> 'ac chain" where
  "last_signed A s i ch = set_mulSig ch ((c_mulSig ch)\<lparr>ms_proposals := (ms_proposals (c_mulSig ch))
     (i := signed A ch s (ms_proposals (c_mulSig ch) i))\<rparr>)"

lemma token_proposal_fields [simp]:
  "pr_signatureCount (token_proposal s info c p) = 0" "pr_signatures (token_proposal s info c p) = pr_signatures p"
  "stored_action (token_proposal s info c p) = Some (Token info c)"
  by (simp_all add: token_proposal_def stored_action_def proposal_info_def)

lemma later_fields [simp]:
  "c_mulSig (later n ch) = c_mulSig ch" "c_time (later n ch) = c_time ch + n" "c_roles (later n ch) = c_roles ch"
  "c_rolesAt (later n ch) = c_rolesAt ch" "c_governance (later n ch) = c_governance ch"
  "c_governanceAt (later n ch) = c_governanceAt ch" "c_tokens (later n ch) = c_tokens ch"
  "c_tokensAt (later n ch) = c_tokensAt ch" "c_mulSigAt (later n ch) = c_mulSigAt ch"
  by (simp_all add: later_def)

lemma ready_sign:
  assumes "ready E account (Suc k) ch" and i: "i = ms_proposalIDx (c_mulSig ch)"
    and "ch1 = later 10 (token_proposed account info c ch)"
  shows "MulSig_signTransaction (e_access E) ch1 account i =
    Inr (last_signed (e_access E) account i ch1, [ProposalSigned i account])"
  using assms
  by (simp add: signTransaction_Inr_iff last_signed_def can_sign_def is_manager_def needed_def ready_def
      token_proposed_def enqueued_def)

lemma ready_execute:
  assumes r: "ready E account (Suc k) ch" and "ti_token info \<noteq> ''''"
    and i: "i = ms_proposalIDx (c_mulSig ch)"
    and ch2: "ch2 = later 8 (last_signed (e_access E) account i (later 10 (token_proposed account info c ch)))"
  shows "\<exists>ch3. MulSig_executeProposal (e_access E) ch2 account i = Inr (ch3, [ProposalExecuted i]) \<and>
    ready E account k ch3 \<and> c_mulSigAt ch3 = c_mulSigAt ch \<and> c_rolesAt ch3 = c_rolesAt ch \<and>
    c_tokensAt ch3 = c_tokensAt ch \<and>
    ms_pendingProposals (c_mulSig ch3) = ms_pendingProposals (c_mulSig ch) \<and>
    ms_proposalIDx (c_mulSig ch3) = ms_proposalIDx (c_mulSig ch) + 1 \<and>
    CrosschainTokens_getCrosschainTokenByChainId (c_tokens ch3) (ti_token info) c = info"
proof -
  let ?p = "signed (e_access E) (later 10 (token_proposed account info c ch)) account
    (token_proposal account info c (ms_proposals (c_mulSig ch) i))"
  have p: "ms_proposals (c_mulSig ch2) i = ?p"
    by (simp add: ch2 last_signed_def token_proposed_def enqueued_def i)
  have a: "stored_action ?p = Some (Token info c)" by simp
  have "pr_excuteTime ?p \<le> c_time ch2"
    using r by (simp add: ch2 signed_def Let_def token_proposed_def last_signed_def enqueued_def ready_def
        needed_def)
  moreover obtain t where t: "CrosschainTokens_setCrosschainToken (c_tokens ch) (c_mulSigAt ch) info c = Inr t"
    using r assms(2) by (simp add: CrosschainTokens_setCrosschainToken_def ready_def require_def)
  have set: "ct_mulSig t = ct_mulSig (c_tokens ch)"
    using t by (auto simp: CrosschainTokens_setCrosschainToken_def ebind_Inr_iff)
  have at: "c_mulSigAt ch2 = c_mulSigAt ch" "c_tokensAt ch2 = c_tokensAt ch" "c_tokens ch2 = c_tokens ch"
    "ms_crosschainTokens (c_mulSig ch2) = ms_crosschainTokens (c_mulSig ch)"
    by (simp_all add: ch2 last_signed_def token_proposed_def enqueued_def)
  have "execute_effect (e_access E) ch2 ?p = Inr (ch2\<lparr>c_tokens := t\<rparr>)"
    using r t token_stored [OF a]
    by (simp add: execute_effect_def execute_crosschainToken_def at ready_def tokens_at_def require_def)
  moreover have "is_manager (e_access E) ch2 account" "is_manager (e_access E) (ch2\<lparr>c_tokens := t\<rparr>) account"
    using r by (simp_all add: is_manager_def ready_def ch2 last_signed_def token_proposed_def enqueued_def)
  ultimately have run: "MulSig_executeProposal (e_access E) ch2 account i =
      Inr (set_mulSig (ch2\<lparr>c_tokens := t\<rparr>) (remove_proposal (c_mulSig ch2) i), [ProposalExecuted i])"
    unfolding executeProposal_Inr_iff p by blast
  let ?m = "remove_proposal (c_mulSig ch2) i"
  have i_new: "i \<notin> set (ms_pendingProposals (c_mulSig ch))"
    using r i by (auto simp: ready_def)
  have m: "ms_pendingProposals ?m = ms_pendingProposals (c_mulSig ch)"
    "ms_proposalIDx ?m = ms_proposalIDx (c_mulSig ch) + 1"
    "ms_roles ?m = ms_roles (c_mulSig ch)" "ms_governance ?m = ms_governance (c_mulSig ch)"
    "ms_crosschainTokens ?m = ms_crosschainTokens (c_mulSig ch)"
    "ms_confirmDuration ?m = ms_confirmDuration (c_mulSig ch)"
    "j \<noteq> i \<Longrightarrow> ms_proposals ?m j = ms_proposals (c_mulSig ch) j" for j
    using i_new i
    by (simp_all add: ch2 last_signed_def token_proposed_def enqueued_def remove_proposal_def remove1_append)
  have w: "c_roles ch2 = c_roles ch" "c_rolesAt ch2 = c_rolesAt ch" "c_governance ch2 = c_governance ch"
    "c_governanceAt ch2 = c_governanceAt ch" "c_time ch2 = c_time ch + 18"
    by (simp_all add: ch2 last_signed_def token_proposed_def)
  have "ready E account k (set_mulSig (ch2\<lparr>c_tokens := t\<rparr>) ?m)"
    using r unfolding ready_def i [symmetric]
    by (auto simp del: remove_proposal_simps simp add: m [unfolded i] w at set i)
  then show ?thesis
    unfolding run by (simp del: remove_proposal_simps add: m w at setCrosschainToken_get [OF t])
qed



text \<open>One mapping on such a deployment, and then all of them.\<close>

lemma propose_runs:
  assumes fine: "\<And>t. e_fault E t = Fine" and r: "ready E account (Suc k) (w_chain w)"
    and info: "encodeToken E p = Inr info" and name: "tp_token p \<noteq> ''''"
    and at: "c_mulSigAt (w_chain w) = mulSig" "c_rolesAt (w_chain w) = roles" "c_tokensAt (w_chain w) = tokens"
  shows "\<exists>w'. proposeCrosschainToken E account mulSig roles tokens FOUNDATION_MANAGER (Some account) p w = (Ok (), w') \<and>
    ready E account k (w_chain w') \<and> c_mulSigAt (w_chain w') = mulSig \<and> c_rolesAt (w_chain w') = roles \<and>
    c_tokensAt (w_chain w') = tokens"
proof -
  let ?ch = "w_chain w" and ?A = "e_access E"
  let ?i = "ms_proposalIDx (c_mulSig ?ch)"
  let ?ch1 = "token_proposed account info (tp_chainId p) ?ch"
  let ?ch2 = "last_signed ?A account ?i (later 10 ?ch1)"
  have t: "ti_token info = tp_token p" by (rule encodeToken_name [OF info])
  obtain ch3 where ch3: "MulSig_executeProposal ?A (later 8 ?ch2) account ?i = Inr (ch3, [ProposalExecuted ?i])"
      "ready E account k ch3" "c_mulSigAt ch3 = mulSig" "c_rolesAt ch3 = roles" "c_tokensAt ch3 = tokens"
      "CrosschainTokens_getCrosschainTokenByChainId (c_tokens ch3) (tp_token p) (tp_chainId p) = info"
    using ready_execute [OF r _ refl refl, of info "tp_chainId p"] name by (auto simp: t at)
  have ms: "MulSig_hasAlreadySigned (c_mulSig ?ch1) ?i account = False"
    "c_mulSigAt ?ch1 = mulSig" "c_mulSigAt ?ch2 = mulSig" "c_rolesAt ?ch1 = roles" "c_roles ?ch1 = c_roles ?ch"
    "MulSig_getPendingProposals ?A (later 10 ?ch1) account = Inr (ms_pendingProposals (c_mulSig ?ch) @ [?i])"
    using r
    by (simp_all add: token_proposed_def last_signed_def enqueued_def at MulSig_hasAlreadySigned_def ready_def
        MulSig_getPendingProposals_def manager_passes is_manager_def)
  have adv: "w_chain (advance n u) = later n (w_chain u)" for n and u :: "('a, 'b) world"
    by (simp add: advance_def later_def)
  have ex: "w_chain u = ?ch \<Longrightarrow> exec_tx E u account mulSig (MulSigCall (ProposeToSetCrosschainToken info (tp_chainId p))) =
      Inr (u\<lparr>w_chain := ?ch1\<rparr>, [SetCrosschainTokenProposed ?i account (ti_token info)])"
    "w_chain u = later 10 ?ch1 \<Longrightarrow> exec_tx E u account mulSig (MulSigCall (SignTransaction ?i)) =
      Inr (u\<lparr>w_chain := ?ch2\<rparr>, [ProposalSigned ?i account])"
    "w_chain u = later 8 ?ch2 \<Longrightarrow> exec_tx E u account mulSig (MulSigCall (ExecuteProposal ?i)) =
      Inr (u\<lparr>w_chain := ch3\<rparr>, [ProposalExecuted ?i])" for u
    using ready_propose [OF r, of info "tp_chainId p"] ready_sign [OF r refl refl, of info "tp_chainId p"] ch3(1)
    by (simp_all add: exec_tx_def exec_chain_def at ms) (simp add: token_proposed_def)
  have role: "hasRole ?A (r_access (c_roles ?ch)) FOUNDATION_MANAGER account"
    "roleMembers ?A (r_access (c_roles ?ch)) FOUNDATION_MANAGER = [account]"
    using r by (simp_all add: ready_def)
  show ?thesis
    by (rule runD)
      (simp add: proposeCrosschainToken_def submitProposal_def signForManager_def executeAndVerify_def
        run_world view_defs at_defs Let_def sendAs_def fine info ex adv ms role ch3 at t name cong: if_cong)
qed


lemma proposals_run:
  assumes fine: "\<And>t. e_fault E t = Fine"
    and ps: "\<forall>p \<in> set ps. tp_token p \<noteq> '''' \<and> (\<exists>info. encodeToken E p = Inr info)"
    and "ready E account (length ps + k) (w_chain w)"
    and "c_mulSigAt (w_chain w) = mulSig" "c_rolesAt (w_chain w) = roles" "c_tokensAt (w_chain w) = tokens"
  shows "\<exists>w'. forEach ps (proposeCrosschainToken E account mulSig roles tokens FOUNDATION_MANAGER (Some account)) w =
    (Ok (), w')"
  using ps assms(3-6)
proof (induction ps arbitrary: w)
  case (Cons p ps)
  from Cons.prems obtain info where "encodeToken E p = Inr info" "tp_token p \<noteq> ''''" by auto
  with propose_runs [OF fine _ this(1,2), of account "length ps + k" w mulSig roles tokens] Cons.prems
  obtain w1 where w1:
      "proposeCrosschainToken E account mulSig roles tokens FOUNDATION_MANAGER (Some account) p w = (Ok (), w1)"
      "ready E account (length ps + k) (w_chain w1)" "c_mulSigAt (w_chain w1) = mulSig"
      "c_rolesAt (w_chain w1) = roles" "c_tokensAt (w_chain w1) = tokens"
    by auto
  with Cons.IH [of w1] Cons.prems show ?case
    by (auto simp: bind_def)
qed simp

lemma crosschainParams_named: "p \<in> set (crosschainParams A) \<Longrightarrow> tp_token p \<noteq> ''''"
  by (cases "ad_sourceNetworkName A = ''treasurenet''") (auto simp: crosschainParams_def Let_def)

definition parses :: "('ac, 'px) env \<Rightarrow> string \<Rightarrow> bool" where
  "parses E s \<longleftrightarrow> (\<exists>a. e_parseAddress E s = Inr a)"

definition addresses_parse :: "('ac, 'px) env \<Rightarrow> addresses \<Rightarrow> bool" where
  "addresses_parse E A \<longleftrightarrow> (\<forall>s \<in> {ad_sourceChain A, ad_targetChain A}.
     parses E (sd_unit s) \<and> parses E (sd_bridge s) \<and> parses E (sd_tcash s))"

lemma addresses_encode:
  assumes "addresses_parse E A" and "p \<in> set (crosschainParams A)"
  shows "\<exists>info. encodeToken E p = Inr info"
  using assms by (auto simp: addresses_parse_def parses_def crosschainParams_def Let_def encodeToken_def)

lemma setup_runs:
  assumes fine: "\<And>t. e_fault E t = Fine" and "e_keyAccount E key = Inr account"
    and "e_parseAddress E (ad_mulSig A) = Inr (c_mulSigAt (w_chain w))"
    and "e_parseAddress E (ad_roles A) = Inr (c_rolesAt (w_chain w))"
    and "e_parseAddress E (ad_crosschainTokens A) = Inr (c_tokensAt (w_chain w))"
    and "addresses_parse E A" and "ready E account 4 (w_chain w)"
  shows "\<exists>w'. setupWith E key A w = (Ok (), w')"
proof -
  let ?w = "(tick w)\<lparr>w_log := w_log w @ [Line ''managers'' [JAddr account]]\<rparr>"
  have "length (crosschainParams A) = 4" by (simp add: crosschainParams_def Let_def)
  then obtain w' where "forEach (crosschainParams A) (proposeCrosschainToken E account (c_mulSigAt (w_chain w))
      (c_rolesAt (w_chain w)) (c_tokensAt (w_chain w)) FOUNDATION_MANAGER (Some account)) ?w = (Ok (), w')"
    using proposals_run [OF fine, of "crosschainParams A" account 0 ?w "c_mulSigAt (w_chain w)"
      "c_rolesAt (w_chain w)" "c_tokensAt (w_chain w)"] assms(6,7)
    by (auto simp: crosschainParams_named addresses_encode)
  moreover have "roleMembers (e_access E) (r_access (c_roles (w_chain w))) (Keccak ''FOUNDATION_MANAGER'') = [account]"
    using assms(7) by (simp add: ready_def role_defs)
  ultimately show ?thesis
    using assms(2-5) fine
    by (simp add: setupWith_def bind_def catch_def addrOf_def roles_view_def request_def roles_at_def
        say_def Let_def role_defs)
qed

text \<open>C30: With every request answered, one foundation manager whose key the script holds, contracts
  that refer to each other and a confirmation period of at most the eight seconds the script waits,
  \<open>setup-crosschain-tokens.js\<close> ends normally: it does not get stuck on a proposal, a signature or
  an execution.\<close>

theorem setup_succeeds:
  assumes "\<And>t. e_fault E t = Fine" and "e_keyAccount E key = Inr account"
    and "e_parseAddress E (ad_mulSig A) = Inr (c_mulSigAt (w_chain w))"
    and "e_parseAddress E (ad_roles A) = Inr (c_rolesAt (w_chain w))"
    and "e_parseAddress E (ad_crosschainTokens A) = Inr (c_tokensAt (w_chain w))"
    and "addresses_parse E A" and "ready E account 4 (w_chain w)"
  shows "\<exists>w'. setupWith E key A w = (Ok (), w')"
  by (rule setup_runs [OF assms])

text \<open>A configuration of the small deployment, whose only manager is the script's account.\<close>

definition solo_addresses :: addresses where
  "solo_addresses = \<lparr>ad_sourceNetworkName = ''treasurenet'', ad_sourceChainId = 6666,
     ad_sourceChain = \<lparr>sd_unit = ''0x1'', sd_bridge = ''0x2'', sd_tcash = ''0x3''\<rparr>,
     ad_targetChain = \<lparr>sd_unit = ''0x4'', sd_bridge = ''0x6'', sd_tcash = ''0xa''\<rparr>,
     ad_targetChainId = 6566, ad_mulSig = ''0x1'', ad_roles = ''0x2'', ad_crosschainTokens = ''0x4''\<rparr>"

definition solo_world :: "(acl, addr \<Rightarrow> addr) world" where
  "solo_world = demo_world (solo_chain\<lparr>c_mulSig := (c_mulSig solo_chain)\<lparr>ms_confirmDuration := 5\<rparr>\<rparr>)"

lemma solo_ready: "ready demo_env 10 4 (w_chain solo_world)"
  by (simp add: ready_def solo_world_def solo_access) (simp add: demo_chain_def)

lemma solo_parses: "addresses_parse demo_env solo_addresses"
  by (simp add: addresses_parse_def parses_def solo_addresses_def)

lemma setup_succeeds_witness: "\<exists>w'. setupWith demo_env ''key'' solo_addresses solo_world = (Ok (), w')"
  using setup_succeeds [of demo_env "''key''" 10 solo_addresses solo_world] solo_ready solo_parses
  by (simp add: solo_addresses_def solo_world_def)

lemma setup_stores_all_mappings_witness:
  "\<exists>w'. setupWith demo_env ''key'' solo_addresses solo_world = (Ok (), w') \<and>
     ti_targetERC20 (CrosschainTokens_getCrosschainTokenByChainId (c_tokens (w_chain w')) ''UNIT'' 6666) = 4"
proof -
  obtain w' where run: "setupWith demo_env ''key'' solo_addresses solo_world = (Ok (), w')"
    using setup_runs [of demo_env "''key''" 10 solo_addresses solo_world] solo_ready solo_parses
    by (auto simp: solo_addresses_def solo_world_def)
  let ?p = "crosschainParams solo_addresses ! 0"
  have "?p \<in> set (crosschainParams solo_addresses)" by (simp add: crosschainParams_def Let_def)
  from setup_stores_all_mappings [OF run this] run show ?thesis
    by (auto simp: crosschainParams_def Let_def encodeToken_def solo_addresses_def)
qed

end
