(* ===== verification/ProducerScripts.thy ===== *)
theory ProducerScripts
  imports DAppScripts
begin

text \<open>
  The three mainnet scripts for the producer contracts, in the order they are meant to be run:
  \<open>manual-upgrade-producers.js\<close> deploys new implementations, \<open>upgrade-via-proxyadmin.js\<close> points the
  proxies at them, and \<open>fix-mulsig-addresses.js\<close> sets the multisig address of every producer.
\<close>

section \<open>What the three scripts share\<close>

definition checkNetwork :: "('ac, 'px) env \<Rightarrow> ('ac, 'px, unit) script" where
  "checkNetwork E =
     catch (bind (getId E) (\<lambda>networkId.
            bind (getBlockNumber E) (\<lambda>blockNumber.
            bind (say ''connected'' [JNum networkId, JNum blockNumber]) (\<lambda>_.
            whenA (networkId \<noteq> 5570) (say ''unexpected-network'' [JNum networkId])))))
       (\<lambda>m. bind (say ''connection-failed'' [JStr m]) (\<lambda>_. process_exit 1))"

text \<open>The balance with its warning below \<open>m / 2 ^ k\<close> units.\<close>

definition checkBalance :: "('ac, 'px) env \<Rightarrow> addr \<Rightarrow> nat \<Rightarrow> nat \<Rightarrow> ('ac, 'px, unit) script" where
  "checkBalance E account m k =
     bind (getBalance E account) (\<lambda>balance.
     bind (say ''balance'' [JNum balance]) (\<lambda>_.
     whenA (balanceBelow m k balance) (say ''low-balance'' [JNum balance])))"

text \<open>One entry of the list of results.\<close>

datatype status = Success | Failed string | Skipped string

definition countStatus :: "(status \<Rightarrow> bool) \<Rightarrow> (string \<times> status) list \<Rightarrow> nat" where
  "countStatus P results = length (filter (\<lambda>r. P (snd r)) results)"

fun is_failed :: "status \<Rightarrow> bool" where
  "is_failed (Failed m) = True"
| "is_failed _ = False"

fun is_skipped :: "status \<Rightarrow> bool" where
  "is_skipped (Skipped m) = True"
| "is_skipped _ = False"

fun failure :: "status \<Rightarrow> string" where
  "failure (Failed m) = m"
| "failure _ = ''''"

section \<open>fix-mulsig-addresses.js\<close>

text \<open>The roles address is a literal of the script body.\<close>

record fix_config =
  fx_mulSig :: string
  fx_governance :: string
  fx_manager :: string
  fx_privateKey :: string
  fx_roles :: string

definition fix_shipped :: fix_config where
  "fix_shipped = \<lparr>fx_mulSig = ''0x2c188Cf07c4370F6461066827bd1c6A856ab9B70'',
     fx_governance = ''0xc69bd55C22664cF319698984211FeD155403C066'',
     fx_manager = ''0x7ec62bc5062fa1d94f27775d211a3585ca4048ae'', fx_privateKey = '''',
     fx_roles = ''0x6916BC198C8A1aD890Ad941947231D424Bfae682''\<rparr>"

definition treasureKinds :: "string list" where
  "treasureKinds = [''OIL'', ''GAS'', ''ETH'', ''BTC'']"

text \<open>\<open>a.toLowerCase() === b.toLowerCase()\<close> for an address read from the node and one of the configuration.\<close>

definition sameAddress :: "('ac, 'px) env \<Rightarrow> addr \<Rightarrow> string \<Rightarrow> bool" where
  "sameAddress E a s \<longleftrightarrow> toLowerCase (e_toChecksum E a) = toLowerCase s"

definition currentMulSig :: "('ac, 'px) env \<Rightarrow> addr \<Rightarrow> ('ac, 'px, addr option) script" where
  "currentMulSig E producer =
     catch (bind (producer_view E producer (\<lambda>p. Inr (Producer_getMulSigContract p))) (\<lambda>a.
            bind (say ''current'' [JAddr a]) (\<lambda>_. ret (Some a))))
       (\<lambda>m. bind (say ''no-current'' [JStr m]) (\<lambda>_. ret None))"

text \<open>Estimating, sending and waiting.\<close>

definition setMulSig ::
    "('ac, 'px) env \<Rightarrow> fix_config \<Rightarrow> addr \<Rightarrow> addr \<Rightarrow> addr \<Rightarrow> ('ac, 'px, unit) script" where
  "setMulSig E C account manager producer =
     bind (addrOf E (fx_mulSig C)) (\<lambda>target.
     bind (estimateGas E manager producer (SetMulSigContract target)) (\<lambda>gasEstimate.
     bind (getGasPrice E) (\<lambda>gasPrice.
     bind (say ''gas'' [JNum gasEstimate, JNum (floor_mul dbl_1_3 gasEstimate), JNum gasPrice]) (\<lambda>_.
     bind (sendAs E account manager producer (SetMulSigContract target)) (\<lambda>_.
     bind (say ''set'' []) (\<lambda>_.
     sleep 15))))))"

text \<open>From the producer's address on.\<close>

definition fixProducer ::
    "('ac, 'px) env \<Rightarrow> fix_config \<Rightarrow> addr \<Rightarrow> addr \<Rightarrow> string \<Rightarrow> addr \<Rightarrow> ('ac, 'px, string \<times> status) script"
  where
  "fixProducer E C account manager kind producer =
     bind (say ''producer'' [JAddr producer]) (\<lambda>_.
     bind (currentMulSig E producer) (\<lambda>current.
     case current of
       None \<Rightarrow> ret (kind, Failed ''Contract not upgraded'')
     | Some a \<Rightarrow>
         if sameAddress E a (fx_mulSig C) then
           bind (say ''already-correct'' []) (\<lambda>_. ret (kind, Skipped ''Already correct''))
         else
           bind (setMulSig E C account manager producer) (\<lambda>_. ret (kind, Success))))"

definition fixKind ::
    "('ac, 'px) env \<Rightarrow> fix_config \<Rightarrow> addr \<Rightarrow> addr \<Rightarrow> addr \<Rightarrow> string \<Rightarrow> ('ac, 'px, string \<times> status) script"
  where
  "fixKind E C account manager governance kind =
     bind (say ''handling'' [JStr kind]) (\<lambda>_.
     catch (bind (governance_view E governance (\<lambda>_ g. Governance_getTreasureByKind g kind)) (\<lambda>(producer, _).
            if producer = 0 then
              bind (say ''no-producer'' [JStr kind]) (\<lambda>_. ret (kind, Skipped ''Producer not found''))
            else fixProducer E C account manager kind producer))
       (\<lambda>m. bind (say ''set-failed'' [JStr m]) (\<lambda>_. ret (kind, Failed m))))"

definition verifyKind :: "('ac, 'px) env \<Rightarrow> fix_config \<Rightarrow> addr \<Rightarrow> string \<Rightarrow> ('ac, 'px, unit) script" where
  "verifyKind E C governance kind =
     bind (say ''verifying'' [JStr kind]) (\<lambda>_.
     catch (bind (governance_view E governance (\<lambda>_ g. Governance_getTreasureByKind g kind)) (\<lambda>(producer, _).
            if producer = 0 then say ''no-producer'' [JStr kind]
            else
              bind (producer_view E producer (\<lambda>p. Inr (Producer_getMulSigContract p))) (\<lambda>a.
              bind (say ''current'' [JAddr a]) (\<lambda>_.
              if sameAddress E a (fx_mulSig C) then say ''correct'' []
              else say ''incorrect'' [JStr (fx_mulSig C), JAddr a]))))
       (\<lambda>m. say ''verification-failed'' [JStr m]))"

text \<open>The three counts and the list of every class.\<close>

definition fixSummary :: "(string \<times> status) list \<Rightarrow> ('ac, 'px, unit) script" where
  "fixSummary results =
     bind (say ''counts'' [JNum (countStatus (\<lambda>s. s = Success) results), JNum (countStatus is_failed results),
             JNum (countStatus is_skipped results)]) (\<lambda>_.
     bind (forEach (filter (\<lambda>r. snd r = Success) results) (\<lambda>(kind, _). say ''fixed'' [JStr kind])) (\<lambda>_.
     bind (forEach (filter (\<lambda>r. is_failed (snd r)) results)
             (\<lambda>(kind, s). say ''failed'' [JStr kind, JStr (failure s)])) (\<lambda>_.
     bind (whenA (0 < countStatus (\<lambda>s. s = Success) results) (say ''fix-completed'' [])) (\<lambda>_.
     say ''done'' []))))"

text \<open>Steps 3 and 4.\<close>

definition fixAll ::
    "('ac, 'px) env \<Rightarrow> fix_config \<Rightarrow> addr \<Rightarrow> addr \<Rightarrow> addr \<Rightarrow> ('ac, 'px, unit) script" where
  "fixAll E C account manager governance =
     bind (mapA treasureKinds (fixKind E C account manager governance)) (\<lambda>results.
     bind (forEach treasureKinds (verifyKind E C governance)) (\<lambda>_.
     fixSummary results))"

definition fixMulSigAddresses :: "('ac, 'px) env \<Rightarrow> fix_config \<Rightarrow> ('ac, 'px, unit) script" where
  "fixMulSigAddresses E C =
     catch (bind (say ''start'' [JStr (fx_mulSig C), JStr (fx_manager C)]) (\<lambda>_.
            if fx_manager C = '''' \<or> fx_privateKey C = '''' then
              bind (say ''missing-configuration'' []) (\<lambda>_. process_exit 1)
            else
              bind (lift_err (e_keyAccount E (fx_privateKey C))) (\<lambda>account.
              bind (checkNetwork E) (\<lambda>_.
              bind (addrOf E (fx_manager C)) (\<lambda>manager.
              bind (checkBalance E manager 7205759403792794 57) (\<lambda>_.
              bind (loadContractABI E ''Governance'') (\<lambda>_.
              bind (loadContractABI E ''Producer'') (\<lambda>_.
              bind (addrOf E (fx_governance C)) (\<lambda>governance.
              bind (loadContractABI E ''Roles'') (\<lambda>_.
              bind (addrOf E (fx_roles C)) (\<lambda>roles.
              bind (roles_view E roles (\<lambda>_. Inr FOUNDATION_MANAGER)) (\<lambda>fm.
              bind (roles_view E roles (\<lambda>r. Inr (hasRole (e_access E) (r_access r) fm manager))) (\<lambda>hasPermission.
              if \<not> hasPermission then
                throw (''Address '' @ fx_manager C @ '' does not have FOUNDATION_MANAGER role'')
              else bind (say ''permission'' []) (\<lambda>_. fixAll E C account manager governance))))))))))))))
       (\<lambda>m. bind (say ''fix-failed'' [JStr m]) (\<lambda>_. process_exit 1))"

section \<open>upgrade-via-proxyadmin.js\<close>

text \<open>One entry of \<open>UPGRADES\<close>: the two marks the script sets on it are results of the steps here.\<close>

record upgrade_entry =
  ue_kind :: string
  ue_proxy :: string
  ue_newImplementation :: string

record upgrade_config =
  uc_proxyAdmin :: string
  uc_manager :: string
  uc_privateKey :: string
  uc_upgrades :: "upgrade_entry list"

definition upgrade_shipped :: upgrade_config where
  "upgrade_shipped = \<lparr>uc_proxyAdmin = ''0xb6281f28a463c4d7f6b022609a9f7bfeabd86323'',
     uc_manager = ''0xd6cAdb2E5150e4114e5E321CE195db209f1882ac'', uc_privateKey = '''',
     uc_upgrades =
      [\<lparr>ue_kind = ''OIL'', ue_proxy = ''0x05DbA5c8a040ee706e22ddBEAc2887998B2b149d'',
         ue_newImplementation = ''0x5d840312eE45680022A4C371fb72a93a31EA47CD''\<rparr>,
       \<lparr>ue_kind = ''GAS'', ue_proxy = ''0x470B0196f597DF699057599D436f7E259688BCd9'',
         ue_newImplementation = ''0x0E767DDE97547c43fe4E1831bf905EA2C6cf58FF''\<rparr>,
       \<lparr>ue_kind = ''ETH'', ue_proxy = ''0x4693c13eF898c50596072db86E420495C1680643'',
         ue_newImplementation = ''0xe0eA5259BABD288F86a68a3cCBF7E2D999B2711c''\<rparr>,
       \<lparr>ue_kind = ''BTC'', ue_proxy = ''0xDDD221b4Dca0E7d1CE876893316A3c8beD3d5f40'',
         ue_newImplementation = ''0xBB6ABcCb5807B75076A48eBDED80F3427eB449Bc''\<rparr>]\<rparr>"

definition mainnetMulSig :: string where
  "mainnetMulSig = ''0x2c188Cf07c4370F6461066827bd1c6A856ab9B70''"

text \<open>Step 2 only reports.\<close>

definition checkOwner :: "('ac, 'px) env \<Rightarrow> upgrade_config \<Rightarrow> addr \<Rightarrow> ('ac, 'px, unit) script" where
  "checkOwner E C admin =
     catch (bind (proxyAdmin_owner E admin) (\<lambda>own.
            bind (say ''owner'' [JAddr own]) (\<lambda>_.
            if sameAddress E own (uc_manager C) then say ''is-owner'' []
            else say ''not-owner'' [JStr (uc_manager C), JAddr own])))
       (\<lambda>m. say ''no-owner'' [JStr m])"

definition needsUpgrade :: "('ac, 'px) env \<Rightarrow> addr \<Rightarrow> upgrade_entry \<Rightarrow> ('ac, 'px, bool) script" where
  "needsUpgrade E admin u =
     bind (say ''entry'' [JStr (ue_kind u), JStr (ue_proxy u), JStr (ue_newImplementation u)]) (\<lambda>_.
     catch (bind (addrOf E (ue_proxy u)) (\<lambda>proxy.
            bind (getProxyImplementation E admin proxy) (\<lambda>impl.
            bind (say ''implementation'' [JAddr impl]) (\<lambda>_.
            if sameAddress E impl (ue_newImplementation u) then
              bind (say ''latest'' []) (\<lambda>_. ret False)
            else bind (say ''needs-upgrade'' []) (\<lambda>_. ret True)))))
       (\<lambda>m. bind (say ''no-implementation'' [JStr m]) (\<lambda>_. ret True)))"

definition upgradeEntry ::
    "('ac, 'px) env \<Rightarrow> addr \<Rightarrow> addr \<Rightarrow> addr \<Rightarrow> upgrade_entry \<times> bool \<Rightarrow> ('ac, 'px, string \<times> status) script"
  where
  "upgradeEntry E account manager admin = (\<lambda>(u, needed).
     if \<not> needed then
       bind (say ''skipping'' [JStr (ue_kind u)]) (\<lambda>_. ret (ue_kind u, Skipped ''Already up to date''))
     else
       bind (say ''upgrading'' [JStr (ue_kind u)]) (\<lambda>_.
       catch (bind (addrOf E (ue_proxy u)) (\<lambda>proxy.
              bind (addrOf E (ue_newImplementation u)) (\<lambda>impl.
              bind (estimateGas E manager admin (ProxyUpgrade proxy impl)) (\<lambda>gasEstimate.
              bind (getGasPrice E) (\<lambda>gasPrice.
              bind (say ''gas'' [JNum gasEstimate, JNum (floor_mul dbl_1_5 gasEstimate), JNum gasPrice]) (\<lambda>_.
              bind (sendAs E account manager admin (ProxyUpgrade proxy impl)) (\<lambda>_.
              bind (say ''upgraded'' []) (\<lambda>_.
              bind (sleep 30) (\<lambda>_. ret (ue_kind u, Success))))))))))
         (\<lambda>m. bind (say ''upgrade-failed'' [JStr m]) (\<lambda>_. ret (ue_kind u, Failed m)))))"

definition contractName :: "string \<Rightarrow> string" where
  "contractName kind = (if kind = ''OIL'' then ''OilProducer'' else if kind = ''GAS'' then ''GasProducer''
     else if kind = ''ETH'' then ''EthProducer'' else ''BtcProducer'')"

text \<open>Whether the new function works, with the messages of both handlers.\<close>

definition functionWorking :: "('ac, 'px) env \<Rightarrow> addr \<Rightarrow> addr \<Rightarrow> upgrade_entry \<Rightarrow> ('ac, 'px, bool) script" where
  "functionWorking E manager admin u =
     bind (say ''verifying'' [JStr (ue_kind u)]) (\<lambda>_.
     catch (bind (addrOf E (ue_proxy u)) (\<lambda>proxy.
            bind (getProxyImplementation E admin proxy) (\<lambda>impl.
            bind (say ''implementation'' [JAddr impl]) (\<lambda>_.
            if sameAddress E impl (ue_newImplementation u) then
              bind (say ''correct'' []) (\<lambda>_.
              catch (bind (loadContractABI E (contractName (ue_kind u))) (\<lambda>_.
                     bind (addrOf E mainnetMulSig) (\<lambda>target.
                     bind (estimateGas E manager proxy (SetMulSigContract target)) (\<lambda>gasEstimate.
                     bind (say ''function-works'' [JNum gasEstimate]) (\<lambda>_. ret True)))))
                (\<lambda>m. bind (say ''function-failed'' [JStr m]) (\<lambda>_. ret False)))
            else bind (say ''mismatch'' []) (\<lambda>_. ret False)))))
       (\<lambda>m. bind (say ''verification-failed'' [JStr m]) (\<lambda>_. ret False)))"

text \<open>The summary looks the mark up by the kind of the result.\<close>

definition upgradeSummary ::
    "(string \<times> status) list \<Rightarrow> (string \<times> bool) list \<Rightarrow> ('ac, 'px, unit) script" where
  "upgradeSummary results working =
     bind (say ''counts'' [JNum (countStatus (\<lambda>s. s = Success) results), JNum (countStatus is_failed results),
             JNum (countStatus is_skipped results)]) (\<lambda>_.
     bind (forEach (filter (\<lambda>r. snd r = Success) results)
             (\<lambda>(kind, _). say ''success'' [JStr kind, JBool (map_of working kind = Some True)])) (\<lambda>_.
     bind (forEach (filter (\<lambda>r. is_failed (snd r)) results)
             (\<lambda>(kind, s). say ''failed'' [JStr kind, JStr (failure s)])) (\<lambda>_.
     bind (if filter snd working = [] then say ''still-unavailable'' [] else say ''can-set-mulsig'' []) (\<lambda>_.
     say ''done'' []))))"

text \<open>Steps 3 to 5.\<close>

definition upgradeAll :: "('ac, 'px) env \<Rightarrow> upgrade_config \<Rightarrow> addr \<Rightarrow> addr \<Rightarrow> addr \<Rightarrow> ('ac, 'px, unit) script"
  where
  "upgradeAll E C account manager admin =
     bind (mapA (uc_upgrades C) (needsUpgrade E admin)) (\<lambda>needed.
     bind (getId E) (\<lambda>networkId.
     bind (say ''confirm'' [JNum networkId, JStr (uc_manager C), JStr (uc_proxyAdmin C)]) (\<lambda>_.
     bind (mapA (zip (uc_upgrades C) needed) (upgradeEntry E account manager admin)) (\<lambda>results.
     bind (mapA (uc_upgrades C) (functionWorking E manager admin)) (\<lambda>working.
     upgradeSummary results (zip (map ue_kind (uc_upgrades C)) working))))))"

definition upgradeViaProxyAdmin :: "('ac, 'px) env \<Rightarrow> upgrade_config \<Rightarrow> ('ac, 'px, unit) script" where
  "upgradeViaProxyAdmin E C =
     catch (bind (say ''start'' [JStr (uc_proxyAdmin C), JStr (uc_manager C)]) (\<lambda>_.
            if uc_proxyAdmin C = '''' then bind (say ''missing-admin'' []) (\<lambda>_. process_exit 1)
            else if uc_manager C = '''' \<or> uc_privateKey C = '''' then
              bind (say ''missing-configuration'' []) (\<lambda>_. process_exit 1)
            else
              let missing = filter (\<lambda>u. ue_newImplementation u = '''') (uc_upgrades C) in
              if missing \<noteq> [] then
                bind (forEach missing (\<lambda>u. say ''missing-implementation'' [JStr (ue_kind u)])) (\<lambda>_. process_exit 1)
              else
                bind (lift_err (e_keyAccount E (uc_privateKey C))) (\<lambda>account.
                bind (checkNetwork E) (\<lambda>_.
                bind (addrOf E (uc_manager C)) (\<lambda>manager.
                bind (checkBalance E manager 7205759403792794 56) (\<lambda>_.
                bind (addrOf E (uc_proxyAdmin C)) (\<lambda>admin.
                bind (checkOwner E C admin) (\<lambda>_.
                upgradeAll E C account manager admin))))))))
       (\<lambda>m. bind (say ''upgrade-aborted'' [JStr m]) (\<lambda>_. process_exit 1))"

section \<open>manual-upgrade-producers.js\<close>

record manual_config =
  mc_manager :: string
  mc_privateKey :: string
  mc_producers :: "(string \<times> string) list"

definition manual_shipped :: manual_config where
  "manual_shipped = \<lparr>mc_manager = ''0x7ec62bc5062fa1d94f27775d211a3585ca4048ae'', mc_privateKey = '''',
     mc_producers = [(''OIL'', ''0x05DbA5c8a040ee706e22ddBEAc2887998B2b149d''),
       (''GAS'', ''0x470B0196f597DF699057599D436f7E259688BCd9''),
       (''ETH'', ''0x4693c13eF898c50596072db86E420495C1680643''),
       (''BTC'', ''0xDDD221b4Dca0E7d1CE876893316A3c8beD3d5f40'')]\<rparr>"

text \<open>Step 2 reports; its list of results is never read.\<close>

definition reportImplementation :: "('ac, 'px) env \<Rightarrow> string \<times> string \<Rightarrow> ('ac, 'px, unit) script" where
  "reportImplementation E = (\<lambda>(kind, proxyAddress).
     bind (say ''producer'' [JStr kind, JStr proxyAddress]) (\<lambda>_.
     catch (bind (addrOf E proxyAddress) (\<lambda>proxy.
            bind (getCode E proxy) (\<lambda>code.
            if code = ''0x'' then throw (''No contract found at proxy address '' @ proxyAddress)
            else
              bind (getStorageAt E proxy implementationSlot) (\<lambda>word.
              say ''implementation'' [JStr (''0x'' @ slice_last 40 word)]))))
       (\<lambda>m. say ''check-failed'' [JStr m])))"

text \<open>Step 3: the address of the new implementation, or \<open>null\<close> when anything on the way failed.\<close>

definition deployKind ::
    "('ac, 'px) env \<Rightarrow> addr \<Rightarrow> addr \<Rightarrow> string \<Rightarrow> ('ac, 'px, string \<times> addr option) script" where
  "deployKind E account manager kind =
     bind (say ''deploying'' [JStr kind]) (\<lambda>_.
     catch (bind (loadContractABI E (contractName kind)) (\<lambda>_.
            bind (say ''loading'' [JStr (contractName kind)]) (\<lambda>_.
            bind (estimateDeploy E manager (contractName kind)) (\<lambda>gasEstimate.
            bind (getGasPrice E) (\<lambda>gasPrice.
            bind (say ''gas'' [JNum gasEstimate, JNum (floor_mul dbl_1_5 gasEstimate), JNum gasPrice]) (\<lambda>_.
            bind (deployContract E account manager (contractName kind)) (\<lambda>implementation.
            bind (say ''deployed'' [JAddr implementation]) (\<lambda>_.
            bind (deployReceipt E) (\<lambda>receipt.
            case receipt of
              None \<Rightarrow> throw ''Cannot read properties of null (reading 'gasUsed')''
            | Some gasUsed \<Rightarrow>
                bind (say ''gas-used'' [JNum gasUsed]) (\<lambda>_.
                bind (sleep 30) (\<lambda>_. ret (kind, Some implementation))))))))))))
       (\<lambda>m. bind (say ''deployment-failed'' [JStr m]) (\<lambda>_. ret (kind, None))))"

definition verifyDeployment ::
    "('ac, 'px) env \<Rightarrow> string \<times> addr option \<Rightarrow> ('ac, 'px, unit) script" where
  "verifyDeployment E = (\<lambda>(kind, implementation).
     case implementation of
       None \<Rightarrow> say ''not-deployed'' [JStr kind]
     | Some a \<Rightarrow>
         bind (say ''implementation-of'' [JStr kind, JAddr a]) (\<lambda>_.
         bind (getCode E a) (\<lambda>code.
         if 10 < length code then say ''code-verified'' [] else say ''code-missing'' [])))"

definition manualSummary :: "manual_config \<Rightarrow> (string \<times> addr option) list \<Rightarrow> ('ac, 'px, unit) script" where
  "manualSummary C deployed =
     (let successful = filter (\<lambda>d. snd d \<noteq> None) deployed in
      bind (say ''counts'' [JNum (length successful), JNum (length deployed - length successful)]) (\<lambda>_.
      bind (whenA (0 < length successful)
             (bind (forEach successful (\<lambda>(kind, a). say ''new-implementation'' [JStr kind, JAddr (the a)])) (\<lambda>_.
              forEach successful (\<lambda>(kind, a). say ''template''
                [JStr kind, (case map_of (mc_producers C) kind of None \<Rightarrow> JUndef | Some p \<Rightarrow> JStr p), JAddr (the a)]))))
        (\<lambda>_. say ''done'' [])))"

definition deployAll :: "('ac, 'px) env \<Rightarrow> manual_config \<Rightarrow> addr \<Rightarrow> addr \<Rightarrow> ('ac, 'px, unit) script" where
  "deployAll E C account manager =
     bind (forEach (mc_producers C) (reportImplementation E)) (\<lambda>_.
     bind (mapA (map fst (mc_producers C)) (deployKind E account manager)) (\<lambda>deployed.
     bind (forEach deployed (verifyDeployment E)) (\<lambda>_.
     manualSummary C deployed)))"

definition manualUpgrade :: "('ac, 'px) env \<Rightarrow> manual_config \<Rightarrow> ('ac, 'px, unit) script" where
  "manualUpgrade E C =
     catch (bind (say ''start'' [JStr (mc_manager C)]) (\<lambda>_.
            if mc_manager C = '''' \<or> mc_privateKey C = '''' then
              bind (say ''missing-configuration'' []) (\<lambda>_. process_exit 1)
            else
              bind (lift_err (e_keyAccount E (mc_privateKey C))) (\<lambda>account.
              bind (checkNetwork E) (\<lambda>_.
              bind (addrOf E (mc_manager C)) (\<lambda>manager.
              bind (checkBalance E manager 9007199254740992 54) (\<lambda>_.
              deployAll E C account manager))))))
       (\<lambda>m. bind (say ''deployment-aborted'' [JStr m]) (\<lambda>_. process_exit 1))"


section \<open>What a fixed producer is\<close>

text \<open>The producer registered for a kind refers to the target.\<close>

definition points :: "string \<Rightarrow> addr \<Rightarrow> 'ac chain \<Rightarrow> bool" where
  "points kind target ch \<longleftrightarrow> (\<exists>p d st. Governance_getTreasureByKind (c_governance ch) kind = Inr (p, d) \<and>
     c_producers ch p = Some st \<and> Producer_getMulSigContract st = target)"

lemma setMulSigContract_Inr:
  "Producer_setMulSigContract A R st s a = Inr st' \<Longrightarrow> st' = st\<lparr>p_mulSig := a\<rparr> \<and> a \<noteq> 0"
  by (auto simp: Producer_setMulSigContract_def ebind_Inr_iff)

lemma set_keeps_points: "call_keeps E (points kind a) c_governance from to (SetMulSigContract a)"
  unfolding call_keeps_def exec_chain_def points_def
  by (fastforce simp: ebind_Inr_iff Producer_getMulSigContract_def dest: setMulSigContract_Inr
      split: option.splits if_splits)

lemma silent_option: "\<lbrakk>keeps (silent k) a; \<And>x. keeps (silent k) (b x)\<rbrakk> \<Longrightarrow>
    keeps (silent k) (case p of None \<Rightarrow> a | Some x \<Rightarrow> b x)"
  by (cases p) simp_all

lemma cf_option: "\<lbrakk>keeps (chain_frame P f) a; \<And>x. keeps (chain_frame P f) (b x)\<rbrakk> \<Longrightarrow>
    keeps (chain_frame P f) (case p of None \<Rightarrow> a | Some x \<Rightarrow> b x)"
  by (cases p) simp_all

lemma points_sleep: "keeps (chain_frame (points kind a) c_governance) (sleep n)"
  by (simp add: keeps_def chain_frame_def sleep_def advance_def points_def)

lemma fixKind_keeps:
  assumes "e_parseAddress E (fx_mulSig C) = Inr target"
  shows "keeps (chain_frame (points kind target) c_governance) (fixKind E C account manager governance k)"
  unfolding fixKind_def fixProducer_def currentMulSig_def setMulSig_def addrOf_def assms lift_err_simps bind_ret
  by (intro cf_option cf_intros set_keeps_points points_sleep)

lemma fixKind_sets:
  assumes "e_parseAddress E (fx_mulSig C) = Inr target"
  shows "wlp (fixKind E C account manager governance kind)
    (\<lambda>r w'. fst r = kind \<and> (snd r = Success \<longrightarrow> points kind target (w_chain w'))) w"
  unfolding fixKind_def fixProducer_def currentMulSig_def setMulSig_def sendAs_def
  by (auto simp: wlp_catch wlp_world assms exec_tx_def exec_chain_def ebind_Inr_iff points_def advance_def
      Producer_getMulSigContract_def dest!: setMulSigContract_Inr split: option.splits if_splits)


lemma forEach_say:
  "forEach xs (\<lambda>x. say (f x) (g x)) w = (Ok (), w\<lparr>w_log := w_log w @ map (\<lambda>x. Line (f x) (g x)) xs\<rparr>)"
  by (induction xs arbitrary: w) (simp_all add: bind_def say_def)

lemma fixAll_results:
  fixes E :: "('a, 'b) env"
  assumes "e_parseAddress E (fx_mulSig C) = Inr target"
  shows "wlp (mapA ks (fixKind E C account manager governance)) (\<lambda>rs w'. map fst rs = ks \<and>
    (\<forall>k. (k, Success) \<in> set rs \<longrightarrow> points k target (w_chain w'))) w"
proof (induction ks arbitrary: w)
  case Nil
  show ?case by (simp only: mapA.simps wlp_simps(1)) simp
next
  case (Cons k ks)
  let ?Q = "\<lambda>r rs w'. map fst rs = ks \<and> (\<forall>k. (k, Success) \<in> set rs \<longrightarrow> points k target (w_chain w')) \<and>
    (snd r = Success \<longrightarrow> points k target (w_chain w'))"
  have rest: "wlp (mapA ks (fixKind E C account manager governance)) (?Q r) u"
    if "snd r = Success \<longrightarrow> points k target (w_chain u)" for r :: "string \<times> status" and u
    unfolding wlp_iff
  proof (intro allI impI)
    fix rs w' assume run: "mapA ks (fixKind E C account manager governance) u = (Ok rs, w')"
    have "keeps (chain_frame (points k target) c_governance) (mapA ks (fixKind E C account manager governance))"
      by (intro cf.keeps_mapA fixKind_keeps assms)
    from keepsD [OF this run] that wlpD [OF Cons.IH run] show "?Q r rs w'"
      by (auto simp: chain_frame_def)
  qed
  show ?case
    unfolding mapA.simps wlp_simps(4) [of "fixKind E C account manager governance k"]
  proof (rule wlp_mono [OF fixKind_sets [OF assms]])
    fix r and u :: "('a, 'b) world"
    assume r: "fst r = k \<and> (snd r = Success \<longrightarrow> points k target (w_chain u))"
    show "wlp (bind (mapA ks (fixKind E C account manager governance)) (\<lambda>rs. ret (r # rs)))
        (\<lambda>rs w'. map fst rs = k # ks \<and> (\<forall>k. (k, Success) \<in> set rs \<longrightarrow> points k target (w_chain w'))) u"
      unfolding wlp_simps(4)
      by (rule wlp_mono [OF rest [of r]]) (use r in \<open>auto simp: wlp_iff split_beta\<close>)
  qed
qed

lemma silent_checks:
  "keeps (silent ''fixed'') (checkNetwork E)" "keeps (silent ''fixed'') (checkBalance E a m n)"
  "keeps (silent ''fixed'') (verifyKind E C governance kind)"
  "keeps (silent ''fixed'') (fixKind E C account manager governance kind)"
  unfolding checkNetwork_def checkBalance_def verifyKind_def fixKind_def fixProducer_def currentMulSig_def setMulSig_def
  by ((intro silent_option silent_intros; simp)+)[4]

lemma wlp_forEach_say:
  "wlp (forEach xs (\<lambda>x. say (f x) (g x))) P w \<longleftrightarrow> P () (w\<lparr>w_log := w_log w @ map (\<lambda>x. Line (f x) (g x)) xs\<rparr>)"
  by (simp add: wlp_iff forEach_say)

lemma fixSummary_lines:
  "wlp (fixSummary rs) (\<lambda>_ w'. Line ''fixed'' [JStr k] \<in> set (w_log w') \<longrightarrow>
     Line ''fixed'' [JStr k] \<in> set (w_log w) \<or> (k, Success) \<in> set rs) w"
  unfolding fixSummary_def split_beta
  by (auto simp: wlp_simps wlp_say wlp_forEach_say)


lemma wlp_with_frame: "keeps R m \<Longrightarrow> wlp m Q w \<Longrightarrow> wlp m (\<lambda>x w'. Q x w' \<and> R w w') w"
  by (auto simp: wlp_iff dest: keepsD)

lemma ro_verifyKind: "keeps read_only (verifyKind E C governance kind)"
  unfolding verifyKind_def by (intro ro_intros)

lemma ro_fixSummary: "keeps read_only (fixSummary rs)"
  unfolding fixSummary_def by (intro ro_intros)

lemma points_read_only: "read_only w w' \<Longrightarrow> points k a (w_chain w') \<longleftrightarrow> points k a (w_chain w)"
  by (simp add: read_only_def)

lemma fixAll_fixes:
  assumes "e_parseAddress E (fx_mulSig C) = Inr target" and "noline ''fixed'' w"
  shows "wlp (fixAll E C account manager governance)
    (\<lambda>_ w'. Line ''fixed'' [JStr k] \<in> set (w_log w') \<longrightarrow> points k target (w_chain w')) w"
proof -
  have one: "wlp (mapA treasureKinds (fixKind E C account manager governance))
      (\<lambda>rs u. ((k, Success) \<in> set rs \<longrightarrow> points k target (w_chain u)) \<and> noline ''fixed'' u) w"
    by (rule wlp_mono [OF wlp_with_frame [OF _ fixAll_results [OF assms(1)], where R = "silent ''fixed''"]])
      (use assms(2) in \<open>auto intro!: quiet.keeps_mapA silent_checks simp: silent_def\<close>)
  have two: "wlp (forEach treasureKinds (verifyKind E C governance))
      (\<lambda>_ u. ((k, Success) \<in> set rs \<longrightarrow> points k target (w_chain u)) \<and> noline ''fixed'' u) v"
    if "((k, Success) \<in> set rs \<longrightarrow> points k target (w_chain v)) \<and> noline ''fixed'' v" for rs v
    by (rule wlp_mono [OF wlp_with_frame [OF _ wlp_keeps, where R = "silent ''fixed''" and R1 = read_only,
          where Q = "\<lambda>_. read_only v"]])
      (use that in \<open>auto intro!: quiet.keeps_forEach ro.keeps_forEach silent_checks ro_verifyKind
        simp: silent_def points_read_only\<close>)
  have three: "wlp (fixSummary rs) (\<lambda>_ u. Line ''fixed'' [JStr k] \<in> set (w_log u) \<longrightarrow> points k target (w_chain u)) v"
    if "((k, Success) \<in> set rs \<longrightarrow> points k target (w_chain v)) \<and> noline ''fixed'' v" for rs v
    by (rule wlp_mono [OF wlp_with_frame [OF ro_fixSummary fixSummary_lines]])
      (use that in \<open>auto simp: points_read_only\<close>)
  show ?thesis
    unfolding fixAll_def wlp_simps(4) [of "mapA treasureKinds (fixKind E C account manager governance)"]
      wlp_simps(4) [of "forEach treasureKinds (verifyKind E C governance)"]
    by (rule wlp_mono [OF one], rule wlp_mono [OF two], assumption, rule three)
qed

text \<open>When \<open>fix-mulsig-addresses.js\<close> ends normally and lists a kind as fixed, the producer that
  governance registers for that kind refers to the configured multisig, whatever requests were lost
  and whatever the script did for the other kinds.\<close>

theorem fix_success:
  assumes "e_parseAddress E (fx_mulSig C) = Inr target" and "w_log w = []"
    and "fixMulSigAddresses E C w = (Ok (), w')" and "Line ''fixed'' [JStr k] \<in> set (w_log w')"
  shows "\<exists>p d st. Governance_getTreasureByKind (c_governance (w_chain w')) k = Inr (p, d) \<and>
    c_producers (w_chain w') p = Some st \<and> Producer_getMulSigContract st = target"
proof -
  note step = wlp_silent [where k = "''fixed''"]
  have "wlp (fixMulSigAddresses E C)
      (\<lambda>_ w'. Line ''fixed'' [JStr k] \<in> set (w_log w') \<longrightarrow> points k target (w_chain w')) w"
    unfolding fixMulSigAddresses_def wlp_catch
    apply (rule conjI)
     apply (rule step, intro silent_intros, simp, simp add: assms(2))
     apply (subst wlp_simps(6), split if_split, intro conjI impI, simp add: wlp_simps wlp_say)
     apply (rule step, (intro silent_intros silent_checks; simp)?, assumption)+
     apply (subst wlp_simps(6), split if_split, intro conjI impI, simp add: wlp_simps)
     apply (rule step, intro silent_intros, simp, assumption)
     apply (rule fixAll_fixes [OF assms(1)], assumption)
    apply (simp add: wlp_simps wlp_say)
    done
  then show ?thesis
    using assms(3,4) by (auto dest: wlpD simp: points_def)
qed


section \<open>A repaired deployment stays as it is\<close>

lemma ro_currentMulSig: "keeps read_only (currentMulSig E p)"
  unfolding currentMulSig_def by (intro ro_intros)

lemma currentMulSig_Some:
  assumes "currentMulSig E p w = (Ok (Some a), w')"
  shows "\<exists>st. c_producers (w_chain w) p = Some st \<and> a = Producer_getMulSigContract st"
proof -
  have "wlp (currentMulSig E p) (\<lambda>x _. \<forall>a. x = Some a \<longrightarrow>
      (\<exists>st. c_producers (w_chain w) p = Some st \<and> a = Producer_getMulSigContract st)) w"
    unfolding currentMulSig_def by (auto simp: wlp_catch wlp_world)
  from wlpD [OF this assms] show ?thesis by blast
qed

text \<open>Nothing is left to do for a kind: it is not registered, or its producer refers to the target.\<close>

definition settled :: "string \<Rightarrow> addr \<Rightarrow> 'ac chain \<Rightarrow> bool" where
  "settled kind target ch \<longleftrightarrow> (\<forall>p d. Governance_getTreasureByKind (c_governance ch) kind = Inr (p, d) \<longrightarrow>
     (\<exists>st. c_producers ch p = Some st \<and> Producer_getMulSigContract st = target))"

lemma fixProducer_idle:
  assumes "c_producers (w_chain w) p = Some st" "Producer_getMulSigContract st = target"
    and "sameAddress E target (fx_mulSig C)"
  shows "read_only w (snd (fixProducer E C account manager kind p w))"
  unfolding fixProducer_def
proof (intro ro_then [OF ro_say] ro_then [OF ro_currentMulSig])
  fix w1 w2 current
  assume "read_only w w1" "currentMulSig E p w1 = (Ok current, w2)"
  then have "current = Some a \<Longrightarrow> a = target" for a
    using currentMulSig_Some [of E p w1 a w2] assms(1,2) by (auto simp: read_only_def)
  then show "read_only w2 (snd ((case current of
      None \<Rightarrow> ret (kind, Failed ''Contract not upgraded'')
    | Some a \<Rightarrow>
        if sameAddress E a (fx_mulSig C) then
          bind (say ''already-correct'' []) (\<lambda>_. ret (kind, Skipped ''Already correct''))
        else bind (setMulSig E C account manager p) (\<lambda>_. ret (kind, Success))) w2))"
    using assms(3) by (cases current) (auto simp: bind_def say_def read_only_def)
qed

lemma fixKind_idle:
  assumes "settled kind target (w_chain w)" and "sameAddress E target (fx_mulSig C)"
  shows "read_only w (snd (fixKind E C account manager governance kind w))"
  unfolding fixKind_def
proof (intro ro_then [OF ro_say] ro_catch_at ro_then [OF ro_views(7)])
  fix v w1 :: "('a, 'b) world" and x
  assume v: "read_only w w1" and
    g: "governance_view E governance (\<lambda>_ g. Governance_getTreasureByKind g kind) w1 = (Ok x, v)" "read_only w1 v"
  obtain p d where x: "x = (p, d)" by (cases x)
  have reg: "Governance_getTreasureByKind (c_governance (w_chain w)) kind = Inr (p, d)"
    using g v by (auto simp: x governance_view_def request_Ok_iff ebind_Inr_iff governance_at_def read_only_def
        split: if_splits)
  then obtain st where st: "c_producers (w_chain v) p = Some st" "Producer_getMulSigContract st = target"
    using assms(1) v g(2) by (auto simp: settled_def read_only_def)
  show "read_only v (snd ((case x of (producer, _) \<Rightarrow>
      if producer = 0 then bind (say ''no-producer'' [JStr kind]) (\<lambda>_. ret (kind, Skipped ''Producer not found''))
      else fixProducer E C account manager kind producer) v))"
    using fixProducer_idle [OF st assms(2)] getTreasureByKind_nonzero [OF reg] by (simp add: x)
qed (auto intro!: ro_intros)


text \<open>Doing nothing while the chain satisfies \<open>P\<close>.\<close>

definition idle :: "('ac chain \<Rightarrow> bool) \<Rightarrow> ('ac, 'px) world \<Rightarrow> ('ac, 'px) world \<Rightarrow> bool" where
  "idle P w w' \<longleftrightarrow> (P (w_chain w) \<longrightarrow> read_only w w')"

interpretation idl: frame_rel "idle P" for P
  by unfold_locales (auto simp: idle_def read_only_def)

lemma idle_read: "keeps read_only m \<Longrightarrow> keeps (idle P) m"
  by (simp add: keeps_def idle_def)

lemma idle_option: "\<lbrakk>keeps (idle P) a; \<And>x. keeps (idle P) (b x)\<rbrakk> \<Longrightarrow>
    keeps (idle P) (case p of None \<Rightarrow> a | Some x \<Rightarrow> b x)"
  by (cases p) simp_all

lemmas idle_reads = ro_request [THEN idle_read] ro_kms [THEN idle_read] ro_say [THEN idle_read]
  ro_loadContractABI [THEN idle_read] ro_views [THEN idle_read] ro_node [THEN idle_read]

lemmas idle_intros = idl.keeps_intros idle_reads

abbreviation all_settled :: "addr \<Rightarrow> 'ac chain \<Rightarrow> bool" where
  "all_settled target ch \<equiv> \<forall>k \<in> set treasureKinds. settled k target ch"

lemma fix_idle:
  assumes "sameAddress E target (fx_mulSig C)"
  shows "keeps (idle (all_settled target)) (fixMulSigAddresses E C)"
proof -
  have "keeps (idle (all_settled target)) (fixKind E C account manager governance k)"
    if "k \<in> set treasureKinds" for account manager governance k
    using that fixKind_idle [OF _ assms] by (auto simp: keeps_def idle_def)
  then have all: "keeps (idle (all_settled target)) (fixAll E C account manager governance)"
    for account manager governance
    unfolding fixAll_def
    by (intro idl.keeps_bind idl.keeps_mapA idl.keeps_forEach ro_fixSummary [THEN idle_read]
        ro_verifyKind [THEN idle_read])
  show ?thesis
    unfolding fixMulSigAddresses_def checkNetwork_def checkBalance_def
    by (intro idle_intros all)
qed

text \<open>On a deployment where every treasure kind is either not registered or has a producer that
  refers to the configured multisig already, \<open>fix-mulsig-addresses.js\<close> submits nothing and leaves the
  chain as it is, whatever requests are lost: running it twice is safe.\<close>

theorem fix_second_run_idle:
  assumes "sameAddress E target (fx_mulSig C)"
    and "\<forall>k \<in> set treasureKinds. \<forall>p d. Governance_getTreasureByKind (c_governance (w_chain w)) k = Inr (p, d) \<longrightarrow>
      (\<exists>st. c_producers (w_chain w) p = Some st \<and> Producer_getMulSigContract st = target)"
    and "fixMulSigAddresses E C w = (r, w')"
  shows "w_txs w' = w_txs w \<and> w_chain w' = w_chain w \<and> w_proxies w' = w_proxies w"
  using keepsD [OF fix_idle [OF assms(1)] assms(3)] assms(2)
  by (auto simp: idle_def settled_def read_only_def)

section \<open>A run with every request answered repairs everything\<close>

text \<open>The manager may set the multisig of every producer that is registered for one of the kinds.\<close>

definition repairable :: "('ac, 'px) env \<Rightarrow> addr \<Rightarrow> 'ac chain \<Rightarrow> bool" where
  "repairable E manager ch \<longleftrightarrow> (\<forall>k p d. Governance_getTreasureByKind (c_governance ch) k = Inr (p, d) \<longrightarrow>
     (\<exists>st. c_producers ch p = Some st \<and> p_roles st = c_rolesAt ch)) \<and>
     hasRole (e_access E) (r_access (c_roles ch)) FOUNDATION_MANAGER manager"

lemma fixKind_total:
  assumes fine: "\<And>t. e_fault E t = Fine" and target: "e_parseAddress E (fx_mulSig C) = Inr target" "target \<noteq> 0"
    and same: "\<And>a. sameAddress E a (fx_mulSig C) \<longleftrightarrow> a = target"
    and r: "repairable E manager (w_chain w)" and g: "c_governanceAt (w_chain w) = governance"
  shows "\<exists>s w'. fixKind E C manager manager governance kind w = (Ok (kind, s), w') \<and>
    repairable E manager (w_chain w') \<and> c_governanceAt (w_chain w') = governance \<and>
    settled kind target (w_chain w')"
proof -
  let ?P = "\<lambda>w'. repairable E manager (w_chain w') \<and> c_governanceAt (w_chain w') = governance \<and>
    settled kind target (w_chain w')"
  have "\<exists>s. run (fixKind E C manager manager governance kind) (\<lambda>r w'. r = Ok (kind, s) \<and> ?P w') w"
  proof (cases "Governance_getTreasureByKind (c_governance (w_chain w)) kind")
    case (Inl e)
    then show ?thesis
      using g r by (simp add: fixKind_def run_world view_defs fine governance_at_def settled_def)
  next
    case (Inr x)
    then obtain p d st where x: "x = (p, d)" "p \<noteq> 0" "c_producers (w_chain w) p = Some st"
        "p_roles st = c_rolesAt (w_chain w)"
      using r getTreasureByKind_nonzero by (cases x) (unfold repairable_def, blast)
    let ?ch = "(w_chain w)\<lparr>c_producers := (c_producers (w_chain w))(p \<mapsto> st\<lparr>p_mulSig := target\<rparr>)\<rparr>"
    have "Producer_setMulSigContract (e_access E) (roles_at (w_chain w)) st manager target = Inr (st\<lparr>p_mulSig := target\<rparr>)"
      using r target x by (simp add: Producer_setMulSigContract_def roles_at_def repairable_def require_def)
    then have ex: "w_chain v = w_chain w \<Longrightarrow>
        exec_tx E v manager p (SetMulSigContract target) = Inr (v\<lparr>w_chain := ?ch\<rparr>, [])" for v
      using x by (simp add: exec_tx_def exec_chain_def)
    have after: "repairable E manager (?ch\<lparr>c_time := n\<rparr>)" "settled kind target (?ch\<lparr>c_time := n\<rparr>)" for n
      using r Inr x by (auto simp: repairable_def settled_def Producer_getMulSigContract_def)
    note defs = fixKind_def fixProducer_def currentMulSig_def setMulSig_def run_world view_defs fine
      governance_at_def producer_at_def Producer_getMulSigContract_def advance_def sendAs_def Let_def
    show ?thesis
    proof (cases "p_mulSig st = target")
      case True
      with Inr x g r same show ?thesis
        by (intro exI [of _ "Skipped ''Already correct''"])
          (simp add: defs, simp add: settled_def Producer_getMulSigContract_def)
    next
      case False
      with Inr x g same target ex after show ?thesis
        by (intro exI [of _ Success]) (simp add: defs)
    qed
  qed
  then obtain s where "run (fixKind E C manager manager governance kind) (\<lambda>r w'. r = Ok (kind, s) \<and> ?P w') w" ..
  from runD [OF this] show ?thesis by (rule exI)
qed


lemma set_keeps_settled: "call_keeps E (settled kind a) (\<lambda>_. ()) from to (SetMulSigContract a)"
  unfolding call_keeps_def exec_chain_def settled_def
  by (auto simp: ebind_Inr_iff Producer_getMulSigContract_def dest!: setMulSigContract_Inr
      split: option.splits if_splits)

lemma settled_sleep: "keeps (chain_frame (settled kind a) f) (sleep n)"
  if "\<And>ch t. f (ch\<lparr>c_time := t\<rparr>) = f ch"
  using that by (simp add: keeps_def chain_frame_def sleep_def advance_def settled_def)

lemma fixKind_keeps_settled:
  assumes "e_parseAddress E (fx_mulSig C) = Inr target"
  shows "keeps (chain_frame (settled kind target) (\<lambda>_. ())) (fixKind E C account manager governance k)"
  unfolding fixKind_def fixProducer_def currentMulSig_def setMulSig_def addrOf_def assms lift_err_simps bind_ret
  by (intro cf_option cf_intros set_keeps_settled settled_sleep) simp

lemma fixKinds_settle:
  fixes E :: "('a, 'b) env"
  assumes fine: "\<And>t. e_fault E t = Fine" and target: "e_parseAddress E (fx_mulSig C) = Inr target" "target \<noteq> 0"
    and same: "\<And>a. sameAddress E a (fx_mulSig C) \<longleftrightarrow> a = target"
    and "repairable E manager (w_chain w)" and "c_governanceAt (w_chain w) = governance"
  shows "wlp (mapA ks (fixKind E C manager manager governance)) (\<lambda>_ w'. \<forall>k \<in> set ks. settled k target (w_chain w')) w"
  using assms(5,6)
proof (induction ks arbitrary: w)
  case Nil
  show ?case by (simp add: wlp_iff)
next
  case (Cons k ks)
  let ?m = "mapA ks (fixKind E C manager manager governance)"
  obtain s w1 where w1: "fixKind E C manager manager governance k w = (Ok (k, s), w1)"
      "repairable E manager (w_chain w1)" "c_governanceAt (w_chain w1) = governance" "settled k target (w_chain w1)"
    using fixKind_total [OF fine target same Cons.prems] by blast
  have "keeps (chain_frame (settled k target) (\<lambda>_. ())) ?m"
    by (intro cf.keeps_mapA fixKind_keeps_settled target)
  from wlp_with_frame [OF this Cons.IH [OF w1(2,3)]] w1(1,4) show ?case
    by (auto simp: wlp_iff bind_def chain_frame_def split: prod.splits outcome.splits)
qed

lemma fixAll_ends: "\<exists>w'. fixAll E C account manager governance w = (Ok (), w')"
proof -
  have "exits_in {} (fixKind E C account manager governance k)" "no_throw (fixKind E C account manager governance k)"
    "exits_in {} (verifyKind E C governance k)" "no_throw (verifyKind E C governance k)" for k
    unfolding fixKind_def fixProducer_def currentMulSig_def setMulSig_def verifyKind_def
    by (auto intro!: exits_intros exits_sendAs split: option.split)
  then have "exits_in {} (fixAll E C account manager governance)" "no_throw (fixAll E C account manager governance)"
    unfolding fixAll_def fixSummary_def
    by (auto intro!: exits_intros no_throw_intros no_throw_mapA no_throw_forEach)
  then show ?thesis
    by (cases "fixAll E C account manager governance w"; cases "fst (fixAll E C account manager governance w)")
      (auto simp: exits_in_def no_throw_def)
qed

text \<open>The checks before the loop let a complete configuration through.\<close>

lemma fix_reaches:
  assumes "\<And>t. e_fault E t = Fine" and "\<And>n. e_loadABI E n = Inr ()"
    and "fx_privateKey C \<noteq> ''''" and "e_keyAccount E (fx_privateKey C) = Inr manager"
    and "fx_manager C \<noteq> ''''" and "e_parseAddress E (fx_manager C) = Inr manager"
    and "e_parseAddress E (fx_governance C) = Inr (c_governanceAt (w_chain w))"
    and "e_parseAddress E (fx_roles C) = Inr (c_rolesAt (w_chain w))"
    and "hasRole (e_access E) (r_access (c_roles (w_chain w))) FOUNDATION_MANAGER manager"
    and all: "\<And>v. w_chain v = w_chain w \<Longrightarrow> run (fixAll E C manager manager (c_governanceAt (w_chain w)))
      (\<lambda>r w'. r = Ok () \<and> P w') v"
  shows "\<exists>w'. fixMulSigAddresses E C w = (Ok (), w') \<and> P w'"
  by (rule runD, unfold fixMulSigAddresses_def checkNetwork_def checkBalance_def)
    (simp add: run_world view_defs node_defs loadContractABI_def at_defs assms(1-9) run_Pair,
      auto simp: run_iff all [unfolded run_iff])

lemma fixAll_run: "wlp (fixAll E C account manager governance) (\<lambda>_. P) w \<Longrightarrow>
    run (fixAll E C account manager governance) (\<lambda>r w'. r = Ok () \<and> P w') w"
  using fixAll_ends [of E C account manager governance w] by (auto simp: run_iff wlp_iff)

text \<open>C31: With every request answered and a manager who may act on the producers of the kinds \<open>OIL\<close>, \<open>GAS\<close>, \<open>ETH\<close>
  and \<open>BTC\<close> that are registered in governance, \<open>fix-mulsig-addresses.js\<close> ends normally, and afterwards the producer of
  each of these four kinds that is registered refers to the configured multisig. Producers of other kinds, which
  governance can register too, are not visited.\<close>

theorem fix_repairs_all:
  assumes "\<And>t. e_fault E t = Fine" and "\<And>n. e_loadABI E n = Inr ()"
    and "fx_privateKey C \<noteq> ''''" and "e_keyAccount E (fx_privateKey C) = Inr manager"
    and "fx_manager C \<noteq> ''''" and "e_parseAddress E (fx_manager C) = Inr manager"
    and "e_parseAddress E (fx_governance C) = Inr (c_governanceAt (w_chain w))"
    and "e_parseAddress E (fx_roles C) = Inr (c_rolesAt (w_chain w))"
    and "e_parseAddress E (fx_mulSig C) = Inr target" and "target \<noteq> 0"
    and "\<And>a. sameAddress E a (fx_mulSig C) \<longleftrightarrow> a = target"
    and "repairable E manager (w_chain w)"
  shows "\<exists>w'. fixMulSigAddresses E C w = (Ok (), w') \<and>
    (\<forall>k \<in> {''OIL'', ''GAS'', ''ETH'', ''BTC''}. \<forall>p d. Governance_getTreasureByKind (c_governance (w_chain w')) k = Inr (p, d) \<longrightarrow>
      (\<exists>st. c_producers (w_chain w') p = Some st \<and> Producer_getMulSigContract st = target))"
proof -
  let ?gov = "c_governanceAt (w_chain w)"
  have settle: "wlp (fixAll E C manager manager ?gov) (\<lambda>_ w'. all_settled target (w_chain w')) v"
    if v: "w_chain v = w_chain w" for v
  proof -
    have "wlp (mapA treasureKinds (fixKind E C manager manager ?gov)) (\<lambda>_ w'. all_settled target (w_chain w')) v"
      using fixKinds_settle [OF assms(1,9-11), of manager v] assms(12) v by simp
    moreover have "keeps read_only (bind (forEach treasureKinds (verifyKind E C ?gov)) (\<lambda>_. fixSummary rs))" for rs
      by (intro ro_intros ro_verifyKind ro_fixSummary)
    then have "wlp (bind (forEach treasureKinds (verifyKind E C ?gov)) (\<lambda>_. fixSummary rs))
        (\<lambda>_ w'. all_settled target (w_chain w')) u" if "all_settled target (w_chain u)" for rs u
      by (rule wlp_keeps) (use that in \<open>simp add: read_only_def\<close>)
    ultimately show ?thesis
      unfolding fixAll_def wlp_simps(4) [of "mapA treasureKinds (fixKind E C manager manager ?gov)"]
      by (rule wlp_mono)
  qed
  have "hasRole (e_access E) (r_access (c_roles (w_chain w))) FOUNDATION_MANAGER manager"
    using assms(12) by (simp add: repairable_def)
  then have "\<exists>w'. fixMulSigAddresses E C w = (Ok (), w') \<and> all_settled target (w_chain w')"
    by (intro fix_reaches [OF assms(1-8)] fixAll_run settle)
  then show ?thesis
    by (simp only: settled_def treasureKinds_def list.set)
qed


text \<open>The witnesses run on the deployment with one manager, whose producer is moved to another multisig.\<close>

lemma lower_hexDigit: "n < 16 \<Longrightarrow> lower_char (hexDigit n) = hexDigit n"
  by (auto simp: lower_char_def hexDigit_def Let_def)

lemma lower_toHexString: "toLowerCase (toHexString bs) = toHexString bs"
  by (induction bs) (simp_all add: toLowerCase_def byteHex_def lower_hexDigit)

lemma lower_checksum: "toLowerCase (demo_checksum a) = demo_checksum a"
  using lower_toHexString by (simp add: demo_checksum_def toLowerCase_def lower_char_def)

lemma checksum_inject: "demo_checksum a = demo_checksum b \<longleftrightarrow> a = b"
proof
  assume "demo_checksum a = demo_checksum b"
  then have "be_fixed 20 (unat a) = be_fixed 20 (unat b)"
    unfolding demo_checksum_def by (metis append_same_eq bufferFromHex_toHexString same_append_eq)
  then have "be_nat (be_fixed 20 (unat a)) = be_nat (be_fixed 20 (unat b))" by simp
  then show "a = b"
    using unsigned_less [of a, where 'a = nat] unsigned_less [of b, where 'a = nat]
    by (auto intro: unsigned_word_eqI)
qed simp

lemma demo_same: "sameAddress demo_env a (demo_checksum b) \<longleftrightarrow> a = b"
  by (simp add: sameAddress_def lower_checksum checksum_inject)

lemma demo_parse_checksum: "demo_parse (demo_checksum a) = Inr a"
proof -
  have "be_fixed 20 (unat a) \<noteq> []"
    using length_be_fixed [of 20 "unat a"] by fastforce
  then have "bigIntHex (toHexString (be_fixed 20 (unat a))) = Inr (be_nat (be_fixed 20 (unat a)))"
    by simp
  then show ?thesis
    using unsigned_less [of a, where 'a = nat] by (simp add: demo_parse_def demo_checksum_def)
qed

definition demo_fix :: fix_config where
  "demo_fix = \<lparr>fx_mulSig = demo_checksum 3, fx_governance = ''0x3'', fx_manager = ''0xa'',
     fx_privateKey = ''key'', fx_roles = ''0x2''\<rparr>"

lemma solo_repairable: "repairable demo_env 10 solo_chain"
  by (auto simp: repairable_def solo_access getTreasureByKind_Inr_iff demo_chain_def no_treasure_def
      demo_producer_def split: if_splits)

definition solo_moved :: "acl chain" where
  "solo_moved = solo_chain\<lparr>c_producers := (\<lambda>_. None)(6 \<mapsto> demo_producer\<lparr>p_mulSig := 3\<rparr>), c_time := 1015\<rparr>"

lemma solo_registered:
  "Governance_getTreasureByKind (c_governance demo_chain) k =
     (if k = ''OIL'' then Inr (6, 7) else Inl ''treasure not found'')"
  by (simp add: getTreasureByKind_eq demo_chain_def no_treasure_def)

lemma solo_set: "w_chain v = solo_chain \<Longrightarrow> exec_tx demo_env v 10 6 (SetMulSigContract 3) =
    Inr (v\<lparr>w_chain := solo_moved\<lparr>c_time := 1000\<rparr>\<rparr>, [])"
  by (simp add: exec_tx_def exec_chain_def Producer_setMulSigContract_def roles_at_def solo_access require_def
      solo_moved_def demo_producer_def)

lemma solo_moved_fields [simp]:
  "c_governanceAt solo_moved = 3" "c_governance solo_moved = c_governance demo_chain"
  "c_producers solo_moved = (\<lambda>_. None)(6 \<mapsto> demo_producer\<lparr>p_mulSig := 3\<rparr>)"
  by (simp_all add: solo_moved_def)

lemma solo_later: "solo_moved\<lparr>c_time := 1015\<rparr> = solo_moved"
  by (simp add: solo_moved_def)

lemma solo_fix_kind:
  assumes "w_chain w = (if kind = ''OIL'' then solo_chain else solo_moved)"
  shows "run (fixKind demo_env demo_fix 10 10 3 kind) (\<lambda>r w'. w_chain w' = solo_moved \<and>
    (\<exists>m. r = Ok (kind, if kind = ''OIL'' then Success else Failed m))) w"
  using assms
  by (simp add: fixKind_def fixProducer_def currentMulSig_def setMulSig_def demo_fix_def demo_parse_checksum solo_later
      demo_same solo_registered solo_set run_world view_defs at_defs Let_def sendAs_def
      Producer_getMulSigContract_def demo_producer_def advance_def)

lemma fixSummary_prints: "(k, Success) \<in> set rs \<Longrightarrow>
    wlp (fixSummary rs) (\<lambda>_ w'. Line ''fixed'' [JStr k] \<in> set (w_log w')) w"
  unfolding fixSummary_def split_beta
  by (auto simp: wlp_simps wlp_say wlp_forEach_say image_iff)

lemma solo_fix_all:
  assumes "w_chain w = solo_chain"
  shows "wlp (fixAll demo_env demo_fix 10 10 3) (\<lambda>_ w'. Line ''fixed'' [JStr ''OIL''] \<in> set (w_log w')) w"
proof -
  obtain u where "fixKind demo_env demo_fix 10 10 3 ''OIL'' w = (Ok (''OIL'', Success), u)"
    using solo_fix_kind [of w "''OIL''"] assms
    by (cases "fixKind demo_env demo_fix 10 10 3 ''OIL'' w") (auto simp: run_iff)
  then have "wlp (mapA treasureKinds (fixKind demo_env demo_fix 10 10 3)) (\<lambda>rs _. (''OIL'', Success) \<in> set rs) w"
    by (auto simp: treasureKinds_def wlp_iff bind_Ok_iff)
  then show ?thesis
    unfolding fixAll_def wlp_simps(4) [of "mapA treasureKinds (fixKind demo_env demo_fix 10 10 3)"]
    by (rule wlp_mono) (auto simp: wlp_simps intro!: wlp_mono [OF wlp_True] fixSummary_prints)
qed

lemma demo_fix_runs:
  "\<exists>w'. fixMulSigAddresses demo_env demo_fix (demo_world solo_chain) = (Ok (), w') \<and>
     Line ''fixed'' [JStr ''OIL''] \<in> set (w_log w')"
  by (rule fix_reaches [where manager = 10])
    (simp_all add: solo_access fixAll_run [OF solo_fix_all], simp_all add: demo_fix_def)

lemma fix_success_witness:
  "\<exists>w' p d st. fixMulSigAddresses demo_env demo_fix (demo_world solo_chain) = (Ok (), w') \<and>
     Governance_getTreasureByKind (c_governance (w_chain w')) ''OIL'' = Inr (p, d) \<and>
     c_producers (w_chain w') p = Some st \<and> Producer_getMulSigContract st = 3"
proof -
  obtain w' where w': "fixMulSigAddresses demo_env demo_fix (demo_world solo_chain) = (Ok (), w')"
      "Line ''fixed'' [JStr ''OIL''] \<in> set (w_log w')"
    using demo_fix_runs by blast
  have "e_parseAddress demo_env (fx_mulSig demo_fix) = Inr 3"
    by (simp add: demo_fix_def demo_parse_checksum)
  from fix_success [OF this _ w'] w'(1) show ?thesis by simp
qed

lemma fix_second_run_idle_witness:
  "w_txs (snd (fixMulSigAddresses demo_env demo_fix (demo_world solo_moved))) = []"
  using fix_second_run_idle [of demo_env 3 demo_fix "demo_world solo_moved"]
  by (cases "fixMulSigAddresses demo_env demo_fix (demo_world solo_moved)")
    (simp add: solo_registered demo_fix_def demo_same Producer_getMulSigContract_def)

lemma fix_repairs_all_witness:
  "\<exists>w'. fixMulSigAddresses demo_env demo_fix (demo_world solo_chain) = (Ok (), w') \<and>
    (\<forall>k \<in> {''OIL'', ''GAS'', ''ETH'', ''BTC''}. \<forall>p d. Governance_getTreasureByKind (c_governance (w_chain w')) k = Inr (p, d) \<longrightarrow>
      (\<exists>st. c_producers (w_chain w') p = Some st \<and> Producer_getMulSigContract st = 3))"
  by (rule fix_repairs_all [where manager = 10])
    (simp_all add: demo_fix_def demo_parse_checksum demo_same solo_repairable)

section \<open>upgrade-via-proxyadmin.js upgrades what it is configured to\<close>

definition upgrade_txs :: "('ac, 'px) env \<Rightarrow> upgrade_config \<Rightarrow> submitted set" where
  "upgrade_txs E C = {t. \<exists>u \<in> set (uc_upgrades C). \<exists>proxy impl.
     e_parseAddress E (ue_proxy u) = Inr proxy \<and> e_parseAddress E (ue_newImplementation u) = Inr impl \<and>
     e_keyAccount E (uc_privateKey C) = Inr (tx_from t) \<and> e_parseAddress E (uc_proxyAdmin C) = Inr (tx_to t) \<and>
     tx_call t = ProxyUpgrade proxy impl}"

lemma adds_lift: "(\<And>x. r = Inr x \<Longrightarrow> adds T n (k x)) \<Longrightarrow> adds T n (bind (lift_err r) k)"
  by (cases r) (auto intro: adds_read ro.keeps_throw)

lemma ro_upgrade_parts:
  "keeps read_only (checkNetwork E)" "keeps read_only (checkBalance E a m n)"
  "keeps read_only (checkOwner E C a)" "keeps read_only (needsUpgrade E a u)"
  "keeps read_only (functionWorking E mgr a u)" "keeps read_only (upgradeSummary rs wk)"
  unfolding checkNetwork_def checkBalance_def checkOwner_def needsUpgrade_def functionWorking_def upgradeSummary_def
  by (intro ro_intros)+

lemma adds_upgradeEntry:
  assumes "u \<in> set (uc_upgrades C)" and "e_keyAccount E (uc_privateKey C) = Inr account"
    and "e_parseAddress E (uc_proxyAdmin C) = Inr admin"
  shows "adds (upgrade_txs E C) 1 (upgradeEntry E account manager admin (u, b))"
proof -
  have send: "adds (upgrade_txs E C) 1 (sendAs E account manager admin (ProxyUpgrade proxy impl))"
    if "e_parseAddress E (ue_proxy u) = Inr proxy" "e_parseAddress E (ue_newImplementation u) = Inr impl" for proxy impl
  proof (cases "manager = account")
    case True
    then show ?thesis
      by (intro adds_sendAs) (use assms that in \<open>auto simp: upgrade_txs_def\<close>)
  next
    case False
    then show ?thesis by (simp add: sendAs_def adds_read ro_request)
  qed
  have sleeps: "adds T 0 (bind (sleep 30) (\<lambda>_. ret x))" for T :: "submitted set" and x :: "string \<times> status"
    by (simp add: adds_def bind_def sleep_def advance_def)
  have rest: "adds (upgrade_txs E C) 1 (bind (sendAs E account manager admin (ProxyUpgrade proxy impl)) (\<lambda>_.
      bind (say ''upgraded'' []) (\<lambda>_. bind (sleep 30) (\<lambda>_. ret (ue_kind u, Success)))))"
    if "e_parseAddress E (ue_proxy u) = Inr proxy" "e_parseAddress E (ue_newImplementation u) = Inr impl" for proxy impl
    using adds_bind [OF send [OF that] adds_read_then [OF ro_say sleeps]] by simp
  show ?thesis
    unfolding upgradeEntry_def prod.case addrOf_def
    by (intro adds_if adds_read [OF ro.keeps_bind] adds_read_then adds_catch_read adds_lift rest ro_say ro.keeps_ret
        ro.keeps_bind ro_views)
qed

text \<open>\<open>upgrade-via-proxyadmin.js\<close> sends at most one transaction per configured entry, and every
  transaction it sends is an upgrade of a configured proxy to the implementation configured for
  it, through the configured proxy admin and from the account of the configured key.\<close>

theorem upgrade_only_configured:
  "\<exists>new. w_txs (snd (upgradeViaProxyAdmin E C w)) = w_txs w @ new \<and> length new \<le> length (uc_upgrades C) \<and>
     set new \<subseteq> upgrade_txs E C"
proof -
  have all: "adds (upgrade_txs E C) (length (uc_upgrades C)) (upgradeAll E C account manager admin)"
    if "e_keyAccount E (uc_privateKey C) = Inr account" "e_parseAddress E (uc_proxyAdmin C) = Inr admin"
    for account manager admin
    unfolding upgradeAll_def
  proof (rule adds_read_then [OF _ adds_read_then [OF _ adds_read_then]],
      goal_cases needs net confirm upgrade)
    case (upgrade flags)
    have "adds (upgrade_txs E C) (1 * length (zip (uc_upgrades C) flags))
        (mapA (zip (uc_upgrades C) flags) (upgradeEntry E account manager admin))"
      by (rule adds_mapA) (auto dest: set_zip_leftD intro: adds_upgradeEntry [unfolded One_nat_def] that)
    then have "adds (upgrade_txs E C) (length (uc_upgrades C))
        (mapA (zip (uc_upgrades C) flags) (upgradeEntry E account manager admin))"
      by (rule adds_mono) simp
    then show ?case
      by (intro adds_then_read ro.keeps_bind ro.keeps_mapA ro_upgrade_parts)
  qed (intro ro.keeps_mapA ro_upgrade_parts ro_views ro_say)+
  have "adds (upgrade_txs E C) (length (uc_upgrades C)) (upgradeViaProxyAdmin E C)"
    unfolding upgradeViaProxyAdmin_def Let_def addrOf_def
    by (intro adds_catch_read adds_read_then adds_if adds_lift all ro_upgrade_parts)
      (auto intro!: ro_intros adds_read)
  then show ?thesis unfolding adds_def by blast
qed


section \<open>A working upgrade is an upgrade\<close>

lemma functionWorking_True:
  "wlp (functionWorking E manager admin u) (\<lambda>b w'. b \<longrightarrow> (\<exists>proxy impl. e_parseAddress E (ue_proxy u) = Inr proxy \<and>
     px_implementation (e_proxy E) (w_proxies w') admin proxy = Inr impl \<and>
     sameAddress E impl (ue_newImplementation u))) w"
  unfolding functionWorking_def
  by (auto simp: wlp_catch wlp_world)

lemma functionsWorking:
  "wlp (mapA us (functionWorking E manager admin)) (\<lambda>bs w'. \<forall>(u, b) \<in> set (zip us bs). b \<longrightarrow>
     (\<exists>proxy impl. e_parseAddress E (ue_proxy u) = Inr proxy \<and>
       px_implementation (e_proxy E) (w_proxies w') admin proxy = Inr impl \<and>
       sameAddress E impl (ue_newImplementation u))) w"
proof (induction us arbitrary: w)
  case Nil
  show ?case by (simp only: mapA.simps wlp_simps(1)) simp
next
  case (Cons u us)
  let ?f = "functionWorking E manager admin"
  have rest: "wlp (mapA us ?f) (\<lambda>bs w'. (\<forall>(u, b) \<in> set (zip us bs). b \<longrightarrow>
     (\<exists>proxy impl. e_parseAddress E (ue_proxy u) = Inr proxy \<and>
       px_implementation (e_proxy E) (w_proxies w') admin proxy = Inr impl \<and>
       sameAddress E impl (ue_newImplementation u))) \<and> read_only v w') v" for v
    by (rule wlp_with_frame [OF _ Cons.IH]) (intro ro.keeps_mapA ro_upgrade_parts)
  show ?case
    unfolding mapA.simps wlp_simps(4)
    by (rule wlp_mono [OF functionWorking_True], rule wlp_mono [OF rest])
      (auto simp: wlp_iff read_only_def)
qed


lemma upgradeSummary_lines:
  "wlp (upgradeSummary rs working) (\<lambda>_ w'. Line ''success'' [JStr k, JBool True] \<in> set (w_log w') \<longrightarrow>
     Line ''success'' [JStr k, JBool True] \<in> set (w_log w) \<or> map_of working k = Some True) w"
  unfolding upgradeSummary_def split_beta
  by (auto simp: wlp_simps wlp_say wlp_forEach_say)

lemma map_of_zip_map: "map_of (zip (map f us) bs) k = Some b \<Longrightarrow> \<exists>u. (u, b) \<in> set (zip us bs) \<and> f u = k"
  by (induction us bs rule: list_induct2') (auto split: if_splits)

lemma silent_upgrade_parts:
  "keeps (silent ''success'') (checkNetwork E)" "keeps (silent ''success'') (checkBalance E a m n)"
  "keeps (silent ''success'') (checkOwner E C a)" "keeps (silent ''success'') (needsUpgrade E a u)"
  "keeps (silent ''success'') (upgradeEntry E account manager a e)"
  "keeps (silent ''success'') (functionWorking E mgr a u)"
  unfolding checkNetwork_def checkBalance_def checkOwner_def needsUpgrade_def functionWorking_def upgradeEntry_def
  by ((intro silent_intros; simp)+)[6]

definition implements :: "('ac, 'px) env \<Rightarrow> addr \<Rightarrow> upgrade_config \<Rightarrow> string \<Rightarrow> 'px \<Rightarrow> bool" where
  "implements E admin C k s \<longleftrightarrow> (\<exists>u \<in> set (uc_upgrades C). ue_kind u = k \<and> (\<exists>proxy impl.
     e_parseAddress E (ue_proxy u) = Inr proxy \<and> px_implementation (e_proxy E) s admin proxy = Inr impl \<and>
     sameAddress E impl (ue_newImplementation u)))"

lemma upgradeAll_works:
  fixes w :: "('ac, 'px) world"
  assumes "noline ''success'' w"
  shows "wlp (upgradeAll E C account manager admin) (\<lambda>_ w'. Line ''success'' [JStr k, JBool True] \<in> set (w_log w') \<longrightarrow>
    implements E admin C k (w_proxies w')) w"
proof -
  let ?us = "uc_upgrades C"
  note step = wlp_silent [where k = "''success''"]
  have verify: "wlp (mapA ?us (functionWorking E manager admin)) (\<lambda>bs w'. noline ''success'' w' \<and>
      (map_of (zip (map ue_kind ?us) bs) k = Some True \<longrightarrow> implements E admin C k (w_proxies w'))) v"
    if "noline ''success'' v" for v
  proof (rule wlp_mono [OF wlp_with_frame [OF _ functionsWorking, where R = "silent ''success''"]])
    show "keeps (silent ''success'') (mapA ?us (functionWorking E manager admin))"
      by (intro quiet.keeps_mapA silent_upgrade_parts)
  next
    fix bs and w' :: "('ac, 'px) world"
    assume w': "(\<forall>(u, b) \<in> set (zip ?us bs). b \<longrightarrow> (\<exists>proxy impl. e_parseAddress E (ue_proxy u) = Inr proxy \<and>
        px_implementation (e_proxy E) (w_proxies w') admin proxy = Inr impl \<and>
        sameAddress E impl (ue_newImplementation u))) \<and> silent ''success'' v w'"
    have "implements E admin C k (w_proxies w')" if some: "map_of (zip (map ue_kind ?us) bs) k = Some True"
    proof -
      obtain u where u: "(u, True) \<in> set (zip ?us bs)" "ue_kind u = k"
        using map_of_zip_map [OF some] by blast
      with w' show ?thesis
        unfolding implements_def by (intro bexI [of _ u]) (auto dest: set_zip_leftD)
    qed
    with w' that show "noline ''success'' w' \<and> (map_of (zip (map ue_kind ?us) bs) k = Some True \<longrightarrow>
        implements E admin C k (w_proxies w'))"
      by (auto simp: silent_def)
  qed
  have summary: "wlp (upgradeSummary rs working) (\<lambda>_ w'. Line ''success'' [JStr k, JBool True] \<in> set (w_log w') \<longrightarrow>
      implements E admin C k (w_proxies w')) v"
    if "noline ''success'' v \<and> (map_of working k = Some True \<longrightarrow> implements E admin C k (w_proxies v))" for rs working v
    by (rule wlp_mono [OF wlp_with_frame [OF ro_upgrade_parts(6) upgradeSummary_lines]])
      (use that in \<open>auto simp: read_only_def\<close>)
  show ?thesis
    unfolding upgradeAll_def
    apply (rule step, intro quiet.keeps_mapA silent_upgrade_parts, rule assms)
    apply (rule step, intro silent_intros, assumption)
    apply (rule step, intro silent_intros, simp, assumption)
    apply (rule step, intro quiet.keeps_mapA silent_upgrade_parts, assumption)
    apply (subst wlp_simps(4), rule wlp_mono [OF verify], assumption, rule summary, assumption)
    done
qed

text \<open>When \<open>upgrade-via-proxyadmin.js\<close> ends normally and lists a kind as upgraded with the new function
  available, the proxy admin gives the configured implementation for the proxy of that kind, whatever
  requests were lost on the way.\<close>

theorem upgrade_working_correct:
  assumes "w_log w = []" and "e_parseAddress E (uc_proxyAdmin C) = Inr admin"
    and "upgradeViaProxyAdmin E C w = (Ok (), w')" and "Line ''success'' [JStr k, JBool True] \<in> set (w_log w')"
  shows "\<exists>u \<in> set (uc_upgrades C). ue_kind u = k \<and> (\<exists>proxy impl. e_parseAddress E (ue_proxy u) = Inr proxy \<and>
    px_implementation (e_proxy E) (w_proxies w') admin proxy = Inr impl \<and>
    sameAddress E impl (ue_newImplementation u))"
proof -
  let ?Q = "\<lambda>_ w'. Line ''success'' [JStr k, JBool True] \<in> set (w_log w') \<longrightarrow> implements E admin C k (w_proxies w')"
  note step = wlp_silent [where k = "''success''"]
  have "wlp (upgradeViaProxyAdmin E C) ?Q w"
    unfolding upgradeViaProxyAdmin_def wlp_catch Let_def
    apply (rule conjI)
     apply (rule step, intro silent_intros, simp, simp add: assms(1))
     apply (subst wlp_simps(6), split if_split, intro conjI impI, simp add: wlp_simps wlp_say)
     apply (subst wlp_simps(6), split if_split, intro conjI impI, simp add: wlp_simps wlp_say)
     apply (subst wlp_simps(6), split if_split, intro conjI impI, simp add: wlp_simps wlp_forEach_say)
     apply (rule step, (intro silent_intros silent_upgrade_parts; simp)?, assumption)
     apply (rule step, (intro silent_intros silent_upgrade_parts; simp)?, assumption)
     apply (rule step, (intro silent_intros silent_upgrade_parts; simp)?, assumption)
     apply (rule step, (intro silent_intros silent_upgrade_parts; simp)?, assumption)
     apply (subst wlp_simps(4), subst wlp_addrOf, simp add: assms(2))
     apply (rule step, (intro silent_intros silent_upgrade_parts; simp)?, assumption)
     apply (rule upgradeAll_works, assumption)
    apply (simp add: wlp_simps wlp_say)
    done
  then show ?thesis
    using assms(3,4) by (auto dest: wlpD simp: implements_def)
qed


text \<open>A run in which the owner of the proxy admin upgrades one proxy.\<close>

definition owner_env :: "(acl, addr \<Rightarrow> addr) env" where
  "owner_env = demo_env\<lparr>e_keyAccount := (\<lambda>k. Inr 9),
     e_parseAddress := (\<lambda>s. if length s = 42 then Inr 64 else demo_parse s)\<rparr>"

definition demo_entry :: upgrade_entry where
  "demo_entry = \<lparr>ue_kind = ''OIL'', ue_proxy = ''0x3c'', ue_newImplementation = demo_checksum 64\<rparr>"

definition demo_upgrade :: upgrade_config where
  "demo_upgrade = \<lparr>uc_proxyAdmin = ''0x32'', uc_manager = ''0x9'', uc_privateKey = ''key'',
     uc_upgrades = [demo_entry]\<rparr>"

lemma demo_upgrade_fields:
  "uc_proxyAdmin demo_upgrade = ''0x32''" "uc_manager demo_upgrade = ''0x9''" "uc_privateKey demo_upgrade = ''key''"
  "filter (\<lambda>u. ue_newImplementation u = '''') (uc_upgrades demo_upgrade) = []"
  by (simp_all add: demo_upgrade_def demo_entry_def demo_checksum_def)

lemma owner_env_fields [simp]:
  "e_access owner_env = reference_access" "e_proxy owner_env = demo_proxy" "e_fault owner_env t = Fine"
  "e_parseAddress owner_env s = (if length s = 42 then Inr 64 else demo_parse s)" "e_toChecksum owner_env = demo_checksum" "e_loadABI owner_env n = Inr ()"
  "e_keyAccount owner_env k = Inr 9" "e_netId owner_env = 6666" "e_blockNumber owner_env t = t"
  "e_balance owner_env t a = 10 ^ 18" "e_gasPrice owner_env = 7" "e_gasEstimate owner_env t = 50000"
  by (simp_all add: owner_env_def)

lemma demo_parse_upgrade [simp]:
  "demo_parse ''0x32'' = Inr 50" "demo_parse ''0x9'' = Inr 9" "demo_parse ''0x3c'' = Inr 60"
  by code_simp+

lemma length_addresses [simp]: "length (demo_checksum a) = 42" "length mainnetMulSig = 42"
  by (simp_all add: demo_checksum_def mainnetMulSig_def)

lemma owner_same: "sameAddress owner_env a (demo_checksum b) \<longleftrightarrow> a = b"
  using demo_same by (simp add: sameAddress_def)

definition upgraded_proxies :: "addr \<Rightarrow> addr" where
  "upgraded_proxies = (\<lambda>_. 0)(60 := 64, 62 := 63)"

lemma owner_upgrade: "w_proxies v = (\<lambda>_. 0)(60 := 61, 62 := 63) \<Longrightarrow>
    exec_tx owner_env v 9 50 (ProxyUpgrade 60 64) = Inr (v\<lparr>w_proxies := upgraded_proxies\<rparr>, [])"
  by (simp add: exec_tx_def demo_proxy_def upgraded_proxies_def fun_upd_twist)

lemma owner_function: "w_chain v = solo_chain\<lparr>c_time := t\<rparr> \<Longrightarrow>
    exec_tx owner_env v 9 60 (SetMulSigContract a) = Inr (v, [])"
  by (simp add: exec_tx_def exec_chain_def has_code_def) (simp add: solo_chain_def demo_chain_def)

lemma demo_proxies [simp]: "w_proxies (demo_world ch) = (\<lambda>_. 0)(60 := 61, 62 := 63)"
  by (simp add: demo_world_def)

lemma owner_needs:
  "w_proxies w = (\<lambda>_. 0)(60 := 61, 62 := 63) \<Longrightarrow> run (needsUpgrade owner_env 50 demo_entry) (\<lambda>r w'. r = Ok True \<and>
     w_proxies w' = w_proxies w \<and> w_chain w' = w_chain w) w"
  by (simp add: needsUpgrade_def demo_entry_def run_world view_defs node_defs owner_same demo_proxy_def)

lemma owner_upgrades:
  "w_proxies w = (\<lambda>_. 0)(60 := 61, 62 := 63) \<Longrightarrow> run (upgradeEntry owner_env 9 9 50 (demo_entry, True))
     (\<lambda>r w'. r = Ok (''OIL'', Success) \<and> w_proxies w' = upgraded_proxies \<and> w_chain w' = (w_chain w)\<lparr>c_time := c_time (w_chain w) + 30\<rparr>) w"
  by (simp add: upgradeEntry_def demo_entry_def run_world view_defs node_defs owner_upgrade sendAs_def advance_def)

lemma owner_works:
  "w_proxies w = upgraded_proxies \<Longrightarrow> w_chain w = solo_chain\<lparr>c_time := t\<rparr> \<Longrightarrow>
     run (functionWorking owner_env 9 50 demo_entry) (\<lambda>r w'. r = Ok True) w"
  by (simp add: functionWorking_def demo_entry_def run_world view_defs node_defs owner_same owner_function
      demo_proxy_def upgraded_proxies_def loadContractABI_def)


lemma demo_upgrade_runs:
  "\<exists>w'. upgradeViaProxyAdmin owner_env demo_upgrade (demo_world solo_chain) = (Ok (), w') \<and>
     Line ''success'' [JStr ''OIL'', JBool True] \<in> set (w_log w')"
proof -
  have all: "run (upgradeAll owner_env demo_upgrade 9 9 50) (\<lambda>r w'. r = Ok () \<and>
      Line ''success'' [JStr ''OIL'', JBool True] \<in> set (w_log w')) w"
    if w: "w_proxies w = (\<lambda>_. 0)(60 := 61, 62 := 63)" "w_chain w = solo_chain" for w
  proof -
    obtain w1 where w1: "needsUpgrade owner_env 50 demo_entry w = (Ok True, w1)" "w_proxies w1 = w_proxies w"
        "w_chain w1 = solo_chain"
      using runD [OF owner_needs [OF w(1)]] w(2) by auto
    define v where "v = (tick w1)\<lparr>w_log := w_log w1 @ [Line ''confirm'' [JNum 6666, JStr ''0x9'', JStr ''0x32'']]\<rparr>"
    then have v: "w_proxies v = (\<lambda>_. 0)(60 := 61, 62 := 63)" "w_chain v = solo_chain" using w1 w by simp_all
    obtain w2 where w2: "upgradeEntry owner_env 9 9 50 (demo_entry, True) v = (Ok (''OIL'', Success), w2)"
        "w_proxies w2 = upgraded_proxies" "w_chain w2 = solo_chain\<lparr>c_time := 1030\<rparr>"
      using runD [OF owner_upgrades [OF v(1)]] v(2) by auto
    obtain w3 where w3: "functionWorking owner_env 9 50 demo_entry w2 = (Ok True, w3)"
      using owner_works [OF w2(2,3)] by (cases "functionWorking owner_env 9 50 demo_entry w2") (simp add: run_iff)
    show ?thesis
      using w1(1) w2(1) w3
      by (simp add: upgradeAll_def demo_upgrade_def demo_entry_def [symmetric] run_def bind_def getId_def request_def
          say_def v_def upgradeSummary_def whenA_def countStatus_def) (simp add: demo_entry_def)
  qed
  show ?thesis
    by (rule runD, unfold upgradeViaProxyAdmin_def checkNetwork_def checkBalance_def checkOwner_def)
      (simp add: demo_upgrade_fields run_world view_defs node_defs demo_proxy_def run_Pair balanceBelow_def Let_def,
        auto simp: run_iff all [unfolded run_iff])
qed

lemma upgrade_working_correct_witness:
  "\<exists>w' impl. upgradeViaProxyAdmin owner_env demo_upgrade (demo_world solo_chain) = (Ok (), w') \<and>
     px_implementation demo_proxy (w_proxies w') 50 60 = Inr impl \<and> sameAddress owner_env impl (demo_checksum 64)"
proof -
  obtain w' where w': "upgradeViaProxyAdmin owner_env demo_upgrade (demo_world solo_chain) = (Ok (), w')"
      "Line ''success'' [JStr ''OIL'', JBool True] \<in> set (w_log w')"
    using demo_upgrade_runs by blast
  from upgrade_working_correct [OF _ _ w', where admin = 50] w'(1) show ?thesis
    by (auto simp: demo_upgrade_fields) (auto simp: demo_upgrade_def demo_entry_def)
qed

section \<open>manual-upgrade-producers.js never reports what it deployed\<close>

lemma deployKind_null:
  assumes "\<And>w n. e_deployReceipt E w \<noteq> Inr (Some n)"
  shows "wlp (deployKind E account manager kind) (\<lambda>r _. r = (kind, None)) w"
  unfolding deployKind_def using assms
  by (auto simp: wlp_catch wlp_world split: option.split)

lemma log_deploy [simp]: "w_log (snd (deployContract E account from n w)) = w_log w"
  by (auto simp: deployContract_def Let_def split: fault.splits sum.splits prod.splits)

lemma silent_deploy: "keeps (silent k) (deployContract E account from n)"
  by (rule silent_log) simp

lemma silent_manual_parts:
  "keeps (silent ''new-implementation'') (checkNetwork E)"
  "keeps (silent ''new-implementation'') (checkBalance E a m n)"
  "keeps (silent ''new-implementation'') (reportImplementation E p)"
  "keeps (silent ''new-implementation'') (deployKind E account manager kind)"
  "keeps (silent ''new-implementation'') (verifyDeployment E d)"
  unfolding checkNetwork_def checkBalance_def reportImplementation_def deployKind_def verifyDeployment_def
  by ((intro silent_option silent_intros silent_deploy; simp)+)[5]

lemma deployments_null:
  assumes "\<And>w n. e_deployReceipt E w \<noteq> Inr (Some n)"
  shows "wlp (mapA ks (deployKind E account manager)) (\<lambda>ds _. ds = map (\<lambda>k. (k, None)) ks) w"
proof (induction ks arbitrary: w)
  case (Cons k ks)
  show ?case
    unfolding mapA.simps wlp_simps(4)
    by (rule wlp_mono [OF deployKind_null [OF assms]], rule wlp_mono [OF Cons.IH]) (simp add: wlp_iff)
qed (simp add: wlp_iff)

lemma silent_summary_null: "keeps (silent ''new-implementation'') (manualSummary C (map (\<lambda>k. (k, None)) ks))"
  unfolding manualSummary_def Let_def
  by (simp add: comp_def) (intro silent_intros; simp)

lemma silent_bind_known:
  assumes "keeps (silent k) m" and "\<And>w. wlp m (\<lambda>x _. Q x) w" and "\<And>x. Q x \<Longrightarrow> keeps (silent k) (f x)"
  shows "keeps (silent k) (bind m f)"
  unfolding keeps_def
proof
  fix w
  obtain r w1 where m: "m w = (r, w1)" by (cases "m w")
  then have one: "silent k w w1" by (rule keepsD [OF assms(1)])
  show "silent k w (snd (bind m f w))"
  proof (cases r)
    case (Ok x)
    with m assms(2) [of w] have "Q x" by (auto simp: wlp_iff)
    then have "silent k w1 (snd (f x w1))"
      using assms(3) by (simp add: keeps_def)
    with one m Ok show ?thesis by (auto simp: bind_def intro: quiet.rel_trans)
  qed (use m one in \<open>auto simp: bind_def\<close>)
qed

text \<open>\<open>manual-upgrade-producers.js\<close> reads the gas used from the receipt for the transaction hash of the
  contract object a deployment gives back. When the node has no receipt for it, and with web3 1.x
  that object has no transaction hash at all, the script reports every deployment as failed: it
  never prints the address of an implementation, although it has created the contracts.\<close>

theorem manual_upgrade_reports_nothing:
  assumes "\<And>u n. e_deployReceipt E u \<noteq> Inr (Some n)" and "w_log w = []"
    and "manualUpgrade E C w = (r, w')"
  shows "Line ''new-implementation'' v \<notin> set (w_log w')"
proof -
  have "keeps (silent ''new-implementation'') (deployAll E C account manager)" for account manager
    unfolding deployAll_def
  proof (rule quiet.keeps_bind)
    show "keeps (silent ''new-implementation'') (bind (mapA (map fst (mc_producers C)) (deployKind E account manager))
        (\<lambda>deployed. bind (forEach deployed (verifyDeployment E)) (\<lambda>_. manualSummary C deployed)))"
      by (rule silent_bind_known [OF _ deployments_null [OF assms(1)]])
        (auto simp del: map_map intro!: quiet.keeps_intros silent_manual_parts silent_summary_null)
  qed (intro quiet.keeps_forEach silent_manual_parts)
  then have "keeps (silent ''new-implementation'') (manualUpgrade E C)"
    unfolding manualUpgrade_def by (auto intro!: silent_intros silent_manual_parts)
  from keepsD [OF this assms(3)] assms(2) show ?thesis by (simp add: silent_def)
qed

lemma demo_null_receipt: "e_deployReceipt demo_env u \<noteq> Inr (Some n)"
  by simp

definition demo_manual :: manual_config where
  "demo_manual = \<lparr>mc_manager = ''0xa'', mc_privateKey = ''key'', mc_producers = [(''OIL'', ''0x6'')]\<rparr>"

text \<open>The run of the witness does create a contract.\<close>

lemma run_demo_deploy: "run (deployContract demo_env 10 10 n) Q w \<longleftrightarrow>
    Q (Ok (70 + of_nat (length n))) ((tick w)\<lparr>w_txs := w_txs w @ [creation 10 n],
      w_proxies := (w_proxies w)(70 + of_nat (length n) := 0)\<rparr>)"
  by (simp add: run_iff deployContract_def Let_def demo_proxy_def)

lemma demo_deploys: "\<exists>w'. manualUpgrade demo_env demo_manual (demo_world solo_chain) = (Ok (), w') \<and>
    w_txs w' = [creation 10 ''OilProducer'']"
  by (rule runD)
    (simp add: manualUpgrade_def checkNetwork_def checkBalance_def deployAll_def reportImplementation_def
      deployKind_def verifyDeployment_def manualSummary_def contractName_def demo_manual_def run_world view_defs
      node_defs run_Pair Let_def run_demo_deploy balanceBelow_def demo_proxy_def)

lemma manual_upgrade_reports_nothing_witness:
  "\<exists>w'. manualUpgrade demo_env demo_manual (demo_world solo_chain) = (Ok (), w') \<and>
     w_txs w' = [creation 10 ''OilProducer''] \<and>
     Line ''new-implementation'' [JStr ''OIL'', JAddr 81] \<notin> set (w_log w')"
proof -
  obtain w' where w': "manualUpgrade demo_env demo_manual (demo_world solo_chain) = (Ok (), w')"
      "w_txs w' = [creation 10 ''OilProducer'']"
    using demo_deploys by blast
  from manual_upgrade_reports_nothing [OF demo_null_receipt _ w'(1)] w' show ?thesis by simp
qed

section \<open>As shipped\<close>

text \<open>As shipped, the three mainnet producer scripts end with code 1 before their first request: the
  private key of every configuration is the empty string.\<close>

theorem producer_scripts_shipped_stop:
  "\<exists>w1 w2 w3. fixMulSigAddresses E fix_shipped w = (Exit 1, w1) \<and> w_tick w1 = w_tick w \<and> w_txs w1 = w_txs w \<and>
     upgradeViaProxyAdmin E upgrade_shipped w = (Exit 1, w2) \<and> w_tick w2 = w_tick w \<and> w_txs w2 = w_txs w \<and>
     manualUpgrade E manual_shipped w = (Exit 1, w3) \<and> w_tick w3 = w_tick w \<and> w_txs w3 = w_txs w \<and>
     w_chain w1 = w_chain w \<and> w_chain w2 = w_chain w \<and> w_chain w3 = w_chain w"
  by (simp add: fixMulSigAddresses_def upgradeViaProxyAdmin_def manualUpgrade_def fix_shipped_def
      upgrade_shipped_def manual_shipped_def bind_def catch_def say_def)

end
