(* ===== verification/Registry.thy ===== *)
theory Registry
  imports JsRuntime "HOL-Library.AList"
begin

text \<open>
  \<open>scripts/deploy/utils.js\<close>: the registry of deployed contracts that the deployment scripts share, one
  JSON file per network with the newest deployment first. JavaScript objects keep their keys in the
  order of insertion and are association lists here; a file is what parsing it gives.
\<close>

section \<open>Files and states\<close>

record contract_info =
  ci_address :: string
  ci_block :: "nat option"
  ci_tx :: "string option"

record entry =
  en_network :: string
  en_generatedAt :: string
  en_contracts :: "(string \<times> contract_info) list"

text \<open>The parsed object; \<open>addresses\<close> is there when the file has it beside the entries.\<close>

record dep_state =
  ds_entries :: "entry list"
  ds_addresses :: "(string \<times> string) list"

text \<open>The legacy format: one flat table of addresses, and of blocks and transactions if any.\<close>

record legacy =
  lg_network :: string
  lg_generatedAt :: string
  lg_addresses :: "(string \<times> string) list"
  lg_blocks :: "(string \<times> nat) list"
  lg_txs :: "(string \<times> string) list"

datatype json_file = Absent | Unreadable | OtherJson | Legacy legacy | Entries dep_state

definition endsWith :: "string \<Rightarrow> string \<Rightarrow> bool" where
  "endsWith s suffix \<longleftrightarrow> length suffix \<le> length s \<and> drop (length s - length suffix) s = suffix"

text \<open>The key under which a name is stored.\<close>

definition baseKey :: "string \<Rightarrow> string" where
  "baseKey name = (if endsWith name ''_ADDRESS'' then take (length name - 8) name else name)"

definition orElse :: "string \<Rightarrow> string \<Rightarrow> string" where
  "orElse s d = (if s = '''' then d else s)"

definition migrate :: "string \<Rightarrow> string \<Rightarrow> legacy \<Rightarrow> dep_state" where
  "migrate network now data =
     (let contracts = foldl (\<lambda>contracts (k, addr).
            AList.update (baseKey k) \<lparr>ci_address = addr, ci_block = map_of (lg_blocks data) k,
              ci_tx = map_of (lg_txs data) k\<rparr> contracts) [] (lg_addresses data)
      in \<lparr>ds_entries = [\<lparr>en_network = orElse (lg_network data) network,
            en_generatedAt = orElse (lg_generatedAt data) now, en_contracts = contracts\<rparr>],
          ds_addresses = []\<rparr>)"

fun loadState :: "string \<Rightarrow> string \<Rightarrow> json_file \<Rightarrow> dep_state" where
  "loadState network now (Legacy data) = migrate network now data"
| "loadState network now (Entries data) = data"
| "loadState network now _ = \<lparr>ds_entries = [], ds_addresses = []\<rparr>"

definition saveState :: "dep_state \<Rightarrow> json_file" where
  "saveState state = Entries state"

definition startNewEntry :: "string \<Rightarrow> string \<Rightarrow> dep_state \<Rightarrow> dep_state" where
  "startNewEntry network now state = state\<lparr>ds_entries :=
     \<lparr>en_network = network, en_generatedAt = now, en_contracts = []\<rparr> # ds_entries state\<rparr>"

definition currentEntry :: "dep_state \<Rightarrow> entry fallible" where
  "currentEntry state = (case ds_entries state of
       [] \<Rightarrow> Inl ''No deployment entry found; start a new run first.''
     | e # es \<Rightarrow> Inr e)"

text \<open>A table looked up for a truthy string.\<close>

definition truthyAt :: "(string \<times> string) list \<Rightarrow> string \<Rightarrow> string option" where
  "truthyAt m k = (case map_of m k of None \<Rightarrow> None | Some s \<Rightarrow> if s = '''' then None else Some s)"

definition resolveContract :: "entry \<Rightarrow> dep_state \<Rightarrow> string \<Rightarrow> string option" where
  "resolveContract entry state key =
     (case truthyAt (map (\<lambda>(k, c). (k, ci_address c)) (en_contracts entry)) key of
        Some a \<Rightarrow> Some a
      | None \<Rightarrow>
          (case truthyAt (ds_addresses state) key of
             Some a \<Rightarrow> Some a
           | None \<Rightarrow> truthyAt (ds_addresses state) (key @ ''_ADDRESS'')))"

text \<open>The entry is changed in place: it is the head of the entries of the state.\<close>

definition setContract :: "string \<Rightarrow> contract_info \<Rightarrow> dep_state \<Rightarrow> dep_state fallible" where
  "setContract name info state =
     ebind (currentEntry state) (\<lambda>entry.
     Inr (state\<lparr>ds_entries := entry\<lparr>en_contracts :=
            AList.update (baseKey name) info (en_contracts entry)\<rparr> # tl (ds_entries state)\<rparr>))"

section \<open>A registry as a contract\<close>

text \<open>
  What the deployment scripts rely on: after a name is recorded with an address, it resolves to that
  address, and the other keys resolve as before. The laws give the same for a whole run of records.
\<close>

locale registry =
  fixes put :: "string \<Rightarrow> 'i \<Rightarrow> 's \<Rightarrow> 's"
    and get :: "'s \<Rightarrow> string \<Rightarrow> string option"
    and open_state :: "'s \<Rightarrow> bool"
    and key :: "string \<Rightarrow> string"
    and address :: "'i \<Rightarrow> string"
  assumes get_put: "open_state s \<Longrightarrow> address i \<noteq> '''' \<Longrightarrow> get (put n i s) (key n) = Some (address i)"
    and get_put_other: "open_state s \<Longrightarrow> k \<noteq> key n \<Longrightarrow> get (put n i s) k = get s k"
    and put_open: "open_state s \<Longrightarrow> open_state (put n i s)"
begin

abbreviation put_all :: "(string \<times> 'i) list \<Rightarrow> 's \<Rightarrow> 's" where
  "put_all rs s \<equiv> foldl (\<lambda>s (n, i). put n i s) s rs"

lemma put_all_open: "open_state s \<Longrightarrow> open_state (put_all rs s)"
  by (induction rs arbitrary: s) (auto simp: put_open)

lemma get_put_all_other:
  "open_state s \<Longrightarrow> k \<notin> key ` fst ` set rs \<Longrightarrow> get (put_all rs s) k = get s k"
  by (induction rs arbitrary: s) (auto simp: put_open get_put_other)

lemma get_put_all:
  assumes "open_state s" and "distinct (map (key \<circ> fst) rs)" and "(n, i) \<in> set rs" and "address i \<noteq> ''''"
  shows "get (put_all rs s) (key n) = Some (address i)"
  using assms
proof (induction rs arbitrary: s)
  case (Cons r rs)
  obtain m j where r: "r = (m, j)" by (cases r)
  show ?case
  proof (cases "(n, i) = r")
    case True
    with Cons.prems r have "key n \<notin> key ` fst ` set rs"
      by (auto simp: image_image comp_def)
    with True Cons.prems r show ?thesis
      by (simp add: get_put_all_other put_open get_put)
  next
    case False
    with Cons r show ?thesis by (auto simp: put_open)
  qed
qed simp

end

section \<open>The registry of utils.js\<close>

definition resolve :: "dep_state \<Rightarrow> string \<Rightarrow> string option" where
  "resolve state key = (case currentEntry state of Inl e \<Rightarrow> None | Inr entry \<Rightarrow> resolveContract entry state key)"

definition putContract :: "string \<Rightarrow> contract_info \<Rightarrow> dep_state \<Rightarrow> dep_state" where
  "putContract name info state = (case setContract name info state of Inl e \<Rightarrow> state | Inr s \<Rightarrow> s)"

lemma map_of_update_address:
  "map_of (map (\<lambda>(k, c). (k, f c)) (AList.update k' c' m)) k =
     (if k = k' then Some (f c') else map_of (map (\<lambda>(k, c). (k, f c)) m) k)"
  by (induction m) (auto split: if_splits)

lemma resolve_putContract:
  assumes "ds_entries s = e # es"
  shows "resolve (putContract n i s) k =
    (if k = baseKey n then resolveContract (e\<lparr>en_contracts := [(k, i)]\<rparr>) s k else resolve s k)"
  using assms
  by (simp add: resolve_def putContract_def setContract_def currentEntry_def resolveContract_def truthyAt_def
      map_of_update_address split: option.split)

interpretation deployments: registry putContract resolve "\<lambda>s. ds_entries s \<noteq> []" baseKey ci_address
proof
  fix s :: dep_state and i :: contract_info and n k
  assume s: "ds_entries s \<noteq> []"
  then obtain e es where e: "ds_entries s = e # es" by (cases "ds_entries s") auto
  show "resolve (putContract n i s) (baseKey n) = Some (ci_address i)" if "ci_address i \<noteq> ''''"
    using that by (simp add: resolve_putContract [OF e] resolveContract_def truthyAt_def)
  show "resolve (putContract n i s) k = resolve s k" if "k \<noteq> baseKey n"
    using that by (simp add: resolve_putContract [OF e])
  show "ds_entries (putContract n i s) \<noteq> []"
    by (simp add: putContract_def setContract_def currentEntry_def e)
qed

text \<open>Recording a run of deployments and reading the file back resolves every recorded name, with or
  without its \<open>_ADDRESS\<close> suffix, to the address recorded for it, and leaves every other key alone.\<close>

theorem record_resolve_roundtrip:
  assumes "ds_entries s \<noteq> []" and "distinct (map (baseKey \<circ> fst) rs)"
    and "(n, i) \<in> set rs" and "ci_address i \<noteq> ''''"
  shows "resolve (loadState network now (saveState (foldl (\<lambda>s (n, i). putContract n i s) s rs))) (baseKey n) =
      Some (ci_address i) \<and>
    (k \<notin> baseKey ` fst ` set rs \<longrightarrow>
      resolve (loadState network now (saveState (foldl (\<lambda>s (n, i). putContract n i s) s rs))) k = resolve s k)"
  using deployments.get_put_all [OF assms] deployments.get_put_all_other [OF assms(1)]
  by (simp add: saveState_def)

lemma record_resolve_roundtrip_witness:
  "resolve (loadState ''dev'' ''now'' (saveState (foldl (\<lambda>s (n, i). putContract n i s)
      \<lparr>ds_entries = [\<lparr>en_network = ''dev'', en_generatedAt = ''t'', en_contracts = []\<rparr>], ds_addresses = []\<rparr>
      [(''DAO_ADDRESS'', \<lparr>ci_address = ''0x1'', ci_block = None, ci_tx = None\<rparr>),
       (''TAT'', \<lparr>ci_address = ''0x2'', ci_block = Some 5, ci_tx = None\<rparr>)]))) (baseKey ''TAT'') = Some ''0x2''"
  by (rule conjunct1 [OF record_resolve_roundtrip [where i = "\<lparr>ci_address = ''0x2'', ci_block = Some 5, ci_tx = None\<rparr>",
        simplified]]) (simp_all add: baseKey_def endsWith_def)

section \<open>Migrating the legacy format\<close>

lemma migrate_lookup:
  assumes "distinct (map (baseKey \<circ> fst) as)"
  shows "map_of (foldl (\<lambda>contracts (k, addr). AList.update (baseKey k) (f k addr) contracts) m as) key =
    (case find (\<lambda>(k, a). baseKey k = key) as of Some (k, a) \<Rightarrow> Some (f k a) | None \<Rightarrow> map_of m key)"
  using assms
proof (induction as arbitrary: m)
  case (Cons x as)
  obtain k a where x: "x = (k, a)" by (cases x)
  have "find (\<lambda>(k', a). baseKey k' = baseKey k) as = None"
    using Cons.prems by (auto simp: x find_None_iff image_iff comp_def)
  with Cons show ?case
    by (auto simp: x AList.update_conv' split: option.splits)
qed simp

lemma baseKey_cases:
  "baseKey k = key \<longleftrightarrow> k = key @ ''_ADDRESS'' \<or> k = key \<and> \<not> endsWith key ''_ADDRESS''"
proof (cases "endsWith k ''_ADDRESS''")
  case True
  then have "drop (length k - 8) k = ''_ADDRESS''"
    by (simp add: endsWith_def numeral_eq_Suc)
  then have "k = take (length k - 8) k @ ''_ADDRESS''"
    using append_take_drop_id [of "length k - 8" k] by simp
  with True show ?thesis unfolding baseKey_def by (metis append_same_eq)
next
  case False
  then have "k \<noteq> key @ ''_ADDRESS''" by (auto simp: endsWith_def)
  with False show ?thesis by (auto simp: baseKey_def)
qed

lemma baseKey_iff: "\<not> endsWith key ''_ADDRESS'' \<Longrightarrow> baseKey k = key \<longleftrightarrow> k = key \<or> k = key @ ''_ADDRESS''"
  by (auto simp: baseKey_cases)

lemma find_baseKey:
  assumes "distinct (map (baseKey \<circ> fst) as)" and "\<not> endsWith key ''_ADDRESS''"
  shows "map_option snd (find (\<lambda>(k, a). baseKey k = key) as) =
    (case map_of as key of Some a \<Rightarrow> Some a | None \<Rightarrow> map_of as (key @ ''_ADDRESS''))"
  using assms(1)
proof (induction as)
  case (Cons x as)
  obtain k a where x: "x = (k, a)" by (cases x)
  have "map_of as key = None" if "baseKey k = key"
  proof -
    have "key \<notin> fst ` set as"
    proof
      assume "key \<in> fst ` set as"
      then have "baseKey key \<in> (baseKey \<circ> fst) ` set as" by auto
      moreover have "baseKey key = baseKey k" using that assms(2) by (simp add: baseKey_def)
      ultimately show False using Cons.prems by (simp add: x)
    qed
    then show ?thesis by (simp add: map_of_eq_None_iff)
  qed
  moreover have "distinct (map (baseKey \<circ> fst) as)" using Cons.prems by (simp only: list.map distinct.simps)
  from Cons.IH [OF this] have "map_option snd (find (\<lambda>(k, a). baseKey k = key) as) =
    (case map_of as key of Some a \<Rightarrow> Some a | None \<Rightarrow> map_of as (key @ ''_ADDRESS''))" .
  ultimately show ?case
    using baseKey_iff [OF assms(2), of k] by (cases "map_of as key") (auto simp: x)
qed simp

text \<open>A table in which no key occurs both with and without the suffix.\<close>

lemma migration_distinct:
  assumes "distinct (map (baseKey \<circ> fst) (lg_addresses data))" and "\<not> endsWith key ''_ADDRESS''"
  shows "resolve (loadState network now (Legacy data)) key =
    (case truthyAt (lg_addresses data) key of Some a \<Rightarrow> Some a
     | None \<Rightarrow> truthyAt (lg_addresses data) (key @ ''_ADDRESS''))"
proof -
  let ?as = "lg_addresses data"
  let ?f = "\<lambda>k addr. \<lparr>ci_address = addr, ci_block = map_of (lg_blocks data) k, ci_tx = map_of (lg_txs data) k\<rparr>"
  let ?cs = "foldl (\<lambda>contracts (k, addr). AList.update (baseKey k) (?f k addr) contracts) [] ?as"
  have "map_of (map (\<lambda>(k, c). (k, ci_address c)) ?cs) key = map_option ci_address (map_of ?cs key)"
    by (simp add: map_of_map)
  also have "\<dots> = map_option snd (find (\<lambda>(k, a). baseKey k = key) ?as)"
    unfolding migrate_lookup [OF assms(1)] by (auto split: option.split)
  finally have "map_of (map (\<lambda>(k, c). (k, ci_address c)) ?cs) key =
      (case map_of ?as key of Some a \<Rightarrow> Some a | None \<Rightarrow> map_of ?as (key @ ''_ADDRESS''))"
    by (simp add: find_baseKey [OF assms])
  moreover have "map_of ?as (key @ ''_ADDRESS'') = None" if "map_of ?as key = Some a" for a
  proof (rule ccontr)
    assume "map_of ?as (key @ ''_ADDRESS'') \<noteq> None"
    then obtain b where "map_of ?as (key @ ''_ADDRESS'') = Some b" by (cases "map_of ?as (key @ ''_ADDRESS'')") simp
    note map_of_SomeD [OF this] map_of_SomeD [OF that]
    moreover have "baseKey (key @ ''_ADDRESS'') = key" "baseKey key = key"
      using baseKey_iff [OF assms(2)] by blast+
    ultimately show False
      using assms(1) inj_onD [of "baseKey \<circ> fst" "set ?as" "(key @ ''_ADDRESS'', b)" "(key, a)"]
      by (auto simp: distinct_map)
  qed
  ultimately show ?thesis
    by (auto simp: resolve_def migrate_def currentEntry_def resolveContract_def truthyAt_def split: option.splits)
qed

text \<open>Any table: what counts is the last entry that stands for the key.\<close>

lemma migrate_last:
  "map_of (foldl (\<lambda>contracts (k, addr). AList.update (baseKey k) (f k addr) contracts) m as) key =
     (case filter (\<lambda>(k, a). baseKey k = key) as of [] \<Rightarrow> map_of m key | e # es \<Rightarrow> Some (case_prod f (last (e # es))))"
proof (induction as rule: rev_induct)
  case (snoc x as)
  then show ?case
    by (cases x) (auto simp: AList.update_conv' split: list.splits)
qed simp

text \<open>C33: What a legacy file means after the migration, for every table and key: the key resolves to the address of the
  last entry of the table that stands for it, under the key with the suffix \<open>_ADDRESS\<close> or, for a key without the
  suffix, under the key itself; it does not resolve if there is no such entry or its address is empty. So where the
  table has no key both with and without the suffix, a key without it resolves to what the table gives for it, or else
  for it with the suffix.\<close>

theorem migration_equivalent:
  "resolve (loadState network now (Legacy data)) key =
     (case filter (\<lambda>(k, a). k = key @ ''_ADDRESS'' \<or> k = key \<and> \<not> endsWith key ''_ADDRESS'') (lg_addresses data) of
        [] \<Rightarrow> None
      | e # es \<Rightarrow> (let a = snd (last (e # es)) in if a = '''' then None else Some a)) \<and>
   (distinct (map (baseKey \<circ> fst) (lg_addresses data)) \<longrightarrow> \<not> endsWith key ''_ADDRESS'' \<longrightarrow>
     resolve (loadState network now (Legacy data)) key =
       (case truthyAt (lg_addresses data) key of Some a \<Rightarrow> Some a
        | None \<Rightarrow> truthyAt (lg_addresses data) (key @ ''_ADDRESS'')))"
proof (intro conjI impI migration_distinct)
  let ?as = "lg_addresses data"
  let ?f = "\<lambda>k addr. \<lparr>ci_address = addr, ci_block = map_of (lg_blocks data) k, ci_tx = map_of (lg_txs data) k\<rparr>"
  let ?cs = "foldl (\<lambda>contracts (k, addr). AList.update (baseKey k) (?f k addr) contracts) [] ?as"
  have "map_of (map (\<lambda>(k, c). (k, ci_address c)) ?cs) key = map_option ci_address (map_of ?cs key)"
    by (simp add: map_of_map)
  also have "\<dots> = (case filter (\<lambda>(k, a). baseKey k = key) ?as of [] \<Rightarrow> None | e # es \<Rightarrow> Some (snd (last (e # es))))"
    unfolding migrate_last by (auto split: list.split prod.split simp: case_prod_beta)
  finally show "resolve (loadState network now (Legacy data)) key =
     (case filter (\<lambda>(k, a). k = key @ ''_ADDRESS'' \<or> k = key \<and> \<not> endsWith key ''_ADDRESS'') ?as of
        [] \<Rightarrow> None
      | e # es \<Rightarrow> (let a = snd (last (e # es)) in if a = '''' then None else Some a))"
    unfolding baseKey_cases
    by (simp add: resolve_def migrate_def currentEntry_def resolveContract_def truthyAt_def Let_def split: list.splits option.splits)
qed

lemma migration_equivalent_witness:
  "resolve (loadState ''dev'' ''now'' (Legacy \<lparr>lg_network = '''', lg_generatedAt = '''',
      lg_addresses = [(''DAO_ADDRESS'', ''0x1''), (''TAT'', ''0x2'')], lg_blocks = [], lg_txs = []\<rparr>)) ''DAO'' = Some ''0x1''"
  by (subst conjunct1 [OF migration_equivalent]) (simp add: endsWith_def)

end
