(* ===== verification/DeployScripts.thy ===== *)
theory DeployScripts
  imports Registry World
begin

text \<open>
  The deployment scripts of \<open>scripts/deploy/\<close>, run in the order base, producers, tcash, crosschain, and
  ustn, bid, tokenlocker and wunit_wtcash beside them. They deploy proxies through the OpenZeppelin
  plugin of hardhat, enter every address in the registry and initialise the contracts. The plugin and
  ethers are parameters: what the node does for an operation, what waiting for it gives, and the
  read-only calls.
\<close>

section \<open>World\<close>

text \<open>An argument of a call; \<open>undefined\<close> when a contract was not found in the registry.\<close>

datatype arg = ArgStr "string option" | ArgNum nat | ArgList "string option list"

datatype hh_op =
    DeployProxy string "arg list" "string option"
  | CallMethod "string option" string string "arg list"
  | UpgradeProxyTo string string

record reply =
  rp_address :: string
  rp_hash :: string

text \<open>\<open>hw_state\<close> is the variable \<open>state\<close> of the script; the operations are on record with their outcome.\<close>

record 'c hworld =
  hw_chain :: 'c
  hw_file :: json_file
  hw_state :: dep_state
  hw_ops :: "(hh_op \<times> reply fallible) list"
  hw_lines :: "line list"

record 'c hardhat =
  h_exec :: "'c \<Rightarrow> hh_op \<Rightarrow> reply fallible \<times> 'c"
  h_wait :: "'c \<Rightarrow> hh_op \<Rightarrow> nat fallible"
  h_view :: "'c \<Rightarrow> string \<Rightarrow> string \<Rightarrow> jsval list \<Rightarrow> jsval fallible"
  h_code :: "'c \<Rightarrow> string \<Rightarrow> string fallible"
  h_signers :: "'c \<Rightarrow> string list fallible"
  h_factory :: "string \<Rightarrow> unit fallible"
  h_getAddress :: "string \<Rightarrow> string fallible"
  h_isoNow :: "'c \<Rightarrow> string"
  h_env :: "string \<Rightarrow> string option"

type_synonym ('c, 'a) hscript = "('c hworld, 'a) act"

definition tell :: "string \<Rightarrow> jsval list \<Rightarrow> ('c, unit) hscript" where
  "tell kind vals = (\<lambda>w. (Ok (), w\<lparr>hw_lines := hw_lines w @ [Line kind vals]\<rparr>))"

definition exec :: "'c hardhat \<Rightarrow> hh_op \<Rightarrow> ('c, reply) hscript" where
  "exec H op = (\<lambda>w. let (r, c) = h_exec H (hw_chain w) op;
       w1 = w\<lparr>hw_chain := c, hw_ops := hw_ops w @ [(op, r)]\<rparr>
     in case r of Inl e \<Rightarrow> (Throw e, w1) | Inr x \<Rightarrow> (Ok x, w1))"

definition query :: "('c \<Rightarrow> 'a fallible) \<Rightarrow> ('c, 'a) hscript" where
  "query f = (\<lambda>w. case f (hw_chain w) of Inl e \<Rightarrow> (Throw e, w) | Inr x \<Rightarrow> (Ok x, w))"

definition getState :: "('c, dep_state) hscript" where
  "getState = (\<lambda>w. (Ok (hw_state w), w))"

definition setState :: "dep_state \<Rightarrow> ('c, unit) hscript" where
  "setState s = (\<lambda>w. (Ok (), w\<lparr>hw_state := s\<rparr>))"

definition writeFile :: "dep_state \<Rightarrow> ('c, unit) hscript" where
  "writeFile s = (\<lambda>w. (Ok (), w\<lparr>hw_state := s, hw_file := saveState s\<rparr>))"

definition load :: "'c hardhat \<Rightarrow> string \<Rightarrow> ('c, unit) hscript" where
  "load H network = (\<lambda>w. (Ok (), w\<lparr>hw_state := loadState network (h_isoNow H (hw_chain w)) (hw_file w)\<rparr>))"

section \<open>What the scripts share\<close>

definition recordContract :: "string \<Rightarrow> string \<Rightarrow> nat \<Rightarrow> string \<Rightarrow> ('c, unit) hscript" where
  "recordContract name addr block hash =
     bind getState (\<lambda>state.
     bind (lift_err (setContract name \<lparr>ci_address = addr, ci_block = Some block, ci_tx = Some hash\<rparr> state)) (\<lambda>state.
     bind (tell ''recorded'' [JStr (baseKey name), JStr addr, JStr hash, JNum block]) (\<lambda>_.
     writeFile state)))"

definition deployProxyWithInfo ::
    "'c hardhat \<Rightarrow> string \<Rightarrow> arg list \<Rightarrow> string option \<Rightarrow> ('c, string \<times> nat \<times> string) hscript" where
  "deployProxyWithInfo H contract args init =
     bind (exec H (DeployProxy contract args init)) (\<lambda>r.
     bind (query (\<lambda>c. h_wait H c (DeployProxy contract args init))) (\<lambda>block.
     ret (rp_address r, block, rp_hash r)))"

definition deployAndRecord ::
    "'c hardhat \<Rightarrow> string \<Rightarrow> string \<Rightarrow> arg list \<Rightarrow> string option \<Rightarrow> ('c, string) hscript" where
  "deployAndRecord H key contract args init =
     bind (deployProxyWithInfo H contract args init) (\<lambda>(addr, block, hash).
     bind (recordContract key addr block hash) (\<lambda>_. ret addr))"

definition factories :: "'c hardhat \<Rightarrow> string list \<Rightarrow> ('c, unit) hscript" where
  "factories H names = forEach names (\<lambda>n. lift_err (h_factory H n))"

definition requireEntry :: "string \<Rightarrow> ('c, unit) hscript" where
  "requireEntry msg = bind getState (\<lambda>state. if ds_entries state = [] then throw msg else ret ())"

text \<open>\<open>resolveContract(entry, state, key)\<close> for the current entry of the script's state.\<close>

definition lookup :: "string \<Rightarrow> ('c, string option) hscript" where
  "lookup key = bind getState (\<lambda>state. ret (resolve state key))"

definition requireKeys :: "string \<Rightarrow> string list \<Rightarrow> ('c, unit) hscript" where
  "requireKeys hint keys = forEach keys (\<lambda>k.
     bind (lookup k) (\<lambda>a. if a = None then throw (''Missing '' @ k @ hint) else ret ()))"

definition send :: "'c hardhat \<Rightarrow> string option \<Rightarrow> string \<Rightarrow> string \<Rightarrow> arg list \<Rightarrow> ('c, unit) hscript" where
  "send H from target method args = bind (exec H (CallMethod from target method args)) (\<lambda>_. ret ())"

definition sendWait :: "'c hardhat \<Rightarrow> string option \<Rightarrow> string \<Rightarrow> string \<Rightarrow> arg list \<Rightarrow> ('c, unit) hscript" where
  "sendWait H from target method args =
     bind (exec H (CallMethod from target method args)) (\<lambda>_.
     bind (query (\<lambda>c. h_wait H c (CallMethod from target method args))) (\<lambda>_. ret ()))"

text \<open>\<open>main().catch(...)\<close> at the end of every script.\<close>

definition runMain :: "('c, unit) hscript \<Rightarrow> ('c, unit) hscript" where
  "runMain m = catch m (\<lambda>e. bind (tell ''error'' [JStr e]) (\<lambda>_. process_exit 1))"

abbreviation str :: "string \<Rightarrow> arg" where
  "str s \<equiv> ArgStr (Some s)"

abbreviation strs :: "string list \<Rightarrow> arg" where
  "strs ss \<equiv> ArgList (map Some ss)"

section \<open>base.js\<close>

definition base_main :: "'c hardhat \<Rightarrow> string \<Rightarrow> ('c, unit) hscript" where
  "base_main H network = runMain (
     bind (load H network) (\<lambda>_.
     bind getState (\<lambda>state.
     bind (query (\<lambda>c. Inr (h_isoNow H c))) (\<lambda>now.
     bind (setState (startNewEntry network now state)) (\<lambda>_.
     bind (factories H [''DAO'', ''MulSig'', ''Roles'', ''ParameterInfo'', ''Oracle'']) (\<lambda>_.
     bind (deployAndRecord H ''DAO'' ''DAO'' [] None) (\<lambda>dao.
     bind (deployAndRecord H ''MULSIG'' ''MulSig'' [] None) (\<lambda>mulSig.
     bind (deployAndRecord H ''ROLES'' ''Roles'' [] None) (\<lambda>roles.
     bind (deployAndRecord H ''PARAMETER_INFO'' ''ParameterInfo'' [] None) (\<lambda>parameterInfo.
     bind (deployAndRecord H ''ORACLE'' ''Oracle'' [] None) (\<lambda>oracle.
     bind (sendWait H None dao ''initialize'' [str ''DAO'', ArgNum 2, ArgNum 10]) (\<lambda>_.
     bind (sendWait H None parameterInfo ''initialize'' [str mulSig]) (\<lambda>_.
     bind (sendWait H None oracle ''initialize'' [str roles]) (\<lambda>_.
     tell ''base-complete'' []))))))))))))))"

section \<open>bid.js, tokenlocker.js and wunit_wtcash.js\<close>

definition bid_main :: "'c hardhat \<Rightarrow> string \<Rightarrow> ('c, unit) hscript" where
  "bid_main H network = runMain (
     bind (load H network) (\<lambda>_.
     bind (factories H [''Bid'']) (\<lambda>_.
     bind (deployAndRecord H ''BID'' ''Bid'' [] (Some ''initialize'')) (\<lambda>_.
     tell ''bid-deployed'' []))))"

definition tokenlocker_main :: "'c hardhat \<Rightarrow> string \<Rightarrow> ('c, unit) hscript" where
  "tokenlocker_main H network = runMain (
     bind (load H network) (\<lambda>_.
     bind (factories H [''TokenLocker'']) (\<lambda>_.
     bind (deployAndRecord H ''TOKENLOCKER'' ''TokenLocker'' [] (Some ''initialize'')) (\<lambda>_.
     tell ''tokenlocker-deployed'' []))))"

definition wunit_wtcash_main :: "'c hardhat \<Rightarrow> string \<Rightarrow> ('c, unit) hscript" where
  "wunit_wtcash_main H network = runMain (
     bind (load H network) (\<lambda>_.
     bind (requireEntry ''No deployment entry; run base first.'') (\<lambda>_.
     bind (factories H [''WTCASH'', ''WUNIT'']) (\<lambda>_.
     bind (deployAndRecord H ''WTCASH'' ''WTCASH'' [strs []] (Some ''initialize'')) (\<lambda>_.
     bind (deployAndRecord H ''WUNIT'' ''WUNIT'' [strs []] (Some ''initialize'')) (\<lambda>_.
     tell ''wrapped-deployed'' []))))))"

section \<open>producers.js\<close>

definition producers_required :: "string list" where
  "producers_required = [''MULSIG'', ''ROLES'', ''PARAMETER_INFO'', ''ORACLE'']"

text \<open>One producer and its data contract.\<close>

definition initializeProducer ::
    "'c hardhat \<Rightarrow> string \<Rightarrow> string \<Rightarrow> string \<Rightarrow> string option \<times> string option \<times> string option \<times> string option \<Rightarrow>
      string \<Rightarrow> ('c, unit) hscript" where
  "initializeProducer H kind producer data = (\<lambda>(mulSig, roles, oracle, parameterInfo) tat.
     bind (send H None producer ''initialize'' [ArgStr mulSig, ArgStr roles, str kind, str data, strs [], strs []]) (\<lambda>_.
     send H None data ''initialize'' [str kind, ArgStr oracle, ArgStr roles, ArgStr parameterInfo, str producer, str tat]))"

definition producers_main :: "'c hardhat \<Rightarrow> string \<Rightarrow> ('c, unit) hscript" where
  "producers_main H network = runMain (
     bind (load H network) (\<lambda>_.
     bind (requireEntry ''No deployment entry; run base first.'') (\<lambda>_.
     bind (factories H [''MulSig'', ''Roles'', ''Oracle'', ''Governance'', ''TAT'', ''OilProducer'', ''GasProducer'',
                        ''EthProducer'', ''BtcProducer'', ''OilData'', ''GasData'', ''EthData'', ''BtcData'']) (\<lambda>_.
     bind (requireKeys ''; ensure base step completed'' producers_required) (\<lambda>_.
     bind (deployAndRecord H ''OIL_PRODUCER'' ''OilProducer'' [] None) (\<lambda>op.
     bind (deployAndRecord H ''OIL_DATA'' ''OilData'' [] None) (\<lambda>od.
     bind (deployAndRecord H ''GAS_PRODUCER'' ''GasProducer'' [] None) (\<lambda>gp.
     bind (deployAndRecord H ''GAS_DATA'' ''GasData'' [] None) (\<lambda>gd.
     bind (deployAndRecord H ''ETH_PRODUCER'' ''EthProducer'' [] None) (\<lambda>ep.
     bind (deployAndRecord H ''ETH_DATA'' ''EthData'' [] None) (\<lambda>ed.
     bind (deployAndRecord H ''BTC_PRODUCER'' ''BtcProducer'' [] None) (\<lambda>bp.
     bind (deployAndRecord H ''BTC_DATA'' ''BtcData'' [] None) (\<lambda>bd.
     bind (lookup ''DAO'') (\<lambda>dao.
     bind (lookup ''MULSIG'') (\<lambda>mulSig.
     bind (lookup ''ROLES'') (\<lambda>roles.
     bind (lookup ''PARAMETER_INFO'') (\<lambda>parameterInfo.
     bind (deployAndRecord H ''GOVERNANCE'' ''Governance''
             [ArgStr dao, ArgStr mulSig, ArgStr roles, ArgStr parameterInfo, strs [''OIL'', ''GAS'', ''ETH'', ''BTC''],
              strs [op, gp, ep, bp], strs [od, gd, ed, bd]] (Some ''initialize'')) (\<lambda>gov.
     bind (deployAndRecord H ''TAT'' ''TAT'' [str ''Rep'', str ''REP'', str gov] (Some ''initialize'')) (\<lambda>tat.
     bind (lookup ''MULSIG'') (\<lambda>mulSig.
     bind (lookup ''ROLES'') (\<lambda>roles.
     bind (lookup ''ORACLE'') (\<lambda>oracle.
     bind (lookup ''PARAMETER_INFO'') (\<lambda>parameterInfo.
     bind (initializeProducer H ''OIL'' op od (mulSig, roles, oracle, parameterInfo) tat) (\<lambda>_.
     bind (initializeProducer H ''GAS'' gp gd (mulSig, roles, oracle, parameterInfo) tat) (\<lambda>_.
     bind (initializeProducer H ''ETH'' ep ed (mulSig, roles, oracle, parameterInfo) tat) (\<lambda>_.
     bind (initializeProducer H ''BTC'' bp bd (mulSig, roles, oracle, parameterInfo) tat) (\<lambda>_.
     tell ''producers-deployed'' [])))))))))))))))))))))))))))"

section \<open>tcash.js and ustn.js\<close>

definition firstSigner :: "'c hardhat \<Rightarrow> ('c, string) hscript" where
  "firstSigner H = bind (query (h_signers H)) (\<lambda>signers.
     case signers of [] \<Rightarrow> throw ''Cannot read properties of undefined (reading 'address')'' | s # _ \<Rightarrow> ret s)"

definition tcash_required :: "string list" where
  "tcash_required = [''ROLES'', ''ORACLE'', ''TAT'']"

definition tcash_main :: "'c hardhat \<Rightarrow> string \<Rightarrow> ('c, unit) hscript" where
  "tcash_main H network = runMain (
     bind (load H network) (\<lambda>_.
     bind (requireEntry ''No deployment entry; run base and producers.'') (\<lambda>_.
     bind (factories H [''TCash'', ''WTCASH'', ''WUNIT'', ''TCashLoan'', ''TCashAuction'', ''TATManager'']) (\<lambda>_.
     bind (requireKeys ''; ensure base and producers steps completed'' tcash_required) (\<lambda>_.
     bind (lookup ''ROLES'') (\<lambda>roles.
     bind (lookup ''ORACLE'') (\<lambda>oracle.
     bind (firstSigner H) (\<lambda>signer.
     bind (deployAndRecord H ''TCASH'' ''TCash'' [str signer] (Some ''initialize'')) (\<lambda>tcash.
     bind (deployAndRecord H ''WTCASH'' ''WTCASH'' [strs []] (Some ''initialize'')) (\<lambda>wtcash.
     bind (deployAndRecord H ''WUNIT'' ''WUNIT'' [strs []] (Some ''initialize'')) (\<lambda>wunit.
     bind (deployAndRecord H ''TAT_MANAGER'' ''TATManager'' [ArgStr roles] (Some ''initialize'')) (\<lambda>tatManager.
     bind (deployAndRecord H ''TCASH_LOAN'' ''TCashLoan'' [] None) (\<lambda>tcashLoan.
     bind (deployAndRecord H ''TCASH_AUCTION'' ''TCashAuction'' [ArgStr roles, str tcash, str tcashLoan]
             (Some ''initialize'')) (\<lambda>tcashAuction.
     bind (sendWait H None tcash ''setRoles'' [ArgStr roles]) (\<lambda>_.
     bind (sendWait H None tcash ''setOracle'' [ArgStr oracle]) (\<lambda>_.
     tell ''tcash-complete'' []))))))))))))))))"

definition ustn_required :: "string list" where
  "ustn_required = [''ROLES'', ''ORACLE'', ''PARAMETER_INFO'']"

definition ustn_main :: "'c hardhat \<Rightarrow> string \<Rightarrow> ('c, unit) hscript" where
  "ustn_main H network = runMain (
     bind (load H network) (\<lambda>_.
     bind (requireEntry ''Missing dependencies; run previous steps.'') (\<lambda>_.
     bind (factories H [''USTN'', ''USTNAuction'', ''USTNFinance'']) (\<lambda>_.
     bind (requireKeys ''; ensure previous steps completed'' ustn_required) (\<lambda>_.
     bind (lookup ''ROLES'') (\<lambda>roles.
     bind (lookup ''ORACLE'') (\<lambda>oracle.
     bind (lookup ''PARAMETER_INFO'') (\<lambda>parameterInfo.
     bind (deployAndRecord H ''USTN'' ''USTN'' [] None) (\<lambda>ustn.
     bind (deployAndRecord H ''USTN_AUCTION'' ''USTNAuction'' [] None) (\<lambda>auction.
     bind (deployAndRecord H ''USTN_FINANCE'' ''USTNFinance'' [] None) (\<lambda>finance.
     bind (send H None auction ''initialize'' [ArgStr roles, str ustn, str finance]) (\<lambda>_.
     bind (send H None finance ''initialize'' [ArgStr roles, ArgStr parameterInfo, ArgStr oracle, str ustn, str auction]) (\<lambda>_.
     bind (send H None ustn ''initialize'' [ArgStr roles, ArgStr oracle, str auction, str finance]) (\<lambda>_.
     tell ''ustn-complete'' []))))))))))))))"

section \<open>crosschain.js\<close>

definition isSpace :: "char \<Rightarrow> bool" where
  "isSpace c \<longleftrightarrow> (let n = of_char c :: nat in 9 \<le> n \<and> n \<le> 13 \<or> n = 32 \<or> n = 160)"

definition trim :: "string \<Rightarrow> string" where
  "trim s = rev (dropWhile isSpace (rev (dropWhile isSpace s)))"

definition normalizeAddress :: "'c hardhat \<Rightarrow> string option \<Rightarrow> string \<Rightarrow> string \<Rightarrow> ('c, string) hscript" where
  "normalizeAddress H val label fallback =
     (let target = orElse (trim (case val of None \<Rightarrow> '''' | Some s \<Rightarrow> s)) fallback in
      catch (lift_err (h_getAddress H target)) (\<lambda>_. throw (''Invalid '' @ label @ '' address: '' @ target)))"

definition crosschain_required :: "string list" where
  "crosschain_required = [''DAO'', ''MULSIG'', ''ROLES'', ''PARAMETER_INFO'', ''ORACLE'', ''GOVERNANCE'', ''TCASH'',
     ''TCASH_LOAN'', ''TCASH_AUCTION'', ''TAT'']"

text \<open>Every required address must have code.\<close>

definition requireCode :: "'c hardhat \<Rightarrow> string \<Rightarrow> string list \<Rightarrow> ('c, unit) hscript" where
  "requireCode H network keys = forEach keys (\<lambda>k.
     bind (lookup k) (\<lambda>a.
     bind (query (\<lambda>c. h_code H c (the a))) (\<lambda>code.
     if code = '''' \<or> code = ''0x'' then throw (''Address for '' @ k @ '' ('' @ the a @
       '') has no contract code on '' @ network @ ''; rerun earlier steps'') else ret ())))"

definition viewBool :: "'c hardhat \<Rightarrow> string \<Rightarrow> string \<Rightarrow> jsval list \<Rightarrow> ('c, bool) hscript" where
  "viewBool H target method args =
     bind (query (\<lambda>c. h_view H c target method args)) (\<lambda>v. ret (truthy v))"

fun viewText :: "jsval \<Rightarrow> string" where
  "viewText (JStr s) = s"
| "viewText _ = ''''"

text \<open>The loan contract must be set up by its owner, if that is one of the local signers.\<close>

definition setAuctionContract :: "'c hardhat \<Rightarrow> string \<Rightarrow> ('c, unit) hscript" where
  "setAuctionContract H tcashLoan =
     bind (query (\<lambda>c. h_view H c tcashLoan ''owner'' [])) (\<lambda>v.
     let loanOwner = viewText v in
     bind (query (h_signers H)) (\<lambda>signers.
     case find (\<lambda>s. toLowerCase s = toLowerCase loanOwner) signers of
       None \<Rightarrow> throw (''Owner '' @ loanOwner @ '' not available in local signers; cannot setAuctionContract'')
     | Some ownerSigner \<Rightarrow>
         bind (lookup ''TCASH_AUCTION'') (\<lambda>auction.
         sendWait H (Some ownerSigner) tcashLoan ''setAuctionContract'' [ArgStr auction])))"

text \<open>The two roles of the loan contract that \<open>initialize\<close> must have granted.\<close>

definition checkLoanRoles :: "'c hardhat \<Rightarrow> string \<Rightarrow> string \<Rightarrow> ('c, unit) hscript" where
  "checkLoanRoles H roles tcashLoan =
     bind (query (\<lambda>c. h_view H c roles ''TCASH_MINTER'' [])) (\<lambda>minter.
     bind (query (\<lambda>c. h_view H c roles ''TCASH_BURNER'' [])) (\<lambda>burner.
     bind (viewBool H roles ''hasRole'' [minter, JStr tcashLoan]) (\<lambda>isMinter.
     bind (if isMinter then viewBool H roles ''hasRole'' [burner, JStr tcashLoan] else ret False) (\<lambda>both.
     if \<not> both then throw (''TCashLoan '' @ tcashLoan @ '' missing TCASH_MINTER/TCASH_BURNER after Roles.initialize'')
     else tell ''roles-initialized'' []))))"

definition grantFoundationManager :: "'c hardhat \<Rightarrow> string \<Rightarrow> ('c, unit) hscript" where
  "grantFoundationManager H roles =
     bind (query (\<lambda>c. h_view H c roles ''FOUNDATION_MANAGER'' [])) (\<lambda>fm.
     bind (firstSigner H) (\<lambda>signer.
     bind (viewBool H roles ''hasRole'' [fm, JStr signer]) (\<lambda>has.
     whenA (\<not> has)
       (bind (firstSigner H) (\<lambda>signer.
        bind (sendWait H None roles ''grantRole'' [str (viewText fm), str signer]) (\<lambda>_.
        bind (firstSigner H) (\<lambda>signer.
        tell ''granted'' [JStr signer])))))))"

text \<open>From the deployment of the token registry on.\<close>

definition crosschain_deploy :: "'c hardhat \<Rightarrow> string \<Rightarrow> string \<Rightarrow> ('c, unit) hscript" where
  "crosschain_deploy H deployer user =
     bind (lookup ''MULSIG'') (\<lambda>mulSig.
     bind (lookup ''ROLES'') (\<lambda>roles.
     bind (lookup ''ORACLE'') (\<lambda>oracle.
     bind (lookup ''PARAMETER_INFO'') (\<lambda>parameterInfo.
     bind (lookup ''TCASH'') (\<lambda>tcash.
     bind (lookup ''TCASH_LOAN'') (\<lambda>tcashLoan.
     bind (lookup ''TCASH_AUCTION'') (\<lambda>tcashAuction.
     bind (lookup ''TAT'') (\<lambda>tat.
     bind (deployAndRecord H ''CROSSCHAIN_TOKENS'' ''CrosschainTokens''
             [str ''0x0000000000000000000000000000000000000000''] (Some ''initialize'')) (\<lambda>cct.
     bind (deployAndRecord H ''CROSSCHAIN_BRIDGE'' ''CrosschainBridge'' [str cct, ArgStr roles] (Some ''initialize'')) (\<lambda>ccb.
     bind (sendWait H None cct ''setMulSig'' [ArgStr mulSig]) (\<lambda>_.
     bind (lookup ''DAO'') (\<lambda>dao.
     bind (lookup ''GOVERNANCE'') (\<lambda>governance.
     bind (sendWait H None (the mulSig) ''initialize''
             [ArgStr dao, ArgStr governance, ArgStr roles, ArgStr parameterInfo, str cct, ArgNum 5]) (\<lambda>_.
     bind (tell ''mulsig-initialized'' []) (\<lambda>_.
     bind (sendWait H None (the roles) ''initialize''
             [ArgStr mulSig, strs [deployer, user], strs [deployer, user],
              ArgList [oracle, Some deployer, Some user], strs [ccb, deployer, user],
              ArgList [tcash, tcashLoan, tcashAuction, Some deployer, Some user, Some ccb, Some cct]]) (\<lambda>_.
     bind (checkLoanRoles H (the roles) (the tcashLoan)) (\<lambda>_.
     bind (sendWait H None (the tcashLoan) ''initialize''
             [ArgStr tcash, ArgStr roles, ArgStr parameterInfo, ArgStr oracle, ArgStr tat]) (\<lambda>_.
     bind (setAuctionContract H (the tcashLoan)) (\<lambda>_.
     bind (grantFoundationManager H (the roles)) (\<lambda>_.
     bind (sendWait H None (the oracle) ''updatePrice'' [str ''UNIT'', ArgNum (5 * 10 ^ 17)]) (\<lambda>_.
     bind (sendWait H None (the oracle) ''updatePrice'' [str ''TCASH'', ArgNum (5 * 10 ^ 17)]) (\<lambda>_.
     bind (tell ''oracle-initialized'' []) (\<lambda>_.
     tell ''crosschain-complete'' [])))))))))))))))))))))))"

text \<open>The two addresses are read when the module is loaded, before \<open>main\<close> and outside its handler.\<close>

definition crosschain_main :: "'c hardhat \<Rightarrow> string \<Rightarrow> ('c, unit) hscript" where
  "crosschain_main H network =
     bind (normalizeAddress H (h_env H ''DEPLOYER_ADDR'') ''DEPLOYER_ADDR''
             ''0x6A79824E6be14b7e5Cb389527A02140935a76cD5'') (\<lambda>deployer.
     bind (normalizeAddress H (h_env H ''USER_ADDR'') ''USER_ADDR''
             ''0x09eda46ffcec4656235391dd298875b82aa458a9'') (\<lambda>user.
     runMain (
       bind (load H network) (\<lambda>_.
       bind (requireEntry ''No deployment entry; run previous steps.'') (\<lambda>_.
       bind (factories H [''MulSig'', ''Roles'', ''Oracle'', ''TCashLoan'', ''CrosschainTokens'', ''CrosschainBridge'']) (\<lambda>_.
       bind (requireKeys ''; ensure previous steps completed'' crosschain_required) (\<lambda>_.
       bind (requireCode H network crosschain_required) (\<lambda>_.
       crosschain_deploy H deployer user))))))))"

end
