(* ===== verification/DeploySafety.thy ===== *)
theory DeploySafety
  imports DeployScripts
begin

text \<open>
  What the deployment scripts promise about the registry: the entries of earlier deployments are never
  touched, every address they record is the answer to a deployment of the same run, and the steps run
  in their order leave every contract recorded that a later step requires.
\<close>

section \<open>What a script may do to the registry\<close>

text \<open>The recorded contract is the answer to one of the deployments \<open>ops\<close>.\<close>

definition fromRun :: "(hh_op \<times> reply fallible) list \<Rightarrow> contract_info \<Rightarrow> bool" where
  "fromRun ops i = list_ex (\<lambda>(op, r). case (op, r) of
       (DeployProxy c as init, Inr x) \<Rightarrow> ci_address i = rp_address x \<and> ci_tx i = Some (rp_hash x)
     | _ \<Rightarrow> False) ops"

definition entriesFrom :: "(hh_op \<times> reply fallible) list \<Rightarrow> dep_state \<Rightarrow> dep_state \<Rightarrow> bool" where
  "entriesFrom ops s s' \<longleftrightarrow> ds_addresses s' = ds_addresses s \<and>
     (case (ds_entries s, ds_entries s') of
        ([], []) \<Rightarrow> True
      | (e # es, e' # es') \<Rightarrow> es' = es \<and> en_network e' = en_network e \<and> en_generatedAt e' = en_generatedAt e \<and>
          list_all (\<lambda>(k, i). (k, i) \<in> set (en_contracts e) \<or> fromRun ops i) (en_contracts e')
      | _ \<Rightarrow> False)"

definition grown :: "'c hworld \<Rightarrow> 'c hworld \<Rightarrow> bool" where
  "grown w w' \<longleftrightarrow> (\<exists>ops. hw_ops w' = hw_ops w @ ops \<and> entriesFrom ops (hw_state w) (hw_state w')) \<and>
     (hw_state w' = hw_state w \<and> hw_file w' = hw_file w \<or> hw_file w' = Entries (hw_state w'))"

lemma fromRun_append [simp]: "fromRun (ops @ ops') i \<longleftrightarrow> fromRun ops i \<or> fromRun ops' i"
  by (simp add: fromRun_def)

lemma fromRun_Nil [simp]: "\<not> fromRun [] i"
  by (simp add: fromRun_def)

lemma entriesFrom_refl [simp]: "entriesFrom ops s s"
  by (auto simp: entriesFrom_def list_all_iff split: list.split)

lemma entriesFrom_trans:
  "entriesFrom ops s t \<Longrightarrow> entriesFrom ops' t u \<Longrightarrow> entriesFrom (ops @ ops') s u"
  by (auto simp: entriesFrom_def list_all_iff split: list.splits)

interpretation gr: frame_rel grown
proof
  fix u v w :: "'c hworld"
  show "grown w w" by (simp add: grown_def)
  assume uv: "grown u v" and vw: "grown v w"
  from uv obtain ops where "hw_ops v = hw_ops u @ ops" "entriesFrom ops (hw_state u) (hw_state v)"
    by (auto simp: grown_def)
  moreover from vw obtain ops' where "hw_ops w = hw_ops v @ ops'" "entriesFrom ops' (hw_state v) (hw_state w)"
    by (auto simp: grown_def)
  ultimately have "hw_ops w = hw_ops u @ (ops @ ops') \<and> entriesFrom (ops @ ops') (hw_state u) (hw_state w)"
    by (simp add: entriesFrom_trans)
  with uv vw show "grown u w" unfolding grown_def by metis
qed

lemma grown_tell: "keeps grown (tell k vs)"
  by (simp add: keeps_def tell_def grown_def)

lemma grown_query: "keeps grown (query f)"
  by (auto simp: keeps_def query_def gr.rel_refl split: sum.split)

lemma grown_getState: "keeps grown getState"
  by (simp add: keeps_def getState_def gr.rel_refl)

lemma grown_exec: "keeps grown (exec H op)"
  by (auto simp: keeps_def exec_def grown_def Let_def split: sum.split prod.split)

lemma setContract_entries:
  assumes "setContract n i s = Inr s'" and "fromRun ops i"
  shows "entriesFrom ops s s'"
proof -
  obtain e es where e: "ds_entries s = e # es"
    using assms(1) by (cases "ds_entries s") (simp_all add: setContract_def currentEntry_def)
  have "(k, j) \<in> set m \<or> (k, j) = (k', i')" if "(k, j) \<in> set (AList.update k' i' m)" for k j k' i' m
    using that by (induction m) (auto split: if_splits)
  with assms e show ?thesis
    by (fastforce simp: setContract_def currentEntry_def entriesFrom_def list_all_iff)
qed

text \<open>A deployment and its record.\<close>

lemma grown_deployAndRecord: "keeps grown (deployAndRecord H key contract args init)"
  unfolding keeps_def
proof
  fix w :: "'a hworld"
  let ?op = "DeployProxy contract args init"
  obtain r c where r: "h_exec H (hw_chain w) ?op = (r, c)" by (cases "h_exec H (hw_chain w) ?op")
  let ?w = "w\<lparr>hw_chain := c, hw_ops := hw_ops w @ [(?op, r)]\<rparr>"
  have w: "grown w ?w" by (simp add: grown_def)
  show "grown w (snd (deployAndRecord H key contract args init w))"
  proof (cases r)
    case (Inl e)
    with w r show ?thesis
      by (simp add: deployAndRecord_def deployProxyWithInfo_def exec_def js_simps)
  next
    case x: (Inr x)
    show ?thesis
    proof (cases "h_wait H c ?op")
      case (Inl e)
      with w r x show ?thesis
        by (simp add: deployAndRecord_def deployProxyWithInfo_def exec_def query_def js_simps)
    next
      case b: (Inr b)
      let ?i = "\<lparr>ci_address = rp_address x, ci_block = Some b, ci_tx = Some (rp_hash x)\<rparr>"
      have "fromRun [(?op, r)] ?i" by (simp add: fromRun_def x)
      then have "entriesFrom [(?op, r)] (hw_state w) s'" if "setContract key ?i (hw_state w) = Inr s'" for s'
        using that setContract_entries by blast
      with w r x b show ?thesis
        by (cases "setContract key ?i (hw_state w)")
          (auto simp: deployAndRecord_def deployProxyWithInfo_def recordContract_def exec_def query_def getState_def
            tell_def writeFile_def saveState_def grown_def js_simps)
    qed
  qed
qed

lemmas gr_calls = grown_tell grown_query grown_getState grown_exec grown_deployAndRecord

lemma grown_shared:
  "keeps grown (factories H names)"
  "keeps grown (requireEntry msg)"
  "keeps grown (lookup key)"
  "keeps grown (requireKeys hint keys)"
  "keeps grown (send H from target method args)"
  "keeps grown (sendWait H from target method args)"
  "keeps grown (firstSigner H)"
  "keeps grown (viewBool H target method vs)"
  unfolding factories_def requireEntry_def lookup_def requireKeys_def send_def sendWait_def firstSigner_def viewBool_def
  by (auto intro!: gr.keeps_intros gr_calls split: list.split)

section \<open>The scripts\<close>

text \<open>The file is as before, or what a run that starts from the registry \<open>s\<close> may make of it.\<close>

definition recorded :: "dep_state \<Rightarrow> 'c hworld \<Rightarrow> 'c hworld \<Rightarrow> bool" where
  "recorded s w w' \<longleftrightarrow> hw_file w' = hw_file w \<or>
     hw_file w' = Entries (hw_state w') \<and> entriesFrom (drop (length (hw_ops w)) (hw_ops w')) s (hw_state w')"

lemma grown_runMain: "keeps grown m \<Longrightarrow> keeps grown (runMain m)"
  unfolding runMain_def by (intro gr.keeps_intros gr_calls)

lemma grown_recorded: "grown (w\<lparr>hw_state := s\<rparr>) w' \<Longrightarrow> recorded s w w'"
  by (auto simp: grown_def recorded_def)

lemma recorded_refl: "recorded s w w"
  by (simp add: recorded_def)

lemma runMain_load:
  "runMain (bind (load H network) (\<lambda>_. m)) w =
     runMain m (w\<lparr>hw_state := loadState network (h_isoNow H (hw_chain w)) (hw_file w)\<rparr>)"
  by (simp add: runMain_def load_def bind_def catch_def)

lemma recorded_run: "keeps grown m \<Longrightarrow> recorded s w (snd (runMain m (w\<lparr>hw_state := s\<rparr>)))"
  using grown_runMain [of m] unfolding keeps_def by (blast intro: grown_recorded)

lemma recorded_script:
  assumes "keeps grown m"
  shows "recorded (loadState network (h_isoNow H (hw_chain w)) (hw_file w)) w
    (snd (runMain (bind (load H network) (\<lambda>_. m)) w))"
  unfolding runMain_load by (rule recorded_run [OF assms])

lemma normalizeAddress_world [simp]: "snd (normalizeAddress H v label fallback w) = w"
  by (cases "h_getAddress H (orElse (trim (case v of None \<Rightarrow> '''' | Some s \<Rightarrow> s)) fallback)")
    (simp_all add: normalizeAddress_def js_simps)

lemma grown_crosschain: "keeps grown (crosschain_deploy H deployer user)"
  unfolding crosschain_deploy_def checkLoanRoles_def setAuctionContract_def grantFoundationManager_def Let_def
  by (auto intro!: gr.keeps_intros gr_calls grown_shared split: option.split)

lemma recorded_crosschain:
  "recorded (loadState network (h_isoNow H (hw_chain w)) (hw_file w)) w (snd (crosschain_main H network w))"
proof -
  have read: "\<exists>r. normalizeAddress H v label fallback w = (r, w)" for v label fallback
    by (metis normalizeAddress_world surjective_pairing)
  obtain a where a: "normalizeAddress H (h_env H ''DEPLOYER_ADDR'') ''DEPLOYER_ADDR''
      ''0x6A79824E6be14b7e5Cb389527A02140935a76cD5'' w = (a, w)"
    using read by blast
  obtain b where b: "normalizeAddress H (h_env H ''USER_ADDR'') ''USER_ADDR''
      ''0x09eda46ffcec4656235391dd298875b82aa458a9'' w = (b, w)"
    using read by blast
  have body: "keeps grown (bind (requireEntry ''No deployment entry; run previous steps.'') (\<lambda>_.
     bind (factories H [''MulSig'', ''Roles'', ''Oracle'', ''TCashLoan'', ''CrosschainTokens'', ''CrosschainBridge'']) (\<lambda>_.
     bind (requireKeys ''; ensure previous steps completed'' crosschain_required) (\<lambda>_.
     bind (requireCode H network crosschain_required) (\<lambda>_. crosschain_deploy H deployer user)))))"
    for deployer user
    unfolding requireCode_def by (intro gr.keeps_intros gr_calls grown_shared grown_crosschain)
  show ?thesis
    by (cases a; cases b) (simp_all add: crosschain_main_def js_simps a b recorded_script [OF body] recorded_refl)
qed

definition freshEntry :: "'c hardhat \<Rightarrow> string \<Rightarrow> 'c hworld \<Rightarrow> dep_state" where
  "freshEntry H network w =
     startNewEntry network (h_isoNow H (hw_chain w)) (loadState network (h_isoNow H (hw_chain w)) (hw_file w))"

lemma base_start:
  "runMain (bind (load H network) (\<lambda>_. bind getState (\<lambda>state. bind (query (\<lambda>c. Inr (h_isoNow H c))) (\<lambda>now.
     bind (setState (startNewEntry network now state)) (\<lambda>_. m))))) w =
   runMain m (w\<lparr>hw_state := freshEntry H network w\<rparr>)"
  by (simp add: runMain_load freshEntry_def) (simp add: runMain_def getState_def query_def setState_def bind_def catch_def)

lemma recorded_base: "recorded (freshEntry H network w) w (snd (base_main H network w))"
  unfolding base_main_def base_start
  by (rule recorded_run, intro gr.keeps_intros gr_calls grown_shared)

lemma grown_initializeProducer: "keeps grown (initializeProducer H kind producer data refs tat)"
  unfolding initializeProducer_def by (cases refs) (simp add: gr.keeps_bind grown_shared)

lemma recorded_scripts:
  "recorded (loadState network (h_isoNow H (hw_chain w)) (hw_file w)) w (snd (bid_main H network w))"
  "recorded (loadState network (h_isoNow H (hw_chain w)) (hw_file w)) w (snd (tokenlocker_main H network w))"
  "recorded (loadState network (h_isoNow H (hw_chain w)) (hw_file w)) w (snd (wunit_wtcash_main H network w))"
  "recorded (loadState network (h_isoNow H (hw_chain w)) (hw_file w)) w (snd (producers_main H network w))"
  "recorded (loadState network (h_isoNow H (hw_chain w)) (hw_file w)) w (snd (tcash_main H network w))"
  "recorded (loadState network (h_isoNow H (hw_chain w)) (hw_file w)) w (snd (ustn_main H network w))"
  unfolding bid_main_def tokenlocker_main_def wunit_wtcash_main_def producers_main_def tcash_main_def ustn_main_def
  by (rule recorded_script, intro gr.keeps_intros gr_calls grown_shared grown_initializeProducer)+

text \<open>C32: Whatever fails, a deployment script leaves the entries of earlier deployments and the legacy addresses
  of the registry as they are, and every contract it adds to the current entry is the address and transaction of
  a deployment of that run; \<open>base.js\<close> does so on a fresh entry.\<close>

theorem deploy_history:
  "list_all (\<lambda>script. recorded (loadState network (h_isoNow H (hw_chain w)) (hw_file w)) w (snd (script H network w)))
     [producers_main, tcash_main, crosschain_main, ustn_main, bid_main, tokenlocker_main, wunit_wtcash_main] \<and>
   recorded (freshEntry H network w) w (snd (base_main H network w))"
  by (simp add: recorded_base recorded_crosschain recorded_scripts)

section \<open>The order of the steps\<close>

text \<open>A normal return of the action keeps every name resolved and adds the names \<open>ks\<close>.\<close>

definition records :: "string list \<Rightarrow> ('c, 'a) hscript \<Rightarrow> bool" where
  "records ks m \<longleftrightarrow> (\<forall>w x w'. ds_entries (hw_state w) \<noteq> [] \<longrightarrow> m w = (Ok x, w') \<longrightarrow>
     ds_entries (hw_state w') \<noteq> [] \<and>
     (\<forall>k. resolve (hw_state w') k = None \<longrightarrow> resolve (hw_state w) k = None \<and> k \<notin> set ks) \<and>
     (ks \<noteq> [] \<or> hw_file w = Entries (hw_state w) \<longrightarrow> hw_file w' = Entries (hw_state w')))"

definition sameRegistry :: "'c hworld \<Rightarrow> 'c hworld \<Rightarrow> bool" where
  "sameRegistry w w' \<longleftrightarrow> hw_state w' = hw_state w \<and> hw_file w' = hw_file w"

interpretation same: frame_rel sameRegistry
  by unfold_locales (simp_all add: sameRegistry_def)

lemma same_calls:
  "keeps sameRegistry (tell k vs)"
  "keeps sameRegistry (query f)"
  "keeps sameRegistry getState"
  "keeps sameRegistry (exec H op)"
  by (auto simp: keeps_def sameRegistry_def tell_def query_def getState_def exec_def Let_def split: sum.split prod.split)

lemma same_shared:
  "keeps sameRegistry (factories H names)"
  "keeps sameRegistry (requireEntry msg)"
  "keeps sameRegistry (lookup key)"
  "keeps sameRegistry (requireKeys hint keys)"
  "keeps sameRegistry (send H from target method args)"
  "keeps sameRegistry (sendWait H from target method args)"
  "keeps sameRegistry (firstSigner H)"
  "keeps sameRegistry (initializeProducer H kind producer data refs tat)"
  unfolding factories_def requireEntry_def lookup_def requireKeys_def send_def sendWait_def firstSigner_def
    initializeProducer_def
  by (auto intro!: same.keeps_intros same_calls split: list.split prod.split)

lemma records_same: "keeps sameRegistry m \<Longrightarrow> records [] m"
  by (auto simp: records_def sameRegistry_def dest!: keepsD)

lemma records_bind:
  assumes "records ks m" and "\<And>x. records ks' (k x)"
  shows "records (ks @ ks') (bind m k)"
  unfolding records_def
proof (intro allI impI)
  fix w w' :: "'a hworld" and y
  assume e: "ds_entries (hw_state w) \<noteq> []" and "bind m k w = (Ok y, w')"
  then obtain x v where m: "m w = (Ok x, v)" and k: "k x v = (Ok y, w')" by (auto simp: bind_Ok_iff)
  note first = assms(1) [unfolded records_def, rule_format, OF e m]
  note second = assms(2) [unfolded records_def, rule_format, OF conjunct1 [OF first] k]
  from first second show "ds_entries (hw_state w') \<noteq> [] \<and>
      (\<forall>k. resolve (hw_state w') k = None \<longrightarrow> resolve (hw_state w) k = None \<and> k \<notin> set (ks @ ks')) \<and>
      (ks @ ks' \<noteq> [] \<or> hw_file w = Entries (hw_state w) \<longrightarrow> hw_file w' = Entries (hw_state w'))"
    by auto
qed

text \<open>A deployed contract has an address.\<close>

definition answering :: "'c hardhat \<Rightarrow> bool" where
  "answering H \<longleftrightarrow> (\<forall>c op r c'. h_exec H c op = (Inr r, c') \<longrightarrow> rp_address r \<noteq> '''')"

lemma records_deploy:
  assumes answers: "answering H"
  shows "records [baseKey key] (deployAndRecord H key contract args init)"
  unfolding records_def
proof (intro allI impI)
  fix w w' :: "'a hworld" and a
  assume e: "ds_entries (hw_state w) \<noteq> []" and run: "deployAndRecord H key contract args init w = (Ok a, w')"
  from run obtain r c b s where x: "h_exec H (hw_chain w) (DeployProxy contract args init) = (Inr r, c)"
    and s: "setContract key \<lparr>ci_address = rp_address r, ci_block = Some b, ci_tx = Some (rp_hash r)\<rparr> (hw_state w) = Inr s"
    and w': "hw_state w' = s" "hw_file w' = Entries s"
    by (auto simp: deployAndRecord_def deployProxyWithInfo_def recordContract_def exec_def query_def getState_def
      tell_def writeFile_def saveState_def bind_Ok_iff Let_def split: prod.splits sum.splits)
  have r: "rp_address r \<noteq> ''''" using answers x by (auto simp: answering_def)
  let ?i = "\<lparr>ci_address = rp_address r, ci_block = Some b, ci_tx = Some (rp_hash r)\<rparr>"
  from s have "s = putContract key ?i (hw_state w)" by (simp add: putContract_def)
  with deployments.get_put [OF e, of ?i key] deployments.get_put_other [OF e, of _ key ?i]
    deployments.put_open [OF e, of key ?i] r
  have "ds_entries s \<noteq> []" and "resolve s (baseKey key) \<noteq> None"
    and "\<And>k. k \<noteq> baseKey key \<Longrightarrow> resolve s k = resolve (hw_state w) k" by auto
  then show "ds_entries (hw_state w') \<noteq> [] \<and>
      (\<forall>k. resolve (hw_state w') k = None \<longrightarrow> resolve (hw_state w) k = None \<and> k \<notin> set [baseKey key]) \<and>
      ([baseKey key] \<noteq> [] \<or> hw_file w = Entries (hw_state w) \<longrightarrow> hw_file w' = Entries (hw_state w'))"
    unfolding w' by (metis empty_iff empty_set set_ConsD)
qed

lemma runMain_Ok: "runMain m w = (Ok x, w') \<longleftrightarrow> m w = (Ok x, w')"
  by (auto simp: runMain_def catch_Ok_iff bind_Ok_iff)

text \<open>The names that a file resolves.\<close>

definition known :: "string \<Rightarrow> string \<Rightarrow> json_file \<Rightarrow> string \<Rightarrow> bool" where
  "known network now file key \<longleftrightarrow> resolve (loadState network now file) key \<noteq> None"

lemma records_run:
  assumes "records ks m" and "ks \<noteq> []" and "ds_entries s \<noteq> []"
    and "runMain m (w\<lparr>hw_state := s\<rparr>) = (Ok x, w')"
  shows "hw_file w' = Entries (hw_state w') \<and> list_all (known network now (hw_file w')) ks \<and>
    (\<forall>k. resolve s k \<noteq> None \<longrightarrow> known network now (hw_file w') k)"
proof -
  have "ds_entries (hw_state (w\<lparr>hw_state := s\<rparr>)) \<noteq> []" using assms(3) by simp
  from assms(1) [unfolded records_def, rule_format, OF this assms(4) [unfolded runMain_Ok]] assms(2)
  show ?thesis by (auto simp: known_def list_all_iff)
qed

lemma records_mono: "records ks m \<Longrightarrow> set ks' \<subseteq> set ks \<Longrightarrow> records ks' m"
  unfolding records_def by (metis empty_set subset_empty subsetD set_empty)

lemma records_script:
  assumes "records ks m" and "ks \<noteq> []"
    and "runMain (bind (load H network) (\<lambda>_. bind (requireEntry msg) (\<lambda>_. m))) w = (Ok x, w')"
  shows "hw_file w' = Entries (hw_state w') \<and> list_all (known network now (hw_file w')) ks \<and>
    (\<forall>k. known network (h_isoNow H (hw_chain w)) (hw_file w) k \<longrightarrow> known network now (hw_file w') k)"
proof -
  let ?s = "loadState network (h_isoNow H (hw_chain w)) (hw_file w)"
  have run: "runMain (bind (requireEntry msg) (\<lambda>_. m)) (w\<lparr>hw_state := ?s\<rparr>) = (Ok x, w')"
    using assms(3) unfolding runMain_load .
  then have "ds_entries ?s \<noteq> []"
    by (auto simp: runMain_Ok bind_Ok_iff requireEntry_def getState_def)
  moreover have "records ([] @ ks) (bind (requireEntry msg) (\<lambda>_. m))"
    by (rule records_bind [OF records_same [OF same_shared(2)] assms(1)])
  ultimately show ?thesis
    using records_run [OF _ assms(2) _ run] unfolding append_Nil known_def by blast
qed

lemmas records_calls = same_shared [THEN records_same] same_calls [THEN records_same]

lemma base_records:
  assumes "answering H" and "base_main H network w = (Ok x, w')"
  shows "list_all (known network now (hw_file w')) [''DAO'', ''MULSIG'', ''ROLES'', ''PARAMETER_INFO'', ''ORACLE'']"
proof -
  note run = assms(2) [unfolded base_main_def base_start]
  have e: "ds_entries (freshEntry H network w) \<noteq> []" by (simp add: freshEntry_def startNewEntry_def)
  show ?thesis
    by (rule records_run [OF _ _ e run, THEN conjunct2, THEN conjunct1], rule records_mono,
        (rule records_calls records_deploy [OF assms(1)] records_bind)+) (simp_all add: baseKey_def endsWith_def)
qed

lemma producers_record:
  assumes "answering H" and "producers_main H network w = (Ok x, w')"
  shows "hw_file w' = Entries (hw_state w') \<and> list_all (known network now (hw_file w')) [''GOVERNANCE'', ''TAT''] \<and>
    (\<forall>k. known network (h_isoNow H (hw_chain w)) (hw_file w) k \<longrightarrow> known network now (hw_file w') k)"
  by (rule records_script [OF _ _ assms(2) [unfolded producers_main_def]], rule records_mono,
      (rule records_calls records_deploy [OF assms(1)] records_bind)+) (simp_all add: baseKey_def endsWith_def)

lemma tcash_record:
  assumes "answering H" and "tcash_main H network w = (Ok x, w')"
  shows "hw_file w' = Entries (hw_state w') \<and>
    list_all (known network now (hw_file w')) [''TCASH'', ''TCASH_LOAN'', ''TCASH_AUCTION''] \<and>
    (\<forall>k. known network (h_isoNow H (hw_chain w)) (hw_file w) k \<longrightarrow> known network now (hw_file w') k)"
  by (rule records_script [OF _ _ assms(2) [unfolded tcash_main_def]], rule records_mono,
      (rule records_calls records_deploy [OF assms(1)] records_bind)+) (simp_all add: baseKey_def endsWith_def)

text \<open>A node on which every operation succeeds; contracts are named after their factory.\<close>

definition demoPlugin :: "nat hardhat" where
  "demoPlugin = \<lparr>
     h_exec = (\<lambda>c op. (Inr (case op of
         DeployProxy n as i \<Rightarrow> \<lparr>rp_address = ''0x'' @ n, rp_hash = ''0xd''\<rparr>
       | CallMethod s t m as \<Rightarrow> \<lparr>rp_address = ''0x'' @ t, rp_hash = ''0xc''\<rparr>
       | UpgradeProxyTo t n \<Rightarrow> \<lparr>rp_address = ''0x'' @ t, rp_hash = ''0xe''\<rparr>), Suc c)),
     h_wait = (\<lambda>c op. Inr c),
     h_view = (\<lambda>c t m as. Inr JUndef),
     h_code = (\<lambda>c a. Inr ''0x60''),
     h_signers = (\<lambda>c. Inr [''0xaa'']),
     h_factory = (\<lambda>n. Inr ()),
     h_getAddress = (\<lambda>s. Inr s),
     h_isoNow = (\<lambda>c. ''now''),
     h_env = (\<lambda>k. None)\<rparr>"

definition demoStart :: "nat hworld" where
  "demoStart = \<lparr>hw_chain = 0, hw_file = Absent, hw_state = \<lparr>ds_entries = [], ds_addresses = []\<rparr>,
     hw_ops = [], hw_lines = []\<rparr>"

section \<open>Success\<close>

text \<open>A node that carries out every operation, with the factories compiled and a signer unlocked.\<close>

definition working :: "'c hardhat \<Rightarrow> bool" where
  "working H \<longleftrightarrow> answering H \<and> (\<forall>c op. \<exists>r c'. h_exec H c op = (Inr r, c')) \<and> (\<forall>c op. \<exists>b. h_wait H c op = Inr b) \<and>
     (\<forall>n. h_factory H n = Inr ()) \<and> (\<forall>c. \<exists>s ss. h_signers H c = Inr (s # ss))"

definition works :: "('c, 'a) hscript \<Rightarrow> bool" where
  "works m \<longleftrightarrow> (\<forall>w. ds_entries (hw_state w) \<noteq> [] \<longrightarrow> (\<exists>x w'. m w = (Ok x, w') \<and> ds_entries (hw_state w') \<noteq> []))"

lemma works_ret: "works (ret x)"
  by (simp add: works_def)

lemma works_bind:
  assumes "works m" and "\<And>x. works (k x)"
  shows "works (bind m k)"
  unfolding works_def
proof (intro allI impI)
  fix w :: "'a hworld" assume "ds_entries (hw_state w) \<noteq> []"
  with assms(1) obtain x v where m: "m w = (Ok x, v)" and "ds_entries (hw_state v) \<noteq> []"
    unfolding works_def by blast
  with assms(2) [of x] show "\<exists>x w'. bind m k w = (Ok x, w') \<and> ds_entries (hw_state w') \<noteq> []"
    by (simp add: works_def bind_def m)
qed

lemma works_forEach: "(\<And>x. x \<in> set xs \<Longrightarrow> works (f x)) \<Longrightarrow> works (forEach xs f)"
  by (induction xs) (simp_all add: works_ret works_bind)

lemma works_query: "(\<And>c. \<exists>x. f c = Inr x) \<Longrightarrow> works (query f)"
  unfolding works_def query_def by (metis old.sum.simps(6))

lemma works_calls:
  assumes "working H"
  shows "works (exec H op)" and "works (query (\<lambda>c. h_wait H c op))" and "works (query (h_signers H))"
    and "works (lift_err (h_factory H n))" and "works getState" and "works (tell kind vs)"
proof -
  note w = assms [unfolded working_def]
  have exec: "\<exists>r c'. h_exec H c op = (Inr r, c')" and wait: "\<exists>b. h_wait H c op = Inr b"
    and sig: "\<exists>s ss. h_signers H c = Inr (s # ss)" for c
    using w by blast+
  show "works (exec H op)"
    unfolding works_def exec_def
  proof (intro allI impI)
    fix w :: "'a hworld" assume e: "ds_entries (hw_state w) \<noteq> []"
    from exec obtain r c where "h_exec H (hw_chain w) op = (Inr r, c)" by blast
    with e show "\<exists>x w'. (let (r, c) = h_exec H (hw_chain w) op; w1 = w\<lparr>hw_chain := c, hw_ops := hw_ops w @ [(op, r)]\<rparr>
        in case r of Inl e \<Rightarrow> (Throw e, w1) | Inr x \<Rightarrow> (Ok x, w1)) = (Ok x, w') \<and> ds_entries (hw_state w') \<noteq> []"
      by simp
  qed
  show "works (query (\<lambda>c. h_wait H c op))"
    by (rule works_query) (rule wait)
  show "works (query (h_signers H))"
    by (rule works_query) (use sig in blast)
  show "works (lift_err (h_factory H n))"
    using w by (simp add: works_def)
qed (simp_all add: works_def getState_def tell_def)

lemma works_firstSigner:
  assumes "working H"
  shows "works (firstSigner H)"
  unfolding works_def
proof (intro allI impI)
  fix w :: "'a hworld" assume e: "ds_entries (hw_state w) \<noteq> []"
  from assms obtain s ss where "h_signers H (hw_chain w) = Inr (s # ss)"
    unfolding working_def by blast
  with e show "\<exists>x w'. firstSigner H w = (Ok x, w') \<and> ds_entries (hw_state w') \<noteq> []"
    by (simp add: firstSigner_def query_def bind_def)
qed

lemma works_record: "works (recordContract key addr block hash)"
  by (auto simp: works_def recordContract_def getState_def setContract_def currentEntry_def tell_def writeFile_def
      bind_def neq_Nil_conv)

lemma works_shared:
  assumes "working H"
  shows "works (factories H names)" and "works (lookup key)"
    and "works (send H from target method args)" and "works (sendWait H from target method args)"
    and "works (deployAndRecord H key contract args init)"
    and "works (initializeProducer H kind producer data refs tat)"
  unfolding factories_def lookup_def send_def sendWait_def deployAndRecord_def deployProxyWithInfo_def
    initializeProducer_def
  by (auto intro!: works_bind works_forEach works_calls assms works_ret works_record split: prod.split)

text \<open>The checks at the start of a script.\<close>

lemma requireKeys_Ok:
  "list_all (\<lambda>k. resolve (hw_state w) k \<noteq> None) keys \<Longrightarrow> requireKeys hint keys w = (Ok (), w)"
  by (induction keys) (auto simp: requireKeys_def lookup_def getState_def bind_def)

lemma starts:
  assumes "working H" and "works m" and "ds_entries s \<noteq> []" and "list_all (\<lambda>k. resolve s k \<noteq> None) keys"
    and "loadState network (h_isoNow H (hw_chain w)) (hw_file w) = s"
  shows "fst (runMain (bind (load H network) (\<lambda>_. bind (requireEntry msg) (\<lambda>_. bind (factories H names) (\<lambda>_.
    bind (requireKeys hint keys) (\<lambda>_. m))))) w) = Ok ()"
proof -
  let ?w = "w\<lparr>hw_state := s\<rparr>"
  have e: "requireEntry msg ?w = (Ok (), ?w)"
    by (simp add: requireEntry_def getState_def bind_def assms(3))
  have f: "forEach names (\<lambda>n. lift_err (h_factory H n)) v = (Ok (), v)" for v :: "'a hworld"
    using assms(1) by (induction names) (simp_all add: working_def bind_def)
  have k: "requireKeys hint keys ?w = (Ok (), ?w)"
    by (rule requireKeys_Ok) (use assms(4) in simp)
  obtain w' where "m ?w = (Ok (), w')"
    using assms(2) [unfolded works_def, rule_format, of ?w] assms(3) by auto
  then show ?thesis
    unfolding runMain_load assms(5) by (simp add: runMain_def bind_def catch_def e k factories_def f)
qed

lemma runMain_works:
  assumes "works m" and "ds_entries s \<noteq> []"
  shows "fst (runMain m (w\<lparr>hw_state := s\<rparr>)) = Ok ()"
proof -
  obtain w' where "m (w\<lparr>hw_state := s\<rparr>) = (Ok (), w')"
    using assms(1) [unfolded works_def, rule_format, of "w\<lparr>hw_state := s\<rparr>"] assms(2) by auto
  then show ?thesis by (simp add: runMain_def catch_def)
qed

lemma base_succeeds:
  assumes "working H"
  shows "fst (base_main H network w) = Ok ()"
  unfolding base_main_def base_start
  by (rule runMain_works, (rule works_calls [OF assms] works_shared [OF assms] works_bind)+)
    (simp add: freshEntry_def startNewEntry_def)

lemma known_open: "known network now file k \<Longrightarrow> ds_entries (loadState network now file) \<noteq> []"
  by (auto simp: known_def resolve_def currentEntry_def)

lemma producers_succeed:
  assumes "working H" and "list_all (known network (h_isoNow H (hw_chain w)) (hw_file w)) producers_required"
  shows "fst (producers_main H network w) = Ok ()"
  unfolding producers_main_def
  by (rule starts [OF assms(1) _ _ assms(2) [unfolded known_def] refl])
    (intro works_bind works_calls [OF assms(1)] works_shared [OF assms(1)],
      use assms(2) in \<open>auto simp: producers_required_def dest: known_open\<close>)

lemma tcash_succeeds:
  assumes "working H" and "list_all (known network (h_isoNow H (hw_chain w)) (hw_file w)) tcash_required"
  shows "fst (tcash_main H network w) = Ok ()"
  unfolding tcash_main_def
  by (rule starts [OF assms(1) _ _ assms(2) [unfolded known_def] refl])
    (intro works_bind works_calls [OF assms(1)] works_shared [OF assms(1)] works_firstSigner [OF assms(1)],
      use assms(2) in \<open>auto simp: tcash_required_def dest: known_open\<close>)

lemma ustn_succeeds:
  assumes "working H" and "list_all (known network (h_isoNow H (hw_chain w)) (hw_file w)) ustn_required"
  shows "fst (ustn_main H network w) = Ok ()"
  unfolding ustn_main_def
  by (rule starts [OF assms(1) _ _ assms(2) [unfolded known_def] refl])
    (intro works_bind works_calls [OF assms(1)] works_shared [OF assms(1)],
      use assms(2) in \<open>auto simp: ustn_required_def dest: known_open\<close>)

lemma steps_run:
  assumes "working H"
    and "hw_file w2 = hw_file (snd (base_main H network w1))"
    and "hw_file w3 = hw_file (snd (producers_main H network w2))"
  shows "fst (producers_main H network w2) = Ok ()" and "fst (tcash_main H network w3) = Ok ()"
    and "list_all (known network n (hw_file (snd (tcash_main H network w3)))) ustn_required"
proof -
  have a: "answering H" using assms(1) by (simp add: working_def)
  have b: "fst (base_main H network w1) = Ok ()" by (rule base_succeeds [OF assms(1)])
  then have known1: "list_all (known network n (hw_file w2)) [''DAO'', ''MULSIG'', ''ROLES'', ''PARAMETER_INFO'', ''ORACLE'']" for n
    unfolding assms(2) by (intro base_records [OF a]) (auto simp: prod_eq_iff)
  then show p: "fst (producers_main H network w2) = Ok ()"
    by (intro producers_succeed [OF assms(1)]) (simp add: producers_required_def)
  have known2: "list_all (known network n (hw_file w3)) [''ROLES'', ''PARAMETER_INFO'', ''ORACLE'', ''TAT'']" for n
    using producers_record [OF a, THEN conjunct2, of network w2 "()" "snd (producers_main H network w2)" n] known1 p
    unfolding assms(3) by (simp add: prod_eq_iff)
  then show t: "fst (tcash_main H network w3) = Ok ()"
    by (intro tcash_succeeds [OF assms(1)]) (simp add: tcash_required_def)
  show "list_all (known network n (hw_file (snd (tcash_main H network w3)))) ustn_required"
    using tcash_record [OF a, THEN conjunct2, of network w3 "()" "snd (tcash_main H network w3)" n] known2 t
    by (simp add: prod_eq_iff ustn_required_def)
qed

text \<open>Run in their order on the same file, possibly with other work on the chain in between, \<open>base.js\<close>,
  \<open>producers.js\<close> and \<open>tcash.js\<close> leave in the registry every contract that the following step requires, up
  to the ten of \<open>crosschain.js\<close> and those of \<open>ustn.js\<close>.\<close>

theorem steps_in_order:
  assumes "answering H"
    and "base_main H network w1 = (Ok (), w1')"
    and "hw_file w2 = hw_file w1'" and "producers_main H network w2 = (Ok (), w2')"
    and "hw_file w3 = hw_file w2'" and "tcash_main H network w3 = (Ok (), w3')"
  shows "list_all (known network now (hw_file w1')) producers_required \<and>
    list_all (known network now (hw_file w2')) tcash_required \<and>
    list_all (known network now (hw_file w3')) (crosschain_required @ ustn_required)"
proof -
  let ?base = "[''DAO'', ''MULSIG'', ''ROLES'', ''PARAMETER_INFO'', ''ORACLE'']"
  have b: "list_all (known network n (hw_file w1')) ?base" for n
    by (rule base_records [OF assms(1,2)])
  then have p: "list_all (known network n (hw_file w2')) (?base @ [''GOVERNANCE'', ''TAT''])" for n
    using producers_record [OF assms(1,4), THEN conjunct2, of n] by (simp add: assms(3))
  then have "list_all (known network now (hw_file w3'))
      ((?base @ [''GOVERNANCE'', ''TAT'']) @ [''TCASH'', ''TCASH_LOAN'', ''TCASH_AUCTION''])"
    using tcash_record [OF assms(1,6), THEN conjunct2, of now] by (simp add: assms(5))
  with b p show ?thesis
    by (simp add: producers_required_def tcash_required_def crosschain_required_def ustn_required_def)
qed

definition demoRun :: "(nat hardhat \<Rightarrow> string \<Rightarrow> (nat, unit) hscript) list \<Rightarrow> nat hworld" where
  "demoRun scripts = foldl (\<lambda>w script. snd (script demoPlugin ''dev'' w)) demoStart scripts"

lemma demo_working: "working demoPlugin"
  by (auto simp: working_def answering_def demoPlugin_def split: hh_op.splits)

lemma steps_in_order_witness:
  "list_all (known ''dev'' ''now'' (hw_file (demoRun [base_main, producers_main, tcash_main])))
     (crosschain_required @ ustn_required)"
proof -
  let ?w1 = "demoRun [base_main]" and ?w2 = "demoRun [base_main, producers_main]"
    and ?w3 = "demoRun [base_main, producers_main, tcash_main]"
  have w: "?w1 = snd (base_main demoPlugin ''dev'' demoStart)" "?w2 = snd (producers_main demoPlugin ''dev'' ?w1)"
    "?w3 = snd (tcash_main demoPlugin ''dev'' ?w2)"
    by (simp_all add: demoRun_def)
  note ok = base_succeeds [OF demo_working, of "''dev''" demoStart]
    steps_run(1,2) [OF demo_working w(1) [THEN arg_cong [where f = hw_file]] w(2) [THEN arg_cong [where f = hw_file]]]
  show ?thesis
    by (rule steps_in_order [THEN conjunct2, THEN conjunct2, of demoPlugin "''dev''" demoStart ?w1 ?w1 ?w2 ?w2 ?w3])
      (use demo_working ok w in \<open>simp_all add: working_def prod_eq_iff\<close>)
qed

text \<open>On a node that carries out every operation, the steps \<open>base.js\<close>, \<open>producers.js\<close>, \<open>tcash.js\<close> and
  \<open>ustn.js\<close> run in this order on the same registry all end normally, whatever the file held before.\<close>

theorem steps_succeed:
  assumes "working H"
    and "hw_file w2 = hw_file (snd (base_main H network w1))"
    and "hw_file w3 = hw_file (snd (producers_main H network w2))"
    and "hw_file w4 = hw_file (snd (tcash_main H network w3))"
  shows "fst (base_main H network w1) = Ok () \<and> fst (producers_main H network w2) = Ok () \<and>
    fst (tcash_main H network w3) = Ok () \<and> fst (ustn_main H network w4) = Ok ()"
  using base_succeeds [OF assms(1)] steps_run [OF assms(1-3)] ustn_succeeds [OF assms(1)] by (simp add: assms(4))

lemma steps_succeed_witness:
  "fst (ustn_main demoPlugin ''dev'' (demoRun [base_main, producers_main, tcash_main])) = Ok ()"
  using steps_succeed [OF demo_working, of "demoRun [base_main]" "''dev''" demoStart "demoRun [base_main, producers_main]"
      "demoRun [base_main, producers_main, tcash_main]"] by (simp add: demoRun_def)

section \<open>Failure\<close>

text \<open>The action fails without an operation and without writing.\<close>

definition untouched :: "'c hworld \<Rightarrow> 'c hworld \<Rightarrow> bool" where
  "untouched w w' \<longleftrightarrow> hw_ops w' = hw_ops w \<and> hw_chain w' = hw_chain w \<and> hw_file w' = hw_file w"

definition aborts :: "'c hworld \<Rightarrow> ('c, 'a) hscript \<Rightarrow> bool" where
  "aborts w m \<longleftrightarrow> (\<exists>e w'. m w = (Throw e, w') \<and> untouched w w')"

lemma aborts_first: "aborts w m \<Longrightarrow> aborts w (bind m k)"
  by (auto simp: aborts_def bind_def)

lemma requireEntry_cases:
  "requireEntry msg w = (Ok (), w) \<and> ds_entries (hw_state w) \<noteq> [] \<or> requireEntry msg w = (Throw msg, w)"
  by (simp add: requireEntry_def getState_def bind_def)

lemma factories_cases: "factories H names w = (Ok (), w) \<or> (\<exists>e. factories H names w = (Throw e, w))"
  unfolding factories_def
proof (induction names)
  case (Cons n names)
  then show ?case by (cases "h_factory H n") (simp_all add: bind_def)
qed simp

lemma requireKeys_missing:
  "list_ex (\<lambda>k. resolve (hw_state w) k = None) keys \<Longrightarrow> \<exists>e. requireKeys hint keys w = (Throw e, w)"
  by (induction keys) (auto simp: requireKeys_def lookup_def getState_def bind_def split: option.split)

lemma aborts_start:
  assumes "list_ex (\<lambda>k. resolve (hw_state w) k = None) keys"
  shows "aborts w (bind (requireEntry msg) (\<lambda>_. bind (factories H names) (\<lambda>_. bind (requireKeys hint keys) m)))"
  using requireKeys_missing [OF assms, of hint] requireEntry_cases [of msg w] factories_cases [of H names w]
  by (auto simp: aborts_def untouched_def bind_def)

lemma runMain_aborts:
  assumes "aborts (w\<lparr>hw_state := loadState network (h_isoNow H (hw_chain w)) (hw_file w)\<rparr>) m"
  shows "fst (runMain (bind (load H network) (\<lambda>_. m)) w) = Exit 1 \<and>
    untouched w (snd (runMain (bind (load H network) (\<lambda>_. m)) w))"
  using assms unfolding runMain_load by (auto simp: aborts_def untouched_def runMain_def catch_def bind_def tell_def)

definition requirements :: "(('c hardhat \<Rightarrow> string \<Rightarrow> ('c, unit) hscript) \<times> string list) list" where
  "requirements = [(producers_main, producers_required), (tcash_main, tcash_required), (ustn_main, ustn_required)]"

text \<open>If a contract that \<open>producers.js\<close>, \<open>tcash.js\<close> or \<open>ustn.js\<close> requires is not in the registry, the
  script ends with code 1 before any operation on the chain and without writing the registry.\<close>

theorem missing_requirement_stops:
  assumes "(script, required) \<in> set requirements" and "k \<in> set required"
    and "\<not> known network (h_isoNow H (hw_chain w)) (hw_file w) k"
  shows "fst (script H network w) = Exit 1 \<and> untouched w (snd (script H network w))"
proof -
  let ?w = "w\<lparr>hw_state := loadState network (h_isoNow H (hw_chain w)) (hw_file w)\<rparr>"
  have "list_ex (\<lambda>k. resolve (hw_state ?w) k = None) required"
    using assms(2,3) by (auto simp: list_ex_iff known_def)
  note stops = runMain_aborts [OF aborts_start [OF this]]
  from assms(1) consider "script = producers_main" "required = producers_required"
    | "script = tcash_main" "required = tcash_required" | "script = ustn_main" "required = ustn_required"
    by (auto simp: requirements_def)
  then show ?thesis
  proof cases
    case 1
    show ?thesis unfolding 1(1) producers_main_def by (rule stops [unfolded 1(2)])
  next
    case 2
    show ?thesis unfolding 2(1) tcash_main_def by (rule stops [unfolded 2(2)])
  next
    case 3
    show ?thesis unfolding 3(1) ustn_main_def by (rule stops [unfolded 3(2)])
  qed
qed

lemma missing_requirement_stops_witness:
  "fst (tcash_main demoPlugin ''dev'' demoStart) = Exit 1"
  by (rule missing_requirement_stops [where k = "''TAT''" and required = tcash_required, THEN conjunct1])
    (simp_all add: requirements_def tcash_required_def known_def demoStart_def resolve_def currentEntry_def)

text \<open>\<open>bid.js\<close> and \<open>tokenlocker.js\<close> check too late that there is an entry: on a registry without one they
  deploy the contract and then fail to record it, so its address is in no file.\<close>

theorem late_check_loses_contract:
  assumes "ds_entries (loadState network (h_isoNow H (hw_chain w)) (hw_file w)) = []" and "working H"
    and "(script, contract) \<in> set [(bid_main, ''Bid''), (tokenlocker_main, ''TokenLocker'')]"
  shows "fst (script H network w) = Exit 1 \<and> hw_file (snd (script H network w)) = hw_file w \<and>
    list_ex (\<lambda>(op, r). op = DeployProxy contract [] (Some ''initialize'') \<and> (case r of Inl e \<Rightarrow> False | Inr x \<Rightarrow> True))
      (drop (length (hw_ops w)) (hw_ops (snd (script H network w))))"
proof -
  let ?op = "DeployProxy contract [] (Some ''initialize'')"
  obtain r c where r: "h_exec H (hw_chain w) ?op = (Inr r, c)" using assms(2) unfolding working_def by blast
  obtain b where b: "h_wait H c ?op = Inr b" using assms(2) unfolding working_def by blast
  have f: "h_factory H n = Inr ()" for n using assms(2) unfolding working_def by blast
  from assms(3) r b show ?thesis
    by (auto simp: bid_main_def tokenlocker_main_def load_def factories_def f deployAndRecord_def
      deployProxyWithInfo_def recordContract_def setContract_def currentEntry_def assms(1) exec_def query_def
      getState_def tell_def runMain_def bind_def catch_def Let_def)
qed

lemma late_check_loses_contract_witness:
  "fst (bid_main demoPlugin ''dev'' demoStart) = Exit 1 \<and> hw_file (snd (bid_main demoPlugin ''dev'' demoStart)) = Absent"
  using late_check_loses_contract [of "''dev''" demoPlugin demoStart bid_main "''Bid''"] demo_working
  by (simp add: demoStart_def)

section \<open>A well-formed registry\<close>

text \<open>Every entry has each key once, and only keys without the \<open>_ADDRESS\<close> suffix.\<close>

definition wf_entry :: "entry \<Rightarrow> bool" where
  "wf_entry e \<longleftrightarrow> distinct (map fst (en_contracts e)) \<and> list_all (\<lambda>(k, i). \<not> endsWith k ''_ADDRESS'') (en_contracts e)"

definition wf_state :: "dep_state \<Rightarrow> bool" where
  "wf_state s \<longleftrightarrow> list_all wf_entry (ds_entries s)"

definition wf_file :: "json_file \<Rightarrow> bool" where
  "wf_file file = (case file of
       Entries s \<Rightarrow> wf_state s
     | Legacy data \<Rightarrow> list_all (\<lambda>(k, a). \<not> endsWith (baseKey k) ''_ADDRESS'') (lg_addresses data)
     | _ \<Rightarrow> True)"

abbreviation ok_contracts :: "(string \<times> contract_info) list \<Rightarrow> bool" where
  "ok_contracts m \<equiv> distinct (map fst m) \<and> list_all (\<lambda>(k, i). \<not> endsWith k ''_ADDRESS'') m"

lemma ok_update: "ok_contracts m \<Longrightarrow> \<not> endsWith k ''_ADDRESS'' \<Longrightarrow> ok_contracts (AList.update k i m)"
proof
  assume m: "ok_contracts m" and k: "\<not> endsWith k ''_ADDRESS''"
  from m show "distinct (map fst (AList.update k i m))" by (simp add: distinct_update)
  from m have "list_all (\<lambda>(k, i). \<not> endsWith k ''_ADDRESS'') m" ..
  with k show "list_all (\<lambda>(k, i). \<not> endsWith k ''_ADDRESS'') (AList.update k i m)"
    by (induction m) auto
qed

lemma ok_migrate:
  "list_all (\<lambda>(k, a). \<not> endsWith (baseKey k) ''_ADDRESS'') as \<Longrightarrow> ok_contracts m \<Longrightarrow>
     ok_contracts (foldl (\<lambda>m (k, addr). AList.update (baseKey k) (f k addr) m) m as)"
proof (induction as arbitrary: m)
  case (Cons a as)
  obtain k addr where a: "a = (k, addr)" by (cases a)
  from Cons.prems a have "list_all (\<lambda>(k, a). \<not> endsWith (baseKey k) ''_ADDRESS'') as"
    and "ok_contracts (AList.update (baseKey k) (f k addr) m)"
    using ok_update [of m "baseKey k" "f k addr"] by auto
  then show ?case unfolding a foldl_Cons prod.case by (rule Cons.IH)
qed simp

lemma wf_loadState:
  assumes "wf_file j"
  shows "wf_state (loadState network now j)"
proof (cases j)
  case (Legacy data)
  then show ?thesis
    using assms ok_migrate [of "lg_addresses data" "[]"] by (simp add: wf_file_def wf_state_def wf_entry_def migrate_def)
qed (use assms in \<open>simp_all add: wf_file_def wf_state_def\<close>)

lemma wf_setContract:
  assumes "setContract n i s = Inr s'" and "wf_state s" and "\<not> endsWith (baseKey n) ''_ADDRESS''"
  shows "wf_state s'"
proof -
  obtain e es where e: "ds_entries s = e # es"
    using assms(1) by (cases "ds_entries s") (simp_all add: setContract_def currentEntry_def)
  with assms ok_update [of "en_contracts e" "baseKey n" i] show ?thesis
    by (auto simp: setContract_def currentEntry_def wf_state_def wf_entry_def)
qed

definition wf_kept :: "'c hworld \<Rightarrow> 'c hworld \<Rightarrow> bool" where
  "wf_kept w w' \<longleftrightarrow> (wf_state (hw_state w) \<and> wf_file (hw_file w) \<longrightarrow> wf_state (hw_state w') \<and> wf_file (hw_file w'))"

interpretation wfk: frame_rel wf_kept
  by unfold_locales (auto simp: wf_kept_def)

lemma wf_same: "keeps sameRegistry m \<Longrightarrow> keeps wf_kept m"
  by (simp add: keeps_def sameRegistry_def wf_kept_def)

lemma wf_record: "\<not> endsWith (baseKey n) ''_ADDRESS'' \<Longrightarrow> keeps wf_kept (recordContract n a b h)"
  by (auto simp: keeps_def wf_kept_def recordContract_def getState_def bind_def tell_def writeFile_def saveState_def
      wf_file_def lift_err_def dest: wf_setContract split: sum.split outcome.split)

lemma wf_deployAndRecord:
  "\<not> endsWith (baseKey key) ''_ADDRESS'' \<Longrightarrow> keeps wf_kept (deployAndRecord H key contract args init)"
  unfolding deployAndRecord_def deployProxyWithInfo_def
  by (intro wfk.keeps_intros wf_record same_calls [THEN wf_same]) (auto intro!: wfk.keeps_intros wf_record split: prod.split)

lemmas wf_calls = same_calls [THEN wf_same] same_shared [THEN wf_same] wf_deployAndRecord

lemma wf_run:
  assumes "wf_file (hw_file w)" and "wf_state s" and "keeps wf_kept m"
  shows "wf_file (hw_file (snd (runMain m (w\<lparr>hw_state := s\<rparr>))))"
proof -
  have "keeps wf_kept (runMain m)"
    unfolding runMain_def by (intro wfk.keeps_intros same_calls [THEN wf_same] assms(3))
  from keepsD [OF this, of "w\<lparr>hw_state := s\<rparr>"] assms(1,2) show ?thesis
    by (cases "runMain m (w\<lparr>hw_state := s\<rparr>)") (auto simp: wf_kept_def)
qed

lemma wf_script:
  "wf_file (hw_file w) \<Longrightarrow> keeps wf_kept m \<Longrightarrow> wf_file (hw_file (snd (runMain (bind (load H network) (\<lambda>_. m)) w)))"
  unfolding runMain_load by (rule wf_run [OF _ wf_loadState])

lemmas key_simps = baseKey_def endsWith_def

lemma same_crosschain:
  "keeps sameRegistry (checkLoanRoles H roles tcashLoan)"
  "keeps sameRegistry (setAuctionContract H tcashLoan)"
  "keeps sameRegistry (grantFoundationManager H roles)"
  unfolding checkLoanRoles_def setAuctionContract_def grantFoundationManager_def viewBool_def Let_def
  by (auto intro!: same.keeps_intros same_calls same_shared split: option.split)

lemma wf_crosschain_deploy: "keeps wf_kept (crosschain_deploy H deployer user)"
  unfolding crosschain_deploy_def
  by (rule wfk.keeps_intros wf_calls same_crosschain [THEN wf_same] | simp add: key_simps)+

lemma wf_crosschain:
  assumes "wf_file (hw_file w)"
  shows "wf_file (hw_file (snd (crosschain_main H network w)))"
proof -
  have read: "\<exists>r. normalizeAddress H v label fallback w = (r, w)" for v label fallback
    by (metis normalizeAddress_world surjective_pairing)
  obtain a where a: "normalizeAddress H (h_env H ''DEPLOYER_ADDR'') ''DEPLOYER_ADDR''
      ''0x6A79824E6be14b7e5Cb389527A02140935a76cD5'' w = (a, w)"
    using read by blast
  obtain b where b: "normalizeAddress H (h_env H ''USER_ADDR'') ''USER_ADDR''
      ''0x09eda46ffcec4656235391dd298875b82aa458a9'' w = (b, w)"
    using read by blast
  have body: "keeps wf_kept (bind (requireEntry ''No deployment entry; run previous steps.'') (\<lambda>_.
     bind (factories H [''MulSig'', ''Roles'', ''Oracle'', ''TCashLoan'', ''CrosschainTokens'', ''CrosschainBridge'']) (\<lambda>_.
     bind (requireKeys ''; ensure previous steps completed'' crosschain_required) (\<lambda>_.
     bind (requireCode H network crosschain_required) (\<lambda>_. crosschain_deploy H deployer user)))))"
    for deployer user
    unfolding requireCode_def by (intro wfk.keeps_intros wf_calls wf_crosschain_deploy)
  show ?thesis
    by (cases a; cases b)
      (simp_all add: crosschain_main_def js_simps a b assms wf_script [OF _ body])
qed

lemma wf_base: "wf_file (hw_file w) \<Longrightarrow> wf_file (hw_file (snd (base_main H network w)))"
  unfolding base_main_def base_start
proof (rule wf_run)
  assume "wf_file (hw_file w)"
  then have "wf_state (loadState network (h_isoNow H (hw_chain w)) (hw_file w))" by (rule wf_loadState)
  then show "wf_state (freshEntry H network w)"
    by (simp add: freshEntry_def startNewEntry_def wf_state_def wf_entry_def)
qed (assumption, (rule wfk.keeps_intros wf_calls | simp add: key_simps)+)

lemma wf_scripts:
  assumes "wf_file (hw_file w)"
  shows "wf_file (hw_file (snd (bid_main H network w)))"
    "wf_file (hw_file (snd (tokenlocker_main H network w)))"
    "wf_file (hw_file (snd (wunit_wtcash_main H network w)))"
    "wf_file (hw_file (snd (producers_main H network w)))"
    "wf_file (hw_file (snd (tcash_main H network w)))"
    "wf_file (hw_file (snd (ustn_main H network w)))"
  unfolding bid_main_def tokenlocker_main_def wunit_wtcash_main_def producers_main_def tcash_main_def ustn_main_def
  by (rule wf_script [OF assms], (rule wfk.keeps_intros wf_calls | simp add: key_simps)+)+

text \<open>C35: A registry file in which every entry has each key once and no key ends in \<open>_ADDRESS\<close> stays so under every
  deployment script, whatever the node answers, also when the file has the old format.\<close>

theorem registry_well_formed:
  assumes "wf_file (hw_file w)"
    and "script \<in> set [base_main, producers_main, tcash_main, crosschain_main, ustn_main, bid_main, tokenlocker_main,
           wunit_wtcash_main]"
  shows "wf_file (hw_file (snd (script H network w)))"
  using assms(2) wf_base [OF assms(1)] wf_crosschain [OF assms(1)] wf_scripts [OF assms(1)] by auto

lemma registry_well_formed_witness:
  "wf_file (hw_file (snd (base_main demoPlugin ''dev'' demoStart)))"
  by (rule registry_well_formed) (simp_all add: demoStart_def wf_file_def)

end
