(* ===== verification/UpgradeScripts.thy ===== *)
theory UpgradeScripts
  imports DeploySafety
begin

text \<open>
  The upgrade scripts: the five truffle migrations of \<open>scripts/upgrade/\<close> that upgrade one proxy each,
  \<open>upgrade/producers.js\<close>, \<open>upgrade/force_import_wtcash.js\<close> and \<open>scripts/upgrade-tcashloan.js\<close>, and the
  account and network tables of \<open>hardhat.config.js\<close>. They use the plugin as the deployment scripts do.
\<close>

section \<open>Truffle\<close>

text \<open>What truffle gives a migration, beside the plugin.\<close>

record 'c truffle =
  tr_deployed :: "'c \<Rightarrow> string \<Rightarrow> string fallible"
  tr_append :: "'c \<Rightarrow> string \<Rightarrow> unit fallible"
  tr_at :: "'c \<Rightarrow> string \<Rightarrow> string \<Rightarrow> unit fallible"
  tr_treasure :: "'c \<Rightarrow> string \<Rightarrow> string \<Rightarrow> string fallible"
  tr_import :: "'c \<Rightarrow> string \<Rightarrow> string \<Rightarrow> unit fallible"

definition upper_char :: "char \<Rightarrow> char" where
  "upper_char c = (let n = of_char c :: nat in if 97 \<le> n \<and> n \<le> 122 then char_of (n - 32) else c)"

definition toUpperCase :: "string \<Rightarrow> string" where
  "toUpperCase s = map upper_char s"

text \<open>\<open>network.toUpperCase()\<close>; the network is \<open>undefined\<close> when there is none.\<close>

definition upperNetwork :: "string option \<Rightarrow> ('c, string) hscript" where
  "upperNetwork network = (case network of
       None \<Rightarrow> throw ''Cannot read properties of undefined (reading 'toUpperCase')''
     | Some n \<Rightarrow> ret (toUpperCase n))"

text \<open>\<open>process.env[a] || process.env.b\<close>\<close>

definition envOr :: "'c hardhat \<Rightarrow> string \<Rightarrow> string \<Rightarrow> string option" where
  "envOr H a b = (case h_env H a of
       Some s \<Rightarrow> if s = '''' then h_env H b else Some s
     | None \<Rightarrow> h_env H b)"

definition usableAddress :: "string option \<Rightarrow> bool" where
  "usableAddress a = (case a of None \<Rightarrow> False | Some s \<Rightarrow> s \<noteq> '''' \<and> \<not> js_includes s ''...'')"

definition findAddress ::
    "'c hardhat \<Rightarrow> 'c truffle \<Rightarrow> string option \<Rightarrow> string \<Rightarrow> string \<Rightarrow> ('c, string option) hscript" where
  "findAddress H T network contract var =
     catch
       (bind (query (\<lambda>c. tr_deployed T c contract)) (\<lambda>a.
        bind (tell ''from-deployed'' [JStr a]) (\<lambda>_. ret (Some a))))
       (\<lambda>e. bind (tell ''try-env'' []) (\<lambda>_.
        bind (upperNetwork network) (\<lambda>n.
        let a = envOr H (n @ ''_'' @ var @ ''_ADDRESS'') (var @ ''_ADDRESS'') in
        bind (whenA (a \<noteq> None \<and> a \<noteq> Some '''') (tell ''from-env'' [])) (\<lambda>_.
        ret a))))"

definition truffleUpgrade ::
    "'c hardhat \<Rightarrow> 'c truffle \<Rightarrow> string \<Rightarrow> string \<Rightarrow> string option \<Rightarrow> ('c, unit) hscript" where
  "truffleUpgrade H T contract var network =
     catch
       (bind (tell ''starting'' [JStr contract]) (\<lambda>_.
        bind (findAddress H T network contract var) (\<lambda>address.
        if \<not> usableAddress address then
          bind (tell ''no-address'' []) (\<lambda>_.
          bind (upperNetwork network) (\<lambda>n.
          tell ''set-env'' [JStr n]))
        else
          bind (tell ''current'' [JStr (the address)]) (\<lambda>_.
          if network = None \<or> network = Some '''' then throw ''No network specified''
          else
            bind (exec H (UpgradeProxyTo (the address) contract)) (\<lambda>r.
            bind (tell ''upgraded'' [JStr (rp_address r)]) (\<lambda>_.
            catch
              (bind (query (\<lambda>c. tr_append T c (contract @ ''='' @ rp_address r))) (\<lambda>_.
               tell ''written'' []))
              (\<lambda>e. tell ''write-failed'' [JStr e])))))))
       (\<lambda>e. tell ''error'' [JStr e])"

definition upgrade_oracle :: "'c hardhat \<Rightarrow> 'c truffle \<Rightarrow> string option \<Rightarrow> ('c, unit) hscript" where
  "upgrade_oracle H T = truffleUpgrade H T ''Oracle'' ''ORACLE''"

definition upgrade_tcash :: "'c hardhat \<Rightarrow> 'c truffle \<Rightarrow> string option \<Rightarrow> ('c, unit) hscript" where
  "upgrade_tcash H T = truffleUpgrade H T ''TCash'' ''TCASH''"

definition upgrade_tcashauction :: "'c hardhat \<Rightarrow> 'c truffle \<Rightarrow> string option \<Rightarrow> ('c, unit) hscript" where
  "upgrade_tcashauction H T = truffleUpgrade H T ''TCashAuction'' ''TCASHAUCTION''"

definition upgrade_tcashloan :: "'c hardhat \<Rightarrow> 'c truffle \<Rightarrow> string option \<Rightarrow> ('c, unit) hscript" where
  "upgrade_tcashloan H T = truffleUpgrade H T ''TCashLoan'' ''TCASHLOAN''"

definition upgrade_wtcash :: "'c hardhat \<Rightarrow> 'c truffle \<Rightarrow> string option \<Rightarrow> ('c, unit) hscript" where
  "upgrade_wtcash H T = truffleUpgrade H T ''WTCASH'' ''WTCASH''"

section \<open>producers.js\<close>

text \<open>\<open>s.replace(sub, '')\<close>: the first occurrence is removed.\<close>

fun removeFirst :: "string \<Rightarrow> string \<Rightarrow> string" where
  "removeFirst sub [] = []"
| "removeFirst sub (c # s) =
     (if take (length sub) (c # s) = sub then drop (length sub) (c # s) else c # removeFirst sub s)"

definition PRODUCER_CONTRACTS :: "string list" where
  "PRODUCER_CONTRACTS = [''OilProducer'', ''GasProducer'', ''EthProducer'', ''BtcProducer'']"

definition producerKind :: "string \<Rightarrow> string" where
  "producerKind contract = toUpperCase (removeFirst ''Producer'' contract)"

definition zeroText :: string where
  "zeroText = ''0x0000000000000000000000000000000000000000''"

datatype upgrade_result = Skipped string | Success string string string | Failed string string

definition readKind ::
    "'c truffle \<Rightarrow> string \<Rightarrow> (string \<times> string) list \<Rightarrow> string \<Rightarrow> ('c, (string \<times> string) list) hscript" where
  "readKind T governance addrs kind =
     catch
       (bind (query (\<lambda>c. tr_treasure T c governance kind)) (\<lambda>a.
        bind (tell ''producer'' [JStr kind, JStr a]) (\<lambda>_. ret (addrs @ [(kind, a)]))))
       (\<lambda>e. bind (tell ''not-fetched'' [JStr kind, JStr e]) (\<lambda>_. ret addrs))"

definition readProducers :: "'c truffle \<Rightarrow> string \<Rightarrow> ('c, (string \<times> string) list) hscript" where
  "readProducers T governance = foldA (readKind T governance) [] [''OIL'', ''GAS'', ''ETH'', ''BTC'']"

definition upgradeProducer ::
    "'c hardhat \<Rightarrow> (string \<times> string) list \<Rightarrow> string \<Rightarrow> ('c, upgrade_result) hscript" where
  "upgradeProducer H addrs contract =
     catch
       (bind (tell ''upgrading'' [JStr contract]) (\<lambda>_.
        case truthyAt addrs (producerKind contract) of
          None \<Rightarrow> bind (tell ''skipping'' [JStr contract]) (\<lambda>_. ret (Skipped contract))
        | Some proxy \<Rightarrow>
            if proxy = zeroText then bind (tell ''skipping'' [JStr contract]) (\<lambda>_. ret (Skipped contract))
            else
              bind (tell ''proxy'' [JStr proxy]) (\<lambda>_.
              bind (lift_err (h_factory H contract)) (\<lambda>_.
              bind (tell ''preparing'' [JStr contract]) (\<lambda>_.
              bind (exec H (UpgradeProxyTo proxy contract)) (\<lambda>r.
              bind (tell ''upgraded'' [JStr contract]) (\<lambda>_.
              bind (tell ''implementation'' [JStr (rp_address r)]) (\<lambda>_.
              bind (tell ''waiting'' []) (\<lambda>_.
              ret (Success contract proxy (rp_address r)))))))))))
       (\<lambda>e. bind (tell ''failed'' [JStr contract, JStr e]) (\<lambda>_. ret (Failed contract e)))"

fun isSuccess :: "upgrade_result \<Rightarrow> bool" where
  "isSuccess (Success c p i) = True"
| "isSuccess _ = False"

fun isFailed :: "upgrade_result \<Rightarrow> bool" where
  "isFailed (Failed c e) = True"
| "isFailed _ = False"

fun isSkipped :: "upgrade_result \<Rightarrow> bool" where
  "isSkipped (Skipped c) = True"
| "isSkipped _ = False"

fun resultVals :: "upgrade_result \<Rightarrow> jsval list" where
  "resultVals (Success c p i) = [JStr c, JStr p]"
| "resultVals (Failed c e) = [JStr c, JStr e]"
| "resultVals (Skipped c) = [JStr c]"

definition upgradeReport :: "upgrade_result list \<Rightarrow> ('c, unit) hscript" where
  "upgradeReport results =
     (let ok = filter isSuccess results; failed = filter isFailed results; skipped = filter isSkipped results in
     bind (tell ''upgraded-count'' [JNum (length ok)]) (\<lambda>_.
     bind (tell ''failed-count'' [JNum (length failed)]) (\<lambda>_.
     bind (tell ''skipped-count'' [JNum (length skipped)]) (\<lambda>_.
     bind (forEach ok (\<lambda>r. tell ''ok'' (resultVals r))) (\<lambda>_.
     bind (forEach failed (\<lambda>r. tell ''bad'' (resultVals r))) (\<lambda>_.
     if ok \<noteq> [] then
       bind (tell ''complete'' []) (\<lambda>_. forEach ok (\<lambda>r. tell ''env'' (resultVals r)))
     else tell ''none-upgraded'' []))))))"

definition upgrade_producers :: "'c hardhat \<Rightarrow> 'c truffle \<Rightarrow> string option \<Rightarrow> ('c, unit) hscript" where
  "upgrade_producers H T network =
     bind (tell ''starting'' [JStr ''producers'']) (\<lambda>_.
     let governance = (case h_env H ''GOVERNANCE_ADDRESS'' of
         None \<Rightarrow> ''0xc69bd55C22664cF319698984211FeD155403C066''
       | Some s \<Rightarrow> orElse s ''0xc69bd55C22664cF319698984211FeD155403C066'') in
     bind (query (\<lambda>c. tr_at T c ''Governance'' governance)) (\<lambda>_.
     bind (tell ''governance'' [JStr governance]) (\<lambda>_.
     bind (readProducers T governance) (\<lambda>addrs.
     bind (mapA PRODUCER_CONTRACTS (upgradeProducer H addrs)) (\<lambda>results.
     upgradeReport results)))))"

section \<open>force\_import\_wtcash.js and upgrade-tcashloan.js\<close>

definition force_import_wtcash :: "'c truffle \<Rightarrow> ('c, unit) hscript" where
  "force_import_wtcash T =
     bind (query (\<lambda>c. tr_import T c ''0x5293caC8b36FeDDAB87988F076db441bbb99D144'' ''WTCASH'')) (\<lambda>_.
     tell ''import-done'' [])"

text \<open>
  \<open>deployed\<close> is what calling \<open>upgradedContract.deployed()\<close> gives, \<open>address\<close> the property of that name and
  \<open>verify\<close> the verification task.
\<close>

definition upgradeTCashLoan_main ::
    "'c hardhat \<Rightarrow> unit fallible \<Rightarrow> (reply \<Rightarrow> jsval) \<Rightarrow> ('c \<Rightarrow> jsval \<Rightarrow> unit fallible) \<Rightarrow> ('c, unit) hscript" where
  "upgradeTCashLoan_main H deployed address verify =
     catch
       (bind (tell ''starting'' [JStr ''TCashLoan'']) (\<lambda>_.
        bind (lift_err (h_factory H ''TCashLoan'')) (\<lambda>_.
        case h_env H ''TCASHLOAN_PROXY_ADDRESS'' of
          None \<Rightarrow> throw ''Please set the TCASHLOAN_PROXY_ADDRESS environment variable in the .env file''
        | Some proxy \<Rightarrow>
            if proxy = '''' then throw ''Please set the TCASHLOAN_PROXY_ADDRESS environment variable in the .env file''
            else
              bind (tell ''preparing'' [JStr proxy]) (\<lambda>_.
              bind (exec H (UpgradeProxyTo proxy ''TCashLoan'')) (\<lambda>r.
              bind (lift_err deployed) (\<lambda>_.
              bind (tell ''upgraded'' [address r]) (\<lambda>_.
              bind (tell ''waiting'' []) (\<lambda>_.
              bind (catch
                (bind (tell ''verifying'' []) (\<lambda>_.
                 bind (query (\<lambda>c. verify c (address r))) (\<lambda>_.
                 tell ''verified'' [])))
                (\<lambda>e. tell ''not-verified'' [JStr e])) (\<lambda>_.
              process_exit 0))))))))) 
       (\<lambda>e. bind (tell ''error'' [JStr e]) (\<lambda>_. process_exit 1))"

section \<open>What they upgrade\<close>

text \<open>The operations of a run.\<close>

definition opsOf :: "'c hworld \<Rightarrow> 'c hworld \<Rightarrow> hh_op list" where
  "opsOf w w' = map fst (drop (length (hw_ops w)) (hw_ops w'))"

text \<open>The address a migration settles on, and the upgrade it is to make.\<close>

definition chosenAddress ::
    "'c hardhat \<Rightarrow> 'c truffle \<Rightarrow> string option \<Rightarrow> string \<Rightarrow> string \<Rightarrow> 'c \<Rightarrow> string option" where
  "chosenAddress H T network contract var c = (case tr_deployed T c contract of
       Inr a \<Rightarrow> Some a
     | Inl e \<Rightarrow> (case network of None \<Rightarrow> None
         | Some n \<Rightarrow> envOr H (toUpperCase n @ ''_'' @ var @ ''_ADDRESS'') (var @ ''_ADDRESS'')))"

definition plannedUpgrade ::
    "'c hardhat \<Rightarrow> 'c truffle \<Rightarrow> string option \<Rightarrow> string \<Rightarrow> string \<Rightarrow> 'c \<Rightarrow> hh_op list" where
  "plannedUpgrade H T network contract var c =
     (let a = chosenAddress H T network contract var c in
      if usableAddress a \<and> network \<noteq> None \<and> network \<noteq> Some '''' then [UpgradeProxyTo (the a) contract] else [])"

lemma findAddress_eq:
  "\<exists>ls. findAddress H T network contract var w =
     (if network = None \<and> chosenAddress H T network contract var (hw_chain w) = None
      then (Throw ''Cannot read properties of undefined (reading 'toUpperCase')'', w\<lparr>hw_lines := ls\<rparr>)
      else (Ok (chosenAddress H T network contract var (hw_chain w)), w\<lparr>hw_lines := ls\<rparr>))"
  by (cases "tr_deployed T (hw_chain w) contract"; cases network)
    (simp_all add: findAddress_def chosenAddress_def bind_def catch_def tell_def query_def whenA_def Let_def upperNetwork_def,
     auto)

lemma truffleUpgrade_exact:
  "fst (truffleUpgrade H T contract var network w) = Ok () \<and>
   opsOf w (snd (truffleUpgrade H T contract var network w)) = plannedUpgrade H T network contract var (hw_chain w) \<and>
   sameRegistry w (snd (truffleUpgrade H T contract var network w))"
proof -
  let ?w = "w\<lparr>hw_lines := hw_lines w @ [Line ''starting'' [JStr contract]]\<rparr>"
  let ?a = "chosenAddress H T network contract var (hw_chain w)"
  obtain r c where x: "h_exec H (hw_chain w) (UpgradeProxyTo (the ?a) contract) = (r, c)"
    by (cases "h_exec H (hw_chain w) (UpgradeProxyTo (the ?a) contract)")
  have c: "hw_chain ?w = hw_chain w" by simp
  from findAddress_eq [of H T network contract var ?w, unfolded c] obtain ls where
    f: "findAddress H T network contract var ?w =
      (if network = None \<and> ?a = None
       then (Throw ''Cannot read properties of undefined (reading 'toUpperCase')'', ?w\<lparr>hw_lines := ls\<rparr>)
       else (Ok ?a, ?w\<lparr>hw_lines := ls\<rparr>))"
    by blast
  show ?thesis
    using f x
    by (cases r; cases network; cases "usableAddress ?a"; cases ?a)
      (simp_all add: truffleUpgrade_def bind_def catch_def tell_def query_def exec_def Let_def upperNetwork_def opsOf_def
        plannedUpgrade_def sameRegistry_def split: sum.split)
qed

text \<open>The five migrations always end normally, whatever fails, leave the registry alone, and perform exactly
  the upgrade of their contract at the address truffle or the environment gives, and none when that address is
  missing, empty or abbreviated, or no network is named.\<close>

theorem truffle_upgrades_exact:
  "list_all (\<lambda>(script, contract, var).
      fst (script H T network w) = Ok () \<and>
      opsOf w (snd (script H T network w)) = plannedUpgrade H T network contract var (hw_chain w) \<and>
      sameRegistry w (snd (script H T network w)))
    [(upgrade_oracle, ''Oracle'', ''ORACLE''), (upgrade_tcash, ''TCash'', ''TCASH''),
     (upgrade_tcashauction, ''TCashAuction'', ''TCASHAUCTION''), (upgrade_tcashloan, ''TCashLoan'', ''TCASHLOAN''),
     (upgrade_wtcash, ''WTCASH'', ''WTCASH'')]"
  by (simp add: upgrade_oracle_def upgrade_tcash_def upgrade_tcashauction_def upgrade_tcashloan_def upgrade_wtcash_def
      truffleUpgrade_exact)

text \<open>The producers that governance names, and the upgrades \<open>producers.js\<close> is to make of them.\<close>

definition governanceProducers :: "'c truffle \<Rightarrow> string \<Rightarrow> 'c \<Rightarrow> string list \<Rightarrow> (string \<times> string) list" where
  "governanceProducers T governance c kinds =
     concat (map (\<lambda>k. case tr_treasure T c governance k of Inl e \<Rightarrow> [] | Inr a \<Rightarrow> [(k, a)]) kinds)"

definition producerUpgrade :: "'c hardhat \<Rightarrow> (string \<times> string) list \<Rightarrow> string \<Rightarrow> hh_op list" where
  "producerUpgrade H addrs contract = (case truthyAt addrs (producerKind contract) of
       None \<Rightarrow> []
     | Some p \<Rightarrow> if p = zeroText \<or> h_factory H contract \<noteq> Inr () then [] else [UpgradeProxyTo p contract])"

definition performs :: "hh_op list \<Rightarrow> ('c, 'a) hscript \<Rightarrow> bool" where
  "performs ops m \<longleftrightarrow> (\<forall>w. \<exists>x w' xs. m w = (Ok x, w') \<and> hw_ops w' = hw_ops w @ xs \<and> map fst xs = ops \<and> sameRegistry w w')"

lemma performs_bind:
  assumes "performs ops m" and "\<And>x. performs ops' (k x)"
  shows "performs (ops @ ops') (bind m k)"
  unfolding performs_def
proof
  fix w :: "'a hworld"
  obtain x v xs where m: "m w = (Ok x, v)" "hw_ops v = hw_ops w @ xs" "map fst xs = ops" "sameRegistry w v"
    using assms(1) unfolding performs_def by blast
  obtain y u ys where k: "k x v = (Ok y, u)" "hw_ops u = hw_ops v @ ys" "map fst ys = ops'" "sameRegistry v u"
    using assms(2) unfolding performs_def by blast
  have "bind m k w = (Ok y, u) \<and> hw_ops u = hw_ops w @ (xs @ ys) \<and> map fst (xs @ ys) = ops @ ops' \<and> sameRegistry w u"
    using m k by (simp add: bind_def sameRegistry_def)
  then show "\<exists>x w' xs. bind m k w = (Ok x, w') \<and> hw_ops w' = hw_ops w @ xs \<and> map fst xs = ops @ ops' \<and> sameRegistry w w'"
    by blast
qed

lemma performs_ret: "performs [] (ret x)"
  by (simp add: performs_def sameRegistry_def)

lemma performs_tell: "performs [] (tell k vs)"
  by (simp add: performs_def tell_def sameRegistry_def)

lemma performs_mapA: "(\<And>x. performs (f x) (g x)) \<Longrightarrow> performs (concat (map f xs)) (mapA xs g)"
proof (induction xs)
  case (Cons x xs)
  have "performs (f x @ concat (map f xs) @ []) (bind (g x) (\<lambda>y. bind (mapA xs g) (\<lambda>ys. ret (y # ys))))"
    by (intro performs_bind performs_ret Cons)
  then show ?case by simp
qed (simp add: performs_ret)

lemma performs_forEach: "(\<And>x. performs [] (g x)) \<Longrightarrow> performs [] (forEach xs g)"
proof (induction xs)
  case (Cons x xs)
  have "performs ([] @ []) (bind (g x) (\<lambda>_. forEach xs g))"
    by (intro performs_bind Cons)
  then show ?case by simp
qed (simp add: performs_ret)

lemma performs_upgradeProducer: "performs (producerUpgrade H addrs contract) (upgradeProducer H addrs contract)"
  unfolding performs_def
proof
  fix w :: "'a hworld"
  obtain r c where x: "h_exec H (hw_chain w) (UpgradeProxyTo (the (truthyAt addrs (producerKind contract))) contract) = (r, c)"
    by (cases "h_exec H (hw_chain w) (UpgradeProxyTo (the (truthyAt addrs (producerKind contract))) contract)")
  then show "\<exists>x w' xs. upgradeProducer H addrs contract w = (Ok x, w') \<and> hw_ops w' = hw_ops w @ xs \<and>
      map fst xs = producerUpgrade H addrs contract \<and> sameRegistry w w'"
    by (cases "truthyAt addrs (producerKind contract)"; cases "h_factory H contract"; cases r)
      (simp_all add: upgradeProducer_def producerUpgrade_def bind_def catch_def tell_def exec_def Let_def sameRegistry_def)
qed

lemma performs_report: "performs [] (upgradeReport results)"
proof -
  have "performs ([] @ [] @ [] @ [] @ [] @ []) (upgradeReport results)"
    unfolding upgradeReport_def Let_def
    by (intro performs_bind performs_tell performs_forEach)
      (simp add: performs_tell performs_forEach performs_bind [of "[]" _ "[]", simplified])
  then show ?thesis by simp
qed

lemma readProducers_eq:
  "\<exists>ls. readProducers T governance w =
     (Ok (governanceProducers T governance (hw_chain w) [''OIL'', ''GAS'', ''ETH'', ''BTC'']), w\<lparr>hw_lines := ls\<rparr>)"
proof -
  have "\<exists>ls. foldA (readKind T governance) acc kinds w =
      (Ok (acc @ governanceProducers T governance (hw_chain w) kinds), w\<lparr>hw_lines := ls\<rparr>)"
    for acc kinds and w :: "'a hworld"
  proof (induction kinds arbitrary: acc w)
    case Nil
    show ?case by (auto simp: governanceProducers_def intro!: exI [of _ "hw_lines w"])
  next
    case (Cons k ks)
    obtain ls where "readKind T governance acc k w =
        (Ok (acc @ governanceProducers T governance (hw_chain w) [k]), w\<lparr>hw_lines := ls\<rparr>)"
      by (cases "tr_treasure T (hw_chain w) governance k")
        (simp_all add: readKind_def bind_def catch_def query_def tell_def governanceProducers_def)
    with Cons.IH [of "acc @ governanceProducers T governance (hw_chain w) [k]" "w\<lparr>hw_lines := ls\<rparr>"] show ?case
      by (auto simp: js_simps governanceProducers_def)
  qed
  from this [of "[]"] show ?thesis unfolding readProducers_def append_Nil by blast
qed

definition governanceAddress :: "'c hardhat \<Rightarrow> string" where
  "governanceAddress H = orElse (case h_env H ''GOVERNANCE_ADDRESS'' of None \<Rightarrow> '''' | Some s \<Rightarrow> s)
     ''0xc69bd55C22664cF319698984211FeD155403C066''"

text \<open>\<open>producers.js\<close> fails only when the governance contract cannot be attached; otherwise it ends normally,
  whatever fails, and upgrades exactly, in order, the producers that governance named at the start with an address
  other than zero, each to the artifact of its kind.\<close>

theorem producers_upgrade_exact:
  "(fst (upgrade_producers H T network w), opsOf w (snd (upgrade_producers H T network w))) =
   (case tr_at T (hw_chain w) ''Governance'' (governanceAddress H) of
      Inl e \<Rightarrow> (Throw e, [])
    | Inr _ \<Rightarrow> (Ok (), concat (map
        (producerUpgrade H (governanceProducers T (governanceAddress H) (hw_chain w) [''OIL'', ''GAS'', ''ETH'', ''BTC'']))
        PRODUCER_CONTRACTS)))"
proof -
  let ?v = "w\<lparr>hw_lines := hw_lines w @ [Line ''starting'' [JStr ''producers'']]\<rparr>"
  let ?g = "governanceAddress H"
  let ?u = "?v\<lparr>hw_lines := hw_lines ?v @ [Line ''governance'' [JStr ?g]]\<rparr>"
  let ?addrs = "governanceProducers T ?g (hw_chain w) [''OIL'', ''GAS'', ''ETH'', ''BTC'']"
  have g: "(case h_env H ''GOVERNANCE_ADDRESS'' of None \<Rightarrow> ''0xc69bd55C22664cF319698984211FeD155403C066''
       | Some s \<Rightarrow> orElse s ''0xc69bd55C22664cF319698984211FeD155403C066'') = ?g"
    by (simp add: governanceAddress_def orElse_def split: option.split)
  have c: "hw_chain ?u = hw_chain w" by simp
  obtain ls where r: "readProducers T ?g ?u = (Ok ?addrs, ?u\<lparr>hw_lines := ls\<rparr>)"
    using readProducers_eq [of T ?g ?u, unfolded c] by blast
  have "performs (concat (map (producerUpgrade H ?addrs) PRODUCER_CONTRACTS) @ [])
      (bind (mapA PRODUCER_CONTRACTS (upgradeProducer H ?addrs)) upgradeReport)"
    by (intro performs_bind performs_mapA performs_upgradeProducer performs_report)
  then obtain x w' xs where run: "bind (mapA PRODUCER_CONTRACTS (upgradeProducer H ?addrs)) upgradeReport
        (?u\<lparr>hw_lines := ls\<rparr>) = (Ok x, w')"
    and ops: "hw_ops w' = hw_ops w @ xs" "map fst xs = concat (map (producerUpgrade H ?addrs) PRODUCER_CONTRACTS)"
    unfolding performs_def by fastforce
  show ?thesis
    using r run ops unfolding upgrade_producers_def g Let_def
    by (cases "tr_at T (hw_chain w) ''Governance'' ?g")
      (simp_all add: js_simps tell_def query_def opsOf_def)
qed

text \<open>\<open>upgrade-tcashloan.js\<close> reports a failure after every upgrade it makes: the contract object has no
  \<open>deployed\<close> method any more, so calling it throws.\<close>

theorem tcashloan_upgrade_reported_failed:
  assumes "deployed = Inl ''upgradedContract.deployed is not a function''"
    and "h_factory H ''TCashLoan'' = Inr ()" and "h_env H ''TCASHLOAN_PROXY_ADDRESS'' = Some proxy" and "proxy \<noteq> ''''"
    and "h_exec H (hw_chain w) (UpgradeProxyTo proxy ''TCashLoan'') = (Inr r, c)"
  shows "fst (upgradeTCashLoan_main H deployed address verify w) = Exit 1 \<and>
    hw_ops (snd (upgradeTCashLoan_main H deployed address verify w)) = hw_ops w @ [(UpgradeProxyTo proxy ''TCashLoan'', Inr r)] \<and>
    hw_chain (snd (upgradeTCashLoan_main H deployed address verify w)) = c"
  using assms by (simp add: upgradeTCashLoan_main_def bind_def catch_def tell_def exec_def)

lemma tcashloan_upgrade_reported_failed_witness:
  "fst (upgradeTCashLoan_main (demoPlugin\<lparr>h_env := (\<lambda>k. Some ''0x9'')\<rparr>) (Inl ''upgradedContract.deployed is not a function'')
      (\<lambda>r. JUndef) (\<lambda>c a. Inr ()) demoStart) = Exit 1"
  using tcashloan_upgrade_reported_failed [OF refl, of "demoPlugin\<lparr>h_env := (\<lambda>k. Some ''0x9'')\<rparr>" "''0x9''" demoStart]
  by (simp add: demoPlugin_def)

section \<open>hardhat.config.js\<close>

definition DEFAULT_PRIVATE_KEYS :: "string list" where
  "DEFAULT_PRIVATE_KEYS = [''0x72949B647AD8DB021F3E346F27CD768F2D900CE7211809AF06A7E94A4CB3EED2'']"

definition normalizeKey :: "string \<Rightarrow> string option" where
  "normalizeKey key = (if key = '''' then None
     else let trimmed = trim key in
       if trimmed = '''' then None
       else if take 2 trimmed = ''0x'' then Some trimmed else Some (''0x'' @ trimmed))"

text \<open>\<open>s.split(',')\<close>\<close>

fun splitOn :: "char \<Rightarrow> string \<Rightarrow> string list" where
  "splitOn c [] = [[]]"
| "splitOn c (d # s) = (if d = c then [] # splitOn c s
     else case splitOn c s of [] \<Rightarrow> [[d]] | t # ts \<Rightarrow> (d # t) # ts)"

definition loadAccounts :: "(string \<Rightarrow> string option) \<Rightarrow> string \<Rightarrow> string list \<Rightarrow> string list" where
  "loadAccounts env envKey fallback =
     (let var = (\<lambda>k. case env k of None \<Rightarrow> '''' | Some s \<Rightarrow> s);
          fromEnv = List.map_filter normalizeKey (splitOn CHR '','' (orElse (var envKey) (var ''PRIVATE_KEYS'')));
          fallbackKeys = List.map_filter normalizeKey (if fallback \<noteq> [] then fallback else DEFAULT_PRIVATE_KEYS)
      in if fromEnv \<noteq> [] then fromEnv else fallbackKeys)"

record network_config =
  nc_name :: string
  nc_url :: "string option"
  nc_chainId :: nat
  nc_accounts :: "string list option"

definition networks :: "(string \<Rightarrow> string option) \<Rightarrow> network_config list" where
  "networks env =
     (let rpc = (\<lambda>d. Some (orElse (case env ''RPC'' of None \<Rightarrow> '''' | Some s \<Rightarrow> s) d));
          keys = Some (loadAccounts env ''PRIVATE_KEY'' []) in
      [\<lparr>nc_name = ''hardhat'', nc_url = None, nc_chainId = 1337, nc_accounts = None\<rparr>,
       \<lparr>nc_name = ''ganache'', nc_url = rpc ''http://127.0.0.1:8545'', nc_chainId = 1337, nc_accounts = keys\<rparr>,
       \<lparr>nc_name = ''dev'', nc_url = rpc ''https://dev.testnet.treasurenet.io'', nc_chainId = 6666, nc_accounts = keys\<rparr>,
       \<lparr>nc_name = ''dev2'', nc_url = rpc ''https://dev2.testnet.treasurenet.io'', nc_chainId = 6566, nc_accounts = keys\<rparr>,
       \<lparr>nc_name = ''testnet'', nc_url = rpc ''http://172.31.2.234:8555'', nc_chainId = 5005, nc_accounts = keys\<rparr>,
       \<lparr>nc_name = ''mainnet'', nc_url = rpc ''https://rpc.treasurenet.io'', nc_chainId = 5002, nc_accounts = keys\<rparr>,
       \<lparr>nc_name = ''ethereum'', nc_url = rpc ''http://127.0.0.1:8545'', nc_chainId = 1, nc_accounts = keys\<rparr>])"

text \<open>Every key has the \<open>0x\<close> prefix, and there is always one: without a key in the environment it is the key
  that the file carries, for the main network too.\<close>

lemma normalizeKey_prefix: "normalizeKey k = Some k' \<Longrightarrow> take 2 k' = ''0x''"
  by (auto simp: normalizeKey_def Let_def split: if_splits)

lemma accounts_prefixed: "list_all (\<lambda>k. take 2 k = ''0x'') (loadAccounts env key fallback)"
  by (auto simp: loadAccounts_def Let_def list_all_iff List.map_filter_def dest: normalizeKey_prefix)

lemma mainnet_falls_back_to_committed_key:
  assumes "env ''PRIVATE_KEY'' = None" and "env ''PRIVATE_KEYS'' = None"
  shows "list_all (\<lambda>n. nc_accounts n = None \<or> nc_accounts n = Some DEFAULT_PRIVATE_KEYS) (networks env)"
proof -
  have "loadAccounts env ''PRIVATE_KEY'' [] = DEFAULT_PRIVATE_KEYS"
    using assms by (simp add: loadAccounts_def orElse_def normalizeKey_def DEFAULT_PRIVATE_KEYS_def trim_def isSpace_def
        List.map_filter_def)
  then show ?thesis by (simp add: networks_def Let_def)
qed

end
