(* ===== verification/Diagnostics.thy ===== *)
theory Diagnostics
  imports Registry ProducerScripts ProposalScripts
begin

text \<open>
  The diagnostic scripts: \<open>check-proxy-admin.js\<close>, \<open>find-proxyadmin.js\<close>, \<open>verify-mulsig-address.js\<close>,
  \<open>debug-proposal-data.js\<close> and \<open>diagnose-upgrade-issue.js\<close>. They ask the node, print what they find and
  are meant to change nothing.
\<close>

section \<open>What they share\<close>

text \<open>\<open>`0x${word.slice(-40)}`\<close>: the address in a storage word.\<close>

definition wordAddress :: "string \<Rightarrow> string" where
  "wordAddress s = ''0x'' @ slice_last 40 s"

definition adminSlot :: string where
  "adminSlot = ''0xb53127684a568b3173ae13b9f8a6016e243e63b6e8ee1178d6a717850b5d6103''"

definition zeroAddressText :: string where
  "zeroAddressText = ''0x'' @ replicate 40 (CHR ''0'')"

definition mainnetProducers :: "(string \<times> string) list" where
  "mainnetProducers = [(''OIL'', ''0x05DbA5c8a040ee706e22ddBEAc2887998B2b149d''),
     (''GAS'', ''0x470B0196f597DF699057599D436f7E259688BCd9''),
     (''ETH'', ''0x4693c13eF898c50596072db86E420495C1680643''),
     (''BTC'', ''0xDDD221b4Dca0E7d1CE876893316A3c8beD3d5f40'')]"

text \<open>\<open>web3.utils.toChecksumAddress\<close> of a string.\<close>

definition checksumOf :: "('ac, 'px) env \<Rightarrow> string \<Rightarrow> ('ac, 'px, string) script" where
  "checksumOf E s = bind (addrOf E s) (\<lambda>a. ret (e_toChecksum E a))"

section \<open>check-proxy-admin.js\<close>

record check_config =
  ck_mulSig :: string
  ck_governance :: string
  ck_account :: string
  ck_privateKey :: string

definition proxy_check_shipped :: check_config where
  "proxy_check_shipped = \<lparr>ck_mulSig = '''', ck_governance = ''0xA0e2caF71782DC0e3D03EF1D3cd7CEA036ce9Fb7'',
     ck_account = ''0x6A79824E6be14b7e5Cb389527A02140935a76cD5'',
     ck_privateKey = ''0x72949B647AD8DB021F3E346F27CD768F2D900CE7211809AF06A7E94A4CB3EED2''\<rparr>"

text \<open>The network manifests of the OpenZeppelin plugin, as the directory \<open>.openzeppelin\<close> has them.\<close>

record manifest =
  mf_admin :: "string option"
  mf_proxies :: "(string \<times> string option) list option"

record oz_directory =
  oz_files :: "string list option"
  oz_manifest :: "string \<Rightarrow> manifest fallible"

text \<open>Methods 1 and 2: the admin from the proxy itself, or from its storage.\<close>

definition inspectAdmin :: "('ac, 'px) env \<Rightarrow> addr \<Rightarrow> ('ac, 'px, unit) script" where
  "inspectAdmin E producer =
     catch
       (bind (proxy_call E ''admin'' producer) (\<lambda>admin.
        bind (say ''proxy-admin'' [JAddr admin]) (\<lambda>_.
        catch
          (bind (proxy_call E ''implementation'' producer) (\<lambda>implementation.
           say ''implementation'' [JAddr implementation]))
          (\<lambda>m. say ''no-implementation'' [JStr m]))))
       (\<lambda>m. bind (say ''direct-failed'' [JStr m]) (\<lambda>_.
        catch
          (bind (getStorageAt E producer adminSlot) (\<lambda>adminData.
           if wordAddress adminData \<noteq> zeroAddressText then
             bind (checksumOf E (wordAddress adminData)) (\<lambda>a. say ''admin-from-storage'' [JStr a])
           else say ''slot-empty'' []))
          (\<lambda>m. say ''no-storage'' [JStr m])))"

text \<open>Method 3: a gas estimate shows whether the account may call \<open>setMulSigContract\<close>.\<close>

definition checkManagement :: "('ac, 'px) env \<Rightarrow> check_config \<Rightarrow> addr \<Rightarrow> ('ac, 'px, unit) script" where
  "checkManagement E C producer =
     catch
       (bind (loadContractABI E ''OilProducer'') (\<lambda>_.
        bind (addrOf E (ck_account C)) (\<lambda>account.
        bind (estimateGas E account producer (SetMulSigContract account)) (\<lambda>gasEstimate.
        say ''may-manage'' [JNum gasEstimate]))))
       (\<lambda>m. say ''permission-failed'' [JStr m])"

definition inspectProducer ::
    "('ac, 'px) env \<Rightarrow> check_config \<Rightarrow> string \<times> addr \<Rightarrow> ('ac, 'px, unit) script" where
  "inspectProducer E C = (\<lambda>(kind, producer).
     if producer = 0 then say ''skipping'' [JStr kind]
     else
       bind (say ''producer'' [JStr kind, JAddr producer]) (\<lambda>_.
       catch (bind (inspectAdmin E producer) (\<lambda>_. checkManagement E C producer))
         (\<lambda>m. say ''check-failed'' [JStr m])))"

text \<open>\<open>governance.getTreasureByKind(kind)\<close> without \<open>methods\<close>: the contract object has no such function.\<close>

definition treasureDirect :: "string \<Rightarrow> ('ac, 'px, addr) script" where
  "treasureDirect kind = throw ''governance.getTreasureByKind is not a function''"

definition fetchProducers :: "('ac, 'px, (string \<times> addr) list) script" where
  "fetchProducers = foldA (\<lambda>found kind.
     catch
       (bind (treasureDirect kind) (\<lambda>producer.
        bind (say ''producer-of'' [JStr kind, JAddr producer]) (\<lambda>_. ret (found @ [(kind, producer)]))))
       (\<lambda>m. bind (say ''no-producer'' [JStr kind, JStr m]) (\<lambda>_. ret found)))
     [] treasureKinds"

definition reportManifest :: "oz_directory \<Rightarrow> string \<Rightarrow> ('ac, 'px, unit) script" where
  "reportManifest D file =
     catch
       (bind (lift_err (oz_manifest D file)) (\<lambda>manifest.
        bind (say ''manifest'' [JStr file]) (\<lambda>_.
        bind (say ''manifest-admin'' [JStr (orElse (case mf_admin manifest of None \<Rightarrow> '''' | Some a \<Rightarrow> a) ''N/A'')]) (\<lambda>_.
        let proxies = (case mf_proxies manifest of None \<Rightarrow> [] | Some ps \<Rightarrow> ps) in
        bind (say ''proxy-count'' [JNum (length proxies)]) (\<lambda>_.
        forEach proxies (\<lambda>(proxy, kind).
          say ''proxy'' [JStr proxy, JStr (orElse (case kind of None \<Rightarrow> '''' | Some k \<Rightarrow> k) ''unknown'')]))))))
       (\<lambda>m. say ''bad-manifest'' [JStr file, JStr m])"

definition reportManifests :: "oz_directory \<Rightarrow> ('ac, 'px, unit) script" where
  "reportManifests D = (case oz_files D of
       None \<Rightarrow> say ''no-directory'' []
     | Some files \<Rightarrow>
         bind (say ''files'' (map JStr files)) (\<lambda>_.
         let networkFiles = filter (\<lambda>f. js_includes f ''6666'' \<or> js_includes f ''treasurenet'') files in
         if networkFiles \<noteq> [] then
           bind (say ''network-files'' (map JStr networkFiles)) (\<lambda>_. forEach networkFiles (reportManifest D))
         else say ''no-network-files'' []))"

definition checkProxyAdmin :: "('ac, 'px) env \<Rightarrow> oz_directory \<Rightarrow> check_config \<Rightarrow> ('ac, 'px, unit) script" where
  "checkProxyAdmin E D C =
     catch
       (bind (say ''account'' [JStr (ck_account C)]) (\<lambda>_.
        bind (lift_err (e_keyAccount E (ck_privateKey C))) (\<lambda>account.
        bind (loadContractABI E ''Governance'') (\<lambda>_.
        bind (addrOf E (ck_governance C)) (\<lambda>governance.
        bind fetchProducers (\<lambda>producerInfo.
        bind (forEach producerInfo (inspectProducer E C)) (\<lambda>_.
        bind (reportManifests D) (\<lambda>_.
        say ''suggestions'' []))))))))
       (\<lambda>m. bind (say ''error'' [JStr m]) (\<lambda>_. process_exit 1))"

section \<open>find-proxyadmin.js\<close>

text \<open>\<open>Set.add\<close>, in the order of insertion.\<close>

definition setAdd :: "'a \<Rightarrow> 'a list \<Rightarrow> 'a list" where
  "setAdd x xs = (if x \<in> set xs then xs else xs @ [x])"

text \<open>An admin stays in the set when the look at its code fails.\<close>

definition readAdmin ::
    "('ac, 'px) env \<Rightarrow> string list \<Rightarrow> string \<times> string \<Rightarrow> ('ac, 'px, string list) script" where
  "readAdmin E admins = (\<lambda>(kind, proxyAddress).
     bind (say ''checking'' [JStr kind, JStr proxyAddress]) (\<lambda>_.
     catch
       (bind (addrOf E proxyAddress) (\<lambda>proxy.
        bind (getStorageAt E proxy adminSlot) (\<lambda>adminData.
        let admin = ''0x'' @ toLowerCase (slice_last 40 adminData) in
        bind (getStorageAt E proxy implementationSlot) (\<lambda>implData.
        bind (say ''found'' [JStr (''0x'' @ toLowerCase (slice_last 40 implData)), JStr admin]) (\<lambda>_.
        if admin \<noteq> zeroAddressText then
          catch
            (bind (addrOf E admin) (\<lambda>a.
             bind (getCode E a) (\<lambda>code.
             bind (if code \<noteq> ''0x'' then say ''admin-exists'' [] else say ''no-admin-contract'' []) (\<lambda>_.
             ret (setAdd admin admins)))))
            (\<lambda>m. bind (say ''check-failed'' [JStr m]) (\<lambda>_. ret (setAdd admin admins)))
        else bind (say ''no-admin'' []) (\<lambda>_. ret admins))))))
       (\<lambda>m. bind (say ''check-failed'' [JStr m]) (\<lambda>_. ret admins))))"

definition askAdmin ::
    "('ac, 'px) env \<Rightarrow> string list \<Rightarrow> string \<times> string \<Rightarrow> ('ac, 'px, string list) script" where
  "askAdmin E admins = (\<lambda>(kind, proxyAddress).
     catch
       (bind (addrOf E proxyAddress) (\<lambda>proxy.
        bind (proxy_call E ''admin'' proxy) (\<lambda>admin.
        bind (say ''admin'' [JStr kind, JAddr admin]) (\<lambda>_.
        ret (setAdd (toLowerCase (e_toChecksum E admin)) admins)))))
       (\<lambda>m. bind (say ''direct-failed'' [JStr kind, JStr m]) (\<lambda>_. ret admins)))"

definition findProxyAdmin :: "('ac, 'px) env \<Rightarrow> (string \<times> string) list \<Rightarrow> ('ac, 'px, unit) script" where
  "findProxyAdmin E producers =
     catch
       (bind (foldA (readAdmin E) [] producers) (\<lambda>admins.
        bind (case admins of
             [] \<Rightarrow> say ''none'' []
           | [a] \<Rightarrow> say ''single'' [JStr a]
           | _ \<Rightarrow> say ''several'' (map JStr admins)) (\<lambda>_.
        bind (foldA (askAdmin E) admins producers) (\<lambda>admins.
        case admins of
          [a] \<Rightarrow> say ''final'' [JStr a]
        | _ \<Rightarrow> ret ()))))
       (\<lambda>m. bind (say ''error'' [JStr m]) (\<lambda>_. process_exit 1))"

section \<open>verify-mulsig-address.js\<close>

definition verify_shipped :: check_config where
  "verify_shipped = \<lparr>ck_mulSig = ''0xED54E6944B2a89A13F3CcF0fc08ba7DB54Fd0A8c'',
     ck_governance = ''0xA0e2caF71782DC0e3D03EF1D3cd7CEA036ce9Fb7'',
     ck_account = ''0x6A79824E6be14b7e5Cb389527A02140935a76cD5'',
     ck_privateKey = ''0x72949B647AD8DB021F3E346F27CD768F2D900CE7211809AF06A7E94A4CB3EED2''\<rparr>"

definition testPayee :: string where
  "testPayee = ''0x1234567890123456789012345678901234567891''"

definition checkSlot :: "('ac, 'px) env \<Rightarrow> check_config \<Rightarrow> addr \<Rightarrow> nat \<Rightarrow> ('ac, 'px, unit) script" where
  "checkSlot E C producer slot =
     bind (getStorageAt E producer (decDigits slot)) (\<lambda>storageValue.
     whenA (storageValue \<noteq> zeroWord)
       (bind (say ''slot'' [JNum slot, JStr storageValue]) (\<lambda>_.
        bind (checksumOf E (wordAddress storageValue)) (\<lambda>a.
        bind (say ''as-address'' [JStr a]) (\<lambda>_.
        bind (checksumOf E (wordAddress storageValue)) (\<lambda>a.
        bind (checksumOf E (ck_mulSig C)) (\<lambda>b.
        whenA (a = b) (say ''found-in-slot'' [JNum slot]))))))))"

text \<open>Calling \<open>registerDAppConnect\<close> as the multisig, and as somebody else when that fails.\<close>

definition tryRegister :: "('ac, 'px) env \<Rightarrow> addr \<Rightarrow> string \<Rightarrow> ('ac, 'px, unit) script" where
  "tryRegister E producer sender =
     bind (addrOf E testPayee) (\<lambda>payee.
     bind (addrOf E sender) (\<lambda>from.
     dry_run E from producer (RegisterDAppConnect ''TestDApp'' payee)))"

definition checkRegister :: "('ac, 'px) env \<Rightarrow> check_config \<Rightarrow> addr \<Rightarrow> ('ac, 'px, unit) script" where
  "checkRegister E C producer =
     catch
       (bind (tryRegister E producer (ck_mulSig C)) (\<lambda>_. say ''call-succeeded'' []))
       (\<lambda>m. if js_includes m ''empty dapp name'' \<or> js_includes m ''dapp already registered'' then say ''call-works'' []
        else
          bind (say ''call-failed'' [JStr m]) (\<lambda>_.
          catch (tryRegister E producer (ck_account C))
            (\<lambda>u. if js_includes u ''Error happened while trying to execute a function inside a smart contract'' then
                say ''confirmed'' []
              else say ''different-error'' [JStr u])))"

definition verifyProducer :: "('ac, 'px) env \<Rightarrow> check_config \<Rightarrow> addr \<Rightarrow> string \<Rightarrow> ('ac, 'px, unit) script" where
  "verifyProducer E C governance kind =
     catch
       (bind (governance_view E governance (\<lambda>_ g. Governance_getTreasureByKind g kind)) (\<lambda>(producer, _).
        if producer \<noteq> 0 then
          bind (say ''producer'' [JStr kind, JAddr producer]) (\<lambda>_.
          catch
            (bind (say ''slots'' []) (\<lambda>_.
             bind (forEach [0..<10] (checkSlot E C producer)) (\<lambda>_.
             checkRegister E C producer)))
            (\<lambda>m. say ''storage-failed'' [JStr m]))
        else say ''no-producer'' [JStr kind]))
       (\<lambda>m. say ''no-treasure'' [JStr kind, JStr m])"

definition directTest :: "('ac, 'px) env \<Rightarrow> check_config \<Rightarrow> addr \<Rightarrow> ('ac, 'px, unit) script" where
  "directTest E C governance =
     catch
       (bind (governance_view E governance (\<lambda>_ g. Governance_getTreasureByKind g ''OIL'')) (\<lambda>(producer, _).
        whenA (producer \<noteq> 0)
          (bind (addrOf E testPayee) (\<lambda>payee.
           bind (say ''call-data'' []) (\<lambda>_.
           catch
             (bind (addrOf E (ck_mulSig C)) (\<lambda>from.
              bind (estimateGas E from producer (RegisterDAppConnect ''OtterStreamTest'' payee)) (\<lambda>gas.
              say ''gas'' [JNum gas])))
             (\<lambda>m. bind (say ''gas-failed'' [JStr m]) (\<lambda>_. say ''confirms-unset'' [])))))))
       (\<lambda>m. say ''direct-error'' [JStr m])"

text \<open>The diagnosis is printed whatever the checks have shown.\<close>

definition verifyMulSigAddresses :: "('ac, 'px) env \<Rightarrow> check_config \<Rightarrow> ('ac, 'px, unit) script" where
  "verifyMulSigAddresses E C =
     catch
       (bind (say ''expected'' [JStr (ck_mulSig C)]) (\<lambda>_.
        bind (lift_err (e_keyAccount E (ck_privateKey C))) (\<lambda>account.
        bind (loadContractABI E ''Governance'') (\<lambda>_.
        bind (loadContractABI E ''Producer'') (\<lambda>_.
        bind (addrOf E (ck_governance C)) (\<lambda>governance.
        bind (forEach treasureKinds (verifyProducer E C governance)) (\<lambda>_.
        bind (directTest E C governance) (\<lambda>_.
        bind (say ''root-cause'' []) (\<lambda>_.
        bind (say ''solution'' []) (\<lambda>_.
        say ''register-always-fails'' []))))))))))
       (\<lambda>m. bind (say ''error'' [JStr m]) (\<lambda>_. process_exit 1))"

section \<open>debug-proposal-data.js\<close>

text \<open>
  \<open>NaN\<close> when the argument is no number. \<open>sha3\<close> is \<open>soliditySha3\<close> of two words, and \<open>hasRegister\<close> whether
  the build file of the producer lists \<open>registerDAppConnect\<close>.
\<close>

record debug_input =
  db_proposal :: jsnum
  db_sha3 :: "nat \<Rightarrow> nat \<Rightarrow> nat"
  db_hasRegister :: bool

definition debug_shipped :: check_config where
  "debug_shipped = \<lparr>ck_mulSig = ''0xED54E6944B2a89A13F3CcF0fc08ba7DB54Fd0A8c'',
     ck_governance = ''0xA0e2caF71782DC0e3D03EF1D3cd7CEA036ce9Fb7'',
     ck_account = ''0x6A79824E6be14b7e5Cb389527A02140935a76cD5'',
     ck_privateKey = ''0x72949B647AD8DB021F3E346F27CD768F2D900CE7211809AF06A7E94A4CB3EED2''\<rparr>"

definition reportTreasure :: "('ac, 'px) env \<Rightarrow> addr \<Rightarrow> string \<Rightarrow> ('ac, 'px, unit) script" where
  "reportTreasure E governance kind =
     catch
       (bind (governance_view E governance (\<lambda>_ g. Governance_getTreasureByKind g kind)) (\<lambda>(producer, data).
        bind (say ''treasure'' [JStr kind]) (\<lambda>_.
        bind (say ''producer'' [JAddr producer]) (\<lambda>_.
        say ''production-data'' [JAddr data]))))
       (\<lambda>m. say ''no-treasure'' [JStr kind, JStr m])"

definition proposalText :: "jsnum \<Rightarrow> string" where
  "proposalText n = (case n of None \<Rightarrow> ''NaN'' | Some k \<Rightarrow> decDigits k)"

definition reportEvents :: "('ac, 'px) env \<Rightarrow> jsnum \<Rightarrow> ('ac, 'px, unit) script" where
  "reportEvents E proposal =
     catch
       (bind (request E (\<lambda>w. Inr (e_pastEvents E w))) (\<lambda>events.
        let proposalEvents = filter (\<lambda>e. pe_proposalId e = JStr (proposalText proposal) \<or>
              pe_id e = JStr (proposalText proposal)) events in
        bind (say ''events'' [JNum (length proposalEvents), jsNumVal proposal]) (\<lambda>_.
        forEach (zip [0..<length proposalEvents] proposalEvents) (\<lambda>(i, e).
          say ''event'' [JNum (i + 1), JStr (pe_event e)]))))
       (\<lambda>m. say ''no-events'' [JStr m])"

definition reportSlot :: "('ac, 'px) env \<Rightarrow> addr \<Rightarrow> nat \<Rightarrow> nat \<Rightarrow> ('ac, 'px, unit) script" where
  "reportSlot E mulSig base i =
     catch
       (bind (getStorageAt E mulSig (''0x'' @ padStart 64 (CHR ''0'') (hexDigits (base + i)))) (\<lambda>storageValue.
        whenA (storageValue \<noteq> zeroWord)
          (bind (say ''slot'' [JNum i, JStr storageValue]) (\<lambda>_.
           if i = 0 then bind (checksumOf E (wordAddress storageValue)) (\<lambda>a. say ''as-address'' [JStr a])
           else whenA (i = 5) (bind (lift_err (bigIntHex (drop 2 storageValue))) (\<lambda>n. say ''as-number'' [JNum n]))))))
       (\<lambda>m. say ''slot-error'' [JNum i])"

definition reportStorage :: "('ac, 'px) env \<Rightarrow> debug_input \<Rightarrow> addr \<Rightarrow> ('ac, 'px, unit) script" where
  "reportStorage E I mulSig =
     catch
       (case db_proposal I of
          None \<Rightarrow> throw ''Given parameter is not a valid number''
        | Some n \<Rightarrow>
            bind (say ''storage-slot'' [JNum (db_sha3 I n 0)]) (\<lambda>_.
            forEach [0..<10] (reportSlot E mulSig (db_sha3 I n 0))))
       (\<lambda>m. say ''storage-failed'' [JStr m])"

definition testRegistration :: "('ac, 'px) env \<Rightarrow> debug_input \<Rightarrow> check_config \<Rightarrow> addr \<Rightarrow> ('ac, 'px, unit) script" where
  "testRegistration E I C governance =
     catch
       (bind (governance_view E governance (\<lambda>_ g. Governance_getTreasureByKind g ''OIL'')) (\<lambda>(producer, _).
        if producer \<noteq> 0 then
          bind (say ''oil-producer'' [JAddr producer]) (\<lambda>_.
          bind (loadContractABI E ''Producer'') (\<lambda>_.
          if db_hasRegister I then
            bind (say ''function-exists'' []) (\<lambda>_.
            catch
              (bind (tryRegister E producer (ck_account C)) (\<lambda>_. say ''call-succeeded'' []))
              (\<lambda>m. if js_includes m ''onlyMulSig'' \<or> js_includes m ''Ownable'' then say ''requires-multisig'' []
               else say ''call-failed'' [JStr m]))
          else say ''no-function'' []))
        else say ''oil-missing'' []))
       (\<lambda>m. say ''registration-error'' [JStr m])"

definition simulateExecution :: "('ac, 'px) env \<Rightarrow> addr \<Rightarrow> ('ac, 'px, unit) script" where
  "simulateExecution E governance =
     catch
       (bind (governance_view E governance (\<lambda>_ g. Governance_getTreasureByKind g ''OIL'')) (\<lambda>(producer, data).
        bind (say ''producer'' [JAddr producer]) (\<lambda>_.
        bind (say ''production-data'' [JAddr data]) (\<lambda>_.
        if producer = 0 then say ''found-the-issue'' [] else say ''oil-exists'' []))))
       (\<lambda>m. say ''simulation-failed'' [JStr m])"

definition debugProposalData :: "('ac, 'px) env \<Rightarrow> debug_input \<Rightarrow> check_config \<Rightarrow> ('ac, 'px, unit) script" where
  "debugProposalData E I C =
     catch
       (bind (say ''proposal'' [jsNumVal (db_proposal I)]) (\<lambda>_.
        bind (lift_err (e_keyAccount E (ck_privateKey C))) (\<lambda>account.
        bind (loadContractABI E ''MulSig'') (\<lambda>_.
        bind (loadContractABI E ''Governance'') (\<lambda>_.
        bind (addrOf E (ck_mulSig C)) (\<lambda>mulSig.
        bind (addrOf E (ck_governance C)) (\<lambda>governance.
        bind (forEach treasureKinds (reportTreasure E governance)) (\<lambda>_.
        bind (reportEvents E (db_proposal I)) (\<lambda>_.
        bind (reportStorage E I mulSig) (\<lambda>_.
        bind (testRegistration E I C governance) (\<lambda>_.
        bind (simulateExecution E governance) (\<lambda>_.
        say ''summary'' []))))))))))))
       (\<lambda>m. bind (say ''error'' [JStr m]) (\<lambda>_. process_exit 1))"

section \<open>diagnose-upgrade-issue.js\<close>

record diagnose_config =
  dg_proxyAdmin :: string
  dg_manager :: string
  dg_privateKey :: string
  dg_producers :: "(string \<times> string) list"
  dg_newImplementations :: "(string \<times> string) list"

definition diagnose_shipped :: diagnose_config where
  "diagnose_shipped = \<lparr>dg_proxyAdmin = ''0xb6281f28a463c4d7f6b022609a9f7bfeabd86323'',
     dg_manager = ''0x7ec62bc5062fa1d94f27775d211a3585ca4048ae'',
     dg_privateKey = ''0x46067b79171192352063d2a74c876301de534cde65f707bccd0b4f5f416fcda6'',
     dg_producers = mainnetProducers,
     dg_newImplementations =
      [(''OIL'', ''0x5d840312eE45680022A4C371fb72a93a31EA47CD''), (''GAS'', ''0x0E767DDE97547c43fe4E1831bf905EA2C6cf58FF''),
       (''ETH'', ''0xe0eA5259BABD288F86a68a3cCBF7E2D999B2711c''), (''BTC'', ''0xBB6ABcCb5807B75076A48eBDED80F3427eB449Bc'')]\<rparr>"

text \<open>Step 1; \<open>False\<close> when the script returns because there is no admin contract.\<close>

definition diagnoseAdmin :: "('ac, 'px) env \<Rightarrow> diagnose_config \<Rightarrow> addr \<Rightarrow> ('ac, 'px, bool) script" where
  "diagnoseAdmin E C admin =
     catch
       (bind (getCode E admin) (\<lambda>code.
        if code = ''0x'' then bind (say ''no-admin-contract'' []) (\<lambda>_. ret False)
        else
          bind (say ''admin-exists'' []) (\<lambda>_.
          bind (proxyAdmin_owner E admin) (\<lambda>own.
          bind (say ''owner'' [JAddr own]) (\<lambda>_.
          bind (if sameAddress E own (dg_manager C) then say ''is-owner'' []
                else say ''not-owner'' [JStr (dg_manager C), JAddr own]) (\<lambda>_. ret True))))))
       (\<lambda>m. bind (say ''admin-failed'' [JStr m]) (\<lambda>_. ret True))"

definition diagnoseProxy ::
    "('ac, 'px) env \<Rightarrow> diagnose_config \<Rightarrow> addr \<Rightarrow> string \<times> string \<Rightarrow> ('ac, 'px, unit) script" where
  "diagnoseProxy E C admin = (\<lambda>(kind, proxyAddress).
     bind (say ''producer'' [JStr kind, JStr proxyAddress]) (\<lambda>_.
     catch
       (bind (addrOf E proxyAddress) (\<lambda>proxy.
        bind (getProxyAdmin E admin proxy) (\<lambda>a.
        bind (say ''proxy-admin'' [JAddr a]) (\<lambda>_.
        bind (if sameAddress E a (dg_proxyAdmin C) then say ''admin-correct'' []
              else say ''admin-mismatch'' [JStr (dg_proxyAdmin C), JAddr a]) (\<lambda>_.
        bind (getProxyImplementation E admin proxy) (\<lambda>impl.
        say ''implementation'' [JAddr impl]))))))
       (\<lambda>m. say ''check-failed'' [JStr m])))"

definition testUpgrade ::
    "('ac, 'px) env \<Rightarrow> diagnose_config \<Rightarrow> addr \<Rightarrow> string \<times> string \<Rightarrow> ('ac, 'px, unit) script" where
  "testUpgrade E C admin = (\<lambda>(kind, proxyAddress).
     bind (say ''testing'' [JStr kind]) (\<lambda>_.
     catch
       (case map_of (dg_newImplementations C) kind of
          None \<Rightarrow> throw ''Provided address is invalid''
        | Some newImpl \<Rightarrow>
            bind (addrOf E newImpl) (\<lambda>impl.
            bind (getCode E impl) (\<lambda>code.
            if code = ''0x'' then say ''no-implementation'' [JStr newImpl]
            else
              bind (say ''implementation-exists'' []) (\<lambda>_.
              bind (addrOf E proxyAddress) (\<lambda>proxy.
              bind (addrOf E (dg_manager C)) (\<lambda>manager.
              bind (estimateGas E manager admin (ProxyUpgrade proxy impl)) (\<lambda>gas.
              bind (say ''gas'' [JNum gas]) (\<lambda>_.
              catch
                (bind (dry_run E manager admin (ProxyUpgrade proxy impl)) (\<lambda>_. say ''upgrade-works'' []))
                (\<lambda>m. bind (say ''upgrade-failed'' [JStr m]) (\<lambda>_.
                 if js_includes m ''revert'' then say ''reverted'' []
                 else whenA (js_includes m ''owner'') (say ''no-permission'' [])))))))))))
       (\<lambda>m. bind (say ''test-failed'' [JStr m]) (\<lambda>_.
        if js_includes m ''execution reverted'' then say ''permission-or-parameters'' []
        else whenA (js_includes m ''insufficient funds'') (say ''insufficient-balance'' [])))))"

definition diagnoseUpgradeIssue :: "('ac, 'px) env \<Rightarrow> diagnose_config \<Rightarrow> ('ac, 'px, unit) script" where
  "diagnoseUpgradeIssue E C =
     catch
       (bind (lift_err (e_keyAccount E (dg_privateKey C))) (\<lambda>account.
        bind (say ''account'' [JStr (dg_manager C), JStr (dg_proxyAdmin C)]) (\<lambda>_.
        bind (addrOf E (dg_proxyAdmin C)) (\<lambda>admin.
        bind (diagnoseAdmin E C admin) (\<lambda>goOn.
        if \<not> goOn then ret ()
        else
          bind (forEach (dg_producers C) (diagnoseProxy E C admin)) (\<lambda>_.
          bind (forEach (dg_producers C) (testUpgrade E C admin)) (\<lambda>_.
          bind (addrOf E (dg_manager C)) (\<lambda>manager.
          bind (checkBalance E manager 5764607523034235 59) (\<lambda>_.
          bind (say ''alternatives'' []) (\<lambda>_.
          bind (proxyAdmin_owner E admin) (\<lambda>own.
          if \<not> sameAddress E own (dg_manager C) then say ''use-owner'' [JAddr own]
          else say ''permissions-correct'' [])))))))))))
       (\<lambda>m. bind (say ''error'' [JStr m]) (\<lambda>_. process_exit 1))"

section \<open>What they guarantee\<close>

lemmas ro_all = ro_intros ro.keeps_lift

lemma ro_parts:
  "keeps read_only (checksumOf E s)" "keeps read_only (addrOf E s)" "keeps read_only (tryRegister E producer s)"
  "keeps read_only (checkBalance E account m k)"
  unfolding checksumOf_def addrOf_def tryRegister_def checkBalance_def
  by (intro ro_all)+

lemma ro_checkProxyAdmin: "keeps read_only (checkProxyAdmin E D C)"
  unfolding checkProxyAdmin_def fetchProducers_def treasureDirect_def inspectProducer_def inspectAdmin_def
    checkManagement_def reportManifests_def reportManifest_def Let_def
  by (auto intro!: ro_parts ro_all split: option.split)

lemma ro_findProxyAdmin: "keeps read_only (findProxyAdmin E producers)"
  unfolding findProxyAdmin_def readAdmin_def askAdmin_def Let_def
  by (auto intro!: ro_parts ro_all split: list.split)

lemma ro_verify: "keeps read_only (verifyMulSigAddresses E C)"
  unfolding verifyMulSigAddresses_def verifyProducer_def directTest_def checkSlot_def checkRegister_def
  by (auto intro!: ro_parts ro_all)

lemma ro_debug: "keeps read_only (debugProposalData E I C)"
  unfolding debugProposalData_def reportTreasure_def reportEvents_def reportStorage_def reportSlot_def
    testRegistration_def simulateExecution_def Let_def
  by (auto intro!: ro_parts ro_all split: option.split)

lemma ro_diagnose: "keeps read_only (diagnoseUpgradeIssue E C)"
  unfolding diagnoseUpgradeIssue_def diagnoseAdmin_def diagnoseProxy_def testUpgrade_def
  by (auto intro!: ro_parts ro_all split: option.split)

lemma ro_reports:
  "keeps read_only (checkProposal E X)" "keeps read_only (checkPermissions E X)"
  unfolding checkProposal_def listManagers_def reportExecution_def checkPermissions_def Let_def
  by (auto intro!: ro_parts ro_all split: option.split)

text \<open>The diagnostic and reporting scripts change nothing: whatever they are answered, they submit no transaction
  and leave the contracts and the proxies as they are.\<close>

theorem diagnostics_read_only:
  "list_all (\<lambda>script. read_only w (snd (script w)))
     [checkProxyAdmin E D C, findProxyAdmin E producers, verifyMulSigAddresses E C, debugProposalData E I C,
      diagnoseUpgradeIssue E G, checkProposal E X, checkPermissions E X]"
  by (simp add: ro_checkProxyAdmin [THEN ro_here] ro_findProxyAdmin [THEN ro_here] ro_verify [THEN ro_here]
      ro_debug [THEN ro_here] ro_diagnose [THEN ro_here] ro_reports [THEN ro_here])

text \<open>An action that sends no request.\<close>

definition unasked :: "('ac, 'px) world \<Rightarrow> ('ac, 'px) world \<Rightarrow> bool" where
  "unasked w w' \<longleftrightarrow> w_tick w' = w_tick w"

interpretation un: frame_rel unasked
  by unfold_locales (simp_all add: unasked_def)

lemma unasked_say: "keeps unasked (say k v)"
  by (simp add: keeps_def unasked_def say_def)

lemma unasked_loadABI: "keeps unasked (loadContractABI E n)"
  unfolding loadContractABI_def by (auto intro!: un.keeps_intros unasked_say split: sum.split)

lemma unasked_manifests: "keeps unasked (reportManifests D)"
  unfolding reportManifests_def reportManifest_def Let_def
  by (auto intro!: un.keeps_intros unasked_say split: option.split)

lemma fetchProducers_nothing: "\<exists>ls. fetchProducers w = (Ok [], w\<lparr>w_log := ls\<rparr>)"
  by (simp add: fetchProducers_def treasureKinds_def treasureDirect_def say_def bind_def catch_def, rule exI, rule refl)

lemma unasked_fetch:
  assumes "keeps unasked (k [])"
  shows "keeps unasked (bind fetchProducers k)"
  unfolding keeps_def
proof
  fix w :: "('a, 'b) world"
  obtain ls where f: "fetchProducers w = (Ok [], w\<lparr>w_log := ls\<rparr>)" using fetchProducers_nothing by blast
  show "unasked w (snd (bind fetchProducers k w))"
    using assms [unfolded keeps_def, rule_format, of "w\<lparr>w_log := ls\<rparr>"] by (simp add: bind_eval(1) [where m = fetchProducers and w = w, OF f] unasked_def)
qed

text \<open>\<open>check-proxy-admin.js\<close> never sends a request to the node: it calls \<open>getTreasureByKind\<close> past
  \<open>methods\<close>, which throws for every kind, so it knows no producer to inspect.\<close>

theorem proxy_admin_check_asks_nothing:
  "w_tick (snd (checkProxyAdmin E D C w)) = w_tick w"
proof -
  have "keeps unasked (checkProxyAdmin E D C)"
    unfolding checkProxyAdmin_def
    by (intro un.keeps_intros unasked_say unasked_loadABI unasked_fetch unasked_manifests) (simp_all add: addrOf_def un.keeps_lift un.keeps_ret unasked_manifests)
  then show ?thesis by (simp add: keeps_def unasked_def)
qed

lemma wlp_after: "(\<And>x w'. wlp (k x) Q w') \<Longrightarrow> wlp (bind m k) Q w"
  by (auto simp: wlp_iff bind_Ok_iff)

text \<open>\<open>verify-mulsig-address.js\<close> prints its diagnosis, that the producers lack the multisig address and that
  registering always fails, on every run that ends normally, whatever it has found.\<close>

theorem verify_verdict_constant:
  "wlp (verifyMulSigAddresses E C) (\<lambda>_ w'. {Line ''root-cause'' [], Line ''register-always-fails'' []} \<subseteq> set (w_log w')) w"
proof -
  have verdict: "wlp (bind (say ''root-cause'' []) (\<lambda>_. bind (say ''solution'' []) (\<lambda>_. say ''register-always-fails'' [])))
      (\<lambda>_ w'. {Line ''root-cause'' [], Line ''register-always-fails'' []} \<subseteq> set (w_log w')) v"
    for v :: "('a, 'b) world"
    by (simp add: wlp_simps wlp_say)
  show ?thesis
    unfolding verifyMulSigAddresses_def wlp_catch
    by (intro conjI allI impI verdict wlp_after) (simp add: wlp_simps)
qed

lemma silent_lookups:
  "keeps (silent k) (checksumOf E s)" "keeps (silent k) (tryRegister E producer s)"
  unfolding checksumOf_def tryRegister_def by (intro silent_intros)+

lemma silent_simulate: "keeps (silent ''found-the-issue'') (simulateExecution E governance)"
proof -
  have known: "wlp (governance_view E governance (\<lambda>_ g. Governance_getTreasureByKind g ''OIL'')) (\<lambda>x _. fst x \<noteq> 0) w" for w
    by (auto simp: governance_view_def wlp_iff request_Ok_iff ebind_Inr_iff dest: getTreasureByKind_nonzero)
  show ?thesis
    unfolding simulateExecution_def
    by (rule quiet.keeps_catch, rule silent_bind_known [OF _ known]) (auto intro!: silent_intros)
qed

text \<open>The zero address that the last step of \<open>debug-proposal-data.js\<close> looks for never comes back: the governance
  contract reverts for a kind that is not registered.\<close>

theorem debug_never_finds_the_issue:
  "silent ''found-the-issue'' w (snd (debugProposalData E I C w))"
proof -
  have "keeps (silent ''found-the-issue'') (debugProposalData E I C)"
    unfolding debugProposalData_def reportTreasure_def reportEvents_def reportStorage_def reportSlot_def
      testRegistration_def Let_def
    by (auto intro!: silent_simulate silent_lookups silent_intros split: option.split)
  then show ?thesis by (simp add: keeps_def)
qed

end
