(* ===== verification/WorkflowOptions.thy ===== *)
theory WorkflowOptions
  imports UpgradeScripts "HOL-Library.List_Lexorder" "HOL-Library.Char_ord"
begin

text \<open>
  The script \<open>scripts/update-workflow-options.js\<close>, which copies the targets of the deploy and upgrade
  scripts of \<open>package.json\<close> into the option list of the workflow \<open>deploy-contracts.yaml\<close>: the search of the
  regular expression, JavaScript's expansion of the replacement text, and what a run leaves in the
  file. The files are read and written whole; the names of the scripts are the keys of \<open>package.json\<close>.
\<close>

section \<open>Targets\<close>

definition addNew :: "string list \<Rightarrow> string \<Rightarrow> string list" where
  "addNew seen t = (if t \<in> set seen then seen else seen @ [t])"

definition extractTargets :: "string \<Rightarrow> string list \<Rightarrow> string list" where
  "extractTargets action names = foldl (\<lambda>targets name.
     let parts = splitOn CHR '':'' name in
     if 3 \<le> length parts \<and> parts ! 0 = action then addNew targets (parts ! 1) else targets) [] names"

definition allTargets :: "string list \<Rightarrow> string list" where
  "allTargets names = sort (foldl addNew [] (extractTargets ''deploy'' names @ extractTargets ''upgrade'' names)) @ [''custom'']"

section \<open>The regular expression\<close>

text \<open>The first occurrence of a text: what is before it and what is behind it.\<close>

fun findText :: "string \<Rightarrow> string \<Rightarrow> (string \<times> string) option" where
  "findText pat s =
     (if take (length pat) s = pat then Some ([], drop (length pat) s)
      else case s of [] \<Rightarrow> None | c # cs \<Rightarrow> map_option (\<lambda>(a, b). (c # a, b)) (findText pat cs))"

declare findText.simps [simp del]

text \<open>\<open>\n\s+network:\<close> at the start of the text, and its first occurrence.\<close>

definition matchNetwork :: "string \<Rightarrow> string option" where
  "matchNetwork s = (case s of
       [] \<Rightarrow> None
     | c # r \<Rightarrow> (let rest = dropWhile isSpace r in
         if c = CHR 0x0A \<and> rest \<noteq> r \<and> take 8 rest = ''network:'' then Some (drop 8 rest) else None))"

fun findNetwork :: "string \<Rightarrow> (string \<times> string) option" where
  "findNetwork s = (case matchNetwork s of
       Some post \<Rightarrow> Some ([], post)
     | None \<Rightarrow> (case s of [] \<Rightarrow> None | c # cs \<Rightarrow> map_option (\<lambda>(a, b). (c # a, b)) (findNetwork cs)))"

declare findNetwork.simps [simp del]

definition nl :: string where
  "nl = [CHR 0x0A]"

text \<open>The text before the match, the two groups, and the text behind the match.\<close>

definition workflowMatch :: "string \<Rightarrow> (string \<times> string \<times> string \<times> string) option" where
  "workflowMatch workflow =
     Option.bind (findText (''target:'' @ nl) workflow) (\<lambda>(before, r).
     Option.bind (findText (''options:'' @ nl) r) (\<lambda>(between, r).
     Option.bind (findNetwork r) (\<lambda>(group2, after).
     Some (before, ''target:'' @ nl @ between @ ''options:'' @ nl, group2, after))))"

section \<open>The replacement\<close>

definition isDigit :: "char \<Rightarrow> bool" where
  "isDigit c \<longleftrightarrow> 48 \<le> (of_char c :: nat) \<and> (of_char c :: nat) \<le> 57"

definition digit :: "char \<Rightarrow> nat" where
  "digit c = of_char c - 48"

text \<open>\<open>String.prototype.replace\<close> expands \<open>$\<close> patterns in its replacement text.\<close>

fun expand :: "string \<Rightarrow> string \<Rightarrow> string \<Rightarrow> string list \<Rightarrow> string \<Rightarrow> string" where
  "expand matched before after captures [] = []"
| "expand matched before after captures (x # xs) =
     (if x \<noteq> CHR ''$'' then x # expand matched before after captures xs
      else case xs of
          [] \<Rightarrow> [x]
        | c # cs \<Rightarrow>
            if c = CHR ''$'' then x # expand matched before after captures cs
            else if c = CHR ''&'' then matched @ expand matched before after captures cs
            else if c = CHR 0x60 then before @ expand matched before after captures cs
            else if c = CHR 0x27 then after @ expand matched before after captures cs
            else if isDigit c then
              (case cs of
                 d # ds \<Rightarrow>
                   if isDigit d \<and> 1 \<le> 10 * digit c + digit d \<and> 10 * digit c + digit d \<le> length captures
                   then captures ! (10 * digit c + digit d - 1) @ expand matched before after captures ds
                   else if 1 \<le> digit c \<and> digit c \<le> length captures
                   then captures ! (digit c - 1) @ expand matched before after captures cs
                   else x # expand matched before after captures xs
               | [] \<Rightarrow>
                   if 1 \<le> digit c \<and> digit c \<le> length captures
                   then captures ! (digit c - 1) else x # expand matched before after captures xs)
            else x # expand matched before after captures xs)"

fun join :: "string \<Rightarrow> string list \<Rightarrow> string" where
  "join sep [] = []"
| "join sep [t] = t"
| "join sep (t # ts) = t @ sep @ join sep ts"

definition optionsBlock :: "string list \<Rightarrow> string" where
  "optionsBlock targets = join nl (map (\<lambda>t. ''          - '' @ t) targets)"

text \<open>The whole script on the names of the scripts and the text of the workflow: the new text, or the error.\<close>

definition updateWorkflow :: "string list \<Rightarrow> string \<Rightarrow> string fallible" where
  "updateWorkflow names workflow = (case workflowMatch workflow of
       None \<Rightarrow> Inl ''Could not find target options block in deploy-contracts.yaml''
     | Some (before, group1, group2, after) \<Rightarrow>
         (let matched = take (length workflow - length before - length after) (drop (length before) workflow) in
          Inr (before @ expand matched before after [group1, group2]
                 (''$1'' @ optionsBlock (allTargets names) @ nl @ ''      network:'') @ after)))"

section \<open>Searching again\<close>

lemma findText_again:
  assumes "findText pat s = Some (a, b)"
  shows "findText pat (a @ pat @ b') = Some (a, b')" and "s = a @ pat @ b"
proof -
  have "findText pat (a @ pat @ b') = Some (a, b') \<and> s = a @ pat @ b"
    using assms
  proof (induction s arbitrary: a)
    case Nil
    then show ?case by (simp add: findText.simps [of pat] split: if_splits)
  next
    case (Cons c cs)
    show ?case
    proof (cases "take (length pat) (c # cs) = pat")
      case True
      with Cons.prems have "a = []" "b = drop (length pat) (c # cs)"
        by (simp_all add: findText.simps [of pat "c # cs"])
      then show ?thesis using True append_take_drop_id [of "length pat" "c # cs"]
        by (simp add: findText.simps [of pat "pat @ b'"])
    next
      case False
      with Cons.prems obtain a' where a: "a = c # a'" and f: "findText pat cs = Some (a', b)"
        by (auto simp: findText.simps [of pat "c # cs"])
      from Cons.IH [OF f] have cs: "cs = a' @ pat @ b" and again: "findText pat (a' @ pat @ b') = Some (a', b')" by auto
      have "take (length pat) (c # a' @ pat @ b') = take (length pat) (c # cs)" by (simp add: cs take_Cons')
      with False again show ?thesis by (simp add: a cs findText.simps [of pat "c # a' @ pat @ b'"])
    qed
  qed
  then show "findText pat (a @ pat @ b') = Some (a, b')" and "s = a @ pat @ b" by auto
qed

lemma matchNetwork_written: "matchNetwork (nl @ ''      network:'' @ after) = Some after"
  by (simp add: matchNetwork_def nl_def isSpace_def Let_def)

lemma findNetwork_written: "findNetwork (nl @ ''      network:'' @ after) = Some ([], after)"
  by (simp only: findNetwork.simps [of "nl @ r" for r] matchNetwork_written) simp

lemma findNetwork_line:
  assumes "CHR 0x0A \<notin> set l" and "findNetwork r = Some (g, after)"
  shows "findNetwork (l @ r) = Some (l @ g, after)"
  using assms(1)
proof (induction l)
  case (Cons c l)
  then have "matchNetwork (c # l @ r) = None" by (auto simp: matchNetwork_def Let_def)
  with Cons show ?case by (simp add: findNetwork.simps [of "c # l @ r"])
qed (simp add: assms(2))

text \<open>A line that starts with spaces and a dash does not start a match.\<close>

lemma findNetwork_option:
  assumes "findNetwork (''          - '' @ r) = Some (g, after)"
  shows "findNetwork (nl @ ''          - '' @ r) = Some (nl @ g, after)"
proof -
  have "matchNetwork (nl @ ''          - '' @ r) = None" by (simp add: matchNetwork_def nl_def isSpace_def Let_def)
  with assms show ?thesis by (simp add: nl_def findNetwork.simps [of "CHR 0x0A # s" for s])
qed

lemma findNetwork_block:
  assumes "list_all (\<lambda>t. CHR 0x0A \<notin> set t) ts" and "ts \<noteq> []"
  shows "findNetwork (optionsBlock ts @ nl @ ''      network:'' @ after) = Some (optionsBlock ts, after)"
  using assms
proof (induction ts rule: induct_list012)
  case (2 t)
  then have "CHR 0x0A \<notin> set (''          - '' @ t)" by simp
  from findNetwork_line [OF this findNetwork_written] show ?case by (simp add: optionsBlock_def)
next
  case (3 t u ts)
  have IH: "findNetwork (optionsBlock (u # ts) @ nl @ ''      network:'' @ after) = Some (optionsBlock (u # ts), after)"
    by (rule 3) (use 3 in simp_all)
  have block: "optionsBlock (t # u # ts) = (''          - '' @ t) @ nl @ optionsBlock (u # ts)" by (simp add: optionsBlock_def)
  obtain r where r: "optionsBlock (u # ts) = ''          - '' @ r" by (cases ts) (simp_all add: optionsBlock_def)
  have "findNetwork (nl @ optionsBlock (u # ts) @ nl @ ''      network:'' @ after) = Some (nl @ optionsBlock (u # ts), after)"
    using findNetwork_option [of "r @ nl @ ''      network:'' @ after"] IH unfolding r by simp
  then have "findNetwork ((''          - '' @ t) @ nl @ optionsBlock (u # ts) @ nl @ ''      network:'' @ after) =
      Some ((''          - '' @ t) @ nl @ optionsBlock (u # ts), after)"
    by (rule findNetwork_line [rotated]) (use 3 in simp)
  then show ?case unfolding block by simp
qed simp

lemma expand_plain: "CHR ''$'' \<notin> set t \<Longrightarrow> expand m p q cs t = t"
  by (induction t) auto

lemma expand_group1:
  assumes "CHR ''$'' \<notin> set t"
  shows "expand m p q [g1, g2] (''$1          '' @ t) = g1 @ ''          '' @ t"
  using expand_plain [OF assms] by (simp add: isDigit_def digit_def)

section \<open>What a run leaves\<close>

lemma workflowMatch_text:
  assumes "workflowMatch yaml = Some (before, group1, group2, after)"
  shows "\<exists>between rest. group1 = ''target:'' @ nl @ between @ ''options:'' @ nl \<and>
    findText (''target:'' @ nl) yaml = Some (before, between @ ''options:'' @ nl @ rest) \<and>
    findText (''options:'' @ nl) (between @ ''options:'' @ nl @ rest) = Some (between, rest) \<and>
    findNetwork rest = Some (group2, after)"
  using assms findText_again(2) by (fastforce simp: workflowMatch_def bind_eq_Some_conv)

lemma optionsBlock_head: "ts \<noteq> [] \<Longrightarrow> optionsBlock ts = ''          '' @ drop 10 (optionsBlock ts)"
  by (induction ts rule: induct_list012) (simp_all add: optionsBlock_def)

lemma join_set: "set (join sep ts) \<subseteq> set sep \<union> \<Union> (set ` set ts)"
  by (induction ts rule: induct_list012) auto

lemma optionsBlock_plain:
  assumes "list_all (\<lambda>t. CHR ''$'' \<notin> set t) ts"
  shows "CHR ''$'' \<notin> set (optionsBlock ts)"
proof
  assume "CHR ''$'' \<in> set (optionsBlock ts)"
  then have "CHR ''$'' \<in> set nl \<union> \<Union> (set ` set (map (\<lambda>t. ''          - '' @ t) ts))"
    using join_set [of nl "map (\<lambda>t. ''          - '' @ t) ts"] unfolding optionsBlock_def by blast
  with assms show False by (auto simp: nl_def list_all_iff split: if_splits)
qed

text \<open>No target has a line feed or a dollar sign.\<close>

definition plainTargets :: "string list \<Rightarrow> bool" where
  "plainTargets names \<longleftrightarrow> list_all (\<lambda>t. CHR 0x0A \<notin> set t \<and> CHR ''$'' \<notin> set t) (allTargets names)"

lemma allTargets_nonempty [simp]: "allTargets names \<noteq> []"
  by (simp add: allTargets_def)

lemma updateWorkflow_text:
  assumes "workflowMatch yaml = Some (before, group1, group2, after)" and "plainTargets names"
  shows "updateWorkflow names yaml = Inr (before @ group1 @ optionsBlock (allTargets names) @ nl @ ''      network:'' @ after)"
proof -
  let ?block = "optionsBlock (allTargets names)"
  have "CHR ''$'' \<notin> set ?block"
    by (rule optionsBlock_plain) (use assms(2) in \<open>auto simp: plainTargets_def list_all_iff\<close>)
  then have tail: "CHR ''$'' \<notin> set (drop 10 ?block @ nl @ ''      network:'')"
    using set_drop_subset [of 10 ?block] by (auto simp: nl_def)
  have head: "?block = ''          '' @ drop 10 ?block" by (rule optionsBlock_head) simp
  then have "''$1'' @ ?block @ nl @ ''      network:'' = ''$1          '' @ drop 10 ?block @ nl @ ''      network:''"
    by (metis append.assoc append_Cons append_Nil)
  then have "expand m before after [group1, group2] (''$1'' @ ?block @ nl @ ''      network:'') =
      group1 @ (''          '' @ drop 10 ?block) @ nl @ ''      network:''" for m
    using expand_group1 [OF tail, of m before after group1 group2] by (simp only: append.assoc)
  then show ?thesis
    unfolding updateWorkflow_def assms(1) head [symmetric] by (simp only: option.case prod.case Let_def append.assoc)
qed

lemma workflowMatch_written:
  assumes "workflowMatch yaml = Some (before, group1, group2, after)" and "plainTargets names"
  shows "workflowMatch (before @ group1 @ optionsBlock (allTargets names) @ nl @ ''      network:'' @ after) =
    Some (before, group1, optionsBlock (allTargets names), after)"
proof -
  from workflowMatch_text [OF assms(1)] obtain between rest where
    g1: "group1 = ''target:'' @ nl @ between @ ''options:'' @ nl" and
    t: "findText (''target:'' @ nl) yaml = Some (before, between @ ''options:'' @ nl @ rest)" and
    o: "findText (''options:'' @ nl) (between @ ''options:'' @ nl @ rest) = Some (between, rest)"
    by blast
  have n: "findNetwork (optionsBlock (allTargets names) @ nl @ ''      network:'' @ after) =
      Some (optionsBlock (allTargets names), after)"
    by (rule findNetwork_block) (use assms(2) in \<open>auto simp: plainTargets_def list_all_iff\<close>)
  show ?thesis
    using findText_again(1) [OF t] findText_again(1) [OF o] n unfolding workflowMatch_def g1 by simp
qed

lemma splitOn_line: "c \<notin> set t \<Longrightarrow> splitOn c t = [t]"
  by (induction t) auto

lemma splitOn_append: "c \<notin> set t \<Longrightarrow> splitOn c (t @ c # r) = t # splitOn c r"
  by (induction t) auto

lemma splitOn_join: "list_all (\<lambda>t. c \<notin> set t) ts \<Longrightarrow> ts \<noteq> [] \<Longrightarrow> splitOn c (join [c] ts) = ts"
  by (induction ts rule: induct_list012) (simp_all add: splitOn_line splitOn_append)

text \<open>The options of the workflow, without the indentation and the dash.\<close>

definition workflowOptions :: "string \<Rightarrow> string list option" where
  "workflowOptions workflow =
     map_option (\<lambda>(before, group1, group2, after). map (drop 12) (splitOn CHR 0x0A group2)) (workflowMatch workflow)"

lemma options_written:
  assumes "list_all (\<lambda>t. CHR 0x0A \<notin> set t) ts" and "ts \<noteq> []"
  shows "map (drop 12) (splitOn CHR 0x0A (optionsBlock ts)) = ts"
proof -
  have "splitOn CHR 0x0A (optionsBlock ts) = map (\<lambda>t. ''          - '' @ t) ts"
    unfolding optionsBlock_def nl_def by (rule splitOn_join) (use assms in \<open>simp_all add: list_all_iff\<close>)
  then show ?thesis by (simp add: map_idI comp_def)
qed

lemma set_addNew [simp]: "set (addNew seen t) = insert t (set seen)"
  by (auto simp: addNew_def)

lemma foldl_addNew: "set (foldl addNew seen ts) = set seen \<union> set ts \<and> (distinct seen \<longrightarrow> distinct (foldl addNew seen ts))"
proof (induction ts arbitrary: seen)
  case (Cons t ts)
  then show ?case using Cons.IH [of "addNew seen t"] by (auto simp: addNew_def)
qed simp

text \<open>The name is \<open>action:target:...\<close> with at least three parts.\<close>

definition targetOf :: "string \<Rightarrow> string \<Rightarrow> string option" where
  "targetOf action name = (case splitOn CHR '':'' name of a # t # _ # _ \<Rightarrow> if a = action then Some t else None | _ \<Rightarrow> None)"

lemma extractTargets_set: "set (extractTargets action names) = {t. Some t \<in> targetOf action ` set names}"
proof -
  let ?step = "\<lambda>targets name. let parts = splitOn CHR '':'' name in
     if 3 \<le> length parts \<and> parts ! 0 = action then addNew targets (parts ! 1) else targets"
  have step: "?step ts n = (case targetOf action n of None \<Rightarrow> ts | Some t \<Rightarrow> addNew ts t)" for ts n
    by (auto simp: targetOf_def Let_def split: list.split)
  have "set (foldl ?step ts names) = set ts \<union> {t. Some t \<in> targetOf action ` set names}" for ts
  proof (induction names arbitrary: ts)
    case (Cons n names)
    then show ?case unfolding foldl_Cons step by (cases "targetOf action n") (auto simp: image_iff)
  qed simp
  from this [of "[]"] show ?thesis by (simp add: extractTargets_def)
qed

text \<open>The options offered are exactly the targets of the deploy and upgrade scripts, each once in alphabetical
  order, and the word \<open>custom\<close> at the end.\<close>

theorem allTargets_exact:
  "sorted (butlast (allTargets names)) \<and> distinct (butlast (allTargets names)) \<and> last (allTargets names) = ''custom'' \<and>
   set (butlast (allTargets names)) = {t. Some t \<in> (targetOf ''deploy'' ` set names \<union> targetOf ''upgrade'' ` set names)}"
  using foldl_addNew [of "[]" "extractTargets ''deploy'' names @ extractTargets ''upgrade'' names"]
  by (auto simp: allTargets_def extractTargets_set)

text \<open>When \<open>update-workflow-options.js\<close> does not stop, the workflow offers exactly the targets of
  \<open>package.json\<close> and the word \<open>custom\<close>, everything before and behind the list is as it was, and a second run
  leaves the file as it is; it stops exactly when the file has no such list.\<close>

theorem workflow_synced:
  assumes "plainTargets names"
  shows "case workflowMatch yaml of
      None \<Rightarrow> updateWorkflow names yaml = Inl ''Could not find target options block in deploy-contracts.yaml''
    | Some (before, group1, group2, after) \<Rightarrow>
        (case updateWorkflow names yaml of Inl e \<Rightarrow> False | Inr yaml' \<Rightarrow>
           workflowOptions yaml' = Some (allTargets names) \<and>
           workflowMatch yaml' = Some (before, group1, optionsBlock (allTargets names), after) \<and>
           updateWorkflow names yaml' = Inr yaml')"
proof (cases "workflowMatch yaml")
  case None
  then show ?thesis by (simp add: updateWorkflow_def)
next
  case (Some m)
  then obtain before group1 group2 after where m: "workflowMatch yaml = Some (before, group1, group2, after)"
    by (cases m) auto
  have "list_all (\<lambda>t. CHR 0x0A \<notin> set t) (allTargets names)"
    using assms by (auto simp: plainTargets_def list_all_iff)
  note options = options_written [OF this allTargets_nonempty]
  note again = workflowMatch_written [OF m assms]
  show ?thesis
    by (simp only: m updateWorkflow_text [OF m assms] updateWorkflow_text [OF again assms] workflowOptions_def again
      options option.case sum.case prod.case option.map simp_thms)
qed

definition demo_workflow :: string where
  "demo_workflow = ''target:'' @ nl @ ''  options:'' @ nl @ ''    - old'' @ nl @ ''  network: dev''"

definition demo_names :: "string list" where
  "demo_names = [''test'', ''upgrade:tcash:dev'', ''deploy:bid:dev'', ''upgrade:bid:dev'', ''deploy:base'']"

lemma demo_targets: "allTargets demo_names = [''bid'', ''tcash'', ''custom'']"
  by (simp add: allTargets_def demo_names_def extractTargets_def addNew_def Let_def)

lemma workflow_synced_witness:
  "case updateWorkflow demo_names demo_workflow of Inl e \<Rightarrow> False | Inr yaml' \<Rightarrow>
     workflowOptions yaml' = Some [''bid'', ''tcash'', ''custom'']"
proof -
  have m: "workflowMatch demo_workflow = Some ('''', ''target:'' @ nl @ ''  options:'' @ nl, ''    - old'', '' dev'')"
    by code_simp
  have "plainTargets demo_names" by (simp add: plainTargets_def demo_targets)
  from workflow_synced [OF this, of demo_workflow] show ?thesis
    by (auto simp: m demo_targets split: sum.splits)
qed

end
