(* ===== verification/Share.thy ===== *)
theory Share
  imports Solidity
begin

text \<open>
  \<open>contracts/Treasure/Share.sol\<close>, the contract every producer inherits: who holds which percentage of a
  well, and how its earnings are divided. The holders' addresses are in an array beside the mapping,
  with the position of each in its record. What the operations keep is an invariant; two
  operations break what the contract relies on, a split to oneself and the deletion of a holder that
  is not the last of the array.
\<close>

section \<open>Storage\<close>

datatype flag = NotHolder | Holder

record holder =
  h_index :: nat
  h_ratio :: nat
  h_flag :: flag

record share =
  sh_owners :: "bytes32 \<Rightarrow> addr"
  sh_holders :: "bytes32 \<Rightarrow> addr \<Rightarrow> holder"
  sh_holderAddresses :: "bytes32 \<Rightarrow> addr list"
  sh_totalHolders :: "bytes32 \<Rightarrow> nat"
  sh_totalShared :: "bytes32 \<Rightarrow> nat"

definition MAX_HOLDERS :: nat where
  "MAX_HOLDERS = 9"

definition MAX_PIECES :: nat where
  "MAX_PIECES = 100"

definition no_holder :: holder where
  "no_holder = \<lparr>h_index = 0, h_ratio = 0, h_flag = NotHolder\<rparr>"

definition empty_share :: share where
  "empty_share = \<lparr>sh_owners = (\<lambda>_. 0), sh_holders = (\<lambda>_ _. no_holder), sh_holderAddresses = (\<lambda>_. []),
     sh_totalHolders = (\<lambda>_. 0), sh_totalShared = (\<lambda>_. 0)\<rparr>"

section \<open>Operations\<close>

definition Share_isProducerOwner :: "share \<Rightarrow> bytes32 \<Rightarrow> addr \<Rightarrow> bool" where
  "Share_isProducerOwner st uniqueId producer \<longleftrightarrow> sh_owners st uniqueId = producer"

definition Share_isHolder :: "share \<Rightarrow> bytes32 \<Rightarrow> addr \<Rightarrow> bool" where
  "Share_isHolder st uniqueId a \<longleftrightarrow> h_flag (sh_holders st uniqueId a) = Holder"

definition Share_setOwner :: "share \<Rightarrow> bytes32 \<Rightarrow> addr \<Rightarrow> share fallible" where
  "Share_setOwner st uniqueId owner =
     ebind (require (sh_owners st uniqueId = 0) ''producer share alread exist'') (\<lambda>_.
     Inr (st\<lparr>sh_owners := (sh_owners st)(uniqueId := owner)\<rparr>))"

definition onlyProducerOwner :: "share \<Rightarrow> addr \<Rightarrow> bytes32 \<Rightarrow> unit fallible" where
  "onlyProducerOwner st sender uniqueId =
     ebind (require (sh_owners st uniqueId \<noteq> 0) ''producer share not exist'') (\<lambda>_.
     require (sh_owners st uniqueId = sender) ''only the producer itself'')"

definition putHolder :: "share \<Rightarrow> bytes32 \<Rightarrow> addr \<Rightarrow> holder \<Rightarrow> share" where
  "putHolder st uniqueId a h = st\<lparr>sh_holders := (sh_holders st)(uniqueId := (sh_holders st uniqueId)(a := h))\<rparr>"

definition pushAddress :: "share \<Rightarrow> bytes32 \<Rightarrow> addr \<Rightarrow> share" where
  "pushAddress st uniqueId a =
     st\<lparr>sh_holderAddresses := (sh_holderAddresses st)(uniqueId := sh_holderAddresses st uniqueId @ [a])\<rparr>"

definition Share_setHolder :: "share \<Rightarrow> bytes32 \<Rightarrow> addr \<Rightarrow> nat \<Rightarrow> share fallible" where
  "Share_setHolder st uniqueId a ratio =
     ebind (require (\<not> Share_isProducerOwner st uniqueId a) ''share owner do not need to setHolder'') (\<lambda>_.
     ebind (require (ratio \<le> MAX_PIECES) ''ratio excceedes MAX_PIECES(100)'') (\<lambda>_.
     let h = sh_holders st uniqueId a; th = sh_totalHolders st uniqueId in
     ebind (checked 256 (sh_totalShared st uniqueId + ratio)) (\<lambda>sum.
     ebind (checked_sub sum (h_ratio h)) (\<lambda>ts.
     ebind (if h_flag h = NotHolder then
              ebind (checked 256 (th + 1)) (\<lambda>th.
              ebind (require (th \<le> MAX_HOLDERS) ''exceedes MAX_HOLDERS(10)'') (\<lambda>_.
              Inr (th, h\<lparr>h_index := length (sh_holderAddresses st uniqueId)\<rparr>, pushAddress st uniqueId a)))
            else Inr (th, h, st)) (\<lambda>(th, h, st).
     ebind (require (ts \<le> MAX_PIECES) ''total ratio exceedes MAX_PIECES(100)'') (\<lambda>_.
     let st = putHolder st uniqueId a (h\<lparr>h_ratio := ratio, h_flag := Holder\<rparr>) in
     Inr (st\<lparr>sh_totalHolders := (sh_totalHolders st)(uniqueId := th),
             sh_totalShared := (sh_totalShared st)(uniqueId := ts)\<rparr>)))))))"

definition Share_setHolders ::
    "share \<Rightarrow> addr \<Rightarrow> bytes32 \<Rightarrow> addr list \<Rightarrow> nat list \<Rightarrow> share fallible" where
  "Share_setHolders st sender uniqueId holderAddrs ratios =
     ebind (onlyProducerOwner st sender uniqueId) (\<lambda>_.
     ebind (require (length holderAddrs = length ratios) ''Holders and Ratios must have same length'') (\<lambda>_.
     efold (\<lambda>st (a, ratio). Share_setHolder st uniqueId a ratio) st (zip holderAddrs ratios)))"

text \<open>Both records are copies in memory; the sender's is stored first.\<close>

definition Share_splitHolder ::
    "share \<Rightarrow> addr \<Rightarrow> bytes32 \<Rightarrow> addr \<Rightarrow> nat \<Rightarrow> (share \<times> nat \<times> nat) fallible" where
  "Share_splitHolder st sender uniqueId toHolder ratio =
     ebind (require (toHolder \<noteq> 0) ''receiver must not be zero address'') (\<lambda>_.
     ebind (require (ratio \<le> MAX_PIECES) ''ratio exceedes MAX_PIECE(100)'') (\<lambda>_.
     let giver = sh_holders st uniqueId sender in
     ebind (require (h_flag giver = Holder) ''not a share holder'') (\<lambda>_.
     ebind (require (ratio \<le> h_ratio giver) ''sender's ratio not enough'') (\<lambda>_.
     let giver = giver\<lparr>h_ratio := h_ratio giver - ratio\<rparr>; receiver = sh_holders st uniqueId toHolder in
     ebind (checked 256 (h_ratio receiver + ratio)) (\<lambda>r.
     let receiver = receiver\<lparr>h_ratio := r\<rparr> in
     ebind (if h_flag receiver = NotHolder then
              ebind (checked 256 (sh_totalHolders st uniqueId + 1)) (\<lambda>th.
              ebind (require (th \<le> MAX_HOLDERS) ''exceedes MAX_HOLDERS(10)'') (\<lambda>_.
              Inr (receiver\<lparr>h_flag := Holder, h_index := length (sh_holderAddresses st uniqueId)\<rparr>,
                   pushAddress (st\<lparr>sh_totalHolders := (sh_totalHolders st)(uniqueId := th)\<rparr>) uniqueId toHolder)))
            else Inr (receiver, st)) (\<lambda>(receiver, st).
     let st = putHolder (putHolder st uniqueId sender giver) uniqueId toHolder receiver in
     Inr (st, h_ratio giver, h_ratio receiver)))))))"

text \<open>The last address takes the place of the deleted one; its record keeps the old index.\<close>

definition Share_deleteHolder :: "share \<Rightarrow> addr \<Rightarrow> bytes32 \<Rightarrow> addr \<Rightarrow> share fallible" where
  "Share_deleteHolder st sender uniqueId a =
     ebind (onlyProducerOwner st sender uniqueId) (\<lambda>_.
     let h = sh_holders st uniqueId a in
     ebind (require (h_flag h = Holder) ''must be a holder'') (\<lambda>_.
     ebind (require (h_ratio h = 0) ''must have zero share'') (\<lambda>_.
     let index = h_index h; hs = sh_holderAddresses st uniqueId in
     ebind (if 1 < length hs then
              ebind (require (index < length hs) ''Panic(0x32)'') (\<lambda>_. Inr (hs[index := last hs]))
            else Inr hs) (\<lambda>hs.
     ebind (require (hs \<noteq> []) ''Panic(0x31)'') (\<lambda>_.
     let st = putHolder (st\<lparr>sh_holderAddresses := (sh_holderAddresses st)(uniqueId := butlast hs)\<rparr>) uniqueId a no_holder in
     ebind (checked_sub (sh_totalHolders st uniqueId) 1) (\<lambda>th.
     Inr (st\<lparr>sh_totalHolders := (sh_totalHolders st)(uniqueId := th)\<rparr>)))))))"

text \<open>One round of the loop over the array of addresses.\<close>

definition rewardStep ::
    "share \<Rightarrow> bytes32 \<Rightarrow> nat \<Rightarrow> addr list \<times> nat list \<times> nat \<Rightarrow> nat \<Rightarrow> (addr list \<times> nat list \<times> nat) fallible" where
  "rewardStep st uniqueId earned = (\<lambda>(accounts, amounts, shared) i.
     ebind (require (i < length (sh_holderAddresses st uniqueId)) ''Panic(0x32)'') (\<lambda>_.
     let account = sh_holderAddresses st uniqueId ! i; h = sh_holders st uniqueId account in
     ebind (checked 256 (h_ratio h * earned)) (\<lambda>p.
     let share = p div 100 in
     ebind (checked 256 (shared + share)) (\<lambda>shared.
     Inr (accounts @ [account], amounts @ [share], shared)))))"

definition Share_calculateRewards :: "share \<Rightarrow> bytes32 \<Rightarrow> nat \<Rightarrow> (addr list \<times> nat list) fallible" where
  "Share_calculateRewards st uniqueId earned =
     ebind (efold (rewardStep st uniqueId earned) ([], [], 0) [0..<sh_totalHolders st uniqueId]) (\<lambda>(accounts, amounts, shared).
     ebind (checked_sub earned shared) (\<lambda>rest.
     Inr (accounts @ [sh_owners st uniqueId], amounts @ [rest])))"

end
