(* ===== verification/ShareSafety.thy ===== *)
theory ShareSafety
  imports Share
begin

text \<open>
  What the calls of the share contract keep. For one well the storage is the holders' records \<open>H\<close>, the
  array \<open>A\<close> of their addresses and two counters; \<open>put\<close> is the step that \<open>setHolder\<close> and
  \<open>splitHolder\<close> are made of. As long as nobody splits to himself the counters are right and never exceed
  their bounds; as long as, moreover, only the last holder of the array is deleted, the array lists
  each holder once and the earnings are divided without remainder.
\<close>

section \<open>One well\<close>

type_synonym holders = "addr \<Rightarrow> holder"

definition flagged :: "holders \<Rightarrow> addr set" where
  "flagged H = {a. h_flag (H a) = Holder}"

lemma mem_flagged [simp]: "a \<in> flagged H \<longleftrightarrow> h_flag (H a) = Holder"
  by (simp add: flagged_def)

definition pieces :: "holders \<Rightarrow> nat" where
  "pieces H = (\<Sum>a\<in>UNIV. h_ratio (H a))"

fun put :: "addr \<Rightarrow> nat \<Rightarrow> holders \<times> addr list \<times> nat \<Rightarrow> holders \<times> addr list \<times> nat" where
  "put a r (H, A, n) = (if h_flag (H a) = Holder then (H(a := (H a)\<lparr>h_ratio := r\<rparr>), A, n)
     else (H(a := \<lparr>h_index = length A, h_ratio = r, h_flag = Holder\<rparr>), A @ [a], n + 1))"

fun counted :: "holders \<times> addr list \<times> nat \<Rightarrow> bool" where
  "counted (H, A, n) \<longleftrightarrow> card (flagged H) = n \<and> length A = n \<and> (\<forall>a. a \<in> flagged H \<or> h_ratio (H a) = 0)"

fun indexed :: "holders \<times> addr list \<times> nat \<Rightarrow> bool" where
  "indexed (H, A, n) \<longleftrightarrow> distinct A \<and> set A = flagged H \<and> (\<forall>i<length A. h_index (H (A ! i)) = i)"

lemma flag_cases: "h_flag h = NotHolder \<longleftrightarrow> h_flag h \<noteq> Holder"
  by (cases "h_flag h") simp_all

lemma pieces_upd: "pieces (H(a := h)) + h_ratio (H a) = pieces H + h_ratio h"
proof -
  have "pieces H = h_ratio (H a) + (\<Sum>x\<in>UNIV - {a}. h_ratio (H x))" for H :: holders
    by (simp add: pieces_def sum.remove [of UNIV a])
  from this [of H] this [of "H(a := h)"] show ?thesis by simp
qed

lemma ratio_le_pieces: "h_ratio (H a) \<le> pieces H"
  unfolding pieces_def by (rule member_le_sum) simp_all

lemma pieces_put: "pieces (fst (put a r s)) + h_ratio (fst s a) = pieces (fst s) + r"
  by (cases s) (simp add: pieces_upd)

lemma flagged_upd [simp]: "flagged (H(a := h)) = (if h_flag h = Holder then insert a (flagged H) else flagged H - {a})"
  by (auto simp: flagged_def)

lemma counted_put: "counted s \<Longrightarrow> counted (put a r s)"
  by (cases s) (auto simp: insert_absorb)

lemma indexed_put: "indexed s \<Longrightarrow> indexed (put a r s)"
  by (cases s) (auto simp: insert_absorb nth_append less_Suc_eq)

lemma put_count: "n \<le> snd (snd (put a r (H, A, n)))"
  by simp

text \<open>The sum over the array is the number of pieces.\<close>

lemma pieces_array:
  assumes "indexed (H, A, n)" and "counted (H, A, n)"
  shows "(\<Sum>a\<leftarrow>A. h_ratio (H a)) = pieces H"
proof -
  have "(\<Sum>a\<leftarrow>A. h_ratio (H a)) = (\<Sum>a\<in>set A. h_ratio (H a))"
    using assms(1) by (simp add: sum_list_distinct_conv_sum_set)
  also have "\<dots> = pieces H"
    unfolding pieces_def by (rule sum.mono_neutral_left) (use assms in auto)
  finally show ?thesis .
qed

section \<open>The operations on one well\<close>

definition well :: "share \<Rightarrow> bytes32 \<Rightarrow> holders \<times> addr list \<times> nat" where
  "well st u = (sh_holders st u, sh_holderAddresses st u, sh_totalHolders st u)"

lemma setHolder_well:
  assumes "Share_setHolder st u a r = Inr st'"
  shows "well st' u = put a r (well st u)"
    and "r \<le> 100 \<and> sh_totalShared st' u + h_ratio (sh_holders st u a) = sh_totalShared st u + r \<and>
      sh_totalShared st' u \<le> 100 \<and> (sh_totalHolders st u \<le> 9 \<longrightarrow> sh_totalHolders st' u \<le> 9) \<and> sh_owners st u \<noteq> a"
    and "v \<noteq> u \<Longrightarrow> well st' v = well st v \<and> sh_totalShared st' v = sh_totalShared st v"
    and "sh_owners st' = sh_owners st"
  using assms
  by (auto simp: Share_setHolder_def ebind_Inr_iff Let_def checked_sub_def well_def putHolder_def pushAddress_def
      MAX_HOLDERS_def MAX_PIECES_def Share_isProducerOwner_def flag_cases fun_eq_iff split: if_splits)

lemma splitHolder_well:
  assumes "Share_splitHolder st g u t r = Inr (st', x, y)" and "g \<noteq> t"
  shows "well st' u = put t (h_ratio (sh_holders st u t) + r) (put g (h_ratio (sh_holders st u g) - r) (well st u))"
    and "r \<le> h_ratio (sh_holders st u g) \<and> x = h_ratio (sh_holders st u g) - r \<and> y = h_ratio (sh_holders st u t) + r \<and>
      g \<in> flagged (sh_holders st u) \<and> (sh_totalHolders st u \<le> 9 \<longrightarrow> sh_totalHolders st' u \<le> 9)"
    and "v \<noteq> u \<Longrightarrow> well st' v = well st v"
    and "sh_totalShared st' = sh_totalShared st" and "sh_owners st' = sh_owners st"
  using assms
  by (auto simp: Share_splitHolder_def ebind_Inr_iff Let_def well_def putHolder_def pushAddress_def
      MAX_HOLDERS_def MAX_PIECES_def flag_cases fun_eq_iff split: if_splits)

lemma deleteHolder_well:
  assumes "Share_deleteHolder st sender u a = Inr st'"
  shows "well st' u = (let A = sh_holderAddresses st u in
      ((sh_holders st u)(a := no_holder),
       butlast (if 1 < length A then A[h_index (sh_holders st u a) := last A] else A), sh_totalHolders st u - 1))"
    and "a \<in> flagged (sh_holders st u) \<and> h_ratio (sh_holders st u a) = 0 \<and> 0 < sh_totalHolders st u \<and>
      sh_holderAddresses st u \<noteq> [] \<and>
      (1 < length (sh_holderAddresses st u) \<longrightarrow> h_index (sh_holders st u a) < length (sh_holderAddresses st u))"
    and "v \<noteq> u \<Longrightarrow> well st' v = well st v"
    and "sh_totalShared st' = sh_totalShared st" and "sh_owners st' = sh_owners st"
  using assms
  by (auto simp: Share_deleteHolder_def ebind_Inr_iff Let_def well_def putHolder_def checked_sub_def
      fun_eq_iff split: if_splits)

section \<open>Reachable states\<close>

text \<open>The calls on the contract; \<open>AddOwner\<close> is the step of \<open>addProducer\<close> that gives a well its owner.\<close>

datatype share_op =
    AddOwner bytes32 addr
  | SetHolders addr bytes32 "addr list" "nat list"
  | SplitHolder addr bytes32 addr nat
  | DeleteHolder addr bytes32 addr

fun share_exec :: "share_op \<Rightarrow> share \<Rightarrow> share fallible" where
  "share_exec (AddOwner u a) st = Share_setOwner st u a"
| "share_exec (SetHolders s u as rs) st = Share_setHolders st s u as rs"
| "share_exec (SplitHolder s u t r) st = ebind (Share_splitHolder st s u t r) (\<lambda>(st', x, y). Inr st')"
| "share_exec (DeleteHolder s u a) st = Share_deleteHolder st s u a"

text \<open>Nobody splits to himself; and only the holder at the end of the array is deleted.\<close>

fun noSelfSplit :: "share \<Rightarrow> share_op \<Rightarrow> bool" where
  "noSelfSplit st (SplitHolder s u t r) \<longleftrightarrow> s \<noteq> t"
| "noSelfSplit st _ \<longleftrightarrow> True"

fun careful :: "share \<Rightarrow> share_op \<Rightarrow> bool" where
  "careful st (SplitHolder s u t r) \<longleftrightarrow> s \<noteq> t"
| "careful st (DeleteHolder s u a) \<longleftrightarrow> sh_holderAddresses st u \<noteq> [] \<and> a = last (sh_holderAddresses st u)"
| "careful st _ \<longleftrightarrow> True"

inductive share_reachable :: "(share \<Rightarrow> share_op \<Rightarrow> bool) \<Rightarrow> share \<Rightarrow> bool" for allowed where
  start: "share_reachable allowed empty_share"
| call: "share_reachable allowed st \<Longrightarrow> allowed st op \<Longrightarrow> share_exec op st = Inr st' \<Longrightarrow> share_reachable allowed st'"

lemma careful_noSelfSplit: "careful st op \<Longrightarrow> noSelfSplit st op"
  by (cases "(st, op)" rule: careful.cases) simp_all

lemma share_reachable_mono:
  assumes "share_reachable allowed st" and "\<And>st op. allowed st op \<Longrightarrow> allowed' st op"
  shows "share_reachable allowed' st"
  using assms(1) by (induction rule: share_reachable.induct) (auto intro: share_reachable.intros assms(2))

definition totals_ok :: "share \<Rightarrow> bytes32 \<Rightarrow> bool" where
  "totals_ok st u \<longleftrightarrow> counted (well st u) \<and> pieces (sh_holders st u) = sh_totalShared st u \<and>
     sh_totalShared st u \<le> 100 \<and> sh_totalHolders st u \<le> 9"

lemma well_fst [simp]: "fst (well st u) = sh_holders st u"
  by (simp add: well_def)

lemma well_eq_totals: "well st' u = well st u \<Longrightarrow> sh_totalShared st' u = sh_totalShared st u \<Longrightarrow> totals_ok st u \<Longrightarrow> totals_ok st' u"
  by (simp add: totals_ok_def well_def)

lemma setHolder_totals:
  assumes "Share_setHolder st u a r = Inr st'" and "totals_ok st v"
  shows "totals_ok st' v"
proof (cases "v = u")
  case True
  have "pieces (sh_holders st' u) + h_ratio (sh_holders st u a) = pieces (sh_holders st u) + r"
    using pieces_put [of a r "well st u"] unfolding setHolder_well(1) [OF assms(1), symmetric] by simp
  then show ?thesis
    using assms(2) setHolder_well(2) [OF assms(1)] counted_put [of "well st u" a r]
    by (auto simp: True totals_ok_def setHolder_well(1) [OF assms(1)])
next
  case False
  from setHolder_well(3) [OF assms(1) False] assms(2) show ?thesis by (auto intro: well_eq_totals)
qed

lemma splitHolder_totals:
  assumes "Share_splitHolder st g u t r = Inr (st', x, y)" and "g \<noteq> t" and "totals_ok st v"
  shows "totals_ok st' v"
proof (cases "v = u")
  case True
  note w = splitHolder_well [OF assms(1,2)]
  let ?s = "put g (h_ratio (sh_holders st u g) - r) (well st u)"
  have other: "fst ?s t = sh_holders st u t" using assms(2) by (simp add: well_def)
  have "pieces (fst ?s) + h_ratio (sh_holders st u g) = pieces (sh_holders st u) + (h_ratio (sh_holders st u g) - r)"
    using pieces_put [of g _ "well st u"] by simp
  moreover have "pieces (sh_holders st' u) + h_ratio (sh_holders st u t) = pieces (fst ?s) + (h_ratio (sh_holders st u t) + r)"
    using pieces_put [of t "h_ratio (sh_holders st u t) + r" ?s] unfolding other w(1) [symmetric] well_fst .
  ultimately have "pieces (sh_holders st' u) = pieces (sh_holders st u)" using w(2) by linarith
  then show ?thesis
    using assms(3) w(2) counted_put [OF counted_put] by (auto simp: True totals_ok_def w(1,4) simp del: put.simps)
next
  case False
  from splitHolder_well(3,4) [OF assms(1,2)] False assms(3) show ?thesis by (auto intro: well_eq_totals)
qed

lemma deleteHolder_totals:
  assumes "Share_deleteHolder st s u a = Inr st'" and "totals_ok st v"
  shows "totals_ok st' v"
proof (cases "v = u")
  case True
  note w = deleteHolder_well [OF assms(1)]
  from w(1) have H: "sh_holders st' u = (sh_holders st u)(a := no_holder)"
    and n: "sh_totalHolders st' u = sh_totalHolders st u - 1"
    and A: "length (sh_holderAddresses st' u) = length (sh_holderAddresses st u) - 1"
    by (auto simp: well_def Let_def)
  have "pieces (sh_holders st' u) = pieces (sh_holders st u)"
    using pieces_upd [of "sh_holders st u" a no_holder] w(2) by (simp add: H no_holder_def)
  then show ?thesis
    using assms(2) w(2) by (auto simp: True totals_ok_def well_def H n A no_holder_def w(4))
next
  case False
  from deleteHolder_well(3,4) [OF assms(1)] False assms(2) show ?thesis by (auto intro: well_eq_totals)
qed

lemma setHolders_inv:
  assumes "Share_setHolders st s u as rs = Inr st'" and "P st"
    and "\<And>st a r st'. P st \<Longrightarrow> Share_setHolder st u a r = Inr st' \<Longrightarrow> P st'"
  shows "P st'"
proof -
  have run: "efold (\<lambda>st (a, ratio). Share_setHolder st u a ratio) st (zip as rs) = Inr st'"
    using assms(1) by (auto simp: Share_setHolders_def ebind_Inr_iff)
  show ?thesis by (rule efold_inv [OF run, where P = P, OF assms(2)]) (auto intro: assms(3))
qed

lemma reachable_totals: "share_reachable noSelfSplit st \<Longrightarrow> totals_ok st u"
proof (induction rule: share_reachable.induct)
  case start
  show ?case
    by (simp add: totals_ok_def well_def empty_share_def no_holder_def pieces_def flagged_def)
next
  case (call st op st')
  show ?case
  proof (cases op)
    case (AddOwner v a)
    with call show ?thesis
      by (auto simp: Share_setOwner_def ebind_Inr_iff totals_ok_def well_def)
  next
    case (SetHolders s v as rs)
    with call show ?thesis by (auto intro: setHolders_inv [where P = "\<lambda>st. totals_ok st u"] setHolder_totals)
  next
    case (SplitHolder s v t r)
    with call show ?thesis by (auto simp: ebind_Inr_iff intro: splitHolder_totals)
  next
    case (DeleteHolder s v a)
    with call show ?thesis by (auto intro: deleteHolder_totals)
  qed
qed

lemma deleteHolder_last_indexed:
  assumes "Share_deleteHolder st s u a = Inr st'" and "indexed (well st u)" and "a = last (sh_holderAddresses st u)"
  shows "indexed (well st' u)"
proof -
  note w = deleteHolder_well [OF assms(1)]
  let ?A = "sh_holderAddresses st u"
  have ne: "?A \<noteq> []" using w(2) by blast
  then obtain B where A: "?A = B @ [a]" using assms(3) append_butlast_last_id by metis
  have ix: "distinct ?A" "set ?A = flagged (sh_holders st u)" "\<forall>i<length ?A. h_index (sh_holders st u (?A ! i)) = i"
    using assms(2) by (auto simp: well_def)
  have "h_index (sh_holders st u a) = length B" using ix(3) A by (auto dest: spec [of _ "length B"])
  then have eq: "well st' u = ((sh_holders st u)(a := no_holder), B, sh_totalHolders st u - 1)"
    unfolding w(1) Let_def A by simp
  have "h_index (((sh_holders st u)(a := no_holder)) (B ! i)) = i" if "i < length B" for i
    using that ix(1,3) A by (auto simp: nth_append dest: spec [of _ i])
  moreover have "set B = flagged ((sh_holders st u)(a := no_holder))"
    using ix(1,2) unfolding A by (auto simp: no_holder_def)
  ultimately show ?thesis using ix(1) A by (simp add: eq)
qed

lemma reachable_indexed: "share_reachable careful st \<Longrightarrow> indexed (well st u)"
proof (induction rule: share_reachable.induct)
  case start
  show ?case by (simp add: well_def empty_share_def no_holder_def flagged_def)
next
  case (call st op st')
  show ?case
  proof (cases op)
    case (AddOwner v a)
    with call show ?thesis by (auto simp: Share_setOwner_def ebind_Inr_iff well_def)
  next
    case (SetHolders s v as rs)
    show ?thesis
    proof (rule setHolders_inv [where P = "\<lambda>st. indexed (well st u)"])
      show "Share_setHolders st s v as rs = Inr st'" using call SetHolders by simp
      show "indexed (well st u)" by (rule call)
      fix st a r st'
      assume "indexed (well st u)" and set: "Share_setHolder st v a r = Inr st'"
      then show "indexed (well st' u)"
        by (cases "u = v") (auto simp: setHolder_well(1) [OF set] setHolder_well(3) [OF set] simp del: put.simps intro: indexed_put)
    qed
  next
    case (SplitHolder s v t r)
    with call obtain x y where split: "Share_splitHolder st s v t r = Inr (st', x, y)" and "s \<noteq> t"
      by (auto simp: ebind_Inr_iff)
    then show ?thesis using call
      by (cases "u = v") (auto simp: splitHolder_well(1,3) [OF split] simp del: put.simps intro!: indexed_put)
  next
    case (DeleteHolder s v a)
    with call have del: "Share_deleteHolder st s v a = Inr st'" and "a = last (sh_holderAddresses st v)" by auto
    then show ?thesis using call deleteHolder_last_indexed [OF del]
      by (cases "u = v") (auto simp: deleteHolder_well(3) [OF del])
  qed
qed

section \<open>Properties\<close>

text \<open>C36: In every state reachable by calls of the share contract of which none splits to the caller himself, the
  counter of shared pieces is the sum of the holders' pieces and at most 100, and the counter of holders is the
  number of holders, the length of the array of addresses, and at most nine.\<close>

theorem shares_conserved:
  assumes "share_reachable noSelfSplit st"
  shows "(\<Sum>a\<in>UNIV. h_ratio (sh_holders st u a)) = sh_totalShared st u \<and> sh_totalShared st u \<le> 100 \<and>
    card {a. Share_isHolder st u a} = sh_totalHolders st u \<and>
    length (sh_holderAddresses st u) = sh_totalHolders st u \<and> sh_totalHolders st u \<le> 9"
  using reachable_totals [OF assms, of u]
  by (simp add: totals_ok_def well_def pieces_def flagged_def Share_isHolder_def)

text \<open>The loop over the array.\<close>

definition part :: "share \<Rightarrow> bytes32 \<Rightarrow> nat \<Rightarrow> addr \<Rightarrow> nat" where
  "part st u e a = h_ratio (sh_holders st u a) * e div 100"

definition handedOut :: "share \<Rightarrow> bytes32 \<Rightarrow> nat \<Rightarrow> nat \<Rightarrow> addr list \<times> nat list \<times> nat" where
  "handedOut st u e k = (let A = take k (sh_holderAddresses st u) in (A, map (part st u e) A, \<Sum>a\<leftarrow>A. part st u e a))"

lemma handedOut_0 [simp]: "handedOut st u e 0 = ([], [], 0)"
  by (simp add: handedOut_def Let_def)

lemma rewardStep_handedOut:
  assumes "k < length (sh_holderAddresses st u)"
  defines "a \<equiv> sh_holderAddresses st u ! k"
  shows "rewardStep st u e (handedOut st u e k) k =
    (if h_ratio (sh_holders st u a) * e < 2 ^ 256 \<and> snd (snd (handedOut st u e (Suc k))) < 2 ^ 256
     then Inr (handedOut st u e (Suc k)) else Inl ''Panic(0x11)'')"
  using assms
  by (simp add: rewardStep_def handedOut_def part_def take_Suc_conv_app_nth checked_def Let_def del: power_numeral)

lemma rewards_loop_Inr:
  "k \<le> length (sh_holderAddresses st u) \<Longrightarrow> efold (rewardStep st u e) ([], [], 0) [0..<k] = Inr x \<Longrightarrow> x = handedOut st u e k"
proof (induction k arbitrary: x)
  case (Suc k)
  then show ?case by (auto simp: efold_append ebind_Inr_iff rewardStep_handedOut split: if_splits)
qed simp

lemma handedOut_mono:
  "snd (snd (handedOut st u e k)) \<le> (\<Sum>a\<leftarrow>sh_holderAddresses st u. part st u e a)"
proof -
  let ?A = "sh_holderAddresses st u"
  have "(\<Sum>a\<leftarrow>?A. part st u e a) = (\<Sum>a\<leftarrow>take k ?A. part st u e a) + (\<Sum>a\<leftarrow>drop k ?A. part st u e a)"
    by (metis append_take_drop_id map_append sum_list_append)
  then show ?thesis by (simp add: handedOut_def Let_def)
qed

lemma rewards_loop_runs:
  assumes "\<And>a. h_ratio (sh_holders st u a) * e < 2 ^ 256"
    and "(\<Sum>a\<leftarrow>sh_holderAddresses st u. part st u e a) < 2 ^ 256"
  shows "k \<le> length (sh_holderAddresses st u) \<Longrightarrow> efold (rewardStep st u e) ([], [], 0) [0..<k] = Inr (handedOut st u e k)"
proof (induction k)
  case (Suc k)
  have "snd (snd (handedOut st u e (Suc k))) < 2 ^ 256"
    by (rule order.strict_trans1 [OF handedOut_mono assms(2)])
  with Suc assms(1) show ?case by (simp add: efold_append rewardStep_handedOut del: power_numeral)
qed simp

lemma rewards_shape:
  assumes "length (sh_holderAddresses st u) = sh_totalHolders st u"
    and "Share_calculateRewards st u e = Inr (accounts, amounts)"
  shows "accounts = sh_holderAddresses st u @ [sh_owners st u] \<and> (\<Sum>a\<leftarrow>sh_holderAddresses st u. part st u e a) \<le> e \<and>
    amounts = map (part st u e) (sh_holderAddresses st u) @ [e - (\<Sum>a\<leftarrow>sh_holderAddresses st u. part st u e a)]"
proof -
  from assms(2) obtain x where x: "efold (rewardStep st u e) ([], [], 0) [0..<length (sh_holderAddresses st u)] = Inr x"
    and rest: "(case x of (accounts, amounts, shared) \<Rightarrow>
      ebind (checked_sub e shared) (\<lambda>rest. Inr (accounts @ [sh_owners st u], amounts @ [rest]))) = Inr (accounts, amounts)"
    by (auto simp: Share_calculateRewards_def ebind_Inr_iff assms(1))
  from rewards_loop_Inr [OF order.refl x] rest show ?thesis
    by (auto simp: handedOut_def Let_def ebind_Inr_iff checked_sub_def split: if_splits)
qed

lemma rewards_defined:
  assumes "length (sh_holderAddresses st u) = sh_totalHolders st u"
    and "\<And>a. h_ratio (sh_holders st u a) * e < 2 ^ 256"
    and "(\<Sum>a\<leftarrow>sh_holderAddresses st u. part st u e a) \<le> e" and "e < 2 ^ 256"
  shows "\<exists>accounts amounts. Share_calculateRewards st u e = Inr (accounts, amounts)"
proof -
  have "(\<Sum>a\<leftarrow>sh_holderAddresses st u. part st u e a) < 2 ^ 256" by (rule order.strict_trans1 [OF assms(3,4)])
  from rewards_loop_runs [OF assms(2) this order.refl] assms(1,3) show ?thesis
    by (simp add: Share_calculateRewards_def handedOut_def Let_def checked_sub_def)
qed

lemma sum_part: "100 * (\<Sum>a\<leftarrow>A. part st u e a) \<le> (\<Sum>a\<leftarrow>A. h_ratio (sh_holders st u a)) * e"
proof (induction A)
  case (Cons a A)
  have "100 * part st u e a \<le> h_ratio (sh_holders st u a) * e" by (simp add: part_def)
  with Cons show ?case by (simp add: algebra_simps)
qed simp

text \<open>C37: As long as nobody splits to himself and only the holder at the end of the array is deleted, the earnings
  of a well are divided among exactly its holders, each once and with his percentage rounded down, and its owner;
  the amounts add up to the earnings, and the owner never gets less than what the holders leave him.\<close>

theorem rewards_exact:
  assumes "share_reachable careful st" and "100 * e < 2 ^ 256"
  shows "case Share_calculateRewards st u e of Inl err \<Rightarrow> False | Inr (accounts, amounts) \<Rightarrow>
    accounts = sh_holderAddresses st u @ [sh_owners st u] \<and> distinct (butlast accounts) \<and>
    set (butlast accounts) = {a. Share_isHolder st u a} \<and>
    butlast amounts = map (\<lambda>a. h_ratio (sh_holders st u a) * e div 100) (butlast accounts) \<and>
    sum_list amounts = e \<and> (100 - sh_totalShared st u) * e \<le> 100 * last amounts"
proof -
  let ?A = "sh_holderAddresses st u"
  have ok: "totals_ok st u"
    using share_reachable_mono [OF assms(1) careful_noSelfSplit] by (rule reachable_totals)
  have ix: "indexed (well st u)" by (rule reachable_indexed [OF assms(1)])
  from ok have len: "length ?A = sh_totalHolders st u" by (simp add: totals_ok_def well_def)
  from ok ix have sum: "(\<Sum>a\<leftarrow>?A. h_ratio (sh_holders st u a)) = sh_totalShared st u" and le: "sh_totalShared st u \<le> 100"
    using pieces_array [of "sh_holders st u" ?A "sh_totalHolders st u"] by (auto simp: totals_ok_def well_def simp del: counted.simps indexed.simps)
  have parts: "100 * (\<Sum>a\<leftarrow>?A. part st u e a) \<le> sh_totalShared st u * e" using sum_part [of st u e ?A] sum by simp
  moreover have "sh_totalShared st u * e \<le> 100 * e" using le by simp
  ultimately have parts_le: "(\<Sum>a\<leftarrow>?A. part st u e a) \<le> e" by linarith
  have "h_ratio (sh_holders st u a) \<le> 100" for a
    using ok ratio_le_pieces [of "sh_holders st u" a] by (simp add: totals_ok_def)
  then have "h_ratio (sh_holders st u a) * e \<le> 100 * e" for a by (simp add: mult_le_mono1)
  then have "h_ratio (sh_holders st u a) * e < 2 ^ 256" for a using assms(2) by (rule order.strict_trans1)
  moreover have "e < 2 ^ 256" using assms(2) by linarith
  ultimately obtain accounts amounts where r: "Share_calculateRewards st u e = Inr (accounts, amounts)"
    using rewards_defined [OF len _ parts_le] by blast
  note shape = rewards_shape [OF len r]
  have "100 * (e - (\<Sum>a\<leftarrow>?A. part st u e a)) \<ge> (100 - sh_totalShared st u) * e"
    using parts by (simp add: diff_mult_distrib diff_mult_distrib2)
  moreover have "part st u e = (\<lambda>a. h_ratio (sh_holders st u a) * e div 100)" by (simp add: fun_eq_iff part_def)
  ultimately show ?thesis using shape r ix by (auto simp: well_def Share_isHolder_def)
qed

text \<open>A holder who splits to himself gains the pieces he splits, out of nothing: the call succeeds, his ratio
  grows, nothing else changes and the counter of shared pieces does not notice. When the pieces then exceed 100,
  no earnings that are a positive multiple of 100 can be divided any more: the calculation reverts.\<close>

theorem self_split_mints:
  assumes "share_reachable careful st" and "Share_isHolder st u g" and "g \<noteq> 0" and "r \<le> h_ratio (sh_holders st u g)"
  shows "\<exists>st'. Share_splitHolder st g u g r =
      Inr (st', h_ratio (sh_holders st u g) - r, h_ratio (sh_holders st u g) + r) \<and>
    st' = putHolder st u g ((sh_holders st u g)\<lparr>h_ratio := h_ratio (sh_holders st u g) + r\<rparr>) \<and>
    (100 < sh_totalShared st u + r \<and> 0 < k \<longrightarrow> (\<exists>err. Share_calculateRewards st' u (100 * k) = Inl err))"
proof -
  let ?A = "sh_holderAddresses st u" and ?h = "sh_holders st u g"
  have ok: "totals_ok st u"
    using share_reachable_mono [OF assms(1) careful_noSelfSplit] by (rule reachable_totals)
  have ix: "indexed (well st u)" by (rule reachable_indexed [OF assms(1)])
  have "h_ratio ?h \<le> 100" using ok ratio_le_pieces [of "sh_holders st u" g] by (simp add: totals_ok_def)
  then have split: "Share_splitHolder st g u g r =
      Inr (putHolder st u g (?h\<lparr>h_ratio := h_ratio ?h + r\<rparr>), h_ratio ?h - r, h_ratio ?h + r)"
    using assms(2-4)
    by (simp add: Share_splitHolder_def MAX_PIECES_def checked_def Share_isHolder_def putHolder_def Let_def)
  define st' where "st' = putHolder st u g (?h\<lparr>h_ratio := h_ratio ?h + r\<rparr>)"
  have well: "well st' u = put g (h_ratio ?h + r) (well st u)"
    using assms(2) by (simp add: st'_def putHolder_def well_def Share_isHolder_def)
  have A: "sh_holderAddresses st' u = ?A" by (simp add: st'_def putHolder_def)
  have "pieces (sh_holders st' u) = sh_totalShared st u + r"
    using ok pieces_put [of g "h_ratio ?h + r" "well st u"] unfolding well [symmetric] by (simp add: totals_ok_def)
  then have sum: "(\<Sum>a\<leftarrow>?A. h_ratio (sh_holders st' u a)) = sh_totalShared st u + r"
    using pieces_array [of "sh_holders st' u" "sh_holderAddresses st' u" "sh_totalHolders st' u"]
      indexed_put [OF ix] counted_put [of "well st u"] ok well
    by (simp add: A well_def totals_ok_def del: counted.simps indexed.simps put.simps)
  have "\<exists>err. Share_calculateRewards st' u (100 * k) = Inl err" if "100 < sh_totalShared st u + r" and "0 < k"
  proof (rule ccontr)
    assume "\<nexists>err. Share_calculateRewards st' u (100 * k) = Inl err"
    then obtain accounts amounts where run: "Share_calculateRewards st' u (100 * k) = Inr (accounts, amounts)"
      by (cases "Share_calculateRewards st' u (100 * k)") auto
    have "length (sh_holderAddresses st' u) = sh_totalHolders st' u"
      using ok by (simp add: totals_ok_def well_def A) (simp add: st'_def putHolder_def)
    from rewards_shape [OF this run] have "(\<Sum>a\<leftarrow>?A. part st' u (100 * k) a) \<le> 100 * k" by (simp add: A)
    moreover have "part st' u (100 * k) a = h_ratio (sh_holders st' u a) * k" for a by (simp add: part_def)
    ultimately have "(sh_totalShared st u + r) * k \<le> 100 * k" by (simp add: sum [symmetric] sum_list_mult_const)
    with that show False by simp
  qed
  with split show ?thesis unfolding st'_def by blast
qed

text \<open>C38: Deleting a holder who is not the last of the array leaves a wrong index behind, and a later deletion then
  removes the wrong address: when a holder \<open>a\<close> is deleted, a new holder \<open>n\<close> enters with a share and the holder
  \<open>m\<close> who was moved is deleted, then \<open>n\<close> still has his share but is not in the array, so that no earnings are
  paid to him.\<close>

theorem deletion_unpays_holder:
  assumes "share_reachable careful st" and "m = last (sh_holderAddresses st u)" and "a \<noteq> m"
    and "Share_deleteHolder st s u a = Inr st1"
    and "Share_setHolders st1 s u [n] [r] = Inr st2" and "\<not> Share_isHolder st u n"
    and "Share_deleteHolder st2 s' u m = Inr st3"
  shows "Share_isHolder st3 u n \<and> h_ratio (sh_holders st3 u n) = r \<and> n \<notin> set (sh_holderAddresses st3 u) \<and>
    (\<forall>e accounts amounts. Share_calculateRewards st3 u e = Inr (accounts, amounts) \<longrightarrow> n \<notin> set (butlast accounts))"
proof -
  have set: "Share_setHolder st1 u n r = Inr st2" using assms(5) by (auto simp: Share_setHolders_def ebind_Inr_iff)
  have totals: "totals_ok st u"
    using share_reachable_mono [OF assms(1) careful_noSelfSplit] by (rule reachable_totals)
  have ix: "indexed (well st u)" by (rule reachable_indexed [OF assms(1)])
  let ?A = "sh_holderAddresses st u" and ?H = "sh_holders st u"
  note d = deleteHolder_well [OF assms(4)] and p = setHolder_well [OF set] and d' = deleteHolder_well [OF assms(7)]
  from d(2) ix have a: "a \<in> set ?A" by (auto simp: well_def)
  then obtain B where A: "?A = B @ [m]" using assms(2) append_butlast_last_id by (metis list.distinct(1) list.set_cases)
  with a assms(3) have B: "B \<noteq> []" by auto
  have "h_index (?H m) = length B" using ix by (auto simp: well_def A dest: spec [of _ "length B"])
  moreover have H1: "sh_holders st1 u = ?H(a := no_holder)" using d(1) by (simp add: well_def Let_def)
  ultimately have idx: "h_index (sh_holders st1 u m) = length B" using assms(3) by simp
  have "m \<in> set ?A" by (simp add: A)
  then have "n \<noteq> m" using ix assms(6) by (auto simp: well_def Share_isHolder_def)
  have A1: "sh_holderAddresses st1 u = butlast (?A[h_index (?H a) := m])"
    using d(1) B by (simp add: well_def Let_def A)
  then have len: "length (sh_holderAddresses st1 u) = length B" by (simp add: A)
  have n: "\<not> Share_isHolder st1 u n" using assms(6) by (simp add: H1 Share_isHolder_def no_holder_def)
  have A2: "sh_holderAddresses st2 u = sh_holderAddresses st1 u @ [n]"
    and H2: "sh_holders st2 u = (sh_holders st1 u)(n := \<lparr>h_index = length B, h_ratio = r, h_flag = Holder\<rparr>)"
    using p(1) n by (auto simp: well_def Share_isHolder_def len)
  have H3: "sh_holders st3 u = (sh_holders st2 u)(m := no_holder)"
    using d'(1) by (simp add: well_def Let_def)
  have "h_index (sh_holders st2 u m) = length (sh_holderAddresses st1 u)" using idx \<open>n \<noteq> m\<close> len by (simp add: H2)
  then have A3: "sh_holderAddresses st3 u = sh_holderAddresses st1 u"
    using d'(1) by (simp add: well_def Let_def A2)
  have "set (sh_holderAddresses st1 u) \<subseteq> set ?A"
    unfolding A1 using set_update_subset_insert [of ?A "h_index (?H a)" m] by (auto simp: A dest!: in_set_butlastD)
  moreover have "n \<notin> set ?A" using assms(6) ix by (auto simp: well_def Share_isHolder_def)
  ultimately have gone: "n \<notin> set (sh_holderAddresses st3 u)" unfolding A3 by blast
  have "totals_ok st3 u"
    by (intro deleteHolder_totals [OF assms(7)] setHolder_totals [OF set] deleteHolder_totals [OF assms(4)] totals)
  then have "length (sh_holderAddresses st3 u) = sh_totalHolders st3 u" by (simp add: totals_ok_def well_def)
  from rewards_shape [OF this] have "butlast accounts = sh_holderAddresses st3 u"
    if "Share_calculateRewards st3 u e = Inr (accounts, amounts)" for e accounts amounts
    using that by fastforce
  with gone show ?thesis using \<open>n \<noteq> m\<close> by (auto simp: Share_isHolder_def H3 H2)
qed

section \<open>An example\<close>

text \<open>The well of account 1 with the holders 2, 3 and 4.\<close>

definition demo_well :: bytes32 where
  "demo_well = Keccak ''well''"

definition demo_owned :: share where
  "demo_owned = empty_share\<lparr>sh_owners := (\<lambda>_. 0)(demo_well := 1)\<rparr>"

definition demo_shares :: share where
  "demo_shares = demo_owned\<lparr>
     sh_holders := (\<lambda>_ _. no_holder)(demo_well := (\<lambda>_. no_holder)(
        2 := \<lparr>h_index = 0, h_ratio = 60, h_flag = Holder\<rparr>, 3 := \<lparr>h_index = 1, h_ratio = 0, h_flag = Holder\<rparr>,
        4 := \<lparr>h_index = 2, h_ratio = 0, h_flag = Holder\<rparr>)),
     sh_holderAddresses := (\<lambda>_. [])(demo_well := [2, 3, 4]),
     sh_totalHolders := (\<lambda>_. 0)(demo_well := 3), sh_totalShared := (\<lambda>_. 0)(demo_well := 60)\<rparr>"

lemmas share_defs = Share_setOwner_def Share_setHolders_def Share_setHolder_def Share_deleteHolder_def onlyProducerOwner_def
  Share_isProducerOwner_def putHolder_def pushAddress_def checked_def checked_sub_def MAX_HOLDERS_def MAX_PIECES_def
  no_holder_def empty_share_def Let_def

lemma demo_shares_reachable: "share_reachable careful demo_shares"
proof -
  have "share_exec (AddOwner demo_well 1) empty_share = Inr demo_owned"
    by (simp add: share_defs demo_owned_def)
  then have "share_reachable careful demo_owned"
    by (rule share_reachable.call [OF share_reachable.start, rotated]) simp
  moreover have "share_exec (SetHolders 1 demo_well [2, 3, 4] [60, 0, 0]) demo_owned = Inr demo_shares"
    by (simp add: share_defs demo_owned_def demo_shares_def) (simp add: eval_nat_numeral)
  ultimately show ?thesis
    using share_reachable.call [of careful demo_owned "SetHolders 1 demo_well [2, 3, 4] [60, 0, 0]" demo_shares] by simp
qed

lemma shares_conserved_witness:
  "length (sh_holderAddresses demo_shares demo_well) = sh_totalHolders demo_shares demo_well \<and>
   sh_totalShared demo_shares demo_well \<le> 100"
  using shares_conserved [OF share_reachable_mono [OF demo_shares_reachable careful_noSelfSplit], of demo_well] by blast

lemma rewards_exact_witness:
  "case Share_calculateRewards demo_shares demo_well 1000 of Inl err \<Rightarrow> False | Inr (accounts, amounts) \<Rightarrow>
     sum_list amounts = 1000"
  using rewards_exact [OF demo_shares_reachable, of 1000 demo_well] by (auto split: sum.splits)

lemma self_split_mints_witness:
  "\<exists>st' err. Share_splitHolder demo_shares 2 demo_well 2 60 = Inr (st', 0, 120) \<and>
     Share_calculateRewards st' demo_well 100 = Inl err"
proof -
  have "Share_isHolder demo_shares demo_well 2" and r: "h_ratio (sh_holders demo_shares demo_well 2) = 60"
    and "sh_totalShared demo_shares demo_well = 60"
    by (simp_all add: demo_shares_def Share_isHolder_def)
  with self_split_mints [OF demo_shares_reachable this(1), of 60 1] show ?thesis by auto
qed

lemma deletion_unpays_holder_witness:
  "\<exists>st. Share_isHolder st demo_well 5 \<and> h_ratio (sh_holders st demo_well 5) = 40 \<and>
     5 \<notin> set (sh_holderAddresses st demo_well)"
proof -
  obtain st1 where 1: "Share_deleteHolder demo_shares 1 demo_well 3 = Inr st1"
    and s1: "sh_owners st1 demo_well = 1" "sh_holders st1 demo_well 5 = no_holder" "sh_totalShared st1 demo_well = 60"
      "sh_totalHolders st1 demo_well = 2" "sh_holderAddresses st1 demo_well = [2, 4]"
      "sh_holders st1 demo_well 4 = \<lparr>h_index = 2, h_ratio = 0, h_flag = Holder\<rparr>"
    by (simp add: share_defs demo_shares_def demo_owned_def)
  obtain st2 where 2: "Share_setHolders st1 1 demo_well [5] [40] = Inr st2"
    and s2: "sh_owners st2 demo_well = 1" "sh_totalHolders st2 demo_well = 3" "sh_holderAddresses st2 demo_well = [2, 4, 5]"
      "sh_holders st2 demo_well 4 = \<lparr>h_index = 2, h_ratio = 0, h_flag = Holder\<rparr>"
    using s1 by (simp add: share_defs)
  obtain st3 where 3: "Share_deleteHolder st2 1 demo_well 4 = Inr st3"
    using s2 by (simp add: share_defs)
  have "\<not> Share_isHolder demo_shares demo_well 5" and "(4 :: addr) = last (sh_holderAddresses demo_shares demo_well)"
    by (simp_all add: demo_shares_def Share_isHolder_def no_holder_def)
  with deletion_unpays_holder [OF demo_shares_reachable _ _ 1 2 _ 3] show ?thesis by auto
qed

end
