(* ===== verification/Oracle.thy ===== *)
theory Oracle
  imports Roles
begin

text \<open>
  \<open>contracts/Oracle/Oracle.sol\<close>: the requests of the data contracts, the prices of the supported symbols, and
  the switch that stops the minting of TCASH when its price falls. Events are left out; the time of a
  call is an argument where it is stored.
\<close>

section \<open>Storage\<close>

record price_data =
  pd_price :: nat
  pd_timestamp :: nat

record oracle_state =
  o_initialized :: bool
  o_owner :: addr
  o_roleController :: addr
  o_currencyValues :: "bytes32 \<Rightarrow> nat"
  o_commitments :: "bytes32 \<Rightarrow> bytes32"
  o_tcashMintStatus :: bool
  o_tcashMintLockPrice :: nat
  o_prices :: "string \<Rightarrow> price_data"
  o_supportedSymbols :: "string \<Rightarrow> bool"

definition Oracle_initialize :: "oracle_state \<Rightarrow> addr \<Rightarrow> addr \<Rightarrow> oracle_state fallible" where
  "Oracle_initialize st sender roleContract =
     ebind (require (\<not> o_initialized st) ''Initializable: contract is already initialized'') (\<lambda>_.
     Inr (st\<lparr>o_initialized := True, o_owner := sender, o_roleController := roleContract, o_tcashMintStatus := True,
       o_tcashMintLockPrice := 0, o_supportedSymbols := (o_supportedSymbols st)(''UNIT'' := True, ''TCASH'' := True)\<rparr>))"

text \<open>The modifiers \<open>onlyFeeder\<close> and \<open>onlyFoundationManager\<close>.\<close>

definition onlyRole ::
    "'ac oz_access \<Rightarrow> (addr \<Rightarrow> 'ac roles fallible) \<Rightarrow> oracle_state \<Rightarrow> bytes32 \<Rightarrow> string \<Rightarrow> addr \<Rightarrow> unit fallible" where
  "onlyRole A rolesAt st role msg sender =
     ebind (rolesAt (o_roleController st)) (\<lambda>r. require (hasRole A (r_access r) role sender) msg)"

abbreviation onlyFeeder ::
    "'ac oz_access \<Rightarrow> (addr \<Rightarrow> 'ac roles fallible) \<Rightarrow> oracle_state \<Rightarrow> addr \<Rightarrow> unit fallible" where
  "onlyFeeder A rolesAt st \<equiv> onlyRole A rolesAt st FEEDER ''Only Feeder can push data''"

abbreviation onlyManager ::
    "'ac oz_access \<Rightarrow> (addr \<Rightarrow> 'ac roles fallible) \<Rightarrow> oracle_state \<Rightarrow> addr \<Rightarrow> unit fallible" where
  "onlyManager A rolesAt st \<equiv> onlyRole A rolesAt st FOUNDATION_MANAGER ''Not authorized''"

section \<open>Requests\<close>

definition uint_bytes :: "nat \<Rightarrow> string" where
  "uint_bytes n = map (\<lambda>b. char_of (unat b)) (be_fixed 32 n)"

definition requestIdOf :: "addr \<Rightarrow> nat \<Rightarrow> bytes32" where
  "requestIdOf sender nonce = Keccak (addr_bytes sender @ uint_bytes nonce)"

definition commitmentOf :: "addr \<Rightarrow> string \<Rightarrow> bytes32" where
  "commitmentOf callbackAddress callbackFunctionId = Keccak (addr_bytes callbackAddress @ callbackFunctionId)"

definition Oracle_createOracleRequest ::
    "oracle_state \<Rightarrow> addr \<Rightarrow> addr \<Rightarrow> string \<Rightarrow> nat \<Rightarrow> (oracle_state \<times> bytes32) fallible" where
  "Oracle_createOracleRequest st sender callbackAddress callbackFunctionId nonce =
     (let requestId = requestIdOf sender nonce in
      ebind (require (o_commitments st requestId = Bytes0) ''must be a unique request id'') (\<lambda>_.
      Inr (st\<lparr>o_commitments := (o_commitments st)(requestId := commitmentOf callbackAddress callbackFunctionId)\<rparr>,
           requestId)))"

definition Oracle_cancelOracleRequest :: "oracle_state \<Rightarrow> bytes32 \<Rightarrow> addr \<Rightarrow> string \<Rightarrow> bytes32 fallible" where
  "Oracle_cancelOracleRequest st requestId callbackAddress callbackFuncId =
     ebind (require (commitmentOf callbackAddress callbackFuncId = o_commitments st requestId)
              ''Params do not match request ID'') (\<lambda>_.
     Inr requestId)"

section \<open>Prices\<close>

definition Oracle_setCurrencyValue ::
    "'ac oz_access \<Rightarrow> (addr \<Rightarrow> 'ac roles fallible) \<Rightarrow> oracle_state \<Rightarrow> addr \<Rightarrow> bytes32 \<Rightarrow> nat \<Rightarrow> oracle_state fallible" where
  "Oracle_setCurrencyValue A rolesAt st sender kind v =
     ebind (onlyFeeder A rolesAt st sender) (\<lambda>_.
     Inr (st\<lparr>o_currencyValues := (o_currencyValues st)(kind := v)\<rparr>))"

definition Oracle_getCurrencyValue :: "oracle_state \<Rightarrow> bytes32 \<Rightarrow> nat" where
  "Oracle_getCurrencyValue st kind = o_currencyValues st kind"

definition Oracle_updatePrice ::
    "'ac oz_access \<Rightarrow> (addr \<Rightarrow> 'ac roles fallible) \<Rightarrow> nat \<Rightarrow> oracle_state \<Rightarrow> addr \<Rightarrow> string \<Rightarrow> nat \<Rightarrow> oracle_state fallible" where
  "Oracle_updatePrice A rolesAt now st sender symbol price =
     ebind (onlyManager A rolesAt st sender) (\<lambda>_.
     ebind (require (o_supportedSymbols st symbol) ''Unsupported symbol'') (\<lambda>_.
     ebind (require (0 < price) ''Invalid price'') (\<lambda>_.
     Inr (st\<lparr>o_currencyValues := (o_currencyValues st)(Keccak symbol := price),
            o_prices := (o_prices st)(symbol := \<lparr>pd_price = price, pd_timestamp = now\<rparr>)\<rparr>))))"

definition Oracle_getPrice :: "oracle_state \<Rightarrow> string \<Rightarrow> nat fallible" where
  "Oracle_getPrice st symbol =
     ebind (require (o_supportedSymbols st symbol) ''Unsupported symbol'') (\<lambda>_.
     Inr (o_currencyValues st (Keccak symbol)))"

definition Oracle_getPriceData :: "oracle_state \<Rightarrow> string \<Rightarrow> (nat \<times> nat) fallible" where
  "Oracle_getPriceData st symbol =
     ebind (require (o_supportedSymbols st symbol) ''Unsupported symbol'') (\<lambda>_.
     Inr (o_currencyValues st (Keccak symbol), pd_timestamp (o_prices st symbol)))"

definition Oracle_addSupportedSymbol ::
    "'ac oz_access \<Rightarrow> (addr \<Rightarrow> 'ac roles fallible) \<Rightarrow> oracle_state \<Rightarrow> addr \<Rightarrow> string \<Rightarrow> oracle_state fallible" where
  "Oracle_addSupportedSymbol A rolesAt st sender symbol =
     ebind (onlyManager A rolesAt st sender) (\<lambda>_.
     ebind (require (\<not> o_supportedSymbols st symbol) ''Symbol already supported'') (\<lambda>_.
     Inr (st\<lparr>o_supportedSymbols := (o_supportedSymbols st)(symbol := True)\<rparr>)))"

definition Oracle_removeSupportedSymbol ::
    "'ac oz_access \<Rightarrow> (addr \<Rightarrow> 'ac roles fallible) \<Rightarrow> oracle_state \<Rightarrow> addr \<Rightarrow> string \<Rightarrow> oracle_state fallible" where
  "Oracle_removeSupportedSymbol A rolesAt st sender symbol =
     ebind (onlyManager A rolesAt st sender) (\<lambda>_.
     ebind (require (o_supportedSymbols st symbol) ''Symbol not supported'') (\<lambda>_.
     Inr (st\<lparr>o_supportedSymbols := (o_supportedSymbols st)(symbol := False)\<rparr>)))"

section \<open>The mint switch\<close>

definition Oracle_setTCashMintStatus ::
    "'ac oz_access \<Rightarrow> (addr \<Rightarrow> 'ac roles fallible) \<Rightarrow> oracle_state \<Rightarrow> addr \<Rightarrow> bool \<Rightarrow> oracle_state fallible" where
  "Oracle_setTCashMintStatus A rolesAt st sender status =
     ebind (onlyFeeder A rolesAt st sender) (\<lambda>_. Inr (st\<lparr>o_tcashMintStatus := status\<rparr>))"

definition Oracle_setTCashMintLockPrice ::
    "'ac oz_access \<Rightarrow> (addr \<Rightarrow> 'ac roles fallible) \<Rightarrow> oracle_state \<Rightarrow> addr \<Rightarrow> nat \<Rightarrow> oracle_state fallible" where
  "Oracle_setTCashMintLockPrice A rolesAt st sender price =
     ebind (onlyFeeder A rolesAt st sender) (\<lambda>_. Inr (st\<lparr>o_tcashMintLockPrice := price\<rparr>))"

definition Oracle_checkAndUpdateTCashMintStatus ::
    "'ac oz_access \<Rightarrow> (addr \<Rightarrow> 'ac roles fallible) \<Rightarrow> oracle_state \<Rightarrow> addr \<Rightarrow> nat \<Rightarrow> nat \<Rightarrow> nat \<Rightarrow> nat \<Rightarrow> oracle_state fallible" where
  "Oracle_checkAndUpdateTCashMintStatus A rolesAt st sender currentPrice previousPrice lockThreshold resetThreshold =
     ebind (onlyFeeder A rolesAt st sender) (\<lambda>_.
     if o_tcashMintLockPrice st = 0 then
       if 0 < previousPrice then
         ebind (checked_sub previousPrice currentPrice) (\<lambda>d.
         ebind (checked 256 (d * 10000)) (\<lambda>n.
         let priceChange = n div previousPrice in
         Inr (if lockThreshold \<le> priceChange
              then st\<lparr>o_tcashMintLockPrice := currentPrice, o_tcashMintStatus := False\<rparr> else st)))
       else Inr st
     else
       ebind (checked 256 (o_tcashMintLockPrice st * resetThreshold)) (\<lambda>n.
       let resetPrice = n div 10000 in
       Inr (if resetPrice \<le> currentPrice
            then st\<lparr>o_tcashMintLockPrice := 0, o_tcashMintStatus := True\<rparr> else st)))"

section \<open>What the switch is for\<close>

text \<open>
  The switch watches for a fall, or is locked at the price of a fall; feeders can set the flag that stops minting and the
  lock price by hand, so the flag can have either value in both. A fall by at least the threshold (in hundredths of a
  percent) locks the switch and stops minting, and the reset threshold times the price of the fall releases it. A lock
  at the price zero is none: minting stops, but the switch keeps watching. Arithmetic that leaves the words panics: a
  risen price while watching, and products that do not fit.
\<close>

datatype mint = Watching bool | Locked nat bool

definition lock_at :: "nat \<Rightarrow> mint" where
  "lock_at p = (if p = 0 then Watching False else Locked p False)"

fun mint_step :: "mint \<Rightarrow> nat \<Rightarrow> nat \<Rightarrow> nat \<Rightarrow> nat \<Rightarrow> mint option" where
  "mint_step (Watching minting) current previous lock reset =
     (if previous = 0 then Some (Watching minting)
      else if previous < current \<or> 2 ^ 256 \<le> (previous - current) * 10000 then None
      else if lock * previous \<le> (previous - current) * 10000 then Some (lock_at current)
      else Some (Watching minting))"
| "mint_step (Locked p minting) current previous lock reset =
     (if 2 ^ 256 \<le> p * reset then None
      else if p * reset < (current + 1) * 10000 then Some (Watching True)
      else Some (Locked p minting))"

definition mint_of :: "oracle_state \<Rightarrow> mint" where
  "mint_of st = (if o_tcashMintLockPrice st = 0 then Watching (o_tcashMintStatus st)
     else Locked (o_tcashMintLockPrice st) (o_tcashMintStatus st))"

fun with_mint :: "mint \<Rightarrow> oracle_state \<Rightarrow> oracle_state" where
  "with_mint (Watching minting) st = st\<lparr>o_tcashMintLockPrice := 0, o_tcashMintStatus := minting\<rparr>"
| "with_mint (Locked p minting) st = st\<lparr>o_tcashMintLockPrice := p, o_tcashMintStatus := minting\<rparr>"

lemma with_mint_of: "with_mint (mint_of st) st = st"
  by (simp add: mint_of_def)

text \<open>A specified step leaves a state that stands for its result.\<close>

lemma mint_step_stored:
  "mint_step (mint_of st) current previous lock reset = Some m \<Longrightarrow> mint_of (with_mint m st) = m"
  by (auto simp: mint_of_def lock_at_def split: if_splits)

text \<open>C40: In every state and at every price a check does exactly what the specification of the switch says, and nothing
  else: it fails as the guard does for anybody but a feeder, reverts with an arithmetic panic where the
  specification has no step (in particular whenever the price has risen while the switch is watching, because the
  fall is computed by an unsigned subtraction), and otherwise changes the flag and the lock price as specified.\<close>

theorem mint_check_refines:
  "Oracle_checkAndUpdateTCashMintStatus A rolesAt st sender current previous lock reset =
     (case onlyFeeder A rolesAt st sender of
        Inl e \<Rightarrow> Inl e
      | Inr _ \<Rightarrow> (case mint_step (mint_of st) current previous lock reset of
            None \<Rightarrow> Inl ''Panic(0x11)''
          | Some m \<Rightarrow> Inr (with_mint m st)))"
proof (cases "onlyFeeder A rolesAt st sender")
  case (Inl e)
  then show ?thesis by (simp add: Oracle_checkAndUpdateTCashMintStatus_def)
next
  case feeder: (Inr _)
  show ?thesis
  proof (cases "o_tcashMintLockPrice st = 0")
    case watching: True
    have "lock \<le> (previous - current) * 10000 div previous \<longleftrightarrow> lock * previous \<le> (previous - current) * 10000"
      if "0 < previous" using that by (rule less_eq_div_iff_mult_less_eq)
    then show ?thesis
      using feeder watching
      by (auto simp: Oracle_checkAndUpdateTCashMintStatus_def checked_sub_def checked_def mint_of_def lock_at_def Let_def
          simp del: power_numeral)
  next
    case locked: False
    have "p * reset div 10000 \<le> current \<longleftrightarrow> p * reset < (current + 1) * 10000" for p
      by (simp add: less_Suc_eq_le [symmetric] div_less_iff_less_mult)
    then show ?thesis
      using feeder locked
      by (auto simp: Oracle_checkAndUpdateTCashMintStatus_def checked_def mint_of_def Let_def simp del: power_numeral)
  qed
qed

text \<open>A fall to zero stops minting and leaves the lock price that means unlocked.\<close>

lemma fall_to_zero:
  assumes "onlyFeeder A rolesAt st sender = Inr ()" and "o_tcashMintLockPrice st = 0" and "0 < previous"
    and "previous * 10000 < 2 ^ 256" and "lock \<le> 10000"
  shows "Oracle_checkAndUpdateTCashMintStatus A rolesAt st sender 0 previous lock reset =
    Inr (st\<lparr>o_tcashMintLockPrice := 0, o_tcashMintStatus := False\<rparr>)"
  using assms
  by (auto simp: Oracle_checkAndUpdateTCashMintStatus_def checked_sub_def checked_def Let_def simp del: power_numeral)

text \<open>The two copies of a price.\<close>

lemma updatePrice_getPrice:
  assumes "Oracle_updatePrice A rolesAt now st sender symbol price = Inr st'"
  shows "Oracle_getPrice st' symbol = Inr price" and "Oracle_getPriceData st' symbol = Inr (price, now)"
    and "s \<noteq> symbol \<Longrightarrow> Oracle_getPrice st' s = Oracle_getPrice st s"
  using assms by (auto simp: Oracle_updatePrice_def Oracle_getPrice_def Oracle_getPriceData_def ebind_Inr_iff)

text \<open>A request is registered once, and only the parameters it was made with cancel it.\<close>

lemma createOracleRequest_Inr:
  assumes "Oracle_createOracleRequest st sender cb f nonce = Inr (st', i)"
  shows "i = requestIdOf sender nonce" and "o_commitments st i = Bytes0"
    and "Oracle_createOracleRequest st' sender cb' f' nonce = Inl ''must be a unique request id''"
    and "Oracle_cancelOracleRequest st' i cb f = Inr i"
    and "j \<noteq> i \<Longrightarrow> o_commitments st' j = o_commitments st j"
  using assms
  by (auto simp: Oracle_createOracleRequest_def Oracle_cancelOracleRequest_def Let_def ebind_Inr_iff commitmentOf_def)

definition demo_feeders :: "addr \<Rightarrow> acl roles fallible" where
  "demo_feeders a = Inr \<lparr>r_initialized = True, r_owner = 1, r_mulSig = 2,
     r_access = acl_add acl_empty FEEDER 7\<rparr>"

definition demo_oracle :: oracle_state where
  "demo_oracle = \<lparr>o_initialized = True, o_owner = 1, o_roleController = 3, o_currencyValues = (\<lambda>_. 0),
     o_commitments = (\<lambda>_. Bytes0), o_tcashMintStatus = True, o_tcashMintLockPrice = 0,
     o_prices = (\<lambda>_. \<lparr>pd_price = 0, pd_timestamp = 0\<rparr>), o_supportedSymbols = (\<lambda>_. False)\<rparr>"

lemma demo_feeder: "onlyFeeder reference_access demo_feeders demo_oracle 7 = Inr ()"
  by (simp add: onlyRole_def demo_feeders_def reference_access_def acl_has_def acl_add_def acl_empty_def)

lemma mint_check_refines_witness:
  "Oracle_checkAndUpdateTCashMintStatus reference_access demo_feeders demo_oracle 7 60 100 3000 11000 =
     Inr (with_mint (Locked 60 False) demo_oracle) \<and>
   Oracle_checkAndUpdateTCashMintStatus reference_access demo_feeders demo_oracle 7 101 100 3000 11000 = Inl ''Panic(0x11)''"
  using demo_feeder
  by (simp add: mint_check_refines mint_of_def lock_at_def) (simp add: demo_oracle_def)

end
