(* ===== verification/DataRequests.thy ===== *)
theory DataRequests
  imports Oracle
begin

text \<open>
  The oracle requests of a production data contract: \<open>contracts/Oracle/OracleClient.sol\<close> and the functions of
  \<open>contracts/Treasure/ProductionData.sol\<close> that register and cancel them. \<open>self\<close> is the address of the data
  contract, which calls the oracle and is the callback of its requests. The selector of a function is
  represented by its name, so that different functions have different selectors.
\<close>

record data_requests =
  dr_producer :: addr
  dr_nonce :: nat
  dr_assetRequest :: bytes32
  dr_trustedRequests :: "bytes32 \<Rightarrow> bytes32"

definition receiveAssetValue :: string where
  "receiveAssetValue = ''receiveAssetValue''"

definition receiveTrustedProductionData :: string where
  "receiveTrustedProductionData = ''receiveTrustedProductionData''"

section \<open>The oracle client\<close>

definition nextNonce :: "data_requests \<Rightarrow> (data_requests \<times> nat) fallible" where
  "nextNonce d = ebind (checked 256 (dr_nonce d + 1)) (\<lambda>n. Inr (d\<lparr>dr_nonce := n\<rparr>, n))"

definition sendOracleRequest :: "addr \<Rightarrow> oracle_state \<Rightarrow> string \<Rightarrow> nat \<Rightarrow> (oracle_state \<times> bytes32) fallible" where
  "sendOracleRequest self orc callbackFunctionId nonce =
     (let expectedRequestId = requestIdOf self nonce in
      ebind (Oracle_createOracleRequest orc self self callbackFunctionId nonce) (\<lambda>(orc, requestId).
      ebind (require (expectedRequestId = requestId) ''requestid mismatch,check oracle logic'') (\<lambda>_.
      Inr (orc, expectedRequestId))))"

section \<open>The requests of the data contract\<close>

definition registerAssetValueRequest ::
    "addr \<Rightarrow> data_requests \<Rightarrow> oracle_state \<Rightarrow> (data_requests \<times> oracle_state) fallible" where
  "registerAssetValueRequest self d orc =
     ebind (require (dr_assetRequest d = Bytes0) ''already registerd'') (\<lambda>_.
     ebind (nextNonce d) (\<lambda>(d, nonce).
     ebind (sendOracleRequest self orc receiveAssetValue nonce) (\<lambda>(orc, i).
     Inr (d\<lparr>dr_assetRequest := i\<rparr>, orc))))"

definition cancelAssetValueRequest ::
    "addr \<Rightarrow> data_requests \<Rightarrow> oracle_state \<Rightarrow> data_requests fallible" where
  "cancelAssetValueRequest self d orc =
     ebind (Oracle_cancelOracleRequest orc (dr_assetRequest d) self receiveTrustedProductionData) (\<lambda>_.
     Inr (d\<lparr>dr_assetRequest := Bytes0\<rparr>))"

definition registerTrustedDataRequest ::
    "addr \<Rightarrow> data_requests \<Rightarrow> oracle_state \<Rightarrow> addr \<Rightarrow> bytes32 \<Rightarrow> (data_requests \<times> oracle_state) fallible" where
  "registerTrustedDataRequest self d orc sender uniqueId =
     ebind (require (sender = dr_producer d) ''only producer contract allowed'') (\<lambda>_.
     ebind (require (dr_trustedRequests d uniqueId = Bytes0) ''product oracle request already sent'') (\<lambda>_.
     ebind (nextNonce d) (\<lambda>(d, nonce).
     ebind (sendOracleRequest self orc receiveTrustedProductionData nonce) (\<lambda>(orc, i).
     Inr (d\<lparr>dr_trustedRequests := (dr_trustedRequests d)(uniqueId := i)\<rparr>, orc)))))"

definition cancelTrustedDataRequest ::
    "addr \<Rightarrow> data_requests \<Rightarrow> oracle_state \<Rightarrow> addr \<Rightarrow> bytes32 \<Rightarrow> data_requests fallible" where
  "cancelTrustedDataRequest self d orc sender uniqueId =
     ebind (require (sender = dr_producer d) ''only producer contract allowed'') (\<lambda>_.
     let requestId = dr_trustedRequests d uniqueId;
         d = d\<lparr>dr_trustedRequests := (dr_trustedRequests d)(uniqueId := Bytes0)\<rparr> in
     ebind (Oracle_cancelOracleRequest orc requestId self receiveTrustedProductionData) (\<lambda>_.
     Inr d))"

section \<open>What the requests keep\<close>

text \<open>Every request of the contract is committed in the oracle with its own callback, and no later nonce is.\<close>

definition requests_ok :: "addr \<Rightarrow> data_requests \<Rightarrow> oracle_state \<Rightarrow> bool" where
  "requests_ok self d orc \<longleftrightarrow>
     (\<forall>u. dr_trustedRequests d u \<noteq> Bytes0 \<longrightarrow>
        o_commitments orc (dr_trustedRequests d u) = commitmentOf self receiveTrustedProductionData) \<and>
     (dr_assetRequest d \<noteq> Bytes0 \<longrightarrow> o_commitments orc (dr_assetRequest d) = commitmentOf self receiveAssetValue) \<and>
     (\<forall>n. dr_nonce d < n \<and> n < 2 ^ 256 \<longrightarrow> o_commitments orc (requestIdOf self n) = Bytes0) \<and>
     o_commitments orc Bytes0 = Bytes0"

lemma uint_bytes_inject: "m < 2 ^ 256 \<Longrightarrow> n < 2 ^ 256 \<Longrightarrow> uint_bytes m = uint_bytes n \<longleftrightarrow> m = n"
proof
  assume mn: "m < 2 ^ 256" "n < 2 ^ 256" and eq: "uint_bytes m = uint_bytes n"
  have "inj (\<lambda>b :: byte. char_of (unat b) :: char)"
  proof (rule injI)
    fix x y :: byte
    assume "(char_of (unat x) :: char) = char_of (unat y)"
    then have "(of_char (char_of (unat x) :: char) :: nat) = of_char (char_of (unat y) :: char)" by simp
    then show "x = y" by (simp add: word_unat_eq_iff)
  qed
  with eq have "be_fixed 32 m = be_fixed 32 n" by (simp add: uint_bytes_def inj_map_eq_map)
  then have "m mod 256 ^ 32 = n mod 256 ^ 32" by (metis be_nat_be_fixed)
  moreover have "(256 :: nat) ^ 32 = 2 ^ 256" by (simp flip: power_mult)
  ultimately show "m = n" using mn by simp
qed simp

lemma requestIdOf_inject:
  "m < 2 ^ 256 \<Longrightarrow> n < 2 ^ 256 \<Longrightarrow> requestIdOf a m = requestIdOf b n \<longleftrightarrow> a = b \<and> m = n"
  by (simp add: requestIdOf_def append_eq_append_conv uint_bytes_inject)

lemma requestIdOf_other: "a \<noteq> b \<Longrightarrow> requestIdOf a m \<noteq> requestIdOf b n"
  by (simp add: requestIdOf_def append_eq_append_conv)

lemma requestIdOf_nonzero [simp]:
  "requestIdOf a n \<noteq> Bytes0" "commitmentOf a f \<noteq> Bytes0" "Bytes0 \<noteq> requestIdOf a n" "Bytes0 \<noteq> commitmentOf a f"
  by (simp_all add: requestIdOf_def commitmentOf_def)

lemma commitmentOf_inject [simp]: "commitmentOf a f = commitmentOf b g \<longleftrightarrow> a = b \<and> f = g"
  by (simp add: commitmentOf_def append_eq_append_conv)

text \<open>A new request succeeds as long as the nonce does not run over.\<close>

lemma new_request:
  fixes f :: string
  assumes "requests_ok self d orc" and "dr_nonce d + 1 < 2 ^ 256"
  defines "i \<equiv> requestIdOf self (dr_nonce d + 1)"
  defines "orc' \<equiv> orc\<lparr>o_commitments := (o_commitments orc)(i := commitmentOf self f)\<rparr>"
  shows "nextNonce d = Inr (d\<lparr>dr_nonce := dr_nonce d + 1\<rparr>, dr_nonce d + 1)"
    and "sendOracleRequest self orc f (dr_nonce d + 1) = Inr (orc', i)"
    and "o_commitments orc i = Bytes0"
proof -
  show "nextNonce d = Inr (d\<lparr>dr_nonce := dr_nonce d + 1\<rparr>, dr_nonce d + 1)"
    using assms(2) by (simp add: nextNonce_def checked_def)
  show fresh: "o_commitments orc i = Bytes0"
    unfolding i_def using assms(1,2) by (simp add: requests_ok_def del: power_numeral)
  then show "sendOracleRequest self orc f (dr_nonce d + 1) = Inr (orc', i)"
    by (simp add: sendOracleRequest_def Oracle_createOracleRequest_def i_def orc'_def Let_def)
qed

lemma requests_ok_commit:
  assumes "requests_ok self d orc" and "dr_nonce d + 1 < 2 ^ 256"
  defines "i \<equiv> requestIdOf self (dr_nonce d + 1)"
  defines "orc' \<equiv> \<lambda>f. orc\<lparr>o_commitments := (o_commitments orc)(i := commitmentOf self f)\<rparr>"
  shows "requests_ok self (d\<lparr>dr_nonce := dr_nonce d + 1, dr_assetRequest := i\<rparr>) (orc' receiveAssetValue)"
    and "requests_ok self (d\<lparr>dr_nonce := dr_nonce d + 1, dr_trustedRequests := (dr_trustedRequests d)(u := i)\<rparr>)
      (orc' receiveTrustedProductionData)"
proof -
  have fresh: "o_commitments orc i = Bytes0"
    unfolding i_def by (rule new_request(3) [OF assms(1,2)])
  have other: "x \<noteq> i" if "o_commitments orc x = commitmentOf self f" for x f
    using that fresh by auto
  have later: "requestIdOf self n \<noteq> i" if "dr_nonce d + 1 < n" "n < 2 ^ 256" for n
    unfolding i_def using that assms(2) requestIdOf_inject [of n "dr_nonce d + 1" self self] by simp
  have "dr_nonce d < n" if "dr_nonce d + 1 < n" for n using that by simp
  with assms(1) fresh other later
  show "requests_ok self (d\<lparr>dr_nonce := dr_nonce d + 1, dr_assetRequest := i\<rparr>) (orc' receiveAssetValue)"
    and "requests_ok self (d\<lparr>dr_nonce := dr_nonce d + 1, dr_trustedRequests := (dr_trustedRequests d)(u := i)\<rparr>)
      (orc' receiveTrustedProductionData)"
    by (auto simp: requests_ok_def orc'_def i_def simp del: power_numeral)
qed

lemma registerAssetValueRequest_ok:
  assumes "requests_ok self d orc" and "registerAssetValueRequest self d orc = Inr (d', orc')"
  shows "requests_ok self d' orc'" and "dr_assetRequest d' \<noteq> Bytes0"
proof -
  have n: "dr_nonce d + 1 < 2 ^ 256"
    using assms(2) by (auto simp: registerAssetValueRequest_def nextNonce_def ebind_Inr_iff)
  from assms(2) show "requests_ok self d' orc'" and "dr_assetRequest d' \<noteq> Bytes0"
    using requests_ok_commit(1) [OF assms(1) n] new_request(1,2) [OF assms(1) n]
    by (auto simp: registerAssetValueRequest_def ebind_Inr_iff)
qed

lemma registerTrustedDataRequest_eq:
  assumes "requests_ok self d orc" and "dr_nonce d + 1 < 2 ^ 256" and "dr_trustedRequests d u = Bytes0"
  shows "\<exists>d' orc'. registerTrustedDataRequest self d orc (dr_producer d) u = Inr (d', orc') \<and> requests_ok self d' orc' \<and>
    dr_trustedRequests d' = (dr_trustedRequests d)(u := requestIdOf self (dr_nonce d + 1)) \<and> dr_producer d' = dr_producer d"
  using requests_ok_commit(2) [OF assms(1,2)] new_request(1,2) [OF assms(1,2)]
  by (auto simp: registerTrustedDataRequest_def assms(3))

lemma cancelTrustedDataRequest_eq:
  assumes "requests_ok self d orc" and "dr_trustedRequests d u \<noteq> Bytes0"
  shows "\<exists>d'. cancelTrustedDataRequest self d orc (dr_producer d) u = Inr d' \<and> requests_ok self d' orc \<and>
    dr_trustedRequests d' = (dr_trustedRequests d)(u := Bytes0) \<and> dr_producer d' = dr_producer d"
  using assms by (auto simp: cancelTrustedDataRequest_def Oracle_cancelOracleRequest_def requests_ok_def Let_def)

text \<open>Requests of other accounts do not matter.\<close>

lemma other_request_ok:
  assumes "requests_ok self d orc" and "Oracle_createOracleRequest orc sender cb f n = Inr (orc', i)" and "sender \<noteq> self"
  shows "requests_ok self d orc'"
proof -
  have "i = requestIdOf sender n" and fresh: "o_commitments orc i = Bytes0"
    and eq: "o_commitments orc' = (o_commitments orc)(i := commitmentOf cb f)"
    using assms(2) by (auto simp: Oracle_createOracleRequest_def Let_def ebind_Inr_iff)
  have "x \<noteq> i" if "o_commitments orc x = commitmentOf self g" for x g
    using that fresh by auto
  moreover have "requestIdOf self k \<noteq> i" for k unfolding \<open>i = _\<close> using assms(3) by (simp add: requestIdOf_other)
  moreover have "i \<noteq> Bytes0" unfolding \<open>i = _\<close> by simp
  ultimately show ?thesis
    using assms(1) by (auto simp: requests_ok_def eq simp del: power_numeral)
qed

text \<open>The request for the asset value cannot be cancelled: it is registered with one function and
  cancelled with the selector of another.\<close>

theorem asset_request_stays:
  assumes "requests_ok self d orc"
  shows "cancelAssetValueRequest self d orc = Inl ''Params do not match request ID''"
  using assms
  by (cases "dr_assetRequest d = Bytes0")
    (auto simp: cancelAssetValueRequest_def Oracle_cancelOracleRequest_def requests_ok_def
      receiveAssetValue_def receiveTrustedProductionData_def)

end
