(* ===== verification/Wells.thy ===== *)
theory Wells
  imports Producer ShareSafety DataRequests
begin

text \<open>
  The wells of a producer contract, the rest of \<open>contracts/Treasure/Producer.sol\<close>, with the four contracts
  derived from it: a well is added by its owner, switched on and off by a foundation manager, which
  registers and cancels its data request, changed by its owner, and linked to a DApp.
\<close>

section \<open>Storage\<close>

datatype producer_status = NotSet | Active | Deactive

record producer_core =
  pc_nickname :: string
  pc_owner :: addr
  pc_API :: nat
  pc_sulphur :: nat
  pc_account :: string

definition empty_core :: producer_core where
  "empty_core = \<lparr>pc_nickname = '''', pc_owner = 0, pc_API = 0, pc_sulphur = 0, pc_account = ''''\<rparr>"

datatype producer_kind = OilProducer | GasProducer | EthProducer | BtcProducer

text \<open>The producer contract with the wells, and the data contract and the oracle it works with.\<close>

record wells =
  w_producer :: producer
  w_share :: share
  w_producers :: "bytes32 \<Rightarrow> producer_core"
  w_producerStatus :: "bytes32 \<Rightarrow> producer_status"
  w_data :: data_requests
  w_oracle :: oracle_state

section \<open>Operations\<close>

definition Producer_beforeAdd :: "producer_kind \<Rightarrow> wells \<Rightarrow> bytes32 \<Rightarrow> producer_core \<Rightarrow> wells fallible" where
  "Producer_beforeAdd kind st uniqueId p =
     ebind (require (pc_owner (w_producers st uniqueId) = 0) ''producer already exist'') (\<lambda>_.
     ebind (require (pc_owner p \<noteq> 0) ''zero producer owner address'') (\<lambda>_.
     ebind (require (pc_nickname p \<noteq> '''') ''empty nickname'') (\<lambda>_.
     ebind (require (kind = OilProducer \<longrightarrow> pc_API p \<noteq> 0 \<and> pc_sulphur p \<noteq> 0) ''API & sulphur cant be zero'') (\<lambda>_.
     ebind (Share_setOwner (w_share st) uniqueId (pc_owner p)) (\<lambda>sh.
     Inr (st\<lparr>w_share := sh\<rparr>))))))"

definition Producer_addProducer :: "producer_kind \<Rightarrow> wells \<Rightarrow> bytes32 \<Rightarrow> producer_core \<Rightarrow> wells fallible" where
  "Producer_addProducer kind st uniqueId p =
     ebind (Producer_beforeAdd kind st uniqueId p) (\<lambda>st.
     Inr (st\<lparr>w_producers := (w_producers st)(uniqueId := p),
            w_producerStatus := (w_producerStatus st)(uniqueId := NotSet)\<rparr>))"

definition Producer_setProducerStatus ::
    "'ac oz_access \<Rightarrow> (addr \<Rightarrow> 'ac roles fallible) \<Rightarrow> addr \<Rightarrow> wells \<Rightarrow> addr \<Rightarrow> bytes32 \<Rightarrow> producer_status \<Rightarrow> wells fallible" where
  "Producer_setProducerStatus A rolesAt self st sender uniqueId newStatus =
     ebind (rolesAt (p_roles (w_producer st))) (\<lambda>r.
     ebind (require (hasRole A (r_access r) FOUNDATION_MANAGER sender) ''must have role FOUNDATION_MANAGER '') (\<lambda>_.
     ebind (require (newStatus \<noteq> NotSet) ''invalid status'') (\<lambda>_.
     let data = p_productionData (w_producer st) in
     ebind (if newStatus = Active \<and> dr_trustedRequests (w_data st) uniqueId = Bytes0 then
              ebind (registerTrustedDataRequest data (w_data st) (w_oracle st) self uniqueId) (\<lambda>(d, orc).
              Inr (st\<lparr>w_data := d, w_oracle := orc\<rparr>))
            else Inr st) (\<lambda>st.
     ebind (if newStatus = Deactive \<and> dr_trustedRequests (w_data st) uniqueId \<noteq> Bytes0 then
              ebind (cancelTrustedDataRequest data (w_data st) (w_oracle st) self uniqueId) (\<lambda>d.
              Inr (st\<lparr>w_data := d\<rparr>))
            else Inr st) (\<lambda>st.
     Inr (st\<lparr>w_producerStatus := (w_producerStatus st)(uniqueId := newStatus)\<rparr>))))))"

definition Producer_getProducer :: "wells \<Rightarrow> bytes32 \<Rightarrow> producer_status \<times> producer_core" where
  "Producer_getProducer st uniqueId =
     (if w_producerStatus st uniqueId = NotSet then (NotSet, empty_core)
      else (w_producerStatus st uniqueId, w_producers st uniqueId))"

definition Producer_updateProdcuer :: "wells \<Rightarrow> addr \<Rightarrow> bytes32 \<Rightarrow> producer_core \<Rightarrow> wells fallible" where
  "Producer_updateProdcuer st sender uniqueId p =
     (let curr = snd (Producer_getProducer st uniqueId) in
      ebind (require (pc_owner curr = pc_owner p) ''owner change not allowd'') (\<lambda>_.
      ebind (require (pc_owner curr = sender) ''only owner can update'') (\<lambda>_.
      Inr (st\<lparr>w_producers := (w_producers st)(uniqueId := p),
             w_producerStatus := (w_producerStatus st)(uniqueId := NotSet)\<rparr>))))"

text \<open>\<open>link\<close> changes nothing; its event carries the ratios and nicknames.\<close>

definition Producer_link :: "wells \<Rightarrow> bytes32 list \<Rightarrow> bytes32 \<Rightarrow> (nat list \<times> string list) fallible" where
  "Producer_link st uniqueIds dappId =
     ebind (require (0 < length uniqueIds) ''at least 1 uniqueId is required'') (\<lambda>_.
     ebind (require (p_dapps (w_producer st) dappId \<noteq> 0) ''dapp with this id not found'') (\<lambda>_.
     efold (\<lambda>(ratios, nicknames) uniqueId.
         let (status, p) = Producer_getProducer st uniqueId; payee = p_dapps (w_producer st) dappId in
         ebind (require (status = Active) ''producer not active'') (\<lambda>_.
         ebind (require (Share_isHolder (w_share st) uniqueId payee) ''dapp's payee must be producer's holder'') (\<lambda>_.
         Inr (ratios @ [h_ratio (sh_holders (w_share st) uniqueId payee)], nicknames @ [pc_nickname p]))))
       ([], []) uniqueIds))"

section \<open>The life of a well\<close>

text \<open>
  The calls that change a well: those of the producer contract, of the shares, of the request for the asset
  value, and requests of other accounts to the same oracle.
\<close>

datatype well_op =
    AddProducer bytes32 producer_core
  | SetProducerStatus addr bytes32 producer_status
  | UpdateProducer addr bytes32 producer_core
  | ShareCall share_op
  | RegisterAssetValue
  | OtherRequest addr addr string nat

fun well_exec ::
    "'ac oz_access \<Rightarrow> (addr \<Rightarrow> 'ac roles fallible) \<Rightarrow> producer_kind \<Rightarrow> addr \<Rightarrow> well_op \<Rightarrow> wells \<Rightarrow> wells fallible" where
  "well_exec A R kind self (AddProducer u p) st = Producer_addProducer kind st u p"
| "well_exec A R kind self (SetProducerStatus s u x) st = Producer_setProducerStatus A R self st s u x"
| "well_exec A R kind self (UpdateProducer s u p) st = Producer_updateProdcuer st s u p"
| "well_exec A R kind self (ShareCall op) st =
     (case op of AddOwner u a \<Rightarrow> Inl ''internal''
      | _ \<Rightarrow> ebind (share_exec op (w_share st)) (\<lambda>sh. Inr (st\<lparr>w_share := sh\<rparr>)))"
| "well_exec A R kind self RegisterAssetValue st =
     ebind (registerAssetValueRequest (p_productionData (w_producer st)) (w_data st) (w_oracle st)) (\<lambda>(d, orc).
     Inr (st\<lparr>w_data := d, w_oracle := orc\<rparr>))"
| "well_exec A R kind self (OtherRequest sender cb f n) st =
     ebind (require (sender \<noteq> p_productionData (w_producer st)) ''the data contract makes its own requests'') (\<lambda>_.
     ebind (Oracle_createOracleRequest (w_oracle st) sender cb f n) (\<lambda>(orc, i). Inr (st\<lparr>w_oracle := orc\<rparr>)))"

text \<open>The zero address has no key and makes no calls.\<close>

fun fromAccount :: "well_op \<Rightarrow> bool" where
  "fromAccount (UpdateProducer s u p) \<longleftrightarrow> s \<noteq> 0"
| "fromAccount _ \<longleftrightarrow> True"

definition fresh_wells :: "addr \<Rightarrow> wells \<Rightarrow> bool" where
  "fresh_wells self st \<longleftrightarrow> w_share st = empty_share \<and> w_producers st = (\<lambda>_. empty_core) \<and>
     w_producerStatus st = (\<lambda>_. NotSet) \<and> dr_producer (w_data st) = self \<and> dr_nonce (w_data st) = 0 \<and>
     dr_assetRequest (w_data st) = Bytes0 \<and> dr_trustedRequests (w_data st) = (\<lambda>_. Bytes0) \<and>
     requests_ok (p_productionData (w_producer st)) (w_data st) (w_oracle st)"

inductive well_reachable ::
    "'ac oz_access \<Rightarrow> (addr \<Rightarrow> 'ac roles fallible) \<Rightarrow> producer_kind \<Rightarrow> addr \<Rightarrow> wells \<Rightarrow> bool"
  for A R kind self where
  start: "fresh_wells self st \<Longrightarrow> well_reachable A R kind self st"
| call: "well_reachable A R kind self st \<Longrightarrow> fromAccount op \<Longrightarrow> well_exec A R kind self op st = Inr st' \<Longrightarrow> well_reachable A R kind self st'"

text \<open>What every reachable state keeps.\<close>

definition wells_ok :: "addr \<Rightarrow> wells \<Rightarrow> bool" where
  "wells_ok self st \<longleftrightarrow> dr_producer (w_data st) = self \<and>
     requests_ok (p_productionData (w_producer st)) (w_data st) (w_oracle st) \<and>
     (\<forall>u. (w_producerStatus st u = Active \<longrightarrow> dr_trustedRequests (w_data st) u \<noteq> Bytes0) \<and>
          (w_producerStatus st u = Deactive \<longrightarrow> dr_trustedRequests (w_data st) u = Bytes0)) \<and>
     (\<forall>u. sh_owners (w_share st) u = pc_owner (w_producers st u))"

lemma share_exec_owners:
  assumes "share_exec op st = Inr st'" and "\<And>u a. op \<noteq> AddOwner u a"
  shows "sh_owners st' = sh_owners st"
proof (cases op)
  case (SetHolders s u as rs)
  with assms(1) have "Share_setHolders st s u as rs = Inr st'" by simp
  then show ?thesis
    by (rule setHolders_inv [where P = "\<lambda>t. sh_owners t = sh_owners st"]) (simp_all add: setHolder_well(4))
next
  case (SplitHolder s u t r)
  with assms(1) show ?thesis
    by (auto simp: Share_splitHolder_def ebind_Inr_iff Let_def putHolder_def pushAddress_def split: if_splits)
next
  case (DeleteHolder s u a)
  with assms(1) show ?thesis by (auto dest: deleteHolder_well(5))
qed (use assms(2) in blast)

lemma setProducerStatus_ok:
  assumes "wells_ok self st" and "Producer_setProducerStatus A R self st s u x = Inr st'"
  shows "wells_ok self st' \<and> w_producerStatus st' = (w_producerStatus st)(u := x) \<and>
    (dr_trustedRequests (w_data st') u \<noteq> Bytes0 \<longleftrightarrow> x = Active)"
proof -
  let ?data = "p_productionData (w_producer st)" and ?req = "dr_trustedRequests (w_data st) u"
  have ok: "requests_ok ?data (w_data st) (w_oracle st)" and self: "dr_producer (w_data st) = self"
    using assms(1) by (auto simp: wells_ok_def)
  consider (register) "x = Active" "?req = Bytes0" | (cancel) "x = Deactive" "?req \<noteq> Bytes0"
    | (stay) "x = Active \<and> ?req \<noteq> Bytes0 \<or> x = Deactive \<and> ?req = Bytes0" | (unset) "x = NotSet"
    by (cases x) auto
  then show ?thesis
  proof cases
    case register
    with assms(2) have "dr_nonce (w_data st) + 1 < 2 ^ 256"
      by (auto simp: Producer_setProducerStatus_def registerTrustedDataRequest_def nextNonce_def ebind_Inr_iff Let_def)
    from registerTrustedDataRequest_eq [OF ok this register(2)] assms register show ?thesis
      by (auto simp: Producer_setProducerStatus_def ebind_Inr_iff self wells_ok_def split: if_splits)
  next
    case cancel
    from cancelTrustedDataRequest_eq [OF ok cancel(2)] assms cancel show ?thesis
      by (auto simp: Producer_setProducerStatus_def ebind_Inr_iff self wells_ok_def split: if_splits)
  next
    case stay
    with assms show ?thesis by (auto simp: Producer_setProducerStatus_def ebind_Inr_iff wells_ok_def split: if_splits)
  next
    case unset
    with assms(2) show ?thesis by (auto simp: Producer_setProducerStatus_def ebind_Inr_iff)
  qed
qed

lemma reachable_wells_ok: "well_reachable A R kind self st \<Longrightarrow> wells_ok self st"
proof (induction rule: well_reachable.induct)
  case (start st)
  then show ?case by (auto simp: fresh_wells_def wells_ok_def empty_share_def empty_core_def)
next
  case (call st op st')
  show ?case
  proof (cases op)
    case (AddProducer u p)
    with call show ?thesis
      by (auto simp: wells_ok_def Producer_addProducer_def Producer_beforeAdd_def Share_setOwner_def ebind_Inr_iff
          split: if_splits)
  next
    case (SetProducerStatus s u x)
    with call setProducerStatus_ok show ?thesis by fastforce
  next
    case (UpdateProducer s u p)
    with call show ?thesis
      by (auto simp: wells_ok_def Producer_updateProdcuer_def Producer_getProducer_def empty_core_def ebind_Inr_iff Let_def
          split: if_splits)
  next
    case (ShareCall sop)
    with call.hyps obtain sh where sh: "share_exec sop (w_share st) = Inr sh" "st' = st\<lparr>w_share := sh\<rparr>"
      and "\<And>u a. sop \<noteq> AddOwner u a"
      by (cases sop) (auto simp: ebind_Inr_iff)
    with call.IH share_exec_owners [OF sh(1)] show ?thesis by (simp add: wells_ok_def)
  next
    case RegisterAssetValue
    with call.hyps obtain d orc where
      reg: "registerAssetValueRequest (p_productionData (w_producer st)) (w_data st) (w_oracle st) = Inr (d, orc)"
      and st': "st' = st\<lparr>w_data := d, w_oracle := orc\<rparr>"
      by (auto simp: ebind_Inr_iff)
    have "dr_trustedRequests d = dr_trustedRequests (w_data st)" "dr_producer d = dr_producer (w_data st)"
      using reg by (auto simp: registerAssetValueRequest_def nextNonce_def ebind_Inr_iff)
    with call.IH registerAssetValueRequest_ok(1) [OF _ reg] show ?thesis by (simp add: st' wells_ok_def)
  next
    case (OtherRequest s cb f n)
    with call show ?thesis by (auto simp: ebind_Inr_iff wells_ok_def intro: other_request_ok)
  qed
qed

section \<open>Properties\<close>

text \<open>C39: In every reachable state of a producer contract with its data contract and oracle, a foundation manager
  can switch any well on and off, as long as the nonce of the requests does not run over: the call succeeds,
  the well has the new status and a data request exactly when it is active, and no other well is touched.\<close>

theorem manager_switches_wells:
  assumes "well_reachable A R kind self st" and "R (p_roles (w_producer st)) = Inr r"
    and "hasRole A (r_access r) FOUNDATION_MANAGER s" and "x \<noteq> NotSet" and "dr_nonce (w_data st) + 1 < 2 ^ 256"
  shows "case Producer_setProducerStatus A R self st s u x of Inl e \<Rightarrow> False | Inr st' \<Rightarrow>
    w_producerStatus st' = (w_producerStatus st)(u := x) \<and>
    (dr_trustedRequests (w_data st') u \<noteq> Bytes0 \<longleftrightarrow> x = Active) \<and>
    (\<forall>v. v \<noteq> u \<longrightarrow> dr_trustedRequests (w_data st') v = dr_trustedRequests (w_data st) v)"
proof -
  have ok: "wells_ok self st" by (rule reachable_wells_ok [OF assms(1)])
  then have req: "requests_ok (p_productionData (w_producer st)) (w_data st) (w_oracle st)"
    and self: "dr_producer (w_data st) = self"
    by (auto simp: wells_ok_def)
  note reg = registerTrustedDataRequest_eq [OF req assms(5), of u, unfolded self]
    and cancel = cancelTrustedDataRequest_eq [OF req, of u, unfolded self]
  have "\<exists>st'. Producer_setProducerStatus A R self st s u x = Inr st' \<and>
    (\<forall>v. v \<noteq> u \<longrightarrow> dr_trustedRequests (w_data st') v = dr_trustedRequests (w_data st) v)"
    using reg cancel assms(2-4)
    by (cases x; cases "dr_trustedRequests (w_data st) u = Bytes0") (auto simp: Producer_setProducerStatus_def)
  with setProducerStatus_ok [OF ok] show ?thesis by fastforce
qed

text \<open>In every reachable state the owner of a well is the owner of its shares, a well is active only with a data
  request the oracle knows, and a deactivated well has none; the owner of a well never changes.\<close>

theorem wells_consistent:
  assumes "well_reachable A R kind self st" and "fromAccount op"
  shows "(w_producerStatus st u = Active \<longrightarrow>
      o_commitments (w_oracle st) (dr_trustedRequests (w_data st) u) =
        commitmentOf (p_productionData (w_producer st)) receiveTrustedProductionData) \<and>
    (w_producerStatus st u = Deactive \<longrightarrow> dr_trustedRequests (w_data st) u = Bytes0) \<and>
    sh_owners (w_share st) u = pc_owner (w_producers st u) \<and>
    (pc_owner (w_producers st u) \<noteq> 0 \<longrightarrow> (case well_exec A R kind self op st of
       Inl e \<Rightarrow> True | Inr st' \<Rightarrow> pc_owner (w_producers st' u) = pc_owner (w_producers st u)))"
proof -
  have ok: "wells_ok self st" by (rule reachable_wells_ok [OF assms(1)])
  have "pc_owner (w_producers st' u) = pc_owner (w_producers st u)"
    if "well_exec A R kind self op st = Inr st'" and "pc_owner (w_producers st u) \<noteq> 0" for st'
    using that assms(2)
    by (cases op)
      (auto simp: Producer_addProducer_def Producer_beforeAdd_def Producer_setProducerStatus_def Producer_updateProdcuer_def
        Producer_getProducer_def empty_core_def ebind_Inr_iff Let_def split: if_splits share_op.splits)
  with ok show ?thesis by (auto simp: wells_ok_def requests_ok_def split: sum.split)
qed

text \<open>A change by the owner suspends the well: until a manager sets its status again it cannot be changed or linked,
  by anyone, while its data request goes on.\<close>

theorem update_suspends:
  assumes "Producer_updateProdcuer st s u p = Inr st'" and "s \<noteq> 0"
  shows "w_producerStatus st' u = NotSet" and "w_data st' = w_data st"
    and "s' \<noteq> 0 \<Longrightarrow> \<exists>e. Producer_updateProdcuer st' s' u p' = Inl e"
    and "u \<in> set us \<Longrightarrow> \<exists>e. Producer_link st' us i = Inl e"
proof -
  show set: "w_producerStatus st' u = NotSet" and "w_data st' = w_data st"
    using assms by (auto simp: Producer_updateProdcuer_def ebind_Inr_iff Let_def)
  show "\<exists>e. Producer_updateProdcuer st' s' u p' = Inl e" if "s' \<noteq> 0"
    using that by (cases "Producer_updateProdcuer st' s' u p'")
      (auto simp: Producer_updateProdcuer_def Producer_getProducer_def set empty_core_def ebind_Inr_iff Let_def)
  show "\<exists>e. Producer_link st' us i = Inl e" if "u \<in> set us"
  proof (cases "Producer_link st' us i")
    case (Inr x)
    let ?f = "\<lambda>(ratios, nicknames) uniqueId.
         let (status, p) = Producer_getProducer st' uniqueId; payee = p_dapps (w_producer st') i in
         ebind (require (status = Active) ''producer not active'') (\<lambda>_.
         ebind (require (Share_isHolder (w_share st') uniqueId payee) ''dapp's payee must be producer's holder'') (\<lambda>_.
         Inr (ratios @ [h_ratio (sh_holders (w_share st') uniqueId payee)], nicknames @ [pc_nickname p])))"
    have "efold ?f ([], []) us = Inr x" using Inr by (simp add: Producer_link_def ebind_Inr_iff)
    moreover have "u \<notin> set us" if "efold ?f y us = Inr x" for y us
      using that by (induction us arbitrary: y) (auto simp: ebind_Inr_iff Producer_getProducer_def set Let_def split: if_splits)
    ultimately show ?thesis using that by blast
  qed blast
qed

text \<open>Anyone may add a well and name any owner.\<close>

lemma addProducer_open:
  assumes "pc_owner (w_producers st u) = 0" and "sh_owners (w_share st) u = 0" and "pc_owner p \<noteq> 0"
    and "pc_nickname p \<noteq> ''''" and "kind \<noteq> OilProducer"
  shows "\<exists>st'. Producer_addProducer kind st u p = Inr st'"
  using assms by (simp add: Producer_addProducer_def Producer_beforeAdd_def Share_setOwner_def)

section \<open>An example\<close>

definition demo_wells :: wells where
  "demo_wells = \<lparr>w_producer = \<lparr>p_initialized = True, p_mulSig = 1, p_roles = 2, p_asset_type = ''ETH'',
       p_productionData = 9, p_dapps = (\<lambda>_. 0)\<rparr>,
     w_share = empty_share, w_producers = (\<lambda>_. empty_core), w_producerStatus = (\<lambda>_. NotSet),
     w_data = \<lparr>dr_producer = 8, dr_nonce = 0, dr_assetRequest = Bytes0, dr_trustedRequests = (\<lambda>_. Bytes0)\<rparr>,
     w_oracle = demo_oracle\<rparr>"

definition demo_roles_at :: "addr \<Rightarrow> acl roles fallible" where
  "demo_roles_at a = Inr \<lparr>r_initialized = True, r_owner = 1, r_mulSig = 2,
     r_access = acl_add acl_empty FOUNDATION_MANAGER 7\<rparr>"

lemma demo_wells_reachable: "well_reachable reference_access demo_roles_at EthProducer 8 demo_wells"
  by (rule well_reachable.start)
    (simp add: fresh_wells_def demo_wells_def requests_ok_def demo_oracle_def)

lemma manager_switches_wells_witness:
  "case Producer_setProducerStatus reference_access demo_roles_at 8 demo_wells 7 demo_well Active of
     Inl e \<Rightarrow> False | Inr st' \<Rightarrow> w_producerStatus st' demo_well = Active"
proof -
  obtain r where r: "demo_roles_at (p_roles (w_producer demo_wells)) = Inr r"
    and "hasRole reference_access (r_access r) FOUNDATION_MANAGER 7"
    by (simp add: demo_roles_at_def reference_defs)
  moreover have "dr_nonce (w_data demo_wells) + 1 < 2 ^ 256" by (simp add: demo_wells_def)
  ultimately show ?thesis
    using manager_switches_wells [OF demo_wells_reachable r, of 7 Active demo_well] by (auto split: sum.splits)
qed

lemma wells_consistent_witness:
  "sh_owners (w_share demo_wells) demo_well = pc_owner (w_producers demo_wells demo_well)"
  using wells_consistent [OF demo_wells_reachable, of RegisterAssetValue demo_well] by simp

end
