(* ===== verification/TCash.thy ===== *)
theory TCash
  imports Oracle
begin

text \<open>
  \<open>contracts/TCash/TCash.sol\<close>: the token that loans pay out and auctions are paid in, with the amounts that
  bids lock. \<open>ERC20Upgradeable\<close> is not part of the repository: its entry points are the fields of a record
  over its own storage type \<open>'tk\<close>, and what its documentation promises are the laws of a locale, which a
  reference instance over a table of balances satisfies. Roles and oracle are reached through resolvers.
\<close>

section \<open>The token library\<close>

record 'tk erc20 =
  balanceOf :: "'tk \<Rightarrow> addr \<Rightarrow> nat"
  erc_mint :: "'tk \<Rightarrow> addr \<Rightarrow> nat \<Rightarrow> 'tk fallible"
  erc_burn :: "'tk \<Rightarrow> addr \<Rightarrow> nat \<Rightarrow> 'tk fallible"
  erc_transfer :: "'tk \<Rightarrow> addr \<Rightarrow> addr \<Rightarrow> nat \<Rightarrow> 'tk fallible"
  erc_transferFrom :: "'tk \<Rightarrow> addr \<Rightarrow> addr \<Rightarrow> addr \<Rightarrow> nat \<Rightarrow> 'tk fallible"

text \<open>The laws speak of the balances; \<open>transferFrom\<close> takes the spender first and may also fail for want of allowance.\<close>

locale erc20_token =
  fixes T :: "'tk erc20"
  assumes mint_allowed: "a \<noteq> 0 \<Longrightarrow> (\<Sum>b\<in>UNIV. balanceOf T s b) + n < 2 ^ 256 \<Longrightarrow> \<exists>t. erc_mint T s a n = Inr t"
    and mint_balance: "erc_mint T s a n = Inr t \<Longrightarrow>
          balanceOf T t b = (if b = a then balanceOf T s b + n else balanceOf T s b)"
    and burn_allowed: "a \<noteq> 0 \<Longrightarrow> n \<le> balanceOf T s a \<Longrightarrow> \<exists>t. erc_burn T s a n = Inr t"
    and burn_balance: "erc_burn T s a n = Inr t \<Longrightarrow> n \<le> balanceOf T s a \<and>
          balanceOf T t b = (if b = a then balanceOf T s b - n else balanceOf T s b)"
    and transfer_balance: "erc_transfer T s a c n = Inr t \<Longrightarrow> n \<le> balanceOf T s a \<and>
          balanceOf T t b = (if a = c then balanceOf T s b else if b = a then balanceOf T s b - n
            else if b = c then balanceOf T s b + n else balanceOf T s b)"
    and transferFrom_balance: "erc_transferFrom T s p a c n = Inr t \<Longrightarrow> n \<le> balanceOf T s a \<and>
          balanceOf T t b = (if a = c then balanceOf T s b else if b = a then balanceOf T s b - n
            else if b = c then balanceOf T s b + n else balanceOf T s b)"

section \<open>The contract\<close>

record 'tk tcash =
  tc_initialized :: bool
  tc_owner :: addr
  tc_roles :: addr
  tc_oracle :: addr
  tc_token :: 'tk
  tc_lockedBalances :: "addr \<Rightarrow> nat"
  tc_auction :: addr

definition TCash_initialize :: "'tk erc20 \<Rightarrow> 'tk tcash \<Rightarrow> addr \<Rightarrow> addr \<Rightarrow> 'tk tcash fallible" where
  "TCash_initialize T st sender initialReceiver =
     ebind (require (\<not> tc_initialized st) ''Initializable: contract is already initialized'') (\<lambda>_.
     ebind (erc_mint T (tc_token st) initialReceiver (1000000 * 10 ^ 18)) (\<lambda>token.
     Inr (st\<lparr>tc_initialized := True, tc_owner := sender, tc_token := token\<rparr>)))"

definition onlyOwner :: "addr \<Rightarrow> addr \<Rightarrow> unit fallible" where
  "onlyOwner owner sender = require (sender = owner) ''Ownable: caller is not the owner''"

definition TCash_setRoles :: "'tk tcash \<Rightarrow> addr \<Rightarrow> addr \<Rightarrow> 'tk tcash fallible" where
  "TCash_setRoles st sender roles = ebind (onlyOwner (tc_owner st) sender) (\<lambda>_. Inr (st\<lparr>tc_roles := roles\<rparr>))"

definition TCash_setOracle :: "'tk tcash \<Rightarrow> addr \<Rightarrow> addr \<Rightarrow> 'tk tcash fallible" where
  "TCash_setOracle st sender oracl = ebind (onlyOwner (tc_owner st) sender) (\<lambda>_. Inr (st\<lparr>tc_oracle := oracl\<rparr>))"

definition TCash_setAuctionContract :: "'tk tcash \<Rightarrow> addr \<Rightarrow> addr \<Rightarrow> 'tk tcash fallible" where
  "TCash_setAuctionContract st sender tcashAuction =
     ebind (onlyOwner (tc_owner st) sender) (\<lambda>_. Inr (st\<lparr>tc_auction := tcashAuction\<rparr>))"

text \<open>Locking for bids: the check is on the whole balance.\<close>

definition TCash_bidCost :: "'tk erc20 \<Rightarrow> 'tk tcash \<Rightarrow> addr \<Rightarrow> addr \<Rightarrow> nat \<Rightarrow> 'tk tcash fallible" where
  "TCash_bidCost T st sender user amount =
     ebind (require (sender = tc_auction st) ''Only auction contract can call'') (\<lambda>_.
     ebind (require (amount \<le> balanceOf T (tc_token st) user) ''Insufficient balance'') (\<lambda>_.
     ebind (checked 256 (tc_lockedBalances st user + amount)) (\<lambda>n.
     Inr (st\<lparr>tc_lockedBalances := (tc_lockedBalances st)(user := n)\<rparr>))))"

definition TCash_bidBack :: "'tk tcash \<Rightarrow> addr \<Rightarrow> addr \<Rightarrow> nat \<Rightarrow> 'tk tcash fallible" where
  "TCash_bidBack st sender user amount =
     ebind (require (sender = tc_auction st) ''Only auction contract can call'') (\<lambda>_.
     ebind (require (amount \<le> tc_lockedBalances st user) ''Insufficient locked balance'') (\<lambda>_.
     ebind (checked_sub (tc_lockedBalances st user) amount) (\<lambda>n.
     Inr (st\<lparr>tc_lockedBalances := (tc_lockedBalances st)(user := n)\<rparr>))))"

definition TCash_getLockedBalance :: "'tk tcash \<Rightarrow> addr \<Rightarrow> nat" where
  "TCash_getLockedBalance st user = tc_lockedBalances st user"

definition TCash_transferableBalanceOf :: "'tk erc20 \<Rightarrow> 'tk tcash \<Rightarrow> addr \<Rightarrow> nat fallible" where
  "TCash_transferableBalanceOf T st account = checked_sub (balanceOf T (tc_token st) account) (tc_lockedBalances st account)"

text \<open>The two guards of the functions that make and destroy tokens; an oracle that is not set is not asked.\<close>

definition roleGuard ::
    "'ac oz_access \<Rightarrow> (addr \<Rightarrow> 'ac roles fallible) \<Rightarrow> 'tk tcash \<Rightarrow> bytes32 \<Rightarrow> string \<Rightarrow> addr \<Rightarrow> unit fallible" where
  "roleGuard A rolesAt st role msg sender =
     ebind (require (tc_roles st \<noteq> 0) ''Roles not set'') (\<lambda>_.
     ebind (rolesAt (tc_roles st)) (\<lambda>r.
     require (hasRole A (r_access r) role sender) msg))"

definition mintGuard :: "(addr \<Rightarrow> oracle_state fallible) \<Rightarrow> 'tk tcash \<Rightarrow> unit fallible" where
  "mintGuard oracleAt st =
     (if tc_oracle st \<noteq> 0
      then ebind (oracleAt (tc_oracle st)) (\<lambda>orc. require (o_tcashMintStatus orc) ''TCash minting is currently disabled'')
      else Inr ())"

abbreviation set_token :: "'tk tcash \<Rightarrow> 'tk fallible \<Rightarrow> 'tk tcash fallible" where
  "set_token st r \<equiv> ebind r (\<lambda>token. Inr (st\<lparr>tc_token := token\<rparr>))"

definition TCash_mint ::
    "'tk erc20 \<Rightarrow> 'ac oz_access \<Rightarrow> (addr \<Rightarrow> 'ac roles fallible) \<Rightarrow> (addr \<Rightarrow> oracle_state fallible) \<Rightarrow>
      'tk tcash \<Rightarrow> addr \<Rightarrow> addr \<Rightarrow> nat \<Rightarrow> 'tk tcash fallible" where
  "TCash_mint T A rolesAt oracleAt st sender to amount =
     ebind (roleGuard A rolesAt st TCASH_MINTER ''Not authorized to mint'' sender) (\<lambda>_.
     ebind (mintGuard oracleAt st) (\<lambda>_.
     set_token st (erc_mint T (tc_token st) to amount)))"

definition TCash_burn :: "'tk erc20 \<Rightarrow> 'tk tcash \<Rightarrow> addr \<Rightarrow> nat \<Rightarrow> 'tk tcash fallible" where
  "TCash_burn T st sender amount = set_token st (erc_burn T (tc_token st) sender amount)"

definition TCash_burnFrom ::
    "'tk erc20 \<Rightarrow> 'ac oz_access \<Rightarrow> (addr \<Rightarrow> 'ac roles fallible) \<Rightarrow> 'tk tcash \<Rightarrow> addr \<Rightarrow> addr \<Rightarrow> nat \<Rightarrow> 'tk tcash fallible" where
  "TCash_burnFrom T A rolesAt st sender account amount =
     ebind (roleGuard A rolesAt st TCASH_BURNER ''Not authorized to burn'' sender) (\<lambda>_.
     ebind (require (0 < amount) ''Amount must be greater than zero'') (\<lambda>_.
     ebind (require (amount \<le> balanceOf T (tc_token st) account) ''Insufficient balance'') (\<lambda>_.
     set_token st (erc_burn T (tc_token st) account amount))))"

definition TCash_addBalance ::
    "'tk erc20 \<Rightarrow> 'ac oz_access \<Rightarrow> (addr \<Rightarrow> 'ac roles fallible) \<Rightarrow> (addr \<Rightarrow> oracle_state fallible) \<Rightarrow>
      'tk tcash \<Rightarrow> addr \<Rightarrow> addr \<Rightarrow> nat \<Rightarrow> 'tk tcash fallible" where
  "TCash_addBalance T A rolesAt oracleAt st sender account amount =
     ebind (roleGuard A rolesAt st TCASH_MINTER ''Not authorized to add balance'' sender) (\<lambda>_.
     ebind (mintGuard oracleAt st) (\<lambda>_.
     set_token st (erc_mint T (tc_token st) account amount)))"

definition TCash_reduceBalance ::
    "'tk erc20 \<Rightarrow> 'ac oz_access \<Rightarrow> (addr \<Rightarrow> 'ac roles fallible) \<Rightarrow> 'tk tcash \<Rightarrow> addr \<Rightarrow> addr \<Rightarrow> nat \<Rightarrow> 'tk tcash fallible" where
  "TCash_reduceBalance T A rolesAt st sender account amount =
     ebind (roleGuard A rolesAt st TCASH_BURNER ''Not authorized to reduce balance'' sender) (\<lambda>_.
     ebind (require (0 < amount) ''Amount must be greater than zero'') (\<lambda>_.
     ebind (require (amount \<le> balanceOf T (tc_token st) account) ''Insufficient balance'') (\<lambda>_.
     set_token st (erc_burn T (tc_token st) account amount))))"

definition TCash_transfer :: "'tk erc20 \<Rightarrow> 'tk tcash \<Rightarrow> addr \<Rightarrow> addr \<Rightarrow> nat \<Rightarrow> 'tk tcash fallible" where
  "TCash_transfer T st sender to amount =
     ebind (TCash_transferableBalanceOf T st sender) (\<lambda>unlocked.
     ebind (require (amount \<le> unlocked) ''Transfer amount exceeds unlocked balance'') (\<lambda>_.
     set_token st (erc_transfer T (tc_token st) sender to amount)))"

definition TCash_transferFrom :: "'tk erc20 \<Rightarrow> 'tk tcash \<Rightarrow> addr \<Rightarrow> addr \<Rightarrow> addr \<Rightarrow> nat \<Rightarrow> 'tk tcash fallible" where
  "TCash_transferFrom T st sender payer to amount =
     ebind (TCash_transferableBalanceOf T st payer) (\<lambda>unlocked.
     ebind (require (amount \<le> unlocked) ''Transfer amount exceeds unlocked balance'') (\<lambda>_.
     set_token st (erc_transferFrom T (tc_token st) sender payer to amount)))"

section \<open>Locks\<close>

lemma bidCost_Inr_iff:
  "TCash_bidCost T st s u n = Inr st' \<longleftrightarrow> s = tc_auction st \<and> n \<le> balanceOf T (tc_token st) u \<and>
     tc_lockedBalances st u + n < 2 ^ 256 \<and>
     st' = st\<lparr>tc_lockedBalances := (tc_lockedBalances st)(u := tc_lockedBalances st u + n)\<rparr>"
  by (auto simp: TCash_bidCost_def ebind_Inr_iff simp del: power_numeral)

lemma bidBack_Inr_iff:
  "TCash_bidBack st s u n = Inr st' \<longleftrightarrow> s = tc_auction st \<and> n \<le> tc_lockedBalances st u \<and>
     st' = st\<lparr>tc_lockedBalances := (tc_lockedBalances st)(u := tc_lockedBalances st u - n)\<rparr>"
  by (auto simp: TCash_bidBack_def checked_sub_Inr_iff ebind_Inr_iff)

text \<open>Everything except the two locking calls leaves the locks, and only its owner changes the configuration.\<close>

lemma token_calls_keep_locks:
  "TCash_mint T A R Q st s a n = Inr st' \<Longrightarrow> st' = st\<lparr>tc_token := tc_token st'\<rparr>"
  "TCash_addBalance T A R Q st s a n = Inr st' \<Longrightarrow> st' = st\<lparr>tc_token := tc_token st'\<rparr>"
  "TCash_burn T st s n = Inr st' \<Longrightarrow> st' = st\<lparr>tc_token := tc_token st'\<rparr>"
  "TCash_burnFrom T A R st s a n = Inr st' \<Longrightarrow> st' = st\<lparr>tc_token := tc_token st'\<rparr>"
  "TCash_reduceBalance T A R st s a n = Inr st' \<Longrightarrow> st' = st\<lparr>tc_token := tc_token st'\<rparr>"
  "TCash_transfer T st s a n = Inr st' \<Longrightarrow> st' = st\<lparr>tc_token := tc_token st'\<rparr>"
  "TCash_transferFrom T st s a b n = Inr st' \<Longrightarrow> st' = st\<lparr>tc_token := tc_token st'\<rparr>"
  by (auto simp: TCash_mint_def TCash_addBalance_def TCash_burn_def TCash_burnFrom_def TCash_reduceBalance_def
      TCash_transfer_def TCash_transferFrom_def ebind_Inr_iff)

text \<open>Minting stops with the oracle's switch.\<close>

lemma mint_needs_status:
  assumes "TCash_mint T A R Q st s a n = Inr st' \<or> TCash_addBalance T A R Q st s a n = Inr st'"
    and "tc_oracle st \<noteq> 0" and "Q (tc_oracle st) = Inr orc"
  shows "o_tcashMintStatus orc"
  using assms by (auto simp: TCash_mint_def TCash_addBalance_def mintGuard_def ebind_Inr_iff)

text \<open>A holder with more locked than he owns cannot transfer, not even nothing.\<close>

lemma transfers_panic:
  assumes "balanceOf T (tc_token st) a < tc_lockedBalances st a"
  shows "TCash_transfer T st a b n = Inl ''Panic(0x11)''" and "TCash_transferFrom T st s a b n = Inl ''Panic(0x11)''"
  using assms by (simp_all add: TCash_transfer_def TCash_transferFrom_def TCash_transferableBalanceOf_def checked_sub_def)

section \<open>The reference instance\<close>

type_synonym ledger = "addr \<Rightarrow> nat"

definition ledger_move :: "ledger \<Rightarrow> addr \<Rightarrow> addr \<Rightarrow> nat \<Rightarrow> ledger fallible" where
  "ledger_move s a b n =
     (if n \<le> s a then (let t = s(a := s a - n) in Inr (t(b := t b + n))) else Inl ''ERC20: transfer amount exceeds balance'')"

definition reference_token :: "ledger erc20" where
  "reference_token =
     \<lparr>balanceOf = (\<lambda>s. s),
      erc_mint = (\<lambda>s a n. if a = 0 then Inl ''ERC20: mint to the zero address'' else Inr (s(a := s a + n))),
      erc_burn = (\<lambda>s a n. if n \<le> s a then Inr (s(a := s a - n)) else Inl ''ERC20: burn amount exceeds balance''),
      erc_transfer = ledger_move, erc_transferFrom = (\<lambda>s p. ledger_move s)\<rparr>"

interpretation ledger: erc20_token reference_token
  by unfold_locales (auto simp: reference_token_def ledger_move_def Let_def split: if_splits)

end
