(* ===== verification/PlatformContracts.thy ===== *)
theory PlatformContracts
  imports Roles
begin

text \<open>
  What the initialisers of the remaining platform contracts store: the DAO, the production data contracts, the
  TAT token and its manager, the wrapped tokens and the cross-chain bridge; of the other functions only the mint records
  of TAT are modelled, which loans depend on. The role table of a wrapped token is the parameter of \<open>AccessControl\<close>.
\<close>

text \<open>\<open>contracts/Governance/DAO/DAO.sol\<close> and its governor.\<close>

record dao =
  da_initialized :: bool
  da_owner :: addr
  da_name :: string
  da_minDelay :: nat
  da_deployedBlockTime :: nat
  da_blockReward :: nat
  da_blockRatio :: nat
  da_votingPeriod :: nat

definition DAO_initialize :: "nat \<Rightarrow> dao \<Rightarrow> addr \<Rightarrow> string \<Rightarrow> nat \<Rightarrow> nat \<Rightarrow> dao fallible" where
  "DAO_initialize blockNumber st sender name minTimeDelay votingPeriod =
     ebind (require (\<not> da_initialized st) ''Initializable: contract is already initialized'') (\<lambda>_.
     Inr (st\<lparr>da_initialized := True, da_owner := sender, da_name := name, da_minDelay := minTimeDelay,
            da_deployedBlockTime := blockNumber, da_blockReward := 10 * 10 ^ 18, da_blockRatio := 5 * 10000,
            da_votingPeriod := votingPeriod\<rparr>))"

text \<open>\<open>OilData\<close>, \<open>GasData\<close>, \<open>EthData\<close> and \<open>BtcData\<close> share the initialiser of \<open>contracts/Treasure/ProductionData.sol\<close>.\<close>

record production_data =
  pd_initialized :: bool
  pd_kind :: string
  pd_oracle :: addr
  pd_roles :: addr
  pd_parameterInfo :: addr
  pd_producer :: addr
  pd_tat :: addr

definition ProductionData_initialize ::
    "production_data \<Rightarrow> string \<Rightarrow> addr \<Rightarrow> addr \<Rightarrow> addr \<Rightarrow> addr \<Rightarrow> addr \<Rightarrow> production_data fallible" where
  "ProductionData_initialize st treasureKind oracleContract rolesContract parameterInfoContract producerContract
       tatContract =
     ebind (require (\<not> pd_initialized st) ''Initializable: contract is already initialized'') (\<lambda>_.
     Inr (st\<lparr>pd_initialized := True, pd_oracle := oracleContract, pd_kind := treasureKind, pd_roles := rolesContract,
            pd_parameterInfo := parameterInfoContract, pd_producer := producerContract, pd_tat := tatContract\<rparr>))"

text \<open>\<open>contracts/TAT/TAT.sol\<close> and \<open>contracts/TCash/TATManager.sol\<close>.\<close>

record tat_record =
  tr_months :: "nat list"
  tr_amounts :: "nat list"
  tr_currentIndex :: nat

record tat =
  tt_initialized :: bool
  tt_owner :: addr
  tt_name :: string
  tt_symbol :: string
  tt_governance :: addr
  tt_records :: "addr \<Rightarrow> tat_record"

definition TAT_initialize :: "tat \<Rightarrow> addr \<Rightarrow> string \<Rightarrow> string \<Rightarrow> addr \<Rightarrow> tat fallible" where
  "TAT_initialize st sender name symbol governanceContract =
     ebind (require (\<not> tt_initialized st) ''Initializable: contract is already initialized'') (\<lambda>_.
     Inr (st\<lparr>tt_initialized := True, tt_owner := sender, tt_name := name, tt_symbol := symbol,
            tt_governance := governanceContract\<rparr>))"

text \<open>The last three mints of an account, in a ring of three slots. Recording one is open to everybody.\<close>

definition getCurrentYearMonth :: "nat \<Rightarrow> nat" where
  "getCurrentYearMonth timestamp =
     (let secondsInDay = 86400; secondsInYear = secondsInDay * 365;
          year = 1970 + timestamp div secondsInYear;
          month = (timestamp mod secondsInYear div secondsInDay * 12) div 365 + 1
      in year * 100 + (if 12 < month then 12 else month))"

definition TAT_setTATRecord :: "nat \<Rightarrow> tat \<Rightarrow> addr \<Rightarrow> nat \<Rightarrow> tat fallible" where
  "TAT_setTATRecord now st account amount =
     ebind (require (account \<noteq> 0) ''User address cannot be zero'') (\<lambda>_.
     ebind (require (0 < amount) ''Mint amount must be greater than 0'') (\<lambda>_.
     let r = tt_records st account;
         i = (if tr_months r = [0, 0, 0] then 0 else (tr_currentIndex r + 1) mod 3) in
     Inr (st\<lparr>tt_records := (tt_records st)(account :=
       \<lparr>tr_months = (tr_months r)[i := getCurrentYearMonth now], tr_amounts = (tr_amounts r)[i := amount],
        tr_currentIndex = i\<rparr>)\<rparr>)))"

definition TAT_getTATRecord :: "tat \<Rightarrow> addr \<Rightarrow> nat list \<times> nat list" where
  "TAT_getTATRecord st account =
     (let r = tt_records st account; valid = filter (\<lambda>(m, a). m \<noteq> 0) (zip (tr_months r) (tr_amounts r))
      in (map fst valid, map snd valid))"

record tat_manager =
  tm_initialized :: bool
  tm_owner :: addr
  tm_roles :: addr

definition TATManager_initialize :: "tat_manager \<Rightarrow> addr \<Rightarrow> addr \<Rightarrow> tat_manager fallible" where
  "TATManager_initialize st sender roles =
     ebind (require (\<not> tm_initialized st) ''Initializable: contract is already initialized'') (\<lambda>_.
     Inr (st\<lparr>tm_initialized := True, tm_owner := sender, tm_roles := roles\<rparr>))"

text \<open>\<open>contracts/WTCASH/WTCASH.sol\<close> and \<open>contracts/WUNIT/WUNIT.sol\<close> have the same initialiser.\<close>

record 'ac wrapped =
  wr_initialized :: bool
  wr_access :: 'ac

definition OPERATOR_ROLE :: bytes32 where
  "OPERATOR_ROLE = Keccak ''OPERATOR_ROLE''"

definition Wrapped_initialize :: "'ac oz_access \<Rightarrow> 'ac wrapped \<Rightarrow> addr \<Rightarrow> addr list \<Rightarrow> 'ac wrapped fallible" where
  "Wrapped_initialize A st sender operators =
     ebind (require (\<not> wr_initialized st) ''Initializable: contract is already initialized'') (\<lambda>_.
     Inr (st\<lparr>wr_initialized := True,
            wr_access := foldl (\<lambda>s a. setupRole A s OPERATOR_ROLE a) (setupRole A (wr_access st) Bytes0 sender) operators\<rparr>))"

text \<open>\<open>contracts/Crosschain/CrosschainBridge.sol\<close>; both counters are zero before and after.\<close>

record bridge =
  br_initialized :: bool
  br_owner :: addr
  br_crosschainTokens :: addr
  br_roles :: addr
  br_currentId :: nat
  br_lastCleanedId :: nat

definition CrosschainBridge_initialize :: "bridge \<Rightarrow> addr \<Rightarrow> addr \<Rightarrow> addr \<Rightarrow> bridge fallible" where
  "CrosschainBridge_initialize st sender crosschainTokensContract rolesContract =
     ebind (require (\<not> br_initialized st) ''Initializable: contract is already initialized'') (\<lambda>_.
     let st = st\<lparr>br_initialized := True, br_owner := sender, br_crosschainTokens := crosschainTokensContract,
                 br_roles := rolesContract\<rparr>
     in Inr (if br_currentId st = 0 then st\<lparr>br_currentId := 0, br_lastCleanedId := 0\<rparr> else st))"

end
