(* ===== verification/TCashLoan.thy ===== *)
theory TCashLoan
  imports TCash ParameterInfo PlatformContracts
begin

text \<open>
  \<open>contracts/TCash/TCashLoan.sol\<close>: its storage, its initialiser, what the auctions call, and the credit limit and the
  risk factors of an account. Creating, repaying and liquidating loans involve the other contracts and are in \<open>Bank\<close>.
\<close>

section \<open>Storage\<close>

record loan_history =
  lh_loanID :: nat
  lh_account :: addr
  lh_amounts :: "nat list"
  lh_prices :: "nat list"
  lh_time :: nat
  lh_interest :: nat
  lh_IST :: nat
  lh_status :: nat

record borrow_limit =
  bl_maxBorrowable :: nat
  bl_totalBorrowed :: nat
  bl_lastEvaluationTime :: nat

record personal_loans =
  pl_NCL :: nat
  pl_TNL :: nat
  pl_TLA :: nat
  pl_TRA :: nat

record loan =
  l_initialized :: bool
  l_owner :: addr
  l_tcash :: addr
  l_roles :: addr
  l_parameterInfo :: addr
  l_oracle :: addr
  l_tat :: addr
  l_auction :: addr
  l_nextLoanID :: nat
  l_loans :: "nat \<Rightarrow> loan_history"
  l_userLoans :: "addr \<Rightarrow> nat list"
  l_limits :: "addr \<Rightarrow> borrow_limit"
  l_personal :: "addr \<Rightarrow> personal_loans"
  l_OLB :: nat
  l_RA :: nat
  l_TLD :: nat
  l_systemRiskFactor :: nat
  l_lastSRF :: nat
  l_balance :: nat

definition no_loan :: loan_history where
  "no_loan = \<lparr>lh_loanID = 0, lh_account = 0, lh_amounts = [], lh_prices = [], lh_time = 0, lh_interest = 0, lh_IST = 0,
     lh_status = 0\<rparr>"

definition blank_loan :: loan where
  "blank_loan = \<lparr>l_initialized = False, l_owner = 0, l_tcash = 0, l_roles = 0, l_parameterInfo = 0, l_oracle = 0,
     l_tat = 0, l_auction = 0, l_nextLoanID = 0, l_loans = (\<lambda>_. no_loan), l_userLoans = (\<lambda>_. []),
     l_limits = (\<lambda>_. \<lparr>bl_maxBorrowable = 0, bl_totalBorrowed = 0, bl_lastEvaluationTime = 0\<rparr>),
     l_personal = (\<lambda>_. \<lparr>pl_NCL = 0, pl_TNL = 0, pl_TLA = 0, pl_TRA = 0\<rparr>), l_OLB = 0, l_RA = 0, l_TLD = 0,
     l_systemRiskFactor = 0, l_lastSRF = 0, l_balance = 0\<rparr>"

definition TCashLoan_initialize ::
    "'ac oz_access \<Rightarrow> (addr \<Rightarrow> 'ac roles fallible) \<Rightarrow> addr \<Rightarrow> loan \<Rightarrow> addr \<Rightarrow> addr \<Rightarrow> addr \<Rightarrow> addr \<Rightarrow> addr \<Rightarrow> addr \<Rightarrow>
      loan fallible" where
  "TCashLoan_initialize A rolesAt self st sender tcash roles parameterInfo oracl tat =
     ebind (require (\<not> l_initialized st) ''Initializable: contract is already initialized'') (\<lambda>_.
     let st = st\<lparr>l_initialized := True, l_owner := sender, l_tcash := tcash, l_roles := roles,
                 l_parameterInfo := parameterInfo, l_oracle := oracl, l_tat := tat\<rparr> in
     ebind (rolesAt roles) (\<lambda>r.
     ebind (require (hasRole A (r_access r) TCASH_MINTER self) ''TCashLoan must have TCASH_MINTER role'') (\<lambda>_.
     ebind (require (hasRole A (r_access r) TCASH_BURNER self) ''TCashLoan must have TCASH_BURNER role'') (\<lambda>_.
     Inr (st\<lparr>l_systemRiskFactor := 10000\<rparr>)))))"

definition TCashLoan_setAuctionContract :: "loan \<Rightarrow> addr \<Rightarrow> addr \<Rightarrow> loan fallible" where
  "TCashLoan_setAuctionContract st sender auctionContract =
     ebind (onlyOwner (l_owner st) sender) (\<lambda>_.
     ebind (require (auctionContract \<noteq> 0) ''Zero auction contract address'') (\<lambda>_.
     Inr (st\<lparr>l_auction := auctionContract\<rparr>)))"

definition TCashLoan_auctionOver ::
    "(addr \<Rightarrow> bool) \<Rightarrow> loan \<Rightarrow> addr \<Rightarrow> addr \<Rightarrow> nat \<Rightarrow> nat \<Rightarrow> nat \<Rightarrow> loan fallible" where
  "TCashLoan_auctionOver accepts st sender bider tokens a b =
     ebind (require (sender = l_auction st) ''only TCash Auction contract allowed'') (\<lambda>_.
     ebind (require (tokens \<le> l_balance st \<and> accepts bider) '''') (\<lambda>_.
     let st = st\<lparr>l_balance := l_balance st - tokens\<rparr> in
     ebind (checked 256 (a + b)) (\<lambda>s.
     ebind (checked_sub (l_OLB st) s) (\<lambda>OLB.
     let st = st\<lparr>l_OLB := OLB\<rparr> in
     ebind (checked 256 (l_RA st + s)) (\<lambda>RA.
     Inr (st\<lparr>l_RA := RA\<rparr>))))))"

section \<open>Credit and risk\<close>

text \<open>Indexing an array checks the bounds.\<close>

definition item :: "'a list \<Rightarrow> nat \<Rightarrow> 'a fallible" where
  "item xs i = (if i < length xs then Inr (xs ! i) else Inl ''Panic(0x32)'')"

definition put :: "'a list \<Rightarrow> nat \<Rightarrow> 'a \<Rightarrow> 'a list fallible" where
  "put xs i x = (if i < length xs then Inr (xs[i := x]) else Inl ''Panic(0x32)'')"

definition TCashLoan_getPersonalCreditAndAvailable ::
    "(addr \<Rightarrow> tat fallible) \<Rightarrow> loan \<Rightarrow> addr \<Rightarrow> (nat \<times> nat) fallible" where
  "TCashLoan_getPersonalCreditAndAvailable tatAt st account =
     ebind (tatAt (l_tat st)) (\<lambda>t.
     let (months, amounts) = TAT_getTATRecord t account in
     ebind (require (length months = length amounts) ''Invalid TAT record'') (\<lambda>_.
     ebind (if 2 \<le> length months then
              ebind (efold (\<lambda>total a. checked 256 (total + a)) 0 amounts) (\<lambda>totalAmount.
              let averageAmount = totalAmount div 3 in
              checked 256 (averageAmount * (if length (l_userLoans st account) \<le> 2 then 3 else 12)))
            else Inr 0) (\<lambda>PCL.
     let borrowed = bl_totalBorrowed (l_limits st account) in
     Inr (PCL, if borrowed < PCL then PCL - borrowed else 0))))"

definition TCashLoan_getPRF :: "(addr \<Rightarrow> tat fallible) \<Rightarrow> loan \<Rightarrow> addr \<Rightarrow> nat fallible" where
  "TCashLoan_getPRF tatAt st account =
     (let u = l_personal st account in
      ebind (if pl_TNL u = 0 then Inr True else ebind (checked_sub (pl_TNL u) (pl_NCL u)) (\<lambda>d. Inr (d \<le> 2))) (\<lambda>few.
      if few then Inr 10000
      else ebind (TCashLoan_getPersonalCreditAndAvailable tatAt st account) (\<lambda>(PCL, _).
        if PCL = 0 then Inr 10000
        else ebind (checked 256 (pl_TLA u * 10000)) (\<lambda>n.
          let rate = n div PCL; occupancy = (if rate \<le> 8500 then 10000 else if rate \<le> 9500 then 8000 else 6000) in
          ebind (if pl_TNL u = 0 then Inr 2000
                 else ebind (checked 256 (pl_NCL u * 10000)) (\<lambda>m.
                   let ratio = m div pl_TNL u in
                   Inr (if pl_NCL u = 0 then 2000 else if ratio \<le> 3000 then 4000 else if ratio \<le> 6000 then 5000
                        else if ratio \<le> 8000 then 8000 else 10000))) (\<lambda>repayment.
          Inr (occupancy * repayment div 10000))))))"

definition TCashLoan_getCRF :: "(addr \<Rightarrow> tat fallible) \<Rightarrow> loan \<Rightarrow> addr \<Rightarrow> nat fallible" where
  "TCashLoan_getCRF tatAt st account =
     ebind (TCashLoan_getPRF tatAt st account) (\<lambda>PRF.
     ebind (checked 256 (PRF * l_systemRiskFactor st)) (\<lambda>n. Inr (n div 10000)))"

text \<open>The table of the system risk factor, by the share of tokens on loan and the share of loans repaid.\<close>

definition srf1D :: "nat list" where
  "srf1D = [10000, 9000, 7000, 5000, 3000, 9000, 8000, 7000, 4000, 2000, 8000, 7000, 6000, 3000, 1000,
     5000, 4000, 3000, 2000, 1000, 2000, 1000, 1000, 1000, 1000]"

definition TCashLoan_calculateSRF :: "nat \<Rightarrow> nat \<Rightarrow> loan \<Rightarrow> loan fallible" where
  "TCashLoan_calculateSRF totalSupply now st =
     (if totalSupply = 0 \<or> l_TLD st = 0 then Inr st
      else ebind (checked 256 (l_OLB st * 10000)) (\<lambda>n.
        ebind (checked 256 (l_RA st * 10000)) (\<lambda>m.
        let loanRatio = n div totalSupply; repayRate = m div l_TLD st;
            loanRatioIdx = (if loanRatio < 6000 then 0 else if loanRatio < 7000 then 1 else if loanRatio < 8000 then 2
                            else if loanRatio < 9000 then 3 else 4);
            repayRateIdx = (if 3000 < repayRate then 0 else if 2000 < repayRate then 1 else if 1000 < repayRate then 2
                            else if 500 < repayRate then 3 else 4);
            idx = loanRatioIdx * 5 + repayRateIdx;
            SRF = (if idx < 25 then srf1D ! idx else 1000)
        in Inr (st\<lparr>l_systemRiskFactor := SRF, l_lastSRF := now\<rparr>))))"

definition TCashLoan_getSRF :: "nat \<Rightarrow> nat \<Rightarrow> loan \<Rightarrow> loan fallible" where
  "TCashLoan_getSRF totalSupply now st =
     ebind (checked 256 (l_lastSRF st + 86400)) (\<lambda>t.
     if t \<le> now then TCashLoan_calculateSRF totalSupply now st else Inr st)"

end
