(* ===== verification/TCashAuction.thy ===== *)
theory TCashAuction
  imports TCashLoan
begin

text \<open>
  \<open>contracts/TCash/TCashAuction.sol\<close>, the auctions of the collateral of bad loans, with the token it locks bids in
  and the loan contract it ends the auctions with. The three contracts, roles, oracle and the clock are one record,
  \<open>market\<close>; events are left out. Whether an account accepts the native coin is a parameter.
\<close>

section \<open>Auctions\<close>

record auction =
  au_sales :: nat
  au_startValue :: nat
  au_nowValue :: nat
  au_timeOver :: nat
  au_state :: nat
  au_debt :: nat

record auctionbider =
  ab_time :: nat
  ab_bider :: addr
  ab_value :: nat

record tcash_auction =
  ta_initialized :: bool
  ta_owner :: addr
  ta_auctionList :: "auction list"
  ta_bider :: "nat \<Rightarrow> addr"
  ta_bidValue :: "nat \<Rightarrow> addr \<Rightarrow> nat"
  ta_bidUsers :: "nat \<Rightarrow> auctionbider list"
  ta_isbider :: "nat \<Rightarrow> addr \<Rightarrow> bool"
  ta_bidDuration :: nat
  ta_tcash :: addr
  ta_loan :: addr
  ta_roles :: addr

definition TCashAuction_initialize :: "tcash_auction \<Rightarrow> addr \<Rightarrow> addr \<Rightarrow> addr \<Rightarrow> addr \<Rightarrow> tcash_auction fallible" where
  "TCashAuction_initialize st sender rolesContract tcash tcashLoan =
     ebind (require (\<not> ta_initialized st) ''Initializable: contract is already initialized'') (\<lambda>_.
     let st = st\<lparr>ta_initialized := True, ta_owner := sender\<rparr> in
     ebind (require (rolesContract \<noteq> 0) ''zero roles contract'') (\<lambda>_.
     ebind (require (tcash \<noteq> 0) ''zero tcash contract'') (\<lambda>_.
     ebind (require (tcashLoan \<noteq> 0) ''zero loan contract'') (\<lambda>_.
     Inr (st\<lparr>ta_roles := rolesContract, ta_tcash := tcash, ta_loan := tcashLoan, ta_bidDuration := 600\<rparr>)))))"

record ('ac, 'tk) market =
  mk_auctionAt :: addr
  mk_tcashAt :: addr
  mk_loanAt :: addr
  mk_rolesAt :: addr
  mk_oracleAt :: addr
  mk_auction :: tcash_auction
  mk_tcash :: "'tk tcash"
  mk_loan :: loan
  mk_roles :: "'ac roles"
  mk_oracle :: oracle_state
  mk_time :: nat

definition at_addr :: "addr \<Rightarrow> 'c \<Rightarrow> addr \<Rightarrow> 'c fallible" where
  "at_addr a c b = (if b = a then Inr c else Inl '''')"

abbreviation at_tcash :: "('ac, 'tk) market \<Rightarrow> addr \<Rightarrow> 'tk tcash fallible" where
  "at_tcash mk \<equiv> at_addr (mk_tcashAt mk) (mk_tcash mk)"

abbreviation at_roles :: "('ac, 'tk) market \<Rightarrow> addr \<Rightarrow> 'ac roles fallible" where
  "at_roles mk \<equiv> at_addr (mk_rolesAt mk) (mk_roles mk)"

abbreviation at_loan :: "('ac, 'tk) market \<Rightarrow> addr \<Rightarrow> loan fallible" where
  "at_loan mk \<equiv> at_addr (mk_loanAt mk) (mk_loan mk)"

abbreviation at_oracle :: "('ac, 'tk) market \<Rightarrow> addr \<Rightarrow> oracle_state fallible" where
  "at_oracle mk \<equiv> at_addr (mk_oracleAt mk) (mk_oracle mk)"

type_synonym ('ac, 'tk) mtx = "('ac, 'tk) market fallible"

text \<open>Reading an array out of range panics.\<close>

definition listedAuction :: "tcash_auction \<Rightarrow> nat \<Rightarrow> auction fallible" where
  "listedAuction st n = (if n < length (ta_auctionList st) then Inr (ta_auctionList st ! n) else Inl ''Panic(0x32)'')"

definition TCashAuction_onlyFoundationManager ::
    "'ac oz_access \<Rightarrow> ('ac, 'tk) market \<Rightarrow> addr \<Rightarrow> unit fallible" where
  "TCashAuction_onlyFoundationManager A mk sender =
     ebind (at_roles mk (ta_roles (mk_auction mk))) (\<lambda>r.
     require (hasRole A (r_access r) FOUNDATION_MANAGER sender) ''only FoundationManager allowed'')"

definition TCashAuction_queryAuctionManager :: "'ac oz_access \<Rightarrow> ('ac, 'tk) market \<Rightarrow> addr fallible" where
  "TCashAuction_queryAuctionManager A mk =
     ebind (at_roles mk (ta_roles (mk_auction mk))) (\<lambda>r.
     ebind (Roles_getRoleMember A r AUCTION_MANAGER 0) (\<lambda>manager.
     ebind (require (manager \<noteq> 0) ''no auction manager set yet'') (\<lambda>_. Inr manager)))"

definition TCashAuction_updateBidDuration ::
    "'ac oz_access \<Rightarrow> ('ac, 'tk) market \<Rightarrow> addr \<Rightarrow> nat \<Rightarrow> ('ac, 'tk) mtx" where
  "TCashAuction_updateBidDuration A mk sender newDuration =
     ebind (TCashAuction_onlyFoundationManager A mk sender) (\<lambda>_.
     ebind (require (0 < newDuration) ''TCashAuction: duration must be greater than 0'') (\<lambda>_.
     ebind (require (newDuration \<le> 30 * 86400) ''TCashAuction: duration too long'') (\<lambda>_.
     Inr (mk\<lparr>mk_auction := (mk_auction mk)\<lparr>ta_bidDuration := newDuration\<rparr>\<rparr>))))"

definition TCashAuction_auctionStart ::
    "('ac, 'tk) market \<Rightarrow> addr \<Rightarrow> nat \<Rightarrow> nat \<Rightarrow> nat \<Rightarrow> ('ac, 'tk) mtx" where
  "TCashAuction_auctionStart mk sender mortgage debt interest =
     (let st = mk_auction mk in
      ebind (require (sender = ta_loan st) ''only TCash Loan contract allowed'') (\<lambda>_.
      ebind (checked 256 (mk_time mk + ta_bidDuration st)) (\<lambda>timeOver.
      let auction = \<lparr>au_sales = mortgage, au_startValue = debt, au_nowValue = debt, au_timeOver = timeOver,
                     au_state = 1, au_debt = interest\<rparr> in
      Inr (mk\<lparr>mk_auction := st\<lparr>ta_auctionList := ta_auctionList st @ [auction]\<rparr>\<rparr>))))"

definition TCashAuction_bid ::
    "'tk erc20 \<Rightarrow> ('ac, 'tk) market \<Rightarrow> addr \<Rightarrow> nat \<Rightarrow> nat \<Rightarrow> ('ac, 'tk) mtx" where
  "TCashAuction_bid T mk sender n bidAmount =
     (let st = mk_auction mk in
      ebind (listedAuction st n) (\<lambda>auction.
      ebind (require (mk_time mk < au_timeOver auction) ''TCashAuction: auction is over'') (\<lambda>_.
      ebind (checked 256 (ta_bidValue st n sender + bidAmount)) (\<lambda>total.
      ebind (require (au_nowValue auction < total) ''TCashAuction: bid is not enough'') (\<lambda>_.
      ebind (at_tcash mk (ta_tcash st)) (\<lambda>tcash.
      ebind (TCash_bidCost T tcash (mk_auctionAt mk) sender bidAmount) (\<lambda>tcash.
      let st = (if ta_isbider st n sender then st
                else st\<lparr>ta_isbider := (ta_isbider st)(n := (ta_isbider st n)(sender := True)),
                        ta_bidUsers := (ta_bidUsers st)(n := ta_bidUsers st n @
                          [\<lparr>ab_time = mk_time mk, ab_bider = sender, ab_value = bidAmount\<rparr>])\<rparr>);
          st = st\<lparr>ta_bider := (ta_bider st)(n := sender),
                  ta_auctionList := (ta_auctionList st)[n := auction\<lparr>au_nowValue := total\<rparr>],
                  ta_bidValue := (ta_bidValue st)(n := (ta_bidValue st n)(sender := total))\<rparr> in
      Inr (mk\<lparr>mk_tcash := tcash, mk_auction := st\<rparr>))))))))"

definition TCashAuction_bidWithdrawal :: "('ac, 'tk) market \<Rightarrow> addr \<Rightarrow> nat \<Rightarrow> ('ac, 'tk) mtx" where
  "TCashAuction_bidWithdrawal mk sender n =
     (let st = mk_auction mk in
      ebind (require (ta_bider st n \<noteq> sender) ''TCashAuction: you are owner of bid'') (\<lambda>_.
      ebind (require (0 < ta_bidValue st n sender) ''TCashAuction: no TCash on bid'') (\<lambda>_.
      ebind (at_tcash mk (ta_tcash st)) (\<lambda>tcash.
      ebind (TCash_bidBack tcash (mk_auctionAt mk) sender (ta_bidValue st n sender)) (\<lambda>tcash.
      Inr (mk\<lparr>mk_tcash := tcash,
              mk_auction := st\<lparr>ta_bidValue := (ta_bidValue st)(n := (ta_bidValue st n)(sender := 0))\<rparr>\<rparr>))))))"

text \<open>The winner collects: the loan contract pays the collateral out and the auction manager's tokens are burned.\<close>

definition TCashAuction_getAuction ::
    "'tk erc20 \<Rightarrow> 'ac oz_access \<Rightarrow> (addr \<Rightarrow> bool) \<Rightarrow> ('ac, 'tk) market \<Rightarrow> addr \<Rightarrow> nat \<Rightarrow> ('ac, 'tk) mtx" where
  "TCashAuction_getAuction T A accepts mk sender n =
     (let st = mk_auction mk in
      ebind (listedAuction st n) (\<lambda>auction.
      ebind (require (au_state auction \<noteq> 2) ''TCashAuction: auction is not over'') (\<lambda>_.
      ebind (require (au_timeOver auction < mk_time mk) ''TCashAuction: auction is not over'') (\<lambda>_.
      ebind (require (ta_bider st n = sender) ''TCashAuction: you are not owner of bid'') (\<lambda>_.
      ebind (checked_sub (au_startValue auction) (au_debt auction)) (\<lambda>principal.
      ebind (at_loan mk (ta_loan st)) (\<lambda>loan.
      ebind (TCashLoan_auctionOver accepts loan (mk_auctionAt mk) sender (au_sales auction) (au_debt auction) principal) (\<lambda>loan.
      ebind (TCashAuction_queryAuctionManager A mk) (\<lambda>manager.
      ebind (at_tcash mk (ta_tcash st)) (\<lambda>tcash.
      ebind (TCash_burnFrom T A (at_roles mk) tcash (mk_auctionAt mk) manager (au_startValue auction)) (\<lambda>tcash.
      Inr (mk\<lparr>mk_loan := loan, mk_tcash := tcash,
              mk_auction := st\<lparr>ta_auctionList := (ta_auctionList st)[n := auction\<lparr>au_state := 2\<rparr>]\<rparr>\<rparr>))))))))))))"

definition TCashAuction_upgradeState :: "'ac oz_access \<Rightarrow> ('ac, 'tk) market \<Rightarrow> addr \<Rightarrow> ('ac, 'tk) mtx" where
  "TCashAuction_upgradeState A mk sender =
     ebind (TCashAuction_onlyFoundationManager A mk sender) (\<lambda>_.
     let st = mk_auction mk in
     ebind (efold (\<lambda>xs a.
         if au_timeOver (xs ! a) < mk_time mk \<and> ta_bider st a = 0
         then ebind (checked 256 (mk_time mk + ta_bidDuration st)) (\<lambda>t. Inr (xs[a := (xs ! a)\<lparr>au_timeOver := t\<rparr>]))
         else Inr xs) (ta_auctionList st) [0..<length (ta_auctionList st)]) (\<lambda>xs.
     Inr (mk\<lparr>mk_auction := st\<lparr>ta_auctionList := xs\<rparr>\<rparr>)))"

definition TCashAuction_queryBider :: "tcash_auction \<Rightarrow> nat \<Rightarrow> addr \<times> nat" where
  "TCashAuction_queryBider st n = (ta_bider st n, ta_bidValue st n (ta_bider st n))"

definition TCashAuction_getAuctionBider :: "tcash_auction \<Rightarrow> nat \<Rightarrow> auctionbider list" where
  "TCashAuction_getAuctionBider st n = ta_bidUsers st n"

end
