(* ===== verification/MarketSafety.thy ===== *)
theory MarketSafety
  imports TCashAuction
begin

text \<open>
  The auctions under any sequence of calls, by anyone, with the contracts the owner of the token may name as its
  auction contract a parameter: what the books say in every reachable state, when whoever is outbid can take his
  bid back, and that the winner of an auction never pays it.
\<close>

section \<open>Steps\<close>

text \<open>The entry points of the auction contract and of the token, with the caller an argument.\<close>

datatype market_op =
    AuctionStart nat nat nat
  | Bid nat nat
  | BidWithdrawal nat
  | GetAuction nat
  | UpgradeState
  | UpdateBidDuration nat
  | Mint addr nat
  | AddBalance addr nat
  | Burn nat
  | BurnFrom addr nat
  | ReduceBalance addr nat
  | Transfer addr nat
  | TransferFrom addr addr nat
  | BidCost addr nat
  | BidBack addr nat
  | SetRoles addr
  | SetOracle addr
  | SetAuctionContract addr

definition with_tcash :: "('ac, 'tk) market \<Rightarrow> 'tk tcash fallible \<Rightarrow> ('ac, 'tk) mtx" where
  "with_tcash mk r = ebind r (\<lambda>t. Inr (mk\<lparr>mk_tcash := t\<rparr>))"

fun market_call ::
    "'tk erc20 \<Rightarrow> 'ac oz_access \<Rightarrow> (addr \<Rightarrow> bool) \<Rightarrow> ('ac, 'tk) market \<Rightarrow> addr \<Rightarrow> market_op \<Rightarrow> ('ac, 'tk) mtx" where
  "market_call T A P mk s (AuctionStart m d i) = TCashAuction_auctionStart mk s m d i"
| "market_call T A P mk s (Bid n v) = TCashAuction_bid T mk s n v"
| "market_call T A P mk s (BidWithdrawal n) = TCashAuction_bidWithdrawal mk s n"
| "market_call T A P mk s (GetAuction n) = TCashAuction_getAuction T A P mk s n"
| "market_call T A P mk s UpgradeState = TCashAuction_upgradeState A mk s"
| "market_call T A P mk s (UpdateBidDuration d) = TCashAuction_updateBidDuration A mk s d"
| "market_call T A P mk s (Mint a v) = with_tcash mk (TCash_mint T A (at_roles mk) (at_oracle mk) (mk_tcash mk) s a v)"
| "market_call T A P mk s (AddBalance a v) =
     with_tcash mk (TCash_addBalance T A (at_roles mk) (at_oracle mk) (mk_tcash mk) s a v)"
| "market_call T A P mk s (Burn v) = with_tcash mk (TCash_burn T (mk_tcash mk) s v)"
| "market_call T A P mk s (BurnFrom a v) = with_tcash mk (TCash_burnFrom T A (at_roles mk) (mk_tcash mk) s a v)"
| "market_call T A P mk s (ReduceBalance a v) = with_tcash mk (TCash_reduceBalance T A (at_roles mk) (mk_tcash mk) s a v)"
| "market_call T A P mk s (Transfer a v) = with_tcash mk (TCash_transfer T (mk_tcash mk) s a v)"
| "market_call T A P mk s (TransferFrom p a v) = with_tcash mk (TCash_transferFrom T (mk_tcash mk) s p a v)"
| "market_call T A P mk s (BidCost u v) = with_tcash mk (TCash_bidCost T (mk_tcash mk) s u v)"
| "market_call T A P mk s (BidBack u v) = with_tcash mk (TCash_bidBack (mk_tcash mk) s u v)"
| "market_call T A P mk s (SetRoles a) = with_tcash mk (TCash_setRoles (mk_tcash mk) s a)"
| "market_call T A P mk s (SetOracle a) = with_tcash mk (TCash_setOracle (mk_tcash mk) s a)"
| "market_call T A P mk s (SetAuctionContract a) = with_tcash mk (TCash_setAuctionContract (mk_tcash mk) s a)"

text \<open>
  A step is a call or something else on the chain. Calls come from any account or contract, except that the auction
  contract locks and releases only within its own functions; \<open>K\<close> holds the contracts that the owner of the token
  may name in \<open>setAuctionContract\<close>. Besides, roles, prices, the loans, the owners and the clock may change at any time,
  but not the bids, the locks and the auction contract the token knows, which only the calls write.
\<close>

definition aside :: "('ac, 'tk) market \<Rightarrow> ('ac, 'tk) market \<Rightarrow> bool" where
  "aside mk mk' \<longleftrightarrow> (\<exists>owner. mk_auction mk' = (mk_auction mk)\<lparr>ta_owner := owner\<rparr>) \<and>
     tc_lockedBalances (mk_tcash mk') = tc_lockedBalances (mk_tcash mk) \<and> tc_auction (mk_tcash mk') = tc_auction (mk_tcash mk) \<and>
     mk_auctionAt mk' = mk_auctionAt mk \<and> mk_tcashAt mk' = mk_tcashAt mk \<and> mk_time mk \<le> mk_time mk'"

inductive market_step ::
    "'tk erc20 \<Rightarrow> 'ac oz_access \<Rightarrow> (addr \<Rightarrow> bool) \<Rightarrow> addr set \<Rightarrow> ('ac, 'tk) market \<Rightarrow> ('ac, 'tk) market \<Rightarrow> bool"
  for T A P K where
  call: "s \<noteq> 0 \<Longrightarrow> (\<And>u v. c = BidCost u v \<or> c = BidBack u v \<Longrightarrow> s \<noteq> mk_auctionAt mk) \<Longrightarrow>
     (\<And>a. c = SetAuctionContract a \<Longrightarrow> a \<in> K) \<Longrightarrow> market_call T A P mk s c = Inr mk' \<Longrightarrow> market_step T A P K mk mk'"
| other: "aside mk mk' \<Longrightarrow> market_step T A P K mk mk'"

abbreviation later ::
    "'tk erc20 \<Rightarrow> 'ac oz_access \<Rightarrow> (addr \<Rightarrow> bool) \<Rightarrow> addr set \<Rightarrow> ('ac, 'tk) market \<Rightarrow> ('ac, 'tk) market \<Rightarrow> bool" where
  "later T A P K \<equiv> (market_step T A P K)\<^sup>*\<^sup>*"

text \<open>An auction contract just initialised, and known to a token in which nothing is locked.\<close>

definition opened :: "('ac, 'tk) market \<Rightarrow> bool" where
  "opened mk \<longleftrightarrow> ta_initialized (mk_auction mk) \<and> tc_initialized (mk_tcash mk) \<and>
     ta_tcash (mk_auction mk) = mk_tcashAt mk \<and> tc_auction (mk_tcash mk) = mk_auctionAt mk \<and>
     ta_auctionList (mk_auction mk) = [] \<and> ta_bider (mk_auction mk) = (\<lambda>_. 0) \<and>
     ta_bidValue (mk_auction mk) = (\<lambda>_ _. 0) \<and> ta_isbider (mk_auction mk) = (\<lambda>_ _. False) \<and>
     ta_bidUsers (mk_auction mk) = (\<lambda>_. []) \<and> tc_lockedBalances (mk_tcash mk) = (\<lambda>_. 0)"

definition market_reachable ::
    "'tk erc20 \<Rightarrow> 'ac oz_access \<Rightarrow> (addr \<Rightarrow> bool) \<Rightarrow> addr set \<Rightarrow> ('ac, 'tk) market \<Rightarrow> bool" where
  "market_reachable T A P K mk \<longleftrightarrow> (\<exists>mk0. opened mk0 \<and> later T A P K mk0 mk)"

section \<open>The books\<close>

text \<open>One auction: its highest bidder, what everyone has bid, and who is listed.\<close>

definition auction_ok :: "tcash_auction \<Rightarrow> nat \<Rightarrow> bool" where
  "auction_ok st n \<longleftrightarrow>
     (let a = ta_auctionList st ! n; w = ta_bider st n in
        if w = 0 then au_nowValue a = au_startValue a \<and> (\<forall>b. ta_bidValue st n b = 0)
        else au_nowValue a = ta_bidValue st n w \<and> au_startValue a < au_nowValue a \<and>
          (\<forall>b. b \<noteq> w \<longrightarrow> ta_bidValue st n b < au_nowValue a)) \<and>
     distinct (map ab_bider (ta_bidUsers st n)) \<and>
     (\<forall>b. ta_isbider st n b \<longleftrightarrow> b \<in> ab_bider ` set (ta_bidUsers st n)) \<and>
     (\<forall>b. 0 < ta_bidValue st n b \<longrightarrow> ta_isbider st n b) \<and> ta_bidValue st n 0 = 0"

lemma auction_ok_cong:
  assumes "auction_ok st n"
    and "au_startValue (ta_auctionList st' ! n) = au_startValue (ta_auctionList st ! n)"
    and "au_nowValue (ta_auctionList st' ! n) = au_nowValue (ta_auctionList st ! n)"
    and "ta_bider st' n = ta_bider st n" and "ta_bidValue st' n = ta_bidValue st n"
    and "ta_bidUsers st' n = ta_bidUsers st n" and "ta_isbider st' n = ta_isbider st n"
  shows "auction_ok st' n"
  using assms(1) unfolding auction_ok_def Let_def assms(2-7) .

definition blank_slot :: "tcash_auction \<Rightarrow> nat \<Rightarrow> bool" where
  "blank_slot st n \<longleftrightarrow> ta_bider st n = 0 \<and> ta_bidValue st n = (\<lambda>_. 0) \<and> ta_isbider st n = (\<lambda>_. False) \<and> ta_bidUsers st n = []"

definition bids_of :: "tcash_auction \<Rightarrow> addr \<Rightarrow> nat" where
  "bids_of st a = (\<Sum>n<length (ta_auctionList st). ta_bidValue st n a)"

text \<open>The books of the auctions hold whatever the owner of the token does; those of the token as long as he names
  no other auction contract.\<close>

definition market_ok :: "addr set \<Rightarrow> ('ac, 'tk) market \<Rightarrow> bool" where
  "market_ok K mk \<longleftrightarrow> ta_tcash (mk_auction mk) = mk_tcashAt mk \<and>
     (\<forall>n < length (ta_auctionList (mk_auction mk)). auction_ok (mk_auction mk) n) \<and>
     (\<forall>n \<ge> length (ta_auctionList (mk_auction mk)). blank_slot (mk_auction mk) n) \<and>
     (K \<subseteq> {mk_auctionAt mk} \<longrightarrow> tc_auction (mk_tcash mk) = mk_auctionAt mk \<and>
       (\<forall>a. tc_lockedBalances (mk_tcash mk) a = bids_of (mk_auction mk) a))"

lemma opened_ok: "opened mk \<Longrightarrow> market_ok K mk"
  by (simp add: opened_def market_ok_def blank_slot_def bids_of_def)

subsection \<open>What the calls do\<close>

text \<open>A call that touches neither bids nor locks: only the fields of the list that the books do not speak of.\<close>

definition quiet :: "('ac, 'tk) market \<Rightarrow> ('ac, 'tk) market \<Rightarrow> bool" where
  "quiet mk mk' \<longleftrightarrow> mk_auctionAt mk' = mk_auctionAt mk \<and> mk_tcashAt mk' = mk_tcashAt mk \<and>
     tc_auction (mk_tcash mk') = tc_auction (mk_tcash mk) \<and>
     tc_lockedBalances (mk_tcash mk') = tc_lockedBalances (mk_tcash mk) \<and>
     ta_tcash (mk_auction mk') = ta_tcash (mk_auction mk) \<and> ta_bider (mk_auction mk') = ta_bider (mk_auction mk) \<and>
     ta_bidValue (mk_auction mk') = ta_bidValue (mk_auction mk) \<and> ta_bidUsers (mk_auction mk') = ta_bidUsers (mk_auction mk) \<and>
     ta_isbider (mk_auction mk') = ta_isbider (mk_auction mk) \<and>
     map (\<lambda>a. (au_startValue a, au_nowValue a)) (ta_auctionList (mk_auction mk')) =
       map (\<lambda>a. (au_startValue a, au_nowValue a)) (ta_auctionList (mk_auction mk)) \<and> mk_time mk \<le> mk_time mk' \<and>
     (\<forall>i. ta_bider (mk_auction mk) i \<noteq> 0 \<longrightarrow>
       map au_timeOver (ta_auctionList (mk_auction mk')) ! i = map au_timeOver (ta_auctionList (mk_auction mk)) ! i)"

lemma quiet_values:
  assumes "quiet mk mk'" and "n < length (ta_auctionList (mk_auction mk))"
  shows "au_startValue (ta_auctionList (mk_auction mk') ! n) = au_startValue (ta_auctionList (mk_auction mk) ! n)"
    and "au_nowValue (ta_auctionList (mk_auction mk') ! n) = au_nowValue (ta_auctionList (mk_auction mk) ! n)"
    and "length (ta_auctionList (mk_auction mk')) = length (ta_auctionList (mk_auction mk))"
proof -
  let ?f = "\<lambda>a. (au_startValue a, au_nowValue a)"
  have eq: "map ?f (ta_auctionList (mk_auction mk')) = map ?f (ta_auctionList (mk_auction mk))"
    using assms(1) by (simp add: quiet_def)
  then show len: "length (ta_auctionList (mk_auction mk')) = length (ta_auctionList (mk_auction mk))"
    by (rule map_eq_imp_length_eq)
  have "?f (ta_auctionList (mk_auction mk') ! n) = ?f (ta_auctionList (mk_auction mk) ! n)"
    using arg_cong [OF eq, of "\<lambda>xs. xs ! n"] assms(2) len by simp
  then show "au_startValue (ta_auctionList (mk_auction mk') ! n) = au_startValue (ta_auctionList (mk_auction mk) ! n)"
    and "au_nowValue (ta_auctionList (mk_auction mk') ! n) = au_nowValue (ta_auctionList (mk_auction mk) ! n)"
    by simp_all
qed

lemma quiet_length: "quiet mk mk' \<Longrightarrow> length (ta_auctionList (mk_auction mk')) = length (ta_auctionList (mk_auction mk))"
  unfolding quiet_def by (elim conjE) (erule map_eq_imp_length_eq)

lemma quiet_ok:
  assumes "market_ok K mk" and "quiet mk mk'"
  shows "market_ok K mk'"
proof -
  have "auction_ok (mk_auction mk') n" if "n < length (ta_auctionList (mk_auction mk))" for n
  proof -
    have "auction_ok (mk_auction mk) n" using assms(1) that by (simp add: market_ok_def)
    then show ?thesis
      by (rule auction_ok_cong) (use quiet_values(1,2) [OF assms(2) that] assms(2) in \<open>simp_all add: quiet_def\<close>)
  qed
  with assms quiet_length [OF assms(2)] show ?thesis
    by (simp add: market_ok_def quiet_def blank_slot_def bids_of_def)
qed

lemma token_call_quiet:
  assumes "with_tcash mk r = Inr mk'" and "\<And>t. r = Inr t \<Longrightarrow> t = (mk_tcash mk)\<lparr>tc_token := tc_token t\<rparr>"
  shows "quiet mk mk'"
proof -
  obtain t where t: "r = Inr t" "mk' = mk\<lparr>mk_tcash := t\<rparr>"
    using assms(1) by (auto simp: with_tcash_def ebind_Inr_iff)
  have "tc_auction t = tc_auction (mk_tcash mk)" "tc_lockedBalances t = tc_lockedBalances (mk_tcash mk)"
    by (subst assms(2) [OF t(1)], simp)+
  then show ?thesis by (simp add: quiet_def t(2))
qed

lemma map_list_update_same:
  "f x = f (xs ! n) \<Longrightarrow> map f (xs[n := x]) = map f xs"
  by (cases "n < length xs") (simp_all add: map_update list_update_same_conv list_update_beyond)

lemma upgrade_values:
  assumes "efold (\<lambda>xs a. if au_timeOver (xs ! a) < now \<and> b a = 0
         then ebind (checked 256 t) (\<lambda>t. Inr (xs[a := (xs ! a)\<lparr>au_timeOver := t\<rparr>])) else Inr xs) xs is = Inr ys"
  shows "map (\<lambda>a. (au_startValue a, au_nowValue a)) ys = map (\<lambda>a. (au_startValue a, au_nowValue a)) xs \<and>
    (\<forall>i. b i \<noteq> 0 \<longrightarrow> map au_timeOver ys ! i = map au_timeOver xs ! i)"
  using assms
proof (rule efold_inv)
  fix s x s'
  let ?f = "\<lambda>a. (au_startValue a, au_nowValue a)"
  assume IH: "map ?f s = map ?f xs \<and> (\<forall>i. b i \<noteq> 0 \<longrightarrow> map au_timeOver s ! i = map au_timeOver xs ! i)"
    and run: "(if au_timeOver (s ! x) < now \<and> b x = 0
       then ebind (checked 256 t) (\<lambda>t. Inr (s[x := (s ! x)\<lparr>au_timeOver := t\<rparr>])) else Inr s) = Inr s'"
  show "map ?f s' = map ?f xs \<and> (\<forall>i. b i \<noteq> 0 \<longrightarrow> map au_timeOver s' ! i = map au_timeOver xs ! i)"
  proof (cases "au_timeOver (s ! x) < now \<and> b x = 0")
    case True
    with run have s': "s' = s[x := (s ! x)\<lparr>au_timeOver := t\<rparr>]" by (auto simp: ebind_Inr_iff)
    have "map ?f s' = map ?f s"
      unfolding s' by (rule map_list_update_same) simp
    moreover have "map au_timeOver s' ! i = map au_timeOver s ! i" if "b i \<noteq> 0" for i
      using that True unfolding s' map_update by (cases "i = x") simp_all
    ultimately show ?thesis using IH by simp
  next
    case False
    from run have "s' = s" unfolding if_not_P [OF False] by simp
    with IH show ?thesis by simp
  qed
qed simp

lemma burn_keeps:
  assumes "TCash_burnFrom T A R st s a n = Inr t"
  shows "tc_auction t = tc_auction st" and "tc_lockedBalances t = tc_lockedBalances st"
  by (subst token_calls_keep_locks(4) [OF assms], simp)+

lemma getAuction_quiet:
  assumes "TCashAuction_getAuction T A P mk s n = Inr mk'"
  shows "quiet mk mk'"
proof -
  obtain loan tcash where mk': "mk' = mk\<lparr>mk_loan := loan, mk_tcash := tcash, mk_auction := (mk_auction mk)\<lparr>ta_auctionList :=
        (ta_auctionList (mk_auction mk))[n := (ta_auctionList (mk_auction mk) ! n)\<lparr>au_state := 2\<rparr>]\<rparr>\<rparr>"
    and "tc_auction tcash = tc_auction (mk_tcash mk)" "tc_lockedBalances tcash = tc_lockedBalances (mk_tcash mk)"
    using assms
    by (auto simp: TCashAuction_getAuction_def Let_def ebind_Inr_iff listedAuction_def at_addr_def burn_keeps split: if_splits)
  then show ?thesis by (simp add: quiet_def map_list_update_same)
qed

lemma other_calls_quiet:
  assumes "market_call T A P mk s c = Inr mk'"
    and "case c of AuctionStart m d i \<Rightarrow> False | Bid n v \<Rightarrow> False | BidWithdrawal n \<Rightarrow> False | BidCost u v \<Rightarrow> False
      | BidBack u v \<Rightarrow> False | SetAuctionContract a \<Rightarrow> False | _ \<Rightarrow> True"
  shows "quiet mk mk'"
proof (cases c)
  case (GetAuction n)
  with assms show ?thesis by (simp add: getAuction_quiet)
next
  case UpgradeState
  with assms(1) obtain xs where "mk' = mk\<lparr>mk_auction := (mk_auction mk)\<lparr>ta_auctionList := xs\<rparr>\<rparr>"
    and "map (\<lambda>a. (au_startValue a, au_nowValue a)) xs =
      map (\<lambda>a. (au_startValue a, au_nowValue a)) (ta_auctionList (mk_auction mk)) \<and>
      (\<forall>i. ta_bider (mk_auction mk) i \<noteq> 0 \<longrightarrow> map au_timeOver xs ! i = map au_timeOver (ta_auctionList (mk_auction mk)) ! i)"
    by (auto simp: TCashAuction_upgradeState_def Let_def ebind_Inr_iff dest!: upgrade_values)
  then show ?thesis by (simp add: quiet_def)
next
  case (UpdateBidDuration d)
  with assms(1) show ?thesis by (auto simp: TCashAuction_updateBidDuration_def ebind_Inr_iff quiet_def)
next
  case (SetRoles a)
  with assms(1) show ?thesis by (auto simp: TCash_setRoles_def with_tcash_def ebind_Inr_iff quiet_def)
next
  case (SetOracle a)
  with assms(1) show ?thesis by (auto simp: TCash_setOracle_def with_tcash_def ebind_Inr_iff quiet_def)
qed (use assms in \<open>auto elim!: token_call_quiet dest: token_calls_keep_locks\<close>)

text \<open>The lock calls of the token and the pointer to the auction contract, for callers other than the auction contract.\<close>

lemma lock_calls:
  "market_call T A P mk s (BidCost u v) = Inr mk' \<Longrightarrow> s = tc_auction (mk_tcash mk) \<and>
     (\<exists>l. mk' = mk\<lparr>mk_tcash := (mk_tcash mk)\<lparr>tc_lockedBalances := l\<rparr>\<rparr>)"
  "market_call T A P mk s (BidBack u v) = Inr mk' \<Longrightarrow> s = tc_auction (mk_tcash mk) \<and>
     (\<exists>l. mk' = mk\<lparr>mk_tcash := (mk_tcash mk)\<lparr>tc_lockedBalances := l\<rparr>\<rparr>)"
  "market_call T A P mk s (SetAuctionContract a) = Inr mk' \<Longrightarrow> mk' = mk\<lparr>mk_tcash := (mk_tcash mk)\<lparr>tc_auction := a\<rparr>\<rparr>"
  by (auto simp: with_tcash_def ebind_Inr_iff bidCost_Inr_iff bidBack_Inr_iff TCash_setAuctionContract_def)

subsection \<open>Starting, bidding, taking back\<close>

text \<open>The auction contract after a bid of \<open>v\<close> that brings the bidder to \<open>total\<close>.\<close>

definition after_bid :: "tcash_auction \<Rightarrow> nat \<Rightarrow> addr \<Rightarrow> nat \<Rightarrow> nat \<Rightarrow> tcash_auction" where
  "after_bid st now s n v =
     (let total = ta_bidValue st n s + v;
          st' = (if ta_isbider st n s then st
                 else st\<lparr>ta_isbider := (ta_isbider st)(n := (ta_isbider st n)(s := True)),
                         ta_bidUsers := (ta_bidUsers st)(n := ta_bidUsers st n @
                           [\<lparr>ab_time = now, ab_bider = s, ab_value = v\<rparr>])\<rparr>)
      in st'\<lparr>ta_bider := (ta_bider st)(n := s),
             ta_auctionList := (ta_auctionList st)[n := (ta_auctionList st ! n)\<lparr>au_nowValue := total\<rparr>],
             ta_bidValue := (ta_bidValue st)(n := (ta_bidValue st n)(s := total))\<rparr>)"

definition can_bid :: "'tk erc20 \<Rightarrow> ('ac, 'tk) market \<Rightarrow> addr \<Rightarrow> nat \<Rightarrow> nat \<Rightarrow> bool" where
  "can_bid T mk s n v \<longleftrightarrow>
     (let st = mk_auction mk; total = ta_bidValue st n s + v in
      n < length (ta_auctionList st) \<and> mk_time mk < au_timeOver (ta_auctionList st ! n) \<and>
      au_nowValue (ta_auctionList st ! n) < total \<and> total < 2 ^ 256 \<and> ta_tcash st = mk_tcashAt mk \<and>
      tc_auction (mk_tcash mk) = mk_auctionAt mk \<and> v \<le> balanceOf T (tc_token (mk_tcash mk)) s \<and>
      tc_lockedBalances (mk_tcash mk) s + v < 2 ^ 256)"

lemma bid_Inr_iff:
  "TCashAuction_bid T mk s n v = Inr mk' \<longleftrightarrow> can_bid T mk s n v \<and>
     mk' = mk\<lparr>mk_tcash := (mk_tcash mk)\<lparr>tc_lockedBalances := (tc_lockedBalances (mk_tcash mk))
                (s := tc_lockedBalances (mk_tcash mk) s + v)\<rparr>,
              mk_auction := after_bid (mk_auction mk) (mk_time mk) s n v\<rparr>"
  by (auto simp: TCashAuction_bid_def can_bid_def after_bid_def listedAuction_def at_addr_def bidCost_Inr_iff ebind_Inr_iff
      Let_def simp del: power_numeral split: if_splits)

lemma withdrawal_Inr_iff:
  "TCashAuction_bidWithdrawal mk s n = Inr mk' \<longleftrightarrow>
     ta_bider (mk_auction mk) n \<noteq> s \<and> 0 < ta_bidValue (mk_auction mk) n s \<and> ta_tcash (mk_auction mk) = mk_tcashAt mk \<and>
     tc_auction (mk_tcash mk) = mk_auctionAt mk \<and>
     ta_bidValue (mk_auction mk) n s \<le> tc_lockedBalances (mk_tcash mk) s \<and>
     mk' = mk\<lparr>mk_tcash := (mk_tcash mk)\<lparr>tc_lockedBalances := (tc_lockedBalances (mk_tcash mk))
                (s := tc_lockedBalances (mk_tcash mk) s - ta_bidValue (mk_auction mk) n s)\<rparr>,
              mk_auction := (mk_auction mk)\<lparr>ta_bidValue := (ta_bidValue (mk_auction mk))
                (n := (ta_bidValue (mk_auction mk) n)(s := 0))\<rparr>\<rparr>"
  by (auto simp: TCashAuction_bidWithdrawal_def at_addr_def bidBack_Inr_iff ebind_Inr_iff Let_def split: if_splits)

lemma sum_update:
  fixes f :: "nat \<Rightarrow> nat"
  assumes "n < k"
  shows "(\<Sum>i<k. (f(n := x)) i) + f n = (\<Sum>i<k. f i) + x"
proof -
  have "(\<Sum>i<k. g i) = g n + (\<Sum>i\<in>{..<k} - {n}. g i)" for g :: "nat \<Rightarrow> nat"
    using assms by (intro sum.remove) simp_all
  from this [of "f(n := x)"] this [of f] show ?thesis by simp
qed

lemma bids_of_update:
  assumes "n < length (ta_auctionList st)" and "length (ta_auctionList st') = length (ta_auctionList st)"
    and "ta_bidValue st' = (ta_bidValue st)(n := (ta_bidValue st n)(s := x))"
  shows "bids_of st' a + (if a = s then ta_bidValue st n s else 0) = bids_of st a + (if a = s then x else 0)"
proof (cases "a = s")
  case True
  have "ta_bidValue st' i s = ((\<lambda>i. ta_bidValue st i s)(n := x)) i" for i
    by (simp add: assms(3))
  then show ?thesis
    using sum_update [OF assms(1), of "\<lambda>i. ta_bidValue st i s" x] True assms(2)
    unfolding bids_of_def by (simp only: if_True simp_thms)
next
  case False
  have "ta_bidValue st' i a = ta_bidValue st i a" for i using False by (simp add: assms(3))
  with False assms(2) show ?thesis by (simp add: bids_of_def)
qed

lemma after_bid_fields:
  "ta_bider (after_bid st now s n v) = (ta_bider st)(n := s)"
  "ta_bidValue (after_bid st now s n v) = (ta_bidValue st)(n := (ta_bidValue st n)(s := ta_bidValue st n s + v))"
  "ta_auctionList (after_bid st now s n v) =
     (ta_auctionList st)[n := (ta_auctionList st ! n)\<lparr>au_nowValue := ta_bidValue st n s + v\<rparr>]"
  "ta_tcash (after_bid st now s n v) = ta_tcash st"
  "ta_isbider (after_bid st now s n v) = (ta_isbider st)(n := (ta_isbider st n)(s := True))"
  "ta_bidUsers (after_bid st now s n v) = (if ta_isbider st n s then ta_bidUsers st
     else (ta_bidUsers st)(n := ta_bidUsers st n @ [\<lparr>ab_time = now, ab_bider = s, ab_value = v\<rparr>]))"
  by (auto simp: after_bid_def Let_def fun_eq_iff)

lemma after_bid_ok:
  assumes "auction_ok st n" and "n < length (ta_auctionList st)" and "s \<noteq> 0"
    and "au_nowValue (ta_auctionList st ! n) < ta_bidValue st n s + v"
  shows "auction_ok (after_bid st now s n v) n"
proof -
  have lt: "ta_bidValue st n b < ta_bidValue st n s + v" if "b \<noteq> s" for b
    using assms(1,4) that by (cases "ta_bider st n = 0"; cases "b = ta_bider st n") (auto simp: auction_ok_def Let_def intro: order.strict_trans)
  have start: "au_startValue (ta_auctionList st ! n) < ta_bidValue st n s + v"
    using assms(1,4) by (auto simp: auction_ok_def Let_def split: if_splits)
  show ?thesis
    using assms lt start
    by (auto simp: auction_ok_def after_bid_fields Let_def image_iff)
qed

lemma bid_ok:
  assumes ok: "market_ok K mk" and "s \<noteq> 0" and run: "TCashAuction_bid T mk s n v = Inr mk'"
  shows "market_ok K mk'"
proof -
  let ?st = "mk_auction mk" and ?st' = "after_bid (mk_auction mk) (mk_time mk) s n v"
  from run have can: "can_bid T mk s n v" and mk': "mk' = mk\<lparr>mk_tcash := (mk_tcash mk)\<lparr>tc_lockedBalances :=
      (tc_lockedBalances (mk_tcash mk))(s := tc_lockedBalances (mk_tcash mk) s + v)\<rparr>, mk_auction := ?st'\<rparr>"
    by (simp_all add: bid_Inr_iff)
  from can have n: "n < length (ta_auctionList ?st)"
    and now: "au_nowValue (ta_auctionList ?st ! n) < ta_bidValue ?st n s + v"
    by (simp_all add: can_bid_def Let_def)
  have "auction_ok ?st' i" if "i < length (ta_auctionList ?st)" for i
  proof (cases "i = n")
    case True
    have "auction_ok ?st n" using ok n by (simp add: market_ok_def)
    from after_bid_ok [OF this n assms(2) now] True show ?thesis by simp
  next
    case False
    have "auction_ok ?st i" using ok that by (simp add: market_ok_def)
    then show ?thesis by (rule auction_ok_cong) (use False in \<open>simp_all add: after_bid_fields\<close>)
  qed
  moreover have "blank_slot ?st' i" if "length (ta_auctionList ?st) \<le> i" for i
  proof -
    have "blank_slot ?st i" using ok that by (simp add: market_ok_def)
    with n that show ?thesis by (simp add: blank_slot_def after_bid_fields)
  qed
  moreover have "bids_of ?st' a = bids_of ?st a + (if a = s then v else 0)" for a
    using bids_of_update [OF n, of ?st' s "ta_bidValue ?st n s + v" a] by (simp add: after_bid_fields split: if_splits)
  ultimately show ?thesis
    using ok by (simp add: market_ok_def mk' after_bid_fields)
qed

lemma withdrawal_ok:
  assumes ok: "market_ok K mk" and run: "TCashAuction_bidWithdrawal mk s n = Inr mk'"
  shows "market_ok K mk'"
proof -
  let ?st = "mk_auction mk"
  let ?st' = "?st\<lparr>ta_bidValue := (ta_bidValue ?st)(n := (ta_bidValue ?st n)(s := 0))\<rparr>"
  from run have w: "ta_bider ?st n \<noteq> s" "0 < ta_bidValue ?st n s"
      "ta_bidValue ?st n s \<le> tc_lockedBalances (mk_tcash mk) s"
    and mk': "mk' = mk\<lparr>mk_tcash := (mk_tcash mk)\<lparr>tc_lockedBalances := (tc_lockedBalances (mk_tcash mk))
                (s := tc_lockedBalances (mk_tcash mk) s - ta_bidValue ?st n s)\<rparr>, mk_auction := ?st'\<rparr>"
    by (simp_all add: withdrawal_Inr_iff)
  have n: "n < length (ta_auctionList ?st)"
    using ok w(2) by (auto simp: market_ok_def blank_slot_def intro: ccontr)
  have "auction_ok ?st' i" if "i < length (ta_auctionList ?st)" for i
  proof -
    have "auction_ok ?st i" using ok that by (simp add: market_ok_def)
    with w show ?thesis by (cases "i = n") (auto simp: auction_ok_def Let_def split: if_splits)
  qed
  moreover have "blank_slot ?st' i" if "length (ta_auctionList ?st) \<le> i" for i
    using ok that n by (simp add: market_ok_def blank_slot_def)
  moreover have "bids_of ?st' a = bids_of ?st a - (if a = s then ta_bidValue ?st n s else 0)" for a
    using bids_of_update [OF n, of ?st' s 0 a] by (simp split: if_splits)
  ultimately show ?thesis
    using ok by (simp add: market_ok_def mk')
qed

lemma start_ok:
  assumes ok: "market_ok K mk" and run: "TCashAuction_auctionStart mk s m d i = Inr mk'"
  shows "market_ok K mk'"
proof -
  let ?st = "mk_auction mk"
  obtain t where mk': "mk' = mk\<lparr>mk_auction := ?st\<lparr>ta_auctionList := ta_auctionList ?st @ [\<lparr>au_sales = m, au_startValue = d,
      au_nowValue = d, au_timeOver = t, au_state = 1, au_debt = i\<rparr>]\<rparr>\<rparr>"
    using run by (auto simp: TCashAuction_auctionStart_def Let_def ebind_Inr_iff)
  have blank: "blank_slot ?st (length (ta_auctionList ?st))"
    using ok by (simp add: market_ok_def)
  have "auction_ok (mk_auction mk') j" if "j < Suc (length (ta_auctionList ?st))" for j
  proof (cases "j = length (ta_auctionList ?st)")
    case True
    with blank show ?thesis by (simp add: mk' auction_ok_def blank_slot_def nth_append)
  next
    case False
    with that have j: "j < length (ta_auctionList ?st)" by simp
    with ok have "auction_ok ?st j" by (simp add: market_ok_def)
    then show ?thesis by (rule auction_ok_cong) (use j in \<open>simp_all add: mk' nth_append\<close>)
  qed
  with ok blank show ?thesis
    by (simp add: market_ok_def mk' bids_of_def blank_slot_def)
qed

lemma call_ok:
  assumes "market_ok K mk" and "s \<noteq> 0" and "\<And>u v. c = BidCost u v \<or> c = BidBack u v \<Longrightarrow> s \<noteq> mk_auctionAt mk" and "\<And>a. c = SetAuctionContract a \<Longrightarrow> a \<in> K"
    and "market_call T A P mk s c = Inr mk'"
  shows "market_ok K mk'"
proof (cases c)
  case (AuctionStart m d i)
  with assms show ?thesis by (simp add: start_ok)
next
  case (Bid n v)
  with assms show ?thesis by (simp add: bid_ok)
next
  case (BidWithdrawal n)
  with assms show ?thesis by (simp add: withdrawal_ok)
next
  case (BidCost u v)
  with assms(1,3) lock_calls(1) [OF assms(5) [unfolded BidCost]] show ?thesis by (auto simp: market_ok_def)
next
  case (BidBack u v)
  with assms(1,3) lock_calls(2) [OF assms(5) [unfolded BidBack]] show ?thesis by (auto simp: market_ok_def)
next
  case (SetAuctionContract a)
  with assms(1,4) lock_calls(3) [OF assms(5) [unfolded SetAuctionContract]] show ?thesis by (auto simp: market_ok_def)
qed (use other_calls_quiet [OF assms(5)] quiet_ok [OF assms(1)] in simp_all)

lemma call_same_contract:
  assumes "market_call T A P mk s c = Inr mk'"
  shows "mk_auctionAt mk' = mk_auctionAt mk"
proof (cases c)
  case (AuctionStart m d i)
  with assms show ?thesis by (auto simp: TCashAuction_auctionStart_def Let_def ebind_Inr_iff)
next
  case (Bid n v)
  with assms show ?thesis by (simp add: bid_Inr_iff)
next
  case (BidWithdrawal n)
  with assms show ?thesis by (simp add: withdrawal_Inr_iff)
next
  case (BidCost u v)
  with lock_calls(1) [OF assms [unfolded BidCost]] show ?thesis by auto
next
  case (BidBack u v)
  with lock_calls(2) [OF assms [unfolded BidBack]] show ?thesis by auto
next
  case (SetAuctionContract a)
  with lock_calls(3) [OF assms [unfolded SetAuctionContract]] show ?thesis by simp
qed (use other_calls_quiet [OF assms] in \<open>simp_all add: quiet_def\<close>)

lemma same_owner: "\<exists>owner. st = st\<lparr>ta_owner := owner\<rparr>" for st :: tcash_auction
  by (rule exI [of _ "ta_owner st"]) simp

lemma aside_quiet: "aside mk mk' \<Longrightarrow> quiet mk mk'"
  by (auto simp: aside_def quiet_def)

lemma step_ok: "market_step T A P K mk mk' \<Longrightarrow> market_ok K mk \<Longrightarrow> market_ok K mk'"
  by (induction rule: market_step.induct) (auto intro: call_ok quiet_ok aside_quiet)

lemma later_ok: "later T A P K mk mk' \<Longrightarrow> market_ok K mk \<Longrightarrow> market_ok K mk'"
  by (induction rule: rtranclp_induct) (auto intro: step_ok)

lemma later_same_contract: "later T A P K mk mk' \<Longrightarrow> mk_auctionAt mk' = mk_auctionAt mk"
proof (induction rule: rtranclp_induct)
  case (step y z)
  from step.hyps(2) have "mk_auctionAt z = mk_auctionAt y"
    by (induction rule: market_step.induct) (auto simp: call_same_contract aside_def)
  with step.IH show ?case by simp
qed simp

lemma market_reachable_ok: "market_reachable T A P K mk \<Longrightarrow> market_ok K mk"
  unfolding market_reachable_def using opened_ok later_ok by blast

section \<open>What holds for bidders\<close>

text \<open>C13: In every reachable state of the market, whatever contracts the owner of the token has named, in every
  auction with a bidder the bidder on record holds the highest bid: it is the current price, above the starting
  price and above everybody else's. As long as the owner of the token has named no other auction contract, what the
  token has locked of an account is the sum of its standing bids over all auctions.\<close>

theorem auction_books:
  assumes "market_reachable T A P K mk"
  shows "(K \<subseteq> {mk_auctionAt mk} \<longrightarrow> (\<forall>a. TCash_getLockedBalance (mk_tcash mk) a =
      (\<Sum>n<length (ta_auctionList (mk_auction mk)). ta_bidValue (mk_auction mk) n a))) \<and>
    (\<forall>n < length (ta_auctionList (mk_auction mk)). case TCashAuction_queryBider (mk_auction mk) n of (w, highest) \<Rightarrow>
       let auction = ta_auctionList (mk_auction mk) ! n in
       if w = 0 then au_nowValue auction = au_startValue auction
       else au_nowValue auction = highest \<and> au_startValue auction < highest \<and>
         (\<forall>b. b \<noteq> w \<longrightarrow> ta_bidValue (mk_auction mk) n b < highest))"
  using market_reachable_ok [OF assms]
  by (auto simp: market_ok_def auction_ok_def bids_of_def TCash_getLockedBalance_def TCashAuction_queryBider_def Let_def
      split: if_splits)

text \<open>C14: Whoever has a bid and is not the highest bidder can take it back exactly as long as the token knows this
  auction contract and has the bid locked, and that is so in every reachable state in which the owner of the token
  has named no other auction contract. The token then releases exactly the bid, and nobody else's bids or locks
  change. If the token knows another contract, the withdrawal reverts.\<close>

theorem losers_withdraw:
  assumes "market_reachable T A P K mk" and "ta_bider (mk_auction mk) n \<noteq> s" and "0 < ta_bidValue (mk_auction mk) n s"
  shows "(K \<subseteq> {mk_auctionAt mk} \<longrightarrow> tc_auction (mk_tcash mk) = mk_auctionAt mk \<and>
      ta_bidValue (mk_auction mk) n s \<le> TCash_getLockedBalance (mk_tcash mk) s) \<and>
    (if tc_auction (mk_tcash mk) = mk_auctionAt mk \<and> ta_bidValue (mk_auction mk) n s \<le> TCash_getLockedBalance (mk_tcash mk) s
     then \<exists>mk'. TCashAuction_bidWithdrawal mk s n = Inr mk' \<and>
       TCash_getLockedBalance (mk_tcash mk') s + ta_bidValue (mk_auction mk) n s = TCash_getLockedBalance (mk_tcash mk) s \<and>
       ta_bidValue (mk_auction mk') n s = 0 \<and>
       (\<forall>a. a \<noteq> s \<longrightarrow> TCash_getLockedBalance (mk_tcash mk') a = TCash_getLockedBalance (mk_tcash mk) a \<and>
          (\<forall>m. ta_bidValue (mk_auction mk') m a = ta_bidValue (mk_auction mk) m a))
     else \<exists>e. TCashAuction_bidWithdrawal mk s n = Inl e \<and>
       (tc_auction (mk_tcash mk) \<noteq> mk_auctionAt mk \<longrightarrow> e = ''Only auction contract can call''))"
proof -
  let ?st = "mk_auction mk"
  have ok: "market_ok K mk" by (rule market_reachable_ok [OF assms(1)])
  have "n < length (ta_auctionList ?st)"
    using ok assms(3) by (auto simp: market_ok_def blank_slot_def intro: ccontr)
  then have "ta_bidValue ?st n s \<le> bids_of ?st s"
    unfolding bids_of_def by (intro member_le_sum) simp_all
  moreover have "ta_tcash ?st = mk_tcashAt mk" using ok by (simp add: market_ok_def)
  ultimately show ?thesis
    using ok assms(2,3)
    by (auto simp: market_ok_def TCash_getLockedBalance_def TCashAuction_bidWithdrawal_def TCash_bidBack_def at_addr_def
        checked_sub_def require_def Let_def)
qed

section \<open>The winner\<close>

text \<open>Auction \<open>n\<close> is over and \<open>w\<close> has the highest bid, \<open>v\<close>.\<close>

definition won :: "nat \<Rightarrow> addr \<Rightarrow> nat \<Rightarrow> ('ac, 'tk) market \<Rightarrow> bool" where
  "won n w v mk \<longleftrightarrow> w \<noteq> 0 \<and> n < length (ta_auctionList (mk_auction mk)) \<and> ta_bider (mk_auction mk) n = w \<and>
     ta_bidValue (mk_auction mk) n w = v \<and> au_timeOver (ta_auctionList (mk_auction mk) ! n) \<le> mk_time mk"

lemma won_quiet:
  assumes "won n w v mk" and "quiet mk mk'"
  shows "won n w v mk'"
proof -
  have len: "length (ta_auctionList (mk_auction mk')) = length (ta_auctionList (mk_auction mk))"
    by (rule quiet_length [OF assms(2)])
  have "map au_timeOver (ta_auctionList (mk_auction mk')) ! n = map au_timeOver (ta_auctionList (mk_auction mk)) ! n"
    using assms by (simp add: won_def quiet_def)
  with assms len show ?thesis by (auto simp: won_def quiet_def)
qed

lemma won_call:
  assumes "won n w v mk" and "market_call T A P mk s c = Inr mk'"
  shows "won n w v mk'"
proof (cases c)
  case (AuctionStart m d i)
  with assms show ?thesis
    by (auto simp: TCashAuction_auctionStart_def Let_def ebind_Inr_iff won_def nth_append)
next
  case (Bid m u)
  with assms(2) have run: "can_bid T mk s m u" "mk_auction mk' = after_bid (mk_auction mk) (mk_time mk) s m u"
    "mk_time mk' = mk_time mk"
    by (simp_all add: bid_Inr_iff)
  then have "m \<noteq> n" using assms(1) by (auto simp: can_bid_def won_def Let_def)
  with assms(1) run show ?thesis by (simp add: won_def after_bid_fields)
next
  case (BidWithdrawal m)
  with assms show ?thesis by (auto simp: withdrawal_Inr_iff won_def)
next
  case (BidCost u x)
  with assms(1) lock_calls(1) [OF assms(2) [unfolded BidCost]] show ?thesis by (auto simp: won_def)
next
  case (BidBack u x)
  with assms(1) lock_calls(2) [OF assms(2) [unfolded BidBack]] show ?thesis by (auto simp: won_def)
next
  case (SetAuctionContract a)
  with assms(1) lock_calls(3) [OF assms(2) [unfolded SetAuctionContract]] show ?thesis by (simp add: won_def)
qed (use other_calls_quiet [OF assms(2)] won_quiet [OF assms(1)] in simp_all)

lemma won_later: "later T A P K mk mk' \<Longrightarrow> won n w v mk \<Longrightarrow> won n w v mk'"
proof (induction rule: rtranclp_induct)
  case (step y z)
  from step.hyps(2) step.IH [OF step.prems] show ?case
    by (induction rule: market_step.induct) (auto intro: won_call won_quiet aside_quiet)
qed

text \<open>What collecting an auction does to the balances.\<close>

lemma getAuction_burns:
  assumes "erc20_token T" and "TCashAuction_getAuction T A P mk s n = Inr mk'"
  shows "\<exists>m. TCashAuction_queryAuctionManager A mk = Inr m \<and>
    au_startValue (ta_auctionList (mk_auction mk) ! n) \<le> balanceOf T (tc_token (mk_tcash mk)) m \<and>
    (\<forall>b. balanceOf T (tc_token (mk_tcash mk')) b = (if b = m
       then balanceOf T (tc_token (mk_tcash mk)) b - au_startValue (ta_auctionList (mk_auction mk) ! n)
       else balanceOf T (tc_token (mk_tcash mk)) b))"
proof -
  obtain m t where "TCashAuction_queryAuctionManager A mk = Inr m"
    and burn: "erc_burn T (tc_token (mk_tcash mk)) m (au_startValue (ta_auctionList (mk_auction mk) ! n)) = Inr t"
    and "tc_token (mk_tcash mk') = t"
    using assms(2) by (auto simp: TCashAuction_getAuction_def TCash_burnFrom_def Let_def ebind_Inr_iff at_addr_def listedAuction_def
        split: if_splits)
  with erc20_token.burn_balance [OF assms(1) burn] show ?thesis by auto
qed

text \<open>C15: The winner of an auction does not pay his bid. From the end of the auction on he stays its highest bidder and
  can never withdraw the bid, whatever anybody does. Collecting the auction burns exactly the starting price, of the
  auction manager's tokens, and touches no other balance. As long as the owner of the token names no other auction
  contract, at least the price stays locked in the winner's balance; a contract the owner names instead can release
  any part of the lock.\<close>

theorem winner_never_pays:
  assumes "erc20_token T" and "market_reachable T A P K mk" and "n < length (ta_auctionList (mk_auction mk))"
    and "ta_bider (mk_auction mk) n = w" and "w \<noteq> 0"
    and "au_timeOver (ta_auctionList (mk_auction mk) ! n) \<le> mk_time mk" and "later T A P K mk mk'"
  shows "ta_bider (mk_auction mk') n = w \<and>
    TCashAuction_bidWithdrawal mk' w n = Inl ''TCashAuction: you are owner of bid'' \<and>
    (\<forall>mk''. TCashAuction_getAuction T A P mk' w n = Inr mk'' \<longrightarrow>
       (\<exists>m. TCashAuction_queryAuctionManager A mk' = Inr m \<and>
          au_startValue (ta_auctionList (mk_auction mk') ! n) \<le> balanceOf T (tc_token (mk_tcash mk')) m \<and>
          (\<forall>b. balanceOf T (tc_token (mk_tcash mk'')) b = (if b = m
             then balanceOf T (tc_token (mk_tcash mk')) b - au_startValue (ta_auctionList (mk_auction mk') ! n)
             else balanceOf T (tc_token (mk_tcash mk')) b)))) \<and>
    (K \<subseteq> {mk_auctionAt mk} \<longrightarrow>
       au_nowValue (ta_auctionList (mk_auction mk) ! n) \<le> TCash_getLockedBalance (mk_tcash mk') w) \<and>
    (\<forall>x. \<exists>t. TCash_setAuctionContract (mk_tcash mk') (tc_owner (mk_tcash mk')) x = Inr t \<and>
       (\<forall>v \<le> TCash_getLockedBalance (mk_tcash mk') w. \<exists>t'. TCash_bidBack t x w v = Inr t' \<and>
          TCash_getLockedBalance t' w = TCash_getLockedBalance (mk_tcash mk') w - v))"
proof -
  let ?v = "ta_bidValue (mk_auction mk) n w"
  have ok: "market_ok K mk" by (rule market_reachable_ok [OF assms(2)])
  then have now: "au_nowValue (ta_auctionList (mk_auction mk) ! n) = ?v"
    using assms(3-5) by (auto simp: market_ok_def auction_ok_def Let_def)
  have "won n w ?v mk" using assms(3-6) by (simp add: won_def)
  then have won: "won n w ?v mk'" by (rule won_later [OF assms(7)])
  have ok': "market_ok K mk'" by (rule later_ok [OF assms(7) ok])
  have "ta_bidValue (mk_auction mk') n w \<le> bids_of (mk_auction mk') w"
    unfolding bids_of_def using won by (intro member_le_sum) (simp_all add: won_def)
  then have locked: "?v \<le> TCash_getLockedBalance (mk_tcash mk') w" if "K \<subseteq> {mk_auctionAt mk}"
    using won ok' that later_same_contract [OF assms(7)] by (simp add: market_ok_def won_def TCash_getLockedBalance_def)
  have release: "\<exists>t. TCash_setAuctionContract (mk_tcash mk') (tc_owner (mk_tcash mk')) x = Inr t \<and>
      (\<forall>v \<le> TCash_getLockedBalance (mk_tcash mk') w. \<exists>t'. TCash_bidBack t x w v = Inr t' \<and>
         TCash_getLockedBalance t' w = TCash_getLockedBalance (mk_tcash mk') w - v)" for x
    by (auto simp: TCash_setAuctionContract_def onlyOwner_def bidBack_Inr_iff TCash_getLockedBalance_def)
  have "ta_bider (mk_auction mk') n = w" "TCashAuction_bidWithdrawal mk' w n = Inl ''TCashAuction: you are owner of bid''"
    using won by (simp_all add: won_def TCashAuction_bidWithdrawal_def)
  then show ?thesis
    by (intro conjI allI impI) (assumption | rule getAuction_burns [OF assms(1)] release
        | rule ord_eq_le_trans [OF now], rule locked)+
qed

section \<open>Bids over the balance\<close>

text \<open>C16: The token checks a bid against the whole balance and not against what is left of it. An account that has
  just bid in one auction can bid its whole balance again in another; once more is locked than it owns,
  every transfer of its tokens reverts with an arithmetic panic, even of nothing.\<close>

theorem bids_overcommit:
  assumes "TCashAuction_bid T mk s n v = Inr mk1" and "m \<noteq> n" and "m < length (ta_auctionList (mk_auction mk))"
    and "mk_time mk < au_timeOver (ta_auctionList (mk_auction mk) ! m)"
    and "au_nowValue (ta_auctionList (mk_auction mk) ! m) < ta_bidValue (mk_auction mk) m s + u"
    and "ta_bidValue (mk_auction mk) m s + u < 2 ^ 256"
    and "u \<le> balanceOf T (tc_token (mk_tcash mk)) s"
    and "TCash_getLockedBalance (mk_tcash mk) s + v + u < 2 ^ 256"
  shows "\<exists>mk2. TCashAuction_bid T mk1 s m u = Inr mk2 \<and>
    TCash_getLockedBalance (mk_tcash mk2) s = TCash_getLockedBalance (mk_tcash mk) s + v + u \<and>
    (balanceOf T (tc_token (mk_tcash mk)) s < TCash_getLockedBalance (mk_tcash mk) s + v + u \<longrightarrow>
       (\<forall>a k. TCash_transfer T (mk_tcash mk2) s a k = Inl ''Panic(0x11)''))"
proof -
  from assms(1) have can: "can_bid T mk s n v" and mk1: "mk_auction mk1 = after_bid (mk_auction mk) (mk_time mk) s n v"
      "mk_tcash mk1 = (mk_tcash mk)\<lparr>tc_lockedBalances := (tc_lockedBalances (mk_tcash mk))
         (s := tc_lockedBalances (mk_tcash mk) s + v)\<rparr>"
      "mk_time mk1 = mk_time mk" "mk_tcashAt mk1 = mk_tcashAt mk" "mk_auctionAt mk1 = mk_auctionAt mk"
    by (simp_all add: bid_Inr_iff)
  have "can_bid T mk1 s m u"
    using can assms(2-8) by (simp add: can_bid_def mk1 after_bid_fields Let_def TCash_getLockedBalance_def add.assoc)
  moreover have "TCash_transfer T t s a k = Inl ''Panic(0x11)''"
    if "balanceOf T (tc_token t) s < tc_lockedBalances t s" for t a k
    by (rule transfers_panic(1) [OF that])
  ultimately show ?thesis
    unfolding bid_Inr_iff by (auto simp: mk1 TCash_getLockedBalance_def)
qed

section \<open>A small market\<close>

text \<open>Two auctions of the loan contract at 33; account 41 owns 100 tokens, 42 is the auction manager.\<close>

definition demo_tcash :: "ledger tcash" where
  "demo_tcash = \<lparr>tc_initialized = True, tc_owner = 9, tc_roles = 2, tc_oracle = 0,
     tc_token = (\<lambda>_. 0)(41 := 100, 42 := 500, 43 := 100), tc_lockedBalances = (\<lambda>_. 0), tc_auction = 31\<rparr>"

definition demo_auctions :: tcash_auction where
  "demo_auctions = \<lparr>ta_initialized = True, ta_owner = 9, ta_auctionList = [], ta_bider = (\<lambda>_. 0),
     ta_bidValue = (\<lambda>_ _. 0), ta_bidUsers = (\<lambda>_. []), ta_isbider = (\<lambda>_ _. False), ta_bidDuration = 600,
     ta_tcash = 32, ta_loan = 33, ta_roles = 2\<rparr>"

definition demo_market :: "(acl, ledger) market" where
  "demo_market = \<lparr>mk_auctionAt = 31, mk_tcashAt = 32, mk_loanAt = 33, mk_rolesAt = 2, mk_oracleAt = 34,
     mk_auction = demo_auctions, mk_tcash = demo_tcash,
     mk_loan = blank_loan\<lparr>l_initialized := True, l_owner := 9, l_tcash := 32, l_roles := 2, l_parameterInfo := 5,
       l_oracle := 34, l_tat := 35, l_auction := 31, l_systemRiskFactor := 10000, l_OLB := 1000, l_TLD := 1000, l_balance := 1000\<rparr>,
     mk_roles = \<lparr>r_initialized = True, r_owner = 9, r_mulSig = 1, r_access = acl_empty\<rparr>, mk_oracle = demo_oracle,
     mk_time = 1000\<rparr>"

text \<open>Two auctions are started, and account 41 bids in the first; then the time of the first runs out.\<close>

definition demo_entry :: auction where
  "demo_entry = \<lparr>au_sales = 10, au_startValue = 50, au_nowValue = 50, au_timeOver = 1600, au_state = 1, au_debt = 5\<rparr>"

definition demo_started :: "(acl, ledger) market" where
  "demo_started = demo_market\<lparr>mk_auction := demo_auctions\<lparr>ta_auctionList := [demo_entry, demo_entry]\<rparr>\<rparr>"

definition demo_locked :: "addr \<Rightarrow> nat \<Rightarrow> (acl, ledger) market \<Rightarrow> (acl, ledger) market" where
  "demo_locked a v mk = mk\<lparr>mk_tcash := (mk_tcash mk)\<lparr>tc_lockedBalances := (tc_lockedBalances (mk_tcash mk))
     (a := tc_lockedBalances (mk_tcash mk) a + v)\<rparr>, mk_auction := after_bid (mk_auction mk) (mk_time mk) a 0 v\<rparr>"

lemma demo_market_fields [simp]:
  "mk_tcash demo_started = demo_tcash" "mk_auction demo_started = demo_auctions\<lparr>ta_auctionList := [demo_entry, demo_entry]\<rparr>"
  "mk_time demo_started = 1000" "mk_tcashAt demo_started = 32" "mk_auctionAt demo_started = 31"
  "tc_auction demo_tcash = 31" "tc_lockedBalances demo_tcash a = 0" "ta_tcash demo_auctions = 32"
  "ta_bider demo_auctions n = 0" "ta_bidValue demo_auctions n a = 0" "au_timeOver demo_entry = 1600"
  "au_nowValue demo_entry = 50" "balanceOf reference_token (tc_token demo_tcash) 41 = 100"
  "balanceOf reference_token (tc_token demo_tcash) 43 = 100"
  by (simp_all add: demo_started_def demo_market_def demo_tcash_def demo_auctions_def demo_entry_def reference_token_def)

lemma demo_started_reachable: "market_reachable reference_token reference_access P {31} demo_started"
proof -
  let ?step = "market_step reference_token reference_access P {31}"
  let ?mk1 = "demo_market\<lparr>mk_auction := demo_auctions\<lparr>ta_auctionList := [demo_entry]\<rparr>\<rparr>"
  have "?step demo_market ?mk1"
    by (rule market_step.call [where s = 33 and c = "AuctionStart 10 50 5"])
      (simp_all add: TCashAuction_auctionStart_def demo_market_def demo_auctions_def demo_entry_def checked_def Let_def)
  moreover have "?step ?mk1 demo_started"
    by (rule market_step.call [where s = 33 and c = "AuctionStart 10 50 5"])
      (simp_all add: TCashAuction_auctionStart_def demo_started_def demo_market_def demo_auctions_def demo_entry_def
        checked_def Let_def)
  moreover have "opened demo_market"
    by (simp add: opened_def demo_market_def demo_auctions_def demo_tcash_def)
  ultimately show ?thesis
    unfolding market_reachable_def by (blast intro: rtranclp.intros)
qed

lemma demo_bid: "TCashAuction_bid reference_token demo_started 41 0 70 = Inr (demo_locked 41 70 demo_started)"
  unfolding bid_Inr_iff by (simp add: can_bid_def demo_locked_def)

definition demo_bidden :: "(acl, ledger) market" where
  "demo_bidden = demo_locked 41 70 demo_started"

definition demo_outbid :: "(acl, ledger) market" where
  "demo_outbid = demo_locked 43 80 demo_bidden"

lemma demo_bidden_fields [simp]:
  "mk_auction demo_bidden = after_bid (mk_auction demo_started) 1000 41 0 70" "mk_time demo_bidden = 1000"
  "mk_tcash demo_bidden = demo_tcash\<lparr>tc_lockedBalances := (tc_lockedBalances demo_tcash)(41 := 70)\<rparr>"
  "mk_tcashAt demo_bidden = 32" "mk_auctionAt demo_bidden = 31"
  by (simp_all add: demo_bidden_def demo_locked_def)

lemma demo_overbid: "TCashAuction_bid reference_token demo_bidden 43 0 80 = Inr demo_outbid"
  unfolding bid_Inr_iff by (simp add: can_bid_def demo_outbid_def demo_locked_def after_bid_fields)

lemma reachable_step:
  "market_reachable T A P K mk \<Longrightarrow> s \<noteq> 0 \<Longrightarrow> (\<And>u v. c = BidCost u v \<or> c = BidBack u v \<Longrightarrow> s \<noteq> mk_auctionAt mk) \<Longrightarrow>
     (\<And>a. c = SetAuctionContract a \<Longrightarrow> a \<in> K) \<Longrightarrow> market_call T A P mk s c = Inr mk' \<Longrightarrow> market_reachable T A P K mk'"
  unfolding market_reachable_def by (blast intro: rtranclp.rtrancl_into_rtrancl market_step.call)

lemma demo_reached:
  "market_reachable reference_token reference_access P {31} demo_bidden"
  "market_reachable reference_token reference_access P {31} demo_outbid"
proof -
  show bidden: "market_reachable reference_token reference_access P {31} demo_bidden"
    by (rule reachable_step [OF demo_started_reachable, where s = 41 and c = "Bid 0 70"]) (simp_all add: demo_bid demo_bidden_def)
  show "market_reachable reference_token reference_access P {31} demo_outbid"
    by (rule reachable_step [OF bidden, where s = 43 and c = "Bid 0 80"]) (simp_all add: demo_overbid)
qed

lemma auction_books_witness:
  "TCash_getLockedBalance (mk_tcash demo_bidden) 41 =
     (\<Sum>n<length (ta_auctionList (mk_auction demo_bidden)). ta_bidValue (mk_auction demo_bidden) n 41)"
proof -
  have "{31} \<subseteq> {mk_auctionAt demo_bidden}" by simp
  with auction_books [OF demo_reached(1)] show ?thesis by blast
qed

lemma losers_withdraw_witness:
  "\<exists>mk'. TCashAuction_bidWithdrawal demo_outbid 41 0 = Inr mk' \<and> TCash_getLockedBalance (mk_tcash mk') 41 = 0"
  using losers_withdraw [OF demo_reached(2), of 0 41]
  by (auto simp: demo_outbid_def demo_locked_def after_bid_fields TCash_getLockedBalance_def)

text \<open>The clock passes the end of the auctions; at the end nothing has happened to the winner's tokens.\<close>

definition demo_over :: "(acl, ledger) market" where
  "demo_over = demo_bidden\<lparr>mk_time := 2000, mk_roles := (mk_roles demo_bidden)\<lparr>r_access :=
     Roles_assign reference_access acl_empty 1 [10] [42] [] [] [31]\<rparr>\<rparr>"

lemma demo_over_reached: "market_reachable reference_token reference_access P {31} demo_over"
proof -
  have "market_step reference_token reference_access P {31} demo_bidden demo_over"
    by (rule market_step.other) (simp add: aside_def demo_over_def, rule same_owner)
  with demo_reached(1) show ?thesis
    unfolding market_reachable_def by (blast intro: rtranclp.rtrancl_into_rtrancl)
qed

lemma demo_over_roles:
  "hasRole reference_access (r_access (mk_roles demo_over)) TCASH_BURNER 31"
  "roleMembers reference_access (r_access (mk_roles demo_over)) AUCTION_MANAGER = [42]"
proof -
  have e: "r_access (mk_roles demo_over) = Roles_assign reference_access acl_empty 1 [10] [42] [] [] [31]"
    by (simp add: demo_over_def)
  show "hasRole reference_access (r_access (mk_roles demo_over)) TCASH_BURNER 31"
    unfolding e by (simp add: ref.assign_hasRole)
  show "roleMembers reference_access (r_access (mk_roles demo_over)) AUCTION_MANAGER = [42]"
    unfolding e by (simp add: Roles_assign_def reference_defs role_defs)
qed

lemma demo_over_fields [simp]:
  "mk_auction demo_over = after_bid (mk_auction demo_started) 1000 41 0 70" "mk_time demo_over = 2000"
  "mk_tcash demo_over = demo_tcash\<lparr>tc_lockedBalances := (tc_lockedBalances demo_tcash)(41 := 70)\<rparr>"
  "mk_tcashAt demo_over = 32" "mk_auctionAt demo_over = 31" "mk_loanAt demo_over = 33" "mk_rolesAt demo_over = 2"
  "mk_loan demo_over = mk_loan demo_market"
  by (simp_all add: demo_over_def demo_bidden_def demo_locked_def demo_started_def demo_market_def)

lemma demo_collects:
  "\<exists>mk'. TCashAuction_getAuction reference_token reference_access (\<lambda>_. True) demo_over 41 0 = Inr mk'"
proof -
  have "TCashAuction_queryAuctionManager reference_access demo_over = Inr 42"
    using demo_over_roles(2) by (simp add: TCashAuction_queryAuctionManager_def at_addr_def Roles_getRoleMember_def
        after_bid_fields demo_auctions_def after_bid_def)
  then show ?thesis
    using demo_over_roles(1)
    by (simp add: TCashAuction_getAuction_def listedAuction_def at_addr_def TCashLoan_auctionOver_def TCash_burnFrom_def roleGuard_def
        after_bid_def demo_auctions_def demo_entry_def demo_tcash_def demo_market_def reference_token_def checked_def checked_sub_def
        require_def blank_loan_def Let_def)
qed

lemma winner_never_pays_witness:
  "70 \<le> TCash_getLockedBalance (mk_tcash demo_over) 41 \<and>
   TCashAuction_bidWithdrawal demo_over 41 0 = Inl ''TCashAuction: you are owner of bid'' \<and>
   (\<exists>mk' m. TCashAuction_getAuction reference_token reference_access (\<lambda>_. True) demo_over 41 0 = Inr mk' \<and>
      TCashAuction_queryAuctionManager reference_access demo_over = Inr m \<and>
      balanceOf reference_token (tc_token (mk_tcash mk')) m + 50 = balanceOf reference_token (tc_token demo_tcash) m)"
proof -
  obtain mk' where run: "TCashAuction_getAuction reference_token reference_access (\<lambda>_. True) demo_over 41 0 = Inr mk'"
    using demo_collects by blast
  have "au_startValue (ta_auctionList (mk_auction demo_over) ! 0) = 50"
    by (simp add: after_bid_fields demo_entry_def)
  with run winner_never_pays [OF ledger.erc20_token_axioms demo_over_reached [of "\<lambda>_. True"], of 0 41 demo_over]
  show ?thesis by (auto simp: after_bid_fields)
qed

lemma bids_overcommit_witness:
  "\<exists>mk2. TCashAuction_bid reference_token demo_bidden 41 1 60 = Inr mk2 \<and>
     (\<forall>a k. TCash_transfer reference_token (mk_tcash mk2) 41 a k = Inl ''Panic(0x11)'')"
proof -
  have run: "TCashAuction_bid reference_token demo_started 41 0 70 = Inr demo_bidden"
    by (simp add: demo_bid demo_bidden_def)
  show ?thesis
    using bids_overcommit [OF run, of 1 60] by (auto simp: TCash_getLockedBalance_def)
qed

end
