(* ===== verification/DeployedNet.thy ===== *)
theory DeployedNet
  imports DeploySafety MulSigSafety MarketSafety PlatformContracts Demo
begin

text \<open>
  A hardhat node over the contract models: the chain is the list of the deployed contracts, each in its own model,
  and an operation of a deployment script runs the initialiser or method of the contract it is for. The node of a
  site is an instance of the parameter \<open>hardhat\<close> of the deployment scripts. The notation of addresses and
  roles, the addresses of new contracts, the libraries and the clock are fields of the site.
\<close>

section \<open>Sites and nets\<close>

datatype ('ac, 'tk) contract =
    CDAO dao
  | CMulSig mulsig
  | CRoles "'ac roles"
  | CParameterInfo parameter_info
  | COracle oracle_state
  | CGovernance governance
  | CProducer producer
  | CData production_data
  | CTAT tat
  | CTCash "'tk tcash"
  | CWrapped "'ac wrapped"
  | CTATManager tat_manager
  | CLoan loan
  | CAuction tcash_auction
  | CTokens crosschain_tokens
  | CBridge bridge

text \<open>The contracts in the order of their creation, and the number of the last block: every operation takes one.\<close>

record ('ac, 'tk) net =
  nt_contracts :: "('ac, 'tk) contract list"
  nt_block :: nat

record ('ac, 'tk) site =
  s_access :: "'ac oz_access"
  s_storage :: 'ac
  s_token :: "'tk erc20"
  s_ledger :: 'tk
  s_sender :: addr
  s_accounts :: "addr list"
  s_text :: "addr \<Rightarrow> string"
  s_address :: "string \<Rightarrow> addr fallible"
  s_fresh :: "nat \<Rightarrow> addr"
  s_role :: "string \<Rightarrow> bytes32 fallible"
  s_roleText :: "bytes32 \<Rightarrow> string"
  s_hash :: "nat \<Rightarrow> string"
  s_time :: "nat \<Rightarrow> nat"
  s_isoNow :: "nat \<Rightarrow> string"
  s_env :: "string \<Rightarrow> string option"

text \<open>The contract of a name before it is initialised: zero everywhere.\<close>

definition blank_oracle :: oracle_state where
  "blank_oracle = \<lparr>o_initialized = False, o_owner = 0, o_roleController = 0, o_currencyValues = (\<lambda>_. 0),
     o_commitments = (\<lambda>_. Bytes0), o_tcashMintStatus = False, o_tcashMintLockPrice = 0,
     o_prices = (\<lambda>_. \<lparr>pd_price = 0, pd_timestamp = 0\<rparr>), o_supportedSymbols = (\<lambda>_. False)\<rparr>"

definition blank_param :: parameter_info where
  "blank_param = \<lparr>pi_initialized = False, pi_mulSig = 0, pi_API = 0, pi_sulphur = 0, pi_discount = [0, 0, 0, 0],
     pi_platformConfig = (\<lambda>_. 0), pi_warnRatio = 0, pi_liquidationRatio = 0\<rparr>"

definition blank_governance :: governance where
  "blank_governance = \<lparr>g_initialized = False, g_owner = 0, g_role = 0, g_parameterInfo = 0, g_mulSig = 0, g_dao = 0,
     g_treasures = (\<lambda>_. no_treasure)\<rparr>"

definition blank_producer :: producer where
  "blank_producer = \<lparr>p_initialized = False, p_mulSig = 0, p_roles = 0, p_asset_type = '''', p_productionData = 0,
     p_dapps = (\<lambda>_. 0)\<rparr>"

definition blank_tokens :: crosschain_tokens where
  "blank_tokens = \<lparr>ct_initialized = False, ct_owner = 0, ct_mulSig = 0, ct_tokens = (\<lambda>_ _. empty_info)\<rparr>"

definition blank_dao :: dao where
  "blank_dao = \<lparr>da_initialized = False, da_owner = 0, da_name = '''', da_minDelay = 0, da_deployedBlockTime = 0,
     da_blockReward = 0, da_blockRatio = 0, da_votingPeriod = 0\<rparr>"

definition blank_data :: production_data where
  "blank_data = \<lparr>pd_initialized = False, pd_kind = '''', pd_oracle = 0, pd_roles = 0, pd_parameterInfo = 0,
     pd_producer = 0, pd_tat = 0\<rparr>"

definition blank_tat :: tat where
  "blank_tat = \<lparr>tt_initialized = False, tt_owner = 0, tt_name = '''', tt_symbol = '''', tt_governance = 0,
     tt_records = (\<lambda>_. \<lparr>tr_months = [0, 0, 0], tr_amounts = [0, 0, 0], tr_currentIndex = 0\<rparr>)\<rparr>"

definition blank_auction :: tcash_auction where
  "blank_auction = \<lparr>ta_initialized = False, ta_owner = 0, ta_auctionList = [], ta_bider = (\<lambda>_. 0),
     ta_bidValue = (\<lambda>_ _. 0), ta_bidUsers = (\<lambda>_. []), ta_isbider = (\<lambda>_ _. False), ta_bidDuration = 0,
     ta_tcash = 0, ta_loan = 0, ta_roles = 0\<rparr>"

definition blank_bridge :: bridge where
  "blank_bridge = \<lparr>br_initialized = False, br_owner = 0, br_crosschainTokens = 0, br_roles = 0, br_currentId = 0,
     br_lastCleanedId = 0\<rparr>"

definition blank_roles :: "('ac, 'tk) site \<Rightarrow> 'ac roles" where
  "blank_roles S = \<lparr>r_initialized = False, r_owner = 0, r_mulSig = 0, r_access = s_storage S\<rparr>"

definition blank_tcash :: "('ac, 'tk) site \<Rightarrow> 'tk tcash" where
  "blank_tcash S = \<lparr>tc_initialized = False, tc_owner = 0, tc_roles = 0, tc_oracle = 0, tc_token = s_ledger S,
     tc_lockedBalances = (\<lambda>_. 0), tc_auction = 0\<rparr>"

definition newContract :: "('ac, 'tk) site \<Rightarrow> string \<Rightarrow> ('ac, 'tk) contract fallible" where
  "newContract S name =
     (if name = ''DAO'' then Inr (CDAO blank_dao)
      else if name = ''MulSig'' then Inr (CMulSig blank_mulsig)
      else if name = ''Roles'' then Inr (CRoles (blank_roles S))
      else if name = ''ParameterInfo'' then Inr (CParameterInfo blank_param)
      else if name = ''Oracle'' then Inr (COracle blank_oracle)
      else if name = ''Governance'' then Inr (CGovernance blank_governance)
      else if name \<in> {''OilProducer'', ''GasProducer'', ''EthProducer'', ''BtcProducer''} then Inr (CProducer blank_producer)
      else if name \<in> {''OilData'', ''GasData'', ''EthData'', ''BtcData''} then Inr (CData blank_data)
      else if name = ''TAT'' then Inr (CTAT blank_tat)
      else if name = ''TCash'' then Inr (CTCash (blank_tcash S))
      else if name \<in> {''WTCASH'', ''WUNIT''} then Inr (CWrapped \<lparr>wr_initialized = False, wr_access = s_storage S\<rparr>)
      else if name = ''TATManager'' then Inr (CTATManager \<lparr>tm_initialized = False, tm_owner = 0, tm_roles = 0\<rparr>)
      else if name = ''TCashLoan'' then Inr (CLoan blank_loan)
      else if name = ''TCashAuction'' then Inr (CAuction blank_auction)
      else if name = ''CrosschainTokens'' then Inr (CTokens blank_tokens)
      else if name = ''CrosschainBridge'' then Inr (CBridge blank_bridge)
      else Inl (''HH700: Artifact for contract '' @ name @ '' not found''))"

section \<open>Calls\<close>

fun emap :: "('a \<Rightarrow> 'e + 'b) \<Rightarrow> 'a list \<Rightarrow> 'e + 'b list" where
  "emap f [] = Inr []"
| "emap f (x # xs) = ebind (f x) (\<lambda>y. ebind (emap f xs) (\<lambda>ys. Inr (y # ys)))"

fun strArg :: "arg \<Rightarrow> string fallible" where
  "strArg (ArgStr (Some s)) = Inr s"
| "strArg _ = Inl ''invalid string value''"

fun numArg :: "arg \<Rightarrow> nat fallible" where
  "numArg (ArgNum n) = Inr n"
| "numArg _ = Inl ''invalid BigNumberish value''"

fun addrArg :: "('ac, 'tk) site \<Rightarrow> arg \<Rightarrow> addr fallible" where
  "addrArg S (ArgStr (Some s)) = s_address S s"
| "addrArg S _ = Inl ''unsupported addressable value''"

fun strsArg :: "arg \<Rightarrow> string list fallible" where
  "strsArg (ArgList xs) = emap (\<lambda>x. strArg (ArgStr x)) xs"
| "strsArg _ = Inl ''invalid array value''"

fun addrsArg :: "('ac, 'tk) site \<Rightarrow> arg \<Rightarrow> addr list fallible" where
  "addrsArg S (ArgList xs) = emap (\<lambda>x. addrArg S (ArgStr x)) xs"
| "addrsArg S _ = Inl ''invalid array value''"

definition noFragment :: "string \<Rightarrow> 'a fallible" where
  "noFragment method = Inl (''no matching fragment: '' @ method)"

definition wrap :: "('x \<Rightarrow> 'c) \<Rightarrow> 'x fallible \<Rightarrow> 'c fallible" where
  "wrap C r = ebind r (\<lambda>x. Inr (C x))"

definition indexOf :: "('ac, 'tk) site \<Rightarrow> ('ac, 'tk) contract list \<Rightarrow> addr \<Rightarrow> nat option" where
  "indexOf S cs a = find (\<lambda>k. s_fresh S k = a) [0..<length cs]"

definition contractAt :: "('ac, 'tk) site \<Rightarrow> ('ac, 'tk) contract list \<Rightarrow> addr \<Rightarrow> ('ac, 'tk) contract option" where
  "contractAt S cs a = map_option ((!) cs) (indexOf S cs a)"

definition net_roles :: "('ac, 'tk) site \<Rightarrow> ('ac, 'tk) contract list \<Rightarrow> addr \<Rightarrow> 'ac roles fallible" where
  "net_roles S cs a = (case contractAt S cs a of Some (CRoles r) \<Rightarrow> Inr r | _ \<Rightarrow> Inl '''')"

text \<open>
  The methods that the deployment scripts call, on the state of one contract: the arguments are encoded for the
  signature of the method, then its model runs. \<open>self\<close> is the address of the contract, \<open>sender\<close> the account.
\<close>

definition call_roles ::
    "('ac, 'tk) site \<Rightarrow> 'ac roles \<Rightarrow> addr \<Rightarrow> string \<Rightarrow> arg list \<Rightarrow> 'ac roles fallible" where
  "call_roles S st sender method args =
     (if method = ''initialize'' then (case args of [m, fm, am, fe, cs, tm] \<Rightarrow>
        ebind (addrArg S m) (\<lambda>m. ebind (addrsArg S fm) (\<lambda>fm. ebind (addrsArg S am) (\<lambda>am.
        ebind (addrsArg S fe) (\<lambda>fe. ebind (addrsArg S cs) (\<lambda>cs. ebind (addrsArg S tm) (\<lambda>tm.
        Roles_initialize (s_access S) st sender m fm am fe cs tm)))))) | _ \<Rightarrow> noFragment method)
      else if method = ''grantRole'' then (case args of [role, account] \<Rightarrow>
        ebind (strArg role) (\<lambda>role. ebind (s_role S role) (\<lambda>role. ebind (addrArg S account) (\<lambda>account.
        ebind (grantRole (s_access S) (r_access st) sender role account) (\<lambda>ac.
        Inr (st\<lparr>r_access := ac\<rparr>))))) | _ \<Rightarrow> noFragment method)
      else noFragment method)"

definition call_mulSig :: "('ac, 'tk) site \<Rightarrow> mulsig \<Rightarrow> addr \<Rightarrow> string \<Rightarrow> arg list \<Rightarrow> mulsig fallible" where
  "call_mulSig S st sender method args =
     (if method = ''initialize'' then (case args of [d, g, r, p, t, n] \<Rightarrow>
        ebind (addrArg S d) (\<lambda>d. ebind (addrArg S g) (\<lambda>g. ebind (addrArg S r) (\<lambda>r.
        ebind (addrArg S p) (\<lambda>p. ebind (addrArg S t) (\<lambda>t. ebind (numArg n) (\<lambda>n.
        MulSig_initialize st sender d g r p t n)))))) | _ \<Rightarrow> noFragment method)
      else noFragment method)"

definition call_dao :: "nat \<Rightarrow> dao \<Rightarrow> addr \<Rightarrow> string \<Rightarrow> arg list \<Rightarrow> dao fallible" where
  "call_dao block st sender method args =
     (if method = ''initialize'' then (case args of [name, delay, period] \<Rightarrow>
        ebind (strArg name) (\<lambda>name. ebind (numArg delay) (\<lambda>delay. ebind (numArg period) (\<lambda>period.
        DAO_initialize block st sender name delay period))) | _ \<Rightarrow> noFragment method)
      else noFragment method)"

definition call_param :: "('ac, 'tk) site \<Rightarrow> parameter_info \<Rightarrow> string \<Rightarrow> arg list \<Rightarrow> parameter_info fallible" where
  "call_param S st method args =
     (if method = ''initialize'' then (case args of [m] \<Rightarrow>
        ebind (addrArg S m) (\<lambda>m. ParameterInfo_initialize st m) | _ \<Rightarrow> noFragment method)
      else noFragment method)"

definition call_oracle ::
    "('ac, 'tk) site \<Rightarrow> (addr \<Rightarrow> 'ac roles fallible) \<Rightarrow> nat \<Rightarrow> oracle_state \<Rightarrow> addr \<Rightarrow> string \<Rightarrow> arg list \<Rightarrow>
      oracle_state fallible" where
  "call_oracle S rs now st sender method args =
     (if method = ''initialize'' then (case args of [r] \<Rightarrow>
        ebind (addrArg S r) (\<lambda>r. Oracle_initialize st sender r) | _ \<Rightarrow> noFragment method)
      else if method = ''updatePrice'' then (case args of [symbol, price] \<Rightarrow>
        ebind (strArg symbol) (\<lambda>symbol. ebind (numArg price) (\<lambda>price.
        Oracle_updatePrice (s_access S) rs now st sender symbol price)) | _ \<Rightarrow> noFragment method)
      else noFragment method)"

definition call_governance ::
    "('ac, 'tk) site \<Rightarrow> governance \<Rightarrow> addr \<Rightarrow> string \<Rightarrow> arg list \<Rightarrow> governance fallible" where
  "call_governance S st sender method args =
     (if method = ''initialize'' then (case args of [d, m, r, p, kinds, producers, datas] \<Rightarrow>
        ebind (addrArg S d) (\<lambda>d. ebind (addrArg S m) (\<lambda>m. ebind (addrArg S r) (\<lambda>r. ebind (addrArg S p) (\<lambda>p.
        ebind (strsArg kinds) (\<lambda>kinds. ebind (addrsArg S producers) (\<lambda>producers. ebind (addrsArg S datas) (\<lambda>datas.
        Governance_initialize st sender d m r p kinds producers datas))))))) | _ \<Rightarrow> noFragment method)
      else noFragment method)"

definition call_producer :: "('ac, 'tk) site \<Rightarrow> producer \<Rightarrow> string \<Rightarrow> arg list \<Rightarrow> producer fallible" where
  "call_producer S st method args =
     (if method = ''initialize'' then (case args of [m, r, kind, d, names, payees] \<Rightarrow>
        ebind (addrArg S m) (\<lambda>m. ebind (addrArg S r) (\<lambda>r. ebind (strArg kind) (\<lambda>kind. ebind (addrArg S d) (\<lambda>d.
        ebind (strsArg names) (\<lambda>names. ebind (addrsArg S payees) (\<lambda>payees.
        Producer_initialize st m r kind d names payees)))))) | _ \<Rightarrow> noFragment method)
      else noFragment method)"

definition call_data :: "('ac, 'tk) site \<Rightarrow> production_data \<Rightarrow> string \<Rightarrow> arg list \<Rightarrow> production_data fallible" where
  "call_data S st method args =
     (if method = ''initialize'' then (case args of [kind, orc, r, p, producer, tat] \<Rightarrow>
        ebind (strArg kind) (\<lambda>kind. ebind (addrArg S orc) (\<lambda>orc. ebind (addrArg S r) (\<lambda>r. ebind (addrArg S p) (\<lambda>p.
        ebind (addrArg S producer) (\<lambda>producer. ebind (addrArg S tat) (\<lambda>tat.
        ProductionData_initialize st kind orc r p producer tat)))))) | _ \<Rightarrow> noFragment method)
      else noFragment method)"

definition call_tat :: "('ac, 'tk) site \<Rightarrow> tat \<Rightarrow> addr \<Rightarrow> string \<Rightarrow> arg list \<Rightarrow> tat fallible" where
  "call_tat S st sender method args =
     (if method = ''initialize'' then (case args of [name, symbol, g] \<Rightarrow>
        ebind (strArg name) (\<lambda>name. ebind (strArg symbol) (\<lambda>symbol. ebind (addrArg S g) (\<lambda>g.
        TAT_initialize st sender name symbol g))) | _ \<Rightarrow> noFragment method)
      else noFragment method)"

definition call_tcash :: "('ac, 'tk) site \<Rightarrow> 'tk tcash \<Rightarrow> addr \<Rightarrow> string \<Rightarrow> arg list \<Rightarrow> 'tk tcash fallible" where
  "call_tcash S st sender method args = (case args of [x] \<Rightarrow>
        ebind (addrArg S x) (\<lambda>a.
        if method = ''initialize'' then TCash_initialize (s_token S) st sender a
        else if method = ''setRoles'' then TCash_setRoles st sender a
        else if method = ''setOracle'' then TCash_setOracle st sender a
        else noFragment method)
      | _ \<Rightarrow> noFragment method)"

definition call_loan ::
    "('ac, 'tk) site \<Rightarrow> (addr \<Rightarrow> 'ac roles fallible) \<Rightarrow> addr \<Rightarrow> loan \<Rightarrow> addr \<Rightarrow> string \<Rightarrow> arg list \<Rightarrow> loan fallible" where
  "call_loan S rs self st sender method args =
     (if method = ''initialize'' then (case args of [t, r, p, orc, tat] \<Rightarrow>
        ebind (addrArg S t) (\<lambda>t. ebind (addrArg S r) (\<lambda>r. ebind (addrArg S p) (\<lambda>p. ebind (addrArg S orc) (\<lambda>orc.
        ebind (addrArg S tat) (\<lambda>tat.
        TCashLoan_initialize (s_access S) rs self st sender t r p orc tat))))) | _ \<Rightarrow> noFragment method)
      else if method = ''setAuctionContract'' then (case args of [a] \<Rightarrow>
        ebind (addrArg S a) (\<lambda>a. TCashLoan_setAuctionContract st sender a) | _ \<Rightarrow> noFragment method)
      else noFragment method)"

definition call_auction ::
    "('ac, 'tk) site \<Rightarrow> tcash_auction \<Rightarrow> addr \<Rightarrow> string \<Rightarrow> arg list \<Rightarrow> tcash_auction fallible" where
  "call_auction S st sender method args =
     (if method = ''initialize'' then (case args of [r, t, l] \<Rightarrow>
        ebind (addrArg S r) (\<lambda>r. ebind (addrArg S t) (\<lambda>t. ebind (addrArg S l) (\<lambda>l.
        TCashAuction_initialize st sender r t l))) | _ \<Rightarrow> noFragment method)
      else noFragment method)"

definition call_tokens ::
    "('ac, 'tk) site \<Rightarrow> crosschain_tokens \<Rightarrow> addr \<Rightarrow> string \<Rightarrow> arg list \<Rightarrow> crosschain_tokens fallible" where
  "call_tokens S st sender method args = (case args of [m] \<Rightarrow>
        ebind (addrArg S m) (\<lambda>m.
        if method = ''initialize'' then CrosschainTokens_initialize st sender m
        else if method = ''setMulSig'' then CrosschainTokens_setMulSig st sender m
        else noFragment method)
      | _ \<Rightarrow> noFragment method)"

definition call_bridge :: "('ac, 'tk) site \<Rightarrow> bridge \<Rightarrow> addr \<Rightarrow> string \<Rightarrow> arg list \<Rightarrow> bridge fallible" where
  "call_bridge S st sender method args =
     (if method = ''initialize'' then (case args of [t, r] \<Rightarrow>
        ebind (addrArg S t) (\<lambda>t. ebind (addrArg S r) (\<lambda>r. CrosschainBridge_initialize st sender t r))
        | _ \<Rightarrow> noFragment method)
      else noFragment method)"

definition call_other ::
    "('ac, 'tk) site \<Rightarrow> (arg \<Rightarrow> 'c fallible) \<Rightarrow> string \<Rightarrow> arg list \<Rightarrow> 'c fallible" where
  "call_other S f method args =
     (if method = ''initialize'' then (case args of [x] \<Rightarrow> f x | _ \<Rightarrow> noFragment method) else noFragment method)"

definition perform ::
    "('ac, 'tk) site \<Rightarrow> ('ac, 'tk) net \<Rightarrow> addr \<Rightarrow> addr \<Rightarrow> ('ac, 'tk) contract \<Rightarrow> string \<Rightarrow> arg list \<Rightarrow>
      ('ac, 'tk) contract fallible" where
  "perform S net self sender c method args =
     (let rs = net_roles S (nt_contracts net) in
      case c of
        CDAO st \<Rightarrow> wrap CDAO (call_dao (nt_block net) st sender method args)
      | CMulSig st \<Rightarrow> wrap CMulSig (call_mulSig S st sender method args)
      | CRoles st \<Rightarrow> wrap CRoles (call_roles S st sender method args)
      | CParameterInfo st \<Rightarrow> wrap CParameterInfo (call_param S st method args)
      | COracle st \<Rightarrow> wrap COracle (call_oracle S rs (s_time S (nt_block net)) st sender method args)
      | CGovernance st \<Rightarrow> wrap CGovernance (call_governance S st sender method args)
      | CProducer st \<Rightarrow> wrap CProducer (call_producer S st method args)
      | CData st \<Rightarrow> wrap CData (call_data S st method args)
      | CTAT st \<Rightarrow> wrap CTAT (call_tat S st sender method args)
      | CTCash st \<Rightarrow> wrap CTCash (call_tcash S st sender method args)
      | CWrapped st \<Rightarrow> wrap CWrapped (call_other S (\<lambda>x. ebind (addrsArg S x) (Wrapped_initialize (s_access S) st sender))
                         method args)
      | CTATManager st \<Rightarrow> wrap CTATManager (call_other S (\<lambda>x. ebind (addrArg S x) (TATManager_initialize st sender)) method args)
      | CLoan st \<Rightarrow> wrap CLoan (call_loan S rs self st sender method args)
      | CAuction st \<Rightarrow> wrap CAuction (call_auction S st sender method args)
      | CTokens st \<Rightarrow> wrap CTokens (call_tokens S st sender method args)
      | CBridge st \<Rightarrow> wrap CBridge (call_bridge S st sender method args))"

section \<open>The node\<close>

text \<open>A deployment runs the initialiser, if one is named, in the same transaction, as the deploying account.\<close>

definition deploy ::
    "('ac, 'tk) site \<Rightarrow> ('ac, 'tk) net \<Rightarrow> string \<Rightarrow> arg list \<Rightarrow> string option \<Rightarrow> ('ac, 'tk) contract fallible" where
  "deploy S net name args init =
     ebind (newContract S name) (\<lambda>c.
     case init of None \<Rightarrow> Inr c
     | Some method \<Rightarrow> perform S net (s_fresh S (length (nt_contracts net))) (s_sender S) c method args)"

definition callContract ::
    "('ac, 'tk) site \<Rightarrow> ('ac, 'tk) net \<Rightarrow> string option \<Rightarrow> string \<Rightarrow> string \<Rightarrow> arg list \<Rightarrow>
      ('ac, 'tk) contract list fallible" where
  "callContract S net signer target method args =
     ebind (case signer of None \<Rightarrow> Inr (s_sender S) | Some t \<Rightarrow> s_address S t) (\<lambda>sender.
     ebind (s_address S target) (\<lambda>a.
     case indexOf S (nt_contracts net) a of
       None \<Rightarrow> Inl ''call to an account without code''
     | Some k \<Rightarrow> ebind (perform S net a sender (nt_contracts net ! k) method args) (\<lambda>c.
         Inr ((nt_contracts net)[k := c]))))"

definition at :: "('ac, 'tk) site \<Rightarrow> nat \<Rightarrow> string" where
  "at S k = s_text S (s_fresh S k)"

text \<open>An upgrade exchanges the code of a proxy and keeps its storage.\<close>

definition node_exec ::
    "('ac, 'tk) site \<Rightarrow> ('ac, 'tk) net \<Rightarrow> hh_op \<Rightarrow> reply fallible \<times> ('ac, 'tk) net" where
  "node_exec S net op =
     (let block = nt_block net; cs = nt_contracts net in
      case op of
        DeployProxy name args init \<Rightarrow>
          (case deploy S net name args init of
             Inl e \<Rightarrow> (Inl e, net)
           | Inr c \<Rightarrow> (Inr \<lparr>rp_address = at S (length cs), rp_hash = s_hash S block\<rparr>,
                       net\<lparr>nt_contracts := cs @ [c], nt_block := block + 1\<rparr>))
      | CallMethod signer target method args \<Rightarrow>
          (case callContract S net signer target method args of
             Inl e \<Rightarrow> (Inl e, net)
           | Inr cs' \<Rightarrow> (Inr \<lparr>rp_address = target, rp_hash = s_hash S block\<rparr>,
                         net\<lparr>nt_contracts := cs', nt_block := block + 1\<rparr>))
      | UpgradeProxyTo target name \<Rightarrow>
          (Inr \<lparr>rp_address = target, rp_hash = s_hash S block\<rparr>, net\<lparr>nt_block := block + 1\<rparr>))"

text \<open>The read-only calls of \<open>crosschain.js\<close>.\<close>

definition roleNamed :: "string \<Rightarrow> bytes32 option" where
  "roleNamed name =
     (if name \<in> {''TCASH_MINTER'', ''TCASH_BURNER'', ''FOUNDATION_MANAGER''} then Some (Keccak name) else None)"

definition node_view ::
    "('ac, 'tk) site \<Rightarrow> ('ac, 'tk) net \<Rightarrow> string \<Rightarrow> string \<Rightarrow> jsval list \<Rightarrow> jsval fallible" where
  "node_view S net target method args =
     ebind (s_address S target) (\<lambda>a.
     case contractAt S (nt_contracts net) a of
       Some (CRoles r) \<Rightarrow>
         (case roleNamed method of
            Some role \<Rightarrow> Inr (JStr (s_roleText S role))
          | None \<Rightarrow>
              if method = ''hasRole'' then (case args of
                [JStr role, JStr account] \<Rightarrow>
                  ebind (s_role S role) (\<lambda>role. ebind (s_address S account) (\<lambda>account.
                  Inr (JBool (hasRole (s_access S) (r_access r) role account))))
              | _ \<Rightarrow> noFragment method)
              else noFragment method)
     | Some (CLoan l) \<Rightarrow> if method = ''owner'' then Inr (JStr (s_text S (l_owner l))) else noFragment method
     | _ \<Rightarrow> Inl ''could not decode result data'')"

definition node_code :: "('ac, 'tk) site \<Rightarrow> ('ac, 'tk) net \<Rightarrow> string \<Rightarrow> string fallible" where
  "node_code S net target =
     ebind (s_address S target) (\<lambda>a.
     Inr (if indexOf S (nt_contracts net) a = None then ''0x'' else ''0x60''))"

definition node :: "('ac, 'tk) site \<Rightarrow> ('ac, 'tk) net hardhat" where
  "node S = \<lparr>
     h_exec = node_exec S,
     h_wait = (\<lambda>net op. Inr (nt_block net)),
     h_view = node_view S,
     h_code = node_code S,
     h_signers = (\<lambda>net. Inr (map (s_text S) (s_sender S # s_accounts S))),
     h_factory = (\<lambda>name. wrap (\<lambda>c. ()) (newContract S name)),
     h_getAddress = (\<lambda>s. wrap (s_text S) (s_address S s)),
     h_isoNow = (\<lambda>net. s_isoNow S (nt_block net)),
     h_env = s_env S\<rparr>"

section \<open>The laws of a site\<close>

text \<open>
  What is relied on: the libraries behave as documented, addresses of new contracts are new (an account creates less
  than \<open>2 ^ 64\<close> contracts: its nonce has 64 bits), an address and a
  role are read back as they were written, fresh storage grants no role and holds no token.
\<close>

locale deploy_site = access_control "s_access S" + erc20_token "s_token S" for S :: "('ac, 'tk) site" +
  assumes fresh_inj: "inj_on (s_fresh S) {..<2 ^ 64}" and fresh_nonzero: "s_fresh S n \<noteq> 0"
    and address_text: "s_address S (s_text S a) = Inr a" and text_nonempty: "s_text S a \<noteq> ''''"
    and address_zero: "s_address S ''0x0000000000000000000000000000000000000000'' = Inr 0"
    and role_text: "s_role S (s_roleText S r) = Inr r"
    and no_roles: "\<not> hasRole (s_access S) (s_storage S) r a"
    and no_tokens: "balanceOf (s_token S) (s_ledger S) a = 0" and sender_nonzero: "s_sender S \<noteq> 0"
begin

lemma fresh_eq [simp]: "m < 2 ^ 64 \<Longrightarrow> n < 2 ^ 64 \<Longrightarrow> s_fresh S m = s_fresh S n \<longleftrightarrow> m = n"
  using fresh_inj by (simp add: inj_on_eq_iff)

lemma at_address [simp]: "s_address S (at S k) = Inr (s_fresh S k)"
  by (simp add: at_def address_text)

lemma text_eq [simp]: "s_text S a = s_text S b \<longleftrightarrow> a = b"
  by (metis address_text sum.inject(2))

lemma at_eq [simp]: "m < 2 ^ 64 \<Longrightarrow> n < 2 ^ 64 \<Longrightarrow> at S m = at S n \<longleftrightarrow> m = n"
  by (simp add: at_def)

lemma at_nonempty [simp]: "at S k \<noteq> ''''" "at S k \<noteq> []"
  by (simp_all add: at_def text_nonempty)

lemma find_upt:
  assumes "k < n" and "i \<le> k" and "k < 2 ^ 64"
  shows "find (\<lambda>j. s_fresh S j = s_fresh S k) [i..<n] = Some k"
  using assms
proof (induction "k - i" arbitrary: i)
  case 0
  then show ?case by (simp add: upt_conv_Cons)
next
  case (Suc d)
  then have "find (\<lambda>j. s_fresh S j = s_fresh S k) [Suc i..<n] = Some k" by simp
  with Suc show ?case by (simp add: upt_conv_Cons)
qed

lemma indexOf_fresh [simp]: "k < length cs \<Longrightarrow> k < 2 ^ 64 \<Longrightarrow> indexOf S cs (s_fresh S k) = Some k"
  unfolding indexOf_def by (rule find_upt) simp_all

lemma contractAt_fresh [simp]: "k < length cs \<Longrightarrow> k < 2 ^ 64 \<Longrightarrow> contractAt S cs (s_fresh S k) = Some (cs ! k)"
  by (simp add: contractAt_def)

end

section \<open>A site\<close>

text \<open>The reference libraries, hexadecimal addresses, and new contracts at 1000, 1001 and so on.\<close>

definition demo_role :: "string \<Rightarrow> bytes32 fallible" where
  "demo_role s = (case s of [] \<Rightarrow> Inr Bytes0 | c # name \<Rightarrow> Inr (Keccak name))"

definition demo_roleText :: "bytes32 \<Rightarrow> string" where
  "demo_roleText r = (case r of Bytes0 \<Rightarrow> '''' | Keccak name \<Rightarrow> CHR ''#'' # name)"

definition demo_freshAt :: "nat \<Rightarrow> addr" where
  "demo_freshAt n = (if n < 2 ^ 64 then of_nat (1000 + n) else 1)"

definition demo_site :: "addr \<Rightarrow> (acl, ledger) site" where
  "demo_site sender = \<lparr>s_access = reference_access, s_storage = acl_empty, s_token = reference_token, s_ledger = (\<lambda>_. 0),
     s_sender = sender, s_accounts = [], s_text = demo_checksum, s_address = demo_parse,
     s_fresh = demo_freshAt, s_role = demo_role, s_roleText = demo_roleText,
     s_hash = (\<lambda>_. ''0x12''), s_time = (\<lambda>n. n), s_isoNow = (\<lambda>_. ''2024-01-01''),
     s_env = [''DEPLOYER_ADDR'' \<mapsto> ''0x9'', ''USER_ADDR'' \<mapsto> ''0xa'']\<rparr>"

lemma demo_site_fields [simp]:
  "s_access (demo_site s) = reference_access" "s_storage (demo_site s) = acl_empty" "s_token (demo_site s) = reference_token"
  "s_ledger (demo_site s) = (\<lambda>_. 0)" "s_sender (demo_site s) = s" "s_text (demo_site s) = demo_checksum"
  "s_address (demo_site s) = demo_parse" "s_role (demo_site s) = demo_role" "s_roleText (demo_site s) = demo_roleText"
  "s_fresh (demo_site s) = demo_freshAt"
  "s_env (demo_site s) = [''DEPLOYER_ADDR'' \<mapsto> ''0x9'', ''USER_ADDR'' \<mapsto> ''0xa'']"
  by (simp_all add: demo_site_def)

lemma demo_checksum_parse: "demo_parse (demo_checksum a) = Inr a"
proof -
  have "unat a < 256 ^ 20" using unsigned_less [of a] by simp
  moreover have "be_fixed 20 (unat a) \<noteq> []" by (metis length_be_fixed list.size(3) zero_neq_numeral)
  ultimately show ?thesis by (simp add: demo_parse_def demo_checksum_def be_nat_be_fixed del: be_fixed.simps)
qed

lemma demo_fresh: "inj_on demo_freshAt {..<2 ^ 64}" "demo_freshAt n \<noteq> 0"
proof -
  have u: "unat (demo_freshAt k) = 1000 + k" if "k < 2 ^ 64" for k
    using that unfolding demo_freshAt_def if_P [OF that] unat_of_nat by (intro mod_less) simp
  show "inj_on demo_freshAt {..<2 ^ 64}"
    by (rule inj_onI) (metis u lessThan_iff add_left_imp_eq)
  show "demo_freshAt n \<noteq> 0"
    using u [of n] by (cases "n < 2 ^ 64") (auto simp: demo_freshAt_def)
qed

lemma demo_is_site:
  assumes "s \<noteq> 0"
  shows "deploy_site (demo_site s)"
proof (rule deploy_site.intro)
  show "access_control (s_access (demo_site s))" by (simp add: ref.access_control_axioms)
  show "erc20_token (s_token (demo_site s))" by (simp add: ledger.erc20_token_axioms)
  show "deploy_site_axioms (demo_site s)"
    by (rule deploy_site_axioms.intro)
      (use assms demo_fresh(1) in \<open>simp_all add: demo_fresh(2) demo_checksum_parse demo_role_def demo_roleText_def
        reference_token_def reference_access_def acl_has_def acl_empty_def split: bytes32.splits\<close>,
       simp_all add: demo_checksum_def demo_parse_def bigIntHex_def digitVal_def Let_def)
qed

interpretation deployer_site: deploy_site "demo_site 9"
  by (rule demo_is_site) simp


end
