(* ===== verification/DeployedSystem.thy ===== *)
theory DeployedSystem
  imports DeployedNet
begin

text \<open>
  The deployment scripts run on the node of a site: what base.js, producers.js, tcash.js and crosschain.js make of
  an empty chain, contract by contract, by running them symbolically with a rule for every action.
\<close>

section \<open>Running a script symbolically\<close>

text \<open>
  From contracts \<open>cs\<close>, block \<open>b\<close> and a registry that resolves at least the names of \<open>rho\<close>, the action ends with
  \<open>r\<close>, and contracts, block and names are then \<open>cs'\<close>, \<open>b'\<close> and \<open>rho'\<close>; the file holds the registry if it was written.
\<close>

definition does ::
    "(('ac, 'tk) net, 'a) hscript \<Rightarrow> ('ac, 'tk) contract list \<Rightarrow> nat \<Rightarrow> (string \<rightharpoonup> string) \<Rightarrow> 'a outcome \<Rightarrow>
      ('ac, 'tk) contract list \<Rightarrow> nat \<Rightarrow> (string \<rightharpoonup> string) \<Rightarrow> bool" where
  "does m cs b rho r cs' b' rho' \<longleftrightarrow>
     (\<forall>w. hw_chain w = \<lparr>nt_contracts = cs, nt_block = b\<rparr> \<and> ds_entries (hw_state w) \<noteq> [] \<and> rho \<subseteq>\<^sub>m resolve (hw_state w) \<longrightarrow>
       (\<exists>w'. m w = (r, w') \<and> hw_chain w' = \<lparr>nt_contracts = cs', nt_block = b'\<rparr> \<and> ds_entries (hw_state w') \<noteq> [] \<and>
          rho' \<subseteq>\<^sub>m resolve (hw_state w') \<and>
          (hw_file w' = Entries (hw_state w') \<or> hw_file w' = hw_file w \<and> hw_state w' = hw_state w \<and> length cs' = length cs)))"

lemma does_bind:
  assumes "does m cs b rho (Ok x) cs1 b1 rho1" and "does (k x) cs1 b1 rho1 r cs2 b2 rho2"
  shows "does (bind m k) cs b rho r cs2 b2 rho2"
  unfolding does_def
proof (intro allI impI)
  fix w :: "('a, 'b) net hworld"
  assume "hw_chain w = \<lparr>nt_contracts = cs, nt_block = b\<rparr> \<and> ds_entries (hw_state w) \<noteq> [] \<and> rho \<subseteq>\<^sub>m resolve (hw_state w)"
  with assms(1) obtain v where v: "m w = (Ok x, v)" "hw_chain v = \<lparr>nt_contracts = cs1, nt_block = b1\<rparr>"
      "ds_entries (hw_state v) \<noteq> []" "rho1 \<subseteq>\<^sub>m resolve (hw_state v)"
      "hw_file v = Entries (hw_state v) \<or> hw_file v = hw_file w \<and> hw_state v = hw_state w \<and> length cs1 = length cs"
    unfolding does_def by blast
  with assms(2) obtain w' where "k x v = (r, w')" "hw_chain w' = \<lparr>nt_contracts = cs2, nt_block = b2\<rparr>"
      "ds_entries (hw_state w') \<noteq> []" "rho2 \<subseteq>\<^sub>m resolve (hw_state w')"
      "hw_file w' = Entries (hw_state w') \<or> hw_file w' = hw_file v \<and> hw_state w' = hw_state v \<and> length cs2 = length cs1"
    unfolding does_def by blast
  with v show "\<exists>w'. bind m k w = (r, w') \<and> hw_chain w' = \<lparr>nt_contracts = cs2, nt_block = b2\<rparr> \<and>
      ds_entries (hw_state w') \<noteq> [] \<and> rho2 \<subseteq>\<^sub>m resolve (hw_state w') \<and>
      (hw_file w' = Entries (hw_state w') \<or> hw_file w' = hw_file w \<and> hw_state w' = hw_state w \<and> length cs2 = length cs)"
    by (intro exI [of _ w']) (auto simp: bind_def)
qed

lemma does_fail:
  "does m cs b rho (Throw e) cs1 b1 rho1 \<Longrightarrow> does (bind m k) cs b rho (Throw e) cs1 b1 rho1"
  unfolding does_def by (fastforce simp: bind_def)

lemma does_assoc:
  "does (bind m (\<lambda>x. bind (f x) k)) cs b rho r cs1 b1 rho1 \<Longrightarrow> does (bind (bind m f) k) cs b rho r cs1 b1 rho1"
  by (simp add: bind_assoc)

lemma does_ret: "does (ret x) cs b rho (Ok x) cs b rho"
  by (simp add: does_def)

lemma does_lift_err: "f = Inr x \<Longrightarrow> does (lift_err f) cs b rho (Ok x) cs b rho"
  by (simp add: does_def)

lemma does_tell: "does (tell kind vs) cs b rho (Ok ()) cs b rho"
  by (simp add: does_def tell_def)

lemma does_end: "cs = cs' \<Longrightarrow> b = b' \<Longrightarrow> rho = rho' \<Longrightarrow> does (tell kind vs) cs b rho (Ok ()) cs' b' rho'"
  by (simp add: does_tell)

lemma does_query: "f \<lparr>nt_contracts = cs, nt_block = b\<rparr> = Inr x \<Longrightarrow> does (query f) cs b rho (Ok x) cs b rho"
  by (auto simp: does_def query_def)

lemma does_lookup: "rho key = Some a \<Longrightarrow> does (lookup key) cs b rho (Ok (Some a)) cs b rho"
  by (auto simp: does_def lookup_def getState_def bind_def map_le_def dom_def)

lemma does_requireEntry: "does (requireEntry msg) cs b rho (Ok ()) cs b rho"
  by (simp add: does_def requireEntry_def getState_def bind_def)

lemma does_requireKeys:
  assumes "list_all (\<lambda>k. rho k \<noteq> None) keys"
  shows "does (requireKeys hint keys) cs b rho (Ok ()) cs b rho"
  unfolding does_def
proof (intro allI impI)
  fix w :: "('a, 'b) net hworld"
  assume w: "hw_chain w = \<lparr>nt_contracts = cs, nt_block = b\<rparr> \<and> ds_entries (hw_state w) \<noteq> [] \<and> rho \<subseteq>\<^sub>m resolve (hw_state w)"
  then have "list_all (\<lambda>k. resolve (hw_state w) k \<noteq> None) keys"
    using assms unfolding list_all_iff map_le_def dom_def by (metis (mono_tags, lifting) mem_Collect_eq)
  from requireKeys_Ok [OF this] w show "\<exists>w'. requireKeys hint keys w = (Ok (), w') \<and>
      hw_chain w' = \<lparr>nt_contracts = cs, nt_block = b\<rparr> \<and> ds_entries (hw_state w') \<noteq> [] \<and> rho \<subseteq>\<^sub>m resolve (hw_state w') \<and>
      (hw_file w' = Entries (hw_state w') \<or> hw_file w' = hw_file w \<and> hw_state w' = hw_state w \<and> length cs = length cs)"
    by auto
qed

lemma does_forEach: "list_all (\<lambda>x. does (f x) cs b rho (Ok ()) cs b rho) xs \<Longrightarrow> does (forEach xs f) cs b rho (Ok ()) cs b rho"
  by (induction xs) (auto intro: does_ret does_bind)

lemma does_factories:
  "list_all (\<lambda>n. \<exists>c. newContract S n = Inr c) names \<Longrightarrow> does (factories (node S) names) cs b rho (Ok ()) cs b rho"
  unfolding factories_def
  by (rule does_forEach) (auto simp: list_all_iff node_def wrap_def ebind_def intro!: does_lift_err does_ret split: sum.splits)

lemma does_firstSigner: "does (firstSigner (node S)) cs b rho (Ok (s_text S (s_sender S))) cs b rho"
  by (simp add: does_def firstSigner_def query_def node_def bind_def)

lemma callContract_length:
  "callContract S net signer target method args = Inr cs' \<Longrightarrow> length cs' = length (nt_contracts net)"
  by (auto simp: callContract_def ebind_Inr_iff split: option.splits)

lemma does_call:
  assumes "callContract S \<lparr>nt_contracts = cs, nt_block = b\<rparr> signer target method args = Inr cs'"
    and "b + 1 = b'"
  shows "does (send (node S) signer target method args) cs b rho (Ok ()) cs' b' rho"
    and "does (sendWait (node S) signer target method args) cs b rho (Ok ()) cs' b' rho"
  using assms callContract_length [OF assms(1)]
  by (auto simp: does_def send_def sendWait_def exec_def query_def bind_def node_def node_exec_def Let_def)

lemma does_revert:
  assumes "callContract S \<lparr>nt_contracts = cs, nt_block = b\<rparr> signer target method args = Inl e"
  shows "does (send (node S) signer target method args) cs b rho (Throw e) cs b rho"
    and "does (sendWait (node S) signer target method args) cs b rho (Throw e) cs b rho"
  using assms
  by (auto simp: does_def send_def sendWait_def exec_def query_def bind_def node_def node_exec_def Let_def)

text \<open>A script whose actions are known: its start, its handler, and the file it leaves.\<close>

lemma does_main:
  assumes "does m cs b rho (Ok ()) cs' b' rho'" and "hw_chain w = \<lparr>nt_contracts = cs, nt_block = b\<rparr>"
    and "ds_entries s \<noteq> []" and "rho \<subseteq>\<^sub>m resolve s" and "length cs' \<noteq> length cs"
  shows "\<exists>w'. runMain m (w\<lparr>hw_state := s\<rparr>) = (Ok (), w') \<and> hw_chain w' = \<lparr>nt_contracts = cs', nt_block = b'\<rparr> \<and>
    ds_entries (hw_state w') \<noteq> [] \<and> rho' \<subseteq>\<^sub>m resolve (hw_state w') \<and> hw_file w' = Entries (hw_state w')"
  using assms(1) [unfolded does_def, rule_format, of "w\<lparr>hw_state := s\<rparr>"] assms(2-5)
  by (auto simp: runMain_def catch_def)

lemma does_script:
  assumes "does m cs b rho (Ok ()) cs' b' rho'" and "hw_chain w = \<lparr>nt_contracts = cs, nt_block = b\<rparr>"
    and "hw_file w = Entries s" and "ds_entries s \<noteq> []" and "rho \<subseteq>\<^sub>m resolve s" and "length cs' \<noteq> length cs"
  shows "\<exists>w'. runMain (bind (load H network) (\<lambda>_. m)) w = (Ok (), w') \<and>
    hw_chain w' = \<lparr>nt_contracts = cs', nt_block = b'\<rparr> \<and>
    ds_entries (hw_state w') \<noteq> [] \<and> rho' \<subseteq>\<^sub>m resolve (hw_state w') \<and> hw_file w' = Entries (hw_state w')"
  unfolding runMain_load assms(3) loadState.simps by (rule does_main) (use assms in auto)

context deploy_site
begin

lemma does_deploy:
  assumes "deploy S \<lparr>nt_contracts = cs, nt_block = b\<rparr> name args init = Inr c" and "length cs = n" and "cs @ [c] = cs'"
    and "b + 1 = b'" and "baseKey key = k"
  shows "does (deployAndRecord (node S) key name args init) cs b rho (Ok (at S n)) cs' b' (rho(k \<mapsto> at S n))"
  unfolding does_def
proof (intro allI impI)
  fix w :: "('ac, 'tk) net hworld"
  assume w: "hw_chain w = \<lparr>nt_contracts = cs, nt_block = b\<rparr> \<and> ds_entries (hw_state w) \<noteq> [] \<and> rho \<subseteq>\<^sub>m resolve (hw_state w)"
  let ?i = "\<lparr>ci_address = at S n, ci_block = Some b', ci_tx = Some (s_hash S b)\<rparr>"
  obtain e es where e: "ds_entries (hw_state w) = e # es" using w by (cases "ds_entries (hw_state w)") auto
  obtain s where s: "setContract key ?i (hw_state w) = Inr s" by (simp add: setContract_def currentEntry_def e)
  then have put: "s = putContract key ?i (hw_state w)" by (simp add: putContract_def)
  let ?op = "DeployProxy name args init"
  let ?w1 = "w\<lparr>hw_chain := \<lparr>nt_contracts = cs', nt_block = b'\<rparr>,
    hw_ops := hw_ops w @ [(?op, Inr \<lparr>rp_address = at S n, rp_hash = s_hash S b\<rparr>)]\<rparr>"
  have run: "deployAndRecord (node S) key name args init w =
      (Ok (at S n), ?w1\<lparr>hw_lines := hw_lines w @ [Line ''recorded'' [JStr (baseKey key), JStr (at S n), JStr (s_hash S b), JNum b']],
        hw_state := s, hw_file := Entries s\<rparr>)"
    using w assms(1-4) s
    by (simp add: deployAndRecord_def deployProxyWithInfo_def recordContract_def exec_def query_def getState_def tell_def
        writeFile_def saveState_def bind_def node_def node_exec_def Let_def)
  have "ds_entries s \<noteq> []" unfolding put by (rule deployments.put_open) (use w in simp)
  moreover have "rho(k \<mapsto> at S n) \<subseteq>\<^sub>m resolve s"
  proof -
    have "(rho(k \<mapsto> at S n)) x = resolve s x" if "x \<in> dom (rho(k \<mapsto> at S n))" for x
    proof (cases "x = k")
      case True
      have "resolve s (baseKey key) = Some (ci_address ?i)"
        unfolding put by (rule deployments.get_put) (use w in simp_all)
      with True assms(5) show ?thesis by simp
    next
      case False
      have "resolve s x = resolve (hw_state w) x"
        unfolding put by (rule deployments.get_put_other) (use w False assms(5) in simp_all)
      moreover have "x \<in> dom rho" using that False by auto
      ultimately show ?thesis using w False by (simp add: map_le_def)
    qed
    then show ?thesis by (simp add: map_le_def)
  qed
  ultimately show "\<exists>w'. deployAndRecord (node S) key name args init w = (Ok (at S n), w') \<and>
      hw_chain w' = \<lparr>nt_contracts = cs', nt_block = b'\<rparr> \<and> ds_entries (hw_state w') \<noteq> [] \<and>
      rho(k \<mapsto> at S n) \<subseteq>\<^sub>m resolve (hw_state w') \<and>
      (hw_file w' = Entries (hw_state w') \<or> hw_file w' = hw_file w \<and> hw_state w' = hw_state w \<and> length cs' = length cs)"
    unfolding run by simp
qed

lemma does_requireCode:
  assumes "list_all (\<lambda>k. \<exists>n. rho k = Some (at S n) \<and> n < length cs \<and> n < 2 ^ 64) keys"
  shows "does (requireCode (node S) network keys) cs b rho (Ok ()) cs b rho"
  unfolding requireCode_def
proof (rule does_forEach, unfold list_all_iff, intro ballI)
  fix k assume "k \<in> set keys"
  with assms obtain n where n: "n < length cs" "rho k = Some (at S n)" "n < 2 ^ 64" by (auto simp: list_all_iff)
  show "does (bind (lookup k) (\<lambda>a. bind (query (\<lambda>c. h_code (node S) c (the a))) (\<lambda>code.
      if code = '''' \<or> code = ''0x'' then throw (''Address for '' @ k @ '' ('' @ the a @
       '') has no contract code on '' @ network @ ''; rerun earlier steps'') else ret ()))) cs b rho (Ok ()) cs b rho"
    by (rule does_bind, rule does_lookup [of _ _ "at S n"], rule n(2), rule does_bind, rule does_query [where x = "''0x60''"])
      (use n(1,3) in \<open>simp_all add: node_def node_code_def does_ret\<close>)
qed

lemmas does_calls = does_deploy does_call does_lookup does_end does_requireEntry does_requireKeys does_factories
  does_firstSigner does_requireCode does_ret

end

end
