(* ===== verification/DeployedRuns.thy ===== *)
theory DeployedRuns
  imports DeployedSystem
begin

text \<open>
  The four deployment scripts on an empty chain: the contract list each of them leaves behind.
\<close>

section \<open>The contracts after their initialisers\<close>

definition result :: "'a fallible \<Rightarrow> 'a" where
  "result r = (case r of Inr x \<Rightarrow> x | Inl e \<Rightarrow> undefined)"

lemma result_Inr [simp]: "result (Inr x) = x"
  by (simp add: result_def)

definition dao_for :: "nat \<Rightarrow> addr \<Rightarrow> dao" where
  "dao_for b s = result (DAO_initialize b blank_dao s ''DAO'' 2 10)"

definition param_for :: "addr \<Rightarrow> parameter_info" where
  "param_for m = result (ParameterInfo_initialize blank_param m)"

definition oracle_for :: "addr \<Rightarrow> addr \<Rightarrow> oracle_state" where
  "oracle_for s r = result (Oracle_initialize blank_oracle s r)"

lemma base_initialises:
  "DAO_initialize b blank_dao s ''DAO'' 2 10 = Inr (dao_for b s)"
  "ParameterInfo_initialize blank_param m = Inr (param_for m)"
  "Oracle_initialize blank_oracle s r = Inr (oracle_for s r)"
  by (simp_all add: DAO_initialize_def dao_for_def ParameterInfo_initialize_def param_for_def Oracle_initialize_def
      oracle_for_def blank_dao_def blank_param_def blank_oracle_def)

definition governance_for ::
    "addr \<Rightarrow> addr \<Rightarrow> addr \<Rightarrow> addr \<Rightarrow> addr \<Rightarrow> addr list \<Rightarrow> addr list \<Rightarrow> governance" where
  "governance_for s d m r p producers datas =
     result (Governance_initialize blank_governance s d m r p [''OIL'', ''GAS'', ''ETH'', ''BTC''] producers datas)"

definition producer_for :: "addr \<Rightarrow> addr \<Rightarrow> string \<Rightarrow> addr \<Rightarrow> producer" where
  "producer_for m r kind d = result (Producer_initialize blank_producer m r kind d [] [])"

definition data_for :: "string \<Rightarrow> addr \<Rightarrow> addr \<Rightarrow> addr \<Rightarrow> addr \<Rightarrow> addr \<Rightarrow> production_data" where
  "data_for kind orc r p producer tat = result (ProductionData_initialize blank_data kind orc r p producer tat)"

definition tat_for :: "addr \<Rightarrow> addr \<Rightarrow> tat" where
  "tat_for s g = result (TAT_initialize blank_tat s ''Rep'' ''REP'' g)"

lemma producers_initialise:
  "p1 \<noteq> 0 \<Longrightarrow> p2 \<noteq> 0 \<Longrightarrow> p3 \<noteq> 0 \<Longrightarrow> p4 \<noteq> 0 \<Longrightarrow> d1 \<noteq> 0 \<Longrightarrow> d2 \<noteq> 0 \<Longrightarrow> d3 \<noteq> 0 \<Longrightarrow> d4 \<noteq> 0 \<Longrightarrow>
     Governance_initialize blank_governance s d m r p [''OIL'', ''GAS'', ''ETH'', ''BTC''] [p1, p2, p3, p4] [d1, d2, d3, d4] =
       Inr (governance_for s d m r p [p1, p2, p3, p4] [d1, d2, d3, d4])"
  "m \<noteq> 0 \<Longrightarrow> r \<noteq> 0 \<Longrightarrow> kind \<noteq> [] \<Longrightarrow> d \<noteq> 0 \<Longrightarrow>
     Producer_initialize blank_producer m r kind d [] [] = Inr (producer_for m r kind d)"
  "ProductionData_initialize blank_data kind orc r p producer tat = Inr (data_for kind orc r p producer tat)"
  "TAT_initialize blank_tat s ''Rep'' ''REP'' g = Inr (tat_for s g)"
  by (simp_all add: governance_for_def producer_for_def data_for_def tat_for_def Governance_initialize_def
      Governance_addTreasure_internal_def Producer_initialize_def ProductionData_initialize_def TAT_initialize_def
      blank_governance_def blank_producer_def blank_data_def blank_tat_def no_treasure_def Let_def)

definition wrapped_for :: "('ac, 'tk) site \<Rightarrow> 'ac wrapped" where
  "wrapped_for S = result (Wrapped_initialize (s_access S) \<lparr>wr_initialized = False, wr_access = s_storage S\<rparr> (s_sender S) [])"

definition tatManager_for :: "addr \<Rightarrow> addr \<Rightarrow> tat_manager" where
  "tatManager_for s r = result (TATManager_initialize \<lparr>tm_initialized = False, tm_owner = 0, tm_roles = 0\<rparr> s r)"

definition auction_for :: "addr \<Rightarrow> addr \<Rightarrow> addr \<Rightarrow> addr \<Rightarrow> tcash_auction" where
  "auction_for s r t l = result (TCashAuction_initialize blank_auction s r t l)"

definition tcash_for :: "('ac, 'tk) site \<Rightarrow> 'tk tcash" where
  "tcash_for S = result (TCash_initialize (s_token S) (blank_tcash S) (s_sender S) (s_sender S))"

lemma tcash_initialise:
  "Wrapped_initialize (s_access S) \<lparr>wr_initialized = False, wr_access = s_storage S\<rparr> (s_sender S) [] = Inr (wrapped_for S)"
  "TATManager_initialize \<lparr>tm_initialized = False, tm_owner = 0, tm_roles = 0\<rparr> s r = Inr (tatManager_for s r)"
  "r \<noteq> 0 \<Longrightarrow> t \<noteq> 0 \<Longrightarrow> l \<noteq> 0 \<Longrightarrow> TCashAuction_initialize blank_auction s r t l = Inr (auction_for s r t l)"
  by (simp_all add: wrapped_for_def tatManager_for_def auction_for_def Wrapped_initialize_def TATManager_initialize_def
      TCashAuction_initialize_def blank_auction_def Let_def)

definition tokens_for :: "addr \<Rightarrow> addr \<Rightarrow> crosschain_tokens" where
  "tokens_for s m = result (CrosschainTokens_initialize blank_tokens s m)"

definition bridge_for :: "addr \<Rightarrow> addr \<Rightarrow> addr \<Rightarrow> bridge" where
  "bridge_for s t r = result (CrosschainBridge_initialize blank_bridge s t r)"

text \<open>The multisig and the roles may have been used before; the lists are those of the script.\<close>

definition mulSig_for :: "('ac, 'tk) site \<Rightarrow> mulsig \<Rightarrow> mulsig" where
  "mulSig_for S m = result (MulSig_initialize m (s_sender S) (s_fresh S 0) (s_fresh S 13) (s_fresh S 2) (s_fresh S 3)
     (s_fresh S 21) 5)"

definition roles_for :: "('ac, 'tk) site \<Rightarrow> addr \<Rightarrow> addr \<Rightarrow> 'ac roles \<Rightarrow> 'ac roles" where
  "roles_for S d u r = result (Roles_initialize (s_access S) r (s_sender S) (s_fresh S 1) [d, u] [d, u] [s_fresh S 4, d, u]
     [s_fresh S 22, d, u] [s_fresh S 15, s_fresh S 19, s_fresh S 20, d, u, s_fresh S 22, s_fresh S 21])"

definition loan_for :: "('ac, 'tk) site \<Rightarrow> loan" where
  "loan_for S = blank_loan\<lparr>l_initialized := True, l_owner := s_sender S, l_tcash := s_fresh S 15, l_roles := s_fresh S 2,
     l_parameterInfo := s_fresh S 3, l_oracle := s_fresh S 4, l_tat := s_fresh S 14, l_systemRiskFactor := 10000\<rparr>"

definition priced :: "oracle_state \<Rightarrow> string \<Rightarrow> nat \<Rightarrow> nat \<Rightarrow> oracle_state" where
  "priced st symbol price now = st\<lparr>o_currencyValues := (o_currencyValues st)(Keccak symbol := price),
     o_prices := (o_prices st)(symbol := \<lparr>pd_price = price, pd_timestamp = now\<rparr>)\<rparr>"

lemma crosschain_initialise:
  "CrosschainTokens_initialize blank_tokens s 0 = Inr (tokens_for s 0)"
  "m \<noteq> 0 \<Longrightarrow> CrosschainTokens_setMulSig (tokens_for s 0) s m = Inr (tokens_for s m)"
  "CrosschainBridge_initialize blank_bridge s t r = Inr (bridge_for s t r)"
  "\<not> ms_initialized ms \<Longrightarrow> MulSig_initialize ms (s_sender S) (s_fresh S 0) (s_fresh S 13) (s_fresh S 2) (s_fresh S 3)
     (s_fresh S 21) 5 = Inr (mulSig_for S ms)"
  "\<not> r_initialized rl \<Longrightarrow> Roles_initialize (s_access S) rl (s_sender S) (s_fresh S (Suc 0)) [d, u] [d, u] [s_fresh S 4, d, u]
     [s_fresh S 22, d, u] [s_fresh S 15, s_fresh S 19, s_fresh S 20, d, u, s_fresh S 22, s_fresh S 21] =
       Inr (roles_for S d u rl)"
  by (simp_all add: tokens_for_def bridge_for_def mulSig_for_def roles_for_def CrosschainTokens_initialize_def
      CrosschainTokens_setMulSig_def CrosschainBridge_initialize_def MulSig_initialize_def Roles_initialize_def
      blank_tokens_def blank_bridge_def Let_def)

text \<open>Block numbers, counted up one by one.\<close>

lemma blocks:
  "k + 5 = Suc (Suc (Suc (Suc (Suc (k)))))"
  "k + 7 = Suc (Suc (Suc (Suc (Suc (Suc (Suc (k)))))))"
  "k + 8 = Suc (Suc (Suc (Suc (Suc (Suc (Suc (Suc (k))))))))"
  "k + 9 = Suc (Suc (Suc (Suc (Suc (Suc (Suc (Suc (Suc (k)))))))))"
  "k + 18 = Suc (Suc (Suc (Suc (Suc (Suc (Suc (Suc (Suc (Suc (Suc (Suc (Suc (Suc (Suc (Suc (Suc (Suc (k))))))))))))))))))"
  for k :: nat
  by simp_all

lemma newContracts:
  "newContract S ''DAO'' = Inr (CDAO blank_dao)"
  "newContract S ''MulSig'' = Inr (CMulSig blank_mulsig)"
  "newContract S ''Roles'' = Inr (CRoles (blank_roles S))"
  "newContract S ''ParameterInfo'' = Inr (CParameterInfo blank_param)"
  "newContract S ''Oracle'' = Inr (COracle blank_oracle)"
  "newContract S ''Governance'' = Inr (CGovernance blank_governance)"
  "newContract S ''OilProducer'' = Inr (CProducer blank_producer)"
  "newContract S ''GasProducer'' = Inr (CProducer blank_producer)"
  "newContract S ''EthProducer'' = Inr (CProducer blank_producer)"
  "newContract S ''BtcProducer'' = Inr (CProducer blank_producer)"
  "newContract S ''OilData'' = Inr (CData blank_data)"
  "newContract S ''GasData'' = Inr (CData blank_data)"
  "newContract S ''EthData'' = Inr (CData blank_data)"
  "newContract S ''BtcData'' = Inr (CData blank_data)"
  "newContract S ''TAT'' = Inr (CTAT blank_tat)"
  "newContract S ''TCash'' = Inr (CTCash (blank_tcash S))"
  "newContract S ''WTCASH'' = Inr (CWrapped \<lparr>wr_initialized = False, wr_access = s_storage S\<rparr>)"
  "newContract S ''WUNIT'' = Inr (CWrapped \<lparr>wr_initialized = False, wr_access = s_storage S\<rparr>)"
  "newContract S ''TATManager'' = Inr (CTATManager \<lparr>tm_initialized = False, tm_owner = 0, tm_roles = 0\<rparr>)"
  "newContract S ''TCashLoan'' = Inr (CLoan blank_loan)"
  "newContract S ''TCashAuction'' = Inr (CAuction blank_auction)"
  "newContract S ''CrosschainTokens'' = Inr (CTokens blank_tokens)"
  "newContract S ''CrosschainBridge'' = Inr (CBridge blank_bridge)"
  by (simp_all add: newContract_def)

section \<open>base.js\<close>

context deploy_site
begin

abbreviation f :: "nat \<Rightarrow> addr" where
  "f \<equiv> s_fresh S"

lemmas call_simps = callContract_def perform_def wrap_def call_dao_def call_param_def call_oracle_def call_governance_def
  call_producer_def call_data_def call_tat_def call_tcash_def call_other_def call_auction_def
  call_tokens_def call_bridge_def call_mulSig_def call_roles_def call_loan_def fresh_nonzero
  numeral_2_eq_2 [symmetric] address_text

text \<open>The contracts and names after each step.\<close>

definition contracts1 :: "nat \<Rightarrow> ('ac, 'tk) contract \<Rightarrow> ('ac, 'tk) contract \<Rightarrow> ('ac, 'tk) contract list" where
  "contracts1 b mulSig roles = [CDAO (dao_for (b + 5) (s_sender S)), mulSig, roles,
     CParameterInfo (param_for (f 1)), COracle (oracle_for (s_sender S) (f 2))]"

definition names1 :: "string \<rightharpoonup> string" where
  "names1 = [''DAO'' \<mapsto> at S 0, ''MULSIG'' \<mapsto> at S 1, ''ROLES'' \<mapsto> at S 2, ''PARAMETER_INFO'' \<mapsto> at S 3, ''ORACLE'' \<mapsto> at S 4]"

lemma base_run:
  assumes "hw_chain w = \<lparr>nt_contracts = [], nt_block = b\<rparr>"
  shows "\<exists>w'. base_main (node S) network w = (Ok (), w') \<and>
    hw_chain w' = \<lparr>nt_contracts = contracts1 b (CMulSig blank_mulsig) (CRoles (blank_roles S)), nt_block = b + 8\<rparr> \<and>
    ds_entries (hw_state w') \<noteq> [] \<and> names1 \<subseteq>\<^sub>m resolve (hw_state w') \<and> hw_file w' = Entries (hw_state w')"
  unfolding base_main_def base_start
  by (rule does_main [where rho = Map.empty, OF _ assms], unfold contracts1_def names1_def)
    (rule does_bind does_calls | (simp add: deploy_def newContracts call_simps base_initialises key_simps freshEntry_def
       startNewEntry_def; fail) | (simp add: blocks; fail))+

section \<open>producers.js\<close>

definition contracts2 :: "nat \<Rightarrow> ('ac, 'tk) contract \<Rightarrow> ('ac, 'tk) contract \<Rightarrow> ('ac, 'tk) contract list" where
  "contracts2 b mulSig roles = [CDAO (dao_for (b + 5) (s_sender S)), mulSig, roles,
     CParameterInfo (param_for (f 1)), COracle (oracle_for (s_sender S) (f 2)),
     CProducer (producer_for (f 1) (f 2) ''OIL'' (f 6)), CData (data_for ''OIL'' (f 4) (f 2) (f 3) (f 5) (f 14)),
     CProducer (producer_for (f 1) (f 2) ''GAS'' (f 8)), CData (data_for ''GAS'' (f 4) (f 2) (f 3) (f 7) (f 14)),
     CProducer (producer_for (f 1) (f 2) ''ETH'' (f 10)), CData (data_for ''ETH'' (f 4) (f 2) (f 3) (f 9) (f 14)),
     CProducer (producer_for (f 1) (f 2) ''BTC'' (f 12)), CData (data_for ''BTC'' (f 4) (f 2) (f 3) (f 11) (f 14)),
     CGovernance (governance_for (s_sender S) (f 0) (f 1) (f 2) (f 3) [f 5, f 7, f 9, f 11] [f 6, f 8, f 10, f 12]),
     CTAT (tat_for (s_sender S) (f 13))]"

definition names2 :: "string \<rightharpoonup> string" where
  "names2 = names1(''OIL_PRODUCER'' \<mapsto> at S 5, ''OIL_DATA'' \<mapsto> at S 6, ''GAS_PRODUCER'' \<mapsto> at S 7, ''GAS_DATA'' \<mapsto> at S 8,
     ''ETH_PRODUCER'' \<mapsto> at S 9, ''ETH_DATA'' \<mapsto> at S 10, ''BTC_PRODUCER'' \<mapsto> at S 11, ''BTC_DATA'' \<mapsto> at S 12,
     ''GOVERNANCE'' \<mapsto> at S 13, ''TAT'' \<mapsto> at S 14)"

lemma producers_run:
  assumes "hw_chain w = \<lparr>nt_contracts = contracts1 b mulSig roles, nt_block = k\<rparr>"
    and "hw_file w = Entries s" and "ds_entries s \<noteq> []" and "names1 \<subseteq>\<^sub>m resolve s"
  shows "\<exists>w'. producers_main (node S) network w = (Ok (), w') \<and>
    hw_chain w' = \<lparr>nt_contracts = contracts2 b mulSig roles, nt_block = k + 18\<rparr> \<and>
    ds_entries (hw_state w') \<noteq> [] \<and> names2 \<subseteq>\<^sub>m resolve (hw_state w') \<and> hw_file w' = Entries (hw_state w')"
  unfolding producers_main_def initializeProducer_def prod.case
  by (rule does_script [OF _ assms], unfold contracts1_def contracts2_def names1_def names2_def producers_required_def)
    (rule does_bind does_assoc does_calls | (simp add: deploy_def newContracts call_simps producers_initialise key_simps; fail)
      | (simp add: blocks; fail))+

section \<open>tcash.js\<close>

text \<open>The token of the deployer, who gets the first million.\<close>

lemma tcash_mints:
  "TCash_initialize (s_token S) (blank_tcash S) (s_sender S) (s_sender S) = Inr (tcash_for S)"
  "tc_initialized (tcash_for S)" "tc_owner (tcash_for S) = s_sender S" "tc_auction (tcash_for S) = 0"
  "tc_lockedBalances (tcash_for S) = (\<lambda>_. 0)"
  "balanceOf (s_token S) (tc_token (tcash_for S)) a = (if a = s_sender S then 1000000 * 10 ^ 18 else 0)"
proof -
  obtain t where t: "erc_mint (s_token S) (s_ledger S) (s_sender S) (1000000 * 10 ^ 18) = Inr t"
    using mint_allowed [of "s_sender S" "s_ledger S" "1000000 * 10 ^ 18"] no_tokens sender_nonzero by auto
  then show run: "TCash_initialize (s_token S) (blank_tcash S) (s_sender S) (s_sender S) = Inr (tcash_for S)"
    by (simp add: TCash_initialize_def tcash_for_def blank_tcash_def)
  from t have st: "tcash_for S = (blank_tcash S)\<lparr>tc_initialized := True, tc_owner := s_sender S, tc_token := t\<rparr>"
    by (simp add: TCash_initialize_def tcash_for_def blank_tcash_def)
  show "tc_initialized (tcash_for S)" "tc_owner (tcash_for S) = s_sender S" "tc_auction (tcash_for S) = 0"
    "tc_lockedBalances (tcash_for S) = (\<lambda>_. 0)"
    by (simp_all add: st blank_tcash_def)
  show "balanceOf (s_token S) (tc_token (tcash_for S)) a = (if a = s_sender S then 1000000 * 10 ^ 18 else 0)"
    using mint_balance [OF t] by (simp add: st no_tokens)
qed

lemma tcash_sets:
  "TCash_setRoles (tcash_for S) (s_sender S) r = Inr (tcash_for S\<lparr>tc_roles := r\<rparr>)"
  "TCash_setOracle (tcash_for S\<lparr>tc_roles := r\<rparr>) (s_sender S) orc = Inr (tcash_for S\<lparr>tc_roles := r, tc_oracle := orc\<rparr>)"
  by (simp_all add: TCash_setRoles_def TCash_setOracle_def onlyOwner_def tcash_mints)

definition contracts3 :: "nat \<Rightarrow> ('ac, 'tk) contract \<Rightarrow> ('ac, 'tk) contract \<Rightarrow> ('ac, 'tk) contract list" where
  "contracts3 b mulSig roles = contracts2 b mulSig roles @
     [CTCash (tcash_for S\<lparr>tc_roles := f 2, tc_oracle := f 4\<rparr>), CWrapped (wrapped_for S), CWrapped (wrapped_for S),
      CTATManager (tatManager_for (s_sender S) (f 2)), CLoan blank_loan,
      CAuction (auction_for (s_sender S) (f 2) (f 15) (f 19))]"

definition names3 :: "string \<rightharpoonup> string" where
  "names3 = names2(''TCASH'' \<mapsto> at S 15, ''WTCASH'' \<mapsto> at S 16, ''WUNIT'' \<mapsto> at S 17, ''TAT_MANAGER'' \<mapsto> at S 18,
     ''TCASH_LOAN'' \<mapsto> at S 19, ''TCASH_AUCTION'' \<mapsto> at S 20)"

lemma tcash_run:
  assumes "hw_chain w = \<lparr>nt_contracts = contracts2 b mulSig roles, nt_block = k\<rparr>"
    and "hw_file w = Entries s" and "ds_entries s \<noteq> []" and "names2 \<subseteq>\<^sub>m resolve s"
  shows "\<exists>w'. tcash_main (node S) network w = (Ok (), w') \<and>
    hw_chain w' = \<lparr>nt_contracts = contracts3 b mulSig roles, nt_block = k + 8\<rparr> \<and>
    ds_entries (hw_state w') \<noteq> [] \<and> names3 \<subseteq>\<^sub>m resolve (hw_state w') \<and> hw_file w' = Entries (hw_state w')"
  unfolding tcash_main_def
  by (rule does_script [OF _ assms], unfold contracts2_def contracts3_def names1_def names2_def names3_def tcash_required_def)
    (rule does_bind does_assoc does_calls
      | (simp add: deploy_def newContracts call_simps tcash_initialise tcash_mints(1) tcash_sets key_simps; fail)
      | (simp add: blocks; fail))+

section \<open>crosschain.js\<close>

lemma roles_for_hasRole:
  assumes "\<not> r_initialized r"
  shows "hasRole (s_access S) (r_access (roles_for S d u r)) role a \<longleftrightarrow> hasRole (s_access S) (r_access r) role a \<or>
      role = ADMIN \<and> a = f 1 \<or> role \<in> {FOUNDATION_MANAGER, AUCTION_MANAGER} \<and> a \<in> {d, u} \<or>
      role = FEEDER \<and> a \<in> {f 4, d, u} \<or> role = CROSSCHAIN_SENDER \<and> a \<in> {f 22, d, u} \<or>
      role \<in> {TCASH_MINTER, TCASH_BURNER} \<and> a \<in> {f 15, f 19, f 20, d, u, f 22, f 21}"
    and "getRoleAdmin (s_access S) (r_access (roles_for S d u r)) FOUNDATION_MANAGER = ADMIN"
    and "r_initialized (roles_for S d u r)" and "r_mulSig (roles_for S d u r) = f 1"
proof -
  have r: "r_access (roles_for S d u r) = Roles_assign (s_access S) (r_access r) (f 1) [d, u] [d, u] [f 4, d, u] [f 22, d, u]
      [f 15, f 19, f 20, d, u, f 22, f 21]" and "r_initialized (roles_for S d u r)" "r_mulSig (roles_for S d u r) = f 1"
    using assms by (simp_all add: roles_for_def Roles_initialize_def)
  then show "r_initialized (roles_for S d u r)" "r_mulSig (roles_for S d u r) = f 1" by simp_all
  show "getRoleAdmin (s_access S) (r_access (roles_for S d u r)) FOUNDATION_MANAGER = ADMIN"
    unfolding r by (rule assign_admin(2)) simp
  show "hasRole (s_access S) (r_access (roles_for S d u r)) role a \<longleftrightarrow> hasRole (s_access S) (r_access r) role a \<or>
      role = ADMIN \<and> a = f 1 \<or> role \<in> {FOUNDATION_MANAGER, AUCTION_MANAGER} \<and> a \<in> {d, u} \<or>
      role = FEEDER \<and> a \<in> {f 4, d, u} \<or> role = CROSSCHAIN_SENDER \<and> a \<in> {f 22, d, u} \<or>
      role \<in> {TCASH_MINTER, TCASH_BURNER} \<and> a \<in> {f 15, f 19, f 20, d, u, f 22, f 21}"
    unfolding r assign_hasRole by auto
qed

lemma does_checkLoanRoles:
  assumes "rt = at S k" and "lt = at S l" and "k < length cs" and "k < 2 ^ 64" and "cs ! k = CRoles r"
    and "hasRole (s_access S) (r_access r) TCASH_MINTER (f l)" and "hasRole (s_access S) (r_access r) TCASH_BURNER (f l)"
  shows "does (checkLoanRoles (node S) rt lt) cs b rho (Ok ()) cs b rho"
  using assms
  by (simp add: does_def checkLoanRoles_def viewBool_def query_def bind_def node_def node_view_def roleNamed_def role_text
      tell_def TCASH_MINTER_def TCASH_BURNER_def)

lemma does_setAuctionContract:
  assumes "lt = at S l" and "l < length cs" and "l < 2 ^ 64" and "cs ! l = CLoan lo" and "l_owner lo = s_sender S"
    and "rho ''TCASH_AUCTION'' = Some (at S a)" and "cs[l := CLoan (lo\<lparr>l_auction := f a\<rparr>)] = cs'" and "b + 1 = b'"
  shows "does (setAuctionContract (node S) lt) cs b rho (Ok ()) cs' b' rho"
proof -
  have call: "callContract S \<lparr>nt_contracts = cs, nt_block = b\<rparr> (Some (s_text S (s_sender S))) lt ''setAuctionContract''
      [ArgStr (Some (at S a))] = Inr cs'"
    using assms(1-5,7)
    by (simp add: call_simps TCashLoan_setAuctionContract_def onlyOwner_def)
  have owner: "query (\<lambda>c. h_view (node S) c lt ''owner'' []) = query (\<lambda>c. node_view S c lt ''owner'' [])"
    and accounts: "query (h_signers (node S)) = query (\<lambda>net. Inr (map (s_text S) (s_sender S # s_accounts S)))"
    by (simp_all add: node_def)
  show ?thesis
    unfolding setAuctionContract_def owner accounts Let_def
    by (rule does_bind, rule does_query [where x = "JStr (s_text S (s_sender S))"], use assms(1-5) in \<open>simp add: node_view_def\<close>,
        rule does_bind, rule does_query, rule refl, simp,
        rule does_bind, rule does_lookup, rule assms(6), rule does_call(2), rule call, rule assms(8))
qed

lemma does_grantFoundationManager:
  assumes "rt = at S k" and "k < length cs" and "k < 2 ^ 64" and "cs ! k = CRoles r"
    and "hasRole (s_access S) (r_access r) FOUNDATION_MANAGER (s_sender S)"
  shows "does (grantFoundationManager (node S) rt) cs b rho (Ok ()) cs b rho"
  using assms
  by (simp add: does_def grantFoundationManager_def firstSigner_def viewBool_def query_def bind_def node_def node_view_def
      roleNamed_def role_text address_text FOUNDATION_MANAGER_def whenA_def)

definition contracts4 ::
    "nat \<Rightarrow> nat \<Rightarrow> addr \<Rightarrow> addr \<Rightarrow> mulsig \<Rightarrow> 'ac roles \<Rightarrow> ('ac, 'tk) contract list" where
  "contracts4 b k d u m r = (contracts3 b (CMulSig (mulSig_for S m)) (CRoles (roles_for S d u r)))
     [4 := COracle (priced (priced (oracle_for (s_sender S) (f 2)) ''UNIT'' (5 * 10 ^ 17) (s_time S (k + 7)))
             ''TCASH'' (5 * 10 ^ 17) (s_time S (k + 8))),
      19 := CLoan (loan_for S\<lparr>l_auction := f 20\<rparr>)] @
     [CTokens (tokens_for (s_sender S) (f 1)), CBridge (bridge_for (s_sender S) (f 21) (f 2))]"

definition names4 :: "string \<rightharpoonup> string" where
  "names4 = names3(''CROSSCHAIN_TOKENS'' \<mapsto> at S 21, ''CROSSCHAIN_BRIDGE'' \<mapsto> at S 22)"

lemma loan_initialises:
  assumes "rs (f 2) = Inr rl" and "hasRole (s_access S) (r_access rl) TCASH_MINTER (f 19)"
    and "hasRole (s_access S) (r_access rl) TCASH_BURNER (f 19)"
  shows "TCashLoan_initialize (s_access S) rs (f 19) blank_loan (s_sender S) (f 15) (f 2) (f 3) (f 4) (f 14) = Inr (loan_for S)"
  using assms by (simp add: TCashLoan_initialize_def Let_def loan_for_def blank_loan_def)

lemma prices_update:
  assumes "o_roleController st = f 2" and "rs (f 2) = Inr rl" and "hasRole (s_access S) (r_access rl) FOUNDATION_MANAGER s"
    and "o_supportedSymbols st symbol" and "0 < price"
  shows "Oracle_updatePrice (s_access S) rs now st s symbol price = Inr (priced st symbol price now)"
  using assms by (simp add: Oracle_updatePrice_def onlyRole_def priced_def)

lemma oracle_for_fields:
  "o_roleController (oracle_for s r) = r" "o_supportedSymbols (oracle_for s r) ''UNIT''"
  "o_supportedSymbols (oracle_for s r) ''TCASH''" "o_roleController (priced st sy p now) = o_roleController st"
  "o_supportedSymbols (priced st sy p now) = o_supportedSymbols st"
  by (simp_all add: oracle_for_def Oracle_initialize_def blank_oracle_def priced_def)

lemma loan_for_fields: "l_owner (loan_for S) = s_sender S"
  by (simp add: loan_for_def)

lemma manager_role:
  "\<not> r_initialized r \<Longrightarrow> s_sender S = d \<or> s_sender S = u \<Longrightarrow>
     hasRole (s_access S) (r_access (roles_for S d u r)) FOUNDATION_MANAGER (s_sender S)"
  by (auto simp: roles_for_hasRole(1))

lemma loan_role:
  "\<not> r_initialized r \<Longrightarrow> hasRole (s_access S) (r_access (roles_for S d u r)) TCASH_MINTER (f 19)"
  "\<not> r_initialized r \<Longrightarrow> hasRole (s_access S) (r_access (roles_for S d u r)) TCASH_BURNER (f 19)"
  by (simp_all add: roles_for_hasRole(1))

lemma crosschain_does:
  assumes "\<not> ms_initialized m" and "\<not> r_initialized r" and "s_sender S = d \<or> s_sender S = u"
  shows "does (crosschain_deploy (node S) (s_text S d) (s_text S u)) (contracts3 b (CMulSig m) (CRoles r)) k names3
    (Ok ()) (contracts4 b k d u m r) (k + 9) names4"
  unfolding crosschain_deploy_def contracts4_def contracts3_def contracts2_def names1_def names2_def names3_def names4_def
  by (rule does_bind does_assoc does_calls does_checkLoanRoles does_setAuctionContract does_grantFoundationManager
      | (simp add: deploy_def newContracts call_simps crosschain_initialise assms key_simps address_zero net_roles_def
          loan_initialises oracle_for_fields loan_for_fields manager_role loan_role prices_update; fail)
      | (simp add: blocks; fail))+

section \<open>When crosschain.js stops\<close>

text \<open>On any chain whose multisig is initialised, by an earlier run or by somebody else, the script deploys and
  records a token registry and a bridge, and stops at the multisig.\<close>

lemma crosschain_stops:
  assumes m: "cs ! 1 = CMulSig m" "ms_initialized m" and len: "2 < length cs" "length cs < 2 ^ 64" and known: "names3 \<subseteq>\<^sub>m rho"
  shows "does (crosschain_deploy (node S) deployer user) cs k rho
    (Throw ''Initializable: contract is already initialized'')
    (cs @ [CTokens (tokens_for (s_sender S) (f 1)), CBridge (bridge_for (s_sender S) (f (length cs)) (f 2))]) (Suc (Suc (Suc k)))
    (rho(''CROSSCHAIN_TOKENS'' \<mapsto> at S (length cs), ''CROSSCHAIN_BRIDGE'' \<mapsto> at S (Suc (length cs))))"
proof -
  have names3: "names3 key = Some a \<Longrightarrow> rho key = Some a" for key a
    using known by (metis domI map_le_def)
  have rho: "rho ''MULSIG'' = Some (at S 1)" "rho ''ROLES'' = Some (at S 2)" "rho ''ORACLE'' = Some (at S 4)"
    "rho ''PARAMETER_INFO'' = Some (at S 3)" "rho ''TCASH'' = Some (at S 15)" "rho ''TCASH_LOAN'' = Some (at S 19)"
    "rho ''TCASH_AUCTION'' = Some (at S 20)" "rho ''TAT'' = Some (at S 14)" "rho ''DAO'' = Some (at S 0)"
    "rho ''GOVERNANCE'' = Some (at S 13)"
    by (rule names3, simp add: names3_def names2_def names1_def)+
  let ?rho = "rho(''CROSSCHAIN_TOKENS'' \<mapsto> at S (length cs), ''CROSSCHAIN_BRIDGE'' \<mapsto> at S (Suc (length cs)))"
  let ?cs = "cs @ [CTokens (tokens_for (s_sender S) (f 1)), CBridge (bridge_for (s_sender S) (f (length cs)) (f 2))]"
  have stop: "callContract S \<lparr>nt_contracts = ?cs, nt_block = Suc (Suc (Suc k))\<rparr> None (at S 1) ''initialize''
      [str (at S 0), str (at S 13), str (at S 2), str (at S 3), str (at S (length cs)), ArgNum 5] =
      Inl ''Initializable: contract is already initialized''"
    using m len by (simp add: call_simps nth_append MulSig_initialize_def)
  have set: "callContract S \<lparr>nt_contracts = cs @ [CTokens (tokens_for (s_sender S) 0), CBridge (bridge_for (s_sender S) (f (length cs)) (f 2))],
      nt_block = Suc (Suc k)\<rparr> None (at S (length cs)) ''setMulSig'' [str (at S 1)] = Inr ?cs"
    using len by (simp add: call_simps nth_append list_update_append crosschain_initialise)
  show ?thesis
    unfolding crosschain_deploy_def
    by (rule does_bind, rule does_lookup, rule rho(1), rule does_bind, rule does_lookup, rule rho(2),
        rule does_bind, rule does_lookup, rule rho(3), rule does_bind, rule does_lookup, rule rho(4),
        rule does_bind, rule does_lookup, rule rho(5), rule does_bind, rule does_lookup, rule rho(6),
        rule does_bind, rule does_lookup, rule rho(7), rule does_bind, rule does_lookup, rule rho(8),
        rule does_bind, rule does_deploy, simp add: deploy_def newContracts call_simps address_zero crosschain_initialise,
        rule refl, rule refl, rule refl, simp add: key_simps,
        rule does_bind, rule does_deploy, simp add: deploy_def newContracts call_simps crosschain_initialise,
        simp, simp, simp, simp add: key_simps,
        rule does_bind, rule does_call(2), rule set, simp,
        rule does_bind, rule does_lookup, simp add: rho, rule does_bind, rule does_lookup, simp add: rho,
        rule does_fail, unfold option.sel, rule does_revert(2), rule stop)
qed

text \<open>A signer who is neither the configured deployer nor the user is not a foundation manager, and cannot become one.\<close>

lemma outsider_roles:
  assumes "s_sender S \<notin> {d, u}" and "s_sender S \<noteq> f 1"
  shows "\<not> hasRole (s_access S) (r_access (roles_for S d u (blank_roles S))) FOUNDATION_MANAGER (s_sender S)"
    and "\<exists>e. grantRole (s_access S) (r_access (roles_for S d u (blank_roles S))) (s_sender S) FOUNDATION_MANAGER (s_sender S) = Inl e"
proof -
  have blank: "\<not> r_initialized (blank_roles S)" "\<not> hasRole (s_access S) (r_access (blank_roles S)) role a" for role a
    by (simp_all add: blank_roles_def no_roles)
  show "\<not> hasRole (s_access S) (r_access (roles_for S d u (blank_roles S))) FOUNDATION_MANAGER (s_sender S)"
    using assms(1) by (auto simp: roles_for_hasRole(1) [OF blank(1)] blank(2) role_defs)
  have "\<not> hasRole (s_access S) (r_access (roles_for S d u (blank_roles S))) ADMIN (s_sender S)"
    using assms(2) by (auto simp: roles_for_hasRole(1) [OF blank(1)] blank(2) role_defs)
  then show "\<exists>e. grantRole (s_access S) (r_access (roles_for S d u (blank_roles S))) (s_sender S) FOUNDATION_MANAGER (s_sender S) = Inl e"
    by (intro grant_denied) (simp add: roles_for_hasRole(2) [OF blank(1)])
qed

lemma does_grant_denied:
  assumes "rt = at S n" and "n < length cs" and "n < 2 ^ 64" and "cs ! n = CRoles r"
    and "\<not> hasRole (s_access S) (r_access r) FOUNDATION_MANAGER (s_sender S)"
    and "grantRole (s_access S) (r_access r) (s_sender S) FOUNDATION_MANAGER (s_sender S) = Inl e"
    and "cs = cs'" and "b = b'" and "rho = rho'"
  shows "does (bind (grantFoundationManager (node S) rt) k) cs b rho (Throw e) cs' b' rho'"
proof -
  have "callContract S \<lparr>nt_contracts = cs, nt_block = b\<rparr> None rt ''grantRole''
      [str (s_roleText S FOUNDATION_MANAGER), str (s_text S (s_sender S))] = Inl e"
    using assms(1-6) by (simp add: call_simps role_text)
  then show ?thesis
    using assms
    by (simp add: does_def grantFoundationManager_def firstSigner_def viewBool_def sendWait_def exec_def query_def bind_def
        node_def node_view_def node_exec_def roleNamed_def role_text address_text FOUNDATION_MANAGER_def whenA_def Let_def)
qed

definition contracts5 :: "nat \<Rightarrow> addr \<Rightarrow> addr \<Rightarrow> ('ac, 'tk) contract list" where
  "contracts5 b d u = (contracts3 b (CMulSig (mulSig_for S blank_mulsig)) (CRoles (roles_for S d u (blank_roles S))))
     [19 := CLoan (loan_for S\<lparr>l_auction := f 20\<rparr>)] @
     [CTokens (tokens_for (s_sender S) (f 1)), CBridge (bridge_for (s_sender S) (f 21) (f 2))]"

lemma crosschain_outsider:
  assumes "s_sender S \<notin> {d, u}" and "s_sender S \<noteq> f 1"
  shows "\<exists>e. does (crosschain_deploy (node S) (s_text S d) (s_text S u))
    (contracts3 b (CMulSig blank_mulsig) (CRoles (blank_roles S))) k names3 (Throw e) (contracts5 b d u) (k + 7) names4"
proof -
  have blank: "\<not> r_initialized (blank_roles S)" "\<not> ms_initialized blank_mulsig"
    by (simp_all add: blank_roles_def blank_mulsig_def)
  obtain e where e: "grantRole (s_access S) (r_access (roles_for S d u (blank_roles S))) (s_sender S) FOUNDATION_MANAGER
      (s_sender S) = Inl e"
    using outsider_roles(2) [OF assms] by blast
  have "does (crosschain_deploy (node S) (s_text S d) (s_text S u))
    (contracts3 b (CMulSig blank_mulsig) (CRoles (blank_roles S))) k names3 (Throw e) (contracts5 b d u) (k + 7) names4"
    unfolding crosschain_deploy_def contracts5_def contracts3_def contracts2_def names1_def names2_def names3_def names4_def
    by (rule does_grant_denied does_bind does_assoc does_calls does_checkLoanRoles does_setAuctionContract
        | (simp add: deploy_def newContracts call_simps crosschain_initialise blank key_simps address_zero net_roles_def
            loan_initialises loan_for_fields loan_role outsider_roles(1) [OF assms] e; fail)
        | (simp add: blocks; fail))+
  then show ?thesis ..
qed

end

end
