(* ===== verification/DeployedPlatform.thy ===== *)
theory DeployedPlatform
  imports DeployedRuns
begin

text \<open>
  What the deployment scripts make, read back through the registry file they write: the governance contracts as the
  chain of the multisig theories, the token contracts as the market of the auction theories, and the links between
  all contracts. The scripts also stop in two situations that nothing in the repository mentions.
\<close>

section \<open>Reading the registry\<close>

definition recordedAt :: "('ac, 'tk) site \<Rightarrow> ('ac, 'tk) net hworld \<Rightarrow> string \<Rightarrow> addr option" where
  "recordedAt S w key = (case resolve (loadState '''' '''' (hw_file w)) key of None \<Rightarrow> None
     | Some t \<Rightarrow> (case s_address S t of Inl e \<Rightarrow> None | Inr a \<Rightarrow> Some a))"

definition recordedContract ::
    "('ac, 'tk) site \<Rightarrow> ('ac, 'tk) net hworld \<Rightarrow> string \<Rightarrow> (addr \<times> ('ac, 'tk) contract) option" where
  "recordedContract S w key = (case recordedAt S w key of None \<Rightarrow> None
     | Some a \<Rightarrow> map_option (Pair a) (contractAt S (nt_contracts (hw_chain w)) a))"

definition deployedChain :: "('ac, 'tk) site \<Rightarrow> ('ac, 'tk) net hworld \<Rightarrow> 'ac chain option" where
  "deployedChain S w =
     (case (recordedContract S w ''MULSIG'', recordedContract S w ''ROLES'', recordedContract S w ''GOVERNANCE'',
            recordedContract S w ''PARAMETER_INFO'', recordedContract S w ''CROSSCHAIN_TOKENS'') of
        (Some (mulSigAt, CMulSig m), Some (rolesAt, CRoles r), Some (governanceAt, CGovernance g),
         Some (paramAt, CParameterInfo p), Some (tokensAt, CTokens t)) \<Rightarrow>
          Some \<lparr>c_rolesAt = rolesAt, c_governanceAt = governanceAt, c_mulSigAt = mulSigAt, c_tokensAt = tokensAt,
            c_paramAt = paramAt, c_roles = r, c_governance = g, c_mulSig = m, c_tokens = t, c_param = p,
            c_producers = (\<lambda>a. case contractAt S (nt_contracts (hw_chain w)) a of
                Some (CProducer p) \<Rightarrow> Some p | _ \<Rightarrow> None),
            c_time = s_time S (nt_block (hw_chain w))\<rparr>
      | _ \<Rightarrow> None)"

definition deployedMarket :: "('ac, 'tk) site \<Rightarrow> ('ac, 'tk) net hworld \<Rightarrow> ('ac, 'tk) market option" where
  "deployedMarket S w =
     (case (recordedContract S w ''TCASH_AUCTION'', recordedContract S w ''TCASH'', recordedContract S w ''TCASH_LOAN'',
            recordedContract S w ''ROLES'', recordedContract S w ''ORACLE'') of
        (Some (auctionAt, CAuction a), Some (tcashAt, CTCash t), Some (loanAt, CLoan l), Some (rolesAt, CRoles r),
         Some (oracleAt, COracle orc)) \<Rightarrow>
          Some \<lparr>mk_auctionAt = auctionAt, mk_tcashAt = tcashAt, mk_loanAt = loanAt, mk_rolesAt = rolesAt,
            mk_oracleAt = oracleAt, mk_auction = a, mk_tcash = t, mk_loan = l, mk_roles = r, mk_oracle = orc,
            mk_time = s_time S (nt_block (hw_chain w))\<rparr>
      | _ \<Rightarrow> None)"

section \<open>Wiring\<close>

definition kinds :: "string list" where
  "kinds = [''OIL'', ''GAS'', ''ETH'', ''BTC'']"

text \<open>The governance contracts refer to each other, and every treasure kind has its producer, which obeys the multisig.\<close>

definition wired :: "'ac chain \<Rightarrow> bool" where
  "wired ch \<longleftrightarrow>
     ms_roles (c_mulSig ch) = c_rolesAt ch \<and> ms_governance (c_mulSig ch) = c_governanceAt ch \<and>
     ms_parameterInfo (c_mulSig ch) = c_paramAt ch \<and> ms_crosschainTokens (c_mulSig ch) = c_tokensAt ch \<and>
     g_role (c_governance ch) = c_rolesAt ch \<and> g_mulSig (c_governance ch) = c_mulSigAt ch \<and>
     g_parameterInfo (c_governance ch) = c_paramAt ch \<and> g_dao (c_governance ch) = ms_dao (c_mulSig ch) \<and>
     ct_mulSig (c_tokens ch) = c_mulSigAt ch \<and> pi_mulSig (c_param ch) = c_mulSigAt ch \<and>
     r_mulSig (c_roles ch) = c_mulSigAt ch \<and> params_ok (c_param ch) \<and>
     list_all (\<lambda>kind. case Governance_getTreasureByKind (c_governance ch) kind of Inl e \<Rightarrow> False
       | Inr (producer, d) \<Rightarrow> (case c_producers ch producer of None \<Rightarrow> False
         | Some p \<Rightarrow> p_initialized p \<and> p_mulSig p = c_mulSigAt ch \<and> p_roles p = c_rolesAt ch \<and> p_asset_type p = kind \<and>
             p_productionData p = d \<and> dapps_ok p)) kinds"

text \<open>The platform contracts hold the recorded addresses of the contracts they use.\<close>

definition linked :: "('ac, 'tk) site \<Rightarrow> ('ac, 'tk) net hworld \<Rightarrow> bool" where
  "linked S w \<longleftrightarrow>
     (let addrOf = recordedAt S w; contractOf = (\<lambda>key. map_option snd (recordedContract S w key)) in
      list_all (\<lambda>kind. case contractOf (kind @ ''_DATA'') of Some (CData x) \<Rightarrow>
          pd_initialized x \<and> pd_kind x = kind \<and> Some (pd_oracle x) = addrOf ''ORACLE'' \<and> Some (pd_roles x) = addrOf ''ROLES'' \<and>
          Some (pd_parameterInfo x) = addrOf ''PARAMETER_INFO'' \<and> Some (pd_producer x) = addrOf (kind @ ''_PRODUCER'') \<and>
          Some (pd_tat x) = addrOf ''TAT'' | _ \<Rightarrow> False) kinds \<and>
      (case contractOf ''TAT'' of Some (CTAT x) \<Rightarrow> Some (tt_governance x) = addrOf ''GOVERNANCE'' | _ \<Rightarrow> False) \<and>
      (case contractOf ''ORACLE'' of Some (COracle x) \<Rightarrow> Some (o_roleController x) = addrOf ''ROLES'' \<and>
          Oracle_getPrice x ''UNIT'' = Inr (5 * 10 ^ 17) \<and> Oracle_getPrice x ''TCASH'' = Inr (5 * 10 ^ 17) | _ \<Rightarrow> False) \<and>
      (case contractOf ''TCASH'' of Some (CTCash x) \<Rightarrow> Some (tc_roles x) = addrOf ''ROLES'' \<and>
          Some (tc_oracle x) = addrOf ''ORACLE'' | _ \<Rightarrow> False) \<and>
      (case contractOf ''TCASH_LOAN'' of Some (CLoan x) \<Rightarrow> Some (l_tcash x) = addrOf ''TCASH'' \<and>
          Some (l_roles x) = addrOf ''ROLES'' \<and> Some (l_parameterInfo x) = addrOf ''PARAMETER_INFO'' \<and>
          Some (l_oracle x) = addrOf ''ORACLE'' \<and> Some (l_tat x) = addrOf ''TAT'' \<and>
          Some (l_auction x) = addrOf ''TCASH_AUCTION'' | _ \<Rightarrow> False) \<and>
      (case contractOf ''TCASH_AUCTION'' of Some (CAuction x) \<Rightarrow> Some (ta_roles x) = addrOf ''ROLES'' \<and>
          Some (ta_tcash x) = addrOf ''TCASH'' \<and> Some (ta_loan x) = addrOf ''TCASH_LOAN'' | _ \<Rightarrow> False) \<and>
      (case contractOf ''CROSSCHAIN_BRIDGE'' of Some (CBridge x) \<Rightarrow> Some (br_roles x) = addrOf ''ROLES'' \<and>
          Some (br_crosschainTokens x) = addrOf ''CROSSCHAIN_TOKENS'' | _ \<Rightarrow> False))"

section \<open>The addresses of the environment\<close>

definition configured :: "('ac, 'tk) site \<Rightarrow> string \<Rightarrow> string \<Rightarrow> addr fallible" where
  "configured S name fallback =
     s_address S (orElse (trim (case s_env S name of None \<Rightarrow> '''' | Some s \<Rightarrow> s)) fallback)"

abbreviation configuredDeployer :: "('ac, 'tk) site \<Rightarrow> addr fallible" where
  "configuredDeployer S \<equiv> configured S ''DEPLOYER_ADDR'' ''0x6A79824E6be14b7e5Cb389527A02140935a76cD5''"

abbreviation configuredUser :: "('ac, 'tk) site \<Rightarrow> addr fallible" where
  "configuredUser S \<equiv> configured S ''USER_ADDR'' ''0x09eda46ffcec4656235391dd298875b82aa458a9''"

lemma crosschain_start:
  assumes "configuredDeployer S = Inr d" and "configuredUser S = Inr u"
  shows "crosschain_main (node S) network w = runMain (bind (load (node S) network) (\<lambda>_.
    bind (requireEntry ''No deployment entry; run previous steps.'') (\<lambda>_.
    bind (factories (node S) [''MulSig'', ''Roles'', ''Oracle'', ''TCashLoan'', ''CrosschainTokens'', ''CrosschainBridge'']) (\<lambda>_.
    bind (requireKeys ''; ensure previous steps completed'' crosschain_required) (\<lambda>_.
    bind (requireCode (node S) network crosschain_required) (\<lambda>_.
    crosschain_deploy (node S) (s_text S d) (s_text S u))))))) w"
proof -
  have read: "normalizeAddress (node S) (h_env (node S) name) name fallback = ret (s_text S a)"
    if "configured S name fallback = Inr a" for name fallback a
    using that by (simp add: normalizeAddress_def configured_def node_def wrap_def Let_def fun_eq_iff catch_def)
  show ?thesis
    unfolding crosschain_main_def read [OF assms(1)] read [OF assms(2)] by (simp add: bind_def)
qed

context deploy_site
begin

lemma does_start:
  assumes "names3 \<subseteq>\<^sub>m rho" and "20 < length cs"
    and "does (crosschain_deploy (node S) deployer user) cs b rho r cs' b' rho'"
  shows "does (bind (requireEntry ''No deployment entry; run previous steps.'') (\<lambda>_.
    bind (factories (node S) [''MulSig'', ''Roles'', ''Oracle'', ''TCashLoan'', ''CrosschainTokens'', ''CrosschainBridge'']) (\<lambda>_.
    bind (requireKeys ''; ensure previous steps completed'' crosschain_required) (\<lambda>_.
    bind (requireCode (node S) network crosschain_required) (\<lambda>_.
    crosschain_deploy (node S) deployer user))))) cs b rho r cs' b' rho'"
proof -
  have names3: "names3 key = Some a \<Longrightarrow> rho key = Some a" for key a
    using assms(1) by (metis domI map_le_def)
  have rho: "rho ''DAO'' = Some (at S 0)" "rho ''MULSIG'' = Some (at S 1)" "rho ''ROLES'' = Some (at S 2)"
    "rho ''PARAMETER_INFO'' = Some (at S 3)" "rho ''ORACLE'' = Some (at S 4)" "rho ''GOVERNANCE'' = Some (at S 13)"
    "rho ''TCASH'' = Some (at S 15)" "rho ''TCASH_LOAN'' = Some (at S 19)" "rho ''TCASH_AUCTION'' = Some (at S 20)"
    "rho ''TAT'' = Some (at S 14)"
    by (rule names3, simp add: names3_def names2_def names1_def)+
  have here: "\<exists>m. at S n = at S m \<and> m < length cs \<and> m < 2 ^ 64" if "n < 21" for n
    using assms(2) that by (intro exI [of _ n]) simp
  show ?thesis
    by (rule does_bind, rule does_requireEntry, rule does_bind, rule does_factories, simp add: newContracts,
        rule does_bind, rule does_requireKeys, simp add: crosschain_required_def rho,
        rule does_bind, rule does_requireCode, simp add: crosschain_required_def rho here [simplified], rule assms(3))
qed

text \<open>The first three steps, from an empty chain and any registry file.\<close>

lemma first_steps:
  assumes "hw_chain w = \<lparr>nt_contracts = [], nt_block = b\<rparr>"
  shows "\<exists>w1 w2 w3. base_main (node S) network w = (Ok (), w1) \<and> producers_main (node S) network w1 = (Ok (), w2) \<and>
    tcash_main (node S) network w2 = (Ok (), w3) \<and>
    hw_chain w3 = \<lparr>nt_contracts = contracts3 b (CMulSig blank_mulsig) (CRoles (blank_roles S)), nt_block = b + 34\<rparr> \<and>
    ds_entries (hw_state w3) \<noteq> [] \<and> names3 \<subseteq>\<^sub>m resolve (hw_state w3) \<and> hw_file w3 = Entries (hw_state w3)"
proof -
  obtain w1 where w1: "base_main (node S) network w = (Ok (), w1)"
    "hw_chain w1 = \<lparr>nt_contracts = contracts1 b (CMulSig blank_mulsig) (CRoles (blank_roles S)), nt_block = b + 8\<rparr>"
    "ds_entries (hw_state w1) \<noteq> []" "names1 \<subseteq>\<^sub>m resolve (hw_state w1)" "hw_file w1 = Entries (hw_state w1)"
    using base_run [OF assms] by blast
  obtain w2 where w2: "producers_main (node S) network w1 = (Ok (), w2)"
    "hw_chain w2 = \<lparr>nt_contracts = contracts2 b (CMulSig blank_mulsig) (CRoles (blank_roles S)), nt_block = b + 8 + 18\<rparr>"
    "ds_entries (hw_state w2) \<noteq> []" "names2 \<subseteq>\<^sub>m resolve (hw_state w2)" "hw_file w2 = Entries (hw_state w2)"
    using producers_run [OF w1(2,5,3,4)] by blast
  obtain w3 where w3: "tcash_main (node S) network w2 = (Ok (), w3)"
    "hw_chain w3 = \<lparr>nt_contracts = contracts3 b (CMulSig blank_mulsig) (CRoles (blank_roles S)), nt_block = b + 8 + 18 + 8\<rparr>"
    "ds_entries (hw_state w3) \<noteq> []" "names3 \<subseteq>\<^sub>m resolve (hw_state w3)" "hw_file w3 = Entries (hw_state w3)"
    using tcash_run [OF w2(2,5,3,4)] by blast
  have "b + 8 + 18 + 8 = b + 34" by simp
  with w1(1) w2(1) w3 show ?thesis by metis
qed

lemma length_contracts3: "length (contracts3 b m r) = 21"
  by (simp add: contracts3_def contracts2_def)

lemma crosschain_run:
  assumes "hw_chain w = \<lparr>nt_contracts = contracts3 b (CMulSig m) (CRoles r), nt_block = k\<rparr>"
    and "hw_file w = Entries s" and "ds_entries s \<noteq> []" and "names3 \<subseteq>\<^sub>m resolve s"
    and "configuredDeployer S = Inr d" and "configuredUser S = Inr u" and "s_sender S = d \<or> s_sender S = u"
    and "\<not> ms_initialized m" and "\<not> r_initialized r"
  shows "\<exists>w'. crosschain_main (node S) network w = (Ok (), w') \<and>
    hw_chain w' = \<lparr>nt_contracts = contracts4 b k d u m r, nt_block = k + 9\<rparr> \<and>
    ds_entries (hw_state w') \<noteq> [] \<and> names4 \<subseteq>\<^sub>m resolve (hw_state w') \<and> hw_file w' = Entries (hw_state w')"
  unfolding crosschain_start [OF assms(5,6)]
  by (rule does_script [OF does_start [OF _ _ crosschain_does [OF assms(8,9,7)]] assms(1-4)])
    (simp_all add: contracts4_def length_contracts3)

text \<open>A script that throws ends with code 1; what it did before stays.\<close>

lemma does_script_fails:
  assumes "does m cs b rho (Throw e) cs' b' rho'" and "hw_chain w = \<lparr>nt_contracts = cs, nt_block = b\<rparr>"
    and "hw_file w = Entries s" and "ds_entries s \<noteq> []" and "rho \<subseteq>\<^sub>m resolve s"
  shows "\<exists>w'. runMain (bind (load H network) (\<lambda>_. m)) w = (Exit 1, w') \<and>
    hw_chain w' = \<lparr>nt_contracts = cs', nt_block = b'\<rparr> \<and>
    ds_entries (hw_state w') \<noteq> [] \<and> rho' \<subseteq>\<^sub>m resolve (hw_state w') \<and> hw_file w' = Entries (hw_state w')"
proof -
  obtain w' where "m (w\<lparr>hw_state := s\<rparr>) = (Throw e, w')" "hw_chain w' = \<lparr>nt_contracts = cs', nt_block = b'\<rparr>"
    "ds_entries (hw_state w') \<noteq> []" "rho' \<subseteq>\<^sub>m resolve (hw_state w')"
    "hw_file w' = Entries (hw_state w') \<or> hw_file w' = hw_file w \<and> hw_state w' = s"
    using assms(1) [unfolded does_def, rule_format, of "w\<lparr>hw_state := s\<rparr>"] assms(2,4,5) by auto
  then show ?thesis
    unfolding runMain_load assms(3) loadState.simps
    by (auto simp: runMain_def catch_def bind_def tell_def process_exit_def assms(3))
qed

lemma crosschain_outsider_run:
  assumes "hw_chain w = \<lparr>nt_contracts = contracts3 b (CMulSig blank_mulsig) (CRoles (blank_roles S)), nt_block = k\<rparr>"
    and "hw_file w = Entries s" and "ds_entries s \<noteq> []" and "names3 \<subseteq>\<^sub>m resolve s"
    and "configuredDeployer S = Inr d" and "configuredUser S = Inr u" and "s_sender S \<notin> {d, u}" and "s_sender S \<noteq> f 1"
  shows "\<exists>w'. crosschain_main (node S) network w = (Exit 1, w') \<and>
    hw_chain w' = \<lparr>nt_contracts = contracts5 b d u, nt_block = k + 7\<rparr> \<and>
    ds_entries (hw_state w') \<noteq> [] \<and> names4 \<subseteq>\<^sub>m resolve (hw_state w') \<and> hw_file w' = Entries (hw_state w')"
proof -
  obtain e where e: "does (crosschain_deploy (node S) (s_text S d) (s_text S u))
    (contracts3 b (CMulSig blank_mulsig) (CRoles (blank_roles S))) k names3 (Throw e) (contracts5 b d u) (k + 7) names4"
    using crosschain_outsider [OF assms(7,8)] by blast
  show ?thesis
    unfolding crosschain_start [OF assms(5,6)]
    by (rule does_script_fails [OF does_start [OF _ _ e] assms(1-4)]) (simp_all add: length_contracts3)
qed

lemma crosschain_again_run:
  assumes "hw_chain w = \<lparr>nt_contracts = cs, nt_block = k\<rparr>" and "cs ! 1 = CMulSig m" and "ms_initialized m"
    and "20 < length cs" and "length cs < 2 ^ 64" and "hw_file w = Entries s" and "ds_entries s \<noteq> []" and "names3 \<subseteq>\<^sub>m resolve s"
    and "configuredDeployer S = Inr d" and "configuredUser S = Inr u"
  shows "\<exists>w'. crosschain_main (node S) network w = (Exit 1, w') \<and>
    hw_chain w' = \<lparr>nt_contracts = cs @ [CTokens (tokens_for (s_sender S) (f 1)),
      CBridge (bridge_for (s_sender S) (f (length cs)) (f 2))], nt_block = Suc (Suc (Suc k))\<rparr> \<and>
    names3(''CROSSCHAIN_TOKENS'' \<mapsto> at S (length cs), ''CROSSCHAIN_BRIDGE'' \<mapsto> at S (Suc (length cs)))
      \<subseteq>\<^sub>m resolve (hw_state w') \<and> hw_file w' = Entries (hw_state w')"
proof -
  have "2 < length cs" using assms(4) by simp
  note stops = crosschain_stops [OF assms(2,3) this assms(5) map_le_refl]
  show ?thesis
    unfolding crosschain_start [OF assms(9,10)]
    using does_script_fails [OF does_start [OF map_le_refl assms(4) stops] assms(1,6-8)] by blast
qed

section \<open>What is recorded\<close>

lemma recorded_name:
  assumes "names \<subseteq>\<^sub>m resolve (hw_state w)" and "hw_file w = Entries (hw_state w)" and "names key = Some (at S n)"
  shows "recordedAt S w key = Some (f n)"
proof -
  have "resolve (hw_state w) key = Some (at S n)"
    using assms(1,3) by (metis domI map_le_def)
  then show ?thesis by (simp add: recordedAt_def assms(2))
qed

lemma recorded_contract:
  assumes "recordedAt S w key = Some (f n)" and "n < length (nt_contracts (hw_chain w))" and "n < 2 ^ 64"
  shows "recordedContract S w key = Some (f n, nt_contracts (hw_chain w) ! n)"
  using assms by (simp add: recordedContract_def)

lemma governance_fields:
  "g_role (governance_for s d m r p [f 5, f 7, f 9, f 11] [f 6, f 8, f 10, f 12]) = r"
  "g_mulSig (governance_for s d m r p [f 5, f 7, f 9, f 11] [f 6, f 8, f 10, f 12]) = m"
  "g_parameterInfo (governance_for s d m r p [f 5, f 7, f 9, f 11] [f 6, f 8, f 10, f 12]) = p"
  "g_dao (governance_for s d m r p [f 5, f 7, f 9, f 11] [f 6, f 8, f 10, f 12]) = d"
  "Governance_getTreasureByKind (governance_for s d m r p [f 5, f 7, f 9, f 11] [f 6, f 8, f 10, f 12]) ''OIL'' = Inr (f 5, f 6)"
  "Governance_getTreasureByKind (governance_for s d m r p [f 5, f 7, f 9, f 11] [f 6, f 8, f 10, f 12]) ''GAS'' = Inr (f 7, f 8)"
  "Governance_getTreasureByKind (governance_for s d m r p [f 5, f 7, f 9, f 11] [f 6, f 8, f 10, f 12]) ''ETH'' = Inr (f 9, f 10)"
  "Governance_getTreasureByKind (governance_for s d m r p [f 5, f 7, f 9, f 11] [f 6, f 8, f 10, f 12]) ''BTC'' = Inr (f 11, f 12)"
  by (simp_all add: governance_for_def Governance_initialize_def Governance_addTreasure_internal_def fresh_nonzero
      blank_governance_def no_treasure_def Governance_getTreasureByKind_def Let_def)

lemma producer_fields:
  assumes "kind \<noteq> []"
  shows "p_initialized (producer_for (f m) (f r) kind (f d))" "p_mulSig (producer_for (f m) (f r) kind (f d)) = f m"
    "p_roles (producer_for (f m) (f r) kind (f d)) = f r" "p_asset_type (producer_for (f m) (f r) kind (f d)) = kind"
    "p_productionData (producer_for (f m) (f r) kind (f d)) = f d" "dapps_ok (producer_for (f m) (f r) kind (f d))"
  using assms
  by (simp_all add: producer_for_def Producer_initialize_def blank_producer_def fresh_nonzero dapps_ok_def)

lemma mulSig_fields:
  "ms_roles (mulSig_for S blank_mulsig) = f 2" "ms_governance (mulSig_for S blank_mulsig) = f 13"
  "ms_parameterInfo (mulSig_for S blank_mulsig) = f 3" "ms_crosschainTokens (mulSig_for S blank_mulsig) = f 21"
  "ms_dao (mulSig_for S blank_mulsig) = f 0" "ms_confirmDuration (mulSig_for S blank_mulsig) = 5"
  "ms_initialized (mulSig_for S blank_mulsig)"
  "ms_proposalIDx (mulSig_for S blank_mulsig) = 0" "ms_pendingProposals (mulSig_for S blank_mulsig) = []"
  "ms_proposals (mulSig_for S blank_mulsig) = ms_proposals blank_mulsig"
  by (simp_all add: mulSig_for_def MulSig_initialize_def blank_mulsig_def)

lemma other_fields:
  "ct_mulSig (tokens_for s m) = m" "pi_mulSig (param_for m) = m" "params_ok (param_for m)"
  "br_crosschainTokens (bridge_for s t r) = t" "br_roles (bridge_for s t r) = r" "tt_governance (tat_for s g) = g"
  "pd_initialized (data_for kind orc r p producer tat)" "pd_kind (data_for kind orc r p producer tat) = kind"
  "pd_oracle (data_for kind orc r p producer tat) = orc" "pd_roles (data_for kind orc r p producer tat) = r"
  "pd_parameterInfo (data_for kind orc r p producer tat) = p" "pd_producer (data_for kind orc r p producer tat) = producer"
  "pd_tat (data_for kind orc r p producer tat) = tat"
  by (simp_all add: tokens_for_def CrosschainTokens_initialize_def blank_tokens_def param_for_def
      ParameterInfo_initialize_def blank_param_def bridge_for_def CrosschainBridge_initialize_def blank_bridge_def tat_for_def
      TAT_initialize_def blank_tat_def data_for_def ProductionData_initialize_def blank_data_def Let_def)
    (rule initialize_params_ok [of blank_param m], simp add: ParameterInfo_initialize_def blank_param_def)

lemma auction_fields:
  "ta_roles (auction_for s (f r) (f t) (f l)) = f r" "ta_tcash (auction_for s (f r) (f t) (f l)) = f t"
  "ta_loan (auction_for s (f r) (f t) (f l)) = f l"
  by (simp_all add: auction_for_def TCashAuction_initialize_def blank_auction_def fresh_nonzero Let_def)

lemma price_fields:
  "Oracle_getPrice (priced (priced (oracle_for s r) ''UNIT'' p t) ''TCASH'' q t') ''UNIT'' = Inr p"
  "Oracle_getPrice (priced (priced (oracle_for s r) ''UNIT'' p t) ''TCASH'' q t') ''TCASH'' = Inr q"
  by (simp_all add: Oracle_getPrice_def priced_def oracle_for_def Oracle_initialize_def blank_oracle_def)

definition chain4 :: "addr \<Rightarrow> addr \<Rightarrow> ('ac, 'tk) contract list \<Rightarrow> nat \<Rightarrow> 'ac chain" where
  "chain4 d u cs now = \<lparr>c_rolesAt = f 2, c_governanceAt = f 13, c_mulSigAt = f 1, c_tokensAt = f 21, c_paramAt = f 3,
     c_roles = roles_for S d u (blank_roles S),
     c_governance = governance_for (s_sender S) (f 0) (f 1) (f 2) (f 3) [f 5, f 7, f 9, f 11] [f 6, f 8, f 10, f 12],
     c_mulSig = mulSig_for S blank_mulsig, c_tokens = tokens_for (s_sender S) (f 1), c_param = param_for (f 1),
     c_producers = (\<lambda>a. case contractAt S cs a of Some (CProducer p) \<Rightarrow> Some p | _ \<Rightarrow> None), c_time = now\<rparr>"

lemma contracts4_at:
  "length (contracts4 b k d u m r) = 23"
  "contracts4 b k d u m r ! 1 = CMulSig (mulSig_for S m)" "contracts4 b k d u m r ! 2 = CRoles (roles_for S d u r)"
  "contracts4 b k d u m r ! 3 = CParameterInfo (param_for (f 1))"
  "contracts4 b k d u m r ! 4 = COracle (priced (priced (oracle_for (s_sender S) (f 2)) ''UNIT'' (5 * 10 ^ 17) (s_time S (k + 7)))
             ''TCASH'' (5 * 10 ^ 17) (s_time S (k + 8)))"
  "contracts4 b k d u m r ! 5 = CProducer (producer_for (f 1) (f 2) ''OIL'' (f 6))"
  "contracts4 b k d u m r ! 6 = CData (data_for ''OIL'' (f 4) (f 2) (f 3) (f 5) (f 14))"
  "contracts4 b k d u m r ! 7 = CProducer (producer_for (f 1) (f 2) ''GAS'' (f 8))"
  "contracts4 b k d u m r ! 8 = CData (data_for ''GAS'' (f 4) (f 2) (f 3) (f 7) (f 14))"
  "contracts4 b k d u m r ! 9 = CProducer (producer_for (f 1) (f 2) ''ETH'' (f 10))"
  "contracts4 b k d u m r ! 10 = CData (data_for ''ETH'' (f 4) (f 2) (f 3) (f 9) (f 14))"
  "contracts4 b k d u m r ! 11 = CProducer (producer_for (f 1) (f 2) ''BTC'' (f 12))"
  "contracts4 b k d u m r ! 12 = CData (data_for ''BTC'' (f 4) (f 2) (f 3) (f 11) (f 14))"
  "contracts4 b k d u m r ! 13 =
     CGovernance (governance_for (s_sender S) (f 0) (f 1) (f 2) (f 3) [f 5, f 7, f 9, f 11] [f 6, f 8, f 10, f 12])"
  "contracts4 b k d u m r ! 14 = CTAT (tat_for (s_sender S) (f 13))"
  "contracts4 b k d u m r ! 15 = CTCash (tcash_for S\<lparr>tc_roles := f 2, tc_oracle := f 4\<rparr>)"
  "contracts4 b k d u m r ! 19 = CLoan (loan_for S\<lparr>l_auction := f 20\<rparr>)"
  "contracts4 b k d u m r ! 20 = CAuction (auction_for (s_sender S) (f 2) (f 15) (f 19))"
  "contracts4 b k d u m r ! 21 = CTokens (tokens_for (s_sender S) (f 1))"
  "contracts4 b k d u m r ! 22 = CBridge (bridge_for (s_sender S) (f 21) (f 2))"
  by (simp_all add: contracts4_def contracts3_def contracts2_def)

text \<open>The world after the four steps.\<close>

definition finished :: "nat \<Rightarrow> nat \<Rightarrow> addr \<Rightarrow> addr \<Rightarrow> ('ac, 'tk) net hworld \<Rightarrow> bool" where
  "finished b k d u w \<longleftrightarrow> nt_contracts (hw_chain w) = contracts4 b k d u blank_mulsig (blank_roles S) \<and>
     names4 \<subseteq>\<^sub>m resolve (hw_state w) \<and> hw_file w = Entries (hw_state w)"

lemma finished_contract:
  assumes "finished b k d u w" and "names4 key = Some (at S n)" and "n < 23"
  shows "recordedAt S w key = Some (f n)"
    and "recordedContract S w key = Some (f n, contracts4 b k d u blank_mulsig (blank_roles S) ! n)"
proof -
  note w = assms(1) [unfolded finished_def]
  show at: "recordedAt S w key = Some (f n)"
    by (rule recorded_name [where names = names4, OF _ _ assms(2)]) (use w in auto)
  show "recordedContract S w key = Some (f n, contracts4 b k d u blank_mulsig (blank_roles S) ! n)"
    using recorded_contract [OF at] w assms(3) by (simp add: contracts4_at)
qed

lemma names4_at:
  "names4 ''DAO'' = Some (at S 0)" "names4 ''MULSIG'' = Some (at S 1)" "names4 ''ROLES'' = Some (at S 2)"
  "names4 ''PARAMETER_INFO'' = Some (at S 3)" "names4 ''ORACLE'' = Some (at S 4)"
  "names4 ''OIL_PRODUCER'' = Some (at S 5)" "names4 ''OIL_DATA'' = Some (at S 6)"
  "names4 ''GAS_PRODUCER'' = Some (at S 7)" "names4 ''GAS_DATA'' = Some (at S 8)"
  "names4 ''ETH_PRODUCER'' = Some (at S 9)" "names4 ''ETH_DATA'' = Some (at S 10)"
  "names4 ''BTC_PRODUCER'' = Some (at S 11)" "names4 ''BTC_DATA'' = Some (at S 12)"
  "names4 ''GOVERNANCE'' = Some (at S 13)" "names4 ''TAT'' = Some (at S 14)" "names4 ''TCASH'' = Some (at S 15)"
  "names4 ''TCASH_LOAN'' = Some (at S 19)" "names4 ''TCASH_AUCTION'' = Some (at S 20)"
  "names4 ''CROSSCHAIN_TOKENS'' = Some (at S 21)" "names4 ''CROSSCHAIN_BRIDGE'' = Some (at S 22)"
  by (simp_all add: names4_def names3_def names2_def names1_def)

lemma finished_chain:
  assumes "finished b k d u w"
  shows "deployedChain S w = Some (chain4 d u (contracts4 b k d u blank_mulsig (blank_roles S)) (s_time S (nt_block (hw_chain w))))"
proof -
  note r = finished_contract(2) [OF assms]
  show ?thesis
    using assms
    by (simp add: deployedChain_def r [OF names4_at(2)] r [OF names4_at(3)] r [OF names4_at(14)]
        r [OF names4_at(4)] r [OF names4_at(19)] contracts4_at contracts4_at(2) [unfolded One_nat_def] finished_def chain4_def)
qed

end

end
