(* ===== verification/DeployedSafety.thy ===== *)
theory DeployedSafety
  imports DeployedPlatform Demo
begin

text \<open>
  What can be relied on, and what cannot, when the four deployment scripts have run: the governance is wired as the
  multisig theories assume, no auction takes a bid, and crosschain.js neither serves other accounts nor runs twice.
\<close>

section \<open>A token that does not know the auctions\<close>

definition closed :: "('ac, 'tk) market \<Rightarrow> bool" where
  "closed mk \<longleftrightarrow> tc_auction (mk_tcash mk) \<noteq> mk_auctionAt mk"

lemma closed_bid: "closed mk \<Longrightarrow> TCashAuction_bid T mk s n v \<noteq> Inr mk'"
  by (simp add: bid_Inr_iff can_bid_def closed_def Let_def)

lemma closed_call:
  assumes "closed mk" and "c \<noteq> SetAuctionContract (mk_auctionAt mk)" and "market_call T A P mk s c = Inr mk'"
  shows "closed mk'"
proof (cases c)
  case (AuctionStart m d i)
  with assms show ?thesis by (auto simp: TCashAuction_auctionStart_def Let_def ebind_Inr_iff closed_def)
next
  case (Bid n v)
  with assms(3) closed_bid [OF assms(1)] show ?thesis by simp
next
  case (BidWithdrawal n)
  with assms show ?thesis by (simp add: withdrawal_Inr_iff closed_def)
next
  case (BidCost u v)
  with assms(1) lock_calls(1) [OF assms(3) [unfolded BidCost]] show ?thesis by (auto simp: closed_def)
next
  case (BidBack u v)
  with assms(1) lock_calls(2) [OF assms(3) [unfolded BidBack]] show ?thesis by (auto simp: closed_def)
next
  case (SetAuctionContract a)
  with assms(2) lock_calls(3) [OF assms(3) [unfolded SetAuctionContract]] show ?thesis by (simp add: closed_def)
qed (use other_calls_quiet [OF assms(3)] assms(1) in \<open>simp_all add: quiet_def closed_def\<close>)

lemma closed_aside: "aside mk mk' \<Longrightarrow> closed mk \<Longrightarrow> closed mk'"
  by (simp add: aside_def closed_def)

lemma closed_later:
  assumes "later T A P (- {mk_auctionAt mk}) mk mk'" and "closed mk"
  shows "closed mk'"
  using assms(1)
proof (induction rule: rtranclp_induct)
  case (step y z)
  note same = later_same_contract [OF step.hyps(1)]
  from step.hyps(2) step.IH same show ?case
    by (induction rule: market_step.induct) (auto intro: closed_call closed_aside)
qed (rule assms(2))

section \<open>The finished deployment\<close>

context deploy_site
begin

lemma deployment_run:
  assumes "hw_chain w = \<lparr>nt_contracts = [], nt_block = b\<rparr>"
    and "configuredDeployer S = Inr d" and "configuredUser S = Inr u" and "s_sender S = d \<or> s_sender S = u"
  shows "\<exists>w1 w2 w3 w4. base_main (node S) network w = (Ok (), w1) \<and> producers_main (node S) network w1 = (Ok (), w2) \<and>
    tcash_main (node S) network w2 = (Ok (), w3) \<and> crosschain_main (node S) network w3 = (Ok (), w4) \<and>
    finished b (b + 34) d u w4 \<and> ds_entries (hw_state w4) \<noteq> []"
proof -
  obtain w1 w2 w3 where steps: "base_main (node S) network w = (Ok (), w1)" "producers_main (node S) network w1 = (Ok (), w2)"
    "tcash_main (node S) network w2 = (Ok (), w3)"
    and chain: "hw_chain w3 = \<lparr>nt_contracts = contracts3 b (CMulSig blank_mulsig) (CRoles (blank_roles S)), nt_block = b + 34\<rparr>"
    and reg: "hw_file w3 = Entries (hw_state w3)" "ds_entries (hw_state w3) \<noteq> []" "names3 \<subseteq>\<^sub>m resolve (hw_state w3)"
    using first_steps [OF assms(1)] by blast
  have blank: "\<not> ms_initialized blank_mulsig" "\<not> r_initialized (blank_roles S)"
    by (simp_all add: blank_mulsig_def blank_roles_def)
  obtain w4 where "crosschain_main (node S) network w3 = (Ok (), w4)" "finished b (b + 34) d u w4" "ds_entries (hw_state w4) \<noteq> []"
    using crosschain_run [OF chain reg assms(2-4) blank, of network] unfolding finished_def by auto
  with steps show ?thesis by blast
qed

lemma chain4_fields [simp]:
  "c_rolesAt (chain4 d u cs now) = f 2" "c_governanceAt (chain4 d u cs now) = f 13" "c_mulSigAt (chain4 d u cs now) = f 1"
  "c_tokensAt (chain4 d u cs now) = f 21" "c_paramAt (chain4 d u cs now) = f 3"
  "c_roles (chain4 d u cs now) = roles_for S d u (blank_roles S)" "c_mulSig (chain4 d u cs now) = mulSig_for S blank_mulsig"
  "c_governance (chain4 d u cs now) =
     governance_for (s_sender S) (f 0) (f 1) (f 2) (f 3) [f 5, f 7, f 9, f 11] [f 6, f 8, f 10, f 12]"
  "c_tokens (chain4 d u cs now) = tokens_for (s_sender S) (f 1)" "c_param (chain4 d u cs now) = param_for (f 1)"
  "c_producers (chain4 d u cs now) a = (case contractAt S cs a of Some (CProducer p) \<Rightarrow> Some p | _ \<Rightarrow> None)"
  by (simp_all add: chain4_def)

lemma blank_roles_facts: "\<not> r_initialized (blank_roles S)" "\<not> hasRole (s_access S) (r_access (blank_roles S)) role a"
  by (simp_all add: blank_roles_def no_roles)

lemma finished_wired:
  assumes "cs = contracts4 b k d u blank_mulsig (blank_roles S)"
  shows "wired (chain4 d u cs now)"
  using assms
  by (simp add: wired_def kinds_def governance_fields mulSig_fields other_fields contracts4_at producer_fields
      roles_for_hasRole(4) [OF blank_roles_facts(1)])

lemma finished_roles:
  "is_manager (s_access S) (chain4 d u cs now) a \<longleftrightarrow> a = d \<or> a = u"
  "hasRole (s_access S) (r_access (roles_for S d u (blank_roles S))) ADMIN a \<longleftrightarrow> a = f 1"
  "needed (s_access S) (chain4 d u cs now) = (if d = u then 1 else 2)"
proof -
  have has: "hasRole (s_access S) (r_access (roles_for S d u (blank_roles S))) FOUNDATION_MANAGER a \<longleftrightarrow> a = d \<or> a = u" for a
    by (simp add: roles_for_hasRole(1) [OF blank_roles_facts(1)] blank_roles_facts(2) role_defs)
  then show "is_manager (s_access S) (chain4 d u cs now) a \<longleftrightarrow> a = d \<or> a = u"
    by (simp add: is_manager_def mulSig_fields)
  show "hasRole (s_access S) (r_access (roles_for S d u (blank_roles S))) ADMIN a \<longleftrightarrow> a = f 1"
    by (simp add: roles_for_hasRole(1) [OF blank_roles_facts(1)] blank_roles_facts(2) role_defs)
  have "{a. a = d \<or> a = u} = {d, u}" by auto
  then show "needed (s_access S) (chain4 d u cs now) = (if d = u then 1 else 2)"
    by (simp add: needed_def members_count has)
qed

lemma finished_reachable: "ms_reachable (s_access S) (chain4 d u cs now)"
  by (rule ms_reachable.deployed [of "s_sender S" "f 0" "f 13" "f 2" "f 3" "f 21" 5])
    (simp add: crosschain_initialise(4) blank_mulsig_def)

lemma finished_linked:
  assumes "finished b k d u w"
  shows "linked S w"
proof -
  note at = finished_contract(1) [OF assms names4_at(2)] finished_contract(1) [OF assms names4_at(3)]
    finished_contract(1) [OF assms names4_at(4)] finished_contract(1) [OF assms names4_at(5)]
    finished_contract(1) [OF assms names4_at(6)] finished_contract(1) [OF assms names4_at(8)]
    finished_contract(1) [OF assms names4_at(10)] finished_contract(1) [OF assms names4_at(12)]
    finished_contract(1) [OF assms names4_at(14)] finished_contract(1) [OF assms names4_at(15)]
    finished_contract(1) [OF assms names4_at(16)] finished_contract(1) [OF assms names4_at(17)]
    finished_contract(1) [OF assms names4_at(18)] finished_contract(1) [OF assms names4_at(19)]
  note there = finished_contract(2) [OF assms names4_at(5)] finished_contract(2) [OF assms names4_at(7)]
    finished_contract(2) [OF assms names4_at(9)] finished_contract(2) [OF assms names4_at(11)]
    finished_contract(2) [OF assms names4_at(13)] finished_contract(2) [OF assms names4_at(15)]
    finished_contract(2) [OF assms names4_at(16)] finished_contract(2) [OF assms names4_at(17)]
    finished_contract(2) [OF assms names4_at(18)] finished_contract(2) [OF assms names4_at(20)]
  show ?thesis
    by (simp add: linked_def Let_def kinds_def at there contracts4_at other_fields auction_fields price_fields loan_for_def
        oracle_for_fields)
qed

lemma deployment_ends:
  assumes "hw_chain w = \<lparr>nt_contracts = [], nt_block = b\<rparr>"
    and "configuredDeployer S = Inr d" and "configuredUser S = Inr u" and "s_sender S = d \<or> s_sender S = u"
  shows "\<exists>w1 w2 w3 w4 ch. base_main (node S) network w = (Ok (), w1) \<and> producers_main (node S) network w1 = (Ok (), w2) \<and>
    tcash_main (node S) network w2 = (Ok (), w3) \<and> crosschain_main (node S) network w3 = (Ok (), w4) \<and>
    deployedChain S w4 = Some ch \<and> wired ch \<and> linked S w4 \<and> ms_reachable (s_access S) ch \<and>
    (\<forall>a. is_manager (s_access S) ch a \<longleftrightarrow> a = d \<or> a = u) \<and> needed (s_access S) ch = (if d = u then 1 else 2) \<and>
    (\<forall>a. hasRole (s_access S) (r_access (c_roles ch)) ADMIN a \<longleftrightarrow> a = c_mulSigAt ch) \<and> ms_confirmDuration (c_mulSig ch) = 5"
proof -
  obtain w1 w2 w3 w4 where run: "base_main (node S) network w = (Ok (), w1)" "producers_main (node S) network w1 = (Ok (), w2)"
      "tcash_main (node S) network w2 = (Ok (), w3)" "crosschain_main (node S) network w3 = (Ok (), w4)"
    and ready: "finished b (b + 34) d u w4"
    using deployment_run [OF assms] by blast
  let ?ch = "chain4 d u (contracts4 b (b + 34) d u blank_mulsig (blank_roles S)) (s_time S (nt_block (hw_chain w4)))"
  have "deployedChain S w4 = Some ?ch" by (rule finished_chain [OF ready])
  moreover have "wired ?ch" by (rule finished_wired) simp
  moreover have "linked S w4" by (rule finished_linked [OF ready])
  ultimately show ?thesis
    using run finished_reachable [of d u] finished_roles by (intro exI conjI) (assumption | simp add: mulSig_fields finished_roles)+
qed

subsection \<open>The market of a finished deployment\<close>

definition market4 :: "nat \<Rightarrow> nat \<Rightarrow> addr \<Rightarrow> addr \<Rightarrow> ('ac, 'tk) market" where
  "market4 k now d u = \<lparr>mk_auctionAt = f 20, mk_tcashAt = f 15, mk_loanAt = f 19, mk_rolesAt = f 2, mk_oracleAt = f 4,
     mk_auction = auction_for (s_sender S) (f 2) (f 15) (f 19), mk_tcash = tcash_for S\<lparr>tc_roles := f 2, tc_oracle := f 4\<rparr>,
     mk_loan = loan_for S\<lparr>l_auction := f 20\<rparr>, mk_roles = roles_for S d u (blank_roles S),
     mk_oracle = priced (priced (oracle_for (s_sender S) (f 2)) ''UNIT'' (5 * 10 ^ 17) (s_time S (k + 7)))
       ''TCASH'' (5 * 10 ^ 17) (s_time S (k + 8)), mk_time = now\<rparr>"

lemma finished_market:
  assumes "finished b k d u w"
  shows "deployedMarket S w = Some (market4 k (s_time S (nt_block (hw_chain w))) d u)"
proof -
  note r = finished_contract(2) [OF assms]
  show ?thesis
    by (simp add: deployedMarket_def r [OF names4_at(3)] r [OF names4_at(5)] r [OF names4_at(16)] r [OF names4_at(17)]
        r [OF names4_at(18)] contracts4_at market4_def)
qed

lemma market4_closed: "closed (market4 k now d u)"
  using fresh_nonzero [of 20] by (simp add: closed_def market4_def tcash_mints)

lemma market4_opens:
  "TCash_setAuctionContract (mk_tcash (market4 k now d u)) (s_sender S) (mk_auctionAt (market4 k now d u)) =
     Inr (mk_tcash (market4 k now d u)\<lparr>tc_auction := f 20\<rparr>)"
  "opened (market4 k now d u\<lparr>mk_tcash := mk_tcash (market4 k now d u)\<lparr>tc_auction := f 20\<rparr>\<rparr>)"
proof -
  show "opened (market4 k now d u\<lparr>mk_tcash := mk_tcash (market4 k now d u)\<lparr>tc_auction := f 20\<rparr>\<rparr>)"
    by (simp add: opened_def market4_def tcash_mints(2,5) auction_for_def TCashAuction_initialize_def blank_auction_def fresh_nonzero Let_def)
qed (simp add: TCash_setAuctionContract_def onlyOwner_def market4_def tcash_mints)

lemma auctions_closed:
  assumes "hw_chain w = \<lparr>nt_contracts = [], nt_block = b\<rparr>"
    and "configuredDeployer S = Inr d" and "configuredUser S = Inr u" and "s_sender S = d \<or> s_sender S = u"
  shows "\<exists>w1 w2 w3 w4 mk t. base_main (node S) network w = (Ok (), w1) \<and> producers_main (node S) network w1 = (Ok (), w2) \<and>
    tcash_main (node S) network w2 = (Ok (), w3) \<and> crosschain_main (node S) network w3 = (Ok (), w4) \<and>
    deployedMarket S w4 = Some mk \<and>
    (\<forall>P mk' s n v mk''. later (s_token S) (s_access S) P (- {mk_auctionAt mk}) mk mk' \<longrightarrow> TCashAuction_bid (s_token S) mk' s n v \<noteq> Inr mk'') \<and>
    TCash_setAuctionContract (mk_tcash mk) (s_sender S) (mk_auctionAt mk) = Inr t \<and> opened (mk\<lparr>mk_tcash := t\<rparr>)"
proof -
  obtain w1 w2 w3 w4 where run: "base_main (node S) network w = (Ok (), w1)" "producers_main (node S) network w1 = (Ok (), w2)"
      "tcash_main (node S) network w2 = (Ok (), w3)" "crosschain_main (node S) network w3 = (Ok (), w4)"
    and ready: "finished b (b + 34) d u w4"
    using deployment_run [OF assms] by blast
  let ?mk = "market4 (b + 34) (s_time S (nt_block (hw_chain w4))) d u"
  have "deployedMarket S w4 = Some ?mk" by (rule finished_market [OF ready])
  moreover have "TCashAuction_bid (s_token S) mk' s n v \<noteq> Inr mk''" if "later (s_token S) (s_access S) P (- {mk_auctionAt ?mk}) ?mk mk'" for P mk' s n v mk''
    by (rule closed_bid) (rule closed_later [OF that market4_closed])
  ultimately show ?thesis using run market4_opens by blast
qed

subsection \<open>Runs of crosschain.js that stop\<close>

lemma names3_le4: "names3 \<subseteq>\<^sub>m names4"
  by (simp add: names4_def names3_def names2_def names1_def map_le_def dom_def)

lemma contracts5_at:
  "length (contracts5 b d u) = 23" "contracts5 b d u ! 1 = CMulSig (mulSig_for S blank_mulsig)"
  "contracts5 b d u ! 2 = CRoles (roles_for S d u (blank_roles S))" "contracts5 b d u ! 4 = COracle (oracle_for (s_sender S) (f 2))"
  by (simp_all add: contracts5_def contracts3_def contracts2_def)

lemma outsider_stopped:
  assumes "hw_chain w = \<lparr>nt_contracts = [], nt_block = b\<rparr>"
    and "configuredDeployer S = Inr d" and "configuredUser S = Inr u" and "s_sender S \<notin> {d, u}" and "s_sender S \<noteq> s_fresh S 1"
  shows "\<exists>w1 w2 w3 w4 w5 a orc a' r. base_main (node S) network w = (Ok (), w1) \<and>
    producers_main (node S) network w1 = (Ok (), w2) \<and> tcash_main (node S) network w2 = (Ok (), w3) \<and>
    crosschain_main (node S) network w3 = (Exit 1, w4) \<and> recordedContract S w4 ''ROLES'' = Some (a', CRoles r) \<and>
    r_initialized r \<and> \<not> hasRole (s_access S) (r_access r) FOUNDATION_MANAGER (s_sender S) \<and>
    recordedContract S w4 ''ORACLE'' = Some (a, COracle orc) \<and>
    Oracle_getPrice orc ''UNIT'' = Inr 0 \<and> Oracle_getPrice orc ''TCASH'' = Inr 0 \<and>
    crosschain_main (node S) network w4 = (Exit 1, w5)"
proof -
  obtain w1 w2 w3 where steps: "base_main (node S) network w = (Ok (), w1)" "producers_main (node S) network w1 = (Ok (), w2)"
    "tcash_main (node S) network w2 = (Ok (), w3)"
    and chain: "hw_chain w3 = \<lparr>nt_contracts = contracts3 b (CMulSig blank_mulsig) (CRoles (blank_roles S)), nt_block = b + 34\<rparr>"
    and reg: "hw_file w3 = Entries (hw_state w3)" "ds_entries (hw_state w3) \<noteq> []" "names3 \<subseteq>\<^sub>m resolve (hw_state w3)"
    using first_steps [OF assms(1)] by blast
  obtain w4 where w4: "crosschain_main (node S) network w3 = (Exit 1, w4)"
    "hw_chain w4 = \<lparr>nt_contracts = contracts5 b d u, nt_block = b + 34 + 7\<rparr>" "hw_file w4 = Entries (hw_state w4)"
    "ds_entries (hw_state w4) \<noteq> []" "names4 \<subseteq>\<^sub>m resolve (hw_state w4)"
    using crosschain_outsider_run [OF chain reg assms(2-5)] by blast
  have "names3 \<subseteq>\<^sub>m resolve (hw_state w4)" by (rule map_le_trans [OF names3_le4 w4(5)])
  then obtain w5 where w5: "crosschain_main (node S) network w4 = (Exit 1, w5)"
    using crosschain_again_run [where network = network, OF w4(2) contracts5_at(2) mulSig_fields(7) _ _ w4(3,4) _ assms(2,3)]
    by (auto simp: contracts5_at)
  have at: "recordedContract S w4 key = Some (f n, contracts5 b d u ! n)" if "names4 key = Some (at S n)" "n < 23" for key n
    using recorded_contract [OF recorded_name [OF w4(5,3) that(1)]] that(2) by (simp add: w4(2) contracts5_at)
  have price: "Oracle_getPrice (oracle_for (s_sender S) (f 2)) ''UNIT'' = Inr 0"
    "Oracle_getPrice (oracle_for (s_sender S) (f 2)) ''TCASH'' = Inr 0"
    by (simp_all add: Oracle_getPrice_def oracle_for_def Oracle_initialize_def blank_oracle_def)
  show ?thesis
    using steps w4(1) w5 price at [OF names4_at(3)] at [OF names4_at(5)] outsider_roles(1) [OF assms(4)]
      assms(5) roles_for_hasRole(3) [OF blank_roles_facts(1)]
    by (simp add: contracts5_at)
qed

lemma again_stopped:
  assumes "hw_chain w = \<lparr>nt_contracts = [], nt_block = b\<rparr>"
    and "configuredDeployer S = Inr d" and "configuredUser S = Inr u" and "s_sender S = d \<or> s_sender S = u"
  shows "\<exists>w1 w2 w3 w4 w5 ch ch'. base_main (node S) network w = (Ok (), w1) \<and>
    producers_main (node S) network w1 = (Ok (), w2) \<and> tcash_main (node S) network w2 = (Ok (), w3) \<and>
    crosschain_main (node S) network w3 = (Ok (), w4) \<and> deployedChain S w4 = Some ch \<and>
    crosschain_main (node S) network w4 = (Exit 1, w5) \<and> deployedChain S w5 = Some ch' \<and>
    c_mulSig ch' = c_mulSig ch \<and> ms_crosschainTokens (c_mulSig ch') = c_tokensAt ch \<and> c_tokensAt ch' \<noteq> c_tokensAt ch \<and>
    \<not> wired ch'"
proof -
  obtain w1 w2 w3 w4 where run: "base_main (node S) network w = (Ok (), w1)" "producers_main (node S) network w1 = (Ok (), w2)"
      "tcash_main (node S) network w2 = (Ok (), w3)" "crosschain_main (node S) network w3 = (Ok (), w4)"
    and ready: "finished b (b + 34) d u w4" and entries: "ds_entries (hw_state w4) \<noteq> []"
    using deployment_run [OF assms] by blast
  let ?cs = "contracts4 b (b + 34) d u blank_mulsig (blank_roles S)"
  let ?ch = "chain4 d u ?cs (s_time S (nt_block (hw_chain w4)))"
  note w4 = ready [unfolded finished_def]
  have chain: "hw_chain w4 = \<lparr>nt_contracts = ?cs, nt_block = nt_block (hw_chain w4)\<rparr>" using w4 by simp
  have "names3 \<subseteq>\<^sub>m resolve (hw_state w4)" using w4 by (blast intro: map_le_trans names3_le4)
  then obtain w5 where w5: "crosschain_main (node S) network w4 = (Exit 1, w5)"
    "nt_contracts (hw_chain w5) = ?cs @ [CTokens (tokens_for (s_sender S) (f 1)), CBridge (bridge_for (s_sender S) (f 23) (f 2))]"
    "names3(''CROSSCHAIN_TOKENS'' \<mapsto> at S 23, ''CROSSCHAIN_BRIDGE'' \<mapsto> at S 24) \<subseteq>\<^sub>m resolve (hw_state w5)"
    "hw_file w5 = Entries (hw_state w5)"
    using crosschain_again_run [where network = network, OF chain contracts4_at(2) mulSig_fields(7) _ _ _ entries _ assms(2,3)] w4
    by (auto simp: contracts4_at)
  have at: "recordedContract S w5 key = Some (f n, nt_contracts (hw_chain w5) ! n)"
    if "(names3(''CROSSCHAIN_TOKENS'' \<mapsto> at S 23, ''CROSSCHAIN_BRIDGE'' \<mapsto> at S 24)) key = Some (at S n)" "n < 25" for key n
    by (rule recorded_contract [OF recorded_name [OF w5(3,4) that(1)]]) (use that(2) in \<open>simp_all add: w5(2) contracts4_at\<close>)
  have known: "names3 ''MULSIG'' = Some (at S 1)" "names3 ''ROLES'' = Some (at S 2)" "names3 ''PARAMETER_INFO'' = Some (at S 3)"
    "names3 ''GOVERNANCE'' = Some (at S 13)"
    by (simp_all add: names3_def names2_def names1_def)
  have "\<exists>ch'. deployedChain S w5 = Some ch' \<and> c_mulSig ch' = mulSig_for S blank_mulsig \<and> c_tokensAt ch' = f 23"
    using at [of "''MULSIG''" 1] at [of "''ROLES''" 2] at [of "''PARAMETER_INFO''" 3] at [of "''GOVERNANCE''" 13]
      at [of "''CROSSCHAIN_TOKENS''" 23]
    by (simp add: deployedChain_def known w5(2) nth_append contracts4_at contracts4_at(2) [unfolded One_nat_def])
  then obtain ch' where ch': "deployedChain S w5 = Some ch'" "c_mulSig ch' = mulSig_for S blank_mulsig" "c_tokensAt ch' = f 23"
    by blast
  moreover have "\<not> wired ch'" using ch'(2,3) by (simp add: wired_def mulSig_fields)
  ultimately show ?thesis
    using run w5(1) finished_chain [OF ready]
    by (intro exI [of _ w1] exI [of _ w2] exI [of _ w3] exI [of _ w4] exI [of _ w5] exI [of _ ?ch] exI [of _ ch'])
      (simp add: mulSig_fields)
qed

lemma multisig_claimed:
  assumes "hw_chain w = \<lparr>nt_contracts = [], nt_block = b\<rparr>"
    and "configuredDeployer S = Inr d" and "configuredUser S = Inr u"
  shows "\<exists>w1 w2 w3 rp net' w4 at' m. base_main (node S) network w = (Ok (), w1) \<and>
    producers_main (node S) network w1 = (Ok (), w2) \<and> tcash_main (node S) network w2 = (Ok (), w3) \<and>
    h_exec (node S) (hw_chain w3) (CallMethod (Some (s_text S intruder)) (at S 1) ''initialize''
      [str (s_text S d'), str (s_text S g), str (s_text S r), str (s_text S p), str (s_text S t), ArgNum n]) = (Inr rp, net') \<and>
    crosschain_main (node S) network (w3\<lparr>hw_chain := net'\<rparr>) = (Exit 1, w4) \<and>
    recordedContract S w4 ''MULSIG'' = Some (at', CMulSig m) \<and> ms_initialized m \<and> ms_owner m = intruder \<and>
    ms_roles m = r \<and> ms_governance m = g \<and> ms_crosschainTokens m = t \<and> ms_confirmDuration m = n \<and>
    list_all (\<lambda>kind. case recordedContract S w4 (kind @ ''_PRODUCER'') of Some (_, CProducer x) \<Rightarrow> p_mulSig x = at' | _ \<Rightarrow> False) kinds"
proof -
  obtain w1 w2 w3 where steps: "base_main (node S) network w = (Ok (), w1)" "producers_main (node S) network w1 = (Ok (), w2)"
    "tcash_main (node S) network w2 = (Ok (), w3)"
    and chain: "hw_chain w3 = \<lparr>nt_contracts = contracts3 b (CMulSig blank_mulsig) (CRoles (blank_roles S)), nt_block = b + 34\<rparr>"
    and reg: "hw_file w3 = Entries (hw_state w3)" "ds_entries (hw_state w3) \<noteq> []" "names3 \<subseteq>\<^sub>m resolve (hw_state w3)"
    using first_steps [OF assms(1)] by blast
  let ?m = "blank_mulsig\<lparr>ms_initialized := True, ms_owner := intruder, ms_confirmDuration := n, ms_dao := d', ms_governance := g,
    ms_parameterInfo := p, ms_roles := r, ms_crosschainTokens := t\<rparr>"
  let ?cs = "contracts3 b (CMulSig ?m) (CRoles (blank_roles S))"
  let ?net = "\<lparr>nt_contracts = ?cs, nt_block = b + 35\<rparr>"
  let ?args = "[str (s_text S d'), str (s_text S g), str (s_text S r), str (s_text S p), str (s_text S t), ArgNum n]"
  have "MulSig_initialize blank_mulsig intruder d' g r p t n = Inr ?m"
    by (simp add: MulSig_initialize_def blank_mulsig_def)
  then have "callContract S (hw_chain w3) (Some (s_text S intruder)) (at S 1) ''initialize'' ?args = Inr ?cs"
    unfolding chain contracts3_def contracts2_def by (simp add: call_simps)
  then have call: "h_exec (node S) (hw_chain w3) (CallMethod (Some (s_text S intruder)) (at S 1) ''initialize'' ?args) =
      (Inr \<lparr>rp_address = at S 1, rp_hash = s_hash S (b + 34)\<rparr>, ?net)"
    by (simp add: node_def node_exec_def chain Let_def)
  have m: "?cs ! 1 = CMulSig ?m" "ms_initialized ?m" and len: "length ?cs = 21"
    by (simp_all add: contracts3_def contracts2_def)
  obtain w4 where w4: "crosschain_main (node S) network (w3\<lparr>hw_chain := ?net\<rparr>) = (Exit 1, w4)"
    "nt_contracts (hw_chain w4) = ?cs @ [CTokens (tokens_for (s_sender S) (f 1)), CBridge (bridge_for (s_sender S) (f 21) (f 2))]"
    "names3(''CROSSCHAIN_TOKENS'' \<mapsto> at S 21, ''CROSSCHAIN_BRIDGE'' \<mapsto> at S 22) \<subseteq>\<^sub>m resolve (hw_state w4)"
    "hw_file w4 = Entries (hw_state w4)"
    using crosschain_again_run [where network = network and w = "w3\<lparr>hw_chain := ?net\<rparr>", OF _ m _ _ _ reg(2,3) assms(2,3)] reg(1) len
    by auto
  have at: "recordedContract S w4 key = Some (f k, nt_contracts (hw_chain w4) ! k)"
    if "(names3(''CROSSCHAIN_TOKENS'' \<mapsto> at S 21, ''CROSSCHAIN_BRIDGE'' \<mapsto> at S 22)) key = Some (at S k)" "k < 23" for key k
    by (rule recorded_contract [OF recorded_name [OF w4(3,4) that(1)]]) (use that(2) in \<open>simp_all add: w4(2) len\<close>)
  have known: "names3 ''MULSIG'' = Some (at S 1)" "names3 ''OIL_PRODUCER'' = Some (at S 5)" "names3 ''GAS_PRODUCER'' = Some (at S 7)"
    "names3 ''ETH_PRODUCER'' = Some (at S 9)" "names3 ''BTC_PRODUCER'' = Some (at S 11)"
    by (simp_all add: names3_def names2_def names1_def)
  have producers: "?cs ! 5 = CProducer (producer_for (f 1) (f 2) ''OIL'' (f 6))" "?cs ! 7 = CProducer (producer_for (f 1) (f 2) ''GAS'' (f 8))"
    "?cs ! 9 = CProducer (producer_for (f 1) (f 2) ''ETH'' (f 10))" "?cs ! 11 = CProducer (producer_for (f 1) (f 2) ''BTC'' (f 12))"
    by (simp_all add: contracts3_def contracts2_def)
  have "recordedContract S w4 ''MULSIG'' = Some (f 1, CMulSig ?m)"
    using at [of "''MULSIG''" 1] m(1) by (simp add: known w4(2) nth_append len)
  moreover have "list_all (\<lambda>kind. case recordedContract S w4 (kind @ ''_PRODUCER'') of
      Some (_, CProducer x) \<Rightarrow> p_mulSig x = f 1 | _ \<Rightarrow> False) kinds"
    using at [of "''OIL_PRODUCER''" 5] at [of "''GAS_PRODUCER''" 7] at [of "''ETH_PRODUCER''" 9] at [of "''BTC_PRODUCER''" 11]
    by (simp add: kinds_def known w4(2) nth_append len producers producer_fields)
  ultimately show ?thesis
    using steps call w4(1)
    by (intro exI [of _ w1] exI [of _ w2] exI [of _ w3] exI [of _ "\<lparr>rp_address = at S 1, rp_hash = s_hash S (b + 34)\<rparr>"] exI [of _ ?net]
        exI [of _ w4] exI [of _ "f 1"] exI [of _ ?m]) simp
qed

end

section \<open>Properties\<close>

text \<open>C9: Run in order by the configured deployer or user on an empty chain, whatever the registry file held, base.js,
  producers.js, tcash.js and crosschain.js all succeed. What they record is a governance in which every contract knows
  the others, all four producers obey the multisig, and only the deployer and the user are managers, who both have
  to sign; only the multisig can change roles. The multisig waits five seconds, and is in a reachable state of the multisig theories.\<close>

theorem deployment_complete:
  assumes "deploy_site S" and "hw_chain w = \<lparr>nt_contracts = [], nt_block = b\<rparr>"
    and "configuredDeployer S = Inr d" and "configuredUser S = Inr u" and "s_sender S = d \<or> s_sender S = u"
  shows "\<exists>w1 w2 w3 w4 ch. base_main (node S) network w = (Ok (), w1) \<and> producers_main (node S) network w1 = (Ok (), w2) \<and>
    tcash_main (node S) network w2 = (Ok (), w3) \<and> crosschain_main (node S) network w3 = (Ok (), w4) \<and>
    deployedChain S w4 = Some ch \<and> wired ch \<and> linked S w4 \<and> ms_reachable (s_access S) ch \<and>
    (\<forall>a. is_manager (s_access S) ch a \<longleftrightarrow> a = d \<or> a = u) \<and> needed (s_access S) ch = (if d = u then 1 else 2) \<and>
    (\<forall>a. hasRole (s_access S) (r_access (c_roles ch)) ADMIN a \<longleftrightarrow> a = c_mulSigAt ch) \<and> ms_confirmDuration (c_mulSig ch) = 5"
  by (rule deploy_site.deployment_ends [OF assms])

text \<open>C10: The deployed auctions cannot be used: no script tells the token which contract the auction contract is, so
  after the four steps, and after any calls of the auctions and the token but one, every bid of every account reverts.
  The one call, \<open>setAuctionContract\<close> of the token's owner with the address of the auction contract, opens the market of the auction theories; the scripts do not
  make it.\<close>

theorem deployed_auctions_closed:
  assumes "deploy_site S" and "hw_chain w = \<lparr>nt_contracts = [], nt_block = b\<rparr>"
    and "configuredDeployer S = Inr d" and "configuredUser S = Inr u" and "s_sender S = d \<or> s_sender S = u"
  shows "\<exists>w1 w2 w3 w4 mk t. base_main (node S) network w = (Ok (), w1) \<and> producers_main (node S) network w1 = (Ok (), w2) \<and>
    tcash_main (node S) network w2 = (Ok (), w3) \<and> crosschain_main (node S) network w3 = (Ok (), w4) \<and>
    deployedMarket S w4 = Some mk \<and>
    (\<forall>P mk' s n v mk''. later (s_token S) (s_access S) P (- {mk_auctionAt mk}) mk mk' \<longrightarrow> TCashAuction_bid (s_token S) mk' s n v \<noteq> Inr mk'') \<and>
    TCash_setAuctionContract (mk_tcash mk) (s_sender S) (mk_auctionAt mk) = Inr t \<and> opened (mk\<lparr>mk_tcash := t\<rparr>)"
  by (rule deploy_site.auctions_closed [OF assms])

text \<open>C12: crosschain.js checks nothing about the account it runs as. If that is neither the configured deployer nor the
  configured user, the script initialises the multisig and the roles first, and then fails for good: its own
  \<open>grantRole\<close> is refused, as only the multisig may change roles, the prices stay zero, and running it again fails too.\<close>

theorem crosschain_requires_listed_sender:
  assumes "deploy_site S" and "hw_chain w = \<lparr>nt_contracts = [], nt_block = b\<rparr>"
    and "configuredDeployer S = Inr d" and "configuredUser S = Inr u" and "s_sender S \<notin> {d, u}" and "s_sender S \<noteq> s_fresh S 1"
  shows "\<exists>w1 w2 w3 w4 w5 a orc a' r. base_main (node S) network w = (Ok (), w1) \<and>
    producers_main (node S) network w1 = (Ok (), w2) \<and> tcash_main (node S) network w2 = (Ok (), w3) \<and>
    crosschain_main (node S) network w3 = (Exit 1, w4) \<and> recordedContract S w4 ''ROLES'' = Some (a', CRoles r) \<and>
    r_initialized r \<and> \<not> hasRole (s_access S) (r_access r) FOUNDATION_MANAGER (s_sender S) \<and>
    recordedContract S w4 ''ORACLE'' = Some (a, COracle orc) \<and>
    Oracle_getPrice orc ''UNIT'' = Inr 0 \<and> Oracle_getPrice orc ''TCASH'' = Inr 0 \<and>
    crosschain_main (node S) network w4 = (Exit 1, w5)"
  by (rule deploy_site.outsider_stopped [OF assms])

text \<open>crosschain.js cannot be run twice. A second run of the same deployment deploys and records another token
  registry and another bridge, and then fails at the multisig, which keeps driving the first registry: what the
  deployment file says is no longer what the multisig does.\<close>

theorem crosschain_not_rerunnable:
  assumes "deploy_site S" and "hw_chain w = \<lparr>nt_contracts = [], nt_block = b\<rparr>"
    and "configuredDeployer S = Inr d" and "configuredUser S = Inr u" and "s_sender S = d \<or> s_sender S = u"
  shows "\<exists>w1 w2 w3 w4 w5 ch ch'. base_main (node S) network w = (Ok (), w1) \<and>
    producers_main (node S) network w1 = (Ok (), w2) \<and> tcash_main (node S) network w2 = (Ok (), w3) \<and>
    crosschain_main (node S) network w3 = (Ok (), w4) \<and> deployedChain S w4 = Some ch \<and>
    crosschain_main (node S) network w4 = (Exit 1, w5) \<and> deployedChain S w5 = Some ch' \<and>
    c_mulSig ch' = c_mulSig ch \<and> ms_crosschainTokens (c_mulSig ch') = c_tokensAt ch \<and> c_tokensAt ch' \<noteq> c_tokensAt ch \<and>
    \<not> wired ch'"
  by (rule deploy_site.again_stopped [OF assms])

text \<open>C11: base.js deploys the multisig without initialising it, and crosschain.js initialises it two scripts later. In
  between any account can do so, with a role contract, a governance and a registry of its own: crosschain.js then
  fails, and the recorded multisig, which all producers obey, is the intruder's.\<close>

theorem multisig_can_be_claimed:
  assumes "deploy_site S" and "hw_chain w = \<lparr>nt_contracts = [], nt_block = b\<rparr>"
    and "configuredDeployer S = Inr d" and "configuredUser S = Inr u"
  shows "\<exists>w1 w2 w3 rp net' w4 at' m. base_main (node S) network w = (Ok (), w1) \<and>
    producers_main (node S) network w1 = (Ok (), w2) \<and> tcash_main (node S) network w2 = (Ok (), w3) \<and>
    h_exec (node S) (hw_chain w3) (CallMethod (Some (s_text S intruder)) (at S 1) ''initialize''
      [str (s_text S d'), str (s_text S g), str (s_text S r), str (s_text S p), str (s_text S t), ArgNum n]) = (Inr rp, net') \<and>
    crosschain_main (node S) network (w3\<lparr>hw_chain := net'\<rparr>) = (Exit 1, w4) \<and>
    recordedContract S w4 ''MULSIG'' = Some (at', CMulSig m) \<and> ms_initialized m \<and> ms_owner m = intruder \<and>
    ms_roles m = r \<and> ms_governance m = g \<and> ms_crosschainTokens m = t \<and> ms_confirmDuration m = n \<and>
    list_all (\<lambda>kind. case recordedContract S w4 (kind @ ''_PRODUCER'') of Some (_, CProducer x) \<Rightarrow> p_mulSig x = at' | _ \<Rightarrow> False) kinds"
  by (rule deploy_site.multisig_claimed [OF assms])

section \<open>Instances\<close>

definition demo_ground :: "(acl, ledger) net hworld" where
  "demo_ground = \<lparr>hw_chain = \<lparr>nt_contracts = [], nt_block = 3\<rparr>, hw_file = Absent,
     hw_state = \<lparr>ds_entries = [], ds_addresses = []\<rparr>, hw_ops = [], hw_lines = []\<rparr>"

lemma demo_ground_chain: "hw_chain demo_ground = \<lparr>nt_contracts = [], nt_block = 3\<rparr>"
  by (simp add: demo_ground_def)

lemma demo_configured:
  "configuredDeployer (demo_site s) = Inr 9" "configuredUser (demo_site s) = Inr 10"
proof -
  have "demo_parse ''0x9'' = Inr 9" by code_simp
  then show "configuredDeployer (demo_site s) = Inr 9" "configuredUser (demo_site s) = Inr 10"
    by (simp_all add: configured_def orElse_def trim_def isSpace_def)
qed

lemma deployment_complete_witness:
  "\<exists>w1 w2 w3 w4. base_main (node (demo_site 9)) ''localhost'' demo_ground = (Ok (), w1) \<and>
     producers_main (node (demo_site 9)) ''localhost'' w1 = (Ok (), w2) \<and> tcash_main (node (demo_site 9)) ''localhost'' w2 = (Ok (), w3) \<and>
     crosschain_main (node (demo_site 9)) ''localhost'' w3 = (Ok (), w4) \<and> linked (demo_site 9) w4 \<and>
     (\<exists>ch. deployedChain (demo_site 9) w4 = Some ch \<and> needed reference_access ch = 2)"
  using deployment_complete [OF demo_is_site demo_ground_chain demo_configured, where network = "''localhost''", of 9] by auto

lemma deployed_auctions_closed_witness:
  "\<exists>w4 mk. deployedMarket (demo_site 9) w4 = Some mk \<and> (\<forall>s n v mk'. TCashAuction_bid reference_token mk s n v \<noteq> Inr mk')"
proof -
  obtain w4 mk where "deployedMarket (demo_site 9) w4 = Some mk"
    "\<forall>P mk' s n v mk''. later (s_token (demo_site 9)) (s_access (demo_site 9)) P (- {mk_auctionAt mk}) mk mk' \<longrightarrow>
       TCashAuction_bid (s_token (demo_site 9)) mk' s n v \<noteq> Inr mk''"
    using deployed_auctions_closed [OF demo_is_site demo_ground_chain demo_configured, where network = "''localhost''", of 9] by auto
  then show ?thesis by (metis demo_site_fields(1,3) rtranclp.rtrancl_refl)
qed

lemma demo_outsider: "(41 :: addr) \<notin> {9, 10}" "s_sender (demo_site 41) \<noteq> s_fresh (demo_site 41) 1"
  by (simp_all add: demo_freshAt_def)

lemma crosschain_requires_listed_sender_witness:
  "\<exists>w3 w4 w5. crosschain_main (node (demo_site 41)) ''localhost'' w3 = (Exit 1, w4) \<and>
     crosschain_main (node (demo_site 41)) ''localhost'' w4 = (Exit 1, w5)"
  using crosschain_requires_listed_sender [OF demo_is_site demo_ground_chain demo_configured _ demo_outsider(2), where network = "''localhost''"]
    demo_outsider(1) by auto

lemma crosschain_not_rerunnable_witness:
  "\<exists>w4 w5 ch'. crosschain_main (node (demo_site 9)) ''localhost'' w4 = (Exit 1, w5) \<and>
     deployedChain (demo_site 9) w5 = Some ch' \<and> \<not> wired ch'"
  using crosschain_not_rerunnable [OF demo_is_site demo_ground_chain demo_configured, where network = "''localhost''", of 9] by auto

lemma multisig_can_be_claimed_witness:
  "\<exists>w3 w4 a m. crosschain_main (node (demo_site 9)) ''localhost'' w3 = (Exit 1, w4) \<and>
     recordedContract (demo_site 9) w4 ''MULSIG'' = Some (a, CMulSig m) \<and> ms_owner m = 66 \<and> ms_roles m = 67"
proof -
  have "deploy_site (demo_site 9)" by (rule demo_is_site) simp
  from multisig_can_be_claimed [OF this demo_ground_chain demo_configured, where network = "''localhost''" and intruder = 66 and r = 67]
  show ?thesis by blast
qed


end
