(* ===== verification/Abis.thy ===== *)
theory Abis
  imports World
begin

text \<open>
  The interfaces the scripts write down by hand: which functions they name, the selectors these have, and how the
  answers are decoded. The headers of the multisig are those of the contract, so the two can be compared.
\<close>

section \<open>Interfaces\<close>

datatype abi_type = AString | AAddress | ABool | AUint nat | ATuple "(string \<times> abi_type) list"

datatype mutability = Nonpayable | View

record abi_fn =
  af_name :: string
  af_inputs :: "(string \<times> abi_type) list"
  af_outputs :: "(string \<times> abi_type) list"
  af_mutability :: mutability

text \<open>\<open>contract.methods\<close> has an entry per name; calling another is a \<open>TypeError\<close>.\<close>

definition methods :: "abi_fn list \<Rightarrow> string \<Rightarrow> abi_fn option" where
  "methods abi name = find (\<lambda>f. af_name f = name) abi"

text \<open>What the selector of a call is the digest of: the name and the types, not the names of the parameters.\<close>

definition signature :: "abi_fn \<Rightarrow> string \<times> abi_type list" where
  "signature f = (af_name f, map snd (af_inputs f))"

text \<open>The fields of a decoded struct, in the order of the declaration.\<close>

definition structField :: "(string \<times> abi_type) list \<Rightarrow> jsval list \<Rightarrow> string \<Rightarrow> jsval" where
  "structField components values key = (case map_of (zip (map fst components) values) key of None \<Rightarrow> JUndef | Some v \<Rightarrow> v)"

section \<open>The interfaces in the scripts\<close>

definition runner_MULTISIG_ABI :: "abi_fn list" where
  "runner_MULTISIG_ABI =
     [\<lparr>af_name = ''signTransaction'', af_inputs = [(''proposalId'', AUint 256)], af_outputs = [], af_mutability = Nonpayable\<rparr>,
      \<lparr>af_name = ''executeProposal'', af_inputs = [(''proposalId'', AUint 256)], af_outputs = [], af_mutability = Nonpayable\<rparr>,
      \<lparr>af_name = ''getSignatureCount'', af_inputs = [(''proposalId'', AUint 256)], af_outputs = [('''', AUint 8)],
       af_mutability = View\<rparr>,
      \<lparr>af_name = ''hasAlreadySigned'', af_inputs = [(''proposalId'', AUint 256), (''signer'', AAddress)],
       af_outputs = [('''', ABool)], af_mutability = View\<rparr>,
      \<lparr>af_name = ''transactionDetails'', af_inputs = [(''_proposalId'', AUint 256)],
       af_outputs = [('''', ATuple [(''name'', AString), (''_add'', AAddress), (''a1'', AUint 256), (''a2'', AUint 256),
         (''a3'', AUint 256), (''a4'', AUint 256), (''a5'', AUint 256), (''a6'', AUint 256), (''executeTime'', AUint 256)])],
       af_mutability = View\<rparr>,
      \<lparr>af_name = ''getProposalType'', af_inputs = [(''proposalId'', AUint 256)], af_outputs = [('''', AUint 256)],
       af_mutability = View\<rparr>,
      \<lparr>af_name = ''getRegisterDAppProposal'', af_inputs = [(''proposalId'', AUint 256)],
       af_outputs = [(''dappName'', AString), (''treasureKind'', AString), (''payee'', AAddress), (''proposalType'', AUint 256),
         (''signatureCount'', AUint 8), (''executeTime'', AUint 256), (''proposer'', AAddress)], af_mutability = View\<rparr>]"

definition signer_MULTISIG_ABI :: "abi_fn list" where
  "signer_MULTISIG_ABI =
     [\<lparr>af_name = ''signTransaction'', af_inputs = [(''proposalId'', AUint 256)], af_outputs = [], af_mutability = Nonpayable\<rparr>,
      \<lparr>af_name = ''getSignatureCount'', af_inputs = [(''proposalId'', AUint 256)], af_outputs = [('''', AUint 8)],
       af_mutability = View\<rparr>,
      \<lparr>af_name = ''hasAlreadySigned'', af_inputs = [(''proposalId'', AUint 256), (''signer'', AAddress)],
       af_outputs = [('''', ABool)], af_mutability = View\<rparr>]"

definition simple_MULTISIG_ABI :: "abi_fn list" where
  "simple_MULTISIG_ABI =
     [\<lparr>af_name = ''signTransaction'', af_inputs = [(''proposalId'', AUint 256)], af_outputs = [], af_mutability = Nonpayable\<rparr>,
      \<lparr>af_name = ''getSignatureCount'', af_inputs = [(''proposalId'', AUint 256)], af_outputs = [('''', AUint 8)],
       af_mutability = View\<rparr>,
      \<lparr>af_name = ''hasAlreadySigned'', af_inputs = [(''proposalId'', AUint 256), (''signer'', AAddress)],
       af_outputs = [('''', ABool)], af_mutability = View\<rparr>]"

text \<open>The proxy admin, in the three scripts that upgrade or diagnose.\<close>

definition manual_PROXY_ADMIN_ABI :: "abi_fn list" where
  "manual_PROXY_ADMIN_ABI =
     [\<lparr>af_name = ''upgrade'', af_inputs = [(''proxy'', AAddress), (''implementation'', AAddress)], af_outputs = [],
       af_mutability = Nonpayable\<rparr>,
      \<lparr>af_name = ''getProxyImplementation'', af_inputs = [(''proxy'', AAddress)], af_outputs = [('''', AAddress)],
       af_mutability = View\<rparr>,
      \<lparr>af_name = ''getProxyAdmin'', af_inputs = [(''proxy'', AAddress)], af_outputs = [('''', AAddress)],
       af_mutability = View\<rparr>]"

definition via_PROXY_ADMIN_ABI :: "abi_fn list" where
  "via_PROXY_ADMIN_ABI =
     [\<lparr>af_name = ''upgrade'', af_inputs = [(''proxy'', AAddress), (''implementation'', AAddress)], af_outputs = [],
       af_mutability = Nonpayable\<rparr>,
      \<lparr>af_name = ''getProxyImplementation'', af_inputs = [(''proxy'', AAddress)], af_outputs = [('''', AAddress)],
       af_mutability = View\<rparr>,
      \<lparr>af_name = ''getProxyAdmin'', af_inputs = [(''proxy'', AAddress)], af_outputs = [('''', AAddress)],
       af_mutability = View\<rparr>,
      \<lparr>af_name = ''owner'', af_inputs = [], af_outputs = [('''', AAddress)], af_mutability = View\<rparr>]"

definition diagnose_PROXY_ADMIN_ABI :: "abi_fn list" where
  "diagnose_PROXY_ADMIN_ABI =
     [\<lparr>af_name = ''upgrade'', af_inputs = [(''proxy'', AAddress), (''implementation'', AAddress)], af_outputs = [],
       af_mutability = Nonpayable\<rparr>,
      \<lparr>af_name = ''getProxyImplementation'', af_inputs = [(''proxy'', AAddress)], af_outputs = [('''', AAddress)],
       af_mutability = View\<rparr>,
      \<lparr>af_name = ''getProxyAdmin'', af_inputs = [(''proxy'', AAddress)], af_outputs = [('''', AAddress)],
       af_mutability = View\<rparr>,
      \<lparr>af_name = ''owner'', af_inputs = [], af_outputs = [('''', AAddress)], af_mutability = View\<rparr>]"

definition TRANSPARENT_PROXY_ABI :: "abi_fn list" where
  "TRANSPARENT_PROXY_ABI =
     [\<lparr>af_name = ''admin'', af_inputs = [], af_outputs = [('''', AAddress)], af_mutability = View\<rparr>,
      \<lparr>af_name = ''implementation'', af_inputs = [], af_outputs = [('''', AAddress)], af_mutability = View\<rparr>]"

definition find_proxyABI :: "abi_fn list" where
  "find_proxyABI = [\<lparr>af_name = ''admin'', af_inputs = [], af_outputs = [('''', AAddress)], af_mutability = View\<rparr>]"

section \<open>The headers of the multisig\<close>

definition header_signTransaction :: abi_fn where
  "header_signTransaction = \<lparr>af_name = ''signTransaction'', af_inputs = [(''_proposalId'', AUint 256)],
     af_outputs = [('''', ABool)], af_mutability = Nonpayable\<rparr>"

definition header_executeProposal :: abi_fn where
  "header_executeProposal = \<lparr>af_name = ''executeProposal'', af_inputs = [(''_proposalId'', AUint 256)],
     af_outputs = [('''', ABool)], af_mutability = Nonpayable\<rparr>"

definition ProposalResponse :: "(string \<times> abi_type) list" where
  "ProposalResponse = [(''name'', AString), (''_add'', AAddress), (''a1'', AUint 256), (''a2'', AUint 256), (''a3'', AUint 256),
     (''a4'', AUint 256), (''a5'', AUint 256), (''a6'', AUint 256), (''executeTime'', AUint 256)]"

definition header_transactionDetails :: abi_fn where
  "header_transactionDetails = \<lparr>af_name = ''transactionDetails'', af_inputs = [(''_proposalId'', AUint 256)],
     af_outputs = [('''', ATuple ProposalResponse)], af_mutability = View\<rparr>"

definition header_getSignatureCount :: abi_fn where
  "header_getSignatureCount = \<lparr>af_name = ''getSignatureCount'', af_inputs = [(''_proposalId'', AUint 256)],
     af_outputs = [('''', AUint 8)], af_mutability = View\<rparr>"

definition header_hasAlreadySigned :: abi_fn where
  "header_hasAlreadySigned = \<lparr>af_name = ''hasAlreadySigned'', af_inputs = [(''_proposalId'', AUint 256), (''_signer'', AAddress)],
     af_outputs = [('''', ABool)], af_mutability = View\<rparr>"

lemmas header_defs = header_signTransaction_def header_executeProposal_def header_transactionDetails_def
  header_getSignatureCount_def header_hasAlreadySigned_def ProposalResponse_def

lemmas script_abi_defs = runner_MULTISIG_ABI_def signer_MULTISIG_ABI_def simple_MULTISIG_ABI_def

section \<open>Agreement\<close>

text \<open>A function of a script and one of the contract: the same selector, and answers of the same types if they are read.\<close>

definition compatible :: "abi_fn \<Rightarrow> abi_fn \<Rightarrow> bool" where
  "compatible f g \<longleftrightarrow> signature f = signature g \<and> af_mutability f = af_mutability g \<and>
     (af_mutability f = View \<longrightarrow> map snd (af_outputs f) = map snd (af_outputs g))"

text \<open>Every function the three signing scripts call is one of the contract, with this selector and these answers.\<close>

lemma script_calls_compatible:
  "list_all (\<lambda>(abi, header). case methods abi (af_name header) of None \<Rightarrow> False | Some f \<Rightarrow> compatible f header)
     [(runner_MULTISIG_ABI, header_signTransaction), (runner_MULTISIG_ABI, header_getSignatureCount),
      (runner_MULTISIG_ABI, header_hasAlreadySigned), (runner_MULTISIG_ABI, header_transactionDetails),
      (signer_MULTISIG_ABI, header_signTransaction), (signer_MULTISIG_ABI, header_getSignatureCount),
      (signer_MULTISIG_ABI, header_hasAlreadySigned), (simple_MULTISIG_ABI, header_signTransaction),
      (simple_MULTISIG_ABI, header_getSignatureCount), (simple_MULTISIG_ABI, header_hasAlreadySigned)]"
  by (simp add: methods_def compatible_def signature_def header_defs script_abi_defs)

text \<open>The struct as the node encodes it, and its fields as the runner's interface decodes them: what the scripts read.\<close>

definition response_values :: "proposal_response \<Rightarrow> jsval list" where
  "response_values r = [JStr (rs_name r), JAddr (rs_add r), JNum (rs_a r ! 0), JNum (rs_a r ! 1), JNum (rs_a r ! 2),
     JNum (rs_a r ! 3), JNum (rs_a r ! 4), JNum (rs_a r ! 5), JNum (rs_executeTime r)]"

lemma details_field_decoded:
  "\<exists>f components. methods runner_MULTISIG_ABI ''transactionDetails'' = Some f \<and> af_outputs f = [('''', ATuple components)] \<and>
     (\<forall>r key. details_field r key = structField components (response_values r) key)"
  by (simp add: methods_def runner_MULTISIG_ABI_def structField_def response_values_def details_field_def)

text \<open>The three proxy admin interfaces say the same; the one of \<open>manual-upgrade-producers.js\<close> lacks the owner.\<close>

lemma proxy_admin_interfaces:
  "via_PROXY_ADMIN_ABI = diagnose_PROXY_ADMIN_ABI" "set manual_PROXY_ADMIN_ABI \<subseteq> set via_PROXY_ADMIN_ABI"
  "methods manual_PROXY_ADMIN_ABI ''owner'' = None" "methods find_proxyABI = (\<lambda>name. if name = ''admin'' then
     methods TRANSPARENT_PROXY_ABI name else None)"
  by (simp_all add: via_PROXY_ADMIN_ABI_def diagnose_PROXY_ADMIN_ABI_def manual_PROXY_ADMIN_ABI_def methods_def find_proxyABI_def
      TRANSPARENT_PROXY_ABI_def fun_eq_iff)

end
