(* ===== verification/Bank.thy ===== *)
theory Bank
  imports TCashAuction
begin

text \<open>
  The loans of \<open>contracts/TCash/TCashLoan.sol\<close> on the market of token, auctions, roles and oracle, with the platform
  parameters and TAT: taking out and repaying loans, topping up the collateral, interest and liquidation. The native
  coins that the loan contract holds are \<open>l_balance\<close>; the amounts of a loan are its collateral and its debt. Events are
  left out, but what is computed for them can make a call revert.
\<close>

section \<open>The composed state\<close>

record ('ac, 'tk) bank =
  bk_market :: "('ac, 'tk) market"
  bk_paramAt :: addr
  bk_param :: parameter_info
  bk_tatAt :: addr
  bk_tat :: tat

type_synonym ('ac, 'tk) btx = "('ac, 'tk) bank fallible"

abbreviation bk_loan :: "('ac, 'tk) bank \<Rightarrow> loan" where
  "bk_loan bk \<equiv> mk_loan (bk_market bk)"

definition with_loan :: "('ac, 'tk) bank \<Rightarrow> loan \<Rightarrow> ('ac, 'tk) bank" where
  "with_loan bk st = bk\<lparr>bk_market := (bk_market bk)\<lparr>mk_loan := st\<rparr>\<rparr>"

definition oracleOf :: "('ac, 'tk) bank \<Rightarrow> oracle_state fallible" where
  "oracleOf bk = at_oracle (bk_market bk) (l_oracle (bk_loan bk))"

definition priceOf :: "('ac, 'tk) bank \<Rightarrow> string \<Rightarrow> nat fallible" where
  "priceOf bk symbol = ebind (oracleOf bk) (\<lambda>orc. Oracle_getPrice orc symbol)"

definition configOf :: "('ac, 'tk) bank \<Rightarrow> string \<Rightarrow> nat fallible" where
  "configOf bk key = ebind (at_addr (bk_paramAt bk) (bk_param bk) (l_parameterInfo (bk_loan bk))) (\<lambda>p.
     Inr (pi_platformConfig p key))"

definition tatOf :: "('ac, 'tk) bank \<Rightarrow> addr \<Rightarrow> tat fallible" where
  "tatOf bk = at_addr (bk_tatAt bk) (bk_tat bk)"

definition creditOf :: "('ac, 'tk) bank \<Rightarrow> addr \<Rightarrow> (nat \<times> nat) fallible" where
  "creditOf bk = TCashLoan_getPersonalCreditAndAvailable (tatOf bk) (bk_loan bk)"

definition crfOf :: "('ac, 'tk) bank \<Rightarrow> addr \<Rightarrow> nat fallible" where
  "crfOf bk = TCashLoan_getCRF (tatOf bk) (bk_loan bk)"

definition managerOnly :: "'ac oz_access \<Rightarrow> ('ac, 'tk) bank \<Rightarrow> addr \<Rightarrow> unit fallible" where
  "managerOnly A bk sender = ebind (at_roles (bk_market bk) (l_roles (bk_loan bk))) (\<lambda>r.
     require (hasRole A (r_access r) FOUNDATION_MANAGER sender) ''Not authorized'')"

definition set_loan :: "loan \<Rightarrow> nat \<Rightarrow> loan_history \<Rightarrow> loan" where
  "set_loan st i l = st\<lparr>l_loans := (l_loans st)(i := l)\<rparr>"

section \<open>Creating\<close>

definition TCashLoan_evaluateMaxBorrowable :: "('ac, 'tk) bank \<Rightarrow> addr \<Rightarrow> (('ac, 'tk) bank \<times> nat) fallible" where
  "TCashLoan_evaluateMaxBorrowable bk account =
     (let st = bk_loan bk; lim = l_limits st account in
      ebind (creditOf bk account) (\<lambda>(newMax, remaining).
      Inr (if newMax \<noteq> bl_maxBorrowable lim
           then with_loan bk (st\<lparr>l_limits := (l_limits st)(account :=
                  lim\<lparr>bl_maxBorrowable := newMax, bl_lastEvaluationTime := mk_time (bk_market bk)\<rparr>)\<rparr>)
           else bk, remaining)))"

definition TCashLoan_calculateLoanAmount :: "('ac, 'tk) bank \<Rightarrow> addr \<Rightarrow> nat \<Rightarrow> nat fallible" where
  "TCashLoan_calculateLoanAmount bk account unitAmount =
     ebind (require (0 < unitAmount) ''UNIT amount must be greater than 0'') (\<lambda>_.
     ebind (priceOf bk ''UNIT'') (\<lambda>unitPrice.
     ebind (priceOf bk ''TCASH'') (\<lambda>tcashPrice.
     ebind (require (0 < unitPrice \<and> 0 < tcashPrice) ''Invalid prices'') (\<lambda>_.
     ebind (crfOf bk account) (\<lambda>crf.
     ebind (require (0 < crf) ''Invalid risk factor'') (\<lambda>_.
     ebind (checked 256 (unitAmount * unitPrice)) (\<lambda>n.
     ebind (checked 256 (n * crf)) (\<lambda>n.
     ebind (checked 256 (10000 * tcashPrice)) (\<lambda>d.
     let tcashAmount = n div d in
     ebind (creditOf bk account) (\<lambda>(PCL, ALB).
     ebind (require (0 < PCL) ''Invalid personal credit limit'') (\<lambda>_.
     let tcashAmount = (if ALB < tcashAmount then ALB else tcashAmount);
         tcashAmount = (if tcashAmount < 10 ^ 9 then 10 ^ 9 else tcashAmount) in
     ebind (oracleOf bk) (\<lambda>orc.
     ebind (require (o_tcashMintStatus orc) ''TCash minting disabled'') (\<lambda>_.
     Inr tcashAmount)))))))))))))"

definition TCashLoan_setRecord_internal ::
    "('ac, 'tk) bank \<Rightarrow> addr \<Rightarrow> nat \<Rightarrow> nat \<Rightarrow> ('ac, 'tk) btx" where
  "TCashLoan_setRecord_internal bk account loanAmount collateralAmount =
     (let st = bk_loan bk; loanID = l_nextLoanID st in
      ebind (priceOf bk ''UNIT'') (\<lambda>unitPrice.
      ebind (priceOf bk ''TCASH'') (\<lambda>tcashPrice.
      ebind (configOf bk ''TCASHDIR'') (\<lambda>rate.
      ebind (checked 256 (loanAmount * rate)) (\<lambda>n.
      let interest = n div 10000 in
      ebind (checked 256 (loanAmount + interest)) (\<lambda>debt.
      let lim = l_limits st account; u = l_personal st account in
      ebind (checked 256 (bl_totalBorrowed lim + debt)) (\<lambda>totalBorrowed.
      ebind (checked 256 (pl_TNL u + 1)) (\<lambda>TNL.
      ebind (checked 256 (pl_TLA u + debt)) (\<lambda>TLA.
      ebind (checked 256 (l_OLB st + debt)) (\<lambda>OLB.
      ebind (checked 256 (l_TLD st + debt)) (\<lambda>TLD.
      let newLoan = \<lparr>lh_loanID = loanID, lh_account = account, lh_amounts = [collateralAmount, debt],
            lh_prices = [unitPrice, tcashPrice], lh_time = mk_time (bk_market bk), lh_interest = interest, lh_IST = 1,
            lh_status = 0\<rparr>;
          bk = with_loan bk ((set_loan st loanID newLoan)\<lparr>l_nextLoanID := loanID + 1,
            l_userLoans := (l_userLoans st)(account := l_userLoans st account @ [loanID]),
            l_limits := (l_limits st)(account := lim\<lparr>bl_totalBorrowed := totalBorrowed\<rparr>),
            l_personal := (l_personal st)(account := u\<lparr>pl_TNL := TNL, pl_TLA := TLA\<rparr>), l_OLB := OLB, l_TLD := TLD\<rparr>) in
      ebind (crfOf bk account) (\<lambda>_. Inr bk))))))))))))"

text \<open>The coins sent with the call are in the balance before it starts.\<close>

definition TCashLoan_createLoan ::
    "'tk erc20 \<Rightarrow> 'ac oz_access \<Rightarrow> ('ac, 'tk) bank \<Rightarrow> addr \<Rightarrow> nat \<Rightarrow> ('ac, 'tk) btx" where
  "TCashLoan_createLoan T A bk sender amount =
     (let st = bk_loan bk; bk = with_loan bk (st\<lparr>l_balance := l_balance st + amount\<rparr>) in
      ebind (oracleOf bk) (\<lambda>orc.
      ebind (require (o_tcashMintStatus orc) ''TCash minting is currently disabled'') (\<lambda>_.
      ebind (require (0 < amount) ''Invalid collateral amount'') (\<lambda>_.
      ebind (TCashLoan_evaluateMaxBorrowable bk sender) (\<lambda>(bk, remaining).
      ebind (require (0 < remaining) ''No borrowable limit available'') (\<lambda>_.
      ebind (TCashLoan_calculateLoanAmount bk sender amount) (\<lambda>loanAmount.
      ebind (require (0 < loanAmount) ''Invalid loan amount, below minimum'') (\<lambda>_.
      ebind (TCashLoan_setRecord_internal bk sender loanAmount amount) (\<lambda>bk.
      let mk = bk_market bk in
      ebind (at_tcash mk (l_tcash (mk_loan mk))) (\<lambda>tcash.
      ebind (TCash_mint T A (at_roles mk) (at_oracle mk) tcash (mk_loanAt mk) sender loanAmount) (\<lambda>tcash.
      Inr (bk\<lparr>bk_market := mk\<lparr>mk_tcash := tcash\<rparr>\<rparr>))))))))))))"

text \<open>Managers can record a loan for anybody; no collateral comes in and no token is paid out.\<close>

definition TCashLoan_setRecord ::
    "'ac oz_access \<Rightarrow> ('ac, 'tk) bank \<Rightarrow> addr \<Rightarrow> addr \<Rightarrow> nat \<Rightarrow> nat \<Rightarrow> ('ac, 'tk) btx" where
  "TCashLoan_setRecord A bk sender account loanAmount collateralAmount =
     ebind (managerOnly A bk sender) (\<lambda>_.
     ebind (require (account \<noteq> 0) ''Invalid account address'') (\<lambda>_.
     ebind (require (0 < loanAmount) ''Invalid loan amount'') (\<lambda>_.
     ebind (require (0 < collateralAmount) ''Invalid collateral amount'') (\<lambda>_.
     TCashLoan_setRecord_internal bk account loanAmount collateralAmount))))"

section \<open>Repaying\<close>

definition setPrices :: "('ac, 'tk) bank \<Rightarrow> loan_history \<Rightarrow> loan_history fallible" where
  "setPrices bk l =
     ebind (priceOf bk ''UNIT'') (\<lambda>unitPrice.
     ebind (put (lh_prices l) 0 unitPrice) (\<lambda>prices.
     ebind (priceOf bk ''TCASH'') (\<lambda>tcashPrice.
     ebind (put prices 1 tcashPrice) (\<lambda>prices.
     Inr (l\<lparr>lh_prices := prices\<rparr>)))))"

text \<open>Division by zero panics.\<close>

definition checked_div :: "nat \<Rightarrow> nat \<Rightarrow> nat fallible" where
  "checked_div a b = (if b = 0 then Inl ''Panic(0x12)'' else Inr (a div b))"

definition TCashLoan_calculateUnitToRelease :: "loan_history \<Rightarrow> nat \<Rightarrow> nat fallible" where
  "TCashLoan_calculateUnitToRelease l repayAmount =
     ebind (item (lh_amounts l) 0) (\<lambda>collateral.
     ebind (item (lh_amounts l) 1) (\<lambda>debt.
     ebind (checked 256 (repayAmount * collateral)) (\<lambda>n. checked_div n debt)))"

definition TCashLoan_repay ::
    "'tk erc20 \<Rightarrow> 'ac oz_access \<Rightarrow> (addr \<Rightarrow> bool) \<Rightarrow> ('ac, 'tk) bank \<Rightarrow> addr \<Rightarrow> nat \<Rightarrow> nat \<Rightarrow> ('ac, 'tk) btx" where
  "TCashLoan_repay T A accepts bk sender loanID amount =
     (let mk = bk_market bk; st = mk_loan mk; l = l_loans st loanID in
      ebind (require (lh_account l = sender) ''Not loan owner'') (\<lambda>_.
      ebind (require (0 < amount) ''Invalid repay amount'') (\<lambda>_.
      ebind (item (lh_amounts l) 1) (\<lambda>debt.
      ebind (require (amount \<le> debt) ''Repay amount exceeds loan'') (\<lambda>_.
      ebind (setPrices bk l) (\<lambda>l.
      ebind (TCashLoan_calculateUnitToRelease l amount) (\<lambda>unitAmount.
      ebind (at_tcash mk (l_tcash st)) (\<lambda>tcash.
      ebind (TCash_burnFrom T A (at_roles mk) tcash (mk_loanAt mk) sender amount) (\<lambda>tcash.
      let interest = (if amount \<le> lh_interest l then lh_interest l - amount else 0) in
      ebind (checked_sub debt amount) (\<lambda>debt.
      ebind (item (lh_amounts l) 0) (\<lambda>collateral.
      ebind (checked_sub collateral unitAmount) (\<lambda>collateral.
      let lim = l_limits st sender; u = l_personal st sender in
      ebind (checked_sub (bl_totalBorrowed lim) amount) (\<lambda>totalBorrowed.
      ebind (checked 256 (pl_TRA u + amount)) (\<lambda>TRA.
      ebind (checked_sub (l_OLB st) amount) (\<lambda>OLB.
      ebind (checked 256 (l_RA st + amount)) (\<lambda>RA.
      ebind (checked 256 (if debt = 0 then pl_NCL u + 1 else pl_NCL u)) (\<lambda>NCL.
      let l = l\<lparr>lh_amounts := [collateral, debt], lh_interest := interest,
                lh_status := (if debt = 0 then 1 else lh_status l)\<rparr> in
      ebind (require (unitAmount \<le> l_balance st \<and> accepts sender) '''') (\<lambda>_.
      let bk = bk\<lparr>bk_market := mk\<lparr>mk_tcash := tcash, mk_loan := (set_loan st loanID l)\<lparr>
                l_limits := (l_limits st)(sender := lim\<lparr>bl_totalBorrowed := totalBorrowed\<rparr>),
                l_personal := (l_personal st)(sender := u\<lparr>pl_TRA := TRA, pl_NCL := NCL\<rparr>), l_OLB := OLB, l_RA := RA,
                l_balance := l_balance st - unitAmount\<rparr>\<rparr>\<rparr> in
      ebind (crfOf bk sender) (\<lambda>_. Inr bk)))))))))))))))))))"

section \<open>Topping up\<close>

definition TCashLoan_calculateCollateralRatio :: "loan_history \<Rightarrow> nat fallible" where
  "TCashLoan_calculateCollateralRatio l =
     ebind (item (lh_amounts l) 0) (\<lambda>collateral.
     ebind (item (lh_prices l) 0) (\<lambda>unitPrice.
     ebind (checked 256 (collateral * unitPrice)) (\<lambda>n.
     ebind (checked 256 (n * 1000000)) (\<lambda>n.
     ebind (item (lh_amounts l) 1) (\<lambda>debt.
     ebind (item (lh_prices l) 1) (\<lambda>tcashPrice.
     ebind (checked 256 (debt * tcashPrice)) (\<lambda>d. checked_div n d)))))))"

definition TCashLoan_collateralTopUp :: "('ac, 'tk) bank \<Rightarrow> addr \<Rightarrow> nat \<Rightarrow> nat \<Rightarrow> ('ac, 'tk) btx" where
  "TCashLoan_collateralTopUp bk sender loanID amount =
     (let st = bk_loan bk; st = st\<lparr>l_balance := l_balance st + amount\<rparr>; l = l_loans st loanID in
      ebind (require (lh_account l = sender) ''Not loan owner'') (\<lambda>_.
      ebind (require (0 < amount) ''Invalid collateral amount'') (\<lambda>_.
      ebind (setPrices bk l) (\<lambda>l.
      ebind (item (lh_amounts l) 0) (\<lambda>collateral.
      ebind (checked 256 (collateral + amount)) (\<lambda>collateral.
      ebind (put (lh_amounts l) 0 collateral) (\<lambda>amounts.
      let l = l\<lparr>lh_amounts := amounts\<rparr> in
      ebind (TCashLoan_calculateCollateralRatio l) (\<lambda>ratio.
      ebind (configOf bk ''TCASHMCT'') (\<lambda>warningRatio.
      ebind (configOf bk ''TCASHLT'') (\<lambda>liquidationRatio.
      let l = l\<lparr>lh_status := (if warningRatio \<le> ratio then 0 else if ratio \<le> liquidationRatio then 3 else 2)\<rparr>;
          bk = with_loan bk (set_loan st loanID l) in
      ebind (crfOf bk sender) (\<lambda>_. Inr bk)))))))))))"

text \<open>What the contract recommends to the borrower; the target is in the scale of the ratio above.\<close>

definition TCashLoan_calculateRequiredTopUp :: "('ac, 'tk) bank \<Rightarrow> nat \<Rightarrow> nat \<Rightarrow> nat fallible" where
  "TCashLoan_calculateRequiredTopUp bk loanID targetRatio =
     (let l = l_loans (bk_loan bk) loanID in
      ebind (priceOf bk ''UNIT'') (\<lambda>unitPrice.
      ebind (priceOf bk ''TCASH'') (\<lambda>tcashPrice.
      ebind (item (lh_amounts l) 1) (\<lambda>debt.
      ebind (checked 256 (debt * tcashPrice)) (\<lambda>tcashValue.
      ebind (checked 256 (tcashValue * targetRatio)) (\<lambda>n.
      let requiredCollateralValue = n div 10000 in
      ebind (item (lh_amounts l) 0) (\<lambda>collateral.
      ebind (checked 256 (collateral * unitPrice)) (\<lambda>currentCollateralValue.
      if requiredCollateralValue \<le> currentCollateralValue then Inr 0
      else ebind (checked_div (requiredCollateralValue - currentCollateralValue) unitPrice) (\<lambda>additionalUnitsNeeded.
        checked 256 (additionalUnitsNeeded + additionalUnitsNeeded div 100))))))))))"

definition TCashLoan_checkCollateralStatus :: "('ac, 'tk) bank \<Rightarrow> nat \<Rightarrow> (bool \<times> nat \<times> nat \<times> nat) fallible" where
  "TCashLoan_checkCollateralStatus bk loanID =
     (let l = l_loans (bk_loan bk) loanID in
      if lh_status l = 1 then Inr (False, 0, 0, 0)
      else ebind (TCashLoan_calculateCollateralRatio l) (\<lambda>currentRatio.
        ebind (configOf bk ''TCASHMCT'') (\<lambda>warningRatio.
        if currentRatio < warningRatio then
          ebind (checked 256 (warningRatio + warningRatio div 10)) (\<lambda>targetRatio.
          ebind (TCashLoan_calculateRequiredTopUp bk loanID targetRatio) (\<lambda>recommendedTopUp.
          Inr (True, currentRatio, warningRatio, recommendedTopUp)))
        else Inr (False, currentRatio, warningRatio, 0))))"

section \<open>Interest and liquidation\<close>

text \<open>
  The auction is started by a low-level call, whose failure the caller sees as a flag. What an address other than
  that of the auction contract does is not known; the call is taken to fail there.
\<close>

definition callAuctionStart :: "('ac, 'tk) bank \<Rightarrow> nat \<Rightarrow> nat \<Rightarrow> nat \<Rightarrow> ('ac, 'tk) btx" where
  "callAuctionStart bk sales startValue debt =
     (let mk = bk_market bk in
      ebind (require (l_auction (mk_loan mk) = mk_auctionAt mk) '''') (\<lambda>_.
      ebind (TCashAuction_auctionStart mk (mk_loanAt mk) sales startValue debt) (\<lambda>mk. Inr (bk\<lparr>bk_market := mk\<rparr>))))"

definition TCashLoan_calculateInterest :: "('ac, 'tk) bank \<Rightarrow> nat \<Rightarrow> ('ac, 'tk) btx" where
  "TCashLoan_calculateInterest bk loanID =
     (let st = bk_loan bk; l = l_loans st loanID in
      ebind (require (lh_status l \<noteq> 1 \<and> lh_status l \<noteq> 3) ''Invalid loan status'') (\<lambda>_.
      ebind (setPrices bk l) (\<lambda>l.
      ebind (item (lh_amounts l) 1) (\<lambda>debt.
      ebind (configOf bk ''TCASHDIR'') (\<lambda>rate.
      ebind (checked 256 (debt * rate)) (\<lambda>n.
      let interest = n div 10000; account = lh_account l; lim = l_limits st account; u = l_personal st account in
      ebind (checked 256 (lh_interest l + interest)) (\<lambda>newInterest.
      ebind (checked 256 (debt + interest)) (\<lambda>debt.
      ebind (put (lh_amounts l) 1 debt) (\<lambda>amounts.
      ebind (checked 256 (lh_IST l + 1)) (\<lambda>IST.
      ebind (checked 256 (bl_totalBorrowed lim + interest)) (\<lambda>totalBorrowed.
      ebind (checked 256 (pl_TLA u + interest)) (\<lambda>TLA.
      ebind (checked 256 (l_OLB st + interest)) (\<lambda>OLB.
      ebind (checked 256 (l_TLD st + interest)) (\<lambda>TLD.
      let l = l\<lparr>lh_amounts := amounts, lh_interest := newInterest, lh_IST := IST\<rparr> in
      ebind (TCashLoan_calculateCollateralRatio l) (\<lambda>ratio.
      ebind (configOf bk ''TCASHMCT'') (\<lambda>warningRatio.
      ebind (configOf bk ''TCASHLT'') (\<lambda>liquidationRatio.
      ebind (configOf bk ''TCASHRC'') (\<lambda>cycle.
      let bad = ratio \<le> liquidationRatio \<or> cycle \<le> IST;
          l = l\<lparr>lh_status := (if bad then 3 else if ratio \<le> warningRatio then 2 else lh_status l)\<rparr> in
      ebind (if bad then checked_sub TLA debt else Inr TLA) (\<lambda>TLA.
      ebind (if bad then checked_sub totalBorrowed debt else Inr totalBorrowed) (\<lambda>totalBorrowed.
      let bk = with_loan bk ((set_loan st loanID l)\<lparr>
            l_limits := (l_limits st)(account := lim\<lparr>bl_totalBorrowed := totalBorrowed\<rparr>),
            l_personal := (l_personal st)(account := u\<lparr>pl_TLA := TLA\<rparr>), l_OLB := OLB, l_TLD := TLD\<rparr>) in
      if bad \<and> l_auction st \<noteq> 0 then
        ebind (item amounts 0) (\<lambda>collateral.
        case callAuctionStart bk collateral debt newInterest of Inl e \<Rightarrow> Inr bk | Inr bk' \<Rightarrow> Inr bk')
      else Inr bk))))))))))))))))))))"

definition TCashLoan_interestCalculation :: "'ac oz_access \<Rightarrow> ('ac, 'tk) bank \<Rightarrow> addr \<Rightarrow> nat \<Rightarrow> ('ac, 'tk) btx" where
  "TCashLoan_interestCalculation A bk sender loanID =
     ebind (managerOnly A bk sender) (\<lambda>_.
     ebind (require (lh_status (l_loans (bk_loan bk) loanID) \<noteq> 1) ''Loan already repaid'') (\<lambda>_.
     ebind (TCashLoan_calculateInterest bk loanID) (\<lambda>bk.
     ebind (crfOf bk (lh_account (l_loans (bk_loan bk) loanID))) (\<lambda>_. Inr bk))))"

definition TCashLoan_startLiquidation :: "'ac oz_access \<Rightarrow> ('ac, 'tk) bank \<Rightarrow> addr \<Rightarrow> nat \<Rightarrow> ('ac, 'tk) btx" where
  "TCashLoan_startLiquidation A bk sender loanID =
     ebind (managerOnly A bk sender) (\<lambda>_.
     let st = bk_loan bk; l = l_loans st loanID in
     ebind (require (lh_status l \<noteq> 1) ''Loan already cleared'') (\<lambda>_.
     ebind (setPrices bk l) (\<lambda>l.
     let bk = with_loan bk (set_loan st loanID l) in
     ebind (crfOf bk (lh_account l)) (\<lambda>_.
     if l_auction st \<noteq> 0 then
       ebind (item (lh_amounts l) 0) (\<lambda>collateral.
       ebind (item (lh_amounts l) 1) (\<lambda>debt.
       map_error (\<lambda>_. ''Failed to start auction'') (callAuctionStart bk collateral debt (lh_interest l))))
     else Inr bk))))"

definition TCashLoan_setLoanStatus :: "'ac oz_access \<Rightarrow> ('ac, 'tk) bank \<Rightarrow> addr \<Rightarrow> nat \<Rightarrow> nat \<Rightarrow> ('ac, 'tk) btx" where
  "TCashLoan_setLoanStatus A bk sender loanID status =
     ebind (managerOnly A bk sender) (\<lambda>_.
     ebind (require (status \<le> 3) ''Invalid status value'') (\<lambda>_.
     let st = bk_loan bk in
     Inr (with_loan bk (set_loan st loanID ((l_loans st loanID)\<lparr>lh_status := status\<rparr>)))))"

end
