(* ===== verification/BankSafety.thy ===== *)
theory BankSafety
  imports Bank MarketSafety
begin

text \<open>
  Loans and auctions together, under any sequence of calls by anyone: how the books of the loan contract relate to the
  money it holds, what repaying returns, what the smallest loan is, and what credit and liquidation are worth.
\<close>

section \<open>Steps\<close>

datatype bank_op =
    CreateLoan nat
  | Repay nat nat
  | TopUp nat nat
  | InterestCalculation nat
  | StartLiquidation nat
  | SetLoanStatus nat nat
  | SetRecord addr nat nat
  | EvaluateMaxBorrowable addr
  | NameAuction addr
  | AuctionOver addr nat nat nat
  | InMarket market_op

fun bank_call ::
    "'tk erc20 \<Rightarrow> 'ac oz_access \<Rightarrow> (addr \<Rightarrow> bool) \<Rightarrow> ('ac, 'tk) bank \<Rightarrow> addr \<Rightarrow> bank_op \<Rightarrow> ('ac, 'tk) btx" where
  "bank_call T A P bk s (CreateLoan v) = TCashLoan_createLoan T A bk s v"
| "bank_call T A P bk s (Repay i v) = TCashLoan_repay T A P bk s i v"
| "bank_call T A P bk s (TopUp i v) = TCashLoan_collateralTopUp bk s i v"
| "bank_call T A P bk s (InterestCalculation i) = TCashLoan_interestCalculation A bk s i"
| "bank_call T A P bk s (StartLiquidation i) = TCashLoan_startLiquidation A bk s i"
| "bank_call T A P bk s (SetLoanStatus i n) = TCashLoan_setLoanStatus A bk s i n"
| "bank_call T A P bk s (SetRecord a n c) = TCashLoan_setRecord A bk s a n c"
| "bank_call T A P bk s (EvaluateMaxBorrowable a) = ebind (TCashLoan_evaluateMaxBorrowable bk a) (\<lambda>(bk, _). Inr bk)"
| "bank_call T A P bk s (NameAuction a) = ebind (TCashLoan_setAuctionContract (bk_loan bk) s a) (\<lambda>st. Inr (with_loan bk st))"
| "bank_call T A P bk s (AuctionOver w m a b) =
     ebind (TCashLoan_auctionOver P (bk_loan bk) s w m a b) (\<lambda>st. Inr (with_loan bk st))"
| "bank_call T A P bk s (InMarket c) = ebind (market_call T A P (bk_market bk) s c) (\<lambda>mk. Inr (bk\<lparr>bk_market := mk\<rparr>))"

text \<open>
  Everything else may change prices, roles, parameters, mint records, risk factors, addresses and the clock, but not
  the loans, the totals and the money of the loan contract and not the list of auctions.
\<close>

definition same_books :: "('ac, 'tk) bank \<Rightarrow> ('ac, 'tk) bank \<Rightarrow> bool" where
  "same_books bk bk' \<longleftrightarrow> l_loans (bk_loan bk') = l_loans (bk_loan bk) \<and> l_nextLoanID (bk_loan bk') = l_nextLoanID (bk_loan bk) \<and>
     l_OLB (bk_loan bk') = l_OLB (bk_loan bk) \<and> l_RA (bk_loan bk') = l_RA (bk_loan bk) \<and>
     l_TLD (bk_loan bk') = l_TLD (bk_loan bk) \<and> l_balance (bk_loan bk') = l_balance (bk_loan bk) \<and>
     ta_auctionList (mk_auction (bk_market bk')) = ta_auctionList (mk_auction (bk_market bk))"

text \<open>
  Calls come from any account or contract, except that the auction contract settles only within its own functions. They are followed as long as the loan contract knows no auction contract or that of the market: what another
  contract does that its owner names is not known. The flag says whether managers may record loans by hand.
\<close>

definition knows_market :: "('ac, 'tk) bank \<Rightarrow> bool" where
  "knows_market bk \<longleftrightarrow> l_auction (bk_loan bk) \<in> {0, mk_auctionAt (bk_market bk)}"

inductive bank_step ::
    "bool \<Rightarrow> 'tk erc20 \<Rightarrow> 'ac oz_access \<Rightarrow> (addr \<Rightarrow> bool) \<Rightarrow> ('ac, 'tk) bank \<Rightarrow> ('ac, 'tk) bank \<Rightarrow> bool"
  for B T A P where
  bank_call: "knows_market bk \<Longrightarrow> s \<noteq> 0 \<Longrightarrow>
     (\<And>w m a b. c = AuctionOver w m a b \<Longrightarrow> s \<noteq> mk_auctionAt (bk_market bk)) \<Longrightarrow> B \<or> \<not> (\<exists>a n v. c = SetRecord a n v) \<Longrightarrow>
     bank_call T A P bk s c = Inr bk' \<Longrightarrow> bank_step B T A P bk bk'"
| elsewhere: "same_books bk bk' \<Longrightarrow> bank_step B T A P bk bk'"

definition founded :: "('ac, 'tk) bank \<Rightarrow> bool" where
  "founded bk \<longleftrightarrow> l_loans (bk_loan bk) = (\<lambda>_. no_loan) \<and> l_nextLoanID (bk_loan bk) = 0 \<and> l_OLB (bk_loan bk) = 0 \<and>
     l_RA (bk_loan bk) = 0 \<and> l_TLD (bk_loan bk) = 0 \<and> l_balance (bk_loan bk) = 0 \<and>
     ta_auctionList (mk_auction (bk_market bk)) = []"

definition bank_reachable :: "bool \<Rightarrow> 'tk erc20 \<Rightarrow> 'ac oz_access \<Rightarrow> (addr \<Rightarrow> bool) \<Rightarrow> ('ac, 'tk) bank \<Rightarrow> bool" where
  "bank_reachable B T A P bk \<longleftrightarrow> (\<exists>bk0. founded bk0 \<and> (bank_step B T A P)\<^sup>*\<^sup>* bk0 bk)"

section \<open>The books\<close>

definition loan_ok :: "loan_history \<Rightarrow> bool" where
  "loan_ok l \<longleftrightarrow> length (lh_amounts l) = 2 \<and> length (lh_prices l) = 2 \<and> lh_account l \<noteq> 0 \<and> lh_interest l \<le> lh_amounts l ! 1"

definition no_entry :: "loan_history \<Rightarrow> bool" where
  "no_entry l \<longleftrightarrow> lh_amounts l = [] \<and> lh_prices l = [] \<and> lh_account l = 0"

text \<open>The sums of the collaterals (\<open>k = 0\<close>) and debts (\<open>k = 1\<close>) on record, and of what the collected auctions were about.\<close>

definition on_record :: "loan \<Rightarrow> nat \<Rightarrow> nat" where
  "on_record st k = (\<Sum>i<l_nextLoanID st. lh_amounts (l_loans st i) ! k)"

definition collected :: "auction list \<Rightarrow> auction list" where
  "collected xs = filter (\<lambda>a. au_state a = 2) xs"

definition sold :: "auction list \<Rightarrow> nat" where
  "sold xs = (\<Sum>a\<leftarrow>collected xs. au_sales a)"

definition settled :: "auction list \<Rightarrow> nat" where
  "settled xs = (\<Sum>a\<leftarrow>collected xs. au_startValue a)"

definition bank_ok :: "bool \<Rightarrow> ('ac, 'tk) bank \<Rightarrow> bool" where
  "bank_ok B bk \<longleftrightarrow>
     (let st = bk_loan bk; xs = ta_auctionList (mk_auction (bk_market bk)) in
        (\<forall>i. if i < l_nextLoanID st then loan_ok (l_loans st i) else no_entry (l_loans st i)) \<and>
        l_balance st + sold xs \<le> on_record st 0 \<and> (\<not> B \<longrightarrow> on_record st 0 = l_balance st + sold xs) \<and>
        on_record st 1 = l_OLB st + settled xs \<and> l_TLD st = l_OLB st + l_RA st)"

lemma founded_ok: "founded bk \<Longrightarrow> bank_ok B bk"
  by (simp add: founded_def bank_ok_def no_entry_def no_loan_def on_record_def sold_def settled_def collected_def Let_def)

lemma same_books_ok: "same_books bk bk' \<Longrightarrow> bank_ok B bk \<Longrightarrow> bank_ok B bk'"
  by (simp add: same_books_def bank_ok_def on_record_def Let_def)

lemma on_record_set:
  assumes "i < l_nextLoanID st"
  shows "on_record (set_loan st i l) k + lh_amounts (l_loans st i) ! k = on_record st k + lh_amounts l ! k"
proof -
  have "on_record (set_loan st i l) k = (\<Sum>j<l_nextLoanID st. ((\<lambda>j. lh_amounts (l_loans st j) ! k)(i := lh_amounts l ! k)) j)"
    unfolding on_record_def set_loan_def by (rule sum.cong) simp_all
  then show ?thesis
    using sum_update [OF assms, of "\<lambda>j. lh_amounts (l_loans st j) ! k" "lh_amounts l ! k"] by (simp only: on_record_def)
qed

lemma on_record_cong: "l_loans st' = l_loans st \<Longrightarrow> l_nextLoanID st' = l_nextLoanID st \<Longrightarrow> on_record st' k = on_record st k"
  by (simp add: on_record_def)

text \<open>An operation on one loan: what it does to the amounts, the totals and the money.\<close>

lemma loan_move_ok:
  assumes ok: "bank_ok B bk" and i: "i < l_nextLoanID (bk_loan bk)" and l: "loan_ok l"
    and st: "l_loans (bk_loan bk') = (l_loans (bk_loan bk))(i := l)" "l_nextLoanID (bk_loan bk') = l_nextLoanID (bk_loan bk)"
    and coll: "lh_amounts l ! 0 + l_balance (bk_loan bk) = lh_amounts (l_loans (bk_loan bk) i) ! 0 + l_balance (bk_loan bk')"
    and debt: "lh_amounts l ! 1 + l_OLB (bk_loan bk) = lh_amounts (l_loans (bk_loan bk) i) ! 1 + l_OLB (bk_loan bk')"
    and tld: "l_TLD (bk_loan bk') + l_OLB (bk_loan bk) + l_RA (bk_loan bk) = l_TLD (bk_loan bk) + l_OLB (bk_loan bk') + l_RA (bk_loan bk')"
    and auctions: "sold (ta_auctionList (mk_auction (bk_market bk'))) = sold (ta_auctionList (mk_auction (bk_market bk)))"
      "settled (ta_auctionList (mk_auction (bk_market bk'))) = settled (ta_auctionList (mk_auction (bk_market bk)))"
  shows "bank_ok B bk'"
proof -
  have same: "on_record (bk_loan bk') k = on_record (set_loan (bk_loan bk) i l) k" for k
    by (rule on_record_cong) (simp_all add: st set_loan_def)
  have sums: "on_record (bk_loan bk') k + lh_amounts (l_loans (bk_loan bk) i) ! k = on_record (bk_loan bk) k + lh_amounts l ! k" for k
    unfolding same by (rule on_record_set [OF i])
  show ?thesis
    using ok i l sums [of 0] sums [of 1] coll debt tld by (cases B) (simp_all add: bank_ok_def st auctions Let_def)
qed

subsection \<open>The loans\<close>

lemma with_loan_fields [simp]:
  "mk_loan (bk_market (with_loan bk st)) = st" "mk_auction (bk_market (with_loan bk st)) = mk_auction (bk_market bk)"
  "mk_time (bk_market (with_loan bk st)) = mk_time (bk_market bk)" "mk_tcash (bk_market (with_loan bk st)) = mk_tcash (bk_market bk)"
  "mk_auctionAt (bk_market (with_loan bk st)) = mk_auctionAt (bk_market bk)" "mk_loanAt (bk_market (with_loan bk st)) = mk_loanAt (bk_market bk)"
  "mk_oracleAt (bk_market (with_loan bk st)) = mk_oracleAt (bk_market bk)" "mk_oracle (bk_market (with_loan bk st)) = mk_oracle (bk_market bk)"
  "mk_rolesAt (bk_market (with_loan bk st)) = mk_rolesAt (bk_market bk)" "mk_roles (bk_market (with_loan bk st)) = mk_roles (bk_market bk)"
  "bk_paramAt (with_loan bk st) = bk_paramAt bk" "bk_param (with_loan bk st) = bk_param bk"
  "bk_tatAt (with_loan bk st) = bk_tatAt bk" "bk_tat (with_loan bk st) = bk_tat bk"
  by (simp_all add: with_loan_def)

lemma set_loan_fields [simp]:
  "l_loans (set_loan st i l) = (l_loans st)(i := l)" "l_nextLoanID (set_loan st i l) = l_nextLoanID st"
  "l_OLB (set_loan st i l) = l_OLB st" "l_RA (set_loan st i l) = l_RA st" "l_TLD (set_loan st i l) = l_TLD st"
  "l_balance (set_loan st i l) = l_balance st" "l_auction (set_loan st i l) = l_auction st"
  by (simp_all add: set_loan_def)

lemma item_Inr_iff [simp]: "item xs i = Inr x \<longleftrightarrow> i < length xs \<and> x = xs ! i"
  by (auto simp: item_def)

lemma put_Inr_iff [simp]: "put xs i x = Inr ys \<longleftrightarrow> i < length xs \<and> ys = xs[i := x]"
  by (auto simp: put_def)

lemma setPrices_Inr:
  "setPrices bk l = Inr l' \<Longrightarrow> \<exists>p q. l' = l\<lparr>lh_prices := [p, q] @ drop 2 (lh_prices l)\<rparr> \<and> 2 \<le> length (lh_prices l)"
  by (cases "lh_prices l"; cases "tl (lh_prices l)") (auto simp: setPrices_def ebind_Inr_iff)

lemma ok_entry:
  assumes "bank_ok B bk" and "lh_prices (l_loans (bk_loan bk) i) \<noteq> [] \<or> lh_account (l_loans (bk_loan bk) i) \<noteq> 0"
  shows "i < l_nextLoanID (bk_loan bk)" and "loan_ok (l_loans (bk_loan bk) i)"
proof -
  show i: "i < l_nextLoanID (bk_loan bk)"
    by (rule ccontr) (use assms in \<open>auto simp: bank_ok_def no_entry_def Let_def split: if_splits\<close>)
  then show "loan_ok (l_loans (bk_loan bk) i)"
    using assms(1) by (auto simp: bank_ok_def Let_def split: if_splits)
qed

text \<open>Taking out a loan.\<close>

lemma setRecord_Inr:
  assumes "TCashLoan_setRecord_internal bk a n c = Inr bk'"
  shows "\<exists>l debt. l_loans (bk_loan bk') = (l_loans (bk_loan bk))(l_nextLoanID (bk_loan bk) := l) \<and>
    lh_amounts l = [c, debt] \<and> length (lh_prices l) = 2 \<and> lh_account l = a \<and> debt = n + lh_interest l \<and> lh_status l = 0 \<and>
    l_nextLoanID (bk_loan bk') = Suc (l_nextLoanID (bk_loan bk)) \<and> l_OLB (bk_loan bk') = l_OLB (bk_loan bk) + debt \<and>
    l_TLD (bk_loan bk') = l_TLD (bk_loan bk) + debt \<and> l_RA (bk_loan bk') = l_RA (bk_loan bk) \<and>
    l_balance (bk_loan bk') = l_balance (bk_loan bk) \<and> mk_auction (bk_market bk') = mk_auction (bk_market bk)"
  using assms
  by (auto simp: TCashLoan_setRecord_internal_def ebind_Inr_iff Let_def simp del: power_numeral)

lemma evaluate_Inr:
  assumes "TCashLoan_evaluateMaxBorrowable bk a = Inr (bk', n)"
  shows "same_books bk bk' \<and> mk_auction (bk_market bk') = mk_auction (bk_market bk)"
  using assms by (auto simp: TCashLoan_evaluateMaxBorrowable_def ebind_Inr_iff Let_def same_books_def split: prod.splits if_splits)

lemma createLoan_Inr:
  assumes "TCashLoan_createLoan T A bk s v = Inr bk'"
  shows "\<exists>l n i. l_loans (bk_loan bk') = (l_loans (bk_loan bk))(l_nextLoanID (bk_loan bk) := l) \<and>
    lh_amounts l = [v, n + i] \<and> length (lh_prices l) = 2 \<and> lh_account l = s \<and> lh_interest l = i \<and>
    l_nextLoanID (bk_loan bk') = Suc (l_nextLoanID (bk_loan bk)) \<and> l_OLB (bk_loan bk') = l_OLB (bk_loan bk) + (n + i) \<and>
    l_TLD (bk_loan bk') = l_TLD (bk_loan bk) + (n + i) \<and> l_RA (bk_loan bk') = l_RA (bk_loan bk) \<and>
    l_balance (bk_loan bk') = l_balance (bk_loan bk) + v \<and> mk_auction (bk_market bk') = mk_auction (bk_market bk)"
proof -
  let ?bk1 = "with_loan bk ((bk_loan bk)\<lparr>l_balance := l_balance (bk_loan bk) + v\<rparr>)"
  obtain bk2 r n bk3 t where eval: "TCashLoan_evaluateMaxBorrowable ?bk1 s = Inr (bk2, r)"
    and rec: "TCashLoan_setRecord_internal bk2 s n v = Inr bk3" and bk': "bk' = bk3\<lparr>bk_market := (bk_market bk3)\<lparr>mk_tcash := t\<rparr>\<rparr>"
    using assms by (auto simp: TCashLoan_createLoan_def ebind_Inr_iff Let_def simp del: power_numeral split: prod.splits)
  from evaluate_Inr [OF eval] setRecord_Inr [OF rec] show ?thesis
    by (auto simp: same_books_def bk')
qed

lemma createLoan_ok:
  assumes ok: "bank_ok B bk" and "s \<noteq> 0" and run: "TCashLoan_createLoan T A bk s v = Inr bk'"
  shows "bank_ok B bk'"
proof -
  obtain l n i where l: "l_loans (bk_loan bk') = (l_loans (bk_loan bk))(l_nextLoanID (bk_loan bk) := l)"
    "lh_amounts l = [v, n + i]" "length (lh_prices l) = 2" "lh_account l = s" "lh_interest l = i"
    and st: "l_nextLoanID (bk_loan bk') = Suc (l_nextLoanID (bk_loan bk))" "l_OLB (bk_loan bk') = l_OLB (bk_loan bk) + (n + i)"
    "l_TLD (bk_loan bk') = l_TLD (bk_loan bk) + (n + i)" "l_RA (bk_loan bk') = l_RA (bk_loan bk)"
    "l_balance (bk_loan bk') = l_balance (bk_loan bk) + v" "mk_auction (bk_market bk') = mk_auction (bk_market bk)"
    using createLoan_Inr [OF run] by blast
  have "on_record (bk_loan bk') k = on_record (bk_loan bk) k + [v, n + i] ! k" for k
    by (simp add: on_record_def st l)
  moreover have "loan_ok l" using assms(2) by (simp add: loan_ok_def l)
  ultimately show ?thesis
    using ok by (auto simp: bank_ok_def l st Let_def split: if_splits)
qed

text \<open>Repaying part of a loan.\<close>

definition released :: "loan_history \<Rightarrow> nat \<Rightarrow> nat" where
  "released l v = v * lh_amounts l ! 0 div lh_amounts l ! 1"

lemma repay_facts:
  assumes "TCashLoan_repay T A P bk s i v = Inr bk'"
  shows "\<exists>l n. setPrices bk (l_loans (bk_loan bk) i) = Inr l \<and> TCashLoan_calculateUnitToRelease l v = Inr n \<and>
    lh_account (l_loans (bk_loan bk) i) = s \<and> 0 < v \<and> 1 < length (lh_amounts (l_loans (bk_loan bk) i)) \<and>
    v \<le> lh_amounts (l_loans (bk_loan bk) i) ! 1 \<and> n \<le> lh_amounts l ! 0 \<and> v \<le> l_OLB (bk_loan bk) \<and> n \<le> l_balance (bk_loan bk) \<and>
    l_loans (bk_loan bk') = (l_loans (bk_loan bk))(i := l\<lparr>
      lh_amounts := [lh_amounts l ! 0 - n, lh_amounts (l_loans (bk_loan bk) i) ! 1 - v],
      lh_interest := (if v \<le> lh_interest l then lh_interest l - v else 0),
      lh_status := (if lh_amounts (l_loans (bk_loan bk) i) ! 1 - v = 0 then 1 else lh_status l)\<rparr>) \<and>
    l_nextLoanID (bk_loan bk') = l_nextLoanID (bk_loan bk) \<and> l_OLB (bk_loan bk') = l_OLB (bk_loan bk) - v \<and>
    l_RA (bk_loan bk') = l_RA (bk_loan bk) + v \<and> l_TLD (bk_loan bk') = l_TLD (bk_loan bk) \<and>
    l_balance (bk_loan bk') = l_balance (bk_loan bk) - n \<and> mk_auction (bk_market bk') = mk_auction (bk_market bk)"
  using assms unfolding TCashLoan_repay_def Let_def ebind_Inr_iff require_Inr_iff item_Inr_iff checked_sub_Inr_iff checked_Inr_iff
    sum.inject
  apply (elim exE conjE)
  apply hypsubst
  apply (intro exI conjI, assumption, assumption)
  apply (assumption | simp (no_asm))+
  done

lemma calculateUnitToRelease_Inr:
  "TCashLoan_calculateUnitToRelease l v = Inr n \<longleftrightarrow> 1 < length (lh_amounts l) \<and> v * lh_amounts l ! 0 < 2 ^ 256 \<and>
     lh_amounts l ! 1 \<noteq> 0 \<and> n = released l v"
  by (auto simp: TCashLoan_calculateUnitToRelease_def released_def checked_div_def ebind_Inr_iff simp del: power_numeral)

text \<open>On a loan on record.\<close>

lemma repay_Inr:
  assumes "TCashLoan_repay T A P bk s i v = Inr bk'" and "loan_ok (l_loans (bk_loan bk) i)"
  shows "\<exists>l. let old = l_loans (bk_loan bk) i; r = released old v in
    lh_account old = s \<and> 0 < v \<and> v \<le> lh_amounts old ! 1 \<and> r \<le> lh_amounts old ! 0 \<and> r \<le> l_balance (bk_loan bk) \<and>
    v \<le> l_OLB (bk_loan bk) \<and> loan_ok l \<and> lh_account l = s \<and>
    lh_amounts l = [lh_amounts old ! 0 - r, lh_amounts old ! 1 - v] \<and>
    lh_status l = (if v = lh_amounts old ! 1 then 1 else lh_status old) \<and>
    l_loans (bk_loan bk') = (l_loans (bk_loan bk))(i := l) \<and> l_nextLoanID (bk_loan bk') = l_nextLoanID (bk_loan bk) \<and>
    l_OLB (bk_loan bk') = l_OLB (bk_loan bk) - v \<and> l_RA (bk_loan bk') = l_RA (bk_loan bk) + v \<and>
    l_TLD (bk_loan bk') = l_TLD (bk_loan bk) \<and> l_balance (bk_loan bk') = l_balance (bk_loan bk) - r \<and>
    mk_auction (bk_market bk') = mk_auction (bk_market bk)"
proof -
  let ?old = "l_loans (bk_loan bk) i"
  obtain l n where l: "setPrices bk ?old = Inr l" and n: "TCashLoan_calculateUnitToRelease l v = Inr n"
    and facts: "lh_account ?old = s" "0 < v" "v \<le> lh_amounts ?old ! 1" "n \<le> lh_amounts l ! 0" "v \<le> l_OLB (bk_loan bk)"
      "n \<le> l_balance (bk_loan bk)"
    and st: "l_loans (bk_loan bk') = (l_loans (bk_loan bk))(i := l\<lparr>lh_amounts := [lh_amounts l ! 0 - n, lh_amounts ?old ! 1 - v],
        lh_interest := (if v \<le> lh_interest l then lh_interest l - v else 0),
        lh_status := (if lh_amounts ?old ! 1 - v = 0 then 1 else lh_status l)\<rparr>)"
      "l_nextLoanID (bk_loan bk') = l_nextLoanID (bk_loan bk)" "l_OLB (bk_loan bk') = l_OLB (bk_loan bk) - v"
      "l_RA (bk_loan bk') = l_RA (bk_loan bk) + v" "l_TLD (bk_loan bk') = l_TLD (bk_loan bk)"
      "l_balance (bk_loan bk') = l_balance (bk_loan bk) - n" "mk_auction (bk_market bk') = mk_auction (bk_market bk)"
    using repay_facts [OF assms(1)] by blast
  obtain p q where lp: "l = ?old\<lparr>lh_prices := [p, q]\<rparr>"
    using setPrices_Inr [OF l] assms(2) by (auto simp: loan_ok_def)
  then have "n = released ?old v" using n by (simp add: calculateUnitToRelease_Inr released_def)
  then show ?thesis
    using facts st assms(2) unfolding lp Let_def
    by (intro exI [of _ "l\<lparr>lh_amounts := [lh_amounts l ! 0 - n, lh_amounts ?old ! 1 - v],
        lh_interest := (if v \<le> lh_interest l then lh_interest l - v else 0),
        lh_status := (if lh_amounts ?old ! 1 - v = 0 then 1 else lh_status l)\<rparr>"]) (auto simp: lp loan_ok_def)
qed

lemma repay_ok:
  assumes ok: "bank_ok B bk" and "s \<noteq> 0" and run: "TCashLoan_repay T A P bk s i v = Inr bk'"
  shows "bank_ok B bk'"
proof -
  have "lh_account (l_loans (bk_loan bk) i) = s" using repay_facts [OF run] by blast
  with assms(2) have i: "i < l_nextLoanID (bk_loan bk)" and old: "loan_ok (l_loans (bk_loan bk) i)"
    using ok_entry [OF ok] by auto
  obtain l where "loan_ok l" and r: "v \<le> lh_amounts (l_loans (bk_loan bk) i) ! 1"
      "released (l_loans (bk_loan bk) i) v \<le> lh_amounts (l_loans (bk_loan bk) i) ! 0"
      "released (l_loans (bk_loan bk) i) v \<le> l_balance (bk_loan bk)" "v \<le> l_OLB (bk_loan bk)"
    and st: "lh_amounts l = [lh_amounts (l_loans (bk_loan bk) i) ! 0 - released (l_loans (bk_loan bk) i) v,
        lh_amounts (l_loans (bk_loan bk) i) ! 1 - v]"
      "l_loans (bk_loan bk') = (l_loans (bk_loan bk))(i := l)" "l_nextLoanID (bk_loan bk') = l_nextLoanID (bk_loan bk)"
      "l_OLB (bk_loan bk') = l_OLB (bk_loan bk) - v" "l_RA (bk_loan bk') = l_RA (bk_loan bk) + v"
      "l_TLD (bk_loan bk') = l_TLD (bk_loan bk)" "l_balance (bk_loan bk') = l_balance (bk_loan bk) - released (l_loans (bk_loan bk) i) v"
      "mk_auction (bk_market bk') = mk_auction (bk_market bk)"
    using repay_Inr [OF run old] unfolding Let_def by blast
  from \<open>loan_ok l\<close> show ?thesis
    by (rule loan_move_ok [OF ok i _ st(2,3)]) (use r in \<open>simp_all add: st\<close>)
qed

text \<open>Topping up and setting the status.\<close>

lemma paid_in_loans: "l_loans (st\<lparr>l_balance := n\<rparr>) = l_loans st"
  by simp

lemma topUp_facts:
  assumes "TCashLoan_collateralTopUp bk s i v = Inr bk'"
  shows "\<exists>l n. setPrices bk (l_loans (bk_loan bk) i) = Inr l \<and> lh_account (l_loans (bk_loan bk) i) = s \<and> 0 < v \<and>
    bk' = with_loan bk (set_loan ((bk_loan bk)\<lparr>l_balance := l_balance (bk_loan bk) + v\<rparr>) i
      (l\<lparr>lh_amounts := (lh_amounts l)[0 := lh_amounts l ! 0 + v], lh_status := n\<rparr>))"
  using assms unfolding TCashLoan_collateralTopUp_def Let_def ebind_Inr_iff require_Inr_iff item_Inr_iff put_Inr_iff checked_Inr_iff
    sum.inject paid_in_loans
  apply (elim exE conjE)
  apply hypsubst
  apply (intro exI conjI, assumption)
  apply (assumption | rule refl)+
  done

lemma topUp_ok:
  assumes ok: "bank_ok B bk" and "s \<noteq> 0" and run: "TCashLoan_collateralTopUp bk s i v = Inr bk'"
  shows "bank_ok B bk'"
proof -
  let ?old = "l_loans (bk_loan bk) i"
  obtain l n where l: "setPrices bk ?old = Inr l" and s: "lh_account ?old = s" and bk': "bk' = with_loan bk
      (set_loan ((bk_loan bk)\<lparr>l_balance := l_balance (bk_loan bk) + v\<rparr>) i (l\<lparr>lh_amounts := (lh_amounts l)[0 := lh_amounts l ! 0 + v], lh_status := n\<rparr>))"
    using topUp_facts [OF run] by blast
  from s assms(2) have i: "i < l_nextLoanID (bk_loan bk)" and old: "loan_ok ?old"
    using ok_entry [OF ok] by auto
  obtain p q where lp: "l = ?old\<lparr>lh_prices := [p, q]\<rparr>" using setPrices_Inr [OF l] old by (auto simp: loan_ok_def)
  have "loan_ok (l\<lparr>lh_amounts := (lh_amounts l)[0 := lh_amounts l ! 0 + v], lh_status := n\<rparr>)"
    using old by (simp add: loan_ok_def lp)
  then show ?thesis
    by (rule loan_move_ok [OF ok i]) (use old in \<open>simp_all add: bk' lp loan_ok_def\<close>)
qed

lemma status_ok [simp]:
  "loan_ok (l\<lparr>lh_status := n\<rparr>) = loan_ok l" "no_entry (l\<lparr>lh_status := n\<rparr>) = no_entry l"
  by (simp_all add: loan_ok_def no_entry_def)

lemma setStatus_ok:
  assumes ok: "bank_ok B bk" and run: "TCashLoan_setLoanStatus A bk s i n = Inr bk'"
  shows "bank_ok B bk'"
proof -
  let ?l = "(l_loans (bk_loan bk) i)\<lparr>lh_status := n\<rparr>"
  have bk': "bk' = with_loan bk (set_loan (bk_loan bk) i ?l)"
    using run by (auto simp: TCashLoan_setLoanStatus_def ebind_Inr_iff Let_def)
  have "on_record (set_loan (bk_loan bk) i ?l) k = on_record (bk_loan bk) k" for k
    unfolding on_record_def by (rule sum.cong) auto
  then show ?thesis
    using ok by (simp add: bank_ok_def bk' Let_def split: if_splits)
qed

text \<open>Interest and liquidation.\<close>

lemma sold_append [simp]: "sold (xs @ ys) = sold xs + sold ys" "settled (xs @ ys) = settled xs + settled ys"
  by (simp_all add: sold_def settled_def collected_def)

lemma sold_open [simp]: "au_state a \<noteq> 2 \<Longrightarrow> sold [a] = 0" "au_state a \<noteq> 2 \<Longrightarrow> settled [a] = 0"
  by (simp_all add: sold_def settled_def collected_def)

definition same_sums :: "('ac, 'tk) bank \<Rightarrow> ('ac, 'tk) bank \<Rightarrow> bool" where
  "same_sums bk bk' \<longleftrightarrow> bk_loan bk' = bk_loan bk \<and>
     sold (ta_auctionList (mk_auction (bk_market bk'))) = sold (ta_auctionList (mk_auction (bk_market bk))) \<and>
     settled (ta_auctionList (mk_auction (bk_market bk'))) = settled (ta_auctionList (mk_auction (bk_market bk)))"

lemma callAuctionStart_Inr: "callAuctionStart bk c d n = Inr bk' \<Longrightarrow> same_sums bk bk'"
  by (auto simp: callAuctionStart_def TCashAuction_auctionStart_def ebind_Inr_iff Let_def same_sums_def simp del: power_numeral)

lemma interest_end:
  assumes "(if b then ebind (item xs 0) (\<lambda>c. case callAuctionStart bk c d n of Inl e \<Rightarrow> Inr bk | Inr bk' \<Rightarrow> Inr bk')
      else Inr bk) = Inr bk'"
  shows "same_sums bk bk'"
  using assms by (auto simp: ebind_Inr_iff same_sums_def dest: callAuctionStart_Inr split: if_splits sum.splits)

lemma interest_frame:
  "l_loans (st\<lparr>l_limits := a, l_personal := b, l_OLB := c, l_TLD := d\<rparr>) = l_loans st"
  by simp

lemma interest_facts:
  assumes "TCashLoan_calculateInterest bk i = Inr bk'"
  shows "\<exists>l r bk1 z. setPrices bk (l_loans (bk_loan bk) i) = Inr l \<and> 1 < length (lh_amounts l) \<and>
    configOf bk ''TCASHDIR'' = Inr r \<and> same_sums bk1 bk' \<and> l_loans (bk_loan bk1) = (l_loans (bk_loan bk))(i := z) \<and>
    lh_amounts z = (lh_amounts l)[1 := lh_amounts l ! 1 + lh_amounts l ! 1 * r div 10000] \<and>
    lh_interest z = lh_interest l + lh_amounts l ! 1 * r div 10000 \<and> lh_account z = lh_account l \<and> lh_prices z = lh_prices l \<and>
    l_nextLoanID (bk_loan bk1) = l_nextLoanID (bk_loan bk) \<and>
    l_OLB (bk_loan bk1) = l_OLB (bk_loan bk) + lh_amounts l ! 1 * r div 10000 \<and> l_RA (bk_loan bk1) = l_RA (bk_loan bk) \<and>
    l_TLD (bk_loan bk1) = l_TLD (bk_loan bk) + lh_amounts l ! 1 * r div 10000 \<and>
    l_balance (bk_loan bk1) = l_balance (bk_loan bk) \<and> mk_auction (bk_market bk1) = mk_auction (bk_market bk)"
  using assms unfolding TCashLoan_calculateInterest_def Let_def ebind_Inr_iff require_Inr_iff item_Inr_iff put_Inr_iff
    checked_Inr_iff sum.inject
  apply (elim exE conjE)
  apply hypsubst
  apply (drule interest_end)
  apply (intro exI conjI, assumption, assumption, assumption, assumption)
  apply (unfold with_loan_fields interest_frame set_loan_fields)
  apply (rule refl)
  apply (simp_all (no_asm))
  done

lemma same_sums_ok: "same_sums bk bk' \<Longrightarrow> bank_ok B bk \<Longrightarrow> bank_ok B bk'"
  by (simp add: same_sums_def bank_ok_def Let_def)

lemma interest_ok:
  assumes ok: "bank_ok B bk" and run: "TCashLoan_interestCalculation A bk s i = Inr bk'"
  shows "bank_ok B bk'"
proof -
  let ?old = "l_loans (bk_loan bk) i"
  have "TCashLoan_calculateInterest bk i = Inr bk'"
    using run by (auto simp: TCashLoan_interestCalculation_def ebind_Inr_iff)
  then obtain l r bk1 z where l: "setPrices bk ?old = Inr l" and same: "same_sums bk1 bk'"
    and z: "lh_amounts z = (lh_amounts l)[1 := lh_amounts l ! 1 + lh_amounts l ! 1 * r div 10000]"
      "lh_interest z = lh_interest l + lh_amounts l ! 1 * r div 10000" "lh_account z = lh_account l" "lh_prices z = lh_prices l"
    and st: "l_loans (bk_loan bk1) = (l_loans (bk_loan bk))(i := z)" "l_nextLoanID (bk_loan bk1) = l_nextLoanID (bk_loan bk)"
      "l_OLB (bk_loan bk1) = l_OLB (bk_loan bk) + lh_amounts l ! 1 * r div 10000" "l_RA (bk_loan bk1) = l_RA (bk_loan bk)"
      "l_TLD (bk_loan bk1) = l_TLD (bk_loan bk) + lh_amounts l ! 1 * r div 10000"
      "l_balance (bk_loan bk1) = l_balance (bk_loan bk)" "mk_auction (bk_market bk1) = mk_auction (bk_market bk)"
    using interest_facts by blast
  obtain p q where lp: "l = ?old\<lparr>lh_prices := [p, q] @ drop 2 (lh_prices ?old)\<rparr>" and long: "2 \<le> length (lh_prices ?old)"
    using setPrices_Inr [OF l] by blast
  from long have "lh_prices ?old \<noteq> []" by auto
  then have i: "i < l_nextLoanID (bk_loan bk)" and old: "loan_ok ?old" using ok_entry [OF ok] by auto
  have "loan_ok z" using old by (simp add: loan_ok_def z lp)
  then have "bank_ok B bk1"
    by (rule loan_move_ok [OF ok i _ st(1,2)]) (use old in \<open>simp_all add: st z lp loan_ok_def\<close>)
  with same show ?thesis by (rule same_sums_ok)
qed

lemma startLiquidation_Inr:
  assumes "TCashLoan_startLiquidation A bk s i = Inr bk'"
  shows "\<exists>l bk1. setPrices bk (l_loans (bk_loan bk) i) = Inr l \<and> bk1 = with_loan bk (set_loan (bk_loan bk) i l) \<and>
    managerOnly A bk s = Inr () \<and> lh_status (l_loans (bk_loan bk) i) \<noteq> 1 \<and>
    (if l_auction (bk_loan bk) = 0 then bk' = bk1
     else 1 < length (lh_amounts l) \<and> callAuctionStart bk1 (lh_amounts l ! 0) (lh_amounts l ! 1) (lh_interest l) = Inr bk')"
  using assms
  by (auto simp: TCashLoan_startLiquidation_def ebind_Inr_iff Let_def split: if_splits)

lemma startLiquidation_ok:
  assumes ok: "bank_ok B bk" and run: "TCashLoan_startLiquidation A bk s i = Inr bk'"
  shows "bank_ok B bk'"
proof -
  let ?old = "l_loans (bk_loan bk) i"
  obtain l bk1 where l: "setPrices bk ?old = Inr l" and bk1: "bk1 = with_loan bk (set_loan (bk_loan bk) i l)"
    and bk': "same_sums bk1 bk'"
    using startLiquidation_Inr [OF run] by (auto dest: callAuctionStart_Inr simp: same_sums_def split: if_splits)
  obtain p q where lp: "l = ?old\<lparr>lh_prices := [p, q] @ drop 2 (lh_prices ?old)\<rparr>" and long: "2 \<le> length (lh_prices ?old)"
    using setPrices_Inr [OF l] by blast
  from long have "lh_prices ?old \<noteq> []" by auto
  then have i: "i < l_nextLoanID (bk_loan bk)" and old: "loan_ok ?old" using ok_entry [OF ok] by auto
  have "loan_ok l" using old by (simp add: loan_ok_def lp)
  then have "bank_ok B bk1" by (rule loan_move_ok [OF ok i]) (simp_all add: bk1 lp)
  with bk' show ?thesis by (rule same_sums_ok)
qed

text \<open>Recording a loan by hand.\<close>

lemma setRecord_ok:
  assumes ok: "bank_ok B bk" and B and run: "TCashLoan_setRecord A bk s a n c = Inr bk'"
  shows "bank_ok B bk'"
proof -
  have rec: "TCashLoan_setRecord_internal bk a n c = Inr bk'" and a: "a \<noteq> 0"
    using run by (auto simp: TCashLoan_setRecord_def ebind_Inr_iff)
  obtain l debt where l: "l_loans (bk_loan bk') = (l_loans (bk_loan bk))(l_nextLoanID (bk_loan bk) := l)"
    "lh_amounts l = [c, debt]" "length (lh_prices l) = 2" "lh_account l = a" "debt = n + lh_interest l"
    and st: "l_nextLoanID (bk_loan bk') = Suc (l_nextLoanID (bk_loan bk))" "l_OLB (bk_loan bk') = l_OLB (bk_loan bk) + debt"
    "l_TLD (bk_loan bk') = l_TLD (bk_loan bk) + debt" "l_RA (bk_loan bk') = l_RA (bk_loan bk)"
    "l_balance (bk_loan bk') = l_balance (bk_loan bk)" "mk_auction (bk_market bk') = mk_auction (bk_market bk)"
    using setRecord_Inr [OF rec] by blast
  have "on_record (bk_loan bk') k = on_record (bk_loan bk) k + [c, debt] ! k" for k
    by (simp add: on_record_def st l)
  moreover have "loan_ok l" using a by (simp add: loan_ok_def l)
  ultimately show ?thesis
    using ok \<open>B\<close> by (auto simp: bank_ok_def l st Let_def split: if_splits)
qed

subsection \<open>The auctions\<close>

definition au_key :: "auction \<Rightarrow> nat \<times> nat \<times> nat" where
  "au_key a = (au_state a, au_sales a, au_startValue a)"

lemma sold_keys:
  "sold xs = (\<Sum>k\<leftarrow>map au_key xs. if fst k = 2 then fst (snd k) else 0)"
  "settled xs = (\<Sum>k\<leftarrow>map au_key xs. if fst k = 2 then snd (snd k) else 0)"
  by (induction xs) (simp_all add: sold_def settled_def collected_def au_key_def)

lemma same_keys:
  "map au_key ys = map au_key xs \<Longrightarrow> sold ys = sold xs" "map au_key ys = map au_key xs \<Longrightarrow> settled ys = settled xs"
  by (simp_all only: sold_keys)

lemma sold_update:
  assumes "n < length xs" and "au_state (xs ! n) \<noteq> 2"
  shows "sold (xs[n := (xs ! n)\<lparr>au_state := 2\<rparr>]) = sold xs + au_sales (xs ! n)"
    and "settled (xs[n := (xs ! n)\<lparr>au_state := 2\<rparr>]) = settled xs + au_startValue (xs ! n)"
  using assms unfolding sold_keys by (simp_all add: map_update sum_list_update au_key_def)

lemma upgrade_keys:
  assumes "efold (\<lambda>xs a. if au_timeOver (xs ! a) < now \<and> b a = 0
         then ebind (checked 256 t) (\<lambda>t. Inr (xs[a := (xs ! a)\<lparr>au_timeOver := t\<rparr>])) else Inr xs) xs is = Inr ys"
  shows "map au_key ys = map au_key xs"
  using assms
proof (rule efold_inv)
  fix s x s'
  assume IH: "map au_key s = map au_key xs" and run: "(if au_timeOver (s ! x) < now \<and> b x = 0
       then ebind (checked 256 t) (\<lambda>t. Inr (s[x := (s ! x)\<lparr>au_timeOver := t\<rparr>])) else Inr s) = Inr s'"
  have "map au_key (s[x := (s ! x)\<lparr>au_timeOver := t\<rparr>]) = map au_key s"
    by (rule map_list_update_same) (simp add: au_key_def)
  with run IH show "map au_key s' = map au_key xs" by (auto simp: ebind_Inr_iff split: if_splits)
qed simp

text \<open>Collecting an auction pays its collateral out and settles its debt in the totals, not in the loan.\<close>

lemma auctionOver_Inr:
  assumes "TCashLoan_auctionOver P st s b t x y = Inr st'"
  shows "t \<le> l_balance st \<and> x + y \<le> l_OLB st \<and>
    st' = st\<lparr>l_balance := l_balance st - t, l_OLB := l_OLB st - (x + y), l_RA := l_RA st + (x + y)\<rparr>"
  using assms unfolding TCashLoan_auctionOver_def Let_def ebind_Inr_iff require_Inr_iff checked_Inr_iff checked_sub_Inr_iff
    sum.inject
  apply (elim exE conjE)
  apply hypsubst
  apply (intro conjI, assumption)
  apply simp_all
  done

lemma getAuction_Inr:
  assumes "TCashAuction_getAuction T A P mk s n = Inr mk'"
  shows "\<exists>a. n < length (ta_auctionList (mk_auction mk)) \<and> a = ta_auctionList (mk_auction mk) ! n \<and> au_state a \<noteq> 2 \<and>
    au_sales a \<le> l_balance (mk_loan mk) \<and> au_startValue a \<le> l_OLB (mk_loan mk) \<and>
    mk_loan mk' = (mk_loan mk)\<lparr>l_balance := l_balance (mk_loan mk) - au_sales a, l_OLB := l_OLB (mk_loan mk) - au_startValue a,
      l_RA := l_RA (mk_loan mk) + au_startValue a\<rparr> \<and>
    ta_auctionList (mk_auction mk') = (ta_auctionList (mk_auction mk))[n := a\<lparr>au_state := 2\<rparr>]"
  using assms
  by (auto simp: TCashAuction_getAuction_def Let_def ebind_Inr_iff checked_sub_Inr_iff listedAuction_def at_addr_def dest!: auctionOver_Inr
      split: if_splits)

lemma market_sums:
  assumes "market_call T A P mk s c = Inr mk'" and "\<And>n. c \<noteq> GetAuction n"
  shows "mk_loan mk' = mk_loan mk"
    and "sold (ta_auctionList (mk_auction mk')) = sold (ta_auctionList (mk_auction mk)) \<and>
      settled (ta_auctionList (mk_auction mk')) = settled (ta_auctionList (mk_auction mk))"
proof -
  have "mk_loan mk' = mk_loan mk \<and>
     (sold (ta_auctionList (mk_auction mk')) = sold (ta_auctionList (mk_auction mk)) \<and>
      settled (ta_auctionList (mk_auction mk')) = settled (ta_auctionList (mk_auction mk)))"
  proof (cases c)
    case (AuctionStart m d i)
    then show ?thesis using assms(1) by (auto simp: TCashAuction_auctionStart_def Let_def ebind_Inr_iff)
  next
    case (Bid n v)
    have "map au_key (ta_auctionList (after_bid (mk_auction mk) (mk_time mk) s n v)) = map au_key (ta_auctionList (mk_auction mk))"
      unfolding after_bid_fields by (rule map_list_update_same) (simp add: au_key_def)
    then show ?thesis using assms(1) Bid by (auto simp: bid_Inr_iff intro: same_keys)
  next
    case UpgradeState
    then show ?thesis using assms(1)
      by (auto simp: TCashAuction_upgradeState_def Let_def ebind_Inr_iff intro: same_keys dest!: upgrade_keys)
  qed (use assms in \<open>auto simp: withdrawal_Inr_iff TCashAuction_updateBidDuration_def with_tcash_def ebind_Inr_iff\<close>)
  then show "mk_loan mk' = mk_loan mk"
    and "sold (ta_auctionList (mk_auction mk')) = sold (ta_auctionList (mk_auction mk)) \<and>
      settled (ta_auctionList (mk_auction mk')) = settled (ta_auctionList (mk_auction mk))"
    by simp_all
qed

lemma market_bank_ok:
  assumes ok: "bank_ok B bk" and run: "market_call T A P (bk_market bk) s c = Inr mk'"
  shows "bank_ok B (bk\<lparr>bk_market := mk'\<rparr>)"
proof (cases "\<exists>n. c = GetAuction n")
  case True
  then obtain n where "TCashAuction_getAuction T A P (bk_market bk) s n = Inr mk'" using run by auto
  from getAuction_Inr [OF this] obtain a where a: "n < length (ta_auctionList (mk_auction (bk_market bk)))"
    "a = ta_auctionList (mk_auction (bk_market bk)) ! n" "au_state a \<noteq> 2" "au_sales a \<le> l_balance (bk_loan bk)"
    "au_startValue a \<le> l_OLB (bk_loan bk)"
    and st: "mk_loan mk' = (bk_loan bk)\<lparr>l_balance := l_balance (bk_loan bk) - au_sales a,
        l_OLB := l_OLB (bk_loan bk) - au_startValue a, l_RA := l_RA (bk_loan bk) + au_startValue a\<rparr>"
      "ta_auctionList (mk_auction mk') = (ta_auctionList (mk_auction (bk_market bk)))[n := a\<lparr>au_state := 2\<rparr>]"
    by blast
  have "on_record (mk_loan mk') k = on_record (bk_loan bk) k" for k by (simp add: on_record_def st)
  moreover have "sold (ta_auctionList (mk_auction mk')) = sold (ta_auctionList (mk_auction (bk_market bk))) + au_sales a"
    and "settled (ta_auctionList (mk_auction mk')) = settled (ta_auctionList (mk_auction (bk_market bk))) + au_startValue a"
    using sold_update [OF a(1)] a(2,3) by (simp_all add: st(2))
  ultimately show ?thesis
    using ok a(4,5) by (cases B) (simp_all add: bank_ok_def Let_def st(1))
next
  case False
  then show ?thesis
    using market_sums [OF run] by (intro same_sums_ok [OF _ ok]) (simp add: same_sums_def)
qed

lemma bank_step_ok:
  assumes "bank_step B T A P bk bk'" and ok: "bank_ok B bk"
  shows "bank_ok B bk'"
  using assms(1)
proof cases
  case (bank_call s c)
  then show ?thesis
  proof (cases c)
    case (EvaluateMaxBorrowable a)
    with bank_call obtain n where "TCashLoan_evaluateMaxBorrowable bk a = Inr (bk', n)" by (auto simp: ebind_Inr_iff)
    from evaluate_Inr [OF this] ok show ?thesis by (blast intro: same_books_ok)
  next
    case (NameAuction a)
    with bank_call have "same_books bk bk'"
      by (auto simp: TCashLoan_setAuctionContract_def ebind_Inr_iff same_books_def)
    then show ?thesis using ok by (rule same_books_ok)
  next
    case (AuctionOver w m a b)
    with bank_call have False by (auto simp: TCashLoan_auctionOver_def ebind_Inr_iff knows_market_def)
    then show ?thesis ..
  next
    case (InMarket c)
    with bank_call obtain mk where "market_call T A P (bk_market bk) s c = Inr mk" "bk' = bk\<lparr>bk_market := mk\<rparr>"
      by (auto simp: ebind_Inr_iff)
    then show ?thesis using market_bank_ok [OF ok] by simp
  qed (use ok in \<open>auto intro: createLoan_ok repay_ok topUp_ok interest_ok startLiquidation_ok setStatus_ok setRecord_ok\<close>)
next
  case elsewhere
  then show ?thesis using ok by (rule same_books_ok)
qed

lemma reachable_bank_ok: "bank_reachable B T A P bk \<Longrightarrow> bank_ok B bk"
  unfolding bank_reachable_def
proof (elim exE conjE)
  fix bk0
  assume bk0: "founded bk0" and steps: "(bank_step B T A P)\<^sup>*\<^sup>* bk0 bk"
  from steps show "bank_ok B bk"
    by (induction rule: rtranclp_induct) (use bk0 in \<open>auto intro: founded_ok bank_step_ok\<close>)
qed

end
