(* ===== verification/BankProps.thy ===== *)
theory BankProps
  imports BankSafety
begin

text \<open>
  What the books of the loans mean: the sums in every reachable state, paying back in parts, repeated liquidation, the
  smallest loan and the credit that anybody can give himself, and one bank with one loan on which they are witnessed.
\<close>

section \<open>What follows\<close>

text \<open>C17: In every state that calls by anybody lead to while the loan contract knows no auction contract but that of the
  market, the debts on record add up to what the contract counts as outstanding plus what the collected auctions
  started at: collecting an auction does not clear its loan. The collaterals on record are at least the coins that
  came in with calls and are still there plus what those auctions paid out, and exactly that if no manager has recorded
  a loan by hand (\<open>B\<close> allows that), for which no coins come in.\<close>

theorem loan_books:
  assumes "bank_reachable B T A P bk"
  shows "(\<Sum>i<l_nextLoanID (bk_loan bk). lh_amounts (l_loans (bk_loan bk) i) ! 1) = l_OLB (bk_loan bk) +
      (\<Sum>a\<leftarrow>collected (ta_auctionList (mk_auction (bk_market bk))). au_startValue a) \<and>
    l_TLD (bk_loan bk) = l_OLB (bk_loan bk) + l_RA (bk_loan bk) \<and>
    l_balance (bk_loan bk) + (\<Sum>a\<leftarrow>collected (ta_auctionList (mk_auction (bk_market bk))). au_sales a)
      \<le> (\<Sum>i<l_nextLoanID (bk_loan bk). lh_amounts (l_loans (bk_loan bk) i) ! 0) \<and>
    (\<not> B \<longrightarrow> (\<Sum>i<l_nextLoanID (bk_loan bk). lh_amounts (l_loans (bk_loan bk) i) ! 0) =
      l_balance (bk_loan bk) + (\<Sum>a\<leftarrow>collected (ta_auctionList (mk_auction (bk_market bk))). au_sales a))"
  using reachable_bank_ok [OF assms] by (simp add: bank_ok_def on_record_def sold_def settled_def Let_def)

text \<open>Payments in parts.\<close>

definition paid_off :: "loan_history \<Rightarrow> ('ac, 'tk) bank \<Rightarrow> ('ac, 'tk) bank \<Rightarrow> nat \<Rightarrow> nat \<Rightarrow> bool" where
  "paid_off old bk0 bk i n \<longleftrightarrow> (\<exists>l c. l_loans (bk_loan bk) = (l_loans (bk_loan bk0))(i := l) \<and> loan_ok l \<and>
     lh_amounts l = [c, lh_amounts old ! 1 - n] \<and> c \<le> lh_amounts old ! 0 \<and> n \<le> lh_amounts old ! 1 \<and>
     l_balance (bk_loan bk) + lh_amounts old ! 0 = l_balance (bk_loan bk0) + c \<and>
     l_OLB (bk_loan bk) + n = l_OLB (bk_loan bk0) \<and> l_RA (bk_loan bk) = l_RA (bk_loan bk0) + n \<and>
     (0 < n \<and> n = lh_amounts old ! 1 \<longrightarrow> c = 0 \<and> lh_status l = 1))"

lemma paid_off_step:
  assumes P: "paid_off old bk0 bk i n" and run: "TCashLoan_repay T A P bk s i v = Inr bk'"
  shows "paid_off old bk0 bk' i (n + v)"
proof -
  obtain l c where l: "l_loans (bk_loan bk) = (l_loans (bk_loan bk0))(i := l)" "loan_ok l" "lh_amounts l = [c, lh_amounts old ! 1 - n]"
      "c \<le> lh_amounts old ! 0" "n \<le> lh_amounts old ! 1"
    and st: "l_balance (bk_loan bk) + lh_amounts old ! 0 = l_balance (bk_loan bk0) + c"
      "l_OLB (bk_loan bk) + n = l_OLB (bk_loan bk0)" "l_RA (bk_loan bk) = l_RA (bk_loan bk0) + n"
    using P unfolding paid_off_def by blast
  have li: "l_loans (bk_loan bk) i = l" using l(1) by simp
  obtain l' where l': "v \<le> lh_amounts l ! 1" "0 < v" "released l v \<le> lh_amounts l ! 0" "released l v \<le> l_balance (bk_loan bk)"
      "v \<le> l_OLB (bk_loan bk)" "loan_ok l'" "lh_amounts l' = [lh_amounts l ! 0 - released l v, lh_amounts l ! 1 - v]"
      "lh_status l' = (if v = lh_amounts l ! 1 then 1 else lh_status l)"
      "l_loans (bk_loan bk') = (l_loans (bk_loan bk))(i := l')" "l_OLB (bk_loan bk') = l_OLB (bk_loan bk) - v"
      "l_RA (bk_loan bk') = l_RA (bk_loan bk) + v" "l_balance (bk_loan bk') = l_balance (bk_loan bk) - released l v"
    using repay_Inr [OF run] l(2) unfolding li Let_def by blast
  have whole: "released l v = c" if "v = lh_amounts l ! 1"
    using that l'(2) by (simp add: released_def l(3))
  have n: "n + v \<le> lh_amounts old ! 1" "v = lh_amounts l ! 1 \<longleftrightarrow> n + v = lh_amounts old ! 1"
    using l'(1) l(5) by (auto simp: l(3))
  have "n + v = lh_amounts old ! 1 \<longrightarrow> c - released l v = 0 \<and> lh_status l' = 1"
    using n(2) whole l'(8) by simp
  then show ?thesis
    unfolding paid_off_def
    by (intro exI [of _ l'] exI [of _ "c - released l v"]) (use l l' st n(1) in \<open>auto simp: l(3)\<close>)
qed

text \<open>C20: Payments of the owner that add up to the debt of his loan, however it is cut into parts, return exactly its
  collateral, whatever was rounded down on the way, and leave the loan cleared and the totals moved by the debt.\<close>

theorem repay_in_parts:
  assumes "efold (\<lambda>bk v. TCashLoan_repay T A P bk s i v) bk vs = Inr bk'"
    and "loan_ok (l_loans (bk_loan bk) i)" and "vs \<noteq> []" and "sum_list vs = lh_amounts (l_loans (bk_loan bk) i) ! 1"
  shows "lh_amounts (l_loans (bk_loan bk') i) = [0, 0] \<and> lh_status (l_loans (bk_loan bk') i) = 1 \<and>
    l_balance (bk_loan bk') + lh_amounts (l_loans (bk_loan bk) i) ! 0 = l_balance (bk_loan bk) \<and>
    l_OLB (bk_loan bk') + sum_list vs = l_OLB (bk_loan bk) \<and> l_RA (bk_loan bk') = l_RA (bk_loan bk) + sum_list vs"
proof -
  let ?old = "l_loans (bk_loan bk) i"
  have steps: "efold (\<lambda>bk v. TCashLoan_repay T A P bk s i v) b ws = Inr b' \<Longrightarrow> paid_off ?old bk b i n \<Longrightarrow>
      paid_off ?old bk b' i (n + sum_list ws)" for b b' ws n
  proof (induction ws arbitrary: b n)
    case (Cons w ws)
    from Cons.prems(1) obtain b1 where b1: "TCashLoan_repay T A P b s i w = Inr b1"
      "efold (\<lambda>bk v. TCashLoan_repay T A P bk s i v) b1 ws = Inr b'" by (auto simp: ebind_Inr_iff)
    show ?case using Cons.IH [OF b1(2) paid_off_step [OF Cons.prems(2) b1(1)]] by (simp add: add.assoc)
  qed simp
  obtain v ws where vs: "vs = v # ws" using assms(3) by (cases vs) auto
  then obtain b1 where "TCashLoan_repay T A P bk s i v = Inr b1" using assms(1) by (auto simp: ebind_Inr_iff)
  then have "0 < v" using repay_facts by blast
  have "\<exists>c d. lh_amounts ?old = [c, d]"
    using assms(2) by (auto simp: loan_ok_def numeral_2_eq_2 length_Suc_conv)
  then have "paid_off ?old bk bk i 0"
    unfolding paid_off_def using assms(2) by (auto intro!: exI [of _ ?old] simp: fun_upd_idem)
  from steps [OF assms(1) this] show ?thesis
    using assms(4) \<open>0 < v\<close> vs by (auto simp: paid_off_def)
qed

lemma credit_cong:
  assumes "l_tat st' = l_tat st" and "l_userLoans st' a = l_userLoans st a"
    and "bl_totalBorrowed (l_limits st' a) = bl_totalBorrowed (l_limits st a)"
  shows "TCashLoan_getPersonalCreditAndAvailable R st' a = TCashLoan_getPersonalCreditAndAvailable R st a"
  unfolding TCashLoan_getPersonalCreditAndAvailable_def assms ..

text \<open>A liquidation that goes through, and what it leaves.\<close>

definition liquidated :: "nat \<Rightarrow> nat \<Rightarrow> nat \<Rightarrow> ('ac, 'tk) bank \<Rightarrow> ('ac, 'tk) bank" where
  "liquidated u t i bk = (let mk = bk_market bk; st = mk_auction mk; l = l_loans (bk_loan bk) i in
     bk\<lparr>bk_market := mk\<lparr>mk_loan := set_loan (bk_loan bk) i (l\<lparr>lh_prices := [u, t]\<rparr>),
       mk_auction := st\<lparr>ta_auctionList := ta_auctionList st @ [\<lparr>au_sales = lh_amounts l ! 0, au_startValue = lh_amounts l ! 1,
         au_nowValue = lh_amounts l ! 1, au_timeOver = mk_time mk + ta_bidDuration st, au_state = 1, au_debt = lh_interest l\<rparr>]\<rparr>\<rparr>\<rparr>)"

lemma crf_keeps:
  assumes "bk_tat bk' = bk_tat bk" and "bk_tatAt bk' = bk_tatAt bk" and "bk_loan bk' = set_loan (bk_loan bk) i l"
  shows "crfOf bk' a = crfOf bk a"
proof -
  have "TCashLoan_getPersonalCreditAndAvailable R (bk_loan bk') a = TCashLoan_getPersonalCreditAndAvailable R (bk_loan bk) a" for R
    by (rule credit_cong) (simp_all add: assms(3) set_loan_def)
  moreover have "l_personal (bk_loan bk') = l_personal (bk_loan bk)"
    "l_systemRiskFactor (bk_loan bk') = l_systemRiskFactor (bk_loan bk)"
    by (simp_all add: assms(3) set_loan_def)
  ultimately show ?thesis
    by (simp only: crfOf_def tatOf_def TCashLoan_getCRF_def TCashLoan_getPRF_def assms(1,2))
qed

lemma startLiquidation_run:
  assumes "managerOnly A bk s = Inr ()" and "lh_status (l_loans (bk_loan bk) i) \<noteq> 1"
    and "length (lh_amounts (l_loans (bk_loan bk) i)) = 2" and "length (lh_prices (l_loans (bk_loan bk) i)) = 2"
    and "priceOf bk ''UNIT'' = Inr u" and "priceOf bk ''TCASH'' = Inr t"
    and "crfOf bk (lh_account (l_loans (bk_loan bk) i)) = Inr c"
    and "l_auction (bk_loan bk) \<noteq> 0" and "l_auction (bk_loan bk) = mk_auctionAt (bk_market bk)"
    and "ta_loan (mk_auction (bk_market bk)) = mk_loanAt (bk_market bk)"
    and "mk_time (bk_market bk) + ta_bidDuration (mk_auction (bk_market bk)) < 2 ^ 256"
  shows "TCashLoan_startLiquidation A bk s i = Inr (liquidated u t i bk)"
proof -
  let ?l = "l_loans (bk_loan bk) i"
  obtain x y where xy: "lh_prices ?l = [x, y]" using assms(4) by (auto simp: numeral_2_eq_2 length_Suc_conv)
  have amounts: "lh_amounts ?l \<noteq> []" "Suc 0 < length (lh_amounts ?l)" using assms(3) by auto
  have prices: "setPrices bk ?l = Inr (?l\<lparr>lh_prices := [u, t]\<rparr>)"
    by (simp add: setPrices_def put_def xy assms(5,6))
  have crf: "crfOf (with_loan bk (set_loan (bk_loan bk) i (?l\<lparr>lh_prices := [u, t]\<rparr>))) (lh_account ?l) = Inr c"
    using assms(7) by (subst crf_keeps) (simp_all add: with_loan_def)
  have time: "checked 256 (mk_time (bk_market bk) + ta_bidDuration (mk_auction (bk_market bk))) =
      Inr (mk_time (bk_market bk) + ta_bidDuration (mk_auction (bk_market bk)))"
    using assms(11) by (simp del: power_numeral)
  show ?thesis
    using assms(1,2,8-10) crf
    by (simp add: TCashLoan_startLiquidation_def Let_def prices item_def amounts require_def with_loan_def callAuctionStart_def
        TCashAuction_auctionStart_def time set_loan_def liquidated_def)
qed

lemma liquidated_fields:
  "l_loans (bk_loan (liquidated u t i bk)) i = (l_loans (bk_loan bk) i)\<lparr>lh_prices := [u, t]\<rparr>"
  "managerOnly A (liquidated u t i bk) s = managerOnly A bk s" "priceOf (liquidated u t i bk) symbol = priceOf bk symbol"
  "l_auction (bk_loan (liquidated u t i bk)) = l_auction (bk_loan bk)"
  "mk_auctionAt (bk_market (liquidated u t i bk)) = mk_auctionAt (bk_market bk)"
  "mk_loanAt (bk_market (liquidated u t i bk)) = mk_loanAt (bk_market bk)"
  "mk_time (bk_market (liquidated u t i bk)) = mk_time (bk_market bk)"
  "ta_loan (mk_auction (bk_market (liquidated u t i bk))) = ta_loan (mk_auction (bk_market bk))"
  "ta_bidDuration (mk_auction (bk_market (liquidated u t i bk))) = ta_bidDuration (mk_auction (bk_market bk))"
  by (simp_all add: liquidated_def Let_def managerOnly_def priceOf_def oracleOf_def set_loan_def)

lemma liquidated_crf: "crfOf (liquidated u t i bk) a = crfOf bk a"
  by (rule crf_keeps) (simp_all add: liquidated_def Let_def)

text \<open>C19: Where the loan and the auction contract know each other and the risk factor of the borrower can be computed, a
  manager can start the liquidation of any loan that is not cleared at whatever prices the oracle gives, and nothing in the loan but the recorded prices changes: a second call right after the first also succeeds and puts the
  same collateral up again. The prices are read and recorded, but compared with nothing, and neither is the interest.\<close>

theorem liquidation_repeats:
  assumes "managerOnly A bk s = Inr ()" and "lh_status (l_loans (bk_loan bk) i) \<noteq> 1"
    and "length (lh_amounts (l_loans (bk_loan bk) i)) = 2" and "length (lh_prices (l_loans (bk_loan bk) i)) = 2"
    and "priceOf bk ''UNIT'' = Inr u" and "priceOf bk ''TCASH'' = Inr t"
    and "crfOf bk (lh_account (l_loans (bk_loan bk) i)) = Inr c"
    and "l_auction (bk_loan bk) \<noteq> 0" and "l_auction (bk_loan bk) = mk_auctionAt (bk_market bk)"
    and "ta_loan (mk_auction (bk_market bk)) = mk_loanAt (bk_market bk)"
    and "mk_time (bk_market bk) + ta_bidDuration (mk_auction (bk_market bk)) < 2 ^ 256"
  shows "\<exists>bk1 bk2 a. TCashLoan_startLiquidation A bk s i = Inr bk1 \<and> TCashLoan_startLiquidation A bk1 s i = Inr bk2 \<and>
    ta_auctionList (mk_auction (bk_market bk2)) = ta_auctionList (mk_auction (bk_market bk)) @ [a, a] \<and>
    au_sales a = lh_amounts (l_loans (bk_loan bk) i) ! 0 \<and> au_startValue a = lh_amounts (l_loans (bk_loan bk) i) ! 1 \<and>
    au_debt a = lh_interest (l_loans (bk_loan bk) i) \<and>
    l_loans (bk_loan bk2) i = (l_loans (bk_loan bk) i)\<lparr>lh_prices := [u, t]\<rparr>"
proof -
  let ?bk1 = "liquidated u t i bk" and ?mk = "bk_market bk" and ?l = "l_loans (bk_loan bk) i"
  let ?a = "\<lparr>au_sales = lh_amounts ?l ! 0, au_startValue = lh_amounts ?l ! 1, au_nowValue = lh_amounts ?l ! 1,
      au_timeOver = mk_time ?mk + ta_bidDuration (mk_auction ?mk), au_state = 1, au_debt = lh_interest ?l\<rparr>"
  have "TCashLoan_startLiquidation A bk s i = Inr ?bk1" by (rule startLiquidation_run [OF assms])
  moreover have "TCashLoan_startLiquidation A ?bk1 s i = Inr (liquidated u t i ?bk1)"
    by (rule startLiquidation_run) (use assms in \<open>simp_all add: liquidated_fields liquidated_crf\<close>)
  moreover have "ta_auctionList (mk_auction (bk_market (liquidated u t i ?bk1))) = ta_auctionList (mk_auction ?mk) @ [?a, ?a]"
    by (simp add: liquidated_def Let_def set_loan_def)
  ultimately show ?thesis
    by (intro exI [of _ ?bk1] exI [of _ "liquidated u t i ?bk1"] exI [of _ ?a]) (simp add: liquidated_fields)
qed

text \<open>The smallest loan.\<close>

lemma calculateLoanAmount_bounds:
  assumes "TCashLoan_calculateLoanAmount bk a v = Inr n" and "creditOf bk a = Inr (PCL, ALB)"
  shows "10 ^ 9 \<le> n \<and> (n = 10 ^ 9 \<or> n \<le> ALB)"
  using assms(1) unfolding TCashLoan_calculateLoanAmount_def Let_def assms(2)
  by (auto simp: ebind_Inr_iff simp del: power_numeral split: if_splits)

lemma createLoan_parts:
  fixes bk bk' :: "('ac, 'tk) bank"
  assumes "TCashLoan_createLoan T A bk s v = Inr bk'" and "creditOf bk s = Inr (PCL, ALB)"
  shows "\<exists>(bk2 :: ('ac, 'tk) bank) n bk3 t. 0 < ALB \<and> 10 ^ 9 \<le> n \<and> (n = 10 ^ 9 \<or> n \<le> ALB) \<and>
    mk_tcash (bk_market bk2) = mk_tcash (bk_market bk) \<and> l_nextLoanID (bk_loan bk2) = l_nextLoanID (bk_loan bk) \<and>
    TCashLoan_setRecord_internal bk2 s n v = Inr bk3 \<and> bk_loan bk' = bk_loan bk3 \<and>
    erc_mint T (tc_token (mk_tcash (bk_market bk3))) s n = Inr t \<and> tc_token (mk_tcash (bk_market bk')) = t"
proof -
  let ?bk1 = "with_loan bk ((bk_loan bk)\<lparr>l_balance := l_balance (bk_loan bk) + v\<rparr>)"
  obtain bk2 r n bk3 tc tc' where eval: "TCashLoan_evaluateMaxBorrowable ?bk1 s = Inr (bk2, r)" and r: "0 < r"
    and n: "TCashLoan_calculateLoanAmount bk2 s v = Inr n" and rec: "TCashLoan_setRecord_internal bk2 s n v = Inr bk3"
    and mint: "tc = mk_tcash (bk_market bk3)"
      "TCash_mint T A (at_roles (bk_market bk3)) (at_oracle (bk_market bk3)) tc (mk_loanAt (bk_market bk3)) s n = Inr tc'"
    and bk': "bk' = bk3\<lparr>bk_market := (bk_market bk3)\<lparr>mk_tcash := tc'\<rparr>\<rparr>"
    using assms(1)
    by (auto simp: TCashLoan_createLoan_def ebind_Inr_iff Let_def at_addr_def simp del: power_numeral split: prod.splits if_splits)
  have "TCashLoan_getPersonalCreditAndAvailable R (bk_loan ?bk1) s = TCashLoan_getPersonalCreditAndAvailable R (bk_loan bk) s" for R
    by (rule credit_cong) simp_all
  then have credit1: "creditOf ?bk1 s = Inr (PCL, ALB)"
    using assms(2) by (simp add: creditOf_def tatOf_def)
  then have "r = ALB" and bk2: "l_tat (bk_loan bk2) = l_tat (bk_loan bk)" "l_userLoans (bk_loan bk2) s = l_userLoans (bk_loan bk) s"
      "bl_totalBorrowed (l_limits (bk_loan bk2) s) = bl_totalBorrowed (l_limits (bk_loan bk) s)"
      "bk_tatAt bk2 = bk_tatAt bk" "bk_tat bk2 = bk_tat bk" "mk_tcash (bk_market bk2) = mk_tcash (bk_market bk)"
      "l_nextLoanID (bk_loan bk2) = l_nextLoanID (bk_loan bk)"
    using eval by (auto simp: TCashLoan_evaluateMaxBorrowable_def Let_def split: if_splits)
  have "creditOf bk2 s = creditOf bk s"
    unfolding creditOf_def tatOf_def bk2(4,5) by (rule credit_cong) (simp_all add: bk2)
  then have "creditOf bk2 s = Inr (PCL, ALB)" using assms(2) by simp
  from calculateLoanAmount_bounds [OF n this] r \<open>r = ALB\<close> mint rec show ?thesis
    by (intro exI [of _ bk2] exI [of _ n] exI [of _ bk3] exI [of _ "tc_token tc'"])
      (auto simp: bk' bk2 TCash_mint_def ebind_Inr_iff simp del: power_numeral)
qed

text \<open>Whoever has any credit left borrows between \<open>10 ^ 9\<close> units and the larger of that and what is left, for whatever
  collateral he sends, one unit included, and is paid that amount in tokens.\<close>

theorem new_loan_bounds:
  fixes bk bk' :: "('ac, 'tk) bank"
  assumes "erc20_token T" and "TCashLoan_createLoan T A bk s v = Inr bk'" and "creditOf bk s = Inr (PCL, ALB)"
  shows "\<exists>n. 0 < ALB \<and> 10 ^ 9 \<le> n \<and> n \<le> max (10 ^ 9) ALB \<and>
    lh_amounts (l_loans (bk_loan bk') (l_nextLoanID (bk_loan bk))) ! 0 = v \<and>
    lh_amounts (l_loans (bk_loan bk') (l_nextLoanID (bk_loan bk))) ! 1 =
      n + lh_interest (l_loans (bk_loan bk') (l_nextLoanID (bk_loan bk))) \<and>
    balanceOf T (tc_token (mk_tcash (bk_market bk'))) s = balanceOf T (tc_token (mk_tcash (bk_market bk))) s + n"
proof -
  obtain bk2 :: "('ac, 'tk) bank" and n bk3 t where n: "0 < ALB" "10 ^ 9 \<le> n" "n = 10 ^ 9 \<or> n \<le> ALB"
    and bk2: "mk_tcash (bk_market bk2) = mk_tcash (bk_market bk)" "l_nextLoanID (bk_loan bk2) = l_nextLoanID (bk_loan bk)"
    and rec: "TCashLoan_setRecord_internal bk2 s n v = Inr bk3" and bk': "bk_loan bk' = bk_loan bk3"
      "erc_mint T (tc_token (mk_tcash (bk_market bk3))) s n = Inr t" "tc_token (mk_tcash (bk_market bk')) = t"
    using createLoan_parts [OF assms(2,3)] by blast
  have "mk_tcash (bk_market bk3) = mk_tcash (bk_market bk2)"
    using rec by (auto simp: TCashLoan_setRecord_internal_def ebind_Inr_iff Let_def simp del: power_numeral)
  then have "balanceOf T (tc_token (mk_tcash (bk_market bk'))) s = balanceOf T (tc_token (mk_tcash (bk_market bk))) s + n"
    using erc20_token.mint_balance [OF assms(1) bk'(2)] bk'(3) bk2(1) by simp
  then show ?thesis
    using n setRecord_Inr [OF rec] bk2(2) bk'(1)
    by (intro exI [of _ n]) (auto simp: le_max_iff_disj simp del: power_numeral)
qed

lemma next_multiple: "0 < b \<Longrightarrow> a < (a div b + 1) * (b :: nat)"
  using dividend_less_div_times [of b a] by simp

text \<open>C21: A recommended top-up is a hundred times what is needed: after it, and one unit for the rounding, the ratio of
  collateral to debt at the current prices, in the scale of a million that the thresholds are in, is above a hundred times the target.\<close>

theorem topUp_hundredfold:
  assumes "TCashLoan_calculateRequiredTopUp bk i r = Inr n" and "0 < n"
    and "priceOf bk ''UNIT'' = Inr u" and "priceOf bk ''TCASH'' = Inr t"
  shows "100 * r * (lh_amounts (l_loans (bk_loan bk) i) ! 1 * t) < (lh_amounts (l_loans (bk_loan bk) i) ! 0 + n + 1) * u * 1000000"
proof -
  let ?c = "lh_amounts (l_loans (bk_loan bk) i) ! 0" and ?d = "lh_amounts (l_loans (bk_loan bk) i) ! 1"
  let ?need = "?d * t * r div 10000 - ?c * u"
  have u: "u \<noteq> 0" and more: "?c * u < ?d * t * r div 10000" and n: "?need div u \<le> n"
    using assms unfolding TCashLoan_calculateRequiredTopUp_def Let_def
    by (auto simp: ebind_Inr_iff checked_div_def simp del: power_numeral split: if_splits)
  have "?d * t * r < (?d * t * r div 10000 + 1) * 10000"
    by (rule next_multiple) simp
  also have "?d * t * r div 10000 + 1 \<le> ?c * u + (?need div u + 1) * u"
  proof -
    have "?need < (?need div u + 1) * u" by (rule next_multiple) (use u in simp)
    with more show ?thesis by linarith
  qed
  also have "?c * u + (?need div u + 1) * u \<le> (?c + n + 1) * u"
    using n by (simp add: add_mult_distrib)
  finally have "?d * t * r < (?c + n + 1) * u * 10000" by simp
  moreover have "100 * r * (?d * t) = 100 * (?d * t * r)" by (simp only: ac_simps)
  moreover have "(?c + n + 1) * u * 1000000 = 100 * ((?c + n + 1) * u * 10000)" by simp
  ultimately show ?thesis by linarith
qed

text \<open>Credit.\<close>

definition slots :: "tat_record \<Rightarrow> bool" where
  "slots r \<longleftrightarrow> length (tr_months r) = 3 \<and> length (tr_amounts r) = 3 \<and> tr_currentIndex r < 3"

lemma three_slots:
  assumes "slots r"
  obtains a b c x y z i where "r = \<lparr>tr_months = [a, b, c], tr_amounts = [x, y, z], tr_currentIndex = i\<rparr>" and "i \<in> {0, 1, 2}"
proof -
  have "\<exists>a b c. xs = [a, b, c]" if "length xs = 3" for xs :: "nat list"
    using that by (auto simp: numeral_3_eq_3 length_Suc_conv)
  then obtain a b c x y z where "tr_months r = [a, b, c]" "tr_amounts r = [x, y, z]"
    using assms unfolding slots_def by meson
  moreover have "tr_currentIndex r \<in> {0, 1, 2}" using assms by (auto simp: slots_def)
  ultimately show thesis by (intro that [of a b c x y z "tr_currentIndex r"]) simp_all
qed

lemma month_not_0 [simp]: "getCurrentYearMonth t \<noteq> 0"
  by (simp add: getCurrentYearMonth_def Let_def)

text \<open>C18: Recording mints is open to everybody: three calls for any account, by anyone, set its credit limit to three times
  the recorded amount, twelve times once it has more than two loans, whatever was recorded before.\<close>

theorem credit_self_assigned:
  assumes "slots (tt_records t a)" and "a \<noteq> 0" and "0 < n" and "n * 12 < 2 ^ 256" and "tatAt (l_tat st) = Inr t"
    and "k = n * (if length (l_userLoans st a) \<le> 2 then 3 else 12)"
  shows "\<exists>t'. efold (\<lambda>t m. TAT_setTATRecord now t a m) t [n, n, n] = Inr t' \<and>
    TCashLoan_getPersonalCreditAndAvailable (tatAt(l_tat st := Inr t')) st a = Inr (k, k - bl_totalBorrowed (l_limits st a))"
proof -
  from assms(1) obtain p q r x y z i
    where rec: "tt_records t a = \<lparr>tr_months = [p, q, r], tr_amounts = [x, y, z], tr_currentIndex = i\<rparr>" and i: "i \<in> {0, 1, 2}"
    by (rule three_slots)
  have "\<exists>t' j. efold (\<lambda>t m. TAT_setTATRecord now t a m) t [n, n, n] = Inr t' \<and> tt_records t' a =
      \<lparr>tr_months = [getCurrentYearMonth now, getCurrentYearMonth now, getCurrentYearMonth now], tr_amounts = [n, n, n], tr_currentIndex = j\<rparr>"
    using assms(2,3) i by (auto simp: TAT_setTATRecord_def rec Let_def)
  then obtain t' j where t': "efold (\<lambda>t m. TAT_setTATRecord now t a m) t [n, n, n] = Inr t'" "tt_records t' a =
      \<lparr>tr_months = [getCurrentYearMonth now, getCurrentYearMonth now, getCurrentYearMonth now], tr_amounts = [n, n, n], tr_currentIndex = j\<rparr>" by blast
  have small: "checked 256 m = Inr m" if "m \<le> n * 12" for m
    using that assms(4) by (simp add: checked_def del: power_numeral)
  have "TAT_getTATRecord t' a =
      ([getCurrentYearMonth now, getCurrentYearMonth now, getCurrentYearMonth now], [n, n, n])"
    by (simp add: TAT_getTATRecord_def t'(2))
  moreover have "efold (\<lambda>total a. checked 256 (total + a)) 0 [n, n, n] = Inr (n * 3)"
    by (simp add: small)
  ultimately have "TCashLoan_getPersonalCreditAndAvailable (tatAt(l_tat st := Inr t')) st a = Inr (k, k - bl_totalBorrowed (l_limits st a))"
    by (simp add: TCashLoan_getPersonalCreditAndAvailable_def Let_def assms(6) small [of "n * 3"] small [of "n * 12"]
        del: efold.simps)
  with t'(1) show ?thesis by blast
qed

section \<open>A small bank\<close>

text \<open>
  The market of before with prices of one for both coins, a daily interest of five in ten thousand, the loan contract as
  the minter and burner, account 10 as the manager, and account 41 with two recorded mints and no loan.
\<close>

definition bank_acl :: acl where
  "bank_acl = Roles_assign reference_access acl_empty 1 [10] [] [] [] [33]"

definition bank_oracle :: oracle_state where
  "bank_oracle = demo_oracle\<lparr>o_currencyValues := (\<lambda>_. 1), o_tcashMintStatus := True,
     o_supportedSymbols := (\<lambda>s. s = ''UNIT'' \<or> s = ''TCASH'')\<rparr>"

definition book ::
    "loan_history list \<Rightarrow> nat list \<Rightarrow> borrow_limit \<Rightarrow> personal_loans \<Rightarrow> nat \<Rightarrow> nat \<Rightarrow> nat \<Rightarrow> nat \<Rightarrow> loan" where
  "book ls us lim p OLB RA TLD bal = \<lparr>l_initialized = True, l_owner = 9, l_tcash = 32, l_roles = 2, l_parameterInfo = 5,
     l_oracle = 34, l_tat = 35, l_auction = 31, l_nextLoanID = length ls,
     l_loans = (\<lambda>i. if i < length ls then ls ! i else no_loan), l_userLoans = (\<lambda>_. [])(41 := us),
     l_limits = (\<lambda>_. \<lparr>bl_maxBorrowable = 0, bl_totalBorrowed = 0, bl_lastEvaluationTime = 0\<rparr>)(41 := lim),
     l_personal = (\<lambda>_. \<lparr>pl_NCL = 0, pl_TNL = 0, pl_TLA = 0, pl_TRA = 0\<rparr>)(41 := p), l_OLB = OLB, l_RA = RA, l_TLD = TLD,
     l_systemRiskFactor = 10000, l_lastSRF = 0, l_balance = bal\<rparr>"

definition bank_loan0 :: loan where
  "bank_loan0 = book [] [] \<lparr>bl_maxBorrowable = 0, bl_totalBorrowed = 0, bl_lastEvaluationTime = 0\<rparr>
     \<lparr>pl_NCL = 0, pl_TNL = 0, pl_TLA = 0, pl_TRA = 0\<rparr> 0 0 0 0"

definition demo_at :: "loan \<Rightarrow> nat \<Rightarrow> (acl, ledger) bank" where
  "demo_at st n = \<lparr>bk_market = demo_market\<lparr>mk_loan := st, mk_oracle := bank_oracle,
       mk_roles := (mk_roles demo_market)\<lparr>r_access := bank_acl\<rparr>, mk_tcash := demo_tcash\<lparr>tc_token := (\<lambda>_. 0)(41 := n)\<rparr>\<rparr>,
     bk_paramAt = 5,
     bk_param = \<lparr>pi_initialized = True, pi_mulSig = 1, pi_API = 0, pi_sulphur = 0, pi_discount = [],
       pi_platformConfig = (\<lambda>_. 0)(''TCASHDIR'' := 5), pi_warnRatio = 0, pi_liquidationRatio = 0\<rparr>,
     bk_tatAt = 35,
     bk_tat = \<lparr>tt_initialized = True, tt_owner = 9, tt_name = '''', tt_symbol = '''', tt_governance = 3,
       tt_records = (\<lambda>_. \<lparr>tr_months = [202401, 202402, 0], tr_amounts = [60, 90, 0], tr_currentIndex = 1\<rparr>)\<rparr>\<rparr>"

definition demo_bank :: "(acl, ledger) bank" where
  "demo_bank = demo_at bank_loan0 (10 ^ 9)"

text \<open>The borrower sends one unit of the native coin.\<close>

definition taken_loan :: loan_history where
  "taken_loan = \<lparr>lh_loanID = 0, lh_account = 41, lh_amounts = [1, 1000500000], lh_prices = [1, 1], lh_time = 1000,
     lh_interest = 500000, lh_IST = 1, lh_status = 0\<rparr>"

definition bank_loan1 :: loan where
  "bank_loan1 = book [taken_loan] [0] \<lparr>bl_maxBorrowable = 150, bl_totalBorrowed = 1000500000, bl_lastEvaluationTime = 1000\<rparr>
     \<lparr>pl_NCL = 0, pl_TNL = 1, pl_TLA = 1000500000, pl_TRA = 0\<rparr> 1000500000 0 1000500000 1"

definition demo_lent :: "(acl, ledger) bank" where
  "demo_lent = demo_at bank_loan1 (2 * 10 ^ 9)"

lemma bank_acl_has [simp]:
  "hasRole reference_access bank_acl FOUNDATION_MANAGER a \<longleftrightarrow> a = 10"
  "hasRole reference_access bank_acl TCASH_MINTER a \<longleftrightarrow> a = 33" "hasRole reference_access bank_acl TCASH_BURNER a \<longleftrightarrow> a = 33"
proof -
  have e: "hasRole reference_access acl_empty r a = False" for r a by (simp add: reference_defs)
  show "hasRole reference_access bank_acl FOUNDATION_MANAGER a \<longleftrightarrow> a = 10"
    "hasRole reference_access bank_acl TCASH_MINTER a \<longleftrightarrow> a = 33" "hasRole reference_access bank_acl TCASH_BURNER a \<longleftrightarrow> a = 33"
    by (auto simp: bank_acl_def ref.assign_hasRole e role_defs)
qed

lemma demo_tcash_fields [simp]: "tc_roles demo_tcash = 2" "tc_oracle demo_tcash = 0"
  by (simp_all add: demo_tcash_def)

lemma singleton_loans [simp]:
  "(\<lambda>i. if i = 0 then l else no_loan)(0 := l') = (\<lambda>i. if i = 0 then l' else no_loan)"
  "(\<lambda>_. no_loan)(0 := l') = (\<lambda>i. if i = 0 then l' else no_loan)"
  by auto

lemma demo_at_fields [simp]:
  "mk_loan (bk_market (demo_at st n)) = st" "mk_oracle (bk_market (demo_at st n)) = bank_oracle"
  "r_access (mk_roles (bk_market (demo_at st n))) = bank_acl"
  "mk_tcash (bk_market (demo_at st n)) = demo_tcash\<lparr>tc_token := (\<lambda>_. 0)(41 := n)\<rparr>"
  "mk_auction (bk_market (demo_at st n)) = demo_auctions" "mk_loanAt (bk_market (demo_at st n)) = 33"
  "mk_oracleAt (bk_market (demo_at st n)) = 34" "mk_rolesAt (bk_market (demo_at st n)) = 2" "mk_tcashAt (bk_market (demo_at st n)) = 32"
  "mk_auctionAt (bk_market (demo_at st n)) = 31" "mk_time (bk_market (demo_at st n)) = 1000"
  "bk_paramAt (demo_at st n) = 5" "bk_tatAt (demo_at st n) = 35" "pi_platformConfig (bk_param (demo_at st n)) = (\<lambda>_. 0)(''TCASHDIR'' := 5)"
  "tt_records (bk_tat (demo_at st n)) a = \<lparr>tr_months = [202401, 202402, 0], tr_amounts = [60, 90, 0], tr_currentIndex = 1\<rparr>"
  by (simp_all add: demo_at_def demo_market_def)

lemma demo_at_updates [simp]:
  "with_loan (demo_at st n) st' = demo_at st' n"
  "(demo_at st n)\<lparr>bk_market := (bk_market (demo_at st n))\<lparr>mk_tcash := demo_tcash\<lparr>tc_token := (\<lambda>_. 0)(41 := m)\<rparr>\<rparr>\<rparr> = demo_at st m"
  "(demo_at st n)\<lparr>bk_market := (bk_market (demo_at st n))\<lparr>mk_tcash := demo_tcash\<lparr>tc_token := (\<lambda>_. 0)(41 := m)\<rparr>, mk_loan := st'\<rparr>\<rparr> =
     demo_at st' m"
  by (simp_all add: demo_at_def with_loan_def)

lemma bank_prices [simp]:
  "Oracle_getPrice bank_oracle ''UNIT'' = Inr 1" "Oracle_getPrice bank_oracle ''TCASH'' = Inr 1" "o_tcashMintStatus bank_oracle"
  by (simp_all add: Oracle_getPrice_def bank_oracle_def)

text \<open>What the functions that read the platform give, whatever the state of the loans.\<close>

definition on_demo :: "loan \<Rightarrow> bool" where
  "on_demo st \<longleftrightarrow> l_oracle st = 34 \<and> l_tat st = 35 \<and> l_parameterInfo st = 5 \<and> l_tcash st = 32 \<and> l_roles st = 2 \<and>
     l_auction st = 31 \<and> l_systemRiskFactor st = 10000"

lemma demo_reads:
  assumes "on_demo st"
  shows "oracleOf (demo_at st n) = Inr bank_oracle" "priceOf (demo_at st n) ''UNIT'' = Inr 1"
    "priceOf (demo_at st n) ''TCASH'' = Inr 1" "configOf (demo_at st n) ''TCASHDIR'' = Inr 5"
    "length (l_userLoans st a) \<le> 2 \<Longrightarrow> creditOf (demo_at st n) a = Inr (150, 150 - bl_totalBorrowed (l_limits st a))"
    "pl_TNL (l_personal st a) \<le> 2 \<Longrightarrow> pl_NCL (l_personal st a) \<le> pl_TNL (l_personal st a) \<Longrightarrow>
       crfOf (demo_at st n) a = Inr 10000"
    "managerOnly reference_access (demo_at st n) 10 = Inr ()"
  using assms
  by (simp_all add: on_demo_def oracleOf_def priceOf_def configOf_def creditOf_def crfOf_def tatOf_def at_addr_def managerOnly_def
      TCashLoan_getPersonalCreditAndAvailable_def TCashLoan_getCRF_def TCashLoan_getPRF_def TAT_getTATRecord_def checked_def
      checked_sub_def Let_def) linarith

lemma on_book [simp]: "on_demo (book ls us lim p OLB RA TLD bal)"
  by (simp add: on_demo_def book_def)

lemma book_fields [simp]:
  "l_nextLoanID (book ls us lim p OLB RA TLD bal) = length ls" "l_loans (book ls us lim p OLB RA TLD bal) i = (if i < length ls then ls ! i else no_loan)"
  "l_userLoans (book ls us lim p OLB RA TLD bal) 41 = us" "l_limits (book ls us lim p OLB RA TLD bal) 41 = lim"
  "l_personal (book ls us lim p OLB RA TLD bal) 41 = p" "l_OLB (book ls us lim p OLB RA TLD bal) = OLB"
  "l_RA (book ls us lim p OLB RA TLD bal) = RA" "l_TLD (book ls us lim p OLB RA TLD bal) = TLD"
  "l_balance (book ls us lim p OLB RA TLD bal) = bal" "l_auction (book ls us lim p OLB RA TLD bal) = 31"
  "l_tcash (book ls us lim p OLB RA TLD bal) = 32"
  by (simp_all add: book_def)

text \<open>The updates of the operations stay in this form.\<close>

lemma book_updates:
  "(book ls us lim p OLB RA TLD bal)\<lparr>l_balance := n\<rparr> = book ls us lim p OLB RA TLD n"
  "(book ls us lim p OLB RA TLD bal)\<lparr>l_limits := (l_limits (book ls us lim p OLB RA TLD bal))(41 := lim')\<rparr> = book ls us lim' p OLB RA TLD bal"
  "(set_loan (book [] [] lim p OLB RA TLD bal) 0 l)\<lparr>l_nextLoanID := 1, l_userLoans := (l_userLoans (book [] [] lim p OLB RA TLD bal))(41 := [0]),
     l_limits := (l_limits (book [] [] lim p OLB RA TLD bal))(41 := lim'),
     l_personal := (l_personal (book [] [] lim p OLB RA TLD bal))(41 := p'), l_OLB := OLB', l_TLD := TLD'\<rparr> =
     book [l] [0] lim' p' OLB' RA TLD' bal"
  "(set_loan (book [l] us lim p OLB RA TLD bal) 0 l')\<lparr>
     l_limits := (l_limits (book [l] us lim p OLB RA TLD bal))(41 := lim'),
     l_personal := (l_personal (book [l] us lim p OLB RA TLD bal))(41 := p'), l_OLB := OLB', l_RA := RA', l_balance := bal'\<rparr> =
     book [l'] us lim' p' OLB' RA' TLD bal'"
  "set_loan (book [l] us lim p OLB RA TLD bal) 0 l' = book [l'] us lim p OLB RA TLD bal"
  by (simp_all add: book_def set_loan_def cong: if_cong)

lemma demo_borrows: "TCashLoan_createLoan reference_token reference_access demo_bank 41 1 = Inr demo_lent"
proof -
  let ?lim = "\<lparr>bl_maxBorrowable = 0, bl_totalBorrowed = 0, bl_lastEvaluationTime = 0\<rparr>"
  let ?lim' = "\<lparr>bl_maxBorrowable = 150, bl_totalBorrowed = 0, bl_lastEvaluationTime = 1000\<rparr>"
  let ?p = "\<lparr>pl_NCL = 0, pl_TNL = 0, pl_TLA = 0, pl_TRA = 0\<rparr>"
  have eval: "TCashLoan_evaluateMaxBorrowable (demo_at (book [] [] ?lim ?p 0 0 0 1) n) 41 =
      Inr (demo_at (book [] [] ?lim' ?p 0 0 0 1) n, 150)" for n
    by (simp add: TCashLoan_evaluateMaxBorrowable_def demo_reads book_updates(2) Let_def del: One_nat_def)
  have amount: "TCashLoan_calculateLoanAmount (demo_at (book [] [] ?lim' ?p 0 0 0 1) n) 41 1 = Inr 1000000000" for n
    by (simp add: TCashLoan_calculateLoanAmount_def demo_reads checked_def del: One_nat_def)
  have rec: "TCashLoan_setRecord_internal (demo_at (book [] [] ?lim' ?p 0 0 0 1) n) 41 1000000000 1 = Inr (demo_at bank_loan1 n)" for n
    by (simp add: TCashLoan_setRecord_internal_def demo_reads checked_def Let_def book_updates(3) bank_loan1_def taken_loan_def
        del: One_nat_def)
  show ?thesis
    by (simp add: TCashLoan_createLoan_def Let_def demo_bank_def bank_loan0_def book_updates(1) demo_reads eval amount rec
        at_addr_def del: One_nat_def)
      (simp add: demo_lent_def bank_loan1_def TCash_mint_def roleGuard_def mintGuard_def reference_token_def at_addr_def)
qed

text \<open>Two payments return the unit, the first nothing of it.\<close>

definition half_paid :: loan where
  "half_paid = book [taken_loan\<lparr>lh_amounts := [1, 600500000], lh_interest := 0\<rparr>] [0]
     \<lparr>bl_maxBorrowable = 150, bl_totalBorrowed = 600500000, bl_lastEvaluationTime = 1000\<rparr>
     \<lparr>pl_NCL = 0, pl_TNL = 1, pl_TLA = 1000500000, pl_TRA = 400000000\<rparr> 600500000 400000000 1000500000 1"

definition all_paid :: loan where
  "all_paid = book [taken_loan\<lparr>lh_amounts := [0, 0], lh_interest := 0, lh_status := 1\<rparr>] [0]
     \<lparr>bl_maxBorrowable = 150, bl_totalBorrowed = 0, bl_lastEvaluationTime = 1000\<rparr>
     \<lparr>pl_NCL = 1, pl_TNL = 1, pl_TLA = 1000500000, pl_TRA = 1000500000\<rparr> 0 1000500000 1000500000 0"

lemma demo_repays:
  "TCashLoan_repay reference_token reference_access (\<lambda>_. True) demo_lent 41 0 400000000 = Inr (demo_at half_paid 1600000000)"
  "TCashLoan_repay reference_token reference_access (\<lambda>_. True) (demo_at half_paid 1600000000) 41 0 600500000 =
     Inr (demo_at all_paid 999500000)"
  by (simp_all add: demo_lent_def bank_loan1_def half_paid_def all_paid_def taken_loan_def TCashLoan_repay_def setPrices_def
      demo_reads item_def put_def checked_def checked_sub_def checked_div_def TCashLoan_calculateUnitToRelease_def at_addr_def
      TCash_burnFrom_def roleGuard_def reference_token_def book_updates(4) Let_def del: One_nat_def) simp_all

lemma demo_lent_reachable: "bank_reachable False reference_token reference_access (\<lambda>_. True) demo_lent"
proof -
  have "founded demo_bank"
    by (simp add: founded_def demo_bank_def bank_loan0_def demo_auctions_def fun_eq_iff)
  moreover have known: "knows_market demo_bank" "mk_auctionAt (bk_market demo_bank) = 31"
    by (simp_all add: knows_market_def demo_bank_def bank_loan0_def book_def)
  have "bank_step False reference_token reference_access (\<lambda>_. True) demo_bank demo_lent"
    by (rule bank_step.bank_call [where s = 41 and c = "CreateLoan 1"]) (simp_all add: demo_borrows known del: One_nat_def)
  ultimately show ?thesis unfolding bank_reachable_def by blast
qed

lemma loan_books_witness:
  "(\<Sum>i<l_nextLoanID (bk_loan demo_lent). lh_amounts (l_loans (bk_loan demo_lent) i) ! 0) = 1 \<and>
   (\<Sum>i<l_nextLoanID (bk_loan demo_lent). lh_amounts (l_loans (bk_loan demo_lent) i) ! 1) = 1000500000"
  using loan_books [OF demo_lent_reachable]
  by (simp add: demo_lent_def bank_loan1_def collected_def demo_auctions_def)

lemma demo_loan_ok: "loan_ok (l_loans (bk_loan demo_lent) 0)"
  by (simp add: demo_lent_def bank_loan1_def loan_ok_def taken_loan_def)

lemma repay_in_parts_witness:
  "lh_amounts (l_loans (bk_loan (demo_at all_paid 999500000)) 0) = [0, 0] \<and> l_balance (bk_loan (demo_at all_paid 999500000)) = 0"
proof -
  have run: "efold (\<lambda>bk v. TCashLoan_repay reference_token reference_access (\<lambda>_. True) bk 41 0 v) demo_lent [400000000, 600500000] =
      Inr (demo_at all_paid 999500000)"
    by (simp add: demo_repays)
  have "sum_list [400000000, 600500000] = lh_amounts (l_loans (bk_loan demo_lent) 0) ! 1"
    by (simp add: demo_lent_def bank_loan1_def taken_loan_def)
  from repay_in_parts [OF run demo_loan_ok _ this] show ?thesis
    by (simp add: demo_lent_def bank_loan1_def taken_loan_def)
qed

lemma liquidation_repeats_witness:
  "\<exists>bk1 bk2. TCashLoan_startLiquidation reference_access demo_lent 10 0 = Inr bk1 \<and>
     TCashLoan_startLiquidation reference_access bk1 10 0 = Inr bk2 \<and>
     map au_sales (ta_auctionList (mk_auction (bk_market bk2))) = [1, 1]"
proof -
  have "ta_auctionList (mk_auction (bk_market demo_lent)) = []" "lh_amounts (l_loans (bk_loan demo_lent) 0) ! 0 = 1"
    by (simp_all add: demo_lent_def bank_loan1_def taken_loan_def demo_auctions_def)
  moreover have "\<exists>bk1 bk2 a. TCashLoan_startLiquidation reference_access demo_lent 10 0 = Inr bk1 \<and>
      TCashLoan_startLiquidation reference_access bk1 10 0 = Inr bk2 \<and>
      ta_auctionList (mk_auction (bk_market bk2)) = ta_auctionList (mk_auction (bk_market demo_lent)) @ [a, a] \<and>
      au_sales a = lh_amounts (l_loans (bk_loan demo_lent) 0) ! 0 \<and> au_startValue a = lh_amounts (l_loans (bk_loan demo_lent) 0) ! 1 \<and>
      au_debt a = lh_interest (l_loans (bk_loan demo_lent) 0) \<and>
      l_loans (bk_loan bk2) 0 = (l_loans (bk_loan demo_lent) 0)\<lparr>lh_prices := [1, 1]\<rparr>"
    by (rule liquidation_repeats [where c = 10000])
      (simp_all add: demo_lent_def bank_loan1_def taken_loan_def demo_auctions_def demo_reads)
  ultimately show ?thesis by fastforce
qed

lemma topUp_hundredfold_witness:
  "100 * 825000 * (1000500000 :: nat) < (1 + 83366662498 + 1) * 1000000 \<and>
   TCashLoan_calculateRequiredTopUp demo_lent 0 825000 = Inr (83366662498 :: nat)"
proof -
  have run: "TCashLoan_calculateRequiredTopUp demo_lent 0 825000 = Inr 83366662498"
    by (simp add: TCashLoan_calculateRequiredTopUp_def demo_lent_def bank_loan1_def taken_loan_def demo_reads item_def checked_def
        checked_div_def Let_def del: One_nat_def)
  have "priceOf demo_lent ''UNIT'' = Inr 1" "priceOf demo_lent ''TCASH'' = Inr 1"
    by (simp_all add: demo_lent_def bank_loan1_def demo_reads)
  from topUp_hundredfold [OF run _ this] run show ?thesis
    by (simp add: demo_lent_def bank_loan1_def taken_loan_def)
qed

lemma new_loan_bounds_witness:
  "balanceOf reference_token (tc_token (mk_tcash (bk_market demo_lent))) 41 =
     balanceOf reference_token (tc_token (mk_tcash (bk_market demo_bank))) 41 + 10 ^ 9"
proof -
  have "creditOf demo_bank 41 = Inr (150, 150)"
    by (simp add: demo_bank_def bank_loan0_def demo_reads)
  from new_loan_bounds [OF ledger.erc20_token_axioms demo_borrows this] show ?thesis by auto
qed

lemma credit_self_assigned_witness:
  "\<exists>t'. efold (\<lambda>t m. TAT_setTATRecord 1000 t 41 m) (bk_tat demo_bank) [10 ^ 30, 10 ^ 30, 10 ^ 30] = Inr t' \<and>
     TCashLoan_getPersonalCreditAndAvailable ((tatOf demo_bank)(35 := Inr t')) bank_loan0 41 = Inr (3 * 10 ^ 30, 3 * 10 ^ 30)"
proof -
  have "slots (tt_records (bk_tat demo_bank) 41)" by (simp add: slots_def demo_bank_def)
  moreover have "tatOf demo_bank (l_tat bank_loan0) = Inr (bk_tat demo_bank)"
    by (simp add: tatOf_def at_addr_def demo_bank_def bank_loan0_def book_def)
  ultimately show ?thesis
    using credit_self_assigned [of "bk_tat demo_bank" 41 "10 ^ 30" "tatOf demo_bank" bank_loan0 "3 * 10 ^ 30" 1000]
    by (simp add: bank_loan0_def book_def)
qed

end
