(* ===== verification/Spec2Isabelle.thy ===== *)
theory Spec2Isabelle
  imports KmsScripts ProposalScripts DAppScripts CrosschainScripts ProducerScripts UpgradeScripts Diagnostics WorkflowOptions Wells
    DeployedSafety Abis BankProps
begin

text \<open>
  The governance tooling of the Treasurenet contracts. A multisig contract
  (\<open>contracts/Governance/MulSig.sol\<close>) keeps proposals that foundation managers sign and execute; it
  drives \<open>Roles\<close>, \<open>Governance\<close>, \<open>ParameterInfo\<close>, \<open>CrosschainTokens\<close> and the producer contracts. The
  JavaScript programs under \<open>scripts/\<close> deploy and upgrade these contracts, sign with a key held by
  AWS KMS, make, sign and execute proposals, and diagnose a deployment. This development models the
  scripts, and as much of the contracts behind the node as they talk to.

  \<^bold>\<open>Foundations.\<close> \<open>Prelude\<close> has errors as sums and big-endian numbers. \<open>JsRuntime\<close> models an async
  function as an action on a world that returns, throws a message or exits with a code, with
  \<open>try/catch\<close>, loops over arrays, \<open>Buffer\<close> and hexadecimal strings; \<open>wlp\<close> and \<open>run\<close> are its
  program logic and the locale \<open>frame_rel\<close> its frame rule: any reflexive and transitive relation is
  kept by sequencing, handlers and loops. \<open>JsNumber\<close> computes the gas buffers (\<open>Math.floor(x * 1.2)\<close>)
  in IEEE doubles. \<open>Solidity\<close> has addresses as 160-bit words, digests and checked arithmetic.

  \<^bold>\<open>Contracts.\<close> \<open>AccessControl\<close> is the interface of the OpenZeppelin role tables, a locale with a
  reference instance; \<open>Roles\<close>, \<open>Governance\<close>, \<open>Producer\<close>, \<open>CrosschainTokens\<close> and \<open>ParameterInfo\<close>
  model their contracts, one record for the storage and one definition per function, and \<open>MulSig\<close>
  the multisig with the chain it runs on: every entry point takes the caller and gives the chain
  after the call and the events, or the revert reason. \<open>MulSigProps\<close> shows that the deletion loop
  is list removal and what every entry point does to the queue and the signatures; \<open>MulSigSafety\<close>
  has the reachable states (\<open>ms_reachable\<close>, the chain under any sequence of multisig calls; \<open>ms_later\<close>,
  what may follow a state), the storage invariant, the refinement of the queue specification, the
  effect of every kind of proposal (\<open>achieved\<close>), the time lock, and the corners in
  which the contract does not do what its documentation says.

  \<^bold>\<open>Producers.\<close> \<open>Share\<close> models who holds which percentage of a well, and \<open>ShareSafety\<close> shows
  that the counters are sums over the holders and the earnings are divided exactly, as long as nobody
  splits to himself and only the last holder of the array is deleted, and what goes wrong otherwise.
  \<open>Oracle\<close> has the requests, the prices and the mint switch with its specification (\<open>mint_step\<close>, total),
  \<open>DataRequests\<close> the oracle client and the requests of a data contract, and \<open>Wells\<close> puts them
  together: the wells of a producer, switched on and off by a manager.

  \<^bold>\<open>Auctions.\<close> \<open>TCash\<close> is the token, over the ERC20 library as the locale \<open>erc20_token\<close> (interpreted on a table of
  balances), with the amounts that bids lock; \<open>TCashAuction\<close> has the auctions of liquidated loans and the part of the
  loan contract they call. \<open>MarketSafety\<close> composes them (\<open>market_step\<close>, any sequence of calls of both contracts by
  anyone, where a parameter holds the auction contracts that the owner of the token may name in
  \<open>setAuctionContract\<close>): the highest bidder is always the right one; as long as no other auction contract is named, the
  locked amounts are the sums of the standing bids and whoever is outbid gets his bid back; and what goes wrong for
  winners, for those who bid in several auctions and when another contract is named. \<open>PlatformContracts\<close> has the initialisers of the remaining contracts and the mint records.

  \<^bold>\<open>Loans.\<close> \<open>TCashLoan\<close> has the storage of the loan contract, credit limits and risk factors; \<open>Bank\<close> adds parameters and
  TAT to the market (the record \<open>bank\<close>) and has the operations on loans, whole calls with the auctions they start.
  \<open>BankSafety\<close> composes loans and auctions (\<open>bank_step\<close>, any sequence of calls by anyone while the loan contract knows
  no auction contract but that of the market, with manual records by managers as a flag) and shows that every step keeps \<open>bank_ok\<close>; \<open>BankProps\<close> says what that means: the sums behind the totals and
  the money, paying back in parts, repeated liquidation, recommended top-ups, the smallest loan, and self-assigned credit.
  Coins that reach the loan contract without a call (it has no function to receive them), and what an auction contract
  other than that of the market does to the loans, are outside.

  \<^bold>\<open>Node and libraries.\<close> \<open>World\<close> is the world of a script: the chain, the clock, the transactions
  submitted and the lines printed. Every request takes the next entry of a fault oracle
  (\<open>e_fault\<close>): it goes through, gets lost before its effect, or has its effect and loses the answer,
  so a theorem about all environments holds under every pattern of lost requests. Web3, ethers, KMS,
  the ABI files and the proxy admin are not in the repository; they are fields of the environment, and
  what a theorem needs of them is one of its hypotheses. \<open>Demo\<close> is a concrete environment over the
  reference instance, on which the witnesses run the scripts.

  \<^bold>\<open>Scripts.\<close> Definitions have the names of the functions they model.
  \<open>KmsSignature\<close>: the two DER parsers and the low-s normalisation, with the round trip and the range
  of what they accept. \<open>AwsRunner\<close>: \<open>aws-multisig-runner.js\<close>. \<open>KmsScripts\<close>: \<open>kms-contract-caller.js\<close>,
  \<open>kms-multisig-signer.js\<close>, \<open>simple-multisig-call.js\<close>. \<open>ProposalScripts\<close>: \<open>execute-proposal.js\<close>,
  \<open>check-proposal.js\<close>, \<open>check-permissions.js\<close>. \<open>DAppScripts\<close>: \<open>register-dapp-node.js\<close>,
  \<open>register-dapp-multisig.js\<close>, \<open>direct-register-dapp.js\<close>. \<open>CrosschainScripts\<close>:
  \<open>setup-crosschain-tokens.js\<close> and \<open>execute-setup-crosschain-tokens.js\<close>. \<open>ProducerScripts\<close>:
  \<open>manual-upgrade-producers.js\<close>, \<open>upgrade-via-proxyadmin.js\<close>, \<open>fix-mulsig-addresses.js\<close>.
  \<open>Diagnostics\<close>: \<open>check-proxy-admin.js\<close>, \<open>find-proxyadmin.js\<close>, \<open>verify-mulsig-address.js\<close>,
  \<open>debug-proposal-data.js\<close>, \<open>diagnose-upgrade-issue.js\<close>. For each, the theorems say what has
  happened on the chain when the script ends normally, what it submits at most, what it cannot do,
  and in which situations it succeeds.

  \<^bold>\<open>Deployment.\<close> \<open>Registry\<close> is \<open>scripts/deploy/utils.js\<close>, the JSON file of deployed contracts, with its
  contract as the locale \<open>registry\<close> interpreted as \<open>deployments\<close>. \<open>DeployScripts\<close> models the eight
  scripts of \<open>scripts/deploy/\<close> over the hardhat plugin (a parameter, \<open>hardhat\<close>); \<open>DeploySafety\<close> shows
  that they never touch older entries, record only what they deployed, keep the file well formed, and
  in their order leave every contract the next step requires. \<open>DeployedNet\<close> instantiates \<open>hardhat\<close> with a node whose
  contracts are the models above (the locale \<open>deploy_site\<close> has what it takes from the libraries and the notation of
  addresses, \<open>demo_site\<close> is an instance). \<open>DeployedSystem\<close> runs scripts on it symbolically, one rule per action;
  \<open>DeployedRuns\<close> is what each of the four main scripts leaves; \<open>DeployedPlatform\<close> reads the result back through the
  registry as the chain of the multisig theories and the market of the auction theories, and \<open>DeployedSafety\<close> shows
  how it is wired, and when the last step fails or is too late. \<open>UpgradeScripts\<close> is \<open>scripts/upgrade/\<close>, \<open>upgrade-tcashloan.js\<close> and
  the accounts and networks of \<open>hardhat.config.js\<close>, with the exact list of upgrades a run performs.
  \<open>Abis\<close> has the interfaces the scripts write down by hand, which agree with the headers of the multisig and decode its
  answers to the fields the models read. \<open>WorkflowOptions\<close> is \<open>update-workflow-options.js\<close>, with its regular expression as three searches.

  \<^bold>\<open>Bounds and idealisations.\<close> Amounts are natural numbers where the contracts check for overflow, with
  the check written out; ids and counters that cannot reach their width in a run are natural
  numbers. Hash collisions are idealised away (\<open>Solidity\<close>). No definition needs fuel: the loops run
  over lists or a bounded index, and the two \<open>while\<close> loops of the DER parsers terminate
  (\<open>skipZeros\<close> and \<open>dropZerosKeepOne\<close>).
  A script is the only one that changes the chain while it runs, except where a theorem takes the
  worlds of two runs apart (the deployment steps). New contracts have new addresses as long as an account creates less
  than \<open>2 ^ 64\<close> of them. Of the printed lines, those that carry a
  value or mark a branch are kept; decoration is not.

  \<^bold>\<open>Not modelled.\<close> \<open>.eslintrc.js\<close> and \<open>.solcover.js\<close> configure tools. Of
  the DAO, TAT and its manager, the wrapped tokens, the bridge and the data contracts only what deployment, loans,
  auctions and oracle requests use is modelled; the other Solidity contracts (USTN, expenses, bids, airdrop, token
  locker, gravity) are only deployed, as opaque operations, or not used at all. Renouncing a role and passing on the
  ownership are inherited library code that nothing here calls. Creating the directory of the registry, loading
  modules and formatting of output are pure input and output.
\<close>

section \<open>Properties of several scripts\<close>

text \<open>As shipped, the multisig runner, the three mainnet producer scripts and the cross-chain setup end with
  code 1 before their first request: their keys are empty strings, and nothing replaces them.\<close>

theorem shipped_scripts_stop:
  assumes "e_keyAccount E '''' = Inl m"
  shows "list_all (\<lambda>(r, w'). r = Exit 1 \<and> w_tick w' = w_tick w \<and> w_txs w' = w_txs w \<and> w_chain w' = w_chain w)
      [aws_main E aws_shipped w, fixMulSigAddresses E fix_shipped w, upgradeViaProxyAdmin E upgrade_shipped w,
       manualUpgrade E manual_shipped w] \<and>
    (case setup_main E E' (w, v) of (r, w', v') \<Rightarrow>
       r = Exit 1 \<and> w_tick w' = w_tick w \<and> w_txs w' = w_txs w \<and> w_chain w' = w_chain w \<and> v' = v)"
  using producer_scripts_shipped_stop [of E w] shipped_setup_stops [OF assms, of E' w v]
  by (auto simp: shipped_configuration_stops)

lemma shipped_scripts_stop_witness:
  "fst (setup_main demo_env demo_env (demo_world solo_chain, demo_world demo_chain)) = Exit 1"
  using shipped_scripts_stop [of demo_env "''Private key must be 32 bytes long''", where w = "demo_world solo_chain"
      and E' = demo_env and v = "demo_world demo_chain"] by (auto split: prod.splits)

end
